(* ===== verification/Prelude.thy ===== *)
theory Prelude
  imports Main "HOL-Library.AList" "HOL-Library.Char_ord" "HOL-Library.List_Lexorder"
    "HOL-Library.Multiset"
begin

text \<open>
  The shared vocabulary of the development: Go maps as association lists, 32-bit arithmetic
  with the wrap-around written out, sorting by a key, the first-occurrence deduplication the
  code uses, and the collections of rewrite rules the component theories extend.

  A Go map is an association list with distinct keys (\<open>gm_ok\<close>).  The order of the list is one
  iteration order of the map; the properties that matter are stated for every list, so they
  hold for every order, and where a result must not depend on the order this is a lemma.
\<close>

named_theorems gomap \<open>lookup, update and deletion in Go maps\<close>
named_theorems go_defs \<open>definitions unfolded to run an operation of the model\<close>
named_theorems slot_frame \<open>what an operation leaves unchanged\<close>

subsection \<open>Go maps\<close>

type_synonym ('k, 'v) gomap = "('k \<times> 'v) list"

abbreviation gm_set :: "'k \<Rightarrow> 'v \<Rightarrow> ('k, 'v) gomap \<Rightarrow> ('k, 'v) gomap" where
  "gm_set \<equiv> AList.update"

abbreviation gm_del :: "'k \<Rightarrow> ('k, 'v) gomap \<Rightarrow> ('k, 'v) gomap" where
  "gm_del \<equiv> AList.delete"

abbreviation gm_ok :: "('k, 'v) gomap \<Rightarrow> bool" where
  "gm_ok m \<equiv> distinct (map fst m)"

definition gm_get0 :: "'v \<Rightarrow> ('k, 'v) gomap \<Rightarrow> 'k \<Rightarrow> 'v" where
  "gm_get0 z m k = (case map_of m k of None \<Rightarrow> z | Some v \<Rightarrow> v)"

lemma gm_get_set [gomap, simp]: "map_of (gm_set k v m) = (map_of m)(k \<mapsto> v)"
  by (simp add: update_conv')

lemma gm_get_del [gomap, simp]: "map_of (gm_del k m) = (map_of m)(k := None)"
  by (simp add: delete_conv')

lemma gm_ok_set [gomap, simp, intro]: "gm_ok m \<Longrightarrow> gm_ok (gm_set k v m)"
  by (rule distinct_update)

lemma gm_ok_del [gomap, simp, intro]: "gm_ok m \<Longrightarrow> gm_ok (gm_del k m)"
  by (rule distinct_delete)

lemma gm_keys_set [gomap]: "fst ` set (gm_set k v m) = insert k (fst ` set m)"
proof -
  have "dom (map_of (gm_set k v m)) = insert k (dom (map_of m))"
    by simp
  then show ?thesis
    by (simp only: dom_map_of_conv_image_fst)
qed

lemma gm_in_set: "gm_ok m \<Longrightarrow> (k, v) \<in> set m \<longleftrightarrow> map_of m k = Some v"
  by (metis map_of_SomeD map_of_is_SomeI)

lemma gm_key_get: "k \<in> fst ` set m \<longleftrightarrow> (\<exists>v. map_of m k = Some v)"
  by (metis domD domI dom_map_of_conv_image_fst)

lemma gm_perm_get:
  assumes "gm_ok m" "mset m = mset m'"
  shows "gm_ok m'" "map_of m = map_of m'"
proof -
  have "mset (map fst m) = mset (map fst m')"
    using assms(2) by simp
  then show ok: "gm_ok m'"
    using assms(1) mset_eq_imp_distinct_iff by blast
  show "map_of m = map_of m'"
    using map_of_inject_set [OF assms(1) ok] mset_eq_setD [OF assms(2)] by simp
qed

subsection \<open>32-bit signed integers\<close>

text \<open>Go's \<open>int32\<close> is an \<open>int\<close> in this range; arithmetic that may leave it is wrapped.\<close>

definition int32_ok :: "int \<Rightarrow> bool" where
  "int32_ok x \<longleftrightarrow> - (2 ^ 31) \<le> x \<and> x < 2 ^ 31"

definition wrap32 :: "int \<Rightarrow> int" where
  "wrap32 x = (x + 2 ^ 31) mod 2 ^ 32 - 2 ^ 31"

lemma wrap32_ok [simp]: "int32_ok (wrap32 x)"
  by (simp add: int32_ok_def wrap32_def)

lemma wrap32_id [simp]: "int32_ok x \<Longrightarrow> wrap32 x = x"
  by (simp add: int32_ok_def wrap32_def)

lemma wrap32_nat: "n < 2 ^ 31 \<Longrightarrow> wrap32 (int n) = int n"
  by (rule wrap32_id) (auto simp: int32_ok_def)

text \<open>\<open>int64\<close>, and Go's division, which truncates.\<close>

definition wrap64 :: "int \<Rightarrow> int" where
  "wrap64 x = (x + 2 ^ 63) mod 2 ^ 64 - 2 ^ 63"

definition quot :: "int \<Rightarrow> int \<Rightarrow> int" where
  "quot a b = sgn a * sgn b * (\<bar>a\<bar> div \<bar>b\<bar>)"

lemma wrap64_id: "- (2 ^ 63) \<le> x \<Longrightarrow> x < 2 ^ 63 \<Longrightarrow> wrap64 x = x"
  by (simp add: wrap64_def)

lemma quot_nonneg: "0 \<le> a \<Longrightarrow> 0 < b \<Longrightarrow> quot a b = a div b"
  by (cases "a = 0") (auto simp: quot_def sgn_if)

subsection \<open>Sorting\<close>

text \<open>
  \<open>sort.Slice\<close> is not stable.  Where the keys are distinct every sorted permutation is the same
  list, so the stable \<open>sort_key\<close> is what any sorting routine returns.
\<close>

lemma sorted_perm_unique:
  assumes "mset xs = mset ys" "distinct (map f xs)"
    and "sorted (map f xs)" "sorted (map f ys)"
  shows "xs = ys"
proof (rule map_sorted_distinct_set_unique)
  have "mset (map f xs) = mset (map f ys)"
    using assms(1) by simp
  then show "distinct (map f ys)"
    using assms(2) mset_eq_imp_distinct_iff by blast
  show "set xs = set ys"
    using assms(1) by (rule mset_eq_setD)
  then show "inj_on f (set xs \<union> set ys)"
    using assms(2) by (simp add: distinct_map)
qed (use assms in auto)

lemma sort_key_perm:
  assumes "mset xs = mset ys" "distinct (map f xs)"
  shows "sort_key f xs = sort_key f ys"
proof (rule sorted_perm_unique [where f = f])
  have "mset (map f (sort_key f xs)) = mset (map f xs)"
    by simp
  then show "distinct (map f (sort_key f xs))"
    using assms(2) mset_eq_imp_distinct_iff by blast
qed (use assms in auto)

lemma sort_key_sorted_id: "sorted (map f xs) \<Longrightarrow> sort_key f xs = xs"
  by (simp add: sort_key_id_if_sorted)

lemma distinct_sort_key [simp]: "distinct (map f (sort_key g xs)) = distinct (map f xs)"
proof -
  have "mset (map f (sort_key g xs)) = mset (map f xs)"
    by simp
  then show ?thesis
    by (rule mset_eq_imp_distinct_iff)
qed

lemma length_filter_sort_key [simp]: "length (filter P (sort_key f xs)) = length (filter P xs)"
  by (metis mset_filter mset_sort size_mset)

subsection \<open>Deduplication in order of first occurrence\<close>

fun dedup :: "'a list \<Rightarrow> 'a list \<Rightarrow> 'a list" where
  "dedup seen [] = []"
| "dedup seen (x # xs) = (if x \<in> set seen then dedup seen xs else x # dedup (x # seen) xs)"

lemma set_dedup [simp]: "set (dedup seen xs) = set xs - set seen"
  by (induction seen xs rule: dedup.induct) auto

lemma distinct_dedup [simp]: "distinct (dedup seen xs)"
  by (induction seen xs rule: dedup.induct) auto

lemma dedup_id: "distinct xs \<Longrightarrow> set seen \<inter> set xs = {} \<Longrightarrow> dedup seen xs = xs"
  by (induction seen xs rule: dedup.induct) auto

subsection \<open>Transition systems\<close>

text \<open>
  The components with state are transition systems: a start state, a step relation and an
  invariant every step keeps.  What the invariant gives in every reachable state is proved once
  here; each component interprets the locale on its own steps.
\<close>

inductive reach :: "('s \<Rightarrow> 's \<Rightarrow> bool) \<Rightarrow> 's \<Rightarrow> 's \<Rightarrow> bool" for step where
  reach_refl: "reach step s s"
| reach_step: "reach step s t \<Longrightarrow> step t u \<Longrightarrow> reach step s u"

locale transition_system =
  fixes start :: "'s \<Rightarrow> bool"
    and step :: "'s \<Rightarrow> 's \<Rightarrow> bool"
    and inv :: "'s \<Rightarrow> bool"
  assumes inv_start: "start s \<Longrightarrow> inv s"
    and inv_step: "inv s \<Longrightarrow> step s t \<Longrightarrow> inv t"
begin

lemma inv_reach: "reach step s t \<Longrightarrow> inv s \<Longrightarrow> inv t"
  by (induction rule: reach.induct) (auto intro: inv_step)

lemma reachable_inv: "start s \<Longrightarrow> reach step s t \<Longrightarrow> inv t"
  using inv_reach inv_start by blast

end

end
