(* ===== verification/GoErrors.thy ===== *)
theory GoErrors
  imports Prelude
begin

text \<open>
  Go errors as values.  A sentinel is one of the program's \<open>errors.New\<close> variables; a formatted
  error keeps its format string and its arguments, so that \<open>errors.Is\<close> can look through the
  arguments wrapped with \<open>%w\<close>.  Text the program only displays (reasons, condition messages) is
  kept as the formatting call that produces it and is never rendered.
\<close>

datatype sentinel =
    ErrNoCapacity | ErrAssignmentConflict | ErrInvalidSlotProfile | ErrNoStrategyCandidate
  | ErrInvalidRequest | ErrSlotNotFound | ErrSandboxNotFound | ErrSlotConflict
  | ErrSlotConfigInvalid | ErrSnapshotLoad
  | RuntimeErrNotFound

text \<open>
  \<open>FW\<close> is an argument wrapped with \<open>%w\<close>, \<open>FV\<close> an error printed with \<open>%v\<close>.  \<open>ApiNotFound\<close> and
  \<open>External\<close> are errors of code outside the repository: the first is the one for which
  \<open>apierrors.IsNotFound\<close> holds.
\<close>

datatype go_error =
    Sentinel sentinel
  | Errorf string "farg list"
  | HttpError int string go_text
  | ApiNotFound string
  | External string
and farg = FS string | FD int | FW go_error | FV go_error | FT go_text
and go_text =
    Lit string
  | Sprintf string "farg list"
  | JoinText "go_text list" string
  | ErrText go_error

text \<open>\<open>errors.Is\<close>: the error itself or anything it wraps.\<close>

fun errors_is :: "sentinel \<Rightarrow> go_error \<Rightarrow> bool" where
  "errors_is s (Sentinel t) = (s = t)"
| "errors_is s (Errorf fmt args) =
     (\<exists>a \<in> set args. case a of FW e \<Rightarrow> errors_is s e | _ \<Rightarrow> False)"
| "errors_is s (HttpError _ _ _) = False"
| "errors_is s (ApiNotFound _) = False"
| "errors_is s (External _) = False"

definition wrapf :: "sentinel \<Rightarrow> string \<Rightarrow> farg list \<Rightarrow> go_error" where
  "wrapf s fmt args = Errorf fmt (FW (Sentinel s) # args)"

lemma errors_is_wrapf [simp]:
  "errors_is s (wrapf t fmt args) \<longleftrightarrow>
     s = t \<or> (\<exists>a \<in> set args. case a of FW e \<Rightarrow> errors_is s e | _ \<Rightarrow> False)"
  by (simp add: wrapf_def)

text \<open>\<open>client.IgnoreNotFound\<close> and \<open>apierrors.IsNotFound\<close>.\<close>

fun isNotFound :: "go_error \<Rightarrow> bool" where
  "isNotFound (ApiNotFound _) = True"
| "isNotFound _ = False"

end
