(* ===== verification/SlotTopology.thy ===== *)
theory SlotTopology
  imports GoErrors
begin

text \<open>
  The package \<open>internal/slot\<close>: Slot states and reports (\<open>slot.go\<close>), Slot configurations and the
  topology planner (\<open>config.go\<close>).  \<open>PlanTopology\<close> runs the source's loop over the profiles with
  its state explicit: the used IDs, the highest ID, the slots planned so far, the reasons.

  A resource quantity is \<open>resource.Quantity\<close> of the Kubernetes API machinery; it is a type
  parameter with an addition and a linear order, nothing more is used of it.
\<close>

subsection \<open>Slot states and reports\<close>

datatype slot_state =
    StateZero | StateFree | StateReserved | StateStarting | StateRunning
  | StateStopping | StateCleaning | StateFailed

record slot_info =
  si_ID :: int
  si_Profile :: string
  si_State :: slot_state
  si_SandboxUID :: string

definition zero_slot_info :: slot_info where
  "zero_slot_info = \<lparr>si_ID = 0, si_Profile = '''', si_State = StateZero, si_SandboxUID = ''''\<rparr>"

subsection \<open>Resources\<close>

type_synonym 'q resource_list = "(string, 'q) gomap"

record 'q resource_requirements =
  rr_Requests :: "'q resource_list"
  rr_Limits :: "'q resource_list"

definition zero_resources :: "'q resource_requirements" where
  "zero_resources = \<lparr>rr_Requests = [], rr_Limits = []\<rparr>"

definition cloneResourceList :: "'q resource_list \<Rightarrow> 'q resource_list" where
  "cloneResourceList l = (if l = [] then [] else map (\<lambda>(name, q). (name, q)) l)"

definition cloneResources :: "'q resource_requirements \<Rightarrow> 'q resource_requirements" where
  "cloneResources r =
     \<lparr>rr_Requests = cloneResourceList (rr_Requests r), rr_Limits = cloneResourceList (rr_Limits r)\<rparr>"

definition addResourceList ::
    "('q::comm_monoid_add) resource_list \<Rightarrow> 'q resource_list \<Rightarrow> 'q resource_list" where
  "addResourceList base add =
     (if add = [] then base
      else foldl (\<lambda>result (name, quantity).
             case map_of result name of
               None \<Rightarrow> gm_set name quantity result
             | Some current \<Rightarrow> gm_set name (current + quantity) result) base add)"

definition resourceListCovers ::
    "('q::{linorder, zero}) resource_list \<Rightarrow> 'q resource_list \<Rightarrow> bool" where
  "resourceListCovers avail need =
     list_all (\<lambda>(name, required).
       case map_of avail name of
         None \<Rightarrow> required = 0
       | Some available \<Rightarrow> \<not> available < required) need"

definition ResourcesEnough ::
    "('q::{linorder, zero}) resource_requirements \<Rightarrow> 'q resource_requirements \<Rightarrow> bool" where
  "ResourcesEnough avail need =
     (resourceListCovers (rr_Requests avail) (rr_Requests need) \<and>
      resourceListCovers (rr_Limits avail) (rr_Limits need))"

subsection \<open>Slot configurations\<close>

record 'q slot_config =
  sc_ID :: int
  sc_Profile :: string
  sc_Resources :: "'q resource_requirements"

record 'q topology_plan =
  tp_Slots :: "'q slot_config list"
  tp_Blocked :: bool
  tp_Reason :: go_text

type_synonym profile_counts = "(string, int) gomap"
type_synonym 'q profile_resources = "(string, 'q resource_requirements) gomap"

definition SumResources ::
    "('q::comm_monoid_add) slot_config list \<Rightarrow> 'q resource_requirements" where
  "SumResources configs =
     foldl (\<lambda>sum cfg.
       \<lparr>rr_Requests = addResourceList (rr_Requests sum) (rr_Requests (sc_Resources cfg)),
        rr_Limits = addResourceList (rr_Limits sum) (rr_Limits (sc_Resources cfg))\<rparr>)
       zero_resources configs"

definition KeepExistingSlots ::
    "'q slot_config list \<Rightarrow> 'q slot_config list \<Rightarrow> 'q slot_config list" where
  "KeepExistingSlots current proposed =
     filter (\<lambda>cfg. sc_ID cfg \<in> set (map sc_ID current)) proposed"

definition CountNewSlots :: "'q slot_config list \<Rightarrow> 'q slot_config list \<Rightarrow> nat" where
  "CountNewSlots current proposed =
     length (filter (\<lambda>cfg. sc_ID cfg \<notin> set (map sc_ID current)) proposed)"

subsection \<open>Planning: the helpers\<close>

definition groupByProfile :: "'q slot_config list \<Rightarrow> (string, 'q slot_config list) gomap" where
  "groupByProfile current =
     map (\<lambda>(profile, configs). (profile, sort_key sc_ID configs))
       (foldl (\<lambda>m cfg. gm_set (sc_Profile cfg) (gm_get0 [] m (sc_Profile cfg) @ [cfg]) m) [] current)"

definition orderedProfiles ::
    "string list \<Rightarrow> profile_counts \<Rightarrow> (string, 'q slot_config list) gomap \<Rightarrow> string list" where
  "orderedProfiles order counts byProfile =
     (let names = dedup [] order;
          extras = filter (\<lambda>p. p \<notin> set names) (map fst counts) @
                   filter (\<lambda>p. p \<notin> set names) (map fst byProfile)
      in names @ sort extras)"

text \<open>
  The scan for a free ID below \<open>maxID\<close>; the used IDs are a set, here a list without order.
  If every ID of \<open>0..maxID\<close> is used the next one is \<open>maxID + 1\<close>, wrapped to 32 bits.
\<close>

function scanFreeID :: "int list \<Rightarrow> int \<Rightarrow> int \<Rightarrow> int option" where
  "scanFreeID used fid maxID =
     (if fid \<le> maxID then (if fid \<in> set used then scanFreeID used (fid + 1) maxID else Some fid)
      else None)"
  by pat_completeness auto
termination
  by (relation "measure (\<lambda>(used, fid, maxID). nat (maxID + 1 - fid))") auto

declare scanFreeID.simps [simp del]

definition nextFreeID :: "int list \<Rightarrow> int \<Rightarrow> int \<times> int" where
  "nextFreeID used maxID =
     (case scanFreeID used 0 maxID of
        Some fid \<Rightarrow> (fid, maxID)
      | None \<Rightarrow> (wrap32 (maxID + 1), wrap32 (maxID + 1)))"

text \<open>
  Scale-down of one profile, as the source does it: \<open>keep := existing[:desired]\<close> shares its
  backing array with \<open>existing\<close>, and the loop over \<open>existing[desired:]\<close> appends the busy slots to
  \<open>keep\<close> in place.  \<open>arr\<close> is that array, \<open>k\<close> the length of \<open>keep\<close>, \<open>i\<close> the index of the loop.
\<close>

function shrinkLoop ::
    "(int, bool) gomap \<Rightarrow> string \<Rightarrow> nat \<Rightarrow> nat \<Rightarrow> 'q slot_config list \<Rightarrow> int list \<Rightarrow> go_text list \<Rightarrow>
       'q slot_config list \<times> int list \<times> go_text list" where
  "shrinkLoop busy profile i k arr used reasons =
     (if i < length arr then
        (let cfg = arr ! i in
         if gm_get0 False busy (sc_ID cfg) then
           shrinkLoop busy profile (Suc i) (Suc k) (arr[k := cfg]) used
             (reasons @ [Sprintf ''slot %d (%s) is busy'' [FD (sc_ID cfg), FS profile]])
         else shrinkLoop busy profile (Suc i) k arr (removeAll (sc_ID cfg) used) reasons)
      else (take k arr, used, reasons))"
  by pat_completeness auto
termination
  by (relation "measure (\<lambda>(busy, profile, i, k, arr, used, reasons). length arr - i)") auto

declare shrinkLoop.simps [simp del]

text \<open>Scale-up of one profile: \<open>missing\<close> new slots, each with the next free ID.\<close>

fun growLoop ::
    "string \<Rightarrow> 'q resource_requirements \<Rightarrow> nat \<Rightarrow> int list \<Rightarrow> int \<Rightarrow> 'q slot_config list \<Rightarrow>
       'q slot_config list \<times> int list \<times> int" where
  "growLoop profile resources 0 used maxID nxt = (nxt, used, maxID)"
| "growLoop profile resources (Suc missing) used maxID nxt =
     (let (fid, maxID') = nextFreeID used maxID
      in growLoop profile resources missing (fid # used) maxID'
           (nxt @ [\<lparr>sc_ID = fid, sc_Profile = profile, sc_Resources = cloneResources resources\<rparr>]))"

subsection \<open>Planning: the loop\<close>

record 'q plan_state =
  ps_used :: "int list"
  ps_maxID :: int
  ps_next :: "'q slot_config list"
  ps_reasons :: "go_text list"

text \<open>
  One iteration of the loop over the profiles.  \<open>None\<close> is the run-time panic of
  \<open>existing[:desired]\<close> for a negative count.
\<close>

definition planProfile ::
    "profile_counts \<Rightarrow> 'q profile_resources \<Rightarrow> (string, 'q slot_config list) gomap \<Rightarrow>
       (int, bool) gomap \<Rightarrow> string \<Rightarrow> 'q plan_state \<Rightarrow> 'q plan_state option" where
  "planProfile counts profiles byProfile busy profile s =
     (let desired = gm_get0 0 counts profile;
          existing = gm_get0 [] byProfile profile;
          resources = gm_get0 zero_resources profiles profile;
          known = (map_of profiles profile \<noteq> None)
      in if \<not> known \<and> desired > 0 then
           Some (s\<lparr>ps_reasons := ps_reasons s @ [Sprintf ''unknown slot profile %q'' [FS profile]],
                   ps_next := ps_next s @ existing\<rparr>)
         else if wrap32 (int (length existing)) > desired then
           (if desired < 0 then None
            else let (keep, used, reasons) =
                       shrinkLoop busy profile (nat desired) (nat desired) existing
                         (ps_used s) (ps_reasons s)
                 in Some (s\<lparr>ps_used := used, ps_reasons := reasons,
                            ps_next := ps_next s @ sort_key sc_ID keep\<rparr>))
         else
           (let (nxt, used, maxID) =
                  growLoop profile resources
                    (nat (wrap32 (desired - wrap32 (int (length existing)))))
                    (ps_used s) (ps_maxID s) (ps_next s @ existing)
            in Some (s\<lparr>ps_used := used, ps_maxID := maxID, ps_next := nxt\<rparr>)))"

fun planLoop ::
    "profile_counts \<Rightarrow> 'q profile_resources \<Rightarrow> (string, 'q slot_config list) gomap \<Rightarrow>
       (int, bool) gomap \<Rightarrow> string list \<Rightarrow> 'q plan_state \<Rightarrow> 'q plan_state option" where
  "planLoop counts profiles byProfile busy [] s = Some s"
| "planLoop counts profiles byProfile busy (profile # names) s =
     (case planProfile counts profiles byProfile busy profile s of
        None \<Rightarrow> None
      | Some s' \<Rightarrow> planLoop counts profiles byProfile busy names s')"

definition maxSlotID :: "'q slot_config list \<Rightarrow> int" where
  "maxSlotID current = foldl (\<lambda>m cfg. if sc_ID cfg > m then sc_ID cfg else m) (-1) current"

definition PlanTopology ::
    "'q slot_config list \<Rightarrow> profile_counts \<Rightarrow> 'q profile_resources \<Rightarrow> (int, bool) gomap \<Rightarrow>
       string list \<Rightarrow> 'q topology_plan option" where
  "PlanTopology current counts profiles busy profileOrder =
     (let byProfile = groupByProfile current;
          names = orderedProfiles profileOrder counts byProfile;
          start = \<lparr>ps_used = map sc_ID current, ps_maxID = maxSlotID current,
                   ps_next = [], ps_reasons = []\<rparr>
      in case planLoop counts profiles byProfile busy names start of
           None \<Rightarrow> None
         | Some s \<Rightarrow>
             Some \<lparr>tp_Slots = sort_key sc_ID (ps_next s),
                   tp_Blocked = (ps_reasons s \<noteq> []),
                   tp_Reason = (if ps_reasons s \<noteq> [] then JoinText (ps_reasons s) ''; ''
                                else Lit '''')\<rparr>)"

subsection \<open>Grouping and ordering\<close>

abbreviation of_profile :: "string \<Rightarrow> 'q slot_config list \<Rightarrow> 'q slot_config list" where
  "of_profile p cs \<equiv> filter (\<lambda>c. sc_Profile c = p) cs"

lemma group_fold_get:
  "map_of (foldl (\<lambda>m cfg. gm_set (sc_Profile cfg) (gm_get0 [] m (sc_Profile cfg) @ [cfg]) m) m cs) p =
     (case map_of m p of
        None \<Rightarrow> (if of_profile p cs = [] then None else Some (of_profile p cs))
      | Some xs \<Rightarrow> Some (xs @ of_profile p cs))"
  by (induction cs arbitrary: m) (auto simp: gm_get0_def split: option.splits)

lemma group_fold_ok:
  "gm_ok m \<Longrightarrow>
   gm_ok (foldl (\<lambda>m cfg. gm_set (sc_Profile cfg) (gm_get0 [] m (sc_Profile cfg) @ [cfg]) m) m cs)"
  by (induction cs arbitrary: m) auto

lemma map_snd_keys: "map fst (map (\<lambda>(k, v). (k, f v)) m) = map fst m"
  by auto

lemma groupByProfile_ok [simp]: "gm_ok (groupByProfile cs)"
  unfolding groupByProfile_def map_snd_keys by (rule group_fold_ok) simp

lemma map_of_map_snd: "map_of (map (\<lambda>(k, v). (k, f v)) m) k = map_option f (map_of m k)"
  by (induction m) auto

lemma groupByProfile_map_of:
  "map_of (groupByProfile cs) p =
     (if of_profile p cs = [] then None else Some (sort_key sc_ID (of_profile p cs)))"
  unfolding groupByProfile_def map_of_map_snd group_fold_get by simp

lemma groupByProfile_get [simp]:
  "gm_get0 [] (groupByProfile cs) p = sort_key sc_ID (of_profile p cs)"
  by (simp add: gm_get0_def groupByProfile_map_of)

lemma groupByProfile_keys [simp]: "fst ` set (groupByProfile cs) = sc_Profile ` set cs"
proof -
  have "p \<in> fst ` set (groupByProfile cs) \<longleftrightarrow> p \<in> sc_Profile ` set cs" for p
    unfolding gm_key_get groupByProfile_def map_of_map_snd group_fold_get
    by (auto simp: filter_empty_conv)
  then show ?thesis
    by blast
qed

lemma orderedProfiles_set [simp]:
  "set (orderedProfiles order counts (groupByProfile cs)) =
     set order \<union> fst ` set counts \<union> sc_Profile ` set cs"
proof -
  have "fst ` set (groupByProfile cs) = sc_Profile ` set cs"
    by simp
  then show ?thesis
    unfolding orderedProfiles_def Let_def by auto
qed

lemma orderedProfiles_distinct:
  assumes "fst ` set counts \<subseteq> set order"
  shows "distinct (orderedProfiles order counts (groupByProfile cs))"
proof -
  have "filter (\<lambda>p. p \<notin> set order) (map fst counts) = []"
    using assms by (auto simp: filter_empty_conv)
  then show ?thesis
    unfolding orderedProfiles_def Let_def by (auto simp: distinct_filter)
qed

subsection \<open>Scale-down in place\<close>

definition isBusy :: "(int, bool) gomap \<Rightarrow> 'q slot_config \<Rightarrow> bool" where
  "isBusy busy cfg = gm_get0 False busy (sc_ID cfg)"

definition busyReason :: "string \<Rightarrow> 'q slot_config \<Rightarrow> go_text" where
  "busyReason profile cfg = Sprintf ''slot %d (%s) is busy'' [FD (sc_ID cfg), FS profile]"

text \<open>
  The appends into the shared array never overwrite an element the loop has still to read: the
  in-place loop computes what the filter over the old array computes.
\<close>

lemma shrinkLoop_eq:
  assumes "k \<le> i" "i \<le> length arr"
  shows "shrinkLoop busy profile i k arr used reasons =
    (take k arr @ filter (isBusy busy) (drop i arr),
     filter (\<lambda>u. \<forall>c \<in> set (drop i arr). \<not> isBusy busy c \<longrightarrow> sc_ID c \<noteq> u) used,
     reasons @ map (busyReason profile) (filter (isBusy busy) (drop i arr)))"
  using assms
proof (induction busy profile i k arr used reasons rule: shrinkLoop.induct)
  case (1 busy profile i k arr used reasons)
  show ?case
  proof (cases "i < length arr")
    case False
    then show ?thesis
      using "1.prems" by (subst shrinkLoop.simps) simp
  next
    case True
    then have drop: "drop i arr = arr ! i # drop (Suc i) arr"
      by (simp add: Cons_nth_drop_Suc)
    show ?thesis
    proof (cases "isBusy busy (arr ! i)")
      case busy: True
      have "take (Suc k) (arr[k := arr ! i]) = take k arr @ [arr ! i]"
        using True "1.prems" by (simp add: take_Suc_conv_app_nth)
      with busy True "1.prems" "1.IH"(1) [OF True refl] drop show ?thesis
        by (simp add: shrinkLoop.simps [of busy profile i] isBusy_def busyReason_def Let_def)
    next
      case free: False
      with True "1.prems" "1.IH"(2) [OF True refl] drop show ?thesis
        by (auto simp: shrinkLoop.simps [of busy profile i] isBusy_def Let_def
            removeAll_filter_not_eq intro!: filter_cong)
    qed
  qed
qed

subsection \<open>Free IDs\<close>

lemma scanFreeID_Some:
  "scanFreeID used fid maxID = Some j \<Longrightarrow>
     fid \<le> j \<and> j \<le> maxID \<and> j \<notin> set used \<and> (\<forall>i. fid \<le> i \<and> i < j \<longrightarrow> i \<in> set used)"
proof (induction used fid maxID rule: scanFreeID.induct)
  case (1 used fid maxID)
  show ?case
  proof (cases "fid \<le> maxID \<and> fid \<in> set used")
    case True
    with "1.prems" have "scanFreeID used (fid + 1) maxID = Some j"
      by (simp add: scanFreeID.simps [of used fid])
    with True "1.IH" have "fid + 1 \<le> j \<and> j \<le> maxID \<and> j \<notin> set used \<and>
        (\<forall>i. fid + 1 \<le> i \<and> i < j \<longrightarrow> i \<in> set used)"
      by blast
    with True show ?thesis
      by (metis add1_zle_eq order_le_less order_less_le_trans)
  next
    case False
    with "1.prems" show ?thesis
      by (auto simp: scanFreeID.simps [of used fid] split: if_splits)
  qed
qed

lemma scanFreeID_None:
  "scanFreeID used fid maxID = None \<Longrightarrow> fid \<le> i \<Longrightarrow> i \<le> maxID \<Longrightarrow> i \<in> set used"
proof (induction used fid maxID rule: scanFreeID.induct)
  case (1 used fid maxID)
  then show ?case
    by (cases "i = fid") (auto simp: scanFreeID.simps [of used fid] split: if_splits)
qed

definition leastFree :: "int list \<Rightarrow> int \<Rightarrow> bool" where
  "leastFree used j \<longleftrightarrow> 0 \<le> j \<and> j \<notin> set used \<and> (\<forall>i. 0 \<le> i \<and> i < j \<longrightarrow> i \<in> set used)"

definition maxID_ok :: "int list \<Rightarrow> int \<Rightarrow> bool" where
  "maxID_ok used maxID \<longleftrightarrow> -1 \<le> maxID \<and> maxID < 2 ^ 31 \<and> (\<forall>u \<in> set used. u \<le> maxID)"

lemma nextFreeID_spec:
  assumes ok: "maxID_ok used maxID" and size: "length used < 2 ^ 31 - 1"
    and eq: "nextFreeID used maxID = (j, maxID')"
  shows "leastFree used j" "maxID_ok (j # used) maxID'"
proof -
  have "leastFree used j \<and> maxID_ok (j # used) maxID'"
  proof (cases "scanFreeID used 0 maxID")
    case (Some k)
    with eq have "j = k" "maxID' = maxID"
      by (auto simp: nextFreeID_def)
    with scanFreeID_Some [OF Some] ok show ?thesis
      by (auto simp: leastFree_def maxID_ok_def)
  next
    case None
    have all: "{0..maxID} \<subseteq> set used"
      using scanFreeID_None [OF None] by auto
    then have "card {0..maxID} \<le> card (set used)"
      by (intro card_mono) auto
    also have "\<dots> \<le> length used"
      by (rule card_length)
    finally have "maxID + 1 \<le> int (length used)"
      using ok by (simp add: maxID_ok_def)
    with size ok have "int32_ok (maxID + 1)" and small: "maxID + 1 < 2 ^ 31"
      by (auto simp: int32_ok_def maxID_ok_def)
    with None eq have "j = maxID + 1" "maxID' = maxID + 1"
      by (auto simp: nextFreeID_def)
    with ok all small show ?thesis
      by (fastforce simp: leastFree_def maxID_ok_def)
  qed
  then show "leastFree used j" "maxID_ok (j # used) maxID'"
    by auto
qed

end
