(* ===== verification/ApiTypes.thy ===== *)
theory ApiTypes
  imports SlotTopology
begin

text \<open>
  The data the components exchange: the custom resources of \<open>api/v1alpha1\<close>, the Worker API of
  \<open>internal/workerapi\<close> and the runtime interface's types of \<open>internal/runtime\<close>.  A Go pointer is an
  \<open>option\<close>, a slice of bytes is a \<open>string\<close>, and a string type with an enumeration of constants is a
  datatype with a constructor for the empty string.  \<open>'q\<close> is the resource quantity type.
\<close>

subsection \<open>Kubernetes object data the program uses\<close>

record env_var =
  ev_Name :: string
  ev_Value :: string
  ev_ValueFrom :: "string option"

record condition =
  cn_Type :: string
  cn_Status :: bool
  cn_Reason :: string
  cn_Message :: go_text
  cn_ObservedGeneration :: int

record object_meta =
  om_Namespace :: string
  om_Name :: string
  om_UID :: string
  om_Generation :: int
  om_Finalizers :: "string list"
  om_Deleting :: bool

subsection \<open>Sandbox\<close>

definition SandboxFinalizer :: string where
  "SandboxFinalizer = ''sandboxfleet.io/runtime-cleanup''"

datatype sandbox_phase =
    PhaseUnset | SandboxPhasePending | SandboxPhaseStarting | SandboxPhaseRunning
  | SandboxPhaseStopping | SandboxPhaseFailed

definition ConditionReady :: string where "ConditionReady = ''Ready''"

definition ConditionScheduled :: string where "ConditionScheduled = ''Scheduled''"

definition ConditionWorkersReady :: string where "ConditionWorkersReady = ''WorkersReady''"

definition ConditionUpdating :: string where "ConditionUpdating = ''Updating''"

record container_spec =
  cs_Image :: string
  cs_Command :: "string list"
  cs_Args :: "string list"
  cs_Env :: "env_var list"

record sandbox_spec =
  sb_PoolRef :: string
  sb_SlotProfile :: string
  sb_Container :: "container_spec option"
  sb_FromSnapshot :: string

record api_assignment =
  aa_Worker :: string
  aa_SlotID :: int
  aa_SlotProfile :: string

record sandbox_status =
  ss_ObservedGeneration :: int
  ss_Phase :: sandbox_phase
  ss_Assignment :: "api_assignment option"
  ss_Conditions :: "condition list"

record sandbox =
  sb_Meta :: object_meta
  sb_Spec :: sandbox_spec
  sb_Status :: sandbox_status

subsection \<open>SandboxSnapshot\<close>

definition SandboxSnapshotFinalizer :: string where
  "SandboxSnapshotFinalizer = ''sandboxfleet.io/snapshot-cleanup''"

datatype snapshot_phase =
    SnapPhaseUnset | SandboxSnapshotPhasePending | SandboxSnapshotPhaseReady | SandboxSnapshotPhaseFailed

record snapshot_spec =
  sp_SourceSandbox :: string
  sp_Pool :: string

record snapshot_status =
  st_ObservedGeneration :: int
  st_Phase :: snapshot_phase
  st_StoragePath :: string
  st_SnapshotFiles :: "string list"
  st_Runtime :: string
  st_FormatVersion :: string
  st_SizeBytes :: int
  st_SourceWorker :: string
  st_Message :: go_text
  st_Conditions :: "condition list"

record sandbox_snapshot =
  sn_Meta :: object_meta
  sn_Spec :: snapshot_spec
  sn_Status :: snapshot_status

subsection \<open>SandboxPool\<close>

datatype snapshotter_kind = SnapshotterUnset | SnapshotterGVisor | SnapshotterKata | SnapshotterOther string

record cri_runtime_config =
  cr_RuntimeHandler :: string
  cr_Snapshotter :: snapshotter_kind
  cr_HostDevices :: "string list"

record runtime_config =
  rc_Backend :: string
  rc_CRI :: "cri_runtime_config option"

definition RuntimeBackendCRI :: string where "RuntimeBackendCRI = ''cri''"

record 'q slot_profile =
  pf_Name :: string
  pf_Resources :: "'q resource_requirements"

record slot_group =
  sg_Profile :: string
  sg_Count :: int

record worker_template =
  wt_Name :: string
  wt_Replicas :: int
  wt_Slots :: "slot_group list"

record s3_snapshot_storage =
  s3_Endpoint :: string
  s3_Bucket :: string
  s3_Region :: string
  s3_CredentialsSecretRef :: string

record snapshot_storage_spec =
  sts_S3 :: "s3_snapshot_storage option"

record 'q pool_spec =
  po_Runtime :: runtime_config
  po_SnapshotStorage :: "snapshot_storage_spec option"
  po_SlotProfiles :: "'q slot_profile list"
  po_WorkerTemplates :: "worker_template list"

record applied_slot =
  ap_ID :: int
  ap_Profile :: string

record worker_template_status =
  ts_Name :: string
  ts_Replicas :: int
  ts_ReadyReplicas :: int
  ts_AppliedSlots :: "applied_slot list"

record slot_profile_status =
  ps_Name :: string
  ps_Total :: int
  ps_Used :: int
  ps_Available :: int

record pool_status =
  pt_ObservedGeneration :: int
  pt_CurrentWorkers :: int
  pt_ReadyWorkers :: int
  pt_UsedSlots :: int
  pt_AvailableSlots :: int
  pt_Templates :: "worker_template_status list"
  pt_Profiles :: "slot_profile_status list"
  pt_Conditions :: "condition list"

record 'q sandbox_pool =
  po_Meta :: object_meta
  po_Spec :: "'q pool_spec"
  po_Status :: pool_status

subsection \<open>The Worker API\<close>

record sandbox_identity =
  id_Namespace :: string
  id_Name :: string
  id_UID :: string

record sandbox_slot_ref =
  sr_SlotID :: int
  sr_Identity :: sandbox_identity

record start_sandbox_request =
  sq_SlotID :: int
  sq_Identity :: sandbox_identity
  sq_Container :: container_spec

record sandbox_info =
  sx_Identity :: sandbox_identity
  sx_SlotID :: int
  sx_State :: slot_state

record exec_sandbox_request =
  xq_SlotID :: int
  xq_Identity :: sandbox_identity
  xq_Command :: "string list"
  xq_TimeoutSeconds :: int

record exec_sandbox_result =
  xr_ExitCode :: int
  xr_Stdout :: string
  xr_Stderr :: string

record object_storage_config =
  oc_Endpoint :: string
  oc_Bucket :: string
  oc_Region :: string
  oc_AccessKeyID :: string
  oc_SecretAccessKey :: string
  oc_UsePathStyle :: bool

record create_snapshot_request =
  cq_SlotID :: int
  cq_Identity :: sandbox_identity
  cq_StoragePath :: string
  cq_Storage :: object_storage_config
  cq_Runtime :: string
  cq_Pool :: string
  cq_Container :: container_spec

record create_snapshot_result =
  ct_StoragePath :: string
  ct_SnapshotFiles :: "string list"
  ct_Digest :: string
  ct_SizeBytes :: int
  ct_FormatVersion :: string
  ct_Runtime :: string

record restore_from_snapshot_request =
  rq_SlotID :: int
  rq_Identity :: sandbox_identity
  rq_StoragePath :: string
  rq_Storage :: object_storage_config
  rq_Runtime :: string

record delete_snapshot_objects_request =
  dq_StoragePath :: string
  dq_SnapshotFiles :: "string list"
  dq_Storage :: object_storage_config

record sandbox_file_entry =
  fe_Name :: string
  fe_Type :: string

record sandbox_file_request =
  fr_SlotID :: int
  fr_Identity :: sandbox_identity
  fr_Path :: string

subsection \<open>The runtime interface\<close>

record environment_variable =
  en_Name :: string
  en_Value :: string

record container_config =
  cc_Image :: string
  cc_Command :: "string list"
  cc_Args :: "string list"
  cc_Env :: "environment_variable list"

record 'q create_request =
  re_Identity :: sandbox_identity
  re_SlotID :: int
  re_Resources :: "'q resource_requirements"
  re_Container :: container_config

text \<open>\<open>ID\<close> wraps one string, kept as the string itself.\<close>

type_synonym runtime_id = string

datatype runtime_state = RtCreated | RtRunning | RtStopped | RtUnknown

record runtime_status =
  rs_State :: runtime_state
  rs_ExitCode :: int
  rs_Message :: string

record runtime_info =
  ri_ID :: runtime_id
  ri_Identity :: sandbox_identity
  ri_SlotID :: int
  ri_Status :: runtime_status

record exec_request =
  eq_Command :: "string list"
  eq_Timeout :: int

record exec_result =
  er_ExitCode :: int
  er_Stdout :: string
  er_Stderr :: string

text \<open>
  The \<open>Runtime\<close> interface.  An implementation acts on the world outside the program, a state of
  type \<open>'w\<close> that every call may change; a call that fails may have changed it too.
\<close>

record ('q, 'w) runtime_iface =
  rt_Create :: "'q create_request \<Rightarrow> 'w \<Rightarrow> (go_error + runtime_id) \<times> 'w"
  rt_Start :: "runtime_id \<Rightarrow> 'w \<Rightarrow> go_error option \<times> 'w"
  rt_Stop :: "runtime_id \<Rightarrow> 'w \<Rightarrow> go_error option \<times> 'w"
  rt_Delete :: "runtime_id \<Rightarrow> 'w \<Rightarrow> go_error option \<times> 'w"
  rt_Status :: "runtime_id \<Rightarrow> 'w \<Rightarrow> (go_error + runtime_status) \<times> 'w"
  rt_List :: "'w \<Rightarrow> (go_error + runtime_info list) \<times> 'w"
  rt_Exec :: "runtime_id \<Rightarrow> exec_request \<Rightarrow> 'w \<Rightarrow> (go_error + exec_result) \<times> 'w"
  rt_ReadFile :: "runtime_id \<Rightarrow> string \<Rightarrow> 'w \<Rightarrow> (go_error + string) \<times> 'w"
  rt_WriteFile :: "runtime_id \<Rightarrow> string \<Rightarrow> string \<Rightarrow> 'w \<Rightarrow> go_error option \<times> 'w"
  rt_ListFiles :: "runtime_id \<Rightarrow> string \<Rightarrow> 'w \<Rightarrow> (go_error + sandbox_file_entry list) \<times> 'w"
  rt_FileExists :: "runtime_id \<Rightarrow> string \<Rightarrow> 'w \<Rightarrow> (go_error + bool) \<times> 'w"
  rt_PrimaryContainerID :: "(runtime_id \<Rightarrow> 'w \<Rightarrow> (go_error + string) \<times> 'w) option"

text \<open>
  The last field is the optional interface \<open>primaryContainerIDResolver\<close>, which only some runtimes
  implement.
\<close>

end
