(* ===== verification/Snapshotters.thy ===== *)
theory Snapshotters
  imports ApiTypes GoStrings
begin

text \<open>
  The package \<open>internal/snapshotter\<close> as the Worker sees it: the \<open>Snapshotter\<close> interface, the registry
  that picks one for a runtime handler, and the naming and address plans its implementations
  share.  Here a snapshotter is a record of functions on the outside world; the two implementations
  are in the gVisor and the Kata theories.
\<close>

subsection \<open>The interface and the registry\<close>

record save_request =
  sv_ID :: runtime_id
  sv_DestDir :: string
  sv_ContainerID :: string
  sv_AppContainerName :: string
  sv_AppImage :: string

record load_request =
  ld_SourceDir :: string
  ld_Identity :: sandbox_identity
  ld_SlotID :: int
  ld_AppImage :: string

text \<open>\<open>sh_TearsDownOnSave\<close> is the optional interface \<open>SaveTeardown\<close>.\<close>

record 'w snapshotter =
  sh_FormatVersion :: string
  sh_SaveSnapshot :: "save_request \<Rightarrow> 'w \<Rightarrow> go_error option \<times> 'w"
  sh_LoadSnapshot :: "load_request \<Rightarrow> 'w \<Rightarrow> (go_error + runtime_id) \<times> 'w"
  sh_DeleteRestored :: "runtime_id \<Rightarrow> 'w \<Rightarrow> go_error option \<times> 'w"
  sh_ExecRestored :: "runtime_id \<Rightarrow> exec_request \<Rightarrow> 'w \<Rightarrow> (go_error + exec_result) \<times> 'w"
  sh_TearsDownOnSave :: "bool option"

text \<open>A registry pointer may be nil, and an entry may be a nil interface.\<close>

type_synonym 'w registry = "(string, 'w snapshotter option) gomap option"

definition NewRegistry :: "(string, 'w snapshotter option) gomap \<Rightarrow> 'w registry" where
  "NewRegistry entries = Some (foldl (\<lambda>out (k, v). gm_set k v out) [] entries)"

definition Registry_For :: "'w registry \<Rightarrow> string \<Rightarrow> go_error + 'w snapshotter" where
  "Registry_For r handler =
     (case r of
        None \<Rightarrow> Inl (Errorf ''snapshotter registry is nil'' [])
      | Some byHandler \<Rightarrow>
          (case map_of byHandler handler of
             Some (Some s) \<Rightarrow> Inr s
           | _ \<Rightarrow> Inl (Errorf ''no snapshotter for runtimeHandler %q'' [FS handler])))"

text \<open>The factory: the two constructors are parameters.\<close>

definition snapshotter_New ::
    "'a \<Rightarrow> 'a \<Rightarrow> snapshotter_kind \<Rightarrow> go_error + 'a" where
  "snapshotter_New NewGVisor NewKata kind =
     (case kind of
        SnapshotterGVisor \<Rightarrow> Inr NewGVisor
      | SnapshotterKata \<Rightarrow> Inr NewKata
      | SnapshotterUnset \<Rightarrow> Inl (Errorf ''snapshotter is required (gvisor or kata)'' [])
      | SnapshotterOther k \<Rightarrow> Inl (Errorf ''unknown snapshotter %q (want gvisor or kata)'' [FS k]))"

subsection \<open>Names of restored instances\<close>

definition RestoredName :: "sandbox_identity \<Rightarrow> string" where
  "RestoredName identity =
     (let base = (if id_Name identity = [] then ''restored'' else id_Name identity);
          uid = id_UID identity;
          uid = (if length uid > 8 then take 8 uid else uid)
      in Base base @ ''-'' @ uid)"

definition StripPrefix :: "string \<Rightarrow> string \<Rightarrow> string \<times> bool" where
  "StripPrefix value prefix =
     (if HasPrefix value prefix then (TrimPrefix value prefix, True) else ([], False))"

definition IsRestoredID :: "runtime_id \<Rightarrow> bool" where
  "IsRestoredID rid \<longleftrightarrow> HasPrefix rid ''runsc:'' \<or> HasPrefix rid ''kata:''"

fun firstNonEmpty :: "string list \<Rightarrow> string" where
  "firstNonEmpty [] = []"
| "firstNonEmpty (v # values) = (if v \<noteq> [] then v else firstNonEmpty values)"

subsection \<open>Guest addresses\<close>

record guest_net =
  gn_Iface :: string
  gn_IP :: string
  gn_Mask :: string
  gn_Gateway :: string
  gn_Subnet :: string
  gn_MAC :: string
  gn_GatewayMAC :: string

definition hexDigit :: "int \<Rightarrow> char" where
  "hexDigit d = ''0123456789abcdef'' ! nat d"

text \<open>The verb \<open>%02x\<close> on a byte.\<close>

definition hexByte :: "int \<Rightarrow> string" where
  "hexByte b = [hexDigit (b div 16), hexDigit (b mod 16)]"

definition guestNetForSlot :: "int \<Rightarrow> go_error + guest_net" where
  "guestNetForSlot slotID =
     (if slotID < 0 \<or> slotID > 252
      then Inl (Errorf ''slotID %d out of range for guest IP (want 0..252)'' [FD slotID])
      else let host = (2 + slotID) mod 256 in
        Inr \<lparr>gn_Iface = ''eth0'', gn_IP = ''10.89.0.'' @ Itoa host, gn_Mask = ''16'',
             gn_Gateway = ''10.89.0.1'', gn_Subnet = ''10.89.0.0/16'',
             gn_MAC = ''02:00:00:5f:00:'' @ hexByte host, gn_GatewayMAC = ''02:00:00:5f:00:fe''\<rparr>)"

subsection \<open>Containers of a gVisor checkpoint\<close>

record gvisor_restore_container =
  gc_ID :: string
  gc_Name :: string
  gc_Sandbox :: bool
  gc_Image :: string
  gc_RootfsTar :: string

definition gvisorCRIContainers :: "string \<Rightarrow> string \<Rightarrow> string \<Rightarrow> gvisor_restore_container list" where
  "gvisorCRIContainers pauseImage appName appImage =
     [\<lparr>gc_ID = ''pause'', gc_Name = [], gc_Sandbox = True, gc_Image = pauseImage, gc_RootfsTar = []\<rparr>,
      \<lparr>gc_ID = appName, gc_Name = appName, gc_Sandbox = False, gc_Image = appImage, gc_RootfsTar = []\<rparr>]"

definition gvisorAppContainerID :: "gvisor_restore_container list \<Rightarrow> string" where
  "gvisorAppContainerID containers =
     (case find (\<lambda>c. \<not> gc_Sandbox c) (rev containers) of
        Some c \<Rightarrow> gc_ID c
      | None \<Rightarrow> if containers \<noteq> [] then gc_ID (last containers) else [])"

text \<open>
  The loop fills the images in place; an entry without any image stops it, with the entries
  before it already filled.
\<close>

fun fillGVisorContainerImages ::
    "string \<Rightarrow> string \<Rightarrow> gvisor_restore_container list \<Rightarrow> go_error option \<times> gvisor_restore_container list" where
  "fillGVisorContainerImages pauseImage appImage [] = (None, [])"
| "fillGVisorContainerImages pauseImage appImage (c # cs) =
     (if gc_Sandbox c then
        let c' = (if gc_Image c = [] then c\<lparr>gc_Image := pauseImage\<rparr> else c);
            (err, cs') = fillGVisorContainerImages pauseImage appImage cs
        in (err, c' # cs')
      else
        let c' = (if gc_Image c = [] then c\<lparr>gc_Image := appImage\<rparr> else c) in
        if gc_Image c' = []
        then (Some (Errorf ''container %s missing image (and no AppImage fallback)'' [FS (gc_ID c)]), c' # cs)
        else let (err, cs') = fillGVisorContainerImages pauseImage appImage cs in (err, c' # cs'))"

end
