(* ===== verification/SlotManager.thy ===== *)
theory SlotManager
  imports Snapshotters
begin

text \<open>
  The Worker's Slot manager, \<open>internal/worker/manager.go\<close>.  A Slot's lock makes the body of every
  operation on it atomic, so an operation is a function from the Slot and the outside world to a
  result, the next Slot and the next world; \<open>onSlot\<close> runs it on the Slot the map points to.  The
  runtime, the snapshotters and the operating system are the interfaces the manager holds.
\<close>

subsection \<open>State\<close>

record 'q worker_config =
  wc_Name :: string
  wc_Namespace :: string
  wc_Pool :: string
  wc_Slots :: "'q slot_config list"
  wc_Runtime :: runtime_config

record 'q managed_slot =
  mg_id :: int
  mg_profile :: string
  mg_resources :: "'q resource_requirements"
  mg_state :: slot_state
  mg_sandbox :: sandbox_identity
  mg_runtimeRef :: "runtime_id option"
  mg_restored :: bool
  mg_restoreDir :: string

record ('q, 'w) slot_manager =
  sm_config :: "'q worker_config"
  sm_runtime :: "('q, 'w) runtime_iface"
  sm_snapshotters :: "'w registry"
  sm_slots :: "(int, 'q managed_slot) gomap"

text \<open>The functions of package \<open>os\<close> the manager calls.\<close>

record 'w host_iface =
  ho_MkdirTemp :: "string \<Rightarrow> 'w \<Rightarrow> (go_error + string) \<times> 'w"
  ho_RemoveAll :: "string \<Rightarrow> 'w \<Rightarrow> go_error option \<times> 'w"

definition noIdentity :: sandbox_identity where
  "noIdentity = \<lparr>id_Namespace = [], id_Name = [], id_UID = []\<rparr>"

definition newManagedSlot :: "'q slot_config \<Rightarrow> 'q managed_slot" where
  "newManagedSlot spec =
     \<lparr>mg_id = sc_ID spec, mg_profile = sc_Profile spec, mg_resources = cloneResources (sc_Resources spec),
      mg_state = StateFree, mg_sandbox = noIdentity, mg_runtimeRef = None, mg_restored = False,
      mg_restoreDir = []\<rparr>"

definition NewSlotManager ::
    "'q worker_config \<Rightarrow> ('q, 'w) runtime_iface \<Rightarrow> 'w registry \<Rightarrow> ('q, 'w) slot_manager" where
  "NewSlotManager config runtime snapshotters =
     \<lparr>sm_config = config, sm_runtime = runtime, sm_snapshotters = snapshotters,
      sm_slots = foldl (\<lambda>slots spec. gm_set (sc_ID spec) (newManagedSlot spec) slots) [] (wc_Slots config)\<rparr>"

subsection \<open>Helpers\<close>

definition stateString :: "slot_state \<Rightarrow> string" where
  "stateString s =
     (case s of StateZero \<Rightarrow> [] | StateFree \<Rightarrow> ''Free'' | StateReserved \<Rightarrow> ''Reserved''
      | StateStarting \<Rightarrow> ''Starting'' | StateRunning \<Rightarrow> ''Running'' | StateStopping \<Rightarrow> ''Stopping''
      | StateCleaning \<Rightarrow> ''Cleaning'' | StateFailed \<Rightarrow> ''Failed'')"

definition getSlot :: "('q, 'w) slot_manager \<Rightarrow> int \<Rightarrow> go_error + 'q managed_slot" where
  "getSlot m sid =
     (case map_of (sm_slots m) sid of
        None \<Rightarrow> Inl (wrapf ErrSlotNotFound ''%w: %d'' [FD sid])
      | Some current \<Rightarrow> Inr current)"

definition validateIdentity :: "sandbox_identity \<Rightarrow> go_error option" where
  "validateIdentity identity =
     (if id_Namespace identity = [] \<or> id_Name identity = [] \<or> id_UID identity = []
      then Some (wrapf ErrInvalidRequest ''%w: namespace, name, and UID are required'' [])
      else None)"

fun convertEnv :: "env_var list \<Rightarrow> go_error + environment_variable list" where
  "convertEnv [] = Inr []"
| "convertEnv (v # vs) =
     (if ev_ValueFrom v \<noteq> None
      then Inl (wrapf ErrInvalidRequest ''%w: environment variable %q uses unsupported valueFrom'' [FS (ev_Name v)])
      else case convertEnv vs of
             Inl e \<Rightarrow> Inl e
           | Inr env \<Rightarrow> Inr (\<lparr>en_Name = ev_Name v, en_Value = ev_Value v\<rparr> # env))"

definition containerConfig :: "start_sandbox_request \<Rightarrow> go_error + container_config" where
  "containerConfig req =
     (case convertEnv (cs_Env (sq_Container req)) of
        Inl e \<Rightarrow> Inl e
      | Inr env \<Rightarrow> Inr \<lparr>cc_Image = cs_Image (sq_Container req), cc_Command = cs_Command (sq_Container req),
                       cc_Args = cs_Args (sq_Container req), cc_Env = env\<rparr>)"

definition runtimeSlotState :: "runtime_state \<Rightarrow> slot_state" where
  "runtimeSlotState s =
     (case s of RtCreated \<Rightarrow> StateStarting | RtRunning \<Rightarrow> StateRunning | RtStopped \<Rightarrow> StateStopping
      | RtUnknown \<Rightarrow> StateFailed)"

definition runtimeHandler :: "('q, 'w) slot_manager \<Rightarrow> string" where
  "runtimeHandler m =
     (case rc_CRI (wc_Runtime (sm_config m)) of Some cri \<Rightarrow> cr_RuntimeHandler cri | None \<Rightarrow> [])"

definition clearRestoreDir :: "'w host_iface \<Rightarrow> 'q managed_slot \<Rightarrow> 'w \<Rightarrow> 'q managed_slot \<times> 'w" where
  "clearRestoreDir os current w =
     (if mg_restoreDir current = [] then (current, w)
      else let (_, w) = ho_RemoveAll os (mg_restoreDir current) w in (current\<lparr>mg_restoreDir := []\<rparr>, w))"

text \<open>
  Run an operation on the Slot an identified request names: the checks every handler opens with,
  then the body under the Slot's lock.
\<close>

definition onSlot ::
    "sandbox_identity \<Rightarrow> int \<Rightarrow> ('q managed_slot \<Rightarrow> 'w \<Rightarrow> go_error option \<times> 'q managed_slot \<times> 'w) \<Rightarrow>
     ('q, 'w) slot_manager \<Rightarrow> 'w \<Rightarrow> go_error option \<times> ('q, 'w) slot_manager \<times> 'w" where
  "onSlot identity sid body m w =
     (case validateIdentity identity of
        Some e \<Rightarrow> (Some e, m, w)
      | None \<Rightarrow>
          (case getSlot m sid of
             Inl e \<Rightarrow> (Some e, m, w)
           | Inr current \<Rightarrow>
               let (res, current', w') = body current w
               in (res, m\<lparr>sm_slots := gm_set sid current' (sm_slots m)\<rparr>, w')))"

subsection \<open>Topology\<close>

fun desiredSlots :: "'q slot_config list \<Rightarrow> (int, 'q slot_config) gomap \<Rightarrow> go_error + (int, 'q slot_config) gomap" where
  "desiredSlots [] desired = Inr desired"
| "desiredSlots (cfg # configs) desired =
     (if map_of desired (sc_ID cfg) \<noteq> None
      then Inl (wrapf ErrSlotConfigInvalid ''%w: duplicate slot id %d'' [FD (sc_ID cfg)])
      else desiredSlots configs (gm_set (sc_ID cfg) cfg desired))"

text \<open>
  \<open>deepEqual\<close> is \<open>equality.Semantic.DeepEqual\<close> of the Kubernetes API machinery.
\<close>

fun checkApply ::
    "('q resource_requirements \<Rightarrow> 'q resource_requirements \<Rightarrow> bool) \<Rightarrow> (int, 'q slot_config) gomap \<Rightarrow>
     (int, 'q managed_slot) gomap \<Rightarrow> go_error option" where
  "checkApply deepEqual desired [] = None"
| "checkApply deepEqual desired ((sid, current) # slots) =
     (case map_of desired sid of
        None \<Rightarrow>
          if mg_state current \<noteq> StateFree
          then Some (wrapf ErrSlotConfigInvalid ''%w: cannot remove busy slot %d'' [FD sid])
          else checkApply deepEqual desired slots
      | Some cfg \<Rightarrow>
          if mg_profile current = sc_Profile cfg \<and> deepEqual (mg_resources current) (sc_Resources cfg)
          then checkApply deepEqual desired slots
          else Some (wrapf ErrSlotConfigInvalid ''%w: slot %d resources/profile are immutable'' [FD sid]))"

definition ApplySlots ::
    "('q resource_requirements \<Rightarrow> 'q resource_requirements \<Rightarrow> bool) \<Rightarrow> 'q slot_config list \<Rightarrow>
     ('q, 'w) slot_manager \<Rightarrow> go_error option \<times> ('q, 'w) slot_manager" where
  "ApplySlots deepEqual configs m =
     (case desiredSlots configs [] of
        Inl e \<Rightarrow> (Some e, m)
      | Inr desired \<Rightarrow>
          (case checkApply deepEqual desired (sm_slots m) of
             Some e \<Rightarrow> (Some e, m)
           | None \<Rightarrow>
               let nextSlots = map (\<lambda>(sid, cfg).
                     (sid, case map_of (sm_slots m) sid of Some current \<Rightarrow> current | None \<Rightarrow> newManagedSlot cfg)) desired
               in (None, m\<lparr>sm_slots := nextSlots, sm_config := (sm_config m)\<lparr>wc_Slots := configs\<rparr>\<rparr>)))"

subsection \<open>The life of a Sandbox in a Slot\<close>

definition reserveLocked :: "sandbox_slot_ref \<Rightarrow> 'q managed_slot \<Rightarrow> 'w \<Rightarrow> go_error option \<times> 'q managed_slot \<times> 'w" where
  "reserveLocked ref current w =
     (if mg_state current = StateFree
      then (None, current\<lparr>mg_state := StateReserved, mg_sandbox := sr_Identity ref\<rparr>, w)
      else if id_UID (mg_sandbox current) = id_UID (sr_Identity ref) then (None, current, w)
      else (Some (wrapf ErrSlotConflict ''%w: slot %d is owned by sandbox %q''
                   [FD (sr_SlotID ref), FS (id_UID (mg_sandbox current))]), current, w))"

definition ReserveSlot ::
    "sandbox_slot_ref \<Rightarrow> ('q, 'w) slot_manager \<Rightarrow> 'w \<Rightarrow> go_error option \<times> ('q, 'w) slot_manager \<times> 'w" where
  "ReserveSlot ref = onSlot (sr_Identity ref) (sr_SlotID ref) (reserveLocked ref)"

text \<open>
  \<open>StartSandbox\<close> in the three stages of the source.  A stage either returns (\<open>Inl\<close>) or leaves the
  Slot for the next one (\<open>Inr\<close>).
\<close>

type_synonym ('q, 'w) stage = "(go_error option \<times> 'q managed_slot \<times> 'w) + ('q managed_slot \<times> 'w)"

definition checkRunning :: "('q, 'w) runtime_iface \<Rightarrow> 'q managed_slot \<Rightarrow> 'w \<Rightarrow> ('q, 'w) stage" where
  "checkRunning rt current w =
     (if mg_state current \<noteq> StateRunning then Inr (current, w)
      else case mg_runtimeRef current of
        None \<Rightarrow> Inr (current\<lparr>mg_state := StateReserved\<rparr>, w)
      | Some rid \<Rightarrow>
          let (status, w) = rt_Status rt rid w;
              removeStale =
                (let (derr, w) = rt_Delete rt rid w in
                 case derr of
                   Some e \<Rightarrow> Inl (Some (Errorf ''delete stale runtime: %w'' [FW e]),
                                  current\<lparr>mg_state := StateFailed\<rparr>, w)
                 | None \<Rightarrow> Inr (current\<lparr>mg_runtimeRef := None, mg_state := StateReserved\<rparr>, w))
          in case status of
               Inr st \<Rightarrow> if rs_State st = RtRunning then Inl (None, current, w) else removeStale
             | Inl e \<Rightarrow> if errors_is RuntimeErrNotFound e then removeStale
                        else Inl (Some (Errorf ''check running runtime: %w'' [FW e]), current, w))"

definition resumeStart :: "('q, 'w) runtime_iface \<Rightarrow> 'q managed_slot \<Rightarrow> 'w \<Rightarrow> ('q, 'w) stage" where
  "resumeStart rt current w =
     (case mg_runtimeRef current of
        Some rid \<Rightarrow>
          if mg_state current \<noteq> StateStarting then Inr (current, w)
          else
            (let (serr, w) = rt_Start rt rid w in
             case serr of
               None \<Rightarrow> Inl (None, current\<lparr>mg_state := StateRunning\<rparr>, w)
             | Some e \<Rightarrow>
                 let (cerr, w) = rt_Delete rt rid w in
                 case cerr of
                   Some c \<Rightarrow> Inl (Some (Errorf ''resume runtime start: %v; clean failed runtime: %w'' [FV e, FW c]),
                                  current\<lparr>mg_runtimeRef := None, mg_state := StateFailed\<rparr>, w)
                 | None \<Rightarrow> Inl (Some (Errorf ''resume runtime start: %w'' [FW e]),
                                  current\<lparr>mg_runtimeRef := None, mg_state := StateReserved\<rparr>, w))
      | None \<Rightarrow> Inr (current, w))"

definition createAndStart ::
    "('q, 'w) runtime_iface \<Rightarrow> start_sandbox_request \<Rightarrow> 'q managed_slot \<Rightarrow> 'w \<Rightarrow>
     go_error option \<times> 'q managed_slot \<times> 'w" where
  "createAndStart rt req current w =
     (if mg_state current \<noteq> StateReserved
      then (Some (Errorf ''slot %d cannot start from state %q''
                    [FD (sq_SlotID req), FS (stateString (mg_state current))]), current, w)
      else case containerConfig req of
        Inl e \<Rightarrow> (Some e, current, w)
      | Inr container \<Rightarrow>
          let (created, w) = rt_Create rt
                \<lparr>re_Identity = sq_Identity req, re_SlotID = sq_SlotID req,
                 re_Resources = mg_resources current, re_Container = container\<rparr> w
          in case created of
               Inl e \<Rightarrow> (Some (Errorf ''create runtime: %w'' [FW e]), current\<lparr>mg_state := StateReserved\<rparr>, w)
             | Inr runtimeID \<Rightarrow>
                 let (serr, w) = rt_Start rt runtimeID w in
                 case serr of
                   None \<Rightarrow> (None, current\<lparr>mg_state := StateRunning, mg_runtimeRef := Some runtimeID,
                                   mg_restored := IsRestoredID runtimeID\<rparr>, w)
                 | Some e \<Rightarrow>
                     let (cerr, w) = rt_Delete rt runtimeID w in
                     case cerr of
                       Some c \<Rightarrow> (Some (Errorf ''start runtime: %v; clean failed runtime: %w'' [FV e, FW c]),
                                   current\<lparr>mg_runtimeRef := None, mg_restored := False, mg_state := StateFailed\<rparr>, w)
                     | None \<Rightarrow> (Some (Errorf ''start runtime: %w'' [FW e]),
                                current\<lparr>mg_runtimeRef := None, mg_restored := False, mg_state := StateReserved\<rparr>, w))"

definition startLocked ::
    "('q, 'w) runtime_iface \<Rightarrow> start_sandbox_request \<Rightarrow> 'q managed_slot \<Rightarrow> 'w \<Rightarrow>
     go_error option \<times> 'q managed_slot \<times> 'w" where
  "startLocked rt req current w =
     (if id_UID (mg_sandbox current) \<noteq> id_UID (sq_Identity req)
      then (Some (wrapf ErrSlotConflict ''%w: slot %d is not reserved by sandbox %q''
                    [FD (sq_SlotID req), FS (id_UID (sq_Identity req))]), current, w)
      else case checkRunning rt current w of
             Inl r \<Rightarrow> r
           | Inr (current, w) \<Rightarrow>
               (case resumeStart rt current w of
                  Inl r \<Rightarrow> r
                | Inr (current, w) \<Rightarrow> createAndStart rt req current w))"

definition StartSandbox ::
    "start_sandbox_request \<Rightarrow> ('q, 'w) slot_manager \<Rightarrow> 'w \<Rightarrow> go_error option \<times> ('q, 'w) slot_manager \<times> 'w" where
  "StartSandbox req m = onSlot (sq_Identity req) (sq_SlotID req) (startLocked (sm_runtime m) req) m"

definition stopLocked ::
    "'w host_iface \<Rightarrow> ('q, 'w) slot_manager \<Rightarrow> sandbox_slot_ref \<Rightarrow> 'q managed_slot \<Rightarrow> 'w \<Rightarrow>
     go_error option \<times> 'q managed_slot \<times> 'w" where
  "stopLocked os m ref current w =
     (if mg_state current = StateFree then (None, current, w)
      else if id_UID (mg_sandbox current) \<noteq> id_UID (sr_Identity ref)
      then (Some (wrapf ErrSlotConflict ''%w: slot %d is owned by sandbox %q''
                    [FD (sr_SlotID ref), FS (id_UID (mg_sandbox current))]), current, w)
      else if mg_state current = StateStopping \<or> mg_state current = StateCleaning then (None, current, w)
      else
        let current = current\<lparr>mg_state := StateStopping\<rparr> in
        case mg_runtimeRef current of
          None \<Rightarrow> (None, current, w)
        | Some rid \<Rightarrow>
            if mg_restored current then
              (case Registry_For (sm_snapshotters m) (runtimeHandler m) of
                 Inl e \<Rightarrow> (Some e, current\<lparr>mg_state := StateFailed\<rparr>, w)
               | Inr snap \<Rightarrow>
                   let (derr, w) = sh_DeleteRestored snap rid w in
                   case derr of
                     Some e \<Rightarrow> (Some (Errorf ''stop restored runtime: %w'' [FW e]),
                                current\<lparr>mg_state := StateFailed\<rparr>, w)
                   | None \<Rightarrow>
                       let (current, w) = clearRestoreDir os (current\<lparr>mg_runtimeRef := None\<rparr>) w
                       in (None, current, w))
            else
              let (serr, w) = rt_Stop (sm_runtime m) rid w in
              case serr of
                Some e \<Rightarrow> (Some (Errorf ''stop runtime: %w'' [FW e]), current\<lparr>mg_state := StateFailed\<rparr>, w)
              | None \<Rightarrow> (None, current, w))"

definition StopSandbox ::
    "'w host_iface \<Rightarrow> sandbox_slot_ref \<Rightarrow> ('q, 'w) slot_manager \<Rightarrow> 'w \<Rightarrow>
     go_error option \<times> ('q, 'w) slot_manager \<times> 'w" where
  "StopSandbox os ref m = onSlot (sr_Identity ref) (sr_SlotID ref) (stopLocked os m ref) m"

text \<open>The deletion of the runtime object that \<open>ReleaseSlot\<close> does before it frees the Slot.\<close>

definition releaseRuntime ::
    "('q, 'w) slot_manager \<Rightarrow> 'q managed_slot \<Rightarrow> 'w \<Rightarrow> go_error option \<times> 'w" where
  "releaseRuntime m current w =
     (case mg_runtimeRef current of
        None \<Rightarrow> (None, w)
      | Some rid \<Rightarrow>
          if mg_restored current then
            (case Registry_For (sm_snapshotters m) (runtimeHandler m) of
               Inl e \<Rightarrow> (Some e, w)
             | Inr snap \<Rightarrow>
                 let (derr, w) = sh_DeleteRestored snap rid w in
                 case derr of
                   Some e \<Rightarrow> (Some (Errorf ''delete restored runtime: %w'' [FW e]), w)
                 | None \<Rightarrow> (None, w))
          else
            let (derr, w) = rt_Delete (sm_runtime m) rid w in
            case derr of
              Some e \<Rightarrow> (Some (Errorf ''delete runtime: %w'' [FW e]), w)
            | None \<Rightarrow> (None, w))"

definition releaseLocked ::
    "'w host_iface \<Rightarrow> ('q, 'w) slot_manager \<Rightarrow> sandbox_slot_ref \<Rightarrow> 'q managed_slot \<Rightarrow> 'w \<Rightarrow>
     go_error option \<times> 'q managed_slot \<times> 'w" where
  "releaseLocked os m ref current w =
     (if mg_state current = StateFree then (None, current, w)
      else if id_UID (mg_sandbox current) \<noteq> id_UID (sr_Identity ref)
      then (Some (wrapf ErrSlotConflict ''%w: slot %d is owned by sandbox %q''
                    [FD (sr_SlotID ref), FS (id_UID (mg_sandbox current))]), current, w)
      else
        let (err, w) = releaseRuntime m current w in
        case err of
          Some e \<Rightarrow> (Some e, current\<lparr>mg_state := StateFailed\<rparr>, w)
        | None \<Rightarrow>
            let (current, w) = clearRestoreDir os
                  (current\<lparr>mg_state := StateFree, mg_sandbox := noIdentity, mg_runtimeRef := None,
                           mg_restored := False\<rparr>) w
            in (None, current, w))"

definition ReleaseSlot ::
    "'w host_iface \<Rightarrow> sandbox_slot_ref \<Rightarrow> ('q, 'w) slot_manager \<Rightarrow> 'w \<Rightarrow>
     go_error option \<times> ('q, 'w) slot_manager \<times> 'w" where
  "ReleaseSlot os ref m = onSlot (sr_Identity ref) (sr_SlotID ref) (releaseLocked os m ref) m"

subsection \<open>Queries\<close>

definition GetSandbox :: "sandbox_slot_ref \<Rightarrow> ('q, 'w) slot_manager \<Rightarrow> go_error + sandbox_info" where
  "GetSandbox ref m =
     (case validateIdentity (sr_Identity ref) of
        Some e \<Rightarrow> Inl e
      | None \<Rightarrow>
          (case getSlot m (sr_SlotID ref) of
             Inl e \<Rightarrow> Inl e
           | Inr current \<Rightarrow>
               if mg_state current = StateFree \<or> id_UID (mg_sandbox current) \<noteq> id_UID (sr_Identity ref)
               then Inl (Sentinel ErrSandboxNotFound)
               else Inr \<lparr>sx_Identity = mg_sandbox current, sx_SlotID = mg_id current, sx_State = mg_state current\<rparr>))"

definition execRestored ::
    "('q, 'w) slot_manager \<Rightarrow> runtime_id \<Rightarrow> exec_request \<Rightarrow> 'w \<Rightarrow> (go_error + exec_result) \<times> 'w" where
  "execRestored m rid req w =
     (case Registry_For (sm_snapshotters m) (runtimeHandler m) of
        Inl e \<Rightarrow> (Inl e, w)
      | Inr snap \<Rightarrow> sh_ExecRestored snap rid req w)"

text \<open>Durations are in nanoseconds; the product wraps as Go's \<open>int64\<close> does.\<close>

definition ExecSandbox ::
    "exec_sandbox_request \<Rightarrow> ('q, 'w) slot_manager \<Rightarrow> 'w \<Rightarrow> (go_error + exec_sandbox_result) \<times> 'w" where
  "ExecSandbox req m w =
     (case validateIdentity (xq_Identity req) of
        Some e \<Rightarrow> (Inl e, w)
      | None \<Rightarrow>
          if xq_Command req = [] then (Inl (wrapf ErrInvalidRequest ''%w: command is required'' []), w)
          else case getSlot m (xq_SlotID req) of
            Inl e \<Rightarrow> (Inl e, w)
          | Inr current \<Rightarrow>
              if mg_state current = StateFree \<or> id_UID (mg_sandbox current) \<noteq> id_UID (xq_Identity req)
              then (Inl (Sentinel ErrSandboxNotFound), w)
              else case mg_runtimeRef current of
                None \<Rightarrow> (Inl (wrapf ErrInvalidRequest ''%w: sandbox is not running'' []), w)
              | Some rid \<Rightarrow>
                  if mg_state current \<noteq> StateRunning
                  then (Inl (wrapf ErrInvalidRequest ''%w: sandbox is not running'' []), w)
                  else
                    let execReq = \<lparr>eq_Command = xq_Command req,
                          eq_Timeout = (if xq_TimeoutSeconds req > 0
                                        then wrap64 (xq_TimeoutSeconds req * 1000000000) else 0)\<rparr>;
                        (result, w) = (if mg_restored current then execRestored m rid execReq w
                                       else rt_Exec (sm_runtime m) rid execReq w)
                    in (case result of
                          Inl e \<Rightarrow> Inl (Errorf (if mg_restored current then ''exec restored sandbox: %w''
                                               else ''exec sandbox: %w'') [FW e])
                        | Inr r \<Rightarrow> Inr \<lparr>xr_ExitCode = er_ExitCode r, xr_Stdout = er_Stdout r,
                                       xr_Stderr = er_Stderr r\<rparr>, w))"

definition ListSlots :: "('q, 'w) slot_manager \<Rightarrow> slot_info list" where
  "ListSlots m =
     concat (map (\<lambda>sid.
       case getSlot m sid of
         Inl _ \<Rightarrow> []
       | Inr current \<Rightarrow> [\<lparr>si_ID = sid, si_Profile = mg_profile current, si_State = mg_state current,
                          si_SandboxUID = id_UID (mg_sandbox current)\<rparr>])
       (sort (map fst (sm_slots m))))"

subsection \<open>Recovery\<close>

fun recoverObjects ::
    "runtime_info list \<Rightarrow> ('q, 'w) slot_manager \<Rightarrow> go_error option \<times> ('q, 'w) slot_manager" where
  "recoverObjects [] m = (None, m)"
| "recoverObjects (obj # objects) m =
     (case getSlot m (ri_SlotID obj) of
        Inl _ \<Rightarrow> (Some (Errorf ''runtime %q references unknown slot %d'' [FS (ri_ID obj), FD (ri_SlotID obj)]), m)
      | Inr current \<Rightarrow>
          if mg_state current \<noteq> StateFree
          then (Some (Errorf ''multiple runtime objects reference slot %d'' [FD (ri_SlotID obj)]),
                m\<lparr>sm_slots := gm_set (ri_SlotID obj) (current\<lparr>mg_state := StateFailed\<rparr>) (sm_slots m)\<rparr>)
          else recoverObjects objects
                (m\<lparr>sm_slots := gm_set (ri_SlotID obj)
                    (current\<lparr>mg_sandbox := ri_Identity obj, mg_runtimeRef := Some (ri_ID obj),
                             mg_state := runtimeSlotState (rs_State (ri_Status obj))\<rparr>) (sm_slots m)\<rparr>))"

definition Recover ::
    "('q, 'w) slot_manager \<Rightarrow> 'w \<Rightarrow> go_error option \<times> ('q, 'w) slot_manager \<times> 'w" where
  "Recover m w =
     (let (objs, w) = rt_List (sm_runtime m) w in
      case objs of
        Inl e \<Rightarrow> (Some (Errorf ''list runtime objects: %w'' [FW e]), m, w)
      | Inr objects \<Rightarrow> let (err, m') = recoverObjects objects m in (err, m', w))"

end
