(* ===== verification/SnapshotStore.thy ===== *)
theory SnapshotStore
  imports ApiTypes GoStrings
begin

text \<open>
  The package \<open>internal/snapshotstore\<close>: the layout of a snapshot in object storage, its upload,
  download and deletion (\<open>store.go\<close>, \<open>zstd.go\<close>) and the S3 adapter's configuration (\<open>s3.go\<close>).
  The object store, the local file system, the zstd codec and the JSON codec of the manifest are
  the interface \<open>store_env\<close>; its functions act on the outside world \<open>'w\<close>.
\<close>

subsection \<open>Data\<close>

record source_sandbox =
  so_Namespace :: string
  so_Name :: string
  so_UID :: string

text \<open>\<open>CreatedAt\<close> is 0 for Go's zero time.\<close>

record manifest =
  mf_RuntimeHandler :: string
  mf_FormatVersion :: string
  mf_SnapshotFiles :: "string list"
  mf_SourceSandbox :: source_sandbox
  mf_PoolRef :: string
  mf_Container :: container_spec
  mf_CreatedAt :: int

record 'w blob_storage =
  bl_Put :: "string \<Rightarrow> string \<Rightarrow> 'w \<Rightarrow> go_error option \<times> 'w"
  bl_Get :: "string \<Rightarrow> 'w \<Rightarrow> (go_error + string) \<times> 'w"
  bl_Delete :: "string \<Rightarrow> 'w \<Rightarrow> go_error option \<times> 'w"

text \<open>
  \<open>se_ReadDir\<close> lists the names of a directory with the flag whether each is a regular file.
  \<open>se_Compress\<close> stands for the temporary file and the zstd writer of \<open>uploadZstdFile\<close>;
  \<open>se_NewReader\<close> opens a zstd stream and \<open>se_CopyDecoded\<close> copies what it decodes into an open
  file, which an error may leave incomplete.
\<close>

record 'w store_env =
  se_ReadDir :: "string \<Rightarrow> 'w \<Rightarrow> (go_error + (string \<times> bool) list) \<times> 'w"
  se_ReadFile :: "string \<Rightarrow> 'w \<Rightarrow> (go_error + string) \<times> 'w"
  se_OpenFile :: "string \<Rightarrow> 'w \<Rightarrow> go_error option \<times> 'w"
  se_MkdirAll :: "string \<Rightarrow> 'w \<Rightarrow> go_error option \<times> 'w"
  se_Now :: "'w \<Rightarrow> int \<times> 'w"
  se_Compress :: "string \<Rightarrow> 'w \<Rightarrow> (go_error + string) \<times> 'w"
  se_NewReader :: "string \<Rightarrow> go_error option"
  se_CopyDecoded :: "string \<Rightarrow> string \<Rightarrow> 'w \<Rightarrow> go_error option \<times> 'w"
  se_Marshal :: "manifest \<Rightarrow> go_error + string"
  se_Unmarshal :: "string \<Rightarrow> go_error + manifest"

definition ManifestFileName :: string where "ManifestFileName = ''manifest.json''"

definition zstdSuffix :: string where "zstdSuffix = ''.zstd''"

subsection \<open>Paths and names\<close>

definition normalizeStoragePath :: "string \<Rightarrow> string" where
  "normalizeStoragePath path =
     (let path = TrimPrefix (TrimSpace path) ''/'' in
      if path \<noteq> [] \<and> \<not> HasSuffix path ''/'' then path @ ''/'' else path)"

definition validateFileName :: "string \<Rightarrow> go_error option" where
  "validateFileName name =
     (if name = [] \<or> Contains name ''/'' \<or> Contains name ''..''
      then Some (Errorf ''invalid snapshot file name %q'' [FS name]) else None)"

definition listRegularFiles :: "'w store_env \<Rightarrow> string \<Rightarrow> 'w \<Rightarrow> (go_error + string list) \<times> 'w" where
  "listRegularFiles env dir w =
     (let (entries, w) = se_ReadDir env dir w in
      case entries of
        Inl e \<Rightarrow> (Inl e, w)
      | Inr es \<Rightarrow> (Inr (sort (map fst (filter (\<lambda>(name, regular). regular \<and> name \<noteq> ManifestFileName) es))), w))"

subsection \<open>Files\<close>

definition uploadZstdFile ::
    "'w store_env \<Rightarrow> 'w blob_storage \<Rightarrow> string \<Rightarrow> string \<Rightarrow> 'w \<Rightarrow> (go_error + int) \<times> 'w" where
  "uploadZstdFile env objects key localPath w =
     (let (src, w) = se_ReadFile env localPath w in
      case src of
        Inl e \<Rightarrow> (Inl e, w)
      | Inr raw \<Rightarrow>
          let (tmp, w) = se_Compress env raw w in
          case tmp of
            Inl e \<Rightarrow> (Inl e, w)
          | Inr packed \<Rightarrow>
              let (err, w) = bl_Put objects key packed w in
              case err of Some e \<Rightarrow> (Inl e, w) | None \<Rightarrow> (Inr (int (length raw)), w))"

definition downloadZstdFile ::
    "'w store_env \<Rightarrow> 'w blob_storage \<Rightarrow> string \<Rightarrow> string \<Rightarrow> 'w \<Rightarrow> go_error option \<times> 'w" where
  "downloadZstdFile env objects key destPath w =
     (let (rc, w) = bl_Get objects key w in
      case rc of
        Inl e \<Rightarrow> (Some e, w)
      | Inr packed \<Rightarrow>
          (case se_NewReader env packed of
             Some e \<Rightarrow> (Some (Errorf ''open zstd: %w'' [FW e]), w)
           | None \<Rightarrow>
               let (err, w) = se_OpenFile env destPath w in
               case err of
                 Some e \<Rightarrow> (Some e, w)
               | None \<Rightarrow> se_CopyDecoded env packed destPath w))"

fun uploadFiles ::
    "'w store_env \<Rightarrow> 'w blob_storage \<Rightarrow> string \<Rightarrow> string \<Rightarrow> string list \<Rightarrow> int \<Rightarrow> 'w \<Rightarrow>
     (go_error \<times> int + int) \<times> 'w" where
  "uploadFiles env objects prefix localDir [] tot w = (Inr tot, w)"
| "uploadFiles env objects prefix localDir (name # names) tot w =
     (let (n, w) = uploadZstdFile env objects (prefix @ name @ zstdSuffix) (Join [localDir, name]) w in
      case n of
        Inl e \<Rightarrow> (Inl (Errorf ''upload %s: %w'' [FS name, FW e], tot), w)
      | Inr n \<Rightarrow> uploadFiles env objects prefix localDir names (tot + n) w)"

subsection \<open>The operations\<close>

text \<open>The result is the size so far and, when the upload failed, the error.\<close>

definition Upload ::
    "'w store_env \<Rightarrow> 'w blob_storage \<Rightarrow> string \<Rightarrow> string \<Rightarrow> manifest \<Rightarrow> 'w \<Rightarrow>
     (int \<times> go_error option) \<times> 'w" where
  "Upload env objects storagePath localDir manifest w =
     (let prefix = normalizeStoragePath storagePath;
          (listed, w) = listRegularFiles env localDir w
      in case listed of
           Inl e \<Rightarrow> ((0, Some e), w)
         | Inr files \<Rightarrow>
             if files = [] then
               ((0, Some (Errorf ''checkpoint dir %q has no files to upload'' [FS localDir])), w)
             else
               let manifest = manifest\<lparr>mf_SnapshotFiles := files\<rparr>;
                   (manifest, w) = (if mf_CreatedAt manifest = 0
                                    then let (now, w) = se_Now env w in (manifest\<lparr>mf_CreatedAt := now\<rparr>, w)
                                    else (manifest, w));
                   (sent, w) = uploadFiles env objects prefix localDir files 0 w
               in case sent of
                    Inl (e, tot) \<Rightarrow> ((tot, Some e), w)
                  | Inr tot \<Rightarrow>
                      (case se_Marshal env manifest of
                         Inl e \<Rightarrow> ((tot, Some e), w)
                       | Inr raw \<Rightarrow>
                           let (err, w) = bl_Put objects (prefix @ ManifestFileName) raw w in
                           case err of
                             Some e \<Rightarrow> ((tot, Some (Errorf ''upload manifest: %w'' [FW e])), w)
                           | None \<Rightarrow> ((tot, None), w)))"

definition GetManifest ::
    "'w store_env \<Rightarrow> 'w blob_storage \<Rightarrow> string \<Rightarrow> 'w \<Rightarrow> (go_error + manifest) \<times> 'w" where
  "GetManifest env objects storagePath w =
     (let (rc, w) = bl_Get objects (normalizeStoragePath storagePath @ ManifestFileName) w in
      case rc of
        Inl e \<Rightarrow> (Inl (Errorf ''get manifest: %w'' [FW e]), w)
      | Inr raw \<Rightarrow>
          (case se_Unmarshal env raw of
             Inl e \<Rightarrow> (Inl (Errorf ''parse manifest: %w'' [FW e]), w)
           | Inr manifest \<Rightarrow> (Inr manifest, w)))"

fun downloadFiles ::
    "'w store_env \<Rightarrow> 'w blob_storage \<Rightarrow> string \<Rightarrow> string \<Rightarrow> string list \<Rightarrow> 'w \<Rightarrow> go_error option \<times> 'w" where
  "downloadFiles env objects prefix localDir [] w = (None, w)"
| "downloadFiles env objects prefix localDir (name # names) w =
     (case validateFileName name of
        Some e \<Rightarrow> (Some e, w)
      | None \<Rightarrow>
          let (err, w) = downloadZstdFile env objects (prefix @ name @ zstdSuffix) (Join [localDir, name]) w in
          case err of
            Some e \<Rightarrow> (Some (Errorf ''download %s: %w'' [FS name, FW e]), w)
          | None \<Rightarrow> downloadFiles env objects prefix localDir names w)"

definition Download ::
    "'w store_env \<Rightarrow> 'w blob_storage \<Rightarrow> string \<Rightarrow> string \<Rightarrow> 'w \<Rightarrow> (go_error + manifest) \<times> 'w" where
  "Download env objects storagePath localDir w =
     (let prefix = normalizeStoragePath storagePath;
          (err, w) = se_MkdirAll env localDir w
      in case err of
           Some e \<Rightarrow> (Inl e, w)
         | None \<Rightarrow>
             let (got, w) = GetManifest env objects prefix w in
             case got of
               Inl e \<Rightarrow> (Inl e, w)
             | Inr manifest \<Rightarrow>
                 if mf_SnapshotFiles manifest = []
                 then (Inl (Errorf ''manifest at %q lists no snapshotFiles'' [FS prefix]), w)
                 else
                   let (err, w) = downloadFiles env objects prefix localDir (mf_SnapshotFiles manifest) w in
                   case err of Some e \<Rightarrow> (Inl e, w) | None \<Rightarrow> (Inr manifest, w))"

definition firstError :: "go_error option \<Rightarrow> go_error option \<Rightarrow> go_error option" where
  "firstError firstErr err = (case firstErr of None \<Rightarrow> err | Some e \<Rightarrow> Some e)"

fun deleteFiles ::
    "'w blob_storage \<Rightarrow> string \<Rightarrow> string list \<Rightarrow> go_error option \<Rightarrow> 'w \<Rightarrow> go_error option \<times> 'w" where
  "deleteFiles objects prefix [] firstErr w = (firstErr, w)"
| "deleteFiles objects prefix (name # names) firstErr w =
     (if validateFileName name \<noteq> None then deleteFiles objects prefix names firstErr w
      else let (err, w) = bl_Delete objects (prefix @ name @ zstdSuffix) w in
        deleteFiles objects prefix names (firstError firstErr err) w)"

definition store_Delete ::
    "'w store_env \<Rightarrow> 'w blob_storage \<Rightarrow> string \<Rightarrow> string list \<Rightarrow> 'w \<Rightarrow> go_error option \<times> 'w" where
  "store_Delete env objects storagePath snapshotFiles w =
     (let prefix = normalizeStoragePath storagePath;
          (files, w) = (if snapshotFiles \<noteq> [] then (snapshotFiles, w)
                        else let (got, w) = GetManifest env objects prefix w in
                          case got of Inr manifest \<Rightarrow> (mf_SnapshotFiles manifest, w) | Inl _ \<Rightarrow> ([], w));
          (firstErr, w) = deleteFiles objects prefix files None w;
          (err, w) = bl_Delete objects (prefix @ ManifestFileName) w
      in (firstError firstErr err, w))"

subsection \<open>S3\<close>

record s3_config =
  sf_Endpoint :: string
  sf_Bucket :: string
  sf_Region :: string
  sf_AccessKeyID :: string
  sf_SecretAccessKey :: string
  sf_UsePathStyle :: bool

record s3_options =
  sx_Region :: string
  sx_Credentials :: "string \<times> string"
  sx_UsePathStyle :: bool
  sx_BaseEndpoint :: "string option"

text \<open>The client of the AWS SDK: the operations on a bucket and a key.\<close>

record 'w s3_client =
  cl_PutObject :: "string \<Rightarrow> string \<Rightarrow> string \<Rightarrow> 'w \<Rightarrow> go_error option \<times> 'w"
  cl_GetObject :: "string \<Rightarrow> string \<Rightarrow> 'w \<Rightarrow> (go_error + string) \<times> 'w"
  cl_DeleteObject :: "string \<Rightarrow> string \<Rightarrow> 'w \<Rightarrow> go_error option \<times> 'w"

definition S3_Put :: "'w s3_client \<Rightarrow> string \<Rightarrow> string \<Rightarrow> string \<Rightarrow> 'w \<Rightarrow> go_error option \<times> 'w" where
  "S3_Put client bucket key body w =
     (let (err, w) = cl_PutObject client bucket key body w in
      (map_option (\<lambda>e. Errorf ''s3 put %q: %w'' [FS key, FW e]) err, w))"

definition S3_Get :: "'w s3_client \<Rightarrow> string \<Rightarrow> string \<Rightarrow> 'w \<Rightarrow> (go_error + string) \<times> 'w" where
  "S3_Get client bucket key w =
     (let (out, w) = cl_GetObject client bucket key w in
      (map_sum (\<lambda>e. Errorf ''s3 get %q: %w'' [FS key, FW e]) (\<lambda>body. body) out, w))"

definition S3_Delete :: "'w s3_client \<Rightarrow> string \<Rightarrow> string \<Rightarrow> 'w \<Rightarrow> go_error option \<times> 'w" where
  "S3_Delete client bucket key w =
     (let (err, w) = cl_DeleteObject client bucket key w in
      (map_option (\<lambda>e. Errorf ''s3 delete %q: %w'' [FS key, FW e]) err, w))"

definition NewS3 :: "(s3_options \<Rightarrow> 'w s3_client) \<Rightarrow> s3_config \<Rightarrow> go_error + 'w blob_storage" where
  "NewS3 s3_New cfg =
     (if sf_Bucket cfg = [] then Inl (Errorf ''s3 bucket is required'' [])
      else
        let region = (if sf_Region cfg = [] then ''us-east-1'' else sf_Region cfg);
            options = \<lparr>sx_Region = region, sx_Credentials = (sf_AccessKeyID cfg, sf_SecretAccessKey cfg),
                       sx_UsePathStyle = sf_UsePathStyle cfg \<or> sf_Endpoint cfg \<noteq> [],
                       sx_BaseEndpoint = (if sf_Endpoint cfg \<noteq> [] then Some (sf_Endpoint cfg) else None)\<rparr>;
            client = s3_New options
        in Inr \<lparr>bl_Put = S3_Put client (sf_Bucket cfg), bl_Get = S3_Get client (sf_Bucket cfg),
                bl_Delete = S3_Delete client (sf_Bucket cfg)\<rparr>)"

end
