(* ===== verification/WorkerSnapshot.thy ===== *)
theory WorkerSnapshot
  imports SlotManager SnapshotStore
begin

text \<open>
  Snapshots on the Worker, \<open>internal/worker/snapshot.go\<close>: taking one of a running Sandbox, restoring
  one into a reserved Slot, deleting one's objects.  \<open>we_S3New\<close> is the constructor of the AWS
  client, \<open>we_Os\<close> and \<open>we_Store\<close> are the operating system and the storage environment.
\<close>

record 'w worker_env =
  we_Os :: "'w host_iface"
  we_Store :: "'w store_env"
  we_S3New :: "s3_options \<Rightarrow> 'w s3_client"

definition openSnapshotStorage :: "'w worker_env \<Rightarrow> object_storage_config \<Rightarrow> go_error + 'w blob_storage" where
  "openSnapshotStorage env cfg =
     NewS3 (we_S3New env)
       \<lparr>sf_Endpoint = oc_Endpoint cfg, sf_Bucket = oc_Bucket cfg, sf_Region = oc_Region cfg,
        sf_AccessKeyID = oc_AccessKeyID cfg, sf_SecretAccessKey = oc_SecretAccessKey cfg,
        sf_UsePathStyle = oc_UsePathStyle cfg \<or> oc_Endpoint cfg \<noteq> []\<rparr>"

definition tearsDownOnSave :: "'w snapshotter \<Rightarrow> bool" where
  "tearsDownOnSave snap = (case sh_TearsDownOnSave snap of Some b \<Rightarrow> b | None \<Rightarrow> False)"

definition primaryContainerID ::
    "('q, 'w) runtime_iface \<Rightarrow> runtime_id \<Rightarrow> 'w \<Rightarrow> (go_error + string) \<times> 'w" where
  "primaryContainerID rt rid w =
     (case rt_PrimaryContainerID rt of None \<Rightarrow> (Inr [], w) | Some resolve \<Rightarrow> resolve rid w)"

text \<open>What follows the saved checkpoint: the upload, and the manifest read back.\<close>

definition uploadCheckpoint ::
    "'w worker_env \<Rightarrow> 'w snapshotter \<Rightarrow> string \<Rightarrow> create_snapshot_request \<Rightarrow> string \<Rightarrow> 'w \<Rightarrow>
     (go_error + create_snapshot_result) \<times> 'w" where
  "uploadCheckpoint env snap handler req workDir w =
     (case openSnapshotStorage env (cq_Storage req) of
        Inl e \<Rightarrow> (Inl e, w)
      | Inr objects \<Rightarrow>
          let (now, w) = se_Now (we_Store env) w;
              manifest = \<lparr>mf_RuntimeHandler = handler, mf_FormatVersion = sh_FormatVersion snap,
                mf_SnapshotFiles = [],
                mf_SourceSandbox = \<lparr>so_Namespace = id_Namespace (cq_Identity req),
                  so_Name = id_Name (cq_Identity req), so_UID = id_UID (cq_Identity req)\<rparr>,
                mf_PoolRef = cq_Pool req, mf_Container = cq_Container req, mf_CreatedAt = now\<rparr>;
              ((bytes, err), w) = Upload (we_Store env) objects (cq_StoragePath req) workDir manifest w
          in case err of
               Some e \<Rightarrow>
                 let (_, w) = store_Delete (we_Store env) objects (cq_StoragePath req) [] w
                 in (Inl (Errorf ''upload snapshot: %w'' [FW e]), w)
             | None \<Rightarrow>
                 let (got, w) = GetManifest (we_Store env) objects (cq_StoragePath req) w in
                 case got of
                   Inl e \<Rightarrow> (Inl e, w)
                 | Inr uploaded \<Rightarrow>
                     (Inr \<lparr>ct_StoragePath = cq_StoragePath req, ct_SnapshotFiles = mf_SnapshotFiles uploaded,
                           ct_Digest = [], ct_SizeBytes = bytes, ct_FormatVersion = sh_FormatVersion snap,
                           ct_Runtime = handler\<rparr>, w))"

definition createSnapshotLocked ::
    "'w worker_env \<Rightarrow> ('q, 'w) slot_manager \<Rightarrow> 'w snapshotter \<Rightarrow> string \<Rightarrow> create_snapshot_request \<Rightarrow>
     'q managed_slot \<Rightarrow> 'w \<Rightarrow> (go_error + create_snapshot_result) \<times> 'q managed_slot \<times> 'w" where
  "createSnapshotLocked env m snap handler req current w =
     (case mg_runtimeRef current of
        None \<Rightarrow> (Inl (wrapf ErrInvalidRequest ''%w: sandbox is not running on slot %d'' [FD (cq_SlotID req)]),
                 current, w)
      | Some rid \<Rightarrow>
          if mg_state current \<noteq> StateRunning \<or> id_UID (mg_sandbox current) \<noteq> id_UID (cq_Identity req)
          then (Inl (wrapf ErrInvalidRequest ''%w: sandbox is not running on slot %d'' [FD (cq_SlotID req)]),
                current, w)
          else
            let (dir, w) = ho_MkdirTemp (we_Os env) ''sandboxfleet-snapshot-*'' w in
            case dir of
              Inl e \<Rightarrow> (Inl e, current, w)
            | Inr workDir \<Rightarrow>
                let finish = (\<lambda>(res, current, w).
                      let (_, w) = ho_RemoveAll (we_Os env) workDir w in (res, current, w));
                    (cid, w) = (if IsRestoredID rid then (Inr [], w)
                                else primaryContainerID (sm_runtime m) rid w)
                in case cid of
                     Inl e \<Rightarrow> finish (Inl (Errorf ''resolve container id: %w'' [FW e]), current, w)
                   | Inr containerID \<Rightarrow>
                       let (serr, w) = sh_SaveSnapshot snap
                             \<lparr>sv_ID = rid, sv_DestDir = workDir, sv_ContainerID = containerID,
                              sv_AppContainerName = id_Name (cq_Identity req),
                              sv_AppImage = cs_Image (cq_Container req)\<rparr> w
                       in case serr of
                            Some e \<Rightarrow> finish (Inl (Errorf ''save snapshot: %w'' [FW e]), current, w)
                          | None \<Rightarrow>
                              let (current, w) =
                                    (if tearsDownOnSave snap then
                                       let (_, w) = sh_DeleteRestored snap rid w;
                                           (current, w) = clearRestoreDir (we_Os env)
                                             (current\<lparr>mg_runtimeRef := None, mg_restored := False\<rparr>) w
                                       in (current\<lparr>mg_state := StateFailed\<rparr>, w)
                                     else (current, w));
                                  (res, w) = uploadCheckpoint env snap handler req workDir w
                              in finish (res, current, w))"

definition CreateSnapshot ::
    "'w worker_env \<Rightarrow> create_snapshot_request \<Rightarrow> ('q, 'w) slot_manager \<Rightarrow> 'w \<Rightarrow>
     (go_error + create_snapshot_result) \<times> ('q, 'w) slot_manager \<times> 'w" where
  "CreateSnapshot env req m w =
     (case validateIdentity (cq_Identity req) of
        Some e \<Rightarrow> (Inl e, m, w)
      | None \<Rightarrow>
          if cq_StoragePath req = [] \<or> oc_Bucket (cq_Storage req) = []
          then (Inl (wrapf ErrInvalidRequest ''%w: storagePath and storage.bucket are required'' []), m, w)
          else
            let handler = (if cq_Runtime req = [] then runtimeHandler m else cq_Runtime req) in
            case Registry_For (sm_snapshotters m) handler of
              Inl e \<Rightarrow> (Inl e, m, w)
            | Inr snap \<Rightarrow>
                (case getSlot m (cq_SlotID req) of
                   Inl e \<Rightarrow> (Inl e, m, w)
                 | Inr current \<Rightarrow>
                     let (res, current', w') = createSnapshotLocked env m snap handler req current w
                     in (res, m\<lparr>sm_slots := gm_set (cq_SlotID req) current' (sm_slots m)\<rparr>, w')))"

definition restoreLocked ::
    "'w worker_env \<Rightarrow> 'w snapshotter \<Rightarrow> string \<Rightarrow> restore_from_snapshot_request \<Rightarrow> 'q managed_slot \<Rightarrow> 'w \<Rightarrow>
     go_error option \<times> 'q managed_slot \<times> 'w" where
  "restoreLocked env snap handler req current w =
     (if id_UID (mg_sandbox current) \<noteq> id_UID (rq_Identity req)
      then (Some (wrapf ErrSlotConflict ''%w: slot %d is not reserved by sandbox %q''
                    [FD (rq_SlotID req), FS (id_UID (rq_Identity req))]), current, w)
      else if mg_state current = StateRunning \<and> mg_runtimeRef current \<noteq> None then (None, current, w)
      else if mg_state current \<noteq> StateReserved \<and> mg_state current \<noteq> StateStarting
      then (Some (Errorf ''slot %d cannot restore from state %q''
                    [FD (rq_SlotID req), FS (stateString (mg_state current))]), current, w)
      else
        let (dir, w) = ho_MkdirTemp (we_Os env) ''sandboxfleet-restore-*'' w in
        case dir of
          Inl e \<Rightarrow> (Some e, current, w)
        | Inr workDir \<Rightarrow>
            let finish = (\<lambda>(res, current, w).
                  let (_, w) = ho_RemoveAll (we_Os env) workDir w in (Some res, current, w))
            in case openSnapshotStorage env (rq_Storage req) of
                 Inl e \<Rightarrow> finish (e, current, w)
               | Inr objects \<Rightarrow>
                   let checkpointDir = Join [workDir, ''checkpoint''];
                       (got, w) = Download (we_Store env) objects (rq_StoragePath req) checkpointDir w
                   in case got of
                        Inl e \<Rightarrow> finish (Errorf ''download snapshot: %w'' [FW e], current, w)
                      | Inr manifest \<Rightarrow>
                          if mf_RuntimeHandler manifest \<noteq> [] \<and> mf_RuntimeHandler manifest \<noteq> handler
                          then finish (wrapf ErrInvalidRequest ''%w: archive handler %q does not match %q''
                                 [FS (mf_RuntimeHandler manifest), FS handler], current, w)
                          else
                            let (loaded, w) = sh_LoadSnapshot snap
                                  \<lparr>ld_SourceDir = checkpointDir, ld_Identity = rq_Identity req,
                                   ld_SlotID = rq_SlotID req, ld_AppImage = cs_Image (mf_Container manifest)\<rparr> w
                            in case loaded of
                                 Inl e \<Rightarrow> finish (Errorf ''%w: %w'' [FW (Sentinel ErrSnapshotLoad), FW e],
                                            current\<lparr>mg_state := StateReserved\<rparr>, w)
                               | Inr runtimeID \<Rightarrow>
                                   (None, current\<lparr>mg_runtimeRef := Some runtimeID, mg_restored := True,
                                           mg_restoreDir := workDir, mg_state := StateRunning\<rparr>, w))"

definition RestoreFromSnapshot ::
    "'w worker_env \<Rightarrow> restore_from_snapshot_request \<Rightarrow> ('q, 'w) slot_manager \<Rightarrow> 'w \<Rightarrow>
     go_error option \<times> ('q, 'w) slot_manager \<times> 'w" where
  "RestoreFromSnapshot env req m w =
     (case validateIdentity (rq_Identity req) of
        Some e \<Rightarrow> (Some e, m, w)
      | None \<Rightarrow>
          if rq_StoragePath req = [] \<or> oc_Bucket (rq_Storage req) = []
          then (Some (wrapf ErrInvalidRequest ''%w: storagePath and storage.bucket are required'' []), m, w)
          else
            let handler = (if rq_Runtime req = [] then runtimeHandler m else rq_Runtime req);
                lcl = runtimeHandler m
            in if lcl \<noteq> [] \<and> handler \<noteq> lcl
               then (Some (wrapf ErrInvalidRequest ''%w: snapshot runtime %q does not match worker %q''
                       [FS handler, FS lcl]), m, w)
               else case Registry_For (sm_snapshotters m) handler of
                 Inl e \<Rightarrow> (Some e, m, w)
               | Inr snap \<Rightarrow>
                   (case getSlot m (rq_SlotID req) of
                      Inl e \<Rightarrow> (Some e, m, w)
                    | Inr current \<Rightarrow>
                        let (res, current', w') = restoreLocked env snap handler req current w
                        in (res, m\<lparr>sm_slots := gm_set (rq_SlotID req) current' (sm_slots m)\<rparr>, w')))"

definition DeleteSnapshotObjects ::
    "'w worker_env \<Rightarrow> delete_snapshot_objects_request \<Rightarrow> 'w \<Rightarrow> go_error option \<times> 'w" where
  "DeleteSnapshotObjects env req w =
     (if dq_StoragePath req = [] \<or> oc_Bucket (dq_Storage req) = []
      then (Some (wrapf ErrInvalidRequest ''%w: storagePath and storage.bucket are required'' []), w)
      else case openSnapshotStorage env (dq_Storage req) of
        Inl e \<Rightarrow> (Some e, w)
      | Inr objects \<Rightarrow> store_Delete (we_Store env) objects (dq_StoragePath req) (dq_SnapshotFiles req) w)"

end
