(* ===== verification/RuntimeFiles.thy ===== *)
theory RuntimeFiles
  imports ApiTypes GoStrings
begin

text \<open>
  Files of a sandbox: the path policy of \<open>internal/runtime/files.go\<close> and the shell transport of
  \<open>files_shell.go\<close>, which moves a file through a command's arguments and output as base64.
  Running the command is a parameter; the base64 codec and the scan of the trailer are the
  standard library's, on bytes.
\<close>

subsection \<open>Paths\<close>

definition DefaultFilesRoot :: string where "DefaultFilesRoot = ''/app''"

definition MaxFileBytes :: nat where "MaxFileBytes = 1048576"

definition FileTypeFile :: string where "FileTypeFile = ''file''"

definition FileTypeDirectory :: string where "FileTypeDirectory = ''directory''"

definition ResolveUnderRoot :: "string \<Rightarrow> string \<Rightarrow> go_error + string" where
  "ResolveUnderRoot filesRoot rel =
     (let stripped = TrimSpace rel in
      if stripped = [] then Inl (Errorf ''path must not be empty'' [])
      else
        let normalized = TrimPrefix (Clean stripped) ''/'' in
        if normalized = ''..'' \<or> HasPrefix normalized ''../'' then Inl (Errorf ''path escapes files root'' [])
        else if ''..'' \<in> set (splitOn (CHR ''/'') normalized) then Inl (Errorf ''path escapes files root'' [])
        else if normalized = ''.'' \<or> normalized = [] then Inr filesRoot
        else Inr (Join [filesRoot, normalized]))"

definition ValidateWriteName :: "string \<Rightarrow> go_error option" where
  "ValidateWriteName name =
     (if TrimSpace name = [] then Some (Errorf ''write path must not be empty'' [])
      else
        let base = Base name in
        if base = ''.'' \<or> base = ''..'' \<or> base = ''/'' \<or> base \<noteq> name
        then Some (Errorf ''write path %q is not a plain filename'' [FS name])
        else if Contains name ''/'' \<or> Contains name [CHR 0x5C]
        then Some (Errorf ''write path %q is not a plain filename'' [FS name])
        else None)"

subsection \<open>Base64\<close>

definition b64Char :: "nat \<Rightarrow> char" where
  "b64Char n =
     (if n < 26 then char_of (65 + n) else if n < 52 then char_of (71 + n)
      else if n < 62 then char_of (n - 4) else if n = 62 then CHR ''+'' else CHR 0x2F)"

definition b64Val :: "char \<Rightarrow> nat option" where
  "b64Val c =
     (let n = of_char c :: nat in
      if 65 \<le> n \<and> n < 91 then Some (n - 65) else if 97 \<le> n \<and> n < 123 then Some (n - 71)
      else if 48 \<le> n \<and> n < 58 then Some (n + 4) else if c = CHR ''+'' then Some 62
      else if c = CHR 0x2F then Some 63 else None)"

abbreviation pad :: char where "pad \<equiv> CHR 0x3D"

fun b64Groups :: "nat list \<Rightarrow> string" where
  "b64Groups [] = []"
| "b64Groups [a] = [b64Char (a div 4), b64Char ((a mod 4) * 16), pad, pad]"
| "b64Groups [a, b] =
     [b64Char (a div 4), b64Char ((a mod 4) * 16 + b div 16), b64Char ((b mod 16) * 4), pad]"
| "b64Groups (a # b # c # r) =
     b64Char (a div 4) # b64Char ((a mod 4) * 16 + b div 16) #
     b64Char ((b mod 16) * 4 + c div 64) # b64Char (c mod 64) # b64Groups r"

definition EncodeToString :: "string \<Rightarrow> string" where
  "EncodeToString content = b64Groups (map of_char content)"

definition byteOf :: "nat \<Rightarrow> char" where "byteOf n = char_of (n mod 256)"

text \<open>The decoder does not look at the unused bits of the last quantum.\<close>

fun b64Decode :: "string \<Rightarrow> string option" where
  "b64Decode [] = Some []"
| "b64Decode (p # q # r # s # rest) =
     (case (b64Val p, b64Val q) of
        (Some a, Some b) \<Rightarrow>
          if r = pad then
            (if s = pad \<and> rest = [] then Some [byteOf (a * 4 + b div 16)] else None)
          else (case b64Val r of
              None \<Rightarrow> None
            | Some c \<Rightarrow>
                if s = pad then
                  (if rest = [] then Some [byteOf (a * 4 + b div 16), byteOf ((b mod 16) * 16 + c div 4)] else None)
                else (case (b64Val s, b64Decode rest) of
                    (Some d, Some out) \<Rightarrow>
                      Some (byteOf (a * 4 + b div 16) # byteOf ((b mod 16) * 16 + c div 4) #
                            byteOf ((c mod 4) * 64 + d) # out)
                  | _ \<Rightarrow> None))
      | _ \<Rightarrow> None)"
| "b64Decode _ = None"

definition newline :: char where "newline = CHR 0x0A"

definition isNewline :: "char \<Rightarrow> bool" where
  "isNewline c \<longleftrightarrow> c = newline \<or> c = CHR 0x0D"

definition DecodeString :: "string \<Rightarrow> go_error + string" where
  "DecodeString s =
     (case b64Decode (filter (\<lambda>c. \<not> isNewline c) s) of
        None \<Rightarrow> Inl (External ''illegal base64 data'')
      | Some d \<Rightarrow> Inr d)"

subsection \<open>The trailer\<close>

definition readMark :: string where "readMark = ''READ_VERIFY bytes=''"

text \<open>\<open>strings.LastIndex\<close>, as the text before the last occurrence and the text from it on.\<close>

fun splitLast :: "string \<Rightarrow> string \<Rightarrow> (string \<times> string) option" where
  "splitLast sep [] = (if sep = [] then Some ([], []) else None)"
| "splitLast sep (c # s) =
     (case splitLast sep s of
        Some (before, rest) \<Rightarrow> Some (c # before, rest)
      | None \<Rightarrow> if HasPrefix (c # s) sep then Some ([], c # s) else None)"

text \<open>
  \<open>fmt.Sscanf\<close> with the format \<open>READ_VERIFY bytes=%d\<close> on a text that starts with the mark: blanks,
  an optional sign, digits, a value of 64 bits.  The variable keeps \<open>-1\<close> when the scan fails.
\<close>

definition scanBytes :: "string \<Rightarrow> int" where
  "scanBytes meta =
     (let s = dropWhile (\<lambda>c. c = CHR '' '' \<or> c = CHR 0x09) (drop (length readMark) meta);
          neg = (take 1 s = ''-'');
          s = (if take 1 s = ''-'' \<or> take 1 s = ''+'' then drop 1 s else s);
          ds = takeWhile isDigit s;
          v = (if neg then - int (digitsVal ds) else int (digitsVal ds))
      in if ds = [] \<or> v < - (2 ^ 63) \<or> v \<ge> 2 ^ 63 then -1 else v)"

subsection \<open>The shell scripts\<close>

definition dq :: string where "dq = [CHR 0x22]"

definition sq :: string where "sq = [CHR 0x27]"

definition bs :: string where "bs = [CHR 0x5C]"

definition trimCount :: string where
  "trimCount = '' | tr -d '' @ sq @ '' '' @ bs @ ''t'' @ bs @ ''n'' @ sq @ '')''"

definition readScript :: string where
  "readScript = joinWith [newline]
     ['''', ''set -e'', ''f='' @ dq @ ''$1'' @ dq,
      ''n=$(wc -c < '' @ dq @ ''$f'' @ dq @ trimCount,
      ''if [ '' @ dq @ ''$n'' @ dq @ '' = 0 ]; then'',
      ''  printf '' @ sq @ ''READ_VERIFY bytes=0'' @ bs @ ''n'' @ sq, ''  exit 0'', ''fi'',
      ''base64 '' @ dq @ ''$f'' @ dq,
      ''printf '' @ sq @ ''READ_VERIFY bytes=%s'' @ bs @ ''n'' @ sq @ '' '' @ dq @ ''$n'' @ dq, '''']"

definition writeScript :: string where
  "writeScript = joinWith [newline]
     [''mkdir -p '' @ dq @ ''$(dirname -- '' @ dq @ ''$1'' @ dq @ '')'' @ dq @ '' || exit 1'',
      ''printf %s '' @ dq @ ''$2'' @ dq @ '' | base64 -d > '' @ dq @ ''$1'' @ dq @ '' || exit 1'',
      ''got=$(wc -c < '' @ dq @ ''$1'' @ dq @ trimCount,
      ''echo '' @ dq @ ''WRITE_VERIFY path=$1 want=$3 got=$got'' @ dq,
      ''test '' @ dq @ ''$got'' @ dq @ '' = '' @ dq @ ''$3'' @ dq, '''']"

definition listScript :: string where
  "listScript = joinWith [newline]
     ['''', ''if [ ! -d '' @ dq @ ''$1'' @ dq @ '' ]; then'',
      ''  echo '' @ dq @ ''not a directory'' @ dq @ '' >&2'', ''  exit 2'', ''fi'',
      ''ls -1A '' @ dq @ ''$1'' @ dq @ '' 2>/dev/null | while IFS= read -r name; do'',
      ''  [ -n '' @ dq @ ''$name'' @ dq @ '' ] || continue'',
      ''  if [ -d '' @ dq @ ''$1/$name'' @ dq @ '' ]; then'',
      ''    printf '' @ sq @ ''directory'' @ bs @ ''t%s'' @ bs @ ''n'' @ sq @ '' '' @ dq @ ''$name'' @ dq,
      ''  else'',
      ''    printf '' @ sq @ ''file'' @ bs @ ''t%s'' @ bs @ ''n'' @ sq @ '' '' @ dq @ ''$name'' @ dq,
      ''  fi'', ''done'', '''']"

definition existsScript :: string where
  "existsScript = ''if [ -e '' @ dq @ ''$1'' @ dq @ '' ]; then echo 1; else echo 0; fi''"

subsection \<open>Files through a shell\<close>

type_synonym 'w exec_func = "exec_request \<Rightarrow> 'w \<Rightarrow> (go_error + exec_result) \<times> 'w"

text \<open>A timeout is a duration in nanoseconds.\<close>

definition seconds :: "int \<Rightarrow> int" where "seconds n = n * 1000000000"

definition exitError :: "string \<Rightarrow> string \<Rightarrow> exec_result \<Rightarrow> go_error" where
  "exitError fmt absPath result =
     Errorf fmt [FS absPath, FD (er_ExitCode result), FS (TrimSpace (er_Stderr result))]"

definition decodeRead :: "string \<Rightarrow> string \<Rightarrow> go_error + string" where
  "decodeRead absPath out =
     (let (stdout, wantBytes) =
            (case splitLast readMark out of
               None \<Rightarrow> (out, -1)
             | Some (before, rest) \<Rightarrow> (before, scanBytes (TrimSpace rest)));
          encoded = filter (\<lambda>c. \<not> isNewline c) stdout
      in if encoded = [] then
           (if wantBytes = 0 then Inr []
            else if wantBytes > 0 then
              Inl (Errorf ''read %q: empty stdout but guest file has %d bytes (agent stream drained too early?)''
                     [FS absPath, FD wantBytes])
            else Inl (Errorf ''read %q: empty stdout (agent stream drained too early?)'' [FS absPath]))
         else case DecodeString encoded of
           Inl e \<Rightarrow> Inl (Errorf ''decode file content: %w'' [FW e])
         | Inr d \<Rightarrow>
             if wantBytes \<ge> 0 \<and> int (length d) \<noteq> wantBytes then
               Inl (Errorf ''read %q: decoded %d bytes, guest wc=%d'' [FS absPath, FD (int (length d)), FD wantBytes])
             else if length d > MaxFileBytes then
               Inl (Errorf ''file exceeds %d bytes'' [FD (int MaxFileBytes)])
             else Inr d)"

definition ReadFileVia :: "'w exec_func \<Rightarrow> string \<Rightarrow> 'w \<Rightarrow> (go_error + string) \<times> 'w" where
  "ReadFileVia exec absPath w =
     (let (ran, w) = exec \<lparr>eq_Command = [''sh'', ''-c'', readScript, ''read'', absPath], eq_Timeout = seconds 60\<rparr> w in
      case ran of
        Inl e \<Rightarrow> (Inl e, w)
      | Inr result \<Rightarrow>
          if er_ExitCode result \<noteq> 0 then (Inl (exitError ''read %q: exit %d stderr=%s'' absPath result), w)
          else (decodeRead absPath (er_Stdout result), w))"

definition WriteFileVia :: "'w exec_func \<Rightarrow> string \<Rightarrow> string \<Rightarrow> 'w \<Rightarrow> go_error option \<times> 'w" where
  "WriteFileVia exec absPath content w =
     (if length content > MaxFileBytes
      then (Some (Errorf ''content exceeds %d bytes'' [FD (int MaxFileBytes)]), w)
      else
        let (ran, w) = exec
              \<lparr>eq_Command = [''sh'', ''-c'', writeScript, ''write'', absPath, EncodeToString content,
                             Itoa (int (length content))],
               eq_Timeout = seconds 60\<rparr> w
        in case ran of
             Inl e \<Rightarrow> (Some e, w)
           | Inr result \<Rightarrow>
               if er_ExitCode result \<noteq> 0 then
                 (Some (Errorf ''write %q: exit %d stdout=%s stderr=%s''
                    [FS absPath, FD (er_ExitCode result), FS (TrimSpace (er_Stdout result)),
                     FS (TrimSpace (er_Stderr result))]), w)
               else (None, w))"

definition fileLine :: "string \<Rightarrow> sandbox_file_entry option" where
  "fileLine line =
     (case cutOn (CHR 0x09) line of
        None \<Rightarrow> None
      | Some (kind, name) \<Rightarrow>
          if name = [] then None
          else if kind \<noteq> FileTypeFile \<and> kind \<noteq> FileTypeDirectory then None
          else Some \<lparr>fe_Name = name, fe_Type = kind\<rparr>)"

definition ListFilesVia :: "'w exec_func \<Rightarrow> string \<Rightarrow> 'w \<Rightarrow> (go_error + sandbox_file_entry list) \<times> 'w" where
  "ListFilesVia exec absPath w =
     (let (ran, w) = exec \<lparr>eq_Command = [''sh'', ''-c'', listScript, ''list'', absPath], eq_Timeout = seconds 30\<rparr> w in
      case ran of
        Inl e \<Rightarrow> (Inl e, w)
      | Inr result \<Rightarrow>
          if er_ExitCode result \<noteq> 0 then (Inl (exitError ''list %q: exit %d stderr=%s'' absPath result), w)
          else (Inr (List.map_filter fileLine (splitOn newline (TrimSuffix (er_Stdout result) [newline]))), w))"

definition FileExistsVia :: "'w exec_func \<Rightarrow> string \<Rightarrow> 'w \<Rightarrow> (go_error + bool) \<times> 'w" where
  "FileExistsVia exec absPath w =
     (let (ran, w) = exec \<lparr>eq_Command = [''sh'', ''-c'', existsScript, ''exists'', absPath], eq_Timeout = seconds 30\<rparr> w in
      case ran of
        Inl e \<Rightarrow> (Inl e, w)
      | Inr result \<Rightarrow>
          if er_ExitCode result \<noteq> 0 then (Inl (exitError ''exists %q: exit %d stderr=%s'' absPath result), w)
          else (Inr (TrimSpace (er_Stdout result) = ''1''), w))"

end
