(* ===== verification/WorkerFiles.thy ===== *)
theory WorkerFiles
  imports SlotManager RuntimeFiles
begin

text \<open>
  The Worker's file operations, \<open>internal/worker/files.go\<close> and \<open>files_fs.go\<close>.  A sandbox started
  through the runtime is read through the runtime's file calls, a restored one through a shell.
  Logging is not modelled.
\<close>

subsection \<open>The two file systems\<close>

record 'w sandbox_fs =
  fs_Exists :: "string \<Rightarrow> 'w \<Rightarrow> (go_error + bool) \<times> 'w"
  fs_List :: "string \<Rightarrow> 'w \<Rightarrow> (go_error + sandbox_file_entry list) \<times> 'w"
  fs_Read :: "string \<Rightarrow> 'w \<Rightarrow> (go_error + string) \<times> 'w"
  fs_Write :: "string \<Rightarrow> string \<Rightarrow> 'w \<Rightarrow> go_error option \<times> 'w"

definition criListDir ::
    "('q, 'w) runtime_iface \<Rightarrow> runtime_id \<Rightarrow> string \<Rightarrow> 'w \<Rightarrow> (go_error + sandbox_file_entry list) \<times> 'w" where
  "criListDir rt rid absPath w =
     (let (listed, w) = rt_ListFiles rt rid absPath w in
      case listed of
        Inl e \<Rightarrow> (Inl e, w)
      | Inr entries \<Rightarrow> (Inr (map (\<lambda>e. \<lparr>fe_Name = fe_Name e, fe_Type = fe_Type e\<rparr>) entries), w))"

definition criSandboxFS :: "('q, 'w) runtime_iface \<Rightarrow> runtime_id \<Rightarrow> 'w sandbox_fs" where
  "criSandboxFS rt rid =
     \<lparr>fs_Exists = rt_FileExists rt rid, fs_List = criListDir rt rid,
      fs_Read = rt_ReadFile rt rid, fs_Write = rt_WriteFile rt rid\<rparr>"

definition parseFileLine :: "string \<Rightarrow> sandbox_file_entry option" where
  "parseFileLine line =
     (let line = TrimSpace line in
      case cutOn (CHR 0x09) line of
        None \<Rightarrow> None
      | Some (kind, name) \<Rightarrow> Some \<lparr>fe_Name = name, fe_Type = kind\<rparr>)"

definition parseFileList :: "string \<Rightarrow> sandbox_file_entry list" where
  "parseFileList stdout = List.map_filter parseFileLine (splitOn newline stdout)"

definition testScript :: string where
  "testScript = ''test -e '' @ dq @ ''$1'' @ dq"

definition execExists :: "'w exec_func \<Rightarrow> string \<Rightarrow> 'w \<Rightarrow> (go_error + bool) \<times> 'w" where
  "execExists exec absPath w =
     (let (ran, w) = exec \<lparr>eq_Command = [''sh'', ''-c'', testScript, ''exists'', absPath], eq_Timeout = seconds 15\<rparr> w in
      case ran of Inl e \<Rightarrow> (Inl e, w) | Inr result \<Rightarrow> (Inr (er_ExitCode result = 0), w))"

definition execList :: "'w exec_func \<Rightarrow> string \<Rightarrow> 'w \<Rightarrow> (go_error + sandbox_file_entry list) \<times> 'w" where
  "execList exec absPath w =
     (let (ran, w) = exec \<lparr>eq_Command = [''sh'', ''-c'', listScript, ''list'', absPath], eq_Timeout = seconds 30\<rparr> w in
      case ran of
        Inl e \<Rightarrow> (Inl e, w)
      | Inr result \<Rightarrow>
          if er_ExitCode result \<noteq> 0 then (Inl (exitError ''list %q: exit %d stderr=%s'' absPath result), w)
          else (Inr (parseFileList (er_Stdout result)), w))"

definition execSandboxFS :: "'w exec_func \<Rightarrow> 'w sandbox_fs" where
  "execSandboxFS exec =
     \<lparr>fs_Exists = execExists exec, fs_List = execList exec,
      fs_Read = ReadFileVia exec, fs_Write = WriteFileVia exec\<rparr>"

subsection \<open>A running Slot\<close>

text \<open>The Slot is locked while the operation runs, so it is read once.\<close>

definition runningSlot ::
    "('q, 'w) slot_manager \<Rightarrow> int \<Rightarrow> sandbox_identity \<Rightarrow> go_error + ('q managed_slot \<times> runtime_id)" where
  "runningSlot m slotID identity =
     (case validateIdentity identity of
        Some e \<Rightarrow> Inl e
      | None \<Rightarrow>
          (case getSlot m slotID of
             Inl e \<Rightarrow> Inl e
           | Inr current \<Rightarrow>
               if mg_state current = StateFree \<or> id_UID (mg_sandbox current) \<noteq> id_UID identity
               then Inl (Sentinel ErrSandboxNotFound)
               else (case mg_runtimeRef current of
                   None \<Rightarrow> Inl (wrapf ErrInvalidRequest ''%w: sandbox is not running'' [])
                 | Some rid \<Rightarrow>
                     if mg_state current \<noteq> StateRunning
                     then Inl (wrapf ErrInvalidRequest ''%w: sandbox is not running'' [])
                     else Inr (current, rid))))"

definition sandboxFSFor ::
    "('q, 'w) slot_manager \<Rightarrow> 'q managed_slot \<Rightarrow> runtime_id \<Rightarrow> 'w sandbox_fs" where
  "sandboxFSFor m current rid =
     (if mg_restored current then execSandboxFS (execRestored m rid) else criSandboxFS (sm_runtime m) rid)"

subsection \<open>Operations\<close>

text \<open>What the three reading operations share: resolve the path, find the Slot, call its file system.\<close>

definition onFile ::
    "('w sandbox_fs \<Rightarrow> string \<Rightarrow> 'w \<Rightarrow> (go_error + 'r) \<times> 'w) \<Rightarrow> sandbox_file_request \<Rightarrow>
     ('q, 'w) slot_manager \<Rightarrow> 'w \<Rightarrow> (go_error + 'r) \<times> 'w" where
  "onFile act req m w =
     (case ResolveUnderRoot DefaultFilesRoot (fr_Path req) of
        Inl e \<Rightarrow> (Inl (Errorf ''%w: %v'' [FW (Sentinel ErrInvalidRequest), FV e]), w)
      | Inr absPath \<Rightarrow>
          (case runningSlot m (fr_SlotID req) (fr_Identity req) of
             Inl e \<Rightarrow> (Inl e, w)
           | Inr (current, rid) \<Rightarrow> act (sandboxFSFor m current rid) absPath w))"

definition ExistsSandboxFile ::
    "sandbox_file_request \<Rightarrow> ('q, 'w) slot_manager \<Rightarrow> 'w \<Rightarrow> (go_error + bool) \<times> 'w" where
  "ExistsSandboxFile = onFile fs_Exists"

definition ListSandboxFiles ::
    "sandbox_file_request \<Rightarrow> ('q, 'w) slot_manager \<Rightarrow> 'w \<Rightarrow> (go_error + sandbox_file_entry list) \<times> 'w" where
  "ListSandboxFiles = onFile fs_List"

definition ReadSandboxFile ::
    "sandbox_file_request \<Rightarrow> ('q, 'w) slot_manager \<Rightarrow> 'w \<Rightarrow> (go_error + string) \<times> 'w" where
  "ReadSandboxFile = onFile fs_Read"

definition WriteSandboxFile ::
    "sandbox_file_request \<Rightarrow> string \<Rightarrow> ('q, 'w) slot_manager \<Rightarrow> 'w \<Rightarrow> go_error option \<times> 'w" where
  "WriteSandboxFile req content m w =
     (case ValidateWriteName (fr_Path req) of
        Some e \<Rightarrow> (Some (Errorf ''%w: %v'' [FW (Sentinel ErrInvalidRequest), FV e]), w)
      | None \<Rightarrow>
          if length content > MaxFileBytes
          then (Some (wrapf ErrInvalidRequest ''%w: content exceeds %d bytes'' [FD (int MaxFileBytes)]), w)
          else
            let absPath = Join [DefaultFilesRoot, fr_Path req] in
            (case runningSlot m (fr_SlotID req) (fr_Identity req) of
               Inl e \<Rightarrow> (Some e, w)
             | Inr (current, rid) \<Rightarrow> fs_Write (sandboxFSFor m current rid) absPath content w))"

end
