(* ===== verification/Scheduler.thy ===== *)
theory Scheduler
  imports SlotTopology
begin

text \<open>
  The package \<open>internal/scheduler\<close>: the data of \<open>types.go\<close>, the three placement strategies and the
  in-memory scheduler.  The mutex makes every operation atomic, so an operation is a function from
  the scheduler's state to a result and the next state.
\<close>

subsection \<open>Data\<close>

record worker_key =
  wk_Namespace :: string
  wk_Pool :: string
  wk_Name :: string

record worker_state =
  ws_Key :: worker_key
  ws_Healthy :: bool
  ws_LastObserved :: int
  ws_Slots :: "(int, slot_info) gomap"

record assignment =
  as_SandboxUID :: string
  as_Namespace :: string
  as_Name :: string
  as_Worker :: worker_key
  as_SlotID :: int
  as_SlotProfile :: string

record assign_request =
  ar_SandboxUID :: string
  ar_Namespace :: string
  ar_Name :: string
  ar_Pool :: string
  ar_SlotProfile :: string

record candidate =
  cd_Worker :: worker_key
  cd_SlotID :: int
  cd_Profile :: string
  cd_FreeSlots :: nat
  cd_BusySlots :: nat

type_synonym strategy = "assign_request \<Rightarrow> candidate list \<Rightarrow> go_error + candidate"

record memory_scheduler =
  ms_workers :: "(worker_key, worker_state) gomap"
  ms_assignments :: "(string, assignment) gomap"

subsection \<open>Strategies\<close>

definition StableStrategy_Select :: strategy where
  "StableStrategy_Select req candidates =
     (case candidates of [] \<Rightarrow> Inl (Sentinel ErrNoCapacity) | c # _ \<Rightarrow> Inr c)"

text \<open>\<open>draw\<close> is the random number the source's generator yields for this call.\<close>

definition RandomStrategy_Select :: "nat \<Rightarrow> strategy" where
  "RandomStrategy_Select draw req candidates =
     (if candidates = [] then Inl (Sentinel ErrNoCapacity)
      else Inr (candidates ! (draw mod length candidates)))"

definition binPackBetter :: "candidate \<Rightarrow> candidate \<Rightarrow> bool" where
  "binPackBetter a b =
     (let aBusy = cd_BusySlots a > 0; bBusy = cd_BusySlots b > 0 in
      if aBusy \<noteq> bBusy then aBusy
      else if aBusy \<and> cd_FreeSlots a \<noteq> cd_FreeSlots b then cd_FreeSlots a < cd_FreeSlots b
      else if wk_Name (cd_Worker a) \<noteq> wk_Name (cd_Worker b)
        then wk_Name (cd_Worker a) < wk_Name (cd_Worker b)
      else cd_SlotID a < cd_SlotID b)"

definition BinPackStrategy_Select :: strategy where
  "BinPackStrategy_Select req candidates =
     (case candidates of
        [] \<Rightarrow> Inl (Sentinel ErrNoCapacity)
      | c # cs \<Rightarrow> Inr (foldl (\<lambda>best c. if binPackBetter c best then c else best) c cs))"

subsection \<open>The scheduler\<close>

definition New :: "strategy option \<Rightarrow> strategy \<times> memory_scheduler" where
  "New s = ((case s of None \<Rightarrow> BinPackStrategy_Select | Some f \<Rightarrow> f),
            \<lparr>ms_workers = [], ms_assignments = []\<rparr>)"

definition cloneSlots :: "(int, slot_info) gomap \<Rightarrow> (int, slot_info) gomap" where
  "cloneSlots slots = map (\<lambda>(k, info). (k, info)) slots"

definition markReserved :: "worker_key \<Rightarrow> (int, slot_info) gomap \<Rightarrow> string \<times> assignment \<Rightarrow> (int, slot_info) gomap" where
  "markReserved key slots ua =
     (case ua of (sandboxUID, a) \<Rightarrow>
        if as_Worker a \<noteq> key then slots
        else case map_of slots (as_SlotID a) of
               Some info \<Rightarrow>
                 (if si_State info = StateFree
                  then gm_set (as_SlotID a) (info\<lparr>si_State := StateReserved, si_SandboxUID := sandboxUID\<rparr>) slots
                  else slots)
             | None \<Rightarrow> slots)"

definition UpdateWorker :: "worker_state \<Rightarrow> memory_scheduler \<Rightarrow> memory_scheduler" where
  "UpdateWorker state s =
     s\<lparr>ms_workers := gm_set (ws_Key state)
        (state\<lparr>ws_Slots := foldl (markReserved (ws_Key state)) (cloneSlots (ws_Slots state)) (ms_assignments s)\<rparr>)
        (ms_workers s)\<rparr>"

definition RemoveWorker :: "worker_key \<Rightarrow> memory_scheduler \<Rightarrow> memory_scheduler" where
  "RemoveWorker key s = s\<lparr>ms_workers := gm_del key (ms_workers s)\<rparr>"

definition sortedWorkers :: "memory_scheduler \<Rightarrow> string \<Rightarrow> string \<Rightarrow> worker_key list" where
  "sortedWorkers s namespace pool =
     sort_key wk_Name
       (filter (\<lambda>key. wk_Namespace key = namespace \<and> wk_Pool key = pool) (map fst (ms_workers s)))"

definition sortedSlotIDs :: "(int, slot_info) gomap \<Rightarrow> int list" where
  "sortedSlotIDs slots = sort (map fst slots)"

definition countWorkerSlots :: "(int, slot_info) gomap \<Rightarrow> string \<Rightarrow> nat \<times> nat" where
  "countWorkerSlots slots profile =
     foldl (\<lambda>(freeMatching, busy) (_, info).
       if si_State info \<noteq> StateFree then (freeMatching, Suc busy)
       else if si_Profile info = profile then (Suc freeMatching, busy)
       else (freeMatching, busy)) (0, 0) slots"

definition workerCandidates :: "worker_key \<Rightarrow> worker_state \<Rightarrow> string \<Rightarrow> candidate list" where
  "workerCandidates key worker profile =
     (if \<not> ws_Healthy worker then []
      else let (freeMatching, busy) = countWorkerSlots (ws_Slots worker) profile in
        concat (map (\<lambda>slotID.
          let info = gm_get0 zero_slot_info (ws_Slots worker) slotID in
          if si_State info \<noteq> StateFree then []
          else if si_Profile info \<noteq> profile then []
          else [\<lparr>cd_Worker = key, cd_SlotID = slotID, cd_Profile = profile,
                 cd_FreeSlots = freeMatching, cd_BusySlots = busy\<rparr>])
          (sortedSlotIDs (ws_Slots worker))))"

definition assignCandidates :: "memory_scheduler \<Rightarrow> assign_request \<Rightarrow> candidate list" where
  "assignCandidates s req =
     concat (map (\<lambda>key. case map_of (ms_workers s) key of
                          None \<Rightarrow> []
                        | Some worker \<Rightarrow> workerCandidates key worker (ar_SlotProfile req))
        (sortedWorkers s (ar_Namespace req) (ar_Pool req)))"

text \<open>\<open>None\<close> is the nil dereference the code would hit if a strategy invented a Worker.\<close>

definition Assign ::
    "strategy \<Rightarrow> assign_request \<Rightarrow> memory_scheduler \<Rightarrow> ((go_error + assignment) \<times> memory_scheduler) option" where
  "Assign select req s =
     (case map_of (ms_assignments s) (ar_SandboxUID req) of
        Some a \<Rightarrow> Some (Inr a, s)
      | None \<Rightarrow>
          if ar_SlotProfile req = '''' then Some (Inl (Sentinel ErrInvalidSlotProfile), s)
          else
            let candidates = assignCandidates s req in
            if candidates = [] then Some (Inl (Sentinel ErrNoCapacity), s)
            else case select req candidates of
                   Inl err \<Rightarrow> Some (Inl err, s)
                 | Inr selected \<Rightarrow>
                     (case map_of (ms_workers s) (cd_Worker selected) of
                        None \<Rightarrow> None
                      | Some worker \<Rightarrow>
                          let info = gm_get0 zero_slot_info (ws_Slots worker) (cd_SlotID selected);
                              worker' = worker\<lparr>ws_Slots := gm_set (cd_SlotID selected)
                                (info\<lparr>si_State := StateReserved, si_SandboxUID := ar_SandboxUID req\<rparr>)
                                (ws_Slots worker)\<rparr>;
                              a = \<lparr>as_SandboxUID = ar_SandboxUID req, as_Namespace = ar_Namespace req,
                                   as_Name = ar_Name req, as_Worker = cd_Worker selected,
                                   as_SlotID = cd_SlotID selected, as_SlotProfile = ar_SlotProfile req\<rparr>
                          in Some (Inr a,
                                s\<lparr>ms_workers := gm_set (cd_Worker selected) worker' (ms_workers s),
                                  ms_assignments := gm_set (ar_SandboxUID req) a (ms_assignments s)\<rparr>)))"

definition Restore :: "assignment \<Rightarrow> memory_scheduler \<Rightarrow> go_error option \<times> memory_scheduler" where
  "Restore a s =
     (case map_of (ms_assignments s) (as_SandboxUID a) of
        Some current \<Rightarrow>
          if current = a then (None, s)
          else (Some (wrapf ErrAssignmentConflict ''%w: sandbox %q already has another assignment''
                        [FS (as_SandboxUID a)]), s)
      | None \<Rightarrow>
          let recorded = (\<lambda>s. s\<lparr>ms_assignments := gm_set (as_SandboxUID a) a (ms_assignments s)\<rparr>) in
          case map_of (ms_workers s) (as_Worker a) of
            None \<Rightarrow> (None, recorded s)
          | Some worker \<Rightarrow>
              (case map_of (ws_Slots worker) (as_SlotID a) of
                 None \<Rightarrow> (None, recorded s)
               | Some info \<Rightarrow>
                   if si_State info \<noteq> StateFree \<and> si_SandboxUID info \<noteq> as_SandboxUID a then
                     (Some (wrapf ErrAssignmentConflict ''%w: slot %d on %q is owned by %q''
                        [FD (as_SlotID a), FS (wk_Name (as_Worker a)), FS (si_SandboxUID info)]), s)
                   else
                     let info1 = info\<lparr>si_State := StateReserved, si_SandboxUID := as_SandboxUID a\<rparr>;
                         info2 = (if as_SlotProfile a \<noteq> '''' then info1\<lparr>si_Profile := as_SlotProfile a\<rparr>
                                  else info1);
                         worker' = worker\<lparr>ws_Slots := gm_set (as_SlotID a) info2 (ws_Slots worker)\<rparr>
                     in (None, recorded (s\<lparr>ms_workers := gm_set (as_Worker a) worker' (ms_workers s)\<rparr>))))"

definition Release :: "string \<Rightarrow> memory_scheduler \<Rightarrow> memory_scheduler" where
  "Release sandboxUID s =
     (case map_of (ms_assignments s) sandboxUID of
        None \<Rightarrow> s
      | Some a \<Rightarrow>
          let s1 = s\<lparr>ms_assignments := gm_del sandboxUID (ms_assignments s)\<rparr> in
          case map_of (ms_workers s) (as_Worker a) of
            None \<Rightarrow> s1
          | Some worker \<Rightarrow>
              (case map_of (ws_Slots worker) (as_SlotID a) of
                 None \<Rightarrow> s1
               | Some info \<Rightarrow>
                   if si_SandboxUID info \<noteq> sandboxUID then s1
                   else s1\<lparr>ms_workers := gm_set (as_Worker a)
                          (worker\<lparr>ws_Slots := gm_set (as_SlotID a)
                             (info\<lparr>si_State := StateFree, si_SandboxUID := ''''\<rparr>) (ws_Slots worker)\<rparr>)
                          (ms_workers s)\<rparr>))"

definition Get :: "string \<Rightarrow> memory_scheduler \<Rightarrow> assignment option" where
  "Get sandboxUID s = map_of (ms_assignments s) sandboxUID"

end
