(* ===== verification/Workload.thy ===== *)
theory Workload
  imports ApiTypes GoStrings
begin

text \<open>
  The Worker workload of a Pool's template, \<open>worker_dependencies.go\<close>: names, labels, the Pod's
  resources and the StatefulSet.  Of the Kubernetes objects the fields the program sets are
  modelled.  The quantity \<open>2Gi\<close>, which the source parses, is an argument.
\<close>

subsection \<open>Kubernetes objects\<close>

datatype volume_source = EmptyDir | HostPathCharDev string

record 'q container =
  ko_Name :: string
  ko_Image :: string
  ko_ImagePullPolicy :: string
  ko_Args :: "string list"
  ko_Env :: "(string \<times> string) list"
  ko_Ports :: "(string \<times> int) list"
  ko_Resources :: "'q resource_requirements"
  ko_ReadinessPath :: string
  ko_Privileged :: bool
  ko_VolumeMounts :: "(string \<times> string) list"

record 'q worker_pod_spec =
  py_Container :: "'q container"
  py_Volumes :: "(string \<times> volume_source) list"

record 'q stateful_set =
  tf_Name :: string
  tf_Namespace :: string
  tf_Labels :: "(string, string) gomap"
  tf_ServiceName :: string
  tf_Replicas :: "int option"
  tf_Selector :: "(string, string) gomap"
  tf_UpdateStrategy :: string
  tf_TemplateLabels :: "(string, string) gomap"
  tf_TemplateSpec :: "'q worker_pod_spec"

record worker_profile =
  wp_Image :: string
  wp_Privileged :: bool

record stateful_set_builder =
  sb_Port :: int
  sb_DefaultImage :: string
  sb_Profiles :: "(string, worker_profile) gomap"

subsection \<open>Names and labels\<close>

definition labelManaged :: string where "labelManaged = ''sandboxfleet.io/managed''"

definition labelPool :: string where "labelPool = ''sandboxfleet.io/pool''"

definition labelTemplate :: string where "labelTemplate = ''sandboxfleet.io/template''"

definition workerLabels :: "string \<Rightarrow> string \<Rightarrow> (string, string) gomap" where
  "workerLabels poolName templateName =
     [(labelManaged, ''true''), (labelPool, poolName), (labelTemplate, templateName)]"

definition workerServiceName :: "string \<Rightarrow> string" where
  "workerServiceName poolName = poolName @ ''-worker''"

definition workerSetName :: "string \<Rightarrow> string \<Rightarrow> string" where
  "workerSetName poolName templateName = poolName @ ''-'' @ templateName @ ''-worker''"

subsection \<open>Resources of a Worker Pod\<close>

definition ResourceMemory :: string where "ResourceMemory = ''memory''"

definition maxSlotMemoryLimit :: "('q::{linorder, zero}) slot_config list \<Rightarrow> 'q" where
  "maxSlotMemoryLimit configs =
     foldl (\<lambda>mx cfg. case map_of (rr_Limits (sc_Resources cfg)) ResourceMemory of
                       None \<Rightarrow> mx
                     | Some q \<Rightarrow> if q > mx then q else mx) 0 configs"

definition addMemory :: "('q::comm_monoid_add) resource_list \<Rightarrow> 'q \<Rightarrow> 'q resource_list" where
  "addMemory l extra =
     (case map_of l ResourceMemory of
        None \<Rightarrow> gm_set ResourceMemory extra l
      | Some current \<Rightarrow> gm_set ResourceMemory (current + extra) l)"

definition withMemoryOverhead ::
    "('q::comm_monoid_add) resource_requirements \<Rightarrow> 'q \<Rightarrow> 'q resource_requirements" where
  "withMemoryOverhead res extra =
     (if extra = 0 then res
      else \<lparr>rr_Requests = addMemory (cloneResourceList (rr_Requests res)) extra,
            rr_Limits = addMemory (cloneResourceList (rr_Limits res)) extra\<rparr>)"

definition workerPodResources ::
    "'q \<Rightarrow> 'q sandbox_pool \<Rightarrow> ('q::{linorder, comm_monoid_add}) slot_config list \<Rightarrow> 'q resource_requirements" where
  "workerPodResources twoGi pool configs =
     (let total_res = SumResources configs in
      if rc_Backend (po_Runtime (po_Spec pool)) \<noteq> RuntimeBackendCRI then total_res
      else withMemoryOverhead (withMemoryOverhead total_res (maxSlotMemoryLimit configs)) twoGi)"

subsection \<open>The StatefulSet\<close>

definition profileFor :: "stateful_set_builder \<Rightarrow> 'q sandbox_pool \<Rightarrow> worker_profile" where
  "profileFor b pool =
     (let backend = rc_Backend (po_Runtime (po_Spec pool)) in
      case map_of (sb_Profiles b) backend of
        Some override \<Rightarrow>
          \<lparr>wp_Image = (if wp_Image override = [] then sb_DefaultImage b else wp_Image override),
           wp_Privileged = wp_Privileged override\<rparr>
      | None \<Rightarrow> \<lparr>wp_Image = sb_DefaultImage b, wp_Privileged = (backend = RuntimeBackendCRI)\<rparr>)"

fun mountHostDevices :: "nat \<Rightarrow> string list \<Rightarrow> 'q worker_pod_spec \<Rightarrow> 'q worker_pod_spec" where
  "mountHostDevices i [] spec = spec"
| "mountHostDevices i (device # devices) spec =
     (let devicePath = Clean device in
      if devicePath = ''.'' \<or> devicePath = ''/'' \<or> \<not> HasPrefix devicePath ''/''
      then mountHostDevices (Suc i) devices spec
      else
        let name = ''host-device-'' @ Itoa (int i) in
        mountHostDevices (Suc i) devices
          (spec\<lparr>py_Volumes := py_Volumes spec @ [(name, HostPathCharDev devicePath)],
                py_Container := (py_Container spec)\<lparr>ko_VolumeMounts :=
                  ko_VolumeMounts (py_Container spec) @ [(name, devicePath)]\<rparr>\<rparr>))"

definition snapshotterString :: "snapshotter_kind \<Rightarrow> string" where
  "snapshotterString kind =
     (case kind of SnapshotterUnset \<Rightarrow> [] | SnapshotterGVisor \<Rightarrow> ''gvisor'' | SnapshotterKata \<Rightarrow> ''kata''
      | SnapshotterOther k \<Rightarrow> k)"

definition workerContainer ::
    "stateful_set_builder \<Rightarrow> 'q \<Rightarrow> 'q sandbox_pool \<Rightarrow> ('q::{linorder, comm_monoid_add}) slot_config list \<Rightarrow> 'q container" where
  "workerContainer b twoGi pool configs =
     (let profile = profileFor b pool;
          cri = rc_CRI (po_Runtime (po_Spec pool));
          handler = (case cri of Some c \<Rightarrow> cr_RuntimeHandler c | None \<Rightarrow> []);
          kind = (case cri of Some c \<Rightarrow> snapshotterString (cr_Snapshotter c) | None \<Rightarrow> [])
      in \<lparr>ko_Name = ''worker'', ko_Image = wp_Image profile, ko_ImagePullPolicy = ''IfNotPresent'',
          ko_Args = [''--name=$(WORKER_NAME)'', ''--namespace=$(WORKER_NAMESPACE)'',
            ''--pool='' @ om_Name (po_Meta pool), ''--runtime-handler='' @ handler, ''--snapshotter='' @ kind,
            ''--listen=:'' @ Itoa (sb_Port b)],
          ko_Env = [(''WORKER_NAME'', ''metadata.name''), (''WORKER_NAMESPACE'', ''metadata.namespace'')],
          ko_Ports = [(''http'', sb_Port b)], ko_Resources = workerPodResources twoGi pool configs,
          ko_ReadinessPath = ''/healthz'', ko_Privileged = wp_Privileged profile, ko_VolumeMounts = []\<rparr>)"

definition Build ::
    "stateful_set_builder \<Rightarrow> 'q \<Rightarrow> 'q sandbox_pool \<Rightarrow> worker_template \<Rightarrow> ('q::{linorder, comm_monoid_add}) slot_config list \<Rightarrow>
     'q stateful_set" where
  "Build b twoGi pool template configs =
     (let labels = workerLabels (om_Name (po_Meta pool)) (wt_Name template);
          container = workerContainer b twoGi pool configs;
          devices = (case rc_CRI (po_Runtime (po_Spec pool)) of Some c \<Rightarrow> cr_HostDevices c | None \<Rightarrow> []);
          spec = (if rc_Backend (po_Runtime (po_Spec pool)) = RuntimeBackendCRI then
                    mountHostDevices 0 devices
                      \<lparr>py_Container = container\<lparr>ko_VolumeMounts :=
                         [(''containerd-root'', ''/var/lib/containerd''), (''containerd-state'', ''/run/containerd''),
                          (''sandboxfleet-data'', ''/var/lib/sandboxfleet'')]\<rparr>,
                       py_Volumes = [(''containerd-root'', EmptyDir), (''containerd-state'', EmptyDir),
                                     (''sandboxfleet-data'', EmptyDir)]\<rparr>
                  else \<lparr>py_Container = container, py_Volumes = []\<rparr>)
      in \<lparr>tf_Name = workerSetName (om_Name (po_Meta pool)) (wt_Name template),
          tf_Namespace = om_Namespace (po_Meta pool), tf_Labels = labels,
          tf_ServiceName = workerServiceName (om_Name (po_Meta pool)), tf_Replicas = Some (wt_Replicas template),
          tf_Selector = labels, tf_UpdateStrategy = ''OnDelete'', tf_TemplateLabels = labels, tf_TemplateSpec = spec\<rparr>)"

end
