(* ===== verification/Cluster.thy ===== *)
theory Cluster
  imports Scheduler Workload
begin

text \<open>
  What the controllers of \<open>internal/controller\<close> share: the Kubernetes API and the Worker client as
  interfaces on the outside world, Pods, conditions, the resolver of a Worker's endpoint
  (\<open>worker_dependencies.go\<close>) and storage credentials (\<open>snapshot_helpers.go\<close>).
\<close>

subsection \<open>Interfaces\<close>

record 'q pod =
  pd_Namespace :: string
  pd_Name :: string
  pd_Labels :: "(string, string) gomap"
  pd_PodIP :: string
  pd_Conditions :: "(string \<times> string) list"
  pd_Containers :: "'q resource_requirements list"

record service =
  sy_Name :: string
  sy_Namespace :: string
  sy_ClusterIP :: string
  sy_Selector :: "(string, string) gomap"
  sy_Ports :: "(string \<times> int) list"

text \<open>
  The Kubernetes client.  A \<open>Get\<close> and a status update return the object as the server has it.  The
  pure functions of the API machinery are fields as well: the finalizer helpers of
  \<open>controllerutil\<close> and \<open>SetStatusCondition\<close> and \<open>FindStatusCondition\<close> of \<open>meta\<close>.
\<close>

record ('q, 'w) kube =
  ku_GetSandbox :: "string \<Rightarrow> string \<Rightarrow> 'w \<Rightarrow> (go_error + sandbox) \<times> 'w"
  ku_UpdateSandbox :: "sandbox \<Rightarrow> 'w \<Rightarrow> go_error option \<times> 'w"
  ku_UpdateSandboxStatus :: "sandbox \<Rightarrow> 'w \<Rightarrow> (go_error + sandbox) \<times> 'w"
  ku_ListSandboxes :: "string \<Rightarrow> 'w \<Rightarrow> (go_error + sandbox list) \<times> 'w"
  ku_GetSnapshot :: "string \<Rightarrow> string \<Rightarrow> 'w \<Rightarrow> (go_error + sandbox_snapshot) \<times> 'w"
  ku_UpdateSnapshot :: "sandbox_snapshot \<Rightarrow> 'w \<Rightarrow> go_error option \<times> 'w"
  ku_UpdateSnapshotStatus :: "sandbox_snapshot \<Rightarrow> 'w \<Rightarrow> (go_error + sandbox_snapshot) \<times> 'w"
  ku_GetPool :: "string \<Rightarrow> string \<Rightarrow> 'w \<Rightarrow> (go_error + 'q sandbox_pool) \<times> 'w"
  ku_UpdatePoolStatus :: "'q sandbox_pool \<Rightarrow> 'w \<Rightarrow> go_error option \<times> 'w"
  ku_GetPod :: "string \<Rightarrow> string \<Rightarrow> 'w \<Rightarrow> (go_error + 'q pod) \<times> 'w"
  ku_ListPods :: "string \<Rightarrow> (string, string) gomap \<Rightarrow> 'w \<Rightarrow> (go_error + 'q pod list) \<times> 'w"
  ku_GetSecret :: "string \<Rightarrow> string \<Rightarrow> 'w \<Rightarrow> (go_error + (string, string) gomap) \<times> 'w"
  ku_GetService :: "string \<Rightarrow> string \<Rightarrow> 'w \<Rightarrow> (go_error + service) \<times> 'w"
  ku_CreateService :: "service \<Rightarrow> 'w \<Rightarrow> go_error option \<times> 'w"
  ku_GetStatefulSet :: "string \<Rightarrow> string \<Rightarrow> 'w \<Rightarrow> (go_error + 'q stateful_set) \<times> 'w"
  ku_CreateStatefulSet :: "'q stateful_set \<Rightarrow> 'w \<Rightarrow> go_error option \<times> 'w"
  ku_UpdateStatefulSet :: "'q stateful_set \<Rightarrow> 'w \<Rightarrow> go_error option \<times> 'w"
  ku_SetControllerReference :: "'q sandbox_pool \<Rightarrow> string \<Rightarrow> go_error option"
  ku_Now :: "'w \<Rightarrow> int \<times> 'w"
  ku_ContainsFinalizer :: "object_meta \<Rightarrow> string \<Rightarrow> bool"
  ku_AddFinalizer :: "object_meta \<Rightarrow> string \<Rightarrow> object_meta"
  ku_RemoveFinalizer :: "object_meta \<Rightarrow> string \<Rightarrow> object_meta"
  ku_SetStatusCondition :: "condition list \<Rightarrow> condition \<Rightarrow> condition list"
  ku_FindStatusCondition :: "condition list \<Rightarrow> string \<Rightarrow> condition option"

record ('q, 'w) worker_client =
  wl_Health :: "string \<Rightarrow> 'w \<Rightarrow> go_error option \<times> 'w"
  wl_ListSlots :: "string \<Rightarrow> 'w \<Rightarrow> (go_error + slot_info list) \<times> 'w"
  wl_ApplyTopology :: "string \<Rightarrow> 'q slot_config list \<Rightarrow> 'w \<Rightarrow> go_error option \<times> 'w"
  wl_ReserveSlot :: "string \<Rightarrow> sandbox_slot_ref \<Rightarrow> 'w \<Rightarrow> go_error option \<times> 'w"
  wl_StartSandbox :: "string \<Rightarrow> start_sandbox_request \<Rightarrow> 'w \<Rightarrow> go_error option \<times> 'w"
  wl_StopSandbox :: "string \<Rightarrow> sandbox_slot_ref \<Rightarrow> 'w \<Rightarrow> go_error option \<times> 'w"
  wl_ReleaseSlot :: "string \<Rightarrow> sandbox_slot_ref \<Rightarrow> 'w \<Rightarrow> go_error option \<times> 'w"
  wl_CreateSnapshot :: "string \<Rightarrow> create_snapshot_request \<Rightarrow> 'w \<Rightarrow> (go_error + create_snapshot_result) \<times> 'w"
  wl_RestoreFromSnapshot :: "string \<Rightarrow> restore_from_snapshot_request \<Rightarrow> 'w \<Rightarrow> go_error option \<times> 'w"
  wl_DeleteSnapshotObjects :: "string \<Rightarrow> delete_snapshot_objects_request \<Rightarrow> 'w \<Rightarrow> go_error option \<times> 'w"

text \<open>What a reconciler is made of.  \<open>rc_Endpoint\<close> is the \<open>WorkerEndpointResolver\<close>.\<close>

record ('q, 'w) reconciler =
  rc_Kube :: "('q, 'w) kube"
  rc_Client :: "('q, 'w) worker_client"
  rc_Endpoint :: "'q pod \<Rightarrow> go_error + string"
  rc_Select :: strategy

text \<open>
  The result of a reconciliation: done, with the delay in seconds after which to come again
  (0 for none), an error, or a panic.
\<close>

datatype rec_result = Requeue int | RecErr go_error | Panicked

subsection \<open>Pods and endpoints\<close>

definition JoinHostPort :: "string \<Rightarrow> string \<Rightarrow> string" where
  "JoinHostPort host port =
     (if CHR '':'' \<in> set host \<or> CHR ''%'' \<in> set host then ''['' @ host @ '']:'' @ port
      else host @ '':'' @ port)"

definition PodIPResolver_Endpoint :: "int \<Rightarrow> 'q pod \<Rightarrow> go_error + string" where
  "PodIPResolver_Endpoint port p =
     (if pd_PodIP p = [] then Inl (Errorf ''worker pod %q has no IP'' [FS (pd_Name p)])
      else Inr (''http://'' @ JoinHostPort (pd_PodIP p) (Itoa port)))"

fun podReadyIn :: "(string \<times> string) list \<Rightarrow> bool" where
  "podReadyIn [] = False"
| "podReadyIn ((ty, st) # cs) = (if ty = ''Ready'' then st = ''True'' else podReadyIn cs)"

definition podReady :: "'q pod \<Rightarrow> bool" where
  "podReady p = podReadyIn (pd_Conditions p)"

definition resolveWorkerEndpoint ::
    "('q, 'w) reconciler \<Rightarrow> string \<Rightarrow> string \<Rightarrow> 'w \<Rightarrow> (go_error + string) \<times> 'w" where
  "resolveWorkerEndpoint r namespace name w =
     (let (got, w) = ku_GetPod (rc_Kube r) namespace name w in
      case got of
        Inl e \<Rightarrow> (Inl (Errorf ''get Worker Pod %q: %w'' [FS name, FW e]), w)
      | Inr p \<Rightarrow> (rc_Endpoint r p, w))"

definition conditionTrue :: "('q, 'w) kube \<Rightarrow> condition list \<Rightarrow> string \<Rightarrow> bool" where
  "conditionTrue k conditions ty =
     (case ku_FindStatusCondition k conditions ty of None \<Rightarrow> False | Some c \<Rightarrow> cn_Status c)"

subsection \<open>Snapshot storage\<close>

definition secretAccessKeyID :: string where "secretAccessKeyID = ''accessKeyID''"

definition secretSecretAccessKey :: string where "secretSecretAccessKey = ''secretAccessKey''"

definition snapshotStorageConfig ::
    "('q, 'w) kube \<Rightarrow> 'q sandbox_pool \<Rightarrow> 'w \<Rightarrow> (go_error + object_storage_config) \<times> 'w" where
  "snapshotStorageConfig k pool w =
     (let poolName = om_Name (po_Meta pool) in
      case Option.bind (po_SnapshotStorage (po_Spec pool)) sts_S3 of
        None \<Rightarrow> (Inl (Errorf ''SandboxPool %q has no snapshotStorage.s3'' [FS poolName]), w)
      | Some s3 \<Rightarrow>
          if s3_Bucket s3 = [] \<or> s3_CredentialsSecretRef s3 = []
          then (Inl (Errorf ''SandboxPool %q snapshotStorage.s3 needs bucket and credentialsSecretRef'' [FS poolName]), w)
          else
            let (got, w) = ku_GetSecret k (om_Namespace (po_Meta pool)) (s3_CredentialsSecretRef s3) w in
            case got of
              Inl e \<Rightarrow> (Inl (Errorf ''get snapshot credentials secret %q: %w'' [FS (s3_CredentialsSecretRef s3), FW e]), w)
            | Inr secret \<Rightarrow>
                let accessKey = gm_get0 [] secret secretAccessKeyID;
                    secretKey = gm_get0 [] secret secretSecretAccessKey
                in if accessKey = [] \<or> secretKey = []
                   then (Inl (Errorf ''secret %q must contain %s and %s''
                           [FS (s3_CredentialsSecretRef s3), FS secretAccessKeyID, FS secretSecretAccessKey]), w)
                   else (Inr \<lparr>oc_Endpoint = s3_Endpoint s3, oc_Bucket = s3_Bucket s3, oc_Region = s3_Region s3,
                              oc_AccessKeyID = accessKey, oc_SecretAccessKey = secretKey,
                              oc_UsePathStyle = s3_Endpoint s3 \<noteq> []\<rparr>, w))"

definition poolRuntime :: "'q sandbox_pool \<Rightarrow> string" where
  "poolRuntime pool = (case rc_CRI (po_Runtime (po_Spec pool)) of Some cri \<Rightarrow> cr_RuntimeHandler cri | None \<Rightarrow> [])"

end
