(* ===== verification/HttpApi.thy ===== *)
theory HttpApi
  imports WorkerSnapshot WorkerFiles Cluster
begin

text \<open>
  The Worker's HTTP interface, \<open>internal/worker/httpapi\<close>: the server's handlers on the Slot manager
  and the client the controllers and the SDK use.

  A body is the value its JSON text stands for: \<open>encoding/json\<close> decodes what it encoded, and
  decoding a body of another shape fails.  The query is its decoded parameters.  A multipart upload
  is a file name and a content; \<open>mime/multipart\<close> hands on the last element of the name's path, and a
  part with an empty name is not a file.  The multiplexer is the match of a clean path with the
  registered patterns.
\<close>

subsection \<open>Requests and responses\<close>

datatype 'q json =
    JConfigs "'q slot_config list"
  | JSlots "slot_info list"
  | JRef sandbox_slot_ref
  | JStart start_sandbox_request
  | JExec exec_sandbox_request
  | JCreateSnapshot create_snapshot_request
  | JRestore restore_from_snapshot_request
  | JDelete delete_snapshot_objects_request
  | JInfo sandbox_info
  | JExecResult exec_sandbox_result
  | JCreated create_snapshot_result
  | JExists bool
  | JEntries "sandbox_file_entry list"
  | JError string go_text

datatype 'q http_body =
    NoBody
  | Json "'q json"
  | Multipart string string
  | RawBytes string

datatype http_method = GET | PUT | POST

record 'q http_request =
  hq_Method :: http_method
  hq_Path :: string
  hq_Query :: "(string, string) gomap"
  hq_Body :: "'q http_body"

record 'q http_response =
  hr_Status :: int
  hr_Body :: "'q http_body"

definition queryGet :: "'q http_request \<Rightarrow> string \<Rightarrow> string" where
  "queryGet r k = gm_get0 [] (hq_Query r) k"

definition StatusText :: "int \<Rightarrow> string" where
  "StatusText code =
     (if code = 200 then ''OK'' else if code = 204 then ''No Content'' else if code = 400 then ''Bad Request''
      else if code = 404 then ''Not Found'' else if code = 405 then ''Method Not Allowed''
      else if code = 409 then ''Conflict'' else if code = 422 then ''Unprocessable Entity''
      else if code = 500 then ''Internal Server Error'' else [])"

definition statusLine :: "int \<Rightarrow> string" where
  "statusLine code = Itoa code @ '' '' @ StatusText code"

subsection \<open>The server: answers\<close>

definition noContent :: "'q http_response" where
  "noContent = \<lparr>hr_Status = 204, hr_Body = NoBody\<rparr>"

definition writeJSON :: "int \<Rightarrow> 'q json \<Rightarrow> 'q http_response" where
  "writeJSON status value = \<lparr>hr_Status = status, hr_Body = Json value\<rparr>"

definition writeError :: "int \<Rightarrow> string \<Rightarrow> go_text \<Rightarrow> 'q http_response" where
  "writeError status code message = writeJSON status (JError code message)"

definition invalidRequest :: "string \<Rightarrow> 'q http_response" where
  "invalidRequest message = writeError 400 ''InvalidRequest'' (Lit message)"

definition writeManagerError :: "go_error \<Rightarrow> 'q http_response" where
  "writeManagerError e =
     (if errors_is ErrInvalidRequest e \<or> errors_is ErrSlotConfigInvalid e
      then writeError 400 ''InvalidRequest'' (ErrText e)
      else if errors_is ErrSnapshotLoad e then writeError 422 ''SnapshotLoadFailed'' (ErrText e)
      else if errors_is ErrSlotNotFound e \<or> errors_is ErrSandboxNotFound e
      then writeError 404 ''SandboxNotFound'' (ErrText e)
      else if errors_is ErrSlotConflict e then writeError 409 ''SlotConflict'' (ErrText e)
      else writeError 500 ''RuntimeError'' (ErrText e))"

text \<open>The answer to an operation without a result and to one with a result.\<close>

definition answer :: "go_error option \<Rightarrow> 'q http_response" where
  "answer res = (case res of Some e \<Rightarrow> writeManagerError e | None \<Rightarrow> noContent)"

definition answerJSON :: "('r \<Rightarrow> 'q json) \<Rightarrow> go_error + 'r \<Rightarrow> 'q http_response" where
  "answerJSON enc res = (case res of Inl e \<Rightarrow> writeManagerError e | Inr r \<Rightarrow> writeJSON 200 (enc r))"

subsection \<open>The server: reading requests\<close>

definition pathSlotID :: "string \<Rightarrow> 'q http_response + int" where
  "pathSlotID value =
     (case ParseInt32 value of
        None \<Rightarrow> Inl (invalidRequest ''slotID must be a non-negative integer'')
      | Some v \<Rightarrow> if v < 0 then Inl (invalidRequest ''slotID must be a non-negative integer'') else Inr v)"

definition matchSlotID :: "string \<Rightarrow> int \<Rightarrow> 'q http_response option" where
  "matchSlotID value requestSlotID =
     (case pathSlotID value of
        Inl resp \<Rightarrow> Some resp
      | Inr pathID \<Rightarrow>
          if pathID \<noteq> requestSlotID then Some (invalidRequest ''path slotID does not match request slotID'')
          else None)"

definition decodeRequest :: "('q json \<Rightarrow> 'r option) \<Rightarrow> 'q http_request \<Rightarrow> 'q http_response + 'r" where
  "decodeRequest dec r =
     (case hq_Body r of
        Json j \<Rightarrow> (case dec j of
            None \<Rightarrow> Inl (invalidRequest ''request body is not valid JSON'')
          | Some v \<Rightarrow> Inr v)
      | _ \<Rightarrow> Inl (invalidRequest ''request body is not valid JSON''))"

definition queryIdentity :: "'q http_request \<Rightarrow> sandbox_identity" where
  "queryIdentity r =
     \<lparr>id_Namespace = queryGet r ''namespace'', id_Name = queryGet r ''name'', id_UID = queryGet r ''uid''\<rparr>"

definition fileRequestFromQuery :: "string \<Rightarrow> 'q http_request \<Rightarrow> 'q http_response + sandbox_file_request" where
  "fileRequestFromQuery value r =
     (case pathSlotID value of
        Inl resp \<Rightarrow> Inl resp
      | Inr slotID \<Rightarrow>
          if queryGet r ''path'' = [] then Inl (invalidRequest ''path query parameter is required'')
          else Inr \<lparr>fr_SlotID = slotID, fr_Identity = queryIdentity r, fr_Path = queryGet r ''path''\<rparr>)"

fun decRef :: "'q json \<Rightarrow> sandbox_slot_ref option" where
  "decRef (JRef r) = Some r" | "decRef _ = None"
fun decStart :: "'q json \<Rightarrow> start_sandbox_request option" where
  "decStart (JStart r) = Some r" | "decStart _ = None"
fun decExec :: "'q json \<Rightarrow> exec_sandbox_request option" where
  "decExec (JExec r) = Some r" | "decExec _ = None"
fun decCreate :: "'q json \<Rightarrow> create_snapshot_request option" where
  "decCreate (JCreateSnapshot r) = Some r" | "decCreate _ = None"
fun decRestore :: "'q json \<Rightarrow> restore_from_snapshot_request option" where
  "decRestore (JRestore r) = Some r" | "decRestore _ = None"
fun decDelete :: "'q json \<Rightarrow> delete_snapshot_objects_request option" where
  "decDelete (JDelete r) = Some r" | "decDelete _ = None"
fun decConfigs :: "'q json \<Rightarrow> 'q slot_config list option" where
  "decConfigs (JConfigs r) = Some r" | "decConfigs _ = None"
fun decSlots :: "'q json \<Rightarrow> slot_info list option" where
  "decSlots (JSlots r) = Some r" | "decSlots _ = None"
fun decInfo :: "'q json \<Rightarrow> sandbox_info option" where
  "decInfo (JInfo r) = Some r" | "decInfo _ = None"
fun decExecResult :: "'q json \<Rightarrow> exec_sandbox_result option" where
  "decExecResult (JExecResult r) = Some r" | "decExecResult _ = None"
fun decCreated :: "'q json \<Rightarrow> create_snapshot_result option" where
  "decCreated (JCreated r) = Some r" | "decCreated _ = None"
fun decExists :: "'q json \<Rightarrow> bool option" where
  "decExists (JExists r) = Some r" | "decExists _ = None"
fun decEntries :: "'q json \<Rightarrow> sandbox_file_entry list option" where
  "decEntries (JEntries r) = Some r" | "decEntries _ = None"

subsection \<open>The server: handlers\<close>

text \<open>What the handlers need of the Worker process: its environment and \<open>reflect.DeepEqual\<close> on resources.\<close>

record ('q, 'w) server_env =
  se_Env :: "'w worker_env"
  se_DeepEqual :: "'q resource_requirements \<Rightarrow> 'q resource_requirements \<Rightarrow> bool"

type_synonym ('q, 'w) handler =
  "'q http_request \<Rightarrow> ('q, 'w) slot_manager \<Rightarrow> 'w \<Rightarrow> 'q http_response \<times> ('q, 'w) slot_manager \<times> 'w"

definition health :: "('q, 'w) handler" where
  "health r m w = (noContent, m, w)"

definition putTopology :: "('q, 'w) server_env \<Rightarrow> ('q, 'w) handler" where
  "putTopology env r m w =
     (case decodeRequest decConfigs r of
        Inl resp \<Rightarrow> (resp, m, w)
      | Inr configs \<Rightarrow> let (err, m) = ApplySlots (se_DeepEqual env) configs m in (answer err, m, w))"

definition listSlots :: "('q, 'w) handler" where
  "listSlots r m w = (writeJSON 200 (JSlots (ListSlots m)), m, w)"

definition getSandbox :: "string \<Rightarrow> ('q, 'w) handler" where
  "getSandbox sid r m w =
     (case pathSlotID sid of
        Inl resp \<Rightarrow> (resp, m, w)
      | Inr slotID \<Rightarrow>
          (answerJSON JInfo (GetSandbox \<lparr>sr_SlotID = slotID, sr_Identity = queryIdentity r\<rparr> m), m, w))"

text \<open>The handlers that decode a request, compare its Slot with the path and call the manager.\<close>

definition slotHandler ::
    "('q json \<Rightarrow> 'r option) \<Rightarrow> ('r \<Rightarrow> int) \<Rightarrow>
     ('r \<Rightarrow> ('q, 'w) slot_manager \<Rightarrow> 'w \<Rightarrow> 'q http_response \<times> ('q, 'w) slot_manager \<times> 'w) \<Rightarrow>
     string \<Rightarrow> ('q, 'w) handler" where
  "slotHandler dec slotOf call sid r m w =
     (case decodeRequest dec r of
        Inl resp \<Rightarrow> (resp, m, w)
      | Inr req \<Rightarrow>
          (case matchSlotID sid (slotOf req) of
             Some resp \<Rightarrow> (resp, m, w)
           | None \<Rightarrow> call req m w))"

definition reserveSlot :: "string \<Rightarrow> ('q, 'w) handler" where
  "reserveSlot = slotHandler decRef sr_SlotID
     (\<lambda>ref m w. let (err, m, w) = ReserveSlot ref m w in (answer err, m, w))"

definition startSandbox :: "string \<Rightarrow> ('q, 'w) handler" where
  "startSandbox = slotHandler decStart sq_SlotID
     (\<lambda>req m w. let (err, m, w) = StartSandbox req m w in (answer err, m, w))"

definition stopSandbox :: "('q, 'w) server_env \<Rightarrow> string \<Rightarrow> ('q, 'w) handler" where
  "stopSandbox env = slotHandler decRef sr_SlotID
     (\<lambda>ref m w. let (err, m, w) = StopSandbox (we_Os (se_Env env)) ref m w in (answer err, m, w))"

definition releaseSlot :: "('q, 'w) server_env \<Rightarrow> string \<Rightarrow> ('q, 'w) handler" where
  "releaseSlot env = slotHandler decRef sr_SlotID
     (\<lambda>ref m w. let (err, m, w) = ReleaseSlot (we_Os (se_Env env)) ref m w in (answer err, m, w))"

definition execSandbox :: "string \<Rightarrow> ('q, 'w) handler" where
  "execSandbox = slotHandler decExec xq_SlotID
     (\<lambda>req m w. let (res, w) = ExecSandbox req m w in (answerJSON JExecResult res, m, w))"

definition createSnapshot :: "('q, 'w) server_env \<Rightarrow> string \<Rightarrow> ('q, 'w) handler" where
  "createSnapshot env = slotHandler decCreate cq_SlotID
     (\<lambda>req m w. let (res, m, w) = CreateSnapshot (se_Env env) req m w in (answerJSON JCreated res, m, w))"

definition restoreFromSnapshot :: "('q, 'w) server_env \<Rightarrow> string \<Rightarrow> ('q, 'w) handler" where
  "restoreFromSnapshot env = slotHandler decRestore rq_SlotID
     (\<lambda>req m w. let (err, m, w) = RestoreFromSnapshot (se_Env env) req m w in (answer err, m, w))"

definition deleteSnapshotObjects :: "('q, 'w) server_env \<Rightarrow> ('q, 'w) handler" where
  "deleteSnapshotObjects env r m w =
     (case decodeRequest decDelete r of
        Inl resp \<Rightarrow> (resp, m, w)
      | Inr req \<Rightarrow> let (err, w) = DeleteSnapshotObjects (se_Env env) req w in (answer err, m, w))"

text \<open>The three handlers that read a file.\<close>

definition fileHandler ::
    "(sandbox_file_request \<Rightarrow> ('q, 'w) slot_manager \<Rightarrow> 'w \<Rightarrow> (go_error + 'r) \<times> 'w) \<Rightarrow>
     ('r \<Rightarrow> 'q http_body) \<Rightarrow> string \<Rightarrow> ('q, 'w) handler" where
  "fileHandler call enc sid r m w =
     (case fileRequestFromQuery sid r of
        Inl resp \<Rightarrow> (resp, m, w)
      | Inr req \<Rightarrow>
          let (res, w) = call req m w in
          (case res of
             Inl e \<Rightarrow> (writeManagerError e, m, w)
           | Inr v \<Rightarrow> (\<lparr>hr_Status = 200, hr_Body = enc v\<rparr>, m, w)))"

definition fileExists :: "string \<Rightarrow> ('q, 'w) handler" where
  "fileExists = fileHandler ExistsSandboxFile (\<lambda>b. Json (JExists b))"

definition listFiles :: "string \<Rightarrow> ('q, 'w) handler" where
  "listFiles = fileHandler ListSandboxFiles (\<lambda>es. Json (JEntries es))"

definition readFile :: "string \<Rightarrow> ('q, 'w) handler" where
  "readFile = fileHandler ReadSandboxFile RawBytes"

text \<open>
  The name of an uploaded part as \<open>mime/multipart\<close> reports it.  A part without a name is not a file,
  so the handler's own check for an empty name never applies.
\<close>

definition uploadName :: "string \<Rightarrow> string" where
  "uploadName filename = (if filename = [] then [] else Base filename)"

definition readUpload :: "string \<Rightarrow> nat \<Rightarrow> go_error + string" where
  "readUpload file limit =
     (let content = take (limit + 1) file in
      if length content > limit then Inl (Errorf ''uploaded file exceeds size limit'' []) else Inr content)"

definition writeFile :: "string \<Rightarrow> ('q, 'w) handler" where
  "writeFile sid r m w =
     (case pathSlotID sid of
        Inl resp \<Rightarrow> (resp, m, w)
      | Inr slotID \<Rightarrow>
          (case hq_Body r of
             Multipart filename file \<Rightarrow>
               let name = uploadName filename in
               if name = [] then (invalidRequest (''multipart field '' @ dq @ ''file'' @ dq @ '' is required''), m, w)
               else (case readUpload file MaxFileBytes of
                   Inl e \<Rightarrow> (writeError 400 ''InvalidRequest'' (ErrText e), m, w)
                 | Inr content \<Rightarrow>
                     let (err, w) = WriteSandboxFile
                           \<lparr>fr_SlotID = slotID, fr_Identity = queryIdentity r, fr_Path = name\<rparr> content m w
                     in (answer err, m, w))
           | _ \<Rightarrow> (invalidRequest ''multipart form is required'', m, w)))"

subsection \<open>The server: routing\<close>

definition notFound :: "'q http_response" where
  "notFound = \<lparr>hr_Status = 404, hr_Body = RawBytes ''404 page not found''\<rparr>"

definition methodNotAllowed :: "'q http_response" where
  "methodNotAllowed = \<lparr>hr_Status = 405, hr_Body = RawBytes ''Method Not Allowed''\<rparr>"

definition slotRoutes ::
    "('q, 'w) server_env \<Rightarrow> (string list \<times> http_method \<times> (string \<Rightarrow> ('q, 'w) handler)) list" where
  "slotRoutes env =
     [([], GET, getSandbox), ([''reserve''], POST, reserveSlot), ([''start''], POST, startSandbox),
      ([''stop''], POST, stopSandbox env), ([''release''], POST, releaseSlot env),
      ([''exec''], POST, execSandbox), ([''createSnapshot''], POST, createSnapshot env),
      ([''restoreFromSnapshot''], POST, restoreFromSnapshot env), ([''files'', ''exists''], GET, fileExists),
      ([''files'', ''list''], GET, listFiles), ([''files'', ''content''], GET, readFile),
      ([''files'', ''upload''], POST, writeFile)]"

definition plainRoutes :: "('q, 'w) server_env \<Rightarrow> (string list \<times> http_method \<times> ('q, 'w) handler) list" where
  "plainRoutes env =
     [([''healthz''], GET, health), ([''v1'', ''topology''], PUT, putTopology env), ([''v1'', ''slots''], GET, listSlots),
      ([''v1'', ''snapshots'', ''delete''], POST, deleteSnapshotObjects env)]"

fun slotPath :: "string list \<Rightarrow> (string \<times> string list) option" where
  "slotPath (a # b # sid # action) =
     (if a = ''v1'' \<and> b = ''slots'' \<and> sid \<noteq> [] then Some (sid, action) else None)"
| "slotPath _ = None"

definition ServeHTTP :: "('q, 'w) server_env \<Rightarrow> ('q, 'w) handler" where
  "ServeHTTP env r m w =
     (case splitOn (CHR ''/'') (hq_Path r) of
        [] # parts \<Rightarrow>
          (case map_of (plainRoutes env) parts of
             Some (method, h) \<Rightarrow> if method = hq_Method r then h r m w else (methodNotAllowed, m, w)
           | None \<Rightarrow>
               (case slotPath parts of
                  None \<Rightarrow> (notFound, m, w)
                | Some (sid, action) \<Rightarrow>
                    (case map_of (slotRoutes env) action of
                       None \<Rightarrow> (notFound, m, w)
                     | Some (method, h) \<Rightarrow> if method = hq_Method r then h sid r m w else (methodNotAllowed, m, w))))
      | _ \<Rightarrow> (notFound, m, w))"

subsection \<open>The client\<close>

text \<open>
  \<open>http.Client.Do\<close>, a parameter: it takes the base of the URL and the request.
\<close>

type_synonym ('q, 'w) transport = "string \<Rightarrow> 'q http_request \<Rightarrow> 'w \<Rightarrow> (go_error + 'q http_response) \<times> 'w"

definition TrimRightSlash :: "string \<Rightarrow> string" where
  "TrimRightSlash s = rev (dropWhile (\<lambda>c. c = CHR ''/'') (rev s))"

definition slotURL :: "int \<Rightarrow> string \<Rightarrow> string" where
  "slotURL slotID action = ''/v1/slots/'' @ Itoa slotID @ (if action = [] then [] else ''/'' @ action)"

definition fileURL :: "int \<Rightarrow> string \<Rightarrow> string" where
  "fileURL slotID action = ''/v1/slots/'' @ Itoa slotID @ ''/files/'' @ action"

definition identityQuery :: "sandbox_identity \<Rightarrow> (string, string) gomap" where
  "identityQuery i = [(''namespace'', id_Namespace i), (''name'', id_Name i), (''uid'', id_UID i)]"

definition fileQuery :: "string \<Rightarrow> sandbox_file_request \<Rightarrow> (string, string) gomap" where
  "fileQuery action req =
     identityQuery (fr_Identity req) @ (if action = ''upload'' then [] else [(''path'', fr_Path req)])"

definition responseError :: "'q http_response \<Rightarrow> go_error" where
  "responseError resp =
     (case hr_Body resp of
        Json (JError code message) \<Rightarrow> HttpError (hr_Status resp) code message
      | Json _ \<Rightarrow> HttpError (hr_Status resp) [] (Lit [])
      | _ \<Rightarrow> HttpError (hr_Status resp) [] (Lit (statusLine (hr_Status resp))))"

text \<open>The exchange every call makes: an answer with a status of the 200s, or an error.\<close>

definition exchange ::
    "('q, 'w) transport \<Rightarrow> string \<Rightarrow> 'q http_request \<Rightarrow> 'w \<Rightarrow> (go_error + 'q http_response) \<times> 'w" where
  "exchange tr endpoint req w =
     (let (got, w) = tr (TrimRightSlash endpoint) req w in
      case got of
        Inl e \<Rightarrow> (Inl (Errorf ''call worker API: %w'' [FW e]), w)
      | Inr resp \<Rightarrow>
          if hr_Status resp < 200 \<or> hr_Status resp \<ge> 300 then (Inl (responseError resp), w) else (Inr resp, w))"

definition doCall :: "('q, 'w) transport \<Rightarrow> string \<Rightarrow> 'q http_request \<Rightarrow> 'w \<Rightarrow> go_error option \<times> 'w" where
  "doCall tr endpoint req w =
     (let (got, w) = exchange tr endpoint req w in
      (case got of Inl e \<Rightarrow> Some e | Inr _ \<Rightarrow> None, w))"

definition doResult ::
    "('q, 'w) transport \<Rightarrow> ('q json \<Rightarrow> 'r option) \<Rightarrow> 'r \<Rightarrow> string \<Rightarrow> 'q http_request \<Rightarrow> 'w \<Rightarrow> (go_error + 'r) \<times> 'w" where
  "doResult tr dec zero endpoint req w =
     (let (got, w) = exchange tr endpoint req w in
      (case got of
         Inl e \<Rightarrow> Inl e
       | Inr resp \<Rightarrow>
           if hr_Status resp = 204 then Inr zero
           else (case hr_Body resp of
               Json j \<Rightarrow> (case dec j of
                   None \<Rightarrow> Inl (Errorf ''decode worker response: %w'' [FW (External ''json'')])
                 | Some v \<Rightarrow> Inr v)
             | _ \<Rightarrow> Inl (Errorf ''decode worker response: %w'' [FW (External ''json'')])), w))"

definition request :: "http_method \<Rightarrow> string \<Rightarrow> (string, string) gomap \<Rightarrow> 'q http_body \<Rightarrow> 'q http_request" where
  "request method p query body = \<lparr>hq_Method = method, hq_Path = p, hq_Query = query, hq_Body = body\<rparr>"

definition client_Health :: "('q, 'w) transport \<Rightarrow> string \<Rightarrow> 'w \<Rightarrow> go_error option \<times> 'w" where
  "client_Health tr endpoint = doCall tr endpoint (request GET ''/healthz'' [] NoBody)"

definition client_ListSlots :: "('q, 'w) transport \<Rightarrow> string \<Rightarrow> 'w \<Rightarrow> (go_error + slot_info list) \<times> 'w" where
  "client_ListSlots tr endpoint = doResult tr decSlots [] endpoint (request GET ''/v1/slots'' [] NoBody)"

definition client_ApplyTopology ::
    "('q, 'w) transport \<Rightarrow> string \<Rightarrow> 'q slot_config list \<Rightarrow> 'w \<Rightarrow> go_error option \<times> 'w" where
  "client_ApplyTopology tr endpoint configs =
     doCall tr endpoint (request PUT ''/v1/topology'' [] (Json (JConfigs configs)))"

definition client_ReserveSlot :: "('q, 'w) transport \<Rightarrow> string \<Rightarrow> sandbox_slot_ref \<Rightarrow> 'w \<Rightarrow> go_error option \<times> 'w" where
  "client_ReserveSlot tr endpoint ref =
     doCall tr endpoint (request POST (slotURL (sr_SlotID ref) ''reserve'') [] (Json (JRef ref)))"

definition client_StartSandbox ::
    "('q, 'w) transport \<Rightarrow> string \<Rightarrow> start_sandbox_request \<Rightarrow> 'w \<Rightarrow> go_error option \<times> 'w" where
  "client_StartSandbox tr endpoint req =
     doCall tr endpoint (request POST (slotURL (sq_SlotID req) ''start'') [] (Json (JStart req)))"

definition client_StopSandbox :: "('q, 'w) transport \<Rightarrow> string \<Rightarrow> sandbox_slot_ref \<Rightarrow> 'w \<Rightarrow> go_error option \<times> 'w" where
  "client_StopSandbox tr endpoint ref =
     doCall tr endpoint (request POST (slotURL (sr_SlotID ref) ''stop'') [] (Json (JRef ref)))"

definition client_ReleaseSlot :: "('q, 'w) transport \<Rightarrow> string \<Rightarrow> sandbox_slot_ref \<Rightarrow> 'w \<Rightarrow> go_error option \<times> 'w" where
  "client_ReleaseSlot tr endpoint ref =
     doCall tr endpoint (request POST (slotURL (sr_SlotID ref) ''release'') [] (Json (JRef ref)))"

definition client_ExecSandbox ::
    "('q, 'w) transport \<Rightarrow> string \<Rightarrow> exec_sandbox_request \<Rightarrow> 'w \<Rightarrow> (go_error + exec_sandbox_result) \<times> 'w" where
  "client_ExecSandbox tr endpoint req =
     doResult tr decExecResult \<lparr>xr_ExitCode = 0, xr_Stdout = [], xr_Stderr = []\<rparr> endpoint
       (request POST (slotURL (xq_SlotID req) ''exec'') [] (Json (JExec req)))"

definition noSnapshotResult :: create_snapshot_result where
  "noSnapshotResult = \<lparr>ct_StoragePath = [], ct_SnapshotFiles = [], ct_Digest = [], ct_SizeBytes = 0,
     ct_FormatVersion = [], ct_Runtime = []\<rparr>"

definition client_CreateSnapshot ::
    "('q, 'w) transport \<Rightarrow> string \<Rightarrow> create_snapshot_request \<Rightarrow> 'w \<Rightarrow> (go_error + create_snapshot_result) \<times> 'w" where
  "client_CreateSnapshot tr endpoint req =
     doResult tr decCreated noSnapshotResult endpoint
       (request POST (slotURL (cq_SlotID req) ''createSnapshot'') [] (Json (JCreateSnapshot req)))"

definition client_RestoreFromSnapshot ::
    "('q, 'w) transport \<Rightarrow> string \<Rightarrow> restore_from_snapshot_request \<Rightarrow> 'w \<Rightarrow> go_error option \<times> 'w" where
  "client_RestoreFromSnapshot tr endpoint req =
     doCall tr endpoint (request POST (slotURL (rq_SlotID req) ''restoreFromSnapshot'') [] (Json (JRestore req)))"

definition client_DeleteSnapshotObjects ::
    "('q, 'w) transport \<Rightarrow> string \<Rightarrow> delete_snapshot_objects_request \<Rightarrow> 'w \<Rightarrow> go_error option \<times> 'w" where
  "client_DeleteSnapshotObjects tr endpoint req =
     doCall tr endpoint (request POST ''/v1/snapshots/delete'' [] (Json (JDelete req)))"

definition client_ExistsSandboxFile ::
    "('q, 'w) transport \<Rightarrow> string \<Rightarrow> sandbox_file_request \<Rightarrow> 'w \<Rightarrow> (go_error + bool) \<times> 'w" where
  "client_ExistsSandboxFile tr endpoint req =
     doResult tr decExists False endpoint
       (request GET (fileURL (fr_SlotID req) ''exists'') (fileQuery ''exists'' req) NoBody)"

definition client_ListSandboxFiles ::
    "('q, 'w) transport \<Rightarrow> string \<Rightarrow> sandbox_file_request \<Rightarrow> 'w \<Rightarrow> (go_error + sandbox_file_entry list) \<times> 'w" where
  "client_ListSandboxFiles tr endpoint req =
     doResult tr decEntries [] endpoint
       (request GET (fileURL (fr_SlotID req) ''list'') (fileQuery ''list'' req) NoBody)"

definition rawBody :: "'q http_body \<Rightarrow> string" where
  "rawBody b = (case b of RawBytes s \<Rightarrow> s | _ \<Rightarrow> [])"

definition client_ReadSandboxFile ::
    "('q, 'w) transport \<Rightarrow> string \<Rightarrow> sandbox_file_request \<Rightarrow> 'w \<Rightarrow> (go_error + string) \<times> 'w" where
  "client_ReadSandboxFile tr endpoint req w =
     (let (got, w) = exchange tr endpoint
            (request GET (fileURL (fr_SlotID req) ''content'') (fileQuery ''content'' req) NoBody) w
      in (case got of
            Inl e \<Rightarrow> Inl e
          | Inr resp \<Rightarrow>
              let content = take (MaxFileBytes + 1) (rawBody (hr_Body resp)) in
              if length content > MaxFileBytes then Inl (Errorf ''file exceeds %d bytes'' [FD (int MaxFileBytes)])
              else Inr content, w))"

definition client_WriteSandboxFile ::
    "('q, 'w) transport \<Rightarrow> string \<Rightarrow> sandbox_file_request \<Rightarrow> string \<Rightarrow> 'w \<Rightarrow> go_error option \<times> 'w" where
  "client_WriteSandboxFile tr endpoint req content =
     doCall tr endpoint
       (request POST (fileURL (fr_SlotID req) ''upload'') (fileQuery ''upload'' req) (Multipart (fr_Path req) content))"

definition noSandboxInfo :: sandbox_info where
  "noSandboxInfo = \<lparr>sx_Identity = noIdentity, sx_SlotID = 0, sx_State = StateZero\<rparr>"

definition client_GetSandbox ::
    "('q, 'w) transport \<Rightarrow> string \<Rightarrow> sandbox_slot_ref \<Rightarrow> 'w \<Rightarrow> (go_error + sandbox_info) \<times> 'w" where
  "client_GetSandbox tr endpoint ref =
     doResult tr decInfo noSandboxInfo endpoint
       (request GET (slotURL (sr_SlotID ref) []) (identityQuery (sr_Identity ref)) NoBody)"

text \<open>The client as the controllers' \<open>WorkerClient\<close>.\<close>

definition httpClient :: "('q, 'w) transport \<Rightarrow> ('q, 'w) worker_client" where
  "httpClient tr =
     \<lparr>wl_Health = client_Health tr, wl_ListSlots = client_ListSlots tr, wl_ApplyTopology = client_ApplyTopology tr,
      wl_ReserveSlot = client_ReserveSlot tr, wl_StartSandbox = client_StartSandbox tr,
      wl_StopSandbox = client_StopSandbox tr, wl_ReleaseSlot = client_ReleaseSlot tr,
      wl_CreateSnapshot = client_CreateSnapshot tr, wl_RestoreFromSnapshot = client_RestoreFromSnapshot tr,
      wl_DeleteSnapshotObjects = client_DeleteSnapshotObjects tr\<rparr>"

end
