(* ===== verification/SandboxController.thy ===== *)
theory SandboxController
  imports Cluster
begin

text \<open>
  The Sandbox controller, \<open>sandbox_controller.go\<close> and \<open>sandbox_restore.go\<close>.  A reconciliation reads
  and writes the cluster, calls the Worker of the Sandbox, and changes the scheduler, which is
  the controller's own state and is passed explicitly.
\<close>

definition sandboxRetryInterval :: int where "sandboxRetryInterval = 2"

definition poolPollInterval :: int where "poolPollInterval = 5"

subsection \<open>Helpers\<close>

definition setPhase :: "sandbox_phase \<Rightarrow> sandbox \<Rightarrow> sandbox" where
  "setPhase p s = s\<lparr>sb_Status := (sb_Status s)\<lparr>ss_Phase := p\<rparr>\<rparr>"

definition setSandboxCondition ::
    "('q, 'w) kube \<Rightarrow> string \<Rightarrow> bool \<Rightarrow> string \<Rightarrow> go_text \<Rightarrow> sandbox \<Rightarrow> sandbox" where
  "setSandboxCondition k ty st reason message s =
     s\<lparr>sb_Status := (sb_Status s)\<lparr>ss_Conditions :=
        ku_SetStatusCondition k (ss_Conditions (sb_Status s))
          \<lparr>cn_Type = ty, cn_Status = st, cn_Reason = reason, cn_Message = message,
           cn_ObservedGeneration = om_Generation (sb_Meta s)\<rparr>\<rparr>\<rparr>"

definition sandboxIdentity :: "sandbox \<Rightarrow> sandbox_identity" where
  "sandboxIdentity s =
     \<lparr>id_Namespace = om_Namespace (sb_Meta s), id_Name = om_Name (sb_Meta s), id_UID = om_UID (sb_Meta s)\<rparr>"

definition hasSlotProfile :: "'q pool_spec \<Rightarrow> string \<Rightarrow> bool" where
  "hasSlotProfile spec name = list_ex (\<lambda>p. pf_Name p = name) (po_SlotProfiles spec)"

definition assignmentFromSandbox :: "sandbox \<Rightarrow> api_assignment \<Rightarrow> assignment" where
  "assignmentFromSandbox s a =
     \<lparr>as_SandboxUID = om_UID (sb_Meta s), as_Namespace = om_Namespace (sb_Meta s), as_Name = om_Name (sb_Meta s),
      as_Worker = \<lparr>wk_Namespace = om_Namespace (sb_Meta s), wk_Pool = sb_PoolRef (sb_Spec s), wk_Name = aa_Worker a\<rparr>,
      as_SlotID = aa_SlotID a, as_SlotProfile = sb_SlotProfile (sb_Spec s)\<rparr>"

text \<open>Write the status if it differs from the server's; the object then carries the server's version.\<close>

definition sandboxSyncStatus :: "('q, 'w) kube \<Rightarrow> sandbox \<Rightarrow> 'w \<Rightarrow> go_error option \<times> sandbox \<times> 'w" where
  "sandboxSyncStatus k s w =
     (let s = s\<lparr>sb_Status := (sb_Status s)\<lparr>ss_ObservedGeneration := om_Generation (sb_Meta s)\<rparr>\<rparr>;
          desired = sb_Status s;
          (got, w) = ku_GetSandbox k (om_Namespace (sb_Meta s)) (om_Name (sb_Meta s)) w
      in case got of
           Inl e \<Rightarrow> (Some (Errorf ''get current Sandbox before status update: %w'' [FW e]), s, w)
         | Inr current \<Rightarrow>
             if sb_Status current = desired
             then (None, s\<lparr>sb_Meta := sb_Meta current, sb_Status := sb_Status current\<rparr>, w)
             else
               let (upd, w) = ku_UpdateSandboxStatus k (current\<lparr>sb_Status := desired\<rparr>) w in
               case upd of
                 Inl e \<Rightarrow> (Some (Errorf ''update Sandbox status: %w'' [FW e]), s, w)
               | Inr current \<Rightarrow> (None, s\<lparr>sb_Meta := sb_Meta current, sb_Status := sb_Status current\<rparr>, w))"

text \<open>The status write that ends a branch, and the result it leads to.\<close>

definition finishWith :: "('q, 'w) kube \<Rightarrow> int \<Rightarrow> sandbox \<Rightarrow> 'w \<Rightarrow> rec_result \<times> 'w" where
  "finishWith k after s w =
     (let (err, s, w) = sandboxSyncStatus k s w in
      case err of Some e \<Rightarrow> (RecErr e, w) | None \<Rightarrow> (Requeue after, w))"

text \<open>\<open>Retryable\<close> of the Worker API's error; other errors do not have the method.\<close>

fun notRetryable :: "go_error \<Rightarrow> bool" where
  "notRetryable (HttpError code _ _) = (\<not> (code = 429 \<or> code = 500 \<or> code = 503))"
| "notRetryable _ = False"

definition handleWorkerError ::
    "('q, 'w) kube \<Rightarrow> sandbox \<Rightarrow> string \<Rightarrow> go_error \<Rightarrow> 'w \<Rightarrow> rec_result \<times> 'w" where
  "handleWorkerError k s reason operationErr w =
     (let s = setSandboxCondition k ConditionReady False reason (ErrText operationErr) s in
      if notRetryable operationErr then finishWith k 0 (setPhase SandboxPhaseFailed s) w
      else finishWith k sandboxRetryInterval s w)"

subsection \<open>Assignment\<close>

definition syncAssign ::
    "('q, 'w) reconciler \<Rightarrow> sandbox \<Rightarrow> 'q sandbox_pool \<Rightarrow> memory_scheduler \<Rightarrow> 'w \<Rightarrow>
     rec_result \<times> memory_scheduler \<times> 'w" where
  "syncAssign r s pool sched w =
     (let k = rc_Kube r; profile = sb_SlotProfile (sb_Spec s) in
      if \<not> hasSlotProfile (po_Spec pool) profile then
        let s = setPhase SandboxPhaseFailed
              (setSandboxCondition k ConditionScheduled False ''InvalidSlotProfile''
                (Sprintf ''slotProfile %q is not defined by SandboxPool %q'' [FS profile, FS (om_Name (po_Meta pool))]) s);
            (res, w) = finishWith k 0 s w
        in (res, sched, w)
      else
        case Assign (rc_Select r)
               \<lparr>ar_SandboxUID = om_UID (sb_Meta s), ar_Namespace = om_Namespace (sb_Meta s),
                ar_Name = om_Name (sb_Meta s), ar_Pool = sb_PoolRef (sb_Spec s), ar_SlotProfile = profile\<rparr> sched of
          None \<Rightarrow> (Panicked, sched, w)
        | Some (Inl e, sched) \<Rightarrow>
            if errors_is ErrNoCapacity e then
              let s = setPhase SandboxPhasePending
                    (setSandboxCondition k ConditionScheduled False ''NoCapacity''
                      (Lit ''the SandboxPool has no available Slot'') s);
                  (res, w) = finishWith k sandboxRetryInterval s w
              in (res, sched, w)
            else (RecErr (Errorf ''assign Sandbox: %w'' [FW e]), sched, w)
        | Some (Inr a, sched) \<Rightarrow>
            let s = s\<lparr>sb_Status := (sb_Status s)\<lparr>
                  ss_Assignment := Some \<lparr>aa_Worker = wk_Name (as_Worker a), aa_SlotID = as_SlotID a,
                                         aa_SlotProfile = as_SlotProfile a\<rparr>,
                  ss_Phase := SandboxPhaseStarting\<rparr>\<rparr>;
                s = setSandboxCondition k ConditionScheduled True ''Assigned'' (Lit ''a Worker and Slot were assigned'') s;
                s = setSandboxCondition k ConditionReady False ''Starting'' (Lit ''the Sandbox is starting'') s;
                (res, w) = finishWith k 0 s w
            in (res, sched, w))"

subsection \<open>Starting\<close>

definition snapPhaseString :: "snapshot_phase \<Rightarrow> string" where
  "snapPhaseString p =
     (case p of SnapPhaseUnset \<Rightarrow> [] | SandboxSnapshotPhasePending \<Rightarrow> ''Pending''
      | SandboxSnapshotPhaseReady \<Rightarrow> ''Ready'' | SandboxSnapshotPhaseFailed \<Rightarrow> ''Failed'')"

definition startFromSnapshot ::
    "('q, 'w) reconciler \<Rightarrow> sandbox \<Rightarrow> string \<Rightarrow> sandbox_slot_ref \<Rightarrow> 'w \<Rightarrow> go_error option \<times> 'w" where
  "startFromSnapshot r s endpoint ref w =
     (let k = rc_Kube r; ns = om_Namespace (sb_Meta s); snapName = sb_FromSnapshot (sb_Spec s);
          (got, w) = ku_GetSnapshot k ns snapName w
      in case got of
           Inl e \<Rightarrow>
             (Some (if isNotFound e then Errorf ''fromSnapshot %q not found'' [FS snapName]
                    else Errorf ''get SandboxSnapshot %q: %w'' [FS snapName, FW e]), w)
         | Inr snap \<Rightarrow>
             let st = sn_Status snap; nm = om_Name (sn_Meta snap) in
             if st_Phase st \<noteq> SandboxSnapshotPhaseReady
             then (Some (Errorf ''SandboxSnapshot %q is %q, want Ready'' [FS nm, FS (snapPhaseString (st_Phase st))]), w)
             else if st_StoragePath st = []
             then (Some (Errorf ''SandboxSnapshot %q has empty storagePath'' [FS nm]), w)
             else if sp_Pool (sn_Spec snap) \<noteq> sb_PoolRef (sb_Spec s)
             then (Some (Errorf ''SandboxSnapshot %q pool %q does not match Sandbox poolRef %q''
                     [FS nm, FS (sp_Pool (sn_Spec snap)), FS (sb_PoolRef (sb_Spec s))]), w)
             else
               let (gotPool, w) = ku_GetPool k ns (sb_PoolRef (sb_Spec s)) w in
               case gotPool of
                 Inl e \<Rightarrow> (Some (Errorf ''get SandboxPool %q: %w'' [FS (sb_PoolRef (sb_Spec s)), FW e]), w)
               | Inr pool \<Rightarrow>
                   let (storage, w) = snapshotStorageConfig k pool w in
                   case storage of
                     Inl e \<Rightarrow> (Some e, w)
                   | Inr storage \<Rightarrow>
                       let handler = (if st_Runtime st = [] then poolRuntime pool else st_Runtime st) in
                       wl_RestoreFromSnapshot (rc_Client r) endpoint
                         \<lparr>rq_SlotID = sr_SlotID ref, rq_Identity = sr_Identity ref, rq_StoragePath = st_StoragePath st,
                          rq_Storage = storage, rq_Runtime = handler\<rparr> w)"

text \<open>The calls of the Worker that bring the Sandbox up; \<open>None\<close> is success.\<close>

definition launch ::
    "('q, 'w) reconciler \<Rightarrow> sandbox \<Rightarrow> string \<Rightarrow> sandbox_slot_ref \<Rightarrow> 'w \<Rightarrow> rec_result option \<times> 'w" where
  "launch r s endpoint ref w =
     (let k = rc_Kube r in
      if sb_FromSnapshot (sb_Spec s) \<noteq> [] then
        let (err, w) = startFromSnapshot r s endpoint ref w in
        case err of
          Some e \<Rightarrow> let (res, w) = handleWorkerError k s ''RestoreFailed'' e w in (Some res, w)
        | None \<Rightarrow> (None, w)
      else
        case sb_Container (sb_Spec s) of
          None \<Rightarrow>
            let s = setPhase SandboxPhaseFailed
                  (setSandboxCondition k ConditionReady False ''InvalidSpec''
                    (Lit ''container is required when fromSnapshot is empty'') s);
                (res, w) = finishWith k 0 s w
            in (Some res, w)
        | Some c \<Rightarrow>
            let (err, w) = wl_StartSandbox (rc_Client r) endpoint
                  \<lparr>sq_SlotID = sr_SlotID ref, sq_Identity = sr_Identity ref, sq_Container = c\<rparr> w
            in case err of
                 Some e \<Rightarrow> let (res, w) = handleWorkerError k s ''StartFailed'' e w in (Some res, w)
               | None \<Rightarrow> (None, w))"

definition syncStart ::
    "('q, 'w) reconciler \<Rightarrow> sandbox \<Rightarrow> api_assignment \<Rightarrow> memory_scheduler \<Rightarrow> 'w \<Rightarrow>
     rec_result \<times> memory_scheduler \<times> 'w" where
  "syncStart r s a sched w =
     (let k = rc_Kube r; (err, sched) = Restore (assignmentFromSandbox s a) sched in
      case err of
        Some e \<Rightarrow> (RecErr (Errorf ''restore Sandbox assignment: %w'' [FW e]), sched, w)
      | None \<Rightarrow>
          let (ep, w) = resolveWorkerEndpoint r (om_Namespace (sb_Meta s)) (aa_Worker a) w in
          case ep of
            Inl e \<Rightarrow>
              let s = setSandboxCondition k ConditionReady False ''WorkerUnavailable'' (ErrText e) s;
                  (res, w) = finishWith k sandboxRetryInterval s w
              in (res, sched, w)
          | Inr endpoint \<Rightarrow>
              let ref = \<lparr>sr_SlotID = aa_SlotID a, sr_Identity = sandboxIdentity s\<rparr>;
                  (err, w) = wl_ReserveSlot (rc_Client r) endpoint ref w
              in case err of
                   Some e \<Rightarrow> let (res, w) = handleWorkerError k s ''ReserveFailed'' e w in (res, sched, w)
                 | None \<Rightarrow>
                     let (stopped, w) = launch r s endpoint ref w in
                     case stopped of
                       Some res \<Rightarrow> (res, sched, w)
                     | None \<Rightarrow>
                         let s = setSandboxCondition k ConditionReady True ''Running'' (Lit ''the Sandbox is running'')
                               (setPhase SandboxPhaseRunning s);
                             (res, w) = finishWith k poolPollInterval s w
                         in (res, sched, w))"

subsection \<open>Deletion\<close>

text \<open>
  What the Worker has to do before the Sandbox may go; \<open>Inl\<close> ends the reconciliation, \<open>Inr\<close> is the
  Sandbox as read back.
\<close>

definition teardown ::
    "('q, 'w) reconciler \<Rightarrow> sandbox \<Rightarrow> 'w \<Rightarrow> (rec_result + sandbox) \<times> 'w" where
  "teardown r s w =
     (case ss_Assignment (sb_Status s) of
        None \<Rightarrow> (Inr s, w)
      | Some _ \<Rightarrow>
          let (err, s, w) = sandboxSyncStatus (rc_Kube r) (setPhase SandboxPhaseStopping s) w in
          case err of
            Some e \<Rightarrow> (Inl (RecErr e), w)
          | None \<Rightarrow>
              (case ss_Assignment (sb_Status s) of
                 None \<Rightarrow> (Inl Panicked, w)
               | Some a \<Rightarrow>
                   let (ep, w) = resolveWorkerEndpoint r (om_Namespace (sb_Meta s)) (aa_Worker a) w in
                   case ep of
                     Inl _ \<Rightarrow> (Inl (Requeue sandboxRetryInterval), w)
                   | Inr endpoint \<Rightarrow>
                       let ref = \<lparr>sr_SlotID = aa_SlotID a, sr_Identity = sandboxIdentity s\<rparr>;
                           (err, w) = wl_StopSandbox (rc_Client r) endpoint ref w
                       in case err of
                            Some e \<Rightarrow> (Inl (RecErr (Errorf ''stop Sandbox: %w'' [FW e])), w)
                          | None \<Rightarrow>
                              let (err, w) = wl_ReleaseSlot (rc_Client r) endpoint ref w in
                              case err of
                                Some e \<Rightarrow> (Inl (RecErr (Errorf ''release Sandbox Slot: %w'' [FW e])), w)
                              | None \<Rightarrow> (Inr s, w)))"

definition syncDelete ::
    "('q, 'w) reconciler \<Rightarrow> sandbox \<Rightarrow> memory_scheduler \<Rightarrow> 'w \<Rightarrow> rec_result \<times> memory_scheduler \<times> 'w" where
  "syncDelete r s sched w =
     (let k = rc_Kube r in
      if \<not> ku_ContainsFinalizer k (sb_Meta s) SandboxFinalizer then (Requeue 0, sched, w)
      else
        let (down, w) = teardown r s w in
        case down of
          Inl res \<Rightarrow> (res, sched, w)
        | Inr s \<Rightarrow>
            let sched = Release (om_UID (sb_Meta s)) sched;
                (err, w) = ku_UpdateSandbox k (s\<lparr>sb_Meta := ku_RemoveFinalizer k (sb_Meta s) SandboxFinalizer\<rparr>) w
            in case err of
                 Some e \<Rightarrow> (RecErr (Errorf ''remove Sandbox finalizer: %w'' [FW e]), sched, w)
               | None \<Rightarrow> (Requeue 0, sched, w))"

subsection \<open>Reconciliation\<close>

definition SandboxReconcile ::
    "('q, 'w) reconciler \<Rightarrow> string \<Rightarrow> string \<Rightarrow> memory_scheduler \<Rightarrow> 'w \<Rightarrow> rec_result \<times> memory_scheduler \<times> 'w" where
  "SandboxReconcile r namespace name sched w =
     (let k = rc_Kube r; (got, w) = ku_GetSandbox k namespace name w in
      case got of
        Inl e \<Rightarrow> (if isNotFound e then Requeue 0 else RecErr e, sched, w)
      | Inr s \<Rightarrow>
          if om_Deleting (sb_Meta s) then syncDelete r s sched w
          else if \<not> ku_ContainsFinalizer k (sb_Meta s) SandboxFinalizer then
            let (err, w) = ku_UpdateSandbox k (s\<lparr>sb_Meta := ku_AddFinalizer k (sb_Meta s) SandboxFinalizer\<rparr>) w in
            (case err of
               Some e \<Rightarrow> (RecErr (Errorf ''add Sandbox finalizer: %w'' [FW e]), sched, w)
             | None \<Rightarrow> (Requeue 0, sched, w))
          else
            let (gotPool, w) = ku_GetPool k (om_Namespace (sb_Meta s)) (sb_PoolRef (sb_Spec s)) w in
            case gotPool of
              Inl e \<Rightarrow> (RecErr (Errorf ''get SandboxPool %q: %w'' [FS (sb_PoolRef (sb_Spec s)), FW e]), sched, w)
            | Inr pool \<Rightarrow>
                if \<not> conditionTrue k (pt_Conditions (po_Status pool)) ConditionReady then
                  let s = setPhase SandboxPhasePending
                        (setSandboxCondition k ConditionScheduled False ''PoolNotReady''
                          (Lit ''the SandboxPool has no ready Worker'') s);
                      (res, w) = finishWith k sandboxRetryInterval s w
                  in (res, sched, w)
                else case ss_Assignment (sb_Status s) of
                  None \<Rightarrow> syncAssign r s pool sched w
                | Some a \<Rightarrow> syncStart r s a sched w)"

end
