(* ===== verification/Fleet.thy ===== *)
theory Fleet
  imports HttpApi SandboxController
begin

text \<open>
  The HTTP layer put together: Workers reached over a network that may refuse a request or lose
  its answer, and the client's calls on them.  The lemmas show that a delivered call is the manager's
  operation, with its result and its error translated and nothing else changed.
\<close>

subsection \<open>Workers on a network\<close>

record ('q, 'w) fleet =
  fl_Workers :: "(string, ('q, 'w) slot_manager) gomap"
  fl_World :: 'w

datatype delivery = Delivered | Refused go_error | ReplyLost go_error

type_synonym ('q, 'w) network = "string \<Rightarrow> 'q http_request \<Rightarrow> ('q, 'w) fleet \<Rightarrow> delivery"

definition fleetPut :: "string \<Rightarrow> ('q, 'w) slot_manager \<Rightarrow> 'w \<Rightarrow> ('q, 'w) fleet \<Rightarrow> ('q, 'w) fleet" where
  "fleetPut host m w fl = fl\<lparr>fl_Workers := gm_set host m (fl_Workers fl), fl_World := w\<rparr>"

definition fleetDo :: "('q, 'w) network \<Rightarrow> ('q, 'w) server_env \<Rightarrow> ('q, ('q, 'w) fleet) transport" where
  "fleetDo net env host req fl =
     (case map_of (fl_Workers fl) host of
        None \<Rightarrow> (Inl (External ''connection refused''), fl)
      | Some m \<Rightarrow>
          (case net host req fl of
             Refused e \<Rightarrow> (Inl e, fl)
           | Delivered \<Rightarrow>
               let (resp, m, w) = ServeHTTP env req m (fl_World fl) in (Inr resp, fleetPut host m w fl)
           | ReplyLost e \<Rightarrow>
               let (resp, m, w) = ServeHTTP env req m (fl_World fl) in (Inl e, fleetPut host m w fl)))"

subsection \<open>Paths\<close>

lemma pathSlotID_Itoa [simp]: "0 \<le> n \<Longrightarrow> int32_ok n \<Longrightarrow> pathSlotID (Itoa n) = Inr n"
  by (simp add: pathSlotID_def)

lemma matchSlotID_Itoa [simp]: "0 \<le> n \<Longrightarrow> int32_ok n \<Longrightarrow> matchSlotID (Itoa n) n = None"
  by (simp add: matchSlotID_def)

lemma pathSlotID_bad:
  "\<not> (0 \<le> n \<and> int32_ok n) \<Longrightarrow> pathSlotID (Itoa n) = Inl (invalidRequest ''slotID must be a non-negative integer'')"
  by (auto simp: pathSlotID_def ParseInt32_def Itoa_def Let_def natDigits_digits)

lemma split_slots: "splitOn (CHR ''/'') (''/v1/slots/'' @ s) = [] # ''v1'' # ''slots'' # splitOn (CHR ''/'') s"
  by (cases "splitOn (CHR ''/'') s") auto

lemma split_slotURL [simp]:
  "splitOn (CHR ''/'') (slotURL n action) =
     [] # ''v1'' # ''slots'' # Itoa n # (if action = [] then [] else splitOn (CHR ''/'') action)"
  unfolding slotURL_def split_slots by (simp add: splitOn_no_sep splitOn_cons)

lemma split_fileURL [simp]:
  "splitOn (CHR ''/'') (fileURL n action) =
     [] # ''v1'' # ''slots'' # Itoa n # ''files'' # splitOn (CHR ''/'') action"
proof -
  have "splitOn (CHR ''/'') (''files/'' @ action) = ''files'' # splitOn (CHR ''/'') action"
    by (cases "splitOn (CHR ''/'') action") auto
  then show ?thesis
    unfolding fileURL_def split_slots by (simp add: splitOn_cons)
qed

lemma serve_slot:
  assumes "splitOn (CHR ''/'') (hq_Path r) = [] # ''v1'' # ''slots'' # Itoa n # action"
    and "map_of (slotRoutes env) action = Some (hq_Method r, h)"
  shows "ServeHTTP env r m w = h (Itoa n) r m w"
  using assms by (simp add: ServeHTTP_def plainRoutes_def)

lemma serve_plain:
  assumes "splitOn (CHR ''/'') (hq_Path r) = [] # parts"
    and "map_of (plainRoutes env) parts = Some (hq_Method r, h)"
  shows "ServeHTTP env r m w = h r m w"
  using assms by (simp add: ServeHTTP_def)

subsection \<open>Errors over the wire\<close>

text \<open>What a manager's error becomes at the client.\<close>

definition wireError :: "go_error \<Rightarrow> go_error" where
  "wireError e = responseError (writeManagerError e :: nat http_response)"

lemma responseError_manager [simp]: "responseError (writeManagerError e :: 'q http_response) = wireError e"
  by (simp add: wireError_def responseError_def writeManagerError_def writeError_def writeJSON_def)

lemma status_manager [simp]: "hr_Status (writeManagerError e) \<ge> 300"
  by (simp add: writeManagerError_def writeError_def writeJSON_def)

definition permanent :: "go_error \<Rightarrow> bool" where
  "permanent e \<longleftrightarrow> list_ex (\<lambda>s. errors_is s e)
     [ErrInvalidRequest, ErrSlotConfigInvalid, ErrSnapshotLoad, ErrSlotNotFound, ErrSandboxNotFound, ErrSlotConflict]"

lemma wireError_permanent: "notRetryable (wireError e) \<longleftrightarrow> permanent e"
  by (auto simp: wireError_def responseError_def writeManagerError_def writeError_def writeJSON_def permanent_def)

subsection \<open>Calls on a Worker\<close>

text \<open>The Worker behind an endpoint.\<close>

definition workerAt :: "('q, 'w) fleet \<Rightarrow> string \<Rightarrow> ('q, 'w) slot_manager option" where
  "workerAt fl endpoint = map_of (fl_Workers fl) (TrimRightSlash endpoint)"

definition workerPut :: "string \<Rightarrow> ('q, 'w) slot_manager \<Rightarrow> 'w \<Rightarrow> ('q, 'w) fleet \<Rightarrow> ('q, 'w) fleet" where
  "workerPut endpoint m w fl = fleetPut (TrimRightSlash endpoint) m w fl"

lemma workerAt_put [simp]:
  "workerAt (workerPut endpoint m w fl) endpoint' =
     (if TrimRightSlash endpoint' = TrimRightSlash endpoint then Some m else workerAt fl endpoint')"
  by (simp add: workerAt_def workerPut_def fleetPut_def)

lemma fl_World_put [simp]: "fl_World (workerPut endpoint m w fl) = w"
  by (simp add: workerPut_def fleetPut_def)

text \<open>
  What may become of a call whose handler answers \<open>resp\<close>: nothing happened and the client has an
  error that may be retried, or the handler ran and the client has its answer or such an error.
\<close>

lemma exchange_cases:
  assumes "exchange (fleetDo net env) endpoint req fl = (got, fl')"
  obtains (unreached) e where "got = Inl e" "\<not> notRetryable e" "fl' = fl"
  | (ran) m resp m' w' e where "workerAt fl endpoint = Some m" "ServeHTTP env req m (fl_World fl) = (resp, m', w')"
      "fl' = workerPut endpoint m' w' fl"
      "got = (if hr_Status resp < 200 \<or> hr_Status resp \<ge> 300 then Inl (responseError resp) else Inr resp) \<or>
       got = Inl e \<and> \<not> notRetryable e"
proof (cases "workerAt fl endpoint")
  case None
  with assms unreached show ?thesis
    by (auto simp: exchange_def fleetDo_def workerAt_def)
next
  case (Some m)
  obtain resp m' w' where serve: "ServeHTTP env req m (fl_World fl) = (resp, m', w')"
    by (cases "ServeHTTP env req m (fl_World fl)") auto
  show ?thesis
  proof (cases "net (TrimRightSlash endpoint) req fl")
    case Delivered
    with assms Some serve ran [OF Some serve] show ?thesis
      by (auto simp: exchange_def fleetDo_def workerAt_def workerPut_def split: if_splits)
  next
    case (Refused e)
    with assms Some unreached show ?thesis
      by (auto simp: exchange_def fleetDo_def workerAt_def)
  next
    case (ReplyLost e)
    with assms Some serve have "got = Inl (Errorf ''call worker API: %w'' [FW e])" "fl' = workerPut endpoint m' w' fl"
      by (auto simp: exchange_def fleetDo_def workerAt_def workerPut_def)
    with ran [OF Some serve, of "Errorf ''call worker API: %w'' [FW e]"] show ?thesis
      by simp
  qed
qed

lemma exchange_delivered:
  assumes "workerAt fl endpoint = Some m" "net (TrimRightSlash endpoint) req fl = Delivered"
    and "ServeHTTP env req m (fl_World fl) = (resp, m', w')"
  shows "exchange (fleetDo net env) endpoint req fl =
    ((if hr_Status resp < 200 \<or> hr_Status resp \<ge> 300 then Inl (responseError resp) else Inr resp),
     workerPut endpoint m' w' fl)"
  using assms by (simp add: exchange_def fleetDo_def workerAt_def workerPut_def)

lemma answer_status:
  "hr_Status (answer err) < 200 \<or> hr_Status (answer err) \<ge> 300 \<longleftrightarrow> err \<noteq> None"
  by (cases err) (auto simp: answer_def noContent_def)

lemma doCall_delivered:
  assumes "workerAt fl endpoint = Some m" "net (TrimRightSlash endpoint) req fl = Delivered"
    and "ServeHTTP env req m (fl_World fl) = (answer err, m', w')"
  shows "doCall (fleetDo net env) endpoint req fl = (map_option wireError err, workerPut endpoint m' w' fl)"
  using exchange_delivered [where net = net and req = req, OF assms]
  by (cases err) (simp_all add: doCall_def answer_def noContent_def)

lemma doResult_delivered:
  assumes "workerAt fl endpoint = Some m" "net (TrimRightSlash endpoint) req fl = Delivered"
    and "ServeHTTP env req m (fl_World fl) = (answerJSON enc res, m', w')" "\<And>v. dec (enc v) = Some v"
  shows "doResult (fleetDo net env) dec z endpoint req fl =
    ((case res of Inl e \<Rightarrow> Inl (wireError e) | Inr v \<Rightarrow> Inr v), workerPut endpoint m' w' fl)"
  using assms(4) exchange_delivered [where net = net and req = req, OF assms(1-3)]
  by (cases res) (simp_all add: doResult_def answerJSON_def writeJSON_def)

text \<open>A call that succeeded has run, whatever the network does to other calls.\<close>

lemma doCall_ran:
  assumes "doCall (fleetDo net env) endpoint req fl = (None, fl')"
    and "\<And>m w. ServeHTTP env req m w = (let (err, m', w') = op m w in (answer err, m', w'))"
  obtains m m' w' where "workerAt fl endpoint = Some m" "op m (fl_World fl) = (None, m', w')"
    "fl' = workerPut endpoint m' w' fl"
proof -
  obtain got where got: "exchange (fleetDo net env) endpoint req fl = (got, fl')" and ok: "\<exists>r. got = Inr r"
    using assms(1) by (auto simp: doCall_def split: prod.splits sum.splits)
  from got show ?thesis
  proof (cases rule: exchange_cases)
    case unreached
    with ok show ?thesis by auto
  next
    case (ran m resp m' w' e)
    obtain err where err: "op m (fl_World fl) = (err, m', w')" "resp = answer err"
      using ran(2) assms(2) [of m "fl_World fl"] by (auto simp: Let_def split: prod.splits)
    with ran ok have "err = None"
      using answer_status [where err = err] by (auto split: if_splits)
    with err ran that show ?thesis
      by blast
  qed
qed

lemma doResult_ran:
  assumes "doResult (fleetDo net env) dec z endpoint req fl = (Inr v, fl')"
    and "\<And>m w. ServeHTTP env req m w = (let (res, m', w') = op m w in (answerJSON enc res, m', w'))"
    and "\<And>v. dec (enc v) = Some v"
  obtains m m' w' where "workerAt fl endpoint = Some m" "op m (fl_World fl) = (Inr v, m', w')"
    "fl' = workerPut endpoint m' w' fl"
proof -
  obtain resp where got: "exchange (fleetDo net env) endpoint req fl = (Inr resp, fl')"
    and dec: "hr_Status resp = 204 \<or> (\<exists>j. hr_Body resp = Json j \<and> dec j = Some v)"
    using assms(1) by (auto simp: doResult_def split: prod.splits sum.splits if_splits http_body.splits option.splits)
  from got show ?thesis
  proof (cases rule: exchange_cases)
    case (ran m resp' m' w' e)
    obtain res where res: "op m (fl_World fl) = (res, m', w')" "resp' = answerJSON enc res"
      using ran(2) assms(2) [of m "fl_World fl"] by (auto simp: Let_def split: prod.splits)
    with ran dec assms(3) have "res = Inr v"
      by (cases res) (auto simp: answerJSON_def writeJSON_def split: if_splits)
    with res ran that show ?thesis
      by blast
  qed auto
qed

subsection \<open>The handler a client call reaches\<close>

text \<open>The Slot IDs the server accepts in a path: the non-negative numbers of 32 bits.\<close>

definition slotID_ok :: "int \<Rightarrow> bool" where
  "slotID_ok n \<longleftrightarrow> 0 \<le> n \<and> int32_ok n"

lemma record_eta [simp]:
  "\<lparr>id_Namespace = id_Namespace i, id_Name = id_Name i, id_UID = id_UID i\<rparr> = (i :: sandbox_identity)"
  "\<lparr>sr_SlotID = sr_SlotID ref, sr_Identity = sr_Identity ref\<rparr> = (ref :: sandbox_slot_ref)"
  "\<lparr>fr_SlotID = fr_SlotID f, fr_Identity = fr_Identity f, fr_Path = fr_Path f\<rparr> = (f :: sandbox_file_request)"
  by simp_all

lemmas served_defs = request_def slotRoutes_def plainRoutes_def slotHandler_def decodeRequest_def slotID_ok_def
  fileHandler_def fileRequestFromQuery_def queryGet_def queryIdentity_def fileQuery_def identityQuery_def gm_get0_def

lemma serve_reserve:
  "slotID_ok (sr_SlotID ref) \<Longrightarrow>
   ServeHTTP env (request POST (slotURL (sr_SlotID ref) ''reserve'') [] (Json (JRef ref))) m w =
     (let (err, m, w) = ReserveSlot ref m w in (answer err, m, w))"
  by (subst serve_slot [where h = reserveSlot]) (auto simp: reserveSlot_def served_defs)

lemma serve_start:
  "slotID_ok (sq_SlotID req) \<Longrightarrow>
   ServeHTTP env (request POST (slotURL (sq_SlotID req) ''start'') [] (Json (JStart req))) m w =
     (let (err, m, w) = StartSandbox req m w in (answer err, m, w))"
  by (subst serve_slot [where h = startSandbox]) (auto simp: startSandbox_def served_defs)

lemma serve_stop:
  "slotID_ok (sr_SlotID ref) \<Longrightarrow>
   ServeHTTP env (request POST (slotURL (sr_SlotID ref) ''stop'') [] (Json (JRef ref))) m w =
     (let (err, m, w) = StopSandbox (we_Os (se_Env env)) ref m w in (answer err, m, w))"
  by (subst serve_slot [where h = "stopSandbox env"]) (auto simp: stopSandbox_def served_defs)

lemma serve_release:
  "slotID_ok (sr_SlotID ref) \<Longrightarrow>
   ServeHTTP env (request POST (slotURL (sr_SlotID ref) ''release'') [] (Json (JRef ref))) m w =
     (let (err, m, w) = ReleaseSlot (we_Os (se_Env env)) ref m w in (answer err, m, w))"
  by (subst serve_slot [where h = "releaseSlot env"]) (auto simp: releaseSlot_def served_defs)

lemma serve_restore:
  "slotID_ok (rq_SlotID req) \<Longrightarrow>
   ServeHTTP env (request POST (slotURL (rq_SlotID req) ''restoreFromSnapshot'') [] (Json (JRestore req))) m w =
     (let (err, m, w) = RestoreFromSnapshot (se_Env env) req m w in (answer err, m, w))"
  by (subst serve_slot [where h = "restoreFromSnapshot env"]) (auto simp: restoreFromSnapshot_def served_defs)

lemma serve_create:
  "slotID_ok (cq_SlotID req) \<Longrightarrow>
   ServeHTTP env (request POST (slotURL (cq_SlotID req) ''createSnapshot'') [] (Json (JCreateSnapshot req))) m w =
     (let (res, m, w) = CreateSnapshot (se_Env env) req m w in (answerJSON JCreated res, m, w))"
  by (subst serve_slot [where h = "createSnapshot env"]) (auto simp: createSnapshot_def served_defs)

lemma serve_exec:
  "slotID_ok (xq_SlotID req) \<Longrightarrow>
   ServeHTTP env (request POST (slotURL (xq_SlotID req) ''exec'') [] (Json (JExec req))) m w =
     (let (res, w) = ExecSandbox req m w in (answerJSON JExecResult res, m, w))"
  by (subst serve_slot [where h = execSandbox]) (auto simp: execSandbox_def served_defs)

lemma serve_get:
  "slotID_ok (sr_SlotID ref) \<Longrightarrow>
   ServeHTTP env (request GET (slotURL (sr_SlotID ref) []) (identityQuery (sr_Identity ref)) NoBody) m w =
     (answerJSON JInfo (GetSandbox ref m), m, w)"
  by (subst serve_slot [where h = getSandbox]) (auto simp: getSandbox_def served_defs)

lemma serve_topology:
  "ServeHTTP env (request PUT ''/v1/topology'' [] (Json (JConfigs configs))) m w =
     (let (err, m) = ApplySlots (se_DeepEqual env) configs m in (answer err, m, w))"
  by (subst serve_plain [where h = "putTopology env" and parts = "[''v1'', ''topology'']"])
    (auto simp: putTopology_def served_defs)

lemma serve_list:
  "ServeHTTP env (request GET ''/v1/slots'' [] NoBody) m w = (answerJSON JSlots (Inr (ListSlots m)), m, w)"
  by (subst serve_plain [where h = listSlots and parts = "[''v1'', ''slots'']"])
    (auto simp: listSlots_def served_defs answerJSON_def)

lemma serve_health: "ServeHTTP env (request GET ''/healthz'' [] NoBody) m w = (answer None, m, w)"
  by (subst serve_plain [where h = health and parts = "[''healthz'']"])
    (auto simp: health_def served_defs answer_def)

lemma serve_delete:
  "ServeHTTP env (request POST ''/v1/snapshots/delete'' [] (Json (JDelete req))) m w =
     (let (err, w) = DeleteSnapshotObjects (se_Env env) req w in (answer err, m, w))"
  by (subst serve_plain [where h = "deleteSnapshotObjects env" and parts = "[''v1'', ''snapshots'', ''delete'']"])
    (auto simp: deleteSnapshotObjects_def served_defs)

lemmas served = serve_reserve serve_start serve_stop serve_release serve_restore serve_create serve_exec serve_get
  serve_topology serve_list serve_health serve_delete

text \<open>Files: a request without a path is refused before the manager sees it.\<close>

lemma serve_file:
  fixes env :: "('q, 'w) server_env"
  assumes "slotID_ok (fr_SlotID req)" "fr_Path req \<noteq> []" "action \<in> {''exists'', ''list'', ''content''}"
    and "map_of (slotRoutes env) [''files'', action] = Some (GET, fileHandler call enc)"
  shows "ServeHTTP env (request GET (fileURL (fr_SlotID req) action) (fileQuery action req) NoBody) m w =
    (let (res, w) = call req m w in
     (case res of Inl e \<Rightarrow> writeManagerError e | Inr v \<Rightarrow> \<lparr>hr_Status = 200, hr_Body = enc v\<rparr>, m, w))"
proof -
  let ?r = "request GET (fileURL (fr_SlotID req) action) (fileQuery action req) NoBody :: 'q http_request"
  have path: "splitOn (CHR ''/'') (hq_Path ?r) = [] # ''v1'' # ''slots'' # Itoa (fr_SlotID req) # [''files'', action]"
    using assms(3) by (auto simp: request_def)
  have "fileRequestFromQuery (Itoa (fr_SlotID req)) ?r = Inr req"
    using assms(1-3) by (auto simp: fileRequestFromQuery_def queryGet_def queryIdentity_def fileQuery_def
        identityQuery_def gm_get0_def request_def slotID_ok_def)
  moreover have "ServeHTTP env ?r m w = fileHandler call enc (Itoa (fr_SlotID req)) ?r m w"
    by (rule serve_slot [OF path]) (simp add: assms(4) request_def)
  ultimately show ?thesis
    by (cases "call req m w"; cases "fst (call req m w)") (auto simp: fileHandler_def)
qed

lemma serve_write:
  fixes env :: "('q, 'w) server_env"
  assumes "slotID_ok (fr_SlotID req)" "uploadName (fr_Path req) \<noteq> []" "length content \<le> MaxFileBytes"
  shows "ServeHTTP env (request POST (fileURL (fr_SlotID req) ''upload'') (fileQuery ''upload'' req)
      (Multipart (fr_Path req) content)) m w =
    (let (err, w) = WriteSandboxFile (req\<lparr>fr_Path := uploadName (fr_Path req)\<rparr>) content m w in (answer err, m, w))"
proof -
  have "readUpload content MaxFileBytes = Inr content"
    using assms(3) by (simp add: readUpload_def Let_def)
  moreover have "ServeHTTP env (request POST (fileURL (fr_SlotID req) ''upload'') q b) m w =
      writeFile (Itoa (fr_SlotID req)) (request POST (fileURL (fr_SlotID req) ''upload'') q b) m w"
    for q and b :: "'q http_body"
    by (rule serve_slot [where action = "[''files'', ''upload'']"]) (simp_all add: request_def slotRoutes_def)
  moreover have "queryIdentity (request POST p (fileQuery ''upload'' req) b) = fr_Identity req"
    for p and b :: "'q http_body"
    by (simp add: queryIdentity_def queryGet_def request_def fileQuery_def identityQuery_def gm_get0_def)
  moreover have "hq_Body (request mth p q b) = b" for mth p q and b :: "'q http_body"
    by (simp add: request_def)
  ultimately show ?thesis
    using assms(1,2) by (cases req) (simp add: writeFile_def slotID_ok_def Let_def)
qed

text \<open>A Slot ID the path cannot carry is refused, and the Worker is not touched.\<close>

lemma serve_bad_slot:
  assumes "\<not> slotID_ok n" "splitOn (CHR ''/'') (hq_Path r) = [] # ''v1'' # ''slots'' # Itoa n # action"
    and "map_of (slotRoutes env) action = Some (hq_Method r, slotHandler dec slotOf call)"
    and "hq_Body r = Json j" "dec j = Some req"
  shows "ServeHTTP env r m w = (invalidRequest ''slotID must be a non-negative integer'', m, w)"
  using assms by (subst serve_slot [OF assms(2,3)])
    (auto simp: slotHandler_def decodeRequest_def matchSlotID_def slotID_ok_def pathSlotID_bad)

lemma doCall_rejected:
  assumes "\<And>m w. ServeHTTP env req m w = (invalidRequest message, m, w)"
  shows "doCall (fleetDo net env) endpoint req fl \<noteq> (None, fl')"
proof
  assume "doCall (fleetDo net env) endpoint req fl = (None, fl')"
  then obtain got where "exchange (fleetDo net env) endpoint req fl = (got, fl')" "\<exists>r. got = Inr r"
    by (auto simp: doCall_def split: prod.splits sum.splits)
  then show False
    by (cases rule: exchange_cases) (auto simp: assms invalidRequest_def writeError_def writeJSON_def)
qed

end
