(* ===== verification/PoolController.thy ===== *)
theory PoolController
  imports SandboxController
begin

text \<open>
  The Pool controller, \<open>pool_controller.go\<close>: it plans each template's Slots, pushes them to the
  ready Workers, sizes the StatefulSet, and feeds the Workers' reports to the scheduler and to the
  Pool's status.  The Pool is passed along because \<open>setAppliedSlots\<close> changes it in place.

  \<open>reflect.DeepEqual\<close> compares maps by their entries (\<open>gm_eq\<close>).  A nil slice and an empty one are
  the same list here; \<open>DeepEqual\<close> tells them apart, which only adds status writes.
\<close>

record ('q, 'w) pool_reconciler =
  pr_Base :: "('q, 'w) reconciler"
  pr_Build :: "'q sandbox_pool \<Rightarrow> worker_template \<Rightarrow> 'q slot_config list \<Rightarrow> 'q stateful_set"
  pr_WorkerPort :: int

abbreviation pr_Kube :: "('q, 'w) pool_reconciler \<Rightarrow> ('q, 'w) kube" where
  "pr_Kube r \<equiv> rc_Kube (pr_Base r)"

abbreviation pr_Client :: "('q, 'w) pool_reconciler \<Rightarrow> ('q, 'w) worker_client" where
  "pr_Client r \<equiv> rc_Client (pr_Base r)"

abbreviation poolNs :: "'q sandbox_pool \<Rightarrow> string" where
  "poolNs pool \<equiv> om_Namespace (po_Meta pool)"

abbreviation poolName :: "'q sandbox_pool \<Rightarrow> string" where
  "poolName pool \<equiv> om_Name (po_Meta pool)"

subsection \<open>The headless Service\<close>

definition syncService :: "('q, 'w) pool_reconciler \<Rightarrow> 'q sandbox_pool \<Rightarrow> 'w \<Rightarrow> go_error option \<times> 'w" where
  "syncService r pool w =
     (let k = pr_Kube r;
          port = (if pr_WorkerPort r = 0 then 8090 else pr_WorkerPort r);
          desired = \<lparr>sy_Name = workerServiceName (poolName pool), sy_Namespace = poolNs pool,
                     sy_ClusterIP = ''None'',
                     sy_Selector = [(labelManaged, ''true''), (labelPool, poolName pool)],
                     sy_Ports = [(''http'', port)]\<rparr>
      in case ku_SetControllerReference k pool (sy_Name desired) of
           Some e \<Rightarrow> (Some (Errorf ''set Worker Service owner: %w'' [FW e]), w)
         | None \<Rightarrow>
             let (got, w) = ku_GetService k (sy_Namespace desired) (sy_Name desired) w in
             case got of
               Inr _ \<Rightarrow> (None, w)
             | Inl e \<Rightarrow>
                 if isNotFound e then
                   let (err, w) = ku_CreateService k desired w in
                   (map_option (\<lambda>e. Errorf ''create Worker Service: %w'' [FW e]) err, w)
                 else (Some (Errorf ''get Worker Service: %w'' [FW e]), w))"

subsection \<open>Layouts of a template\<close>

definition profileResourcesOf :: "'q sandbox_pool \<Rightarrow> 'q profile_resources" where
  "profileResourcesOf pool =
     foldl (\<lambda>m p. gm_set (pf_Name p) (pf_Resources p) m) [] (po_SlotProfiles (po_Spec pool))"

fun countGroups ::
    "string \<Rightarrow> 'q profile_resources \<Rightarrow> slot_group list \<Rightarrow> profile_counts \<Rightarrow> string list \<Rightarrow>
     go_error + (profile_counts \<times> string list)" where
  "countGroups tname resources [] counts order = Inr (counts, order)"
| "countGroups tname resources (g # gs) counts order =
     (if map_of resources (sg_Profile g) = None then
        Inl (Errorf ''template %q references unknown profile %q'' [FS tname, FS (sg_Profile g)])
      else if map_of counts (sg_Profile g) \<noteq> None then
        Inl (Errorf ''template %q repeats profile %q'' [FS tname, FS (sg_Profile g)])
      else countGroups tname resources gs (gm_set (sg_Profile g) (sg_Count g) counts) (order @ [sg_Profile g]))"

definition slotCountsFromTemplate ::
    "worker_template \<Rightarrow> 'q profile_resources \<Rightarrow> go_error + (profile_counts \<times> string list)" where
  "slotCountsFromTemplate template resources =
     countGroups (wt_Name template) resources (wt_Slots template) [] []"

definition appliedConfigs ::
    "'q sandbox_pool \<Rightarrow> string \<Rightarrow> 'q profile_resources \<Rightarrow> 'q slot_config list" where
  "appliedConfigs pool tname resources =
     (case find (\<lambda>t. ts_Name t = tname) (pt_Templates (po_Status pool)) of
        None \<Rightarrow> []
      | Some t \<Rightarrow>
          map (\<lambda>a. \<lparr>sc_ID = ap_ID a, sc_Profile = ap_Profile a,
                    sc_Resources = gm_get0 zero_resources resources (ap_Profile a)\<rparr>)
            (ts_AppliedSlots t))"

definition appliedOf :: "'q slot_config list \<Rightarrow> applied_slot list" where
  "appliedOf configs = map (\<lambda>c. \<lparr>ap_ID = sc_ID c, ap_Profile = sc_Profile c\<rparr>) configs"

text \<open>The loop changes the first status entry of the template, or appends one.\<close>

fun setAppliedIn ::
    "string \<Rightarrow> applied_slot list \<Rightarrow> worker_template_status list \<Rightarrow> worker_template_status list" where
  "setAppliedIn tname applied [] =
     [\<lparr>ts_Name = tname, ts_Replicas = 0, ts_ReadyReplicas = 0, ts_AppliedSlots = applied\<rparr>]"
| "setAppliedIn tname applied (t # ts) =
     (if ts_Name t = tname then t\<lparr>ts_AppliedSlots := applied\<rparr> # ts else t # setAppliedIn tname applied ts)"

definition setAppliedSlots :: "string \<Rightarrow> 'q slot_config list \<Rightarrow> 'q sandbox_pool \<Rightarrow> 'q sandbox_pool" where
  "setAppliedSlots tname configs pool =
     pool\<lparr>po_Status := (po_Status pool)\<lparr>pt_Templates :=
        setAppliedIn tname (appliedOf configs) (pt_Templates (po_Status pool))\<rparr>\<rparr>"

subsection \<open>Reading the Workers\<close>

definition listTemplatePods ::
    "('q, 'w) pool_reconciler \<Rightarrow> 'q sandbox_pool \<Rightarrow> string \<Rightarrow> 'w \<Rightarrow> (go_error + 'q pod list) \<times> 'w" where
  "listTemplatePods r pool tname w =
     (let (pods, w) = ku_ListPods (pr_Kube r) (poolNs pool)
            [(labelManaged, ''true''), (labelPool, poolName pool), (labelTemplate, tname)] w
      in case pods of
           Inl e \<Rightarrow> (Inl (Errorf ''list Worker Pods: %w'' [FW e]), w)
         | Inr ps \<Rightarrow> (Inr ps, w))"

fun gatherOccupied ::
    "('q, 'w) pool_reconciler \<Rightarrow> 'q pod list \<Rightarrow> (int, bool) gomap \<Rightarrow> 'w \<Rightarrow> (int, bool) gomap \<times> 'w" where
  "gatherOccupied r [] occupied w = (occupied, w)"
| "gatherOccupied r (p # ps) occupied w =
     (case rc_Endpoint (pr_Base r) p of
        Inl _ \<Rightarrow> gatherOccupied r ps occupied w
      | Inr endpoint \<Rightarrow>
          let (listed, w) = wl_ListSlots (pr_Client r) endpoint w in
          case listed of
            Inl _ \<Rightarrow> gatherOccupied r ps occupied w
          | Inr slots \<Rightarrow>
              gatherOccupied r ps
                (foldl (\<lambda>m info. if si_State info \<noteq> StateFree then gm_set (si_ID info) True m else m)
                  occupied slots) w)"

definition occupiedSlots ::
    "('q, 'w) pool_reconciler \<Rightarrow> 'q sandbox_pool \<Rightarrow> string \<Rightarrow> 'w \<Rightarrow> (go_error + (int, bool) gomap) \<times> 'w" where
  "occupiedSlots r pool tname w =
     (let (pods, w) = listTemplatePods r pool tname w in
      case pods of
        Inl e \<Rightarrow> (Inl e, w)
      | Inr ps \<Rightarrow> let (occupied, w) = gatherOccupied r ps [] w in (Inr occupied, w))"

definition workersCanFit ::
    "('q::{linorder, zero}, 'w) pool_reconciler \<Rightarrow> 'q sandbox_pool \<Rightarrow> string \<Rightarrow> 'q resource_requirements \<Rightarrow> 'w \<Rightarrow>
     (go_error + bool) \<times> 'w" where
  "workersCanFit r pool tname need w =
     (let (pods, w) = listTemplatePods r pool tname w in
      case pods of
        Inl e \<Rightarrow> (Inl e, w)
      | Inr ps \<Rightarrow>
          (Inr (list_all (\<lambda>p. case pd_Containers p of
                                [] \<Rightarrow> False
                              | res # _ \<Rightarrow> ResourcesEnough res need) ps), w))"

subsection \<open>Pushing a layout\<close>

fun pushTopology ::
    "('q, 'w) pool_reconciler \<Rightarrow> 'q slot_config list \<Rightarrow> 'q pod list \<Rightarrow> 'w \<Rightarrow> string list \<times> 'w" where
  "pushTopology r configs [] w = ([], w)"
| "pushTopology r configs (p # ps) w =
     (if \<not> podReady p then pushTopology r configs ps w
      else case rc_Endpoint (pr_Base r) p of
        Inl _ \<Rightarrow> let (failed, w) = pushTopology r configs ps w in (pd_Name p # failed, w)
      | Inr endpoint \<Rightarrow>
          let (err, w) = wl_ApplyTopology (pr_Client r) endpoint configs w;
              (failed, w) = pushTopology r configs ps w
          in (if err \<noteq> None then pd_Name p # failed else failed, w))"

text \<open>The pending reason is \<open>None\<close> for the empty string.\<close>

definition syncTopology ::
    "('q, 'w) pool_reconciler \<Rightarrow> string \<Rightarrow> 'q slot_config list \<Rightarrow> 'q sandbox_pool \<Rightarrow> 'w \<Rightarrow>
     (go_error + go_text option) \<times> 'q sandbox_pool \<times> 'w" where
  "syncTopology r tname configs pool w =
     (let (pods, w) = listTemplatePods r pool tname w in
      case pods of
        Inl e \<Rightarrow> (Inl e, pool, w)
      | Inr ps \<Rightarrow>
          let (failed, w) = pushTopology r configs ps w in
          if failed \<noteq> [] then
            (Inr (Some (Sprintf ''template %s: failed to push topology to workers %s''
               [FS tname, FS (joinWith '','' failed)])), pool, w)
          else (Inr None, setAppliedSlots tname configs pool, w))"

subsection \<open>Sizing the StatefulSet\<close>

definition workerName :: "'q sandbox_pool \<Rightarrow> string \<Rightarrow> int \<Rightarrow> string" where
  "workerName pool tname ordinal = workerSetName (poolName pool) tname @ ''-'' @ Itoa ordinal"

fun anyBusy ::
    "('q, 'w) pool_reconciler \<Rightarrow> 'q sandbox_pool \<Rightarrow> string \<Rightarrow> int list \<Rightarrow> 'w \<Rightarrow> (go_error + bool) \<times> 'w" where
  "anyBusy r pool tname [] w = (Inr False, w)"
| "anyBusy r pool tname (ordinal # rest) w =
     (let name = workerName pool tname ordinal;
          (got, w) = ku_GetPod (pr_Kube r) (poolNs pool) name w
      in case got of
           Inl e \<Rightarrow> if isNotFound e then anyBusy r pool tname rest w
                    else (Inl (Errorf ''get Worker %q: %w'' [FS name, FW e]), w)
         | Inr p \<Rightarrow>
             (case rc_Endpoint (pr_Base r) p of
                Inl _ \<Rightarrow> (Inr True, w)
              | Inr endpoint \<Rightarrow>
                  let (listed, w) = wl_ListSlots (pr_Client r) endpoint w in
                  case listed of
                    Inl _ \<Rightarrow> (Inr True, w)
                  | Inr slots \<Rightarrow>
                      if list_ex (\<lambda>info. si_State info \<noteq> StateFree) slots then (Inr True, w)
                      else anyBusy r pool tname rest w))"

definition ordinals :: "int \<Rightarrow> int \<Rightarrow> int list" where
  "ordinals lo hi = map (\<lambda>i. lo + int i) [0..<nat (hi - lo)]"

definition workersStillBusy ::
    "('q, 'w) pool_reconciler \<Rightarrow> 'q sandbox_pool \<Rightarrow> string \<Rightarrow> int \<Rightarrow> int \<Rightarrow> 'w \<Rightarrow> (go_error + bool) \<times> 'w" where
  "workersStillBusy r pool tname keep held w = anyBusy r pool tname (ordinals keep held) w"

definition gm_eq :: "('k, 'v) gomap \<Rightarrow> ('k, 'v) gomap \<Rightarrow> bool" where
  "gm_eq m m' = (list_all (\<lambda>(k, v). map_of m' k = map_of m k) m \<and>
                 list_all (\<lambda>(k, v). map_of m' k = map_of m k) m')"

definition templateEqual :: "'q stateful_set \<Rightarrow> 'q stateful_set \<Rightarrow> bool" where
  "templateEqual a b =
     (let ca = py_Container (tf_TemplateSpec a); cb = py_Container (tf_TemplateSpec b) in
      gm_eq (tf_TemplateLabels a) (tf_TemplateLabels b) \<and>
      py_Volumes (tf_TemplateSpec a) = py_Volumes (tf_TemplateSpec b) \<and>
      gm_eq (rr_Requests (ko_Resources ca)) (rr_Requests (ko_Resources cb)) \<and>
      gm_eq (rr_Limits (ko_Resources ca)) (rr_Limits (ko_Resources cb)) \<and>
      ca\<lparr>ko_Resources := ko_Resources cb\<rparr> = cb)"

text \<open>How many replicas to set, and whether a scale-down was refused.\<close>

definition targetReplicas ::
    "('q, 'w) pool_reconciler \<Rightarrow> 'q sandbox_pool \<Rightarrow> string \<Rightarrow> int option \<Rightarrow> int option \<Rightarrow> 'w \<Rightarrow>
     (go_error + int option \<times> bool) \<times> 'w" where
  "targetReplicas r pool tname current desired w =
     (case (current, desired) of
        (Some c, Some d) \<Rightarrow>
          if d < c then
            let (busy, w) = workersStillBusy r pool tname d c w in
            case busy of
              Inl e \<Rightarrow> (Inl e, w)
            | Inr True \<Rightarrow> (Inr (current, True), w)
            | Inr False \<Rightarrow> (Inr (desired, False), w)
          else (Inr (desired, False), w)
      | _ \<Rightarrow> (Inr (desired, False), w))"

definition syncWorkers ::
    "('q, 'w) pool_reconciler \<Rightarrow> 'q sandbox_pool \<Rightarrow> worker_template \<Rightarrow> 'q slot_config list \<Rightarrow> 'w \<Rightarrow>
     (go_error + bool) \<times> 'w" where
  "syncWorkers r pool template configs w =
     (let k = pr_Kube r; desired = pr_Build r pool template configs in
      case ku_SetControllerReference k pool (tf_Name desired) of
        Some e \<Rightarrow> (Inl (Errorf ''set Worker StatefulSet owner: %w'' [FW e]), w)
      | None \<Rightarrow>
          let (got, w) = ku_GetStatefulSet k (poolNs pool) (tf_Name desired) w in
          case got of
            Inl e \<Rightarrow>
              if isNotFound e then
                let (err, w) = ku_CreateStatefulSet k desired w in
                (case err of
                   Some e \<Rightarrow> Inl (Errorf ''create Worker StatefulSet: %w'' [FW e])
                 | None \<Rightarrow> Inr False, w)
              else (Inl (Errorf ''get Worker StatefulSet: %w'' [FW e]), w)
          | Inr current \<Rightarrow>
              let (target, w) =
                    targetReplicas r pool (wt_Name template) (tf_Replicas current) (tf_Replicas desired) w
              in case target of
                   Inl e \<Rightarrow> (Inl e, w)
                 | Inr (replicas, stillBusy) \<Rightarrow>
                     let changedTemplate = \<not> templateEqual current desired;
                         changedReplicas = (tf_Replicas current = None \<or> replicas = None \<or>
                                            tf_Replicas current \<noteq> replicas);
                         next = current\<lparr>
                           tf_TemplateLabels := (if changedTemplate then tf_TemplateLabels desired else tf_TemplateLabels current),
                           tf_TemplateSpec := (if changedTemplate then tf_TemplateSpec desired else tf_TemplateSpec current),
                           tf_Replicas := (if changedReplicas then replicas else tf_Replicas current)\<rparr>
                     in if changedTemplate \<or> changedReplicas then
                          let (err, w) = ku_UpdateStatefulSet k next w in
                          (case err of
                             Some e \<Rightarrow> Inl (Errorf ''update Worker StatefulSet: %w'' [FW e])
                           | None \<Rightarrow> Inr stillBusy, w)
                        else (Inr stillBusy, w))"

subsection \<open>One template\<close>

definition headroomPending :: "string \<Rightarrow> go_text" where
  "headroomPending tname =
     Sprintf ''template %s: workers lack resource headroom for more slots; increase replicas'' [FS tname]"

definition busyPending :: "string \<Rightarrow> go_text" where
  "busyPending tname = Sprintf ''template %s: cannot remove Workers that still have busy slots'' [FS tname]"

text \<open>
  The layout to push and the reasons so far.  New Slots need room on the existing Pods.
\<close>

definition fitLayout ::
    "('q::{linorder, comm_monoid_add}, 'w) pool_reconciler \<Rightarrow> 'q sandbox_pool \<Rightarrow> string \<Rightarrow> 'q slot_config list \<Rightarrow>
     'q topology_plan \<Rightarrow> 'w \<Rightarrow> (go_error + 'q slot_config list \<times> go_text list) \<times> 'w" where
  "fitLayout r pool tname current plan w =
     (let pending = (if tp_Blocked plan then [Sprintf ''template %s: %s'' [FS tname, FT (tp_Reason plan)]] else []) in
      if CountNewSlots current (tp_Slots plan) > 0 then
        let (fit, w) = workersCanFit r pool tname (SumResources (tp_Slots plan)) w in
        case fit of
          Inl e \<Rightarrow> (Inl e, w)
        | Inr True \<Rightarrow> (Inr (tp_Slots plan, pending), w)
        | Inr False \<Rightarrow>
            (Inr (KeepExistingSlots current (tp_Slots plan), pending @ [headroomPending tname]), w)
      else (Inr (tp_Slots plan, pending), w))"

definition pushAndSize ::
    "('q, 'w) pool_reconciler \<Rightarrow> worker_template \<Rightarrow> 'q slot_config list \<Rightarrow> go_text list \<Rightarrow> 'q sandbox_pool \<Rightarrow> 'w \<Rightarrow>
     (rec_result + go_text list) \<times> 'q sandbox_pool \<times> 'w" where
  "pushAndSize r template slots pending pool w =
     (let (pushed, pool, w) = syncTopology r (wt_Name template) slots pool w in
      case pushed of
        Inl e \<Rightarrow> (Inl (RecErr e), pool, w)
      | Inr pushPending \<Rightarrow>
          let pending = pending @ (case pushPending of None \<Rightarrow> [] | Some t \<Rightarrow> [t]);
              (busy, w) = syncWorkers r pool template slots w
          in case busy of
               Inl e \<Rightarrow> (Inl (RecErr e), pool, w)
             | Inr b \<Rightarrow> (Inr (if b then pending @ [busyPending (wt_Name template)] else pending), pool, w))"

definition syncTemplate ::
    "('q::{linorder, comm_monoid_add}, 'w) pool_reconciler \<Rightarrow> worker_template \<Rightarrow> 'q sandbox_pool \<Rightarrow> 'w \<Rightarrow>
     (rec_result + go_text list) \<times> 'q sandbox_pool \<times> 'w" where
  "syncTemplate r template pool w =
     (let profileResources = profileResourcesOf pool; tname = wt_Name template;
          currentSlots = appliedConfigs pool tname profileResources
      in case slotCountsFromTemplate template profileResources of
           Inl e \<Rightarrow> (Inl (RecErr e), pool, w)
         | Inr (counts, order) \<Rightarrow>
             let (occupied, w) = occupiedSlots r pool tname w in
             case occupied of
               Inl e \<Rightarrow> (Inl (RecErr e), pool, w)
             | Inr occupied \<Rightarrow>
                 (case PlanTopology currentSlots counts profileResources occupied order of
                    None \<Rightarrow> (Inl Panicked, pool, w)
                  | Some plan \<Rightarrow>
                      let (layout, w) = fitLayout r pool tname currentSlots plan w in
                      case layout of
                        Inl e \<Rightarrow> (Inl (RecErr e), pool, w)
                      | Inr (slots, pending) \<Rightarrow> pushAndSize r template slots pending pool w))"

fun syncTemplates ::
    "('q::{linorder, comm_monoid_add}, 'w) pool_reconciler \<Rightarrow> worker_template list \<Rightarrow> go_text list \<Rightarrow> 'q sandbox_pool \<Rightarrow> 'w \<Rightarrow>
     (rec_result + go_text list) \<times> 'q sandbox_pool \<times> 'w" where
  "syncTemplates r [] pending pool w = (Inr pending, pool, w)"
| "syncTemplates r (template # ts) pending pool w =
     (let (res, pool, w) = syncTemplate r template pool w in
      case res of
        Inl stop \<Rightarrow> (Inl stop, pool, w)
      | Inr reasons \<Rightarrow> syncTemplates r ts (pending @ reasons) pool w)"

subsection \<open>Usage\<close>

text \<open>The counters of \<open>syncStatus\<close>; all are 32 bits wide.\<close>

record tally =
  ty_readyWorkers :: int
  ty_usedSlots :: int
  ty_availableSlots :: int
  ty_profileStats :: "(string, slot_profile_status) gomap"
  ty_templateReady :: "(string, int) gomap"
  ty_templateTotal :: "(string, int) gomap"
  ty_seen :: "string list"

definition noStats :: "string \<Rightarrow> slot_profile_status" where
  "noStats name = \<lparr>ps_Name = name, ps_Total = 0, ps_Used = 0, ps_Available = 0\<rparr>"

definition newTally :: "'q sandbox_pool \<Rightarrow> tally" where
  "newTally pool =
     \<lparr>ty_readyWorkers = 0, ty_usedSlots = 0, ty_availableSlots = 0,
      ty_profileStats = foldl (\<lambda>m p. gm_set (pf_Name p) (noStats (pf_Name p)) m) [] (po_SlotProfiles (po_Spec pool)),
      ty_templateReady = [], ty_templateTotal = [], ty_seen = []\<rparr>"

definition inc32 :: "int \<Rightarrow> int" where "inc32 x = wrap32 (x + 1)"

definition bumpStats :: "bool \<Rightarrow> slot_profile_status \<Rightarrow> slot_profile_status" where
  "bumpStats isFree s =
     (if isFree then s\<lparr>ps_Available := inc32 (ps_Available s), ps_Total := inc32 (ps_Total s)\<rparr>
      else s\<lparr>ps_Used := inc32 (ps_Used s), ps_Total := inc32 (ps_Total s)\<rparr>)"

text \<open>The statistics of a profile the Pool does not define are created on the way, except for the empty name.\<close>

definition countSlot :: "tally \<Rightarrow> slot_info \<Rightarrow> tally" where
  "countSlot t info =
     (let stats0 = map_of (ty_profileStats t) (si_Profile info);
          stats = (if stats0 = None \<and> si_Profile info \<noteq> [] then Some (noStats (si_Profile info)) else stats0);
          isFree = (si_State info = StateFree);
          t = (if isFree then t\<lparr>ty_availableSlots := inc32 (ty_availableSlots t)\<rparr>
               else t\<lparr>ty_usedSlots := inc32 (ty_usedSlots t)\<rparr>)
      in case stats of
           None \<Rightarrow> t
         | Some s \<Rightarrow> t\<lparr>ty_profileStats := gm_set (si_Profile info) (bumpStats isFree s) (ty_profileStats t)\<rparr>)"

definition slotMapOf :: "slot_info list \<Rightarrow> (int, slot_info) gomap" where
  "slotMapOf slots = foldl (\<lambda>m info. gm_set (si_ID info) info m) [] slots"

definition podWorkerKey :: "'q sandbox_pool \<Rightarrow> string \<Rightarrow> worker_key" where
  "podWorkerKey pool name = \<lparr>wk_Namespace = poolNs pool, wk_Pool = poolName pool, wk_Name = name\<rparr>"

text \<open>The Slots of a Worker that is ready and healthy and answers; \<open>None\<close> removes it.\<close>

definition observePod ::
    "('q, 'w) pool_reconciler \<Rightarrow> 'q pod \<Rightarrow> 'w \<Rightarrow> slot_info list option \<times> 'w" where
  "observePod r p w =
     (if \<not> podReady p then (None, w)
      else case rc_Endpoint (pr_Base r) p of
        Inl _ \<Rightarrow> (None, w)
      | Inr endpoint \<Rightarrow>
          let (err, w) = wl_Health (pr_Client r) endpoint w in
          if err \<noteq> None then (None, w)
          else
            let (listed, w) = wl_ListSlots (pr_Client r) endpoint w in
            case listed of Inl _ \<Rightarrow> (None, w) | Inr slots \<Rightarrow> (Some slots, w))"

definition syncPod ::
    "('q, 'w) pool_reconciler \<Rightarrow> 'q sandbox_pool \<Rightarrow> 'q pod \<Rightarrow> tally \<Rightarrow> memory_scheduler \<Rightarrow> 'w \<Rightarrow>
     tally \<times> memory_scheduler \<times> 'w" where
  "syncPod r pool p t sched w =
     (let tname = gm_get0 [] (pd_Labels p) labelTemplate;
          key = podWorkerKey pool (pd_Name p);
          t = t\<lparr>ty_seen := pd_Name p # ty_seen t,
                ty_templateTotal := gm_set tname (inc32 (gm_get0 0 (ty_templateTotal t) tname)) (ty_templateTotal t)\<rparr>;
          (observed, w) = observePod r p w
      in case observed of
           None \<Rightarrow> (t, RemoveWorker key sched, w)
         | Some slots \<Rightarrow>
             let t = foldl countSlot t slots;
                 (now, w) = ku_Now (pr_Kube r) w;
                 sched = UpdateWorker \<lparr>ws_Key = key, ws_Healthy = True, ws_LastObserved = now,
                                       ws_Slots = slotMapOf slots\<rparr> sched
             in (t\<lparr>ty_readyWorkers := inc32 (ty_readyWorkers t),
                   ty_templateReady := gm_set tname (inc32 (gm_get0 0 (ty_templateReady t) tname)) (ty_templateReady t)\<rparr>,
                 sched, w))"

fun syncPods ::
    "('q, 'w) pool_reconciler \<Rightarrow> 'q sandbox_pool \<Rightarrow> 'q pod list \<Rightarrow> tally \<Rightarrow> memory_scheduler \<Rightarrow> 'w \<Rightarrow>
     tally \<times> memory_scheduler \<times> 'w" where
  "syncPods r pool [] t sched w = (t, sched, w)"
| "syncPods r pool (p # ps) t sched w =
     (let (t, sched, w) = syncPod r pool p t sched w in syncPods r pool ps t sched w)"

text \<open>Workers without a Pod are removed, up to the number of replicas known.\<close>

definition knownWorkers :: "tally \<Rightarrow> worker_template \<Rightarrow> int" where
  "knownWorkers t template =
     (let known = gm_get0 0 (ty_templateTotal t) (wt_Name template) in
      if wt_Replicas template > known then wt_Replicas template else known)"

definition missingWorkers :: "'q sandbox_pool \<Rightarrow> tally \<Rightarrow> string list" where
  "missingWorkers pool t =
     concat (map (\<lambda>template.
       filter (\<lambda>name. name \<notin> set (ty_seen t))
         (map (workerName pool (wt_Name template)) (ordinals 0 (knownWorkers t template))))
       (po_WorkerTemplates (po_Spec pool)))"

definition removeMissing :: "'q sandbox_pool \<Rightarrow> tally \<Rightarrow> memory_scheduler \<Rightarrow> memory_scheduler" where
  "removeMissing pool t sched = foldl (\<lambda>s name. RemoveWorker (podWorkerKey pool name) s) sched (missingWorkers pool t)"

subsection \<open>Status\<close>

definition desiredWorkerCount :: "'q pool_spec \<Rightarrow> int" where
  "desiredWorkerCount spec = foldl (\<lambda>n t. wrap32 (n + wt_Replicas t)) 0 (po_WorkerTemplates spec)"

definition setPoolCondition ::
    "('q, 'w) kube \<Rightarrow> string \<Rightarrow> bool \<Rightarrow> string \<Rightarrow> go_text \<Rightarrow> 'q sandbox_pool \<Rightarrow> 'q sandbox_pool" where
  "setPoolCondition k ty st reason message pool =
     pool\<lparr>po_Status := (po_Status pool)\<lparr>pt_Conditions :=
        ku_SetStatusCondition k (pt_Conditions (po_Status pool))
          \<lparr>cn_Type = ty, cn_Status = st, cn_Reason = reason, cn_Message = message,
           cn_ObservedGeneration = om_Generation (po_Meta pool)\<rparr>\<rparr>\<rparr>"

definition setPoolConditions ::
    "('q, 'w) kube \<Rightarrow> int \<Rightarrow> go_text list \<Rightarrow> 'q sandbox_pool \<Rightarrow> 'q sandbox_pool" where
  "setPoolConditions k readyWorkers pending pool =
     (let wantWorkers = desiredWorkerCount (po_Spec pool);
          workersReady = (readyWorkers = wantWorkers \<and> wantWorkers > 0);
          poolReady = (wantWorkers > 0 \<and> readyWorkers > 0);
          updating = (pending \<noteq> []);
          pool = setPoolCondition k ConditionWorkersReady workersReady
            (if workersReady then ''WorkersReady'' else ''WorkersNotReady'')
            (Sprintf ''%d of %d Workers are ready'' [FD readyWorkers, FD wantWorkers]) pool;
          pool = setPoolCondition k ConditionReady poolReady
            (if poolReady then ''WorkerAvailable'' else ''NoReadyWorkers'')
            (Sprintf ''%d Workers can accept Sandbox operations'' [FD readyWorkers]) pool
      in setPoolCondition k ConditionUpdating updating
           (if updating then ''TopologyPending'' else ''TopologySettled'')
           (if updating then JoinText pending ''; ''
            else Lit ''pool topology matches the desired replicas and slot counts'') pool)"

definition appliedByTemplate :: "pool_status \<Rightarrow> (string, applied_slot list) gomap" where
  "appliedByTemplate st =
     foldl (\<lambda>m t. if ts_AppliedSlots t = [] then m else gm_set (ts_Name t) (ts_AppliedSlots t) m) [] (pt_Templates st)"

definition poolStatusOf ::
    "('q, 'w) kube \<Rightarrow> nat \<Rightarrow> tally \<Rightarrow> go_text list \<Rightarrow> 'q sandbox_pool \<Rightarrow> 'q sandbox_pool" where
  "poolStatusOf k npods t pending pool =
     (let applied = appliedByTemplate (po_Status pool);
          names = sort (map pf_Name (po_SlotProfiles (po_Spec pool)));
          st = (po_Status pool)\<lparr>
            pt_ObservedGeneration := om_Generation (po_Meta pool),
            pt_CurrentWorkers := wrap32 (int npods),
            pt_ReadyWorkers := ty_readyWorkers t,
            pt_UsedSlots := ty_usedSlots t,
            pt_AvailableSlots := ty_availableSlots t,
            pt_Templates := map (\<lambda>template.
              \<lparr>ts_Name = wt_Name template, ts_Replicas = gm_get0 0 (ty_templateTotal t) (wt_Name template),
               ts_ReadyReplicas = gm_get0 0 (ty_templateReady t) (wt_Name template),
               ts_AppliedSlots = gm_get0 [] applied (wt_Name template)\<rparr>) (po_WorkerTemplates (po_Spec pool)),
            pt_Profiles := map (\<lambda>name. gm_get0 (noStats name) (ty_profileStats t) name) names\<rparr>
      in setPoolConditions k (ty_readyWorkers t) pending (pool\<lparr>po_Status := st\<rparr>))"

definition poolSyncStatus ::
    "('q, 'w) pool_reconciler \<Rightarrow> go_text list \<Rightarrow> 'q sandbox_pool \<Rightarrow> memory_scheduler \<Rightarrow> 'w \<Rightarrow>
     go_error option \<times> memory_scheduler \<times> 'w" where
  "poolSyncStatus r pending pool sched w =
     (let k = pr_Kube r;
          (pods, w) = ku_ListPods k (poolNs pool) [(labelManaged, ''true''), (labelPool, poolName pool)] w
      in case pods of
           Inl e \<Rightarrow> (Some (Errorf ''list Worker Pods: %w'' [FW e]), sched, w)
         | Inr ps \<Rightarrow>
             let (t, sched, w) = syncPods r pool ps (newTally pool) sched w;
                 sched = removeMissing pool t sched;
                 pool' = poolStatusOf k (length ps) t pending pool
             in if po_Status pool' = po_Status pool then (None, sched, w)
                else
                  let (err, w) = ku_UpdatePoolStatus k pool' w in
                  (map_option (\<lambda>e. Errorf ''update SandboxPool status: %w'' [FW e]) err, sched, w))"

subsection \<open>Reconciliation\<close>

definition PoolReconcile ::
    "('q::{linorder, comm_monoid_add}, 'w) pool_reconciler \<Rightarrow> string \<Rightarrow> string \<Rightarrow> memory_scheduler \<Rightarrow> 'w \<Rightarrow>
     rec_result \<times> memory_scheduler \<times> 'w" where
  "PoolReconcile r namespace name sched w =
     (let (got, w) = ku_GetPool (pr_Kube r) namespace name w in
      case got of
        Inl e \<Rightarrow> (if isNotFound e then Requeue 0 else RecErr e, sched, w)
      | Inr pool \<Rightarrow>
          let (err, w) = syncService r pool w in
          case err of
            Some e \<Rightarrow> (RecErr e, sched, w)
          | None \<Rightarrow>
              let (res, pool, w) = syncTemplates r (po_WorkerTemplates (po_Spec pool)) [] pool w in
              case res of
                Inl stop \<Rightarrow> (stop, sched, w)
              | Inr pending \<Rightarrow>
                  let (err, sched, w) = poolSyncStatus r pending pool sched w in
                  (case err of Some e \<Rightarrow> RecErr e | None \<Rightarrow> Requeue poolPollInterval, sched, w))"

end
