(* ===== verification/SnapshotController.thy ===== *)
theory SnapshotController
  imports SandboxController
begin

text \<open>
  The snapshot controller, \<open>snapshot_controller.go\<close>: a snapshot of a running Sandbox is taken once,
  and its objects are deleted when no Sandbox refers to it any more.
\<close>

definition snapshotRetryInterval :: int where "snapshotRetryInterval = 2"

subsection \<open>Helpers\<close>

definition setSnapshotCondition ::
    "('q, 'w) kube \<Rightarrow> string \<Rightarrow> bool \<Rightarrow> string \<Rightarrow> go_text \<Rightarrow> sandbox_snapshot \<Rightarrow> sandbox_snapshot" where
  "setSnapshotCondition k ty st reason message s =
     s\<lparr>sn_Status := (sn_Status s)\<lparr>st_Conditions :=
        ku_SetStatusCondition k (st_Conditions (sn_Status s))
          \<lparr>cn_Type = ty, cn_Status = st, cn_Reason = reason, cn_Message = message,
           cn_ObservedGeneration = om_Generation (sn_Meta s)\<rparr>\<rparr>\<rparr>"

definition snapshotSyncStatus ::
    "('q, 'w) kube \<Rightarrow> sandbox_snapshot \<Rightarrow> 'w \<Rightarrow> (go_error + sandbox_snapshot) \<times> 'w" where
  "snapshotSyncStatus k s w =
     (let s = s\<lparr>sn_Status := (sn_Status s)\<lparr>st_ObservedGeneration := om_Generation (sn_Meta s)\<rparr>\<rparr>;
          (upd, w) = ku_UpdateSnapshotStatus k s w
      in case upd of
           Inl e \<Rightarrow> (Inl (Errorf ''update SandboxSnapshot status: %w'' [FW e]), w)
         | Inr s \<Rightarrow> (Inr s, w))"

definition snapFinish :: "('q, 'w) kube \<Rightarrow> int \<Rightarrow> sandbox_snapshot \<Rightarrow> 'w \<Rightarrow> rec_result \<times> 'w" where
  "snapFinish k after s w =
     (let (upd, w) = snapshotSyncStatus k s w in
      case upd of Inl e \<Rightarrow> (RecErr e, w) | Inr _ \<Rightarrow> (Requeue after, w))"

definition failSnapshot ::
    "('q, 'w) kube \<Rightarrow> sandbox_snapshot \<Rightarrow> string \<Rightarrow> go_text \<Rightarrow> 'w \<Rightarrow> rec_result \<times> 'w" where
  "failSnapshot k s reason message w =
     snapFinish k 0
       (setSnapshotCondition k ConditionReady False reason message
         (s\<lparr>sn_Status := (sn_Status s)\<lparr>st_Phase := SandboxSnapshotPhaseFailed, st_Message := message\<rparr>\<rparr>)) w"

subsection \<open>Creation\<close>

definition snapshotPath :: "sandbox_snapshot \<Rightarrow> sandbox \<Rightarrow> string" where
  "snapshotPath snap parent =
     (if st_StoragePath (sn_Status snap) = []
      then ''snapshots/'' @ om_Name (sb_Meta parent) @ ''/'' @ om_Name (sn_Meta snap) @ ''/''
      else st_StoragePath (sn_Status snap))"

definition noContainer :: container_spec where
  "noContainer = \<lparr>cs_Image = [], cs_Command = [], cs_Args = [], cs_Env = []\<rparr>"

definition readySnapshot :: "sandbox_snapshot \<Rightarrow> create_snapshot_result \<Rightarrow> string \<Rightarrow> sandbox_snapshot" where
  "readySnapshot snap result worker =
     snap\<lparr>sn_Status := (sn_Status snap)\<lparr>st_Phase := SandboxSnapshotPhaseReady,
        st_StoragePath := ct_StoragePath result, st_SnapshotFiles := ct_SnapshotFiles result,
        st_Runtime := ct_Runtime result, st_FormatVersion := ct_FormatVersion result,
        st_SizeBytes := ct_SizeBytes result, st_SourceWorker := worker, st_Message := Lit []\<rparr>\<rparr>"

definition parentNotReady :: "('q, 'w) kube \<Rightarrow> sandbox_snapshot \<Rightarrow> 'w \<Rightarrow> rec_result \<times> 'w" where
  "parentNotReady k snap w =
     (let s = setSnapshotCondition k ConditionReady False ''ParentNotReady''
            (Lit ''source Sandbox is not Running'') snap
      in snapFinish k snapshotRetryInterval
           (s\<lparr>sn_Status := (sn_Status s)\<lparr>st_Phase := SandboxSnapshotPhasePending\<rparr>\<rparr>) w)"

definition snapSyncCreate ::
    "('q, 'w) reconciler \<Rightarrow> sandbox_snapshot \<Rightarrow> 'w \<Rightarrow> rec_result \<times> 'w" where
  "snapSyncCreate r snap w =
     (let k = rc_Kube r; ns = om_Namespace (sn_Meta snap);
          (got, w) = ku_GetSandbox k ns (sp_SourceSandbox (sn_Spec snap)) w
      in case got of
           Inl e \<Rightarrow> if isNotFound e then failSnapshot k snap ''ParentNotFound'' (ErrText e) w else (RecErr e, w)
         | Inr parent \<Rightarrow>
             (case ss_Assignment (sb_Status parent) of
                None \<Rightarrow> parentNotReady k snap w
              | Some a \<Rightarrow>
                  if ss_Phase (sb_Status parent) \<noteq> SandboxPhaseRunning then parentNotReady k snap w
                  else if sb_PoolRef (sb_Spec parent) \<noteq> sp_Pool (sn_Spec snap) then
                    failSnapshot k snap ''PoolMismatch''
                      (Sprintf ''parent poolRef %q != snapshot pool %q''
                        [FS (sb_PoolRef (sb_Spec parent)), FS (sp_Pool (sn_Spec snap))]) w
                  else
                    let (gotPool, w) = ku_GetPool k ns (sp_Pool (sn_Spec snap)) w in
                    case gotPool of
                      Inl e \<Rightarrow> (RecErr (Errorf ''get SandboxPool: %w'' [FW e]), w)
                    | Inr pool \<Rightarrow>
                        let (storage, w) = snapshotStorageConfig k pool w in
                        case storage of
                          Inl e \<Rightarrow> failSnapshot k snap ''StorageConfig'' (ErrText e) w
                        | Inr storage \<Rightarrow>
                            let (ep, w) = resolveWorkerEndpoint r ns (aa_Worker a) w in
                            case ep of
                              Inl e \<Rightarrow> snapFinish k snapshotRetryInterval
                                (setSnapshotCondition k ConditionReady False ''WorkerUnavailable'' (ErrText e) snap) w
                            | Inr endpoint \<Rightarrow>
                                let storagePath = snapshotPath snap parent;
                                    container = (case sb_Container (sb_Spec parent) of None \<Rightarrow> noContainer | Some c \<Rightarrow> c);
                                    (made, w) = wl_CreateSnapshot (rc_Client r) endpoint
                                      \<lparr>cq_SlotID = aa_SlotID a, cq_Identity = sandboxIdentity parent,
                                       cq_StoragePath = storagePath, cq_Storage = storage, cq_Runtime = poolRuntime pool,
                                       cq_Pool = sp_Pool (sn_Spec snap), cq_Container = container\<rparr> w
                                in case made of
                                     Inl e \<Rightarrow>
                                       let (_, w) = wl_DeleteSnapshotObjects (rc_Client r) endpoint
                                             \<lparr>dq_StoragePath = storagePath, dq_SnapshotFiles = [], dq_Storage = storage\<rparr> w
                                       in failSnapshot k snap ''CreateFailed'' (ErrText e) w
                                   | Inr result \<Rightarrow>
                                       snapFinish k 0
                                         (setSnapshotCondition k ConditionReady True ''Ready''
                                           (Lit ''snapshot uploaded to object storage'')
                                           (readySnapshot snap result (aa_Worker a))) w))"

subsection \<open>Deletion\<close>

fun firstEndpoint :: "('q pod \<Rightarrow> go_error + string) \<Rightarrow> 'q pod list \<Rightarrow> go_error + string" where
  "firstEndpoint endpoint [] = Inl (Errorf ''no Worker available to delete snapshot objects'' [])"
| "firstEndpoint endpoint (p # ps) =
     (case endpoint p of
        Inr ep \<Rightarrow> if ep \<noteq> [] then Inr ep else firstEndpoint endpoint ps
      | Inl _ \<Rightarrow> firstEndpoint endpoint ps)"

definition pickWorkerEndpoint ::
    "('q, 'w) reconciler \<Rightarrow> string \<Rightarrow> 'q sandbox_pool \<Rightarrow> string \<Rightarrow> 'w \<Rightarrow> (go_error + string) \<times> 'w" where
  "pickWorkerEndpoint r namespace pool preferredWorker w =
     (let (preferred, w) = (if preferredWorker = [] then (Inl (External []), w)
                            else resolveWorkerEndpoint r namespace preferredWorker w)
      in case preferred of
           Inr ep \<Rightarrow> (Inr ep, w)
         | Inl _ \<Rightarrow>
             let (pods, w) = ku_ListPods (rc_Kube r) namespace
                   [(labelManaged, ''true''), (labelPool, om_Name (po_Meta pool))] w
             in case pods of
                  Inl e \<Rightarrow> (Inl e, w)
                | Inr ps \<Rightarrow> (firstEndpoint (rc_Endpoint r) ps, w))"

text \<open>The deletion of the objects; its failures are ignored, except that of reading the Pool.\<close>

definition deleteObjects :: "('q, 'w) reconciler \<Rightarrow> sandbox_snapshot \<Rightarrow> 'w \<Rightarrow> go_error option \<times> 'w" where
  "deleteObjects r snap w =
     (let k = rc_Kube r; st = sn_Status snap; ns = om_Namespace (sn_Meta snap) in
      if st_StoragePath st = [] then (None, w)
      else
        let (gotPool, w) = ku_GetPool k ns (sp_Pool (sn_Spec snap)) w in
        case gotPool of
          Inl e \<Rightarrow> (if isNotFound e then None else Some e, w)
        | Inr pool \<Rightarrow>
            let (storage, w) = snapshotStorageConfig k pool w in
            case storage of
              Inl _ \<Rightarrow> (None, w)
            | Inr storage \<Rightarrow>
                let (ep, w) = pickWorkerEndpoint r ns pool (st_SourceWorker st) w in
                case ep of
                  Inl _ \<Rightarrow> (None, w)
                | Inr endpoint \<Rightarrow>
                    let (_, w) = wl_DeleteSnapshotObjects (rc_Client r) endpoint
                          \<lparr>dq_StoragePath = st_StoragePath st, dq_SnapshotFiles = st_SnapshotFiles st,
                           dq_Storage = storage\<rparr> w
                    in (None, w))"

definition snapSyncDelete :: "('q, 'w) reconciler \<Rightarrow> sandbox_snapshot \<Rightarrow> 'w \<Rightarrow> rec_result \<times> 'w" where
  "snapSyncDelete r snap w =
     (let k = rc_Kube r in
      if \<not> ku_ContainsFinalizer k (sn_Meta snap) SandboxSnapshotFinalizer then (Requeue 0, w)
      else
        let (listed, w) = ku_ListSandboxes k (om_Namespace (sn_Meta snap)) w in
        case listed of
          Inl e \<Rightarrow> (RecErr e, w)
        | Inr sandboxes \<Rightarrow>
            (case find (\<lambda>sb. sb_FromSnapshot (sb_Spec sb) = om_Name (sn_Meta snap)) sandboxes of
               Some sb \<Rightarrow>
                 let message = Sprintf ''still referenced by Sandbox %q'' [FS (om_Name (sb_Meta sb))];
                     s = setSnapshotCondition k ConditionReady False ''InUse'' message
                           (snap\<lparr>sn_Status := (sn_Status snap)\<lparr>st_Message := message\<rparr>\<rparr>);
                     (_, w) = snapshotSyncStatus k s w
                 in (Requeue snapshotRetryInterval, w)
             | None \<Rightarrow>
                 let (err, w) = deleteObjects r snap w in
                 case err of
                   Some e \<Rightarrow> (RecErr e, w)
                 | None \<Rightarrow>
                     let (err, w) = ku_UpdateSnapshot k
                           (snap\<lparr>sn_Meta := ku_RemoveFinalizer k (sn_Meta snap) SandboxSnapshotFinalizer\<rparr>) w
                     in case err of
                          Some e \<Rightarrow> (RecErr (Errorf ''remove SandboxSnapshot finalizer: %w'' [FW e]), w)
                        | None \<Rightarrow> (Requeue 0, w)))"

subsection \<open>Reconciliation\<close>

definition SnapshotReconcile :: "('q, 'w) reconciler \<Rightarrow> string \<Rightarrow> string \<Rightarrow> 'w \<Rightarrow> rec_result \<times> 'w" where
  "SnapshotReconcile r namespace name w =
     (let k = rc_Kube r; (got, w) = ku_GetSnapshot k namespace name w in
      case got of
        Inl e \<Rightarrow> (if isNotFound e then Requeue 0 else RecErr e, w)
      | Inr snap \<Rightarrow>
          if om_Deleting (sn_Meta snap) then snapSyncDelete r snap w
          else if \<not> ku_ContainsFinalizer k (sn_Meta snap) SandboxSnapshotFinalizer then
            let (err, w) = ku_UpdateSnapshot k
                  (snap\<lparr>sn_Meta := ku_AddFinalizer k (sn_Meta snap) SandboxSnapshotFinalizer\<rparr>) w
            in (case err of
                  Some e \<Rightarrow> (RecErr (Errorf ''add SandboxSnapshot finalizer: %w'' [FW e]), w)
                | None \<Rightarrow> (Requeue 0, w))
          else if st_Phase (sn_Status snap) = SandboxSnapshotPhaseReady \<or>
                  st_Phase (sn_Status snap) = SandboxSnapshotPhaseFailed
          then (Requeue 0, w)
          else snapSyncCreate r snap w)"

end
