(* ===== verification/SlotManagerCorrect.thy ===== *)
theory SlotManagerCorrect
  imports WorkerSnapshot
begin

text \<open>
  Correctness of the Slot manager.  \<open>slot_operation\<close> is the contract every operation on a Slot keeps;
  what follows for the manager from it is proved once and used for the six operations.
\<close>

subsection \<open>The invariant of a Slot\<close>

text \<open>
  A free Slot has no trace of a Sandbox, and a running one has a runtime object.
\<close>

definition slot_ok :: "'q managed_slot \<Rightarrow> bool" where
  "slot_ok s \<longleftrightarrow> mg_state s \<noteq> StateZero \<and>
     (mg_state s = StateFree \<longrightarrow> mg_sandbox s = noIdentity \<and> mg_runtimeRef s = None \<and>
        \<not> mg_restored s \<and> mg_restoreDir s = []) \<and>
     (mg_state s = StateRunning \<longrightarrow> mg_runtimeRef s \<noteq> None)"

definition same_config :: "'q managed_slot \<Rightarrow> 'q managed_slot \<Rightarrow> bool" where
  "same_config s t \<longleftrightarrow> mg_id s = mg_id t \<and> mg_profile s = mg_profile t \<and> mg_resources s = mg_resources t"

definition slots_ok :: "(int, 'q managed_slot) gomap \<Rightarrow> bool" where
  "slots_ok slots \<longleftrightarrow> gm_ok slots \<and>
     (\<forall>sid s. map_of slots sid = Some s \<longrightarrow> mg_id s = sid \<and> slot_ok s)"

abbreviation mgr_ok :: "('q, 'w) slot_manager \<Rightarrow> bool" where
  "mgr_ok m \<equiv> slots_ok (sm_slots m)"

lemma slots_ok_set: "slots_ok slots \<Longrightarrow> mg_id s = sid \<Longrightarrow> slot_ok s \<Longrightarrow> slots_ok (gm_set sid s slots)"
  unfolding slots_ok_def by (metis fun_upd_apply gm_get_set gm_ok_set option.inject)

lemma slots_okD: "slots_ok slots \<Longrightarrow> map_of slots sid = Some s \<Longrightarrow> mg_id s = sid \<and> slot_ok s"
  unfolding slots_ok_def by blast

lemma slots_ok_gm: "slots_ok slots \<Longrightarrow> gm_ok slots"
  by (simp add: slots_ok_def)

lemma slot_ok_new [simp]: "slot_ok (newManagedSlot spec)"
  by (simp add: slot_ok_def newManagedSlot_def)

lemma mg_id_new [simp]: "mg_id (newManagedSlot spec) = sc_ID spec"
  by (simp add: newManagedSlot_def)

lemma same_config_refl [simp]: "same_config s s"
  by (simp add: same_config_def)

subsection \<open>The contract of an operation on a Slot\<close>

text \<open>
  An operation on behalf of the Sandbox \<open>uid\<close> keeps the Slot's invariant and its configuration,
  leaves a Slot that is busy for another Sandbox alone, and never moves a busy Slot to another
  Sandbox.
\<close>

locale slot_operation =
  fixes uid :: string
    and body :: "'q managed_slot \<Rightarrow> 'w \<Rightarrow> 'r \<times> 'q managed_slot \<times> 'w"
  assumes keeps_ok: "slot_ok s \<Longrightarrow> body s w = (r, s', w') \<Longrightarrow> slot_ok s'"
    and keeps_config: "body s w = (r, s', w') \<Longrightarrow> same_config s s'"
    and foreign: "mg_state s \<noteq> StateFree \<Longrightarrow> id_UID (mg_sandbox s) \<noteq> uid \<Longrightarrow>
      body s w = (r, s', w') \<Longrightarrow> s' = s \<and> w' = w"
    and keeps_owner: "body s w = (r, s', w') \<Longrightarrow> mg_state s \<noteq> StateFree \<Longrightarrow> mg_state s' \<noteq> StateFree \<Longrightarrow>
      mg_sandbox s' = mg_sandbox s"
begin

lemma lift_ok:
  assumes "mgr_ok m" "map_of (sm_slots m) sid = Some s" "body s w = (r, s', w')"
  shows "mgr_ok (m\<lparr>sm_slots := gm_set sid s' (sm_slots m)\<rparr>)"
  using slots_okD [OF assms(1,2)] keeps_ok [OF _ assms(3)] keeps_config [OF assms(3)] assms(1)
  by (auto simp: same_config_def intro: slots_ok_set)

lemma lift_foreign:
  assumes "map_of (sm_slots m) sid = Some s" "body s w = (r, s', w')"
    and "mg_state s \<noteq> StateFree" "id_UID (mg_sandbox s) \<noteq> uid"
  shows "map_of (gm_set sid s' (sm_slots m)) = map_of (sm_slots m) \<and> w' = w"
  using assms foreign [of s w r s' w'] by (auto simp: fun_upd_idem)

end

lemma clearRestoreDir_eq:
  "clearRestoreDir os s w = (s', w') \<Longrightarrow> s' = s\<lparr>mg_restoreDir := []\<rparr>"
  by (cases s) (auto simp: clearRestoreDir_def split: if_splits prod.splits)

interpretation reserve: slot_operation "id_UID (sr_Identity ref)" "reserveLocked ref" for ref
  by unfold_locales (auto simp: reserveLocked_def slot_ok_def same_config_def split: if_splits)

subsection \<open>Starting\<close>

lemma checkRunning_cases:
  assumes "checkRunning rt s w = r"
  obtains (skip) "r = Inr (s, w)" "mg_state s \<noteq> StateRunning"
  | (norun) "r = Inr (s\<lparr>mg_state := StateReserved\<rparr>, w)" "mg_state s = StateRunning" "mg_runtimeRef s = None"
  | (stays) e w' where "r = Inl (e, s, w')" "mg_state s = StateRunning"
  | (failed) e w' where "r = Inl (Some e, s\<lparr>mg_state := StateFailed\<rparr>, w')" "mg_state s = StateRunning"
  | (cleaned) w' where "r = Inr (s\<lparr>mg_runtimeRef := None, mg_state := StateReserved\<rparr>, w')" "mg_state s = StateRunning"
  using assms
  by (auto simp: checkRunning_def Let_def split: if_splits option.splits prod.splits sum.splits)

lemma resumeStart_cases:
  assumes "resumeStart rt s w = r"
  obtains (skip) "r = Inr (s, w)" "mg_state s \<noteq> StateStarting \<or> mg_runtimeRef s = None"
  | (started) w' where "r = Inl (None, s\<lparr>mg_state := StateRunning\<rparr>, w')" "mg_state s = StateStarting"
      "mg_runtimeRef s \<noteq> None"
  | (failed) e w' st where "r = Inl (Some e, s\<lparr>mg_runtimeRef := None, mg_state := st\<rparr>, w')"
      "st = StateFailed \<or> st = StateReserved" "mg_state s = StateStarting"
  using assms
  by (auto simp: resumeStart_def Let_def split: if_splits option.splits prod.splits sum.splits)

lemma createAndStart_cases:
  assumes "createAndStart rt req s w = (r, s', w')"
  obtains (stays) e where "r = Some e" "s' = s"
  | (started) rid where "r = None" "s' = s\<lparr>mg_state := StateRunning, mg_runtimeRef := Some rid,
      mg_restored := IsRestoredID rid\<rparr>" "mg_state s = StateReserved"
  | (failed) e st where "r = Some e" "s' = s\<lparr>mg_runtimeRef := None, mg_restored := False, mg_state := st\<rparr>"
      "st = StateFailed \<or> st = StateReserved" "mg_state s = StateReserved"
  using assms
  by (auto simp: createAndStart_def Let_def split: if_splits option.splits prod.splits sum.splits)

text \<open>What the stages of an operation by the Slot's own Sandbox keep, and that it composes.\<close>

definition tracks :: "'q managed_slot \<Rightarrow> 'q managed_slot \<Rightarrow> bool" where
  "tracks s t \<longleftrightarrow> same_config s t \<and> mg_sandbox t = mg_sandbox s \<and> (slot_ok s \<longrightarrow> slot_ok t) \<and>
     (mg_state t = StateFree \<longrightarrow> mg_state s = StateFree)"

lemma tracks_refl [simp]: "tracks s s"
  by (simp add: tracks_def)

lemma tracks_trans: "tracks s t \<Longrightarrow> tracks t u \<Longrightarrow> tracks s u"
  by (simp add: tracks_def same_config_def)

lemma checkRunning_tracks:
  "(case checkRunning rt s w of Inl (r, t, w) \<Rightarrow> tracks s t | Inr (t, w) \<Rightarrow> tracks s t)"
proof -
  define q where "q = checkRunning rt s w"
  show ?thesis
    using q_def [symmetric]
    by (cases rule: checkRunning_cases) (simp_all add: tracks_def same_config_def slot_ok_def flip: q_def)
qed

lemma resumeStart_tracks:
  "(case resumeStart rt s w of Inl (r, t, w) \<Rightarrow> tracks s t | Inr (t, w) \<Rightarrow> tracks s t)"
proof -
  define q where "q = resumeStart rt s w"
  show ?thesis
    using q_def [symmetric]
    by (cases rule: resumeStart_cases) (auto simp add: tracks_def same_config_def slot_ok_def simp flip: q_def)
qed

lemma createAndStart_tracks: "createAndStart rt req s w = (r, s', w') \<Longrightarrow> tracks s s'"
  by (erule createAndStart_cases) (auto simp: tracks_def same_config_def slot_ok_def)

lemma startLocked_cases:
  assumes "startLocked rt req s w = (r, s', w')"
  obtains (conflict) e where "r = Some e" "s' = s" "w' = w" "id_UID (mg_sandbox s) \<noteq> id_UID (sq_Identity req)"
  | (own) "id_UID (mg_sandbox s) = id_UID (sq_Identity req)" "tracks s s'"
proof (cases "id_UID (mg_sandbox s) = id_UID (sq_Identity req)")
  case True
  have "tracks s s'"
  proof (cases "checkRunning rt s w")
    case (Inl q)
    with assms True checkRunning_tracks [where rt = rt and s = s and w = w] show ?thesis by (simp add: startLocked_def)
  next
    case (Inr q)
    obtain t v where q: "q = (t, v)" by (cases q)
    have st: "tracks s t"
      using Inr q checkRunning_tracks [where rt = rt and s = s and w = w] by simp
    show ?thesis
    proof (cases "resumeStart rt t v")
      case inl: (Inl q')
      with assms True Inr q resumeStart_tracks [where rt = rt and s = t and w = v] show ?thesis
        using tracks_trans [OF st] by (auto simp: startLocked_def)
    next
      case inr: (Inr q')
      obtain t' v' where q': "q' = (t', v')" by (cases q')
      then have tt: "tracks t t'"
        using inr resumeStart_tracks [where rt = rt and s = t and w = v] by simp
      have "createAndStart rt req t' v' = (r, s', w')"
        using assms True Inr q inr q' by (simp add: startLocked_def)
      from tracks_trans [OF st tracks_trans [OF tt createAndStart_tracks [OF this]]] show ?thesis .
    qed
  qed
  with True own show ?thesis by blast
next
  case False
  with assms conflict show ?thesis by (auto simp: startLocked_def)
qed

interpretation start: slot_operation "id_UID (sq_Identity req)" "startLocked rt req" for req rt
proof (unfold_locales, goal_cases)
  case (1 s w r s' w')
  from 1(2) show ?case by (cases rule: startLocked_cases) (use 1 in \<open>auto simp: tracks_def\<close>)
next
  case (2 s w r s' w')
  then show ?case by (cases rule: startLocked_cases) (auto simp: tracks_def)
next
  case (3 s w r s' w')
  from 3(3) show ?case by (cases rule: startLocked_cases) (use 3 in auto)
next
  case (4 s w r s' w')
  from 4(1) show ?case by (cases rule: startLocked_cases) (auto simp: tracks_def)
qed

subsection \<open>Stopping, releasing, snapshots\<close>

lemma stopLocked_cases:
  assumes "stopLocked os m ref s w = (r, s', w')"
  obtains (stays) "s' = s" "w' = w"
  | (own) "id_UID (mg_sandbox s) = id_UID (sr_Identity ref)" "mg_state s \<noteq> StateFree" "tracks s s'"
proof (cases "mg_state s = StateFree \<or> id_UID (mg_sandbox s) \<noteq> id_UID (sr_Identity ref) \<or>
    mg_state s = StateStopping \<or> mg_state s = StateCleaning")
  case True
  with assms stays show ?thesis by (auto simp: stopLocked_def split: if_splits)
next
  case False
  have "tracks s s'"
    using assms False
    by (auto simp: stopLocked_def Let_def tracks_def same_config_def slot_ok_def
        dest!: clearRestoreDir_eq split: if_splits option.splits sum.splits prod.splits)
  with False own show ?thesis by auto
qed

interpretation stop: slot_operation "id_UID (sr_Identity ref)" "stopLocked os m ref" for os m ref
proof (unfold_locales, goal_cases)
  case (1 s w r s' w')
  from 1(2) show ?case by (cases rule: stopLocked_cases) (use 1 in \<open>auto simp: tracks_def\<close>)
next
  case (2 s w r s' w')
  then show ?case by (cases rule: stopLocked_cases) (auto simp: tracks_def)
next
  case (3 s w r s' w')
  from 3(3) show ?case by (cases rule: stopLocked_cases) (use 3 in auto)
next
  case (4 s w r s' w')
  from 4(1) show ?case by (cases rule: stopLocked_cases) (auto simp: tracks_def)
qed

definition freed :: "'q managed_slot \<Rightarrow> 'q managed_slot" where
  "freed s = s\<lparr>mg_state := StateFree, mg_sandbox := noIdentity, mg_runtimeRef := None, mg_restored := False,
     mg_restoreDir := []\<rparr>"

lemma releaseLocked_cases:
  assumes "releaseLocked os m ref s w = (r, s', w')"
  obtains (stays) "s' = s" "w' = w" "mg_state s = StateFree \<or> id_UID (mg_sandbox s) \<noteq> id_UID (sr_Identity ref)"
  | (failed) e where "mg_state s \<noteq> StateFree" "id_UID (mg_sandbox s) = id_UID (sr_Identity ref)"
      "releaseRuntime m s w = (Some e, w')" "r = Some e" "s' = s\<lparr>mg_state := StateFailed\<rparr>"
  | (freed) v where "mg_state s \<noteq> StateFree" "id_UID (mg_sandbox s) = id_UID (sr_Identity ref)"
      "releaseRuntime m s w = (None, v)" "r = None" "s' = freed s"
proof (cases "mg_state s = StateFree \<or> id_UID (mg_sandbox s) \<noteq> id_UID (sr_Identity ref)")
  case True
  with assms stays show ?thesis by (auto simp: releaseLocked_def split: if_splits)
next
  case False
  obtain err v where v: "releaseRuntime m s w = (err, v)" by fastforce
  show ?thesis
  proof (cases err)
    case None
    with assms False v freed show ?thesis
      by (auto simp: releaseLocked_def freed_def dest!: clearRestoreDir_eq split: prod.splits)
  next
    case (Some e)
    with assms False v failed show ?thesis by (auto simp: releaseLocked_def)
  qed
qed

interpretation release: slot_operation "id_UID (sr_Identity ref)" "releaseLocked os m ref" for os m ref
proof (unfold_locales, goal_cases)
  case (1 s w r s' w')
  from 1(2) show ?case
    by (cases rule: releaseLocked_cases) (use 1 in \<open>auto simp: slot_ok_def freed_def\<close>)
next
  case (2 s w r s' w')
  then show ?case by (cases rule: releaseLocked_cases) (auto simp: same_config_def freed_def)
next
  case (3 s w r s' w')
  from 3(3) show ?case by (cases rule: releaseLocked_cases) (use 3 in auto)
next
  case (4 s w r s' w')
  from 4(1) show ?case by (cases rule: releaseLocked_cases) (use 4 in \<open>auto simp: freed_def\<close>)
qed

lemma createSnapshotLocked_cases:
  assumes "createSnapshotLocked env m snap handler req s w = (r, s', w')"
  obtains (stays) "s' = s" "w' = w" "mg_state s \<noteq> StateRunning \<or> mg_runtimeRef s = None \<or>
      id_UID (mg_sandbox s) \<noteq> id_UID (cq_Identity req)"
  | (kept) "s' = s" "mg_state s = StateRunning" "id_UID (mg_sandbox s) = id_UID (cq_Identity req)"
  | (torn) "s' = s\<lparr>mg_runtimeRef := None, mg_restored := False, mg_restoreDir := [], mg_state := StateFailed\<rparr>"
      "mg_state s = StateRunning" "id_UID (mg_sandbox s) = id_UID (cq_Identity req)" "tearsDownOnSave snap"
  using assms
  by (auto simp: createSnapshotLocked_def Let_def dest!: clearRestoreDir_eq
      split: if_splits option.splits sum.splits prod.splits)

interpretation snap: slot_operation "id_UID (cq_Identity req)" "createSnapshotLocked env m sn handler req"
  for env m sn handler req
proof (unfold_locales, goal_cases)
  case (1 s w r s' w')
  from 1(2) show ?case
    by (cases rule: createSnapshotLocked_cases) (use 1 in \<open>auto simp: slot_ok_def\<close>)
next
  case (2 s w r s' w')
  then show ?case by (cases rule: createSnapshotLocked_cases) (auto simp: same_config_def)
next
  case (3 s w r s' w')
  from 3(3) show ?case by (cases rule: createSnapshotLocked_cases) (use 3 in auto)
next
  case (4 s w r s' w')
  from 4(1) show ?case by (cases rule: createSnapshotLocked_cases) auto
qed

lemma restoreLocked_cases:
  assumes "restoreLocked env sn handler req s w = (r, s', w')"
  obtains (conflict) "s' = s" "w' = w" "id_UID (mg_sandbox s) \<noteq> id_UID (rq_Identity req)"
  | (stays) "s' = s" "id_UID (mg_sandbox s) = id_UID (rq_Identity req)"
  | (failed) e where "r = Some e" "s' = s\<lparr>mg_state := StateReserved\<rparr>" "id_UID (mg_sandbox s) = id_UID (rq_Identity req)"
      "mg_state s = StateReserved \<or> mg_state s = StateStarting"
  | (restored) rid dir where "r = None" "s' = s\<lparr>mg_runtimeRef := Some rid, mg_restored := True,
      mg_restoreDir := dir, mg_state := StateRunning\<rparr>" "id_UID (mg_sandbox s) = id_UID (rq_Identity req)"
      "mg_state s = StateReserved \<or> mg_state s = StateStarting"
  using assms
  by (auto simp: restoreLocked_def Let_def split: if_splits option.splits sum.splits prod.splits)

interpretation restore: slot_operation "id_UID (rq_Identity req)" "restoreLocked env sn handler req"
  for env sn handler req
proof (unfold_locales, goal_cases)
  case (1 s w r s' w')
  from 1(2) show ?case
    by (cases rule: restoreLocked_cases) (use 1 in \<open>auto simp: slot_ok_def\<close>)
next
  case (2 s w r s' w')
  then show ?case by (cases rule: restoreLocked_cases) (auto simp: same_config_def)
next
  case (3 s w r s' w')
  from 3(3) show ?case by (cases rule: restoreLocked_cases) (use 3 in auto)
next
  case (4 s w r s' w')
  from 4(1) show ?case by (cases rule: restoreLocked_cases) auto
qed

subsection \<open>The manager's operations\<close>

lemma getSlot_Inr [simp]: "getSlot m sid = Inr s \<longleftrightarrow> map_of (sm_slots m) sid = Some s"
  by (auto simp: getSlot_def split: option.splits)

lemma getSlot_Some [simp]: "map_of (sm_slots m) sid = Some s \<Longrightarrow> getSlot m sid = Inr s"
  by simp

lemma getSlot_None: "map_of (sm_slots m) sid = None \<Longrightarrow> \<exists>e. getSlot m sid = Inl e \<and> errors_is ErrSlotNotFound e"
  by (simp add: getSlot_def)

text \<open>What a call through \<open>onSlot\<close> does: nothing, or the body on the Slot it names.\<close>

lemma onSlot_cases:
  assumes "onSlot identity sid body m w = (r, m', w')"
  obtains (rejected) e where "r = Some e" "m' = m" "w' = w"
  | (run) s s' where "validateIdentity identity = None" "map_of (sm_slots m) sid = Some s"
      "body s w = (r, s', w')" "m' = m\<lparr>sm_slots := gm_set sid s' (sm_slots m)\<rparr>"
proof (cases "validateIdentity identity = None \<and> map_of (sm_slots m) sid \<noteq> None")
  case True
  then obtain s where s: "map_of (sm_slots m) sid = Some s" by blast
  obtain r1 s1 w1 where b: "body s w = (r1, s1, w1)" by (cases "body s w")
  with True s assms have "r = r1" "w' = w1" "m' = m\<lparr>sm_slots := gm_set sid s1 (sm_slots m)\<rparr>"
    by (simp_all add: onSlot_def getSlot_def)
  with True s b run show ?thesis by metis
next
  case False
  then obtain e where "onSlot identity sid body m w = (Some e, m, w)"
    by (cases "validateIdentity identity") (auto simp: onSlot_def getSlot_def)
  with assms have "m' = m \<and> w' = w \<and> r = Some e"
    by simp
  with rejected show ?thesis by blast
qed

lemma mgr_ok_New: "mgr_ok (NewSlotManager config rt snaps)"
proof -
  have "slots_ok (foldl (\<lambda>slots spec. gm_set (sc_ID spec) (newManagedSlot spec) slots) acc specs)"
    if "slots_ok acc" for acc and specs :: "'a slot_config list"
    using that by (induction specs arbitrary: acc) (simp_all add: slots_ok_set)
  from this [of "[]"] show ?thesis
    by (simp add: slots_ok_def NewSlotManager_def)
qed

lemma desiredSlots_spec:
  assumes "gm_ok acc"
  shows "desiredSlots configs acc =
    (if distinct (map sc_ID configs) \<and> set (map sc_ID configs) \<inter> fst ` set acc = {}
     then Inr (acc @ map (\<lambda>c. (sc_ID c, c)) configs)
     else Inl (case desiredSlots configs acc of Inl e \<Rightarrow> e))"
  using assms
proof (induction configs arbitrary: acc)
  case (Cons c cs)
  show ?case
  proof (cases "map_of acc (sc_ID c)")
    case None
    then have new: "sc_ID c \<notin> fst ` set acc"
      by (simp add: map_of_eq_None_iff)
    then have upd: "gm_set (sc_ID c) c acc = acc @ [(sc_ID c, c)]"
      by (induction acc) auto
    have "gm_ok (acc @ [(sc_ID c, c)])"
      using new Cons.prems by auto
    from Cons.IH [OF this] show ?thesis
      using None new upd by (auto split: if_splits)
  next
    case (Some b)
    then have "sc_ID c \<in> fst ` set acc"
      by (metis domI dom_map_of_conv_image_fst)
    with Some show ?thesis by auto
  qed
qed simp

lemma checkApply_None:
  assumes "gm_ok slots"
  shows "checkApply deq desired slots = None \<longleftrightarrow>
    (\<forall>sid s. map_of slots sid = Some s \<longrightarrow>
       (case map_of desired sid of
          None \<Rightarrow> mg_state s = StateFree
        | Some cfg \<Rightarrow> mg_profile s = sc_Profile cfg \<and> deq (mg_resources s) (sc_Resources cfg)))"
  using assms
proof (induction slots)
  case (Cons x slots)
  obtain sid s where x: "x = (sid, s)" by (cases x)
  have other: "map_of slots sid = None"
    using Cons.prems x by (simp add: map_of_eq_None_iff)
  show ?case
    using Cons x other by (auto split: option.splits if_splits)
qed simp

text \<open>
  \<open>ApplySlots\<close> in closed form: accepted exactly when the IDs are distinct, no busy Slot is dropped
  and no kept Slot changes its configuration.
\<close>

definition acceptable ::
    "('q resource_requirements \<Rightarrow> 'q resource_requirements \<Rightarrow> bool) \<Rightarrow> 'q slot_config list \<Rightarrow>
     (int, 'q managed_slot) gomap \<Rightarrow> bool" where
  "acceptable deq configs slots \<longleftrightarrow> distinct (map sc_ID configs) \<and>
     (\<forall>sid s. map_of slots sid = Some s \<longrightarrow> sid \<notin> sc_ID ` set configs \<longrightarrow> mg_state s = StateFree) \<and>
     (\<forall>cfg \<in> set configs. \<forall>s. map_of slots (sc_ID cfg) = Some s \<longrightarrow>
        mg_profile s = sc_Profile cfg \<and> deq (mg_resources s) (sc_Resources cfg))"

definition appliedSlots :: "'q slot_config list \<Rightarrow> (int, 'q managed_slot) gomap \<Rightarrow> (int, 'q managed_slot) gomap" where
  "appliedSlots configs slots = map (\<lambda>cfg. (sc_ID cfg,
     case map_of slots (sc_ID cfg) of Some s \<Rightarrow> s | None \<Rightarrow> newManagedSlot cfg)) configs"

lemma appliedSlots_look:
  assumes "distinct (map sc_ID configs)" "cfg \<in> set configs"
  shows "map_of (appliedSlots configs slots) (sc_ID cfg) =
      Some (case map_of slots (sc_ID cfg) of Some s \<Rightarrow> s | None \<Rightarrow> newManagedSlot cfg)"
  using assms by (intro map_of_is_SomeI) (auto simp: appliedSlots_def comp_def)

lemma map_of_configs:
  "distinct (map sc_ID configs) \<Longrightarrow> map_of (map (\<lambda>c. (sc_ID c, c)) configs) sid = Some cfg \<longleftrightarrow>
     cfg \<in> set configs \<and> sc_ID cfg = sid"
  by (induction configs) (auto simp: image_iff)

lemma map_of_configs_None:
  "map_of (map (\<lambda>c. (sc_ID c, c)) configs) sid = None \<longleftrightarrow> sid \<notin> sc_ID ` set configs"
  by (auto simp: map_of_eq_None_iff image_iff)

lemma ApplySlots_accepts:
  assumes "gm_ok (sm_slots m)" "acceptable deq configs (sm_slots m)"
  shows "ApplySlots deq configs m = (None, m\<lparr>sm_slots := appliedSlots configs (sm_slots m),
    sm_config := (sm_config m)\<lparr>wc_Slots := configs\<rparr>\<rparr>)"
proof -
  have d: "distinct (map sc_ID configs)"
    using assms(2) by (simp add: acceptable_def)
  then have des: "desiredSlots configs [] = Inr (map (\<lambda>c. (sc_ID c, c)) configs)"
    using desiredSlots_spec [of "[]" configs] by simp
  have "checkApply deq (map (\<lambda>c. (sc_ID c, c)) configs) (sm_slots m) = None"
    using assms(2) unfolding checkApply_None [OF assms(1)] acceptable_def
    by (auto simp: map_of_configs [OF d] map_of_configs_None split: option.splits)
  with des show ?thesis
    by (simp add: ApplySlots_def appliedSlots_def comp_def)
qed

lemma ApplySlots_rejects:
  assumes "gm_ok (sm_slots m)" "\<not> acceptable deq configs (sm_slots m)"
  shows "\<exists>e. ApplySlots deq configs m = (Some e, m) \<and> errors_is ErrSlotConfigInvalid e"
proof -
  have dup: "errors_is ErrSlotConfigInvalid e" if "desiredSlots cs acc = Inl e" for cs acc e
    using that by (induction cs arbitrary: acc) (auto split: if_splits)
  have chk: "errors_is ErrSlotConfigInvalid e" if "checkApply deq des slots = Some e" for des slots e
    using that by (induction slots) (auto split: if_splits option.splits)
  show ?thesis
  proof (cases "distinct (map sc_ID configs)")
    case False
    then obtain e where "desiredSlots configs [] = Inl e"
      using desiredSlots_spec [of "[]" configs] by auto
    with dup show ?thesis by (simp add: ApplySlots_def)
  next
    case d: True
    then have des: "desiredSlots configs [] = Inr (map (\<lambda>c. (sc_ID c, c)) configs)"
      using desiredSlots_spec [of "[]" configs] by simp
    have "checkApply deq (map (\<lambda>c. (sc_ID c, c)) configs) (sm_slots m) \<noteq> None"
    proof
      assume "checkApply deq (map (\<lambda>c. (sc_ID c, c)) configs) (sm_slots m) = None"
      then have ok: "case map_of (map (\<lambda>c. (sc_ID c, c)) configs) sid of None \<Rightarrow> mg_state s = StateFree
          | Some cfg \<Rightarrow> mg_profile s = sc_Profile cfg \<and> deq (mg_resources s) (sc_Resources cfg)"
        if "map_of (sm_slots m) sid = Some s" for sid s
        using that checkApply_None [OF assms(1)] by blast
      have "mg_state s = StateFree" if "map_of (sm_slots m) sid = Some s" "sid \<notin> sc_ID ` set configs" for sid s
        using ok [OF that(1)] that(2) map_of_configs_None [of configs sid] by simp
      moreover have "mg_profile s = sc_Profile cfg \<and> deq (mg_resources s) (sc_Resources cfg)"
        if "cfg \<in> set configs" "map_of (sm_slots m) (sc_ID cfg) = Some s" for cfg s
        using ok [OF that(2)] map_of_configs [OF d, of "sc_ID cfg" cfg] that(1) by simp
      ultimately have "acceptable deq configs (sm_slots m)"
        using d by (auto simp: acceptable_def)
      with assms(2) show False by simp
    qed
    with des chk show ?thesis by (auto simp: ApplySlots_def)
  qed
qed

lemma mgr_ok_Apply:
  assumes "mgr_ok m" "ApplySlots deq configs m = (r, m')"
  shows "mgr_ok m'"
proof (cases "acceptable deq configs (sm_slots m)")
  case True
  then have d: "distinct (map sc_ID configs)" by (simp add: acceptable_def)
  have "m' = m\<lparr>sm_slots := appliedSlots configs (sm_slots m), sm_config := (sm_config m)\<lparr>wc_Slots := configs\<rparr>\<rparr>"
    using ApplySlots_accepts [OF slots_ok_gm [OF assms(1)] True] assms(2) by simp
  moreover have "mg_id s = sid \<and> slot_ok s" if "map_of (appliedSlots configs (sm_slots m)) sid = Some s" for sid s
  proof -
    from map_of_SomeD [OF that] obtain cfg where cfg: "sid = sc_ID cfg"
      "s = (case map_of (sm_slots m) (sc_ID cfg) of Some s \<Rightarrow> s | None \<Rightarrow> newManagedSlot cfg)"
      by (auto simp: appliedSlots_def)
    show ?thesis
    proof (cases "map_of (sm_slots m) (sc_ID cfg)")
      case None
      then show ?thesis using cfg by simp
    next
      case (Some t)
      then have "mg_id t = sc_ID cfg \<and> slot_ok t"
        using slots_okD [OF assms(1)] by blast
      with Some cfg show ?thesis by simp
    qed
  qed
  moreover have "gm_ok (appliedSlots configs (sm_slots m))"
    using d by (simp add: appliedSlots_def comp_def)
  ultimately show ?thesis
    unfolding slots_ok_def by simp
next
  case False
  with ApplySlots_rejects [OF slots_ok_gm [OF assms(1)] False] assms show ?thesis by auto
qed

lemma mgr_ok_recoverObjects:
  "mgr_ok m \<Longrightarrow> recoverObjects objs m = (r, m') \<Longrightarrow> mgr_ok m'"
proof (induction objs arbitrary: m)
  case (Cons obj objs)
  show ?case
  proof (cases "map_of (sm_slots m) (ri_SlotID obj)")
    case None
    with Cons.prems show ?thesis by (auto simp: getSlot_def)
  next
    case (Some s)
    have ok: "slot_ok (s\<lparr>mg_sandbox := ri_Identity obj, mg_runtimeRef := Some (ri_ID obj),
        mg_state := runtimeSlotState (rs_State (ri_Status obj))\<rparr>)" "slot_ok (s\<lparr>mg_state := StateFailed\<rparr>)"
      by (auto simp: slot_ok_def runtimeSlotState_def split: runtime_state.splits)
    have upd: "mgr_ok (m\<lparr>sm_slots := gm_set (ri_SlotID obj) s' (sm_slots m)\<rparr>)"
      if "mg_id s' = mg_id s" "slot_ok s'" for s'
      using Cons.prems(1) slots_okD [OF Cons.prems(1) Some] that by (auto intro: slots_ok_set)
    show ?thesis
    proof (cases "mg_state s = StateFree")
      case True
      let ?s = "s\<lparr>mg_sandbox := ri_Identity obj, mg_runtimeRef := Some (ri_ID obj),
        mg_state := runtimeSlotState (rs_State (ri_Status obj))\<rparr>"
      have "mgr_ok (m\<lparr>sm_slots := gm_set (ri_SlotID obj) ?s (sm_slots m)\<rparr>)"
        using ok(1) by (intro upd) auto
      moreover have "recoverObjects objs (m\<lparr>sm_slots := gm_set (ri_SlotID obj) ?s (sm_slots m)\<rparr>) = (r, m')"
        using Cons.prems(2) Some True by (simp add: getSlot_def)
      ultimately show ?thesis by (rule Cons.IH)
    next
      case False
      then have "m' = m\<lparr>sm_slots := gm_set (ri_SlotID obj) (s\<lparr>mg_state := StateFailed\<rparr>) (sm_slots m)\<rparr>"
        using Cons.prems(2) Some by (simp add: getSlot_def)
      with upd [OF _ ok(2)] show ?thesis by simp
    qed
  qed
qed simp

subsection \<open>The Worker as a transition system\<close>

text \<open>
  Every handler of the Worker that changes its Slots, in any order, and anything the outside world
  does by itself in between.
\<close>

inductive mgr_step ::
    "('q resource_requirements \<Rightarrow> 'q resource_requirements \<Rightarrow> bool) \<Rightarrow> 'w worker_env \<Rightarrow>
     ('q, 'w) slot_manager \<times> 'w \<Rightarrow> ('q, 'w) slot_manager \<times> 'w \<Rightarrow> bool" for deq env where
  st_apply: "ApplySlots deq configs m = (r, m') \<Longrightarrow> mgr_step deq env (m, w) (m', w)"
| st_reserve: "ReserveSlot ref m w = (r, m', w') \<Longrightarrow> mgr_step deq env (m, w) (m', w')"
| st_start: "StartSandbox req m w = (r, m', w') \<Longrightarrow> mgr_step deq env (m, w) (m', w')"
| st_stop: "StopSandbox (we_Os env) ref m w = (r, m', w') \<Longrightarrow> mgr_step deq env (m, w) (m', w')"
| st_release: "ReleaseSlot (we_Os env) ref m w = (r, m', w') \<Longrightarrow> mgr_step deq env (m, w) (m', w')"
| st_snapshot: "CreateSnapshot env creq m w = (cr, m', w') \<Longrightarrow> mgr_step deq env (m, w) (m', w')"
| st_restore: "RestoreFromSnapshot env rreq m w = (r, m', w') \<Longrightarrow> mgr_step deq env (m, w) (m', w')"
| st_recover: "Recover m w = (r, m', w') \<Longrightarrow> mgr_step deq env (m, w) (m', w')"
| st_world: "mgr_step deq env (m, w) (m, w')"

lemma CreateSnapshot_cases:
  assumes "CreateSnapshot env req m w = (r, m', w')"
  obtains (rejected) "m' = m" "w' = w"
  | (run) sn handler s s' where "map_of (sm_slots m) (cq_SlotID req) = Some s"
      "createSnapshotLocked env m sn handler req s w = (r, s', w')"
      "m' = m\<lparr>sm_slots := gm_set (cq_SlotID req) s' (sm_slots m)\<rparr>"
proof -
  let ?h = "if cq_Runtime req = [] then runtimeHandler m else cq_Runtime req"
  show ?thesis
  proof (cases "validateIdentity (cq_Identity req)"; cases "cq_StoragePath req = [] \<or> oc_Bucket (cq_Storage req) = []";
      cases "Registry_For (sm_snapshotters m) ?h"; cases "getSlot m (cq_SlotID req)")
    fix sn s
    assume a: "validateIdentity (cq_Identity req) = None" "\<not> (cq_StoragePath req = [] \<or> oc_Bucket (cq_Storage req) = [])"
      "Registry_For (sm_snapshotters m) ?h = Inr sn" "getSlot m (cq_SlotID req) = Inr s"
    obtain r1 s1 w1 where "createSnapshotLocked env m sn ?h req s w = (r1, s1, w1)"
      by (cases "createSnapshotLocked env m sn ?h req s w")
    with a assms run [of s sn ?h s1] show ?thesis by (simp add: CreateSnapshot_def Let_def)
  qed (use assms rejected in \<open>simp_all add: CreateSnapshot_def Let_def\<close>)
qed

lemma RestoreFromSnapshot_cases:
  assumes "RestoreFromSnapshot env req m w = (r, m', w')"
  obtains (rejected) "m' = m" "w' = w"
  | (run) sn handler s s' where "map_of (sm_slots m) (rq_SlotID req) = Some s"
      "restoreLocked env sn handler req s w = (r, s', w')"
      "m' = m\<lparr>sm_slots := gm_set (rq_SlotID req) s' (sm_slots m)\<rparr>"
proof -
  let ?h = "if rq_Runtime req = [] then runtimeHandler m else rq_Runtime req"
  let ?bad = "rq_StoragePath req = [] \<or> oc_Bucket (rq_Storage req) = [] \<or>
    runtimeHandler m \<noteq> [] \<and> ?h \<noteq> runtimeHandler m"
  show ?thesis
  proof (cases "validateIdentity (rq_Identity req)"; cases ?bad;
      cases "Registry_For (sm_snapshotters m) ?h"; cases "getSlot m (rq_SlotID req)")
    fix sn s
    assume a: "validateIdentity (rq_Identity req) = None" "\<not> ?bad"
      "Registry_For (sm_snapshotters m) ?h = Inr sn" "getSlot m (rq_SlotID req) = Inr s"
    obtain r1 s1 w1 where "restoreLocked env sn ?h req s w = (r1, s1, w1)"
      by (cases "restoreLocked env sn ?h req s w")
    with a assms run [of s sn ?h s1] show ?thesis by (auto simp: RestoreFromSnapshot_def Let_def)
  qed (use assms rejected in \<open>auto simp: RestoreFromSnapshot_def Let_def split: if_splits\<close>)
qed

lemma mgr_step_ok:
  assumes "mgr_step deq env (m, w) (m', w')" "mgr_ok m"
  shows "mgr_ok m'"
  using assms(1)
proof cases
  case (st_apply configs r)
  with assms(2) show ?thesis using mgr_ok_Apply by blast
next
  case (st_reserve ref r)
  then show ?thesis
    unfolding ReserveSlot_def by (cases rule: onSlot_cases) (use assms(2) reserve.lift_ok in auto)
next
  case (st_start req r)
  then show ?thesis
    unfolding StartSandbox_def by (cases rule: onSlot_cases) (use assms(2) start.lift_ok in auto)
next
  case (st_stop ref r)
  then show ?thesis
    unfolding StopSandbox_def by (cases rule: onSlot_cases) (use assms(2) stop.lift_ok in auto)
next
  case (st_release ref r)
  then show ?thesis
    unfolding ReleaseSlot_def by (cases rule: onSlot_cases) (use assms(2) release.lift_ok in auto)
next
  case (st_snapshot creq cr)
  then show ?thesis
    by (cases rule: CreateSnapshot_cases) (use assms(2) snap.lift_ok in auto)
next
  case (st_restore rreq r)
  then show ?thesis
    by (cases rule: RestoreFromSnapshot_cases) (use assms(2) restore.lift_ok in auto)
next
  case (st_recover r)
  with assms(2) mgr_ok_recoverObjects show ?thesis
    by (auto simp: Recover_def split: prod.splits sum.splits)
qed (use assms(2) in simp)

interpretation worker: transition_system
    "\<lambda>(m, w). \<exists>config rt snaps. m = NewSlotManager config rt snaps" "mgr_step deq env" "\<lambda>(m, w). mgr_ok m"
  for deq env
  by unfold_locales (use mgr_ok_New mgr_step_ok in \<open>auto\<close>)

end
