(* ===== verification/ControlPlane.thy ===== *)
theory ControlPlane
  imports Fleet PoolController SnapshotController SlotManagerCorrect
begin

text \<open>
  The controllers on top of the Workers.  A locale states what the controllers rely on: a call of the
  Worker client that succeeded has run the Slot manager's operation on the Worker behind the endpoint;
  a second one adds that the Kubernetes API reads Pods from its state.  They are interpreted on the HTTP client over
  a fleet of Workers, for every network, the second with a store as the API server.
\<close>

subsection \<open>Layouts on Workers\<close>

text \<open>The Slots of a Worker have exactly the IDs and profiles of a layout.\<close>

definition has_layout :: "'q slot_config list \<Rightarrow> ('q, 'w) slot_manager \<Rightarrow> bool" where
  "has_layout configs m \<longleftrightarrow> map fst (sm_slots m) = map sc_ID configs \<and>
     (\<forall>cfg \<in> set configs. \<exists>s. map_of (sm_slots m) (sc_ID cfg) = Some s \<and> mg_profile s = sc_Profile cfg)"

lemma checkApply_profile:
  "checkApply deq desired slots = None \<Longrightarrow> (sid, s) \<in> set slots \<Longrightarrow> map_of desired sid = Some cfg \<Longrightarrow>
     mg_profile s = sc_Profile cfg"
  by (induction deq desired slots rule: checkApply.induct) (auto split: option.splits if_splits)

lemma ApplySlots_layout:
  assumes "ApplySlots deq configs m = (None, m')"
  shows "has_layout configs m'"
proof -
  obtain desired where des: "desiredSlots configs [] = Inr desired" "checkApply deq desired (sm_slots m) = None"
    using assms by (auto simp: ApplySlots_def split: sum.splits option.splits)
  then have d: "distinct (map sc_ID configs)" and eq: "desired = map (\<lambda>c. (sc_ID c, c)) configs"
    using desiredSlots_spec [of "[]" configs] by (cases "distinct (map sc_ID configs)"; simp)+
  then have m': "sm_slots m' = appliedSlots configs (sm_slots m)"
    using assms des by (auto simp: ApplySlots_def appliedSlots_def comp_def)
  have "mg_profile s = sc_Profile cfg" if "cfg \<in> set configs" "map_of (sm_slots m) (sc_ID cfg) = Some s" for cfg s
    using checkApply_profile [OF des(2) map_of_SomeD [OF that(2)]] that(1) by (simp add: eq map_of_configs [OF d])
  then show ?thesis
    using appliedSlots_look [OF d] unfolding has_layout_def m'
    by (auto simp: appliedSlots_def comp_def newManagedSlot_def split: option.splits)
qed

subsection \<open>The contract of the Worker client\<close>

locale worker_service =
  fixes cl :: "('q, 'f) worker_client"
    and worker :: "'f \<Rightarrow> string \<Rightarrow> ('q, 'w) slot_manager option"
    and host :: "string \<Rightarrow> string"
    and os :: "'w host_iface"
    and deq :: "'q resource_requirements \<Rightarrow> 'q resource_requirements \<Rightarrow> bool"
  assumes apply_law: "wl_ApplyTopology cl ep configs f = (None, f') \<Longrightarrow>
      \<exists>m m'. worker f (host ep) = Some m \<and> ApplySlots deq configs m = (None, m') \<and>
        worker f' = (worker f)(host ep \<mapsto> m')"
    and list_law: "wl_ListSlots cl ep f = (Inr slots, f') \<Longrightarrow> \<exists>m. worker f (host ep) = Some m \<and> slots = ListSlots m"
    and list_frame: "wl_ListSlots cl ep f = (r, f') \<Longrightarrow> worker f' = worker f"
    and stop_law: "wl_StopSandbox cl ep ref f = (None, f') \<Longrightarrow>
      \<exists>m m' w w'. worker f (host ep) = Some m \<and> StopSandbox os ref m w = (None, m', w') \<and>
        worker f' = (worker f)(host ep \<mapsto> m')"
    and release_law: "wl_ReleaseSlot cl ep ref f = (None, f') \<Longrightarrow>
      \<exists>m m' w w'. worker f (host ep) = Some m \<and> ReleaseSlot os ref m w = (None, m', w') \<and>
        worker f' = (worker f)(host ep \<mapsto> m')"
begin

text \<open>A release that succeeded leaves the Slot free.\<close>

lemma release_frees:
  assumes "wl_ReleaseSlot cl ep ref f = (None, f')"
  shows "\<exists>m s. worker f' (host ep) = Some m \<and> map_of (sm_slots m) (sr_SlotID ref) = Some s \<and> mg_state s = StateFree"
proof -
  obtain m m' w w' where m: "worker f (host ep) = Some m" "ReleaseSlot os ref m w = (None, m', w')"
    "worker f' = (worker f)(host ep \<mapsto> m')"
    using release_law [OF assms] by blast
  from m(2) obtain s s' where s: "releaseLocked os m ref s w = (None, s', w')"
    "map_of (sm_slots m') (sr_SlotID ref) = Some s'"
    unfolding ReleaseSlot_def by (cases rule: onSlot_cases) auto
  from s(1) have "mg_state s' = StateFree"
    by (cases rule: releaseLocked_cases) (use s(1) in \<open>auto simp: releaseLocked_def freed_def split: if_splits\<close>)
  with m s show ?thesis by auto
qed

text \<open>A push without failures has put the layout on every ready Worker.\<close>

lemma push_layout:
  assumes "pushTopology r configs ps f = ([], f')" "pr_Client r = cl"
    and "\<And>h. h \<in> D \<Longrightarrow> \<exists>m. worker f h = Some m \<and> has_layout configs m"
  shows "(\<forall>h \<in> D. \<exists>m. worker f' h = Some m \<and> has_layout configs m) \<and>
    (\<forall>p \<in> set ps. podReady p \<longrightarrow> (\<exists>ep m. rc_Endpoint (pr_Base r) p = Inr ep \<and> worker f' (host ep) = Some m \<and>
       has_layout configs m))"
  using assms
proof (induction ps arbitrary: f D)
  case (Cons p ps)
  show ?case
  proof (cases "podReady p")
    case False
    with Cons.prems have "pushTopology r configs ps f = ([], f')" by simp
    from Cons.IH [OF this Cons.prems(2,3)] False show ?thesis by auto
  next
    case True
    obtain ep where ep: "rc_Endpoint (pr_Base r) p = Inr ep"
      using Cons.prems(1) True by (auto split: sum.splits prod.splits)
    obtain err f1 where applied: "wl_ApplyTopology cl ep configs f = (err, f1)"
      by (cases "wl_ApplyTopology cl ep configs f")
    then have rest: "err = None" "pushTopology r configs ps f1 = ([], f')"
      using Cons.prems(1,2) True ep by (auto split: prod.splits if_splits)
    obtain m m' where m: "ApplySlots deq configs m = (None, m')" "worker f1 = (worker f)(host ep \<mapsto> m')"
      using apply_law applied rest(1) by metis
    have "\<exists>m. worker f1 h = Some m \<and> has_layout configs m" if "h \<in> insert (host ep) D" for h
      using that Cons.prems(3) m ApplySlots_layout [OF m(1)] by auto
    from Cons.IH [OF rest(2) Cons.prems(2), of "insert (host ep) D", OF this] ep show ?thesis
      by auto
  qed
qed simp

text \<open>A teardown that succeeded has freed the Slot on the Worker.\<close>

lemma teardown_frees:
  assumes "teardown r s f = (Inr s', f')" "rc_Client r = cl" "ss_Assignment (sb_Status s) \<noteq> None"
  shows "\<exists>a ep m slot. ss_Assignment (sb_Status s') = Some a \<and> worker f' (host ep) = Some m \<and>
    map_of (sm_slots m) (aa_SlotID a) = Some slot \<and> mg_state slot = StateFree"
proof -
  obtain a ep f1 where rel: "ss_Assignment (sb_Status s') = Some a"
    "wl_ReleaseSlot cl ep \<lparr>sr_SlotID = aa_SlotID a, sr_Identity = sandboxIdentity s'\<rparr> f1 = (None, f')"
    using assms by (auto simp: teardown_def Let_def split: option.splits prod.splits sum.splits)
  from release_frees [OF rel(2)] rel(1) show ?thesis
    by auto
qed

lemma syncTopology_layout:
  assumes "syncTopology r tname configs pool f = (Inr None, pool', f')" "pr_Client r = cl"
    and "fst (listTemplatePods r pool tname f) = Inr ps" "p \<in> set ps" "podReady p"
  shows "\<exists>ep m. rc_Endpoint (pr_Base r) p = Inr ep \<and> worker f' (host ep) = Some m \<and> has_layout configs m"
proof -
  obtain f1 where "pushTopology r configs ps f1 = ([], f')"
    using assms(1,3) by (auto simp: syncTopology_def split: prod.splits sum.splits if_splits)
  from push_layout [OF this assms(2), of "{}"] assms(4,5) show ?thesis
    by auto
qed

end

text \<open>
  The API server: Pods are read from its state, and reading a Worker's Slots does not change it.
\<close>

locale control_plane = worker_service cl worker host os deq
  for cl :: "('q, 'f) worker_client" and worker :: "'f \<Rightarrow> string \<Rightarrow> ('q, 'w) slot_manager option"
    and host os deq +
  fixes k :: "('q, 'f) kube"
    and podOf :: "'f \<Rightarrow> string \<Rightarrow> string \<Rightarrow> go_error + 'q pod"
  assumes getpod_law: "ku_GetPod k ns n f = (podOf f ns n, f)"
    and list_pods: "wl_ListSlots cl ep f = (r, f') \<Longrightarrow> podOf f' = podOf f"
begin

text \<open>Workers found idle: every Worker that exists answered, and all its Slots were free.\<close>

lemma anyBusy_idle:
  assumes "anyBusy r pool tname ords f = (Inr False, f')" "pr_Client r = cl" "pr_Kube r = k" "n \<in> set ords"
  shows "case podOf f (poolNs pool) (workerName pool tname n) of
      Inl e \<Rightarrow> isNotFound e
    | Inr p \<Rightarrow> \<exists>ep m. rc_Endpoint (pr_Base r) p = Inr ep \<and> worker f (host ep) = Some m \<and>
        (\<forall>info \<in> set (ListSlots m). si_State info = StateFree)"
  using assms(1,4)
proof (induction ords arbitrary: f)
  case (Cons n' ords)
  let ?pod = "podOf f (poolNs pool) (workerName pool tname n')"
  note run = Cons.prems(1) [simplified assms(2,3) anyBusy.simps Let_def getpod_law prod.case]
  show ?case
  proof (cases ?pod)
    case (Inl e)
    with run have "isNotFound e" "anyBusy r pool tname ords f = (Inr False, f')"
      by (auto split: if_splits)
    with Cons Inl show ?thesis by auto
  next
    case (Inr p)
    with run obtain ep slots f1 where ep: "rc_Endpoint (pr_Base r) p = Inr ep"
      "wl_ListSlots cl ep f = (Inr slots, f1)" "\<not> list_ex (\<lambda>info. si_State info \<noteq> StateFree) slots"
      "anyBusy r pool tname ords f1 = (Inr False, f')"
      by (auto split: sum.splits prod.splits if_splits)
    have same: "worker f1 = worker f" "podOf f1 = podOf f"
      using list_frame [OF ep(2)] list_pods [OF ep(2)] by auto
    have "\<exists>m. worker f (host ep) = Some m \<and> (\<forall>info \<in> set (ListSlots m). si_State info = StateFree)"
      using list_law [OF ep(2)] ep(3) by (auto simp: list_ex_iff)
    with Cons.IH [OF ep(4), unfolded same] Cons.prems(2) Inr ep(1) show ?thesis
      by (cases "n = n'") auto
  qed
qed simp

end

subsection \<open>The cluster: an API server and a fleet\<close>

record ('q, 'w, 'k) cluster =
  cu_Fleet :: "('q, 'w) fleet"
  cu_Store :: 'k

definition clusterDo ::
    "('q, 'w) network \<Rightarrow> ('q, 'w) server_env \<Rightarrow> ('q, ('q, 'w, 'k) cluster) transport" where
  "clusterDo net env host req c =
     (let (got, fl) = fleetDo net env host req (cu_Fleet c) in (got, c\<lparr>cu_Fleet := fl\<rparr>))"

lemma exchange_cluster:
  "exchange (clusterDo net env) ep req c =
     (let (got, fl) = exchange (fleetDo net env) ep req (cu_Fleet c) in (got, c\<lparr>cu_Fleet := fl\<rparr>))"
  by (auto simp: exchange_def clusterDo_def split: prod.splits sum.splits)

lemma doCall_cluster:
  "doCall (clusterDo net env) ep req c =
     (let (err, fl) = doCall (fleetDo net env) ep req (cu_Fleet c) in (err, c\<lparr>cu_Fleet := fl\<rparr>))"
  by (auto simp: doCall_def exchange_cluster split: prod.splits)

lemma doResult_cluster:
  "doResult (clusterDo net env) dec z ep req c =
     (let (res, fl) = doResult (fleetDo net env) dec z ep req (cu_Fleet c) in (res, c\<lparr>cu_Fleet := fl\<rparr>))"
  by (auto simp: doResult_def exchange_cluster split: prod.splits)

definition clusterWorker :: "('q, 'w, 'k) cluster \<Rightarrow> string \<Rightarrow> ('q, 'w) slot_manager option" where
  "clusterWorker c h = map_of (fl_Workers (cu_Fleet c)) h"

lemma clusterWorker_put:
  "clusterWorker (c\<lparr>cu_Fleet := workerPut ep m w (cu_Fleet c)\<rparr>) = (clusterWorker c)(TrimRightSlash ep \<mapsto> m)"
  by (auto simp: clusterWorker_def workerPut_def fleetPut_def)

text \<open>What a call on a Slot does when it succeeds, for a Slot ID of any size.\<close>

lemma slot_call_ran:
  assumes call: "doCall (clusterDo net env) ep (request POST (slotURL n action) [] (Json j)) c = (None, c')"
    and route: "map_of (slotRoutes env) [action] = Some (POST, slotHandler dec slotOf call)"
      "action \<noteq> []" "CHR ''/'' \<notin> set action" "dec j = Some req"
    and serve: "\<And>m w. slotID_ok n \<Longrightarrow> ServeHTTP env (request POST (slotURL n action) [] (Json j)) m w =
        (let (err, m', w') = op m w in (answer err, m', w'))"
  shows "\<exists>m m' w w'. clusterWorker c (TrimRightSlash ep) = Some m \<and> op m w = (None, m', w') \<and>
    clusterWorker c' = (clusterWorker c)(TrimRightSlash ep \<mapsto> m')"
proof -
  let ?r = "request POST (slotURL n action) [] (Json j)"
  obtain fl where fl: "doCall (fleetDo net env) ep ?r (cu_Fleet c) = (None, fl)" "c' = c\<lparr>cu_Fleet := fl\<rparr>"
    using call by (auto simp: doCall_cluster split: prod.splits)
  have "slotID_ok n"
  proof (rule ccontr)
    assume bad: "\<not> slotID_ok n"
    have path: "splitOn (CHR ''/'') (hq_Path ?r) = [] # ''v1'' # ''slots'' # Itoa n # [action]"
      using route(2,3) by (simp add: request_def splitOn_no_sep)
    have "ServeHTTP env ?r m w = (invalidRequest ''slotID must be a non-negative integer'', m, w)" for m w
      by (rule serve_bad_slot [where dec = dec and slotOf = slotOf and call = call and req = req, OF bad path])
        (use route in \<open>simp_all add: request_def\<close>)
    from doCall_rejected [OF this] fl show False by blast
  qed
  from doCall_ran [OF fl(1) serve [OF this]] obtain m m' w' where
    m: "workerAt (cu_Fleet c) ep = Some m" "op m (fl_World (cu_Fleet c)) = (None, m', w')"
      "fl = workerPut ep m' w' (cu_Fleet c)"
    by blast
  then show ?thesis
    using fl(2) clusterWorker_put [where c = c] by (auto simp: clusterWorker_def workerAt_def)
qed

subsection \<open>An API server\<close>

text \<open>
  A store of objects by namespace and name, as the API server documents its operations: a status
  update keeps the rest of the object, an object without finalizers that is being deleted goes away,
  a label selector matches the objects that have all its labels.
\<close>

type_synonym 'o objects = "(string \<times> string, 'o) gomap"

record 'q api_store =
  ax_Sandboxes :: "sandbox objects"
  ax_Snapshots :: "sandbox_snapshot objects"
  ax_Pools :: "'q sandbox_pool objects"
  ax_Pods :: "'q pod objects"
  ax_Secrets :: "(string, string) gomap objects"
  ax_Services :: "service objects"
  ax_StatefulSets :: "'q stateful_set objects"
  ax_Clock :: int

type_synonym ('q, 'w) store_cluster = "('q, 'w, 'q api_store) cluster"

definition storeGet :: "('q api_store \<Rightarrow> 'o objects) \<Rightarrow> string \<Rightarrow> string \<Rightarrow> 'q api_store \<Rightarrow> go_error + 'o" where
  "storeGet field ns name st =
     (case map_of (field st) (ns, name) of None \<Rightarrow> Inl (ApiNotFound name) | Some x \<Rightarrow> Inr x)"

definition storeList :: "('q api_store \<Rightarrow> 'o objects) \<Rightarrow> string \<Rightarrow> 'q api_store \<Rightarrow> 'o list" where
  "storeList field ns st = map snd (filter (\<lambda>((n, _), _). n = ns) (field st))"

definition overStore :: "('q api_store \<Rightarrow> 'r \<times> 'q api_store) \<Rightarrow> ('q, 'w) store_cluster \<Rightarrow> 'r \<times> ('q, 'w) store_cluster" where
  "overStore op c = (let (r, st) = op (cu_Store c) in (r, c\<lparr>cu_Store := st\<rparr>))"

definition metaKey :: "object_meta \<Rightarrow> string \<times> string" where
  "metaKey m = (om_Namespace m, om_Name m)"

definition storePut ::
    "('o objects \<Rightarrow> 'q api_store \<Rightarrow> 'q api_store) \<Rightarrow> ('q api_store \<Rightarrow> 'o objects) \<Rightarrow> object_meta \<Rightarrow> 'o \<Rightarrow>
     'q api_store \<Rightarrow> go_error option \<times> 'q api_store" where
  "storePut upd field meta x st =
     (if map_of (field st) (metaKey meta) = None then (Some (ApiNotFound (om_Name meta)), st)
      else if om_Deleting meta \<and> om_Finalizers meta = [] then (None, upd (gm_del (metaKey meta) (field st)) st)
      else (None, upd (gm_set (metaKey meta) x (field st)) st))"

definition setCondition :: "condition list \<Rightarrow> condition \<Rightarrow> condition list" where
  "setCondition cs c =
     (if list_ex (\<lambda>d. cn_Type d = cn_Type c) cs then map (\<lambda>d. if cn_Type d = cn_Type c then c else d) cs
      else cs @ [c])"

definition storeKube :: "('q, ('q, 'w) store_cluster) kube" where
  "storeKube = \<lparr>
     ku_GetSandbox = \<lambda>ns n. overStore (\<lambda>st. (storeGet ax_Sandboxes ns n st, st)),
     ku_UpdateSandbox = \<lambda>s. overStore (storePut (\<lambda>v. ax_Sandboxes_update (\<lambda>_. v)) ax_Sandboxes (sb_Meta s) s),
     ku_UpdateSandboxStatus = \<lambda>s. overStore (\<lambda>st.
       case storeGet ax_Sandboxes (om_Namespace (sb_Meta s)) (om_Name (sb_Meta s)) st of
         Inl e \<Rightarrow> (Inl e, st)
       | Inr old \<Rightarrow> let new = old\<lparr>sb_Status := sb_Status s\<rparr>
                    in (Inr new, st\<lparr>ax_Sandboxes := gm_set (metaKey (sb_Meta s)) new (ax_Sandboxes st)\<rparr>)),
     ku_ListSandboxes = \<lambda>ns. overStore (\<lambda>st. (Inr (storeList ax_Sandboxes ns st), st)),
     ku_GetSnapshot = \<lambda>ns n. overStore (\<lambda>st. (storeGet ax_Snapshots ns n st, st)),
     ku_UpdateSnapshot = \<lambda>s. overStore (storePut (\<lambda>v. ax_Snapshots_update (\<lambda>_. v)) ax_Snapshots (sn_Meta s) s),
     ku_UpdateSnapshotStatus = \<lambda>s. overStore (\<lambda>st.
       case storeGet ax_Snapshots (om_Namespace (sn_Meta s)) (om_Name (sn_Meta s)) st of
         Inl e \<Rightarrow> (Inl e, st)
       | Inr old \<Rightarrow> let new = old\<lparr>sn_Status := sn_Status s\<rparr>
                    in (Inr new, st\<lparr>ax_Snapshots := gm_set (metaKey (sn_Meta s)) new (ax_Snapshots st)\<rparr>)),
     ku_GetPool = \<lambda>ns n. overStore (\<lambda>st. (storeGet ax_Pools ns n st, st)),
     ku_UpdatePoolStatus = \<lambda>p. overStore (storePut (\<lambda>v. ax_Pools_update (\<lambda>_. v)) ax_Pools (po_Meta p) p),
     ku_GetPod = \<lambda>ns n. overStore (\<lambda>st. (storeGet ax_Pods ns n st, st)),
     ku_ListPods = \<lambda>ns l. overStore (\<lambda>st.
       (Inr (filter (\<lambda>p. list_all (\<lambda>(key, v). map_of (pd_Labels p) key = Some v) l) (storeList ax_Pods ns st)), st)),
     ku_GetSecret = \<lambda>ns n. overStore (\<lambda>st. (storeGet ax_Secrets ns n st, st)),
     ku_GetService = \<lambda>ns n. overStore (\<lambda>st. (storeGet ax_Services ns n st, st)),
     ku_CreateService = \<lambda>s. overStore (\<lambda>st.
       (None, st\<lparr>ax_Services := gm_set (sy_Namespace s, sy_Name s) s (ax_Services st)\<rparr>)),
     ku_GetStatefulSet = \<lambda>ns n. overStore (\<lambda>st. (storeGet ax_StatefulSets ns n st, st)),
     ku_CreateStatefulSet = \<lambda>s. overStore (\<lambda>st.
       (None, st\<lparr>ax_StatefulSets := gm_set (tf_Namespace s, tf_Name s) s (ax_StatefulSets st)\<rparr>)),
     ku_UpdateStatefulSet = \<lambda>s. overStore (\<lambda>st.
       (None, st\<lparr>ax_StatefulSets := gm_set (tf_Namespace s, tf_Name s) s (ax_StatefulSets st)\<rparr>)),
     ku_SetControllerReference = \<lambda>p n. None,
     ku_Now = overStore (\<lambda>st. (ax_Clock st, st\<lparr>ax_Clock := ax_Clock st + 1\<rparr>)),
     ku_ContainsFinalizer = \<lambda>m f. f \<in> set (om_Finalizers m),
     ku_AddFinalizer = \<lambda>m f. if f \<in> set (om_Finalizers m) then m else m\<lparr>om_Finalizers := om_Finalizers m @ [f]\<rparr>,
     ku_RemoveFinalizer = \<lambda>m f. m\<lparr>om_Finalizers := removeAll f (om_Finalizers m)\<rparr>,
     ku_SetStatusCondition = setCondition,
     ku_FindStatusCondition = \<lambda>cs ty. find (\<lambda>c. cn_Type c = ty) cs\<rparr>"

subsection \<open>The HTTP client meets the contract\<close>

lemma http_list:
  assumes "client_ListSlots (clusterDo net env) ep c = (r, c')"
  shows "clusterWorker c' = clusterWorker c" "cu_Store c' = cu_Store c"
    "r = Inr slots \<Longrightarrow> \<exists>m. clusterWorker c (TrimRightSlash ep) = Some m \<and> slots = ListSlots m"
proof -
  let ?req = "request GET ''/v1/slots'' [] NoBody"
  obtain got fl where x: "exchange (fleetDo net env) ep ?req (cu_Fleet c) = (got, fl)" "c' = c\<lparr>cu_Fleet := fl\<rparr>"
    using assms by (auto simp: client_ListSlots_def exchange_cluster doResult_def split: prod.splits)
  then show "cu_Store c' = cu_Store c" by simp
  from x(1) show "clusterWorker c' = clusterWorker c"
  proof (cases rule: exchange_cases)
    case (ran m resp m' w' e)
    then have "m' = m" by (simp add: serve_list)
    with ran x(2) show ?thesis
      by (auto simp: clusterWorker_put clusterWorker_def workerAt_def)
  qed (use x in simp)
  assume "r = Inr slots"
  then obtain fl' where "doResult (fleetDo net env) decSlots [] ep ?req (cu_Fleet c) = (Inr slots, fl')"
    using assms by (auto simp: client_ListSlots_def doResult_cluster split: prod.splits)
  from doResult_ran [OF this, where op = "\<lambda>m w. (Inr (ListSlots m), m, w)" and enc = JSlots]
  show "\<exists>m. clusterWorker c (TrimRightSlash ep) = Some m \<and> slots = ListSlots m"
    by (auto simp: serve_list clusterWorker_def workerAt_def)
qed

lemma http_apply:
  assumes "client_ApplyTopology (clusterDo net env) ep configs c = (None, c')"
  shows "\<exists>m m'. clusterWorker c (TrimRightSlash ep) = Some m \<and> ApplySlots (se_DeepEqual env) configs m = (None, m') \<and>
    clusterWorker c' = (clusterWorker c)(TrimRightSlash ep \<mapsto> m')"
proof -
  obtain fl where fl: "doCall (fleetDo net env) ep (request PUT ''/v1/topology'' [] (Json (JConfigs configs))) (cu_Fleet c) = (None, fl)"
    "c' = c\<lparr>cu_Fleet := fl\<rparr>"
    using assms by (auto simp: client_ApplyTopology_def doCall_cluster split: prod.splits)
  have serve: "ServeHTTP env (request PUT ''/v1/topology'' [] (Json (JConfigs configs))) m w =
      (let (err, m', w') = (let (err, m') = ApplySlots (se_DeepEqual env) configs m in (err, m', w)) in (answer err, m', w'))"
    for m :: "('a, 'b) slot_manager" and w
    by (simp add: serve_topology split: prod.splits)
  obtain m m' w' where m: "workerAt (cu_Fleet c) ep = Some m"
    "(let (err, m') = ApplySlots (se_DeepEqual env) configs m in (err, m', fl_World (cu_Fleet c))) = (None, m', w')"
    "fl = workerPut ep m' w' (cu_Fleet c)"
    using doCall_ran [OF fl(1) serve] by blast
  then have "ApplySlots (se_DeepEqual env) configs m = (None, m')"
    by (auto split: prod.splits)
  with m fl(2) show ?thesis
    using clusterWorker_put [where c = c] by (auto simp: clusterWorker_def workerAt_def)
qed

interpretation http: worker_service "httpClient (clusterDo net env)" clusterWorker TrimRightSlash
    "we_Os (se_Env env)" "se_DeepEqual env"
  for net :: "('q, 'w) network" and env :: "('q, 'w) server_env"
proof (unfold_locales, unfold httpClient_def worker_client.simps, goal_cases)
  case (1 ep configs f f')
  then show ?case by (rule http_apply)
next
  case (2 ep f slots f')
  then show ?case using http_list(3) by blast
next
  case (3 ep f r f')
  then show ?case by (rule http_list)
next
  case (4 ep ref f f')
  then show ?case
    unfolding client_StopSandbox_def
    by (rule slot_call_ran [where dec = decRef and req = ref])
      (auto simp: slotRoutes_def stopSandbox_def serve_stop)
next
  case (5 ep ref f f')
  then show ?case
    unfolding client_ReleaseSlot_def
    by (rule slot_call_ran [where dec = decRef and req = ref])
      (auto simp: slotRoutes_def releaseSlot_def serve_release)
qed

interpretation store: control_plane "httpClient (clusterDo net env)" clusterWorker TrimRightSlash
    "we_Os (se_Env env)" "se_DeepEqual env" storeKube "\<lambda>c ns n. storeGet ax_Pods ns n (cu_Store c)"
  for net :: "('q, 'w) network" and env :: "('q, 'w) server_env"
proof (unfold_locales, goal_cases)
  case (2 ep f r f')
  then show ?case using http_list(2) [of net env ep f r f'] by (simp add: httpClient_def)
qed (simp_all add: storeKube_def overStore_def clusterWorker_def fun_eq_iff)

end
