(* ===== verification/SchedulerCorrect.thy ===== *)
theory SchedulerCorrect
  imports Scheduler
begin

text \<open>
  Correctness of the scheduler: what the strategies promise (the locale \<open>placement_strategy\<close>), which
  candidates \<open>Assign\<close> considers, the invariant every operation keeps, and the properties of
  \<open>Assign\<close>, \<open>Restore\<close>, \<open>Release\<close> and \<open>UpdateWorker\<close>.
\<close>

subsection \<open>Lookups\<close>

definition slot_at :: "memory_scheduler \<Rightarrow> worker_key \<Rightarrow> int \<Rightarrow> slot_info option" where
  "slot_at s k i = Option.bind (map_of (ms_workers s) k) (\<lambda>w. map_of (ws_Slots w) i)"

lemma slot_at_Some:
  "slot_at s k i = Some info \<longleftrightarrow>
     (\<exists>w. map_of (ms_workers s) k = Some w \<and> map_of (ws_Slots w) i = Some info)"
  by (auto simp: slot_at_def bind_eq_Some_conv)

text \<open>A Slot \<open>Assign\<close> may hand out: free, of the profile, on a healthy Worker of the Pool.\<close>

definition offers :: "memory_scheduler \<Rightarrow> assign_request \<Rightarrow> worker_key \<Rightarrow> int \<Rightarrow> bool" where
  "offers s req k i \<longleftrightarrow>
     wk_Namespace k = ar_Namespace req \<and> wk_Pool k = ar_Pool req \<and>
     (case map_of (ms_workers s) k of
        None \<Rightarrow> False
      | Some w \<Rightarrow> ws_Healthy w \<and>
          (case map_of (ws_Slots w) i of
             None \<Rightarrow> False
           | Some info \<Rightarrow> si_State info = StateFree \<and> si_Profile info = ar_SlotProfile req))"

lemma cloneSlots_id [simp]: "cloneSlots slots = slots"
  by (simp add: cloneSlots_def)

lemma countWorkerSlots_filter:
  "countWorkerSlots slots profile =
     (length (filter (\<lambda>(_, i). si_State i = StateFree \<and> si_Profile i = profile) slots),
      length (filter (\<lambda>(_, i). si_State i \<noteq> StateFree) slots))"
proof -
  have "foldl (\<lambda>(freeMatching, busy) (_, info).
       if si_State info \<noteq> StateFree then (freeMatching, Suc busy)
       else if si_Profile info = profile then (Suc freeMatching, busy)
       else (freeMatching, busy)) (f, b) slots =
     (f + length (filter (\<lambda>(_, i). si_State i = StateFree \<and> si_Profile i = profile) slots),
      b + length (filter (\<lambda>(_, i). si_State i \<noteq> StateFree) slots))" for f b
    by (induction slots arbitrary: f b) auto
  from this [of 0 0] show ?thesis
    by (simp add: countWorkerSlots_def)
qed

lemma workerCandidates_set:
  "c \<in> set (workerCandidates key w profile) \<longleftrightarrow>
     ws_Healthy w \<and>
     (\<exists>info. map_of (ws_Slots w) (cd_SlotID c) = Some info \<and> si_State info = StateFree \<and>
        si_Profile info = profile) \<and>
     c = \<lparr>cd_Worker = key, cd_SlotID = cd_SlotID c, cd_Profile = profile,
          cd_FreeSlots = fst (countWorkerSlots (ws_Slots w) profile),
          cd_BusySlots = snd (countWorkerSlots (ws_Slots w) profile)\<rparr>"
  (is "_ \<longleftrightarrow> ?R")
proof -
  obtain f b where fb: "countWorkerSlots (ws_Slots w) profile = (f, b)"
    by fastforce
  show ?thesis
  proof
    assume "c \<in> set (workerCandidates key w profile)"
    then obtain i where i: "i \<in> fst ` set (ws_Slots w)" "ws_Healthy w"
      "si_State (gm_get0 zero_slot_info (ws_Slots w) i) = StateFree"
      "si_Profile (gm_get0 zero_slot_info (ws_Slots w) i) = profile"
      "c = \<lparr>cd_Worker = key, cd_SlotID = i, cd_Profile = profile, cd_FreeSlots = f, cd_BusySlots = b\<rparr>"
      by (auto simp: workerCandidates_def sortedSlotIDs_def fb Let_def split: if_splits)
    from i(1) obtain info where "map_of (ws_Slots w) i = Some info"
      by (auto simp: gm_key_get)
    with i fb show ?R by (auto simp: gm_get0_def)
  next
    assume r: ?R
    then obtain info where info: "map_of (ws_Slots w) (cd_SlotID c) = Some info"
      "si_State info = StateFree" "si_Profile info = profile" by blast
    from r have c: "c = \<lparr>cd_Worker = key, cd_SlotID = cd_SlotID c, cd_Profile = profile,
        cd_FreeSlots = f, cd_BusySlots = b\<rparr>" and "ws_Healthy w"
      using fb by auto
    moreover from info(1) have "cd_SlotID c \<in> fst ` set (ws_Slots w)"
      by (auto simp: gm_key_get)
    ultimately show "c \<in> set (workerCandidates key w profile)"
      using info by (auto simp: workerCandidates_def sortedSlotIDs_def fb Let_def gm_get0_def
          intro!: bexI [of _ "cd_SlotID c"])
  qed
qed

lemma assignCandidates_set:
  "c \<in> set (assignCandidates s req) \<longleftrightarrow>
     offers s req (cd_Worker c) (cd_SlotID c) \<and> cd_Profile c = ar_SlotProfile req \<and>
     (\<exists>w. map_of (ms_workers s) (cd_Worker c) = Some w \<and>
        (cd_FreeSlots c, cd_BusySlots c) = countWorkerSlots (ws_Slots w) (ar_SlotProfile req))"
  (is "_ \<longleftrightarrow> ?R")
proof -
  have "c \<in> set (assignCandidates s req) \<longleftrightarrow>
      (\<exists>k w. map_of (ms_workers s) k = Some w \<and> wk_Namespace k = ar_Namespace req \<and>
         wk_Pool k = ar_Pool req \<and> c \<in> set (workerCandidates k w (ar_SlotProfile req)))"
    by (force simp: assignCandidates_def sortedWorkers_def gm_key_get split: option.splits)
  also have "\<dots> \<longleftrightarrow> ?R"
    unfolding workerCandidates_set offers_def
    by (cases c) (auto simp: prod_eq_iff split: option.splits)
  finally show ?thesis .
qed

lemma assignCandidates_empty: "assignCandidates s req = [] \<longleftrightarrow> (\<forall>k i. \<not> offers s req k i)"
proof
  assume empty: "assignCandidates s req = []"
  show "\<forall>k i. \<not> offers s req k i"
  proof (intro allI notI)
    fix k i
    assume o: "offers s req k i"
    then obtain w where w: "map_of (ms_workers s) k = Some w"
      by (auto simp: offers_def split: option.splits)
    obtain f b where "countWorkerSlots (ws_Slots w) (ar_SlotProfile req) = (f, b)" by fastforce
    with o w have "\<lparr>cd_Worker = k, cd_SlotID = i, cd_Profile = ar_SlotProfile req,
        cd_FreeSlots = f, cd_BusySlots = b\<rparr> \<in> set (assignCandidates s req)"
      by (auto simp: assignCandidates_set)
    with empty show False by simp
  qed
next
  assume none: "\<forall>k i. \<not> offers s req k i"
  show "assignCandidates s req = []"
  proof (rule ccontr)
    assume "assignCandidates s req \<noteq> []"
    then obtain c where "c \<in> set (assignCandidates s req)" by (meson list.set_sel(1))
    with none show False by (auto simp: assignCandidates_set)
  qed
qed

text \<open>The assignment \<open>Assign\<close> makes of a Slot, and the state it leaves.\<close>

definition assignmentOf :: "assign_request \<Rightarrow> worker_key \<Rightarrow> int \<Rightarrow> assignment" where
  "assignmentOf req k i =
     \<lparr>as_SandboxUID = ar_SandboxUID req, as_Namespace = ar_Namespace req, as_Name = ar_Name req,
      as_Worker = k, as_SlotID = i, as_SlotProfile = ar_SlotProfile req\<rparr>"

definition placed :: "assign_request \<Rightarrow> worker_key \<Rightarrow> int \<Rightarrow> memory_scheduler \<Rightarrow> memory_scheduler" where
  "placed req k i s = s\<lparr>
     ms_workers := (case map_of (ms_workers s) k of
        None \<Rightarrow> ms_workers s
      | Some w \<Rightarrow> gm_set k (w\<lparr>ws_Slots := gm_set i
          ((gm_get0 zero_slot_info (ws_Slots w) i)\<lparr>si_State := StateReserved, si_SandboxUID := ar_SandboxUID req\<rparr>)
          (ws_Slots w)\<rparr>) (ms_workers s)),
     ms_assignments := gm_set (ar_SandboxUID req) (assignmentOf req k i) (ms_assignments s)\<rparr>"

subsection \<open>The strategies\<close>

text \<open>
  What \<open>Assign\<close> relies on: a strategy picks one of the candidates when there is one.  The number
  is the draw of the random generator, which the deterministic strategies ignore.
\<close>

locale placement_strategy =
  fixes select :: "nat \<Rightarrow> strategy"
  assumes select_empty: "select d req [] = Inl (Sentinel ErrNoCapacity)"
    and select_member: "cs \<noteq> [] \<Longrightarrow> \<exists>c \<in> set cs. select d req cs = Inr c"
begin

lemma Assign_unplaced:
  assumes "map_of (ms_assignments s) (ar_SandboxUID req) = None"
    and "ar_SlotProfile req = [] \<or> (\<forall>k i. \<not> offers s req k i)"
  shows "Assign (select d) req s = Some (Inl (Sentinel
    (if ar_SlotProfile req = [] then ErrInvalidSlotProfile else ErrNoCapacity)), s)"
  using assms by (auto simp: Assign_def assignCandidates_empty)

lemma Assign_places:
  assumes "map_of (ms_assignments s) (ar_SandboxUID req) = None"
    and "ar_SlotProfile req \<noteq> []" "offers s req k i"
  shows "\<exists>k i. offers s req k i \<and>
    Assign (select d) req s = Some (Inr (assignmentOf req k i), placed req k i s)"
proof -
  have "assignCandidates s req \<noteq> []"
    using assms(3) by (auto simp: assignCandidates_empty)
  then obtain c where c: "c \<in> set (assignCandidates s req)" "select d req (assignCandidates s req) = Inr c"
    using select_member by blast
  from c(1) obtain w info where "map_of (ms_workers s) (cd_Worker c) = Some w"
    "map_of (ws_Slots w) (cd_SlotID c) = Some info" "offers s req (cd_Worker c) (cd_SlotID c)"
    by (auto simp: assignCandidates_set offers_def split: option.splits)
  with assms(1,2) c(2) \<open>assignCandidates s req \<noteq> []\<close> show ?thesis
    by (intro exI [of _ "cd_Worker c"] exI [of _ "cd_SlotID c"])
      (simp add: Assign_def Let_def gm_get0_def assignmentOf_def placed_def)
qed

lemma Assign_outcome:
  obtains (known) a where "map_of (ms_assignments s) (ar_SandboxUID req) = Some a"
      "Assign (select d) req s = Some (Inr a, s)"
  | (rejected) e where "map_of (ms_assignments s) (ar_SandboxUID req) = None"
      "ar_SlotProfile req = [] \<or> (\<forall>k i. \<not> offers s req k i)"
      "Assign (select d) req s = Some (Inl e, s)"
  | (placed) k i where "map_of (ms_assignments s) (ar_SandboxUID req) = None" "offers s req k i"
      "Assign (select d) req s = Some (Inr (assignmentOf req k i), placed req k i s)"
proof (cases "map_of (ms_assignments s) (ar_SandboxUID req)")
  case None
  then show ?thesis
    using rejected Assign_unplaced [OF None] placed Assign_places [OF None] by blast
qed (use known in \<open>simp add: Assign_def\<close>)

end

interpretation stable: placement_strategy "\<lambda>_. StableStrategy_Select"
  by unfold_locales (auto simp: StableStrategy_Select_def split: list.splits)

interpretation random: placement_strategy RandomStrategy_Select
  by unfold_locales (auto simp: RandomStrategy_Select_def)

lemma bestOf_member: "foldl (\<lambda>best c. if P c best then c else best) c cs \<in> set (c # cs)"
  by (induction cs arbitrary: c) auto

interpretation binpack: placement_strategy "\<lambda>_. BinPackStrategy_Select"
proof
  fix cs :: "candidate list" and req
  assume "cs \<noteq> []"
  then show "\<exists>c \<in> set cs. BinPackStrategy_Select req cs = Inr c"
    using bestOf_member [where P = binPackBetter] by (cases cs) (auto simp: BinPackStrategy_Select_def)
qed (simp add: BinPackStrategy_Select_def)

text \<open>The strategies the program can be configured with.\<close>

definition strategies :: "(nat \<Rightarrow> strategy) set" where
  "strategies = {\<lambda>_. StableStrategy_Select, RandomStrategy_Select, \<lambda>_. BinPackStrategy_Select}"

lemma strategies_placement: "select \<in> strategies \<Longrightarrow> placement_strategy select"
  by (auto simp: strategies_def
      intro: stable.placement_strategy_axioms random.placement_strategy_axioms binpack.placement_strategy_axioms)

subsection \<open>The invariant\<close>

text \<open>
  Keys agree with the values they index, no two Sandboxes hold the same Slot, and a Slot that is
  assigned is never shown as free.
\<close>

definition maps_ok :: "memory_scheduler \<Rightarrow> bool" where
  "maps_ok s \<longleftrightarrow> gm_ok (ms_workers s) \<and> gm_ok (ms_assignments s) \<and>
     (\<forall>k w. map_of (ms_workers s) k = Some w \<longrightarrow> ws_Key w = k \<and> gm_ok (ws_Slots w)) \<and>
     (\<forall>u a. map_of (ms_assignments s) u = Some a \<longrightarrow> as_SandboxUID a = u)"

definition holds_slot :: "memory_scheduler \<Rightarrow> string \<Rightarrow> worker_key \<Rightarrow> int \<Rightarrow> bool" where
  "holds_slot s u k i \<longleftrightarrow>
     (\<exists>a. map_of (ms_assignments s) u = Some a \<and> as_Worker a = k \<and> as_SlotID a = i)"

definition exclusive :: "memory_scheduler \<Rightarrow> bool" where
  "exclusive s \<longleftrightarrow> (\<forall>u v k i. holds_slot s u k i \<longrightarrow> holds_slot s v k i \<longrightarrow> u = v)"

definition held_not_free :: "memory_scheduler \<Rightarrow> bool" where
  "held_not_free s \<longleftrightarrow>
     (\<forall>u k i info. holds_slot s u k i \<longrightarrow> slot_at s k i = Some info \<longrightarrow> si_State info \<noteq> StateFree)"

definition sched_inv :: "memory_scheduler \<Rightarrow> bool" where
  "sched_inv s \<longleftrightarrow> maps_ok s \<and> exclusive s \<and> held_not_free s"

lemma held_not_free_holds:
  "held_not_free s \<Longrightarrow> offers s req k i \<Longrightarrow> \<not> holds_slot s u k i"
  by (auto simp: held_not_free_def offers_def slot_at_Some split: option.splits)

text \<open>\<open>markReserved\<close> only turns the free Slots of this Worker's assignments into reserved ones.\<close>

lemma markReserved_get:
  "map_of (markReserved key slots (u, a)) i =
     (if as_Worker a = key \<and> as_SlotID a = i
      then map_option (\<lambda>info. if si_State info = StateFree
             then info\<lparr>si_State := StateReserved, si_SandboxUID := u\<rparr> else info) (map_of slots i)
      else map_of slots i)"
  by (auto simp: markReserved_def split: option.splits)

lemma gm_ok_markReserved [simp]: "gm_ok slots \<Longrightarrow> gm_ok (markReserved key slots ua)"
  by (auto simp: markReserved_def split: prod.splits option.splits)

lemma gm_ok_markAll [simp]: "gm_ok slots \<Longrightarrow> gm_ok (foldl (markReserved key) slots as)"
  by (induction as arbitrary: slots) auto

lemma markAll_keeps:
  "map_of slots i = Some info \<Longrightarrow> si_State info \<noteq> StateFree \<Longrightarrow>
     map_of (foldl (markReserved key) slots as) i = Some info"
proof (induction as arbitrary: slots)
  case (Cons ua as)
  obtain u a where "ua = (u, a)" by fastforce
  with Cons.prems have "map_of (markReserved key slots ua) i = Some info"
    by (simp add: markReserved_get)
  with Cons show ?case by simp
qed simp

lemma markAll_other:
  "\<forall>(u, a) \<in> set as. \<not> (as_Worker a = key \<and> as_SlotID a = i) \<Longrightarrow>
     map_of (foldl (markReserved key) slots as) i = map_of slots i"
  by (induction as arbitrary: slots) (auto simp: markReserved_get)

lemma markAll_None:
  "map_of slots i = None \<Longrightarrow> map_of (foldl (markReserved key) slots as) i = None"
proof (induction as arbitrary: slots)
  case (Cons ua as)
  obtain u a where "ua = (u, a)" by fastforce
  with Cons show ?case by (simp add: markReserved_get)
qed simp

lemma markAll_marks:
  assumes "(u, a) \<in> set as" "as_Worker a = key" "as_SlotID a = i"
    and "\<forall>(v, b) \<in> set as. as_Worker b = key \<and> as_SlotID b = i \<longrightarrow> v = u"
    and "map_of slots i = Some info" "si_State info = StateFree"
  shows "map_of (foldl (markReserved key) slots as) i =
     Some (info\<lparr>si_State := StateReserved, si_SandboxUID := u\<rparr>)"
  using assms
proof (induction as arbitrary: slots)
  case (Cons ua as)
  obtain v b where ua: "ua = (v, b)" by fastforce
  show ?case
  proof (cases "as_Worker b = key \<and> as_SlotID b = i")
    case True
    with Cons.prems ua have "map_of (markReserved key slots ua) i =
        Some (info\<lparr>si_State := StateReserved, si_SandboxUID := u\<rparr>)"
      by (auto simp: markReserved_get)
    then show ?thesis
      by (simp add: markAll_keeps)
  next
    case False
    with Cons.prems ua have "map_of (markReserved key slots ua) i = Some info" "(u, a) \<in> set as"
      by (auto simp: markReserved_get)
    with Cons.IH [of "markReserved key slots ua"] Cons.prems show ?thesis by simp
  qed
qed simp

lemma markAll_not_free:
  assumes "(u, a) \<in> set as" "as_Worker a = key"
    and "map_of (foldl (markReserved key) slots as) (as_SlotID a) = Some info"
  shows "si_State info \<noteq> StateFree"
  using assms
proof (induction as arbitrary: slots)
  case (Cons ua as)
  obtain v b where ua: "ua = (v, b)" by fastforce
  let ?i = "as_SlotID a"
  show ?case
  proof (cases "(u, a) \<in> set as")
    case True
    with Cons show ?thesis by simp
  next
    case False
    with Cons.prems ua have "ua = (u, a)" by simp
    then have "map_of (markReserved key slots ua) ?i = map_option (\<lambda>info. if si_State info = StateFree
             then info\<lparr>si_State := StateReserved, si_SandboxUID := u\<rparr> else info) (map_of slots ?i)"
      using Cons.prems(2) by (simp add: markReserved_get)
    then have marked: "map_of (markReserved key slots ua) ?i = Some info1 \<Longrightarrow> si_State info1 \<noteq> StateFree" for info1
      by (cases "map_of slots ?i") (auto simp del: if_image_distrib split: if_split_asm)
    from Cons.prems(3) obtain info1 where "map_of (markReserved key slots ua) ?i = Some info1"
      using markAll_None by fastforce
    with marked Cons.prems(3) show ?thesis
      using markAll_keeps by fastforce
  qed
qed simp

subsection \<open>Every operation keeps the invariant\<close>

lemmas inv_defs = sched_inv_def maps_ok_def exclusive_def held_not_free_def holds_slot_def slot_at_Some

lemma UpdateWorker_inv:
  assumes "sched_inv s" "gm_ok (ws_Slots state)"
  shows "sched_inv (UpdateWorker state s)"
proof -
  let ?k = "ws_Key state"
  let ?slots = "foldl (markReserved ?k) (ws_Slots state) (ms_assignments s)"
  have "si_State info \<noteq> StateFree"
    if "map_of (ms_assignments s) u = Some a" "as_Worker a = ?k" "map_of ?slots (as_SlotID a) = Some info"
    for u a info
    using markAll_not_free [OF map_of_SomeD [OF that(1)] that(2,3)] .
  with assms show ?thesis
    by (auto simp: inv_defs UpdateWorker_def)
qed

lemma RemoveWorker_inv: "sched_inv s \<Longrightarrow> sched_inv (RemoveWorker key s)"
  by (auto simp: inv_defs RemoveWorker_def)

text \<open>
  Recording an assignment of a Slot nobody holds, with the Slot marked as not free where the
  Worker is known, keeps the invariant.
\<close>

lemma record_inv:
  assumes inv: "sched_inv s" and uid: "as_SandboxUID a = u"
    and free: "\<And>v. v \<noteq> u \<Longrightarrow> \<not> holds_slot s v (as_Worker a) (as_SlotID a)"
    and unknown: "slot_at s (as_Worker a) (as_SlotID a) = None"
  shows "sched_inv (s\<lparr>ms_assignments := gm_set u a (ms_assignments s)\<rparr>)"
  using inv uid free unknown
  by (fastforce simp: inv_defs slot_at_def)

lemma reserve_inv:
  assumes inv: "sched_inv s" and uid: "as_SandboxUID a = u"
    and free: "\<And>v. v \<noteq> u \<Longrightarrow> \<not> holds_slot s v (as_Worker a) (as_SlotID a)"
    and w: "map_of (ms_workers s) (as_Worker a) = Some w"
    and info: "si_State info \<noteq> StateFree"
  shows "sched_inv (s\<lparr>ms_workers := gm_set (as_Worker a) (w\<lparr>ws_Slots := gm_set (as_SlotID a) info (ws_Slots w)\<rparr>)
      (ms_workers s), ms_assignments := gm_set u a (ms_assignments s)\<rparr>)"
  using inv uid free w info
  by (simp add: inv_defs) (metis (no_types, lifting))

lemma slot_inv:
  assumes inv: "sched_inv s" and free: "\<And>v. \<not> holds_slot s v k i"
    and w: "map_of (ms_workers s) k = Some w"
  shows "sched_inv (s\<lparr>ms_workers := gm_set k (w\<lparr>ws_Slots := gm_set i info (ws_Slots w)\<rparr>) (ms_workers s)\<rparr>)"
proof -
  let ?s = "s\<lparr>ms_workers := gm_set k (w\<lparr>ws_Slots := gm_set i info (ws_Slots w)\<rparr>) (ms_workers s)\<rparr>"
  have holds: "holds_slot ?s v k' i' = holds_slot s v k' i'" for v k' i'
    by (simp add: holds_slot_def)
  have "slot_at ?s k' i' = slot_at s k' i'" if "holds_slot s v k' i'" for v k' i'
    using that free [of v] w by (cases "k' = k") (auto simp: slot_at_def)
  then have "held_not_free ?s" "exclusive ?s"
    using inv by (auto simp: sched_inv_def held_not_free_def exclusive_def holds)
  moreover have "maps_ok ?s"
    using inv w by (simp add: sched_inv_def maps_ok_def)
  ultimately show ?thesis
    by (simp add: sched_inv_def)
qed

lemma Release_inv: "sched_inv s \<Longrightarrow> sched_inv (Release u s)"
proof (cases "map_of (ms_assignments s) u")
  case (Some a)
  assume inv: "sched_inv s"
  have drop: "sched_inv (s\<lparr>ms_assignments := gm_del u (ms_assignments s)\<rparr>)"
    using inv by (simp add: inv_defs)
  have alone: "\<not> (as_Worker b = as_Worker a \<and> as_SlotID b = as_SlotID a)"
    if "map_of (ms_assignments s) v = Some b" "v \<noteq> u" for v b
  proof -
    have "exclusive s" using inv by (simp add: sched_inv_def)
    with Some that show ?thesis
      unfolding exclusive_def holds_slot_def by metis
  qed
  then have "\<not> holds_slot (s\<lparr>ms_assignments := gm_del u (ms_assignments s)\<rparr>) v (as_Worker a) (as_SlotID a)" for v
    by (auto simp: holds_slot_def)
  from slot_inv [OF drop this] show ?thesis
    using drop Some by (auto simp: Release_def Let_def split: option.splits)
qed (simp add: Release_def)

lemma Restore_inv:
  assumes inv: "sched_inv s"
    and free: "\<And>v. v \<noteq> as_SandboxUID a \<Longrightarrow> \<not> holds_slot s v (as_Worker a) (as_SlotID a)"
  shows "sched_inv (snd (Restore a s))"
proof (cases "map_of (ms_assignments s) (as_SandboxUID a)")
  case None
  show ?thesis
  proof (cases "slot_at s (as_Worker a) (as_SlotID a)")
    case none: None
    have "snd (Restore a s) = s\<lparr>ms_assignments := gm_set (as_SandboxUID a) a (ms_assignments s)\<rparr>"
      using None none by (auto simp: Restore_def Let_def slot_at_def split: option.splits)
    with record_inv [OF inv refl free none] show ?thesis by simp
  next
    case (Some info)
    then obtain w where w: "map_of (ms_workers s) (as_Worker a) = Some w"
      "map_of (ws_Slots w) (as_SlotID a) = Some info"
      by (auto simp: slot_at_Some)
    show ?thesis
      using inv None w reserve_inv [OF inv refl free w(1)] by (simp add: Restore_def Let_def)
  qed
qed (use inv in \<open>simp add: Restore_def\<close>)

context placement_strategy
begin

lemma Assign_inv:
  assumes inv: "sched_inv s" and run: "Assign (select d) req s = Some (r, t)"
  shows "sched_inv t"
proof (cases rule: Assign_outcome [where s = s and req = req and d = d])
  case (placed k i)
  then obtain w where w: "map_of (ms_workers s) k = Some w"
    by (auto simp: offers_def split: option.splits)
  have "\<not> holds_slot s v k i" for v
    using held_not_free_holds [OF _ placed(2)] inv by (simp add: sched_inv_def)
  with reserve_inv [OF inv, of "assignmentOf req k i"] placed run w show ?thesis
    by (simp add: placed_def assignmentOf_def)
qed (use assms in auto)

end

subsection \<open>The scheduler as a transition system\<close>

text \<open>
  The controllers' calls.  The Manager restores an assignment from the status of a Sandbox; a
  Sandbox that another one has displaced is not restored, which is the side condition of
  \<open>restore\<close> (see the theorem on two restores for what happens without it).
\<close>

inductive sched_step :: "(nat \<Rightarrow> strategy) \<Rightarrow> memory_scheduler \<Rightarrow> memory_scheduler \<Rightarrow> bool" for select where
  update: "gm_ok (ws_Slots w) \<Longrightarrow> sched_step select s (UpdateWorker w s)"
| remove: "sched_step select s (RemoveWorker k s)"
| assign: "Assign (select d) req s = Some (r, t) \<Longrightarrow> sched_step select s t"
| restore: "(\<And>v. v \<noteq> as_SandboxUID a \<Longrightarrow> \<not> holds_slot s v (as_Worker a) (as_SlotID a)) \<Longrightarrow>
     sched_step select s (snd (Restore a s))"
| release: "sched_step select s (Release u s)"

lemma New_inv: "sched_inv (snd (New strategy))"
  by (simp add: New_def inv_defs)

sublocale placement_strategy \<subseteq> ts: transition_system "\<lambda>s. s = snd (New strategy)" "sched_step select" sched_inv
proof
  fix s t
  assume "sched_inv s" "sched_step select s t"
  from this(2,1) show "sched_inv t"
    by cases (auto intro: UpdateWorker_inv RemoveWorker_inv Release_inv Restore_inv Assign_inv)
qed (use New_inv in auto)

context placement_strategy
begin

lemma inv_reached: "reach (sched_step select) (snd (New strategy)) s \<Longrightarrow> sched_inv s"
  by (rule ts.reachable_inv [OF refl])

end

lemma reachable_sched_inv:
  assumes "select \<in> strategies" "reach (sched_step select) (snd (New strategy)) s"
  shows "sched_inv s"
  using placement_strategy.inv_reached [OF strategies_placement [OF assms(1)] assms(2)] .

subsection \<open>An example\<close>

text \<open>A Pool of one healthy Worker with two free small Slots, and a request for one of them.\<close>

definition key1 :: worker_key where
  "key1 = \<lparr>wk_Namespace = ''ns'', wk_Pool = ''pool'', wk_Name = ''w0''\<rparr>"

definition worker1 :: worker_state where
  "worker1 = \<lparr>ws_Key = key1, ws_Healthy = True, ws_LastObserved = 0, ws_Slots =
     [(0, \<lparr>si_ID = 0, si_Profile = ''small'', si_State = StateFree, si_SandboxUID = ''''\<rparr>),
      (1, \<lparr>si_ID = 1, si_Profile = ''small'', si_State = StateFree, si_SandboxUID = ''''\<rparr>)]\<rparr>"

definition sched1 :: memory_scheduler where
  "sched1 = UpdateWorker worker1 (snd (New None))"

definition req_a :: assign_request where
  "req_a = \<lparr>ar_SandboxUID = ''a'', ar_Namespace = ''ns'', ar_Name = ''box'', ar_Pool = ''pool'',
            ar_SlotProfile = ''small''\<rparr>"

lemma sched1_eq: "sched1 = \<lparr>ms_workers = [(key1, worker1)], ms_assignments = []\<rparr>"
  by (simp add: sched1_def UpdateWorker_def New_def worker1_def)

lemma sched1_candidates:
  "assignCandidates sched1 req_a =
     [\<lparr>cd_Worker = key1, cd_SlotID = 0, cd_Profile = ''small'', cd_FreeSlots = 2, cd_BusySlots = 0\<rparr>,
      \<lparr>cd_Worker = key1, cd_SlotID = 1, cd_Profile = ''small'', cd_FreeSlots = 2, cd_BusySlots = 0\<rparr>]"
  by (simp add: sched1_eq assignCandidates_def sortedWorkers_def workerCandidates_def sortedSlotIDs_def
      countWorkerSlots_def gm_get0_def worker1_def key1_def req_a_def)

lemma sched1_reach: "reach (sched_step (\<lambda>_. BinPackStrategy_Select)) (snd (New None)) sched1"
  unfolding sched1_def by (rule reach_step [OF reach_refl], rule sched_step.update) (simp add: worker1_def)

lemma sched1_offers: "offers sched1 req_a key1 0"
  by (simp add: offers_def sched1_eq key1_def req_a_def worker1_def)

lemma sched1_assign:
  "\<exists>a s. Assign BinPackStrategy_Select req_a sched1 = Some (Inr a, s) \<and> Get ''a'' s = Some a"
  using binpack.Assign_places [OF _ _ sched1_offers]
  by (fastforce simp: Get_def placed_def req_a_def sched1_eq)

subsection \<open>Bin packing\<close>

text \<open>
  On the candidates of one request \<open>binPackBetter\<close> is a strict linear order: a candidate is
  determined by its Worker's name and its Slot's ID, because the other fields follow from the
  Worker and the request.
\<close>

definition coherent :: "candidate set \<Rightarrow> bool" where
  "coherent C \<longleftrightarrow> (\<forall>c \<in> C. \<forall>d \<in> C. wk_Name (cd_Worker c) = wk_Name (cd_Worker d) \<longrightarrow>
     (cd_SlotID c = cd_SlotID d \<longrightarrow> c = d) \<and>
     cd_FreeSlots c = cd_FreeSlots d \<and> cd_BusySlots c = cd_BusySlots d)"

lemma coherent_mono: "coherent D \<Longrightarrow> C \<subseteq> D \<Longrightarrow> coherent C"
  unfolding coherent_def by (meson subsetD)

lemma binPackBetter_irrefl: "\<not> binPackBetter c c"
  by (auto simp: binPackBetter_def Let_def)

lemma binPackBetter_asym: "binPackBetter c d \<Longrightarrow> \<not> binPackBetter d c"
  by (auto simp: binPackBetter_def Let_def split: if_splits)

lemma binPackBetter_trans: "binPackBetter a b \<Longrightarrow> binPackBetter b c \<Longrightarrow> binPackBetter a c"
  by (auto simp: binPackBetter_def Let_def split: if_splits)

lemma binPackBetter_total:
  assumes "coherent C" "c \<in> C" "d \<in> C" "c \<noteq> d"
  shows "binPackBetter c d \<or> binPackBetter d c"
proof (cases "wk_Name (cd_Worker c) = wk_Name (cd_Worker d)")
  case True
  with assms have "cd_SlotID c \<noteq> cd_SlotID d" "cd_FreeSlots c = cd_FreeSlots d" "cd_BusySlots c = cd_BusySlots d"
    unfolding coherent_def by metis+
  with True show ?thesis by (auto simp: binPackBetter_def Let_def)
next
  case False
  then show ?thesis
    using linorder_less_linear [of "wk_Name (cd_Worker c)" "wk_Name (cd_Worker d)"]
    by (auto simp: binPackBetter_def Let_def)
qed

lemma assignCandidates_coherent: "coherent (set (assignCandidates s req))"
proof -
  have "cd_Worker c = cd_Worker d \<and> (cd_SlotID c = cd_SlotID d \<longrightarrow> c = d) \<and>
      cd_FreeSlots c = cd_FreeSlots d \<and> cd_BusySlots c = cd_BusySlots d"
    if "c \<in> set (assignCandidates s req)" "d \<in> set (assignCandidates s req)"
      "wk_Name (cd_Worker c) = wk_Name (cd_Worker d)" for c d
  proof -
    from that have w: "cd_Worker c = cd_Worker d"
      unfolding assignCandidates_set offers_def by simp
    moreover have "cd_Profile c = cd_Profile d \<and>
        (cd_FreeSlots c, cd_BusySlots c) = (cd_FreeSlots d, cd_BusySlots d)"
      using that(1,2) w unfolding assignCandidates_set by (metis option.inject)
    ultimately show ?thesis
      by (auto intro: candidate.equality)
  qed
  then show ?thesis unfolding coherent_def by metis
qed

text \<open>The fold returns the unique candidate that beats every other one.\<close>

lemma bestOf_optimal:
  assumes "coherent (set (c # cs))"
  shows "\<forall>d \<in> set (c # cs). d \<noteq> foldl (\<lambda>best c. if binPackBetter c best then c else best) c cs \<longrightarrow>
    binPackBetter (foldl (\<lambda>best c. if binPackBetter c best then c else best) c cs) d"
  using assms
proof (induction cs arbitrary: c)
  case (Cons x cs)
  define y where "y = (if binPackBetter x c then x else c)"
  define m where "m = foldl (\<lambda>best c. if binPackBetter c best then c else best) y cs"
  have "coherent (set (y # cs))"
    using Cons.prems by (rule coherent_mono) (auto simp: y_def)
  then have IH: "\<forall>d \<in> set (y # cs). d \<noteq> m \<longrightarrow> binPackBetter m d"
    unfolding m_def by (rule Cons.IH)
  have "x = c \<or> binPackBetter x c \<or> binPackBetter c x"
    using binPackBetter_total [OF Cons.prems, of x c] by auto
  then have loser: "d = y \<or> binPackBetter y d" if "d = x \<or> d = c" for d
    using that unfolding y_def by (cases "binPackBetter x c") auto
  have "binPackBetter m d" if "d = x \<or> d = c" "d \<noteq> m" for d
    using loser [OF that(1)] that(2) IH binPackBetter_trans [of m y d] by auto
  with IH have "\<forall>d \<in> set (c # x # cs). d \<noteq> m \<longrightarrow> binPackBetter m d"
    by auto
  then show ?case by (simp add: m_def y_def)
qed simp

text \<open>
  C15. Bin packing returns the one best candidate of a request, whatever order the candidates are
  presented in: Workers that already run something come first, among those the ones with the
  fewest free Slots of the profile, then the lowest Worker name, then the lowest Slot ID.
\<close>

theorem binpack_optimal:
  assumes "mset cs = mset (assignCandidates s req)" "cs \<noteq> []"
  shows "\<exists>best \<in> set (assignCandidates s req).
    BinPackStrategy_Select req cs = Inr best \<and>
    (\<forall>c \<in> set (assignCandidates s req). c \<noteq> best \<longrightarrow> binPackBetter best c \<and> \<not> binPackBetter c best)"
proof -
  obtain c ds where cs: "cs = c # ds"
    using assms(2) by (cases cs) auto
  have eq: "set (c # ds) = set (assignCandidates s req)"
    using assms(1) cs mset_eq_setD by metis
  then have "coherent (set (c # ds))"
    using assignCandidates_coherent by simp
  from bestOf_optimal [OF this] bestOf_member [where P = binPackBetter and c = c and cs = ds] show ?thesis
    unfolding cs BinPackStrategy_Select_def eq
    using binPackBetter_asym by (intro bexI) auto
qed

theorem binpack_optimal_witness:
  "\<exists>best. BinPackStrategy_Select req_a (rev (assignCandidates sched1 req_a)) = Inr best \<and> cd_SlotID best = 0"
proof -
  have "assignCandidates sched1 req_a \<noteq> []"
    by (simp add: sched1_candidates)
  then obtain best where "best \<in> set (assignCandidates sched1 req_a)"
    "BinPackStrategy_Select req_a (rev (assignCandidates sched1 req_a)) = Inr best"
    "\<forall>c \<in> set (assignCandidates sched1 req_a). c \<noteq> best \<longrightarrow> binPackBetter best c \<and> \<not> binPackBetter c best"
    using binpack_optimal [of "rev (assignCandidates sched1 req_a)" sched1 req_a] by auto
  then show ?thesis
    by (auto simp: sched1_candidates binPackBetter_def)
qed

subsection \<open>The operations\<close>

lemma Assign_new:
  assumes "select \<in> strategies" "map_of (ms_assignments s) (ar_SandboxUID req) = None"
    and "Assign (select d) req s = Some (Inr a, t)"
  shows "\<exists>k i. offers s req k i \<and> a = assignmentOf req k i \<and> t = placed req k i s"
proof -
  note outcome = placement_strategy.Assign_outcome [OF strategies_placement [OF assms(1)],
      where s = s and req = req and d = d]
  show ?thesis
    by (cases rule: outcome) (use assms(2,3) in auto)
qed



text \<open>
  C6. \<open>Assign\<close> is sound and complete for a new Sandbox.  It never dereferences a missing Worker.
  It reports missing capacity exactly when no healthy Worker of the Pool has a free Slot of the
  profile; otherwise it hands out such a Slot, records the assignment, marks that one Slot as
  reserved by the Sandbox and changes no other Slot and no other assignment.
\<close>

theorem assign_sound_complete:
  assumes "select \<in> strategies" "Get (ar_SandboxUID req) s = None" "ar_SlotProfile req \<noteq> []"
  shows "if \<forall>k i. \<not> offers s req k i
    then Assign (select d) req s = Some (Inl (Sentinel ErrNoCapacity), s)
    else \<exists>k i t info. Assign (select d) req s = Some (Inr (assignmentOf req k i), t) \<and>
      offers s req k i \<and> slot_at s k i = Some info \<and>
      (\<forall>v. Get v t = (if v = ar_SandboxUID req then Some (assignmentOf req k i) else Get v s)) \<and>
      (\<forall>k' i'. slot_at t k' i' = (if (k', i') = (k, i)
         then Some (info\<lparr>si_State := StateReserved, si_SandboxUID := ar_SandboxUID req\<rparr>)
         else slot_at s k' i'))"
proof (cases "\<forall>k i. \<not> offers s req k i")
  case True
  then show ?thesis
    using placement_strategy.Assign_unplaced [OF strategies_placement [OF assms(1)]] assms(2,3)
    by (simp add: Get_def)
next
  case False
  then obtain k i where ki: "offers s req k i"
    "Assign (select d) req s = Some (Inr (assignmentOf req k i), placed req k i s)"
    using placement_strategy.Assign_places [OF strategies_placement [OF assms(1)]] assms(2,3)
    by (metis Get_def)
  then obtain w info where "map_of (ms_workers s) k = Some w" "map_of (ws_Slots w) i = Some info"
    by (auto simp: offers_def split: option.splits)
  with False ki show ?thesis
    by (intro if_splits(1) [THEN iffD2])
      (fastforce simp: placed_def Get_def slot_at_def gm_get0_def)
qed

theorem assign_sound_complete_witness:
  "\<exists>k i t info. Assign StableStrategy_Select req_a sched1 = Some (Inr (assignmentOf req_a k i), t) \<and>
     slot_at t k i = Some (info\<lparr>si_State := StateReserved, si_SandboxUID := ''a''\<rparr>)"
proof -
  have "Get (ar_SandboxUID req_a) sched1 = None" "ar_SlotProfile req_a \<noteq> []" "\<not> (\<forall>k i. \<not> offers sched1 req_a k i)"
    using sched1_offers by (auto simp: Get_def sched1_eq req_a_def)
  then obtain k i t info where
    "Assign StableStrategy_Select req_a sched1 = Some (Inr (assignmentOf req_a k i), t)"
    "\<forall>k' i'. slot_at t k' i' = (if (k', i') = (k, i)
       then Some (info\<lparr>si_State := StateReserved, si_SandboxUID := ar_SandboxUID req_a\<rparr>)
       else slot_at sched1 k' i')"
    using assign_sound_complete [of "\<lambda>_. StableStrategy_Select" req_a sched1 0]
    by (simp only: strategies_def insert_iff simp_thms if_False) blast
  moreover have "ar_SandboxUID req_a = ''a''"
    by (simp add: req_a_def)
  ultimately show ?thesis by auto
qed

text \<open>
  \<open>Assign\<close> is idempotent: once a Sandbox has an assignment, every later \<open>Assign\<close> for the same
  UID, with any strategy and whatever else it asks for, returns that assignment and changes
  nothing, until it is released.
\<close>

theorem assign_idempotent:
  assumes "Assign select req s = Some (Inr a, t)" "ar_SandboxUID req' = ar_SandboxUID req"
  shows "Assign select' req' t = Some (Inr a, t) \<and> Get (ar_SandboxUID req) t = Some a"
proof -
  have "map_of (ms_assignments t) (ar_SandboxUID req) = Some a"
    using assms(1) by (auto simp: Assign_def Let_def split: option.splits if_splits sum.splits)
  with assms(2) show ?thesis
    by (simp add: Assign_def Get_def)
qed

theorem assign_idempotent_witness:
  "\<exists>a s. Assign BinPackStrategy_Select req_a sched1 = Some (Inr a, s) \<and>
     Assign StableStrategy_Select (req_a\<lparr>ar_Pool := ''other''\<rparr>) s = Some (Inr a, s)"
proof -
  obtain a s where run: "Assign BinPackStrategy_Select req_a sched1 = Some (Inr a, s)"
    using sched1_assign by blast
  with assign_idempotent [OF run, of "req_a\<lparr>ar_Pool := ''other''\<rparr>"] show ?thesis by auto
qed

text \<open>
  C16. Releasing undoes assigning: after \<open>Assign\<close> of a new Sandbox and \<open>Release\<close>, every assignment
  is as before, the Slot that was handed out is free again with its profile, and every other Slot
  is as before.
\<close>

theorem assign_release_roundtrip:
  assumes "select \<in> strategies" "Get (ar_SandboxUID req) s = None"
    and "Assign (select d) req s = Some (Inr a, t)"
  shows "Get v (Release (ar_SandboxUID req) t) = Get v s \<and>
    slot_at (Release (ar_SandboxUID req) t) k i =
      (if (k, i) = (as_Worker a, as_SlotID a)
       then map_option (\<lambda>info. info\<lparr>si_SandboxUID := []\<rparr>) (slot_at s k i) else slot_at s k i)"
proof -
  obtain k' i' where p: "offers s req k' i'" "a = assignmentOf req k' i'" "t = placed req k' i' s"
    using Assign_new [OF assms(1) _ assms(3)] assms(2) by (auto simp: Get_def)
  then obtain w info where w: "map_of (ms_workers s) k' = Some w" "map_of (ws_Slots w) i' = Some info"
    "si_State info = StateFree"
    by (auto simp: offers_def split: option.splits)
  have "info\<lparr>si_State := StateFree, si_SandboxUID := []\<rparr> = info\<lparr>si_SandboxUID := []\<rparr>"
    using w(3) by (cases info) simp
  with p w assms(2) show ?thesis
    by (simp add: Release_def placed_def assignmentOf_def Let_def Get_def gm_get0_def slot_at_def fun_upd_def)
qed

theorem assign_release_roundtrip_witness:
  "\<exists>a s. Assign BinPackStrategy_Select req_a sched1 = Some (Inr a, s) \<and> Get ''a'' (Release ''a'' s) = None"
proof -
  obtain a s where run: "Assign BinPackStrategy_Select req_a sched1 = Some (Inr a, s)"
    using sched1_assign by blast
  have "Get (ar_SandboxUID req_a) sched1 = None"
    by (simp add: Get_def sched1_eq)
  from assign_release_roundtrip [of "\<lambda>_. BinPackStrategy_Select", OF _ this run, of "''a''"] run this
  show ?thesis by (auto simp: strategies_def req_a_def)
qed

text \<open>
  A Worker's report never loses a reservation.  In every reachable state, after
  \<open>UpdateWorker\<close> the Slots of that Worker are those of the report, except that a Slot the report
  calls free and a Sandbox holds is shown as reserved by that Sandbox; the Slots of the other
  Workers and all assignments are unchanged.
\<close>

theorem update_worker_keeps_reservations:
  assumes "select \<in> strategies" "reach (sched_step select) (snd (New strategy)) s"
    and "map_of (ws_Slots w) i = Some info"
  shows "slot_at (UpdateWorker w s) (ws_Key w) i =
      Some (if si_State info = StateFree \<and> (\<exists>u. holds_slot s u (ws_Key w) i)
            then info\<lparr>si_State := StateReserved, si_SandboxUID := THE u. holds_slot s u (ws_Key w) i\<rparr>
            else info) \<and>
    (\<forall>k j. k \<noteq> ws_Key w \<longrightarrow> slot_at (UpdateWorker w s) k j = slot_at s k j) \<and>
    (\<forall>u. Get u (UpdateWorker w s) = Get u s)"
proof -
  let ?k = "ws_Key w"
  have inv: "sched_inv s"
    using assms(1,2) by (rule reachable_sched_inv)
  have slot: "slot_at (UpdateWorker w s) ?k i = map_of (foldl (markReserved ?k) (ws_Slots w) (ms_assignments s)) i"
    by (simp add: slot_at_def UpdateWorker_def)
  have set: "holds_slot s u ?k i \<longleftrightarrow> (\<exists>a. (u, a) \<in> set (ms_assignments s) \<and> as_Worker a = ?k \<and> as_SlotID a = i)" for u
    using inv by (auto simp: holds_slot_def sched_inv_def maps_ok_def)
  have "map_of (foldl (markReserved ?k) (ws_Slots w) (ms_assignments s)) i =
      Some (info\<lparr>si_State := StateReserved, si_SandboxUID := THE u. holds_slot s u ?k i\<rparr>)"
    if free: "si_State info = StateFree" and u: "holds_slot s u ?k i" for u
  proof -
    have only: "v = u" if "holds_slot s v ?k i" for v
      using inv u that by (auto simp: sched_inv_def exclusive_def)
    with u have the: "(THE u. holds_slot s u ?k i) = u" by blast
    from u obtain a where a: "(u, a) \<in> set (ms_assignments s)" "as_Worker a = ?k" "as_SlotID a = i"
      by (auto simp: set)
    show ?thesis
      unfolding the using markAll_marks [OF a _ assms(3) free] only set by blast
  qed
  moreover have "map_of (foldl (markReserved ?k) (ws_Slots w) (ms_assignments s)) i = Some info"
    if "si_State info \<noteq> StateFree"
    using markAll_keeps [OF assms(3) that] .
  moreover have "map_of (foldl (markReserved ?k) (ws_Slots w) (ms_assignments s)) i = Some info"
    if "\<not> (\<exists>u. holds_slot s u ?k i)"
    using markAll_other [of "ms_assignments s" ?k i "ws_Slots w"] assms(3) that by (auto simp: set)
  moreover have "\<forall>k j. k \<noteq> ?k \<longrightarrow> slot_at (UpdateWorker w s) k j = slot_at s k j"
    by (simp add: slot_at_def UpdateWorker_def)
  moreover have "\<forall>u. Get u (UpdateWorker w s) = Get u s"
    by (simp add: Get_def UpdateWorker_def)
  ultimately show ?thesis
    unfolding slot by (cases "si_State info = StateFree"; cases "\<exists>u. holds_slot s u ?k i") auto
qed

theorem update_worker_keeps_reservations_witness:
  "\<exists>a s info. Assign BinPackStrategy_Select req_a sched1 = Some (Inr a, s) \<and>
     slot_at (UpdateWorker worker1 s) key1 (as_SlotID a) = Some info \<and> si_State info = StateReserved"
proof -
  obtain a s where run: "Assign BinPackStrategy_Select req_a sched1 = Some (Inr a, s)" "Get ''a'' s = Some a"
    using sched1_assign by blast
  have reach: "reach (sched_step (\<lambda>_. BinPackStrategy_Select)) (snd (New None)) s"
    using sched1_reach by (rule reach_step) (rule sched_step.assign [OF run(1)])
  have strat: "(\<lambda>_. BinPackStrategy_Select) \<in> strategies"
    by (simp add: strategies_def)
  obtain k i where ki: "offers sched1 req_a k i" "a = assignmentOf req_a k i"
    using Assign_new [OF strat _ run(1)] by (auto simp: sched1_eq)
  then have k: "k = key1" and "\<exists>info. map_of (ws_Slots worker1) i = Some info \<and> si_State info = StateFree"
    by (auto simp: offers_def sched1_eq split: option.splits if_splits)
  then obtain info where info: "map_of (ws_Slots worker1) i = Some info" "si_State info = StateFree" by blast
  have "holds_slot s ''a'' (ws_Key worker1) i"
    using run(2) ki k by (simp add: holds_slot_def Get_def assignmentOf_def worker1_def)
  with update_worker_keeps_reservations [OF strat reach info(1)] info(2) run(1) ki(2) show ?thesis
    by (auto simp: assignmentOf_def worker1_def)
qed

text \<open>
  \<open>Restore\<close> succeeds exactly when the Sandbox already has this very assignment, or has none and
  its Slot, as far as the scheduler knows it, is free or already marked with the Sandbox.  A
  refused restore is an assignment conflict and changes nothing; after a successful one the
  Sandbox has the assignment and no request is offered its Slot.
\<close>

theorem restore_exact:
  assumes "select \<in> strategies" "reach (sched_step select) (snd (New strategy)) s"
  shows "(fst (Restore a s) = None \<longleftrightarrow> Get (as_SandboxUID a) s = Some a \<or>
       Get (as_SandboxUID a) s = None \<and>
       (\<forall>info. slot_at s (as_Worker a) (as_SlotID a) = Some info \<longrightarrow>
          si_State info = StateFree \<or> si_SandboxUID info = as_SandboxUID a)) \<and>
    (\<forall>err. fst (Restore a s) = Some err \<longrightarrow> errors_is ErrAssignmentConflict err \<and> snd (Restore a s) = s) \<and>
    (fst (Restore a s) = None \<longrightarrow> Get (as_SandboxUID a) (snd (Restore a s)) = Some a \<and>
       (\<forall>req. \<not> offers (snd (Restore a s)) req (as_Worker a) (as_SlotID a)))"
proof (cases "Get (as_SandboxUID a) s")
  case None
  then show ?thesis
    by (auto simp: Get_def Restore_def Let_def slot_at_def offers_def split: option.splits if_splits)
next
  case (Some b)
  have inv: "sched_inv s"
    using assms by (rule reachable_sched_inv)
  have "holds_slot s (as_SandboxUID a) (as_Worker b) (as_SlotID b)"
    using Some by (auto simp: holds_slot_def Get_def)
  then have "\<not> offers s req (as_Worker b) (as_SlotID b)" for req
    using held_not_free_holds [of s] inv by (auto simp: sched_inv_def)
  with Some show ?thesis
    by (auto simp: Get_def Restore_def)
qed

theorem restore_exact_witness:
  "fst (Restore (assignmentOf req_a key1 1) sched1) = None"
proof -
  have "Get (as_SandboxUID (assignmentOf req_a key1 1)) sched1 = None"
    "\<forall>info. slot_at sched1 key1 1 = Some info \<longrightarrow> si_State info = StateFree"
    by (auto simp: Get_def sched1_eq slot_at_def worker1_def)
  then show ?thesis
    using restore_exact [OF _ sched1_reach, of "assignmentOf req_a key1 1"]
    by (auto simp: strategies_def assignmentOf_def)
qed

text \<open>
  Before a Worker has reported, \<open>Restore\<close> checks only the Sandbox's own entry: two Sandboxes
  restored onto the same Slot of a Worker the scheduler does not know are both accepted.
\<close>

theorem two_restores_share_a_slot:
  "\<exists>s t. Restore (assignmentOf req_a key1 0) (snd (New None)) = (None, s) \<and>
     Restore (assignmentOf (req_a\<lparr>ar_SandboxUID := ''b''\<rparr>) key1 0) s = (None, t) \<and>
     holds_slot t ''a'' key1 0 \<and> holds_slot t ''b'' key1 0"
  by (simp add: Restore_def New_def holds_slot_def assignmentOf_def req_a_def)

subsection \<open>Independence of the iteration order\<close>

text \<open>The same maps, listed in another order.\<close>

definition reordered :: "memory_scheduler \<Rightarrow> memory_scheduler \<Rightarrow> bool" where
  "reordered s s' \<longleftrightarrow> map_of (ms_assignments s) = map_of (ms_assignments s') \<and>
     mset (map fst (ms_workers s)) = mset (map fst (ms_workers s')) \<and>
     (\<forall>k w. map_of (ms_workers s) k = Some w \<longrightarrow>
        (\<exists>slots. map_of (ms_workers s') k = Some (w\<lparr>ws_Slots := slots\<rparr>) \<and> mset (ws_Slots w) = mset slots))"

lemma workerCandidates_perm:
  assumes "gm_ok (ws_Slots w)" "mset (ws_Slots w) = mset slots"
  shows "workerCandidates key w profile = workerCandidates key (w\<lparr>ws_Slots := slots\<rparr>) profile"
proof -
  have "mset (map fst (ws_Slots w)) = mset (map fst slots)"
    using assms(2) by simp
  then have ids: "sortedSlotIDs (ws_Slots w) = sortedSlotIDs slots"
    unfolding sortedSlotIDs_def using assms(1) by (intro sort_key_perm) auto
  have "length (filter P (ws_Slots w)) = length (filter P slots)" for P
    using assms(2) by (metis mset_filter size_mset)
  then have "countWorkerSlots (ws_Slots w) profile = countWorkerSlots slots profile"
    by (simp add: countWorkerSlots_filter)
  moreover have "gm_get0 zero_slot_info (ws_Slots w) = gm_get0 zero_slot_info slots"
    using gm_perm_get(2) [OF assms] by (simp add: gm_get0_def fun_eq_iff)
  ultimately show ?thesis
    by (simp add: workerCandidates_def ids)
qed

lemma sortedWorkers_perm:
  assumes "gm_ok (ms_workers s)" "mset (map fst (ms_workers s)) = mset (map fst (ms_workers s'))"
  shows "sortedWorkers s namespace pool = sortedWorkers s' namespace pool"
proof -
  let ?P = "\<lambda>key. wk_Namespace key = namespace \<and> wk_Pool key = pool"
  have "inj_on wk_Name (set (filter ?P (map fst (ms_workers s))))"
    by (auto intro!: inj_onI worker_key.equality)
  then have "distinct (map wk_Name (filter ?P (map fst (ms_workers s))))"
    using assms(1) by (simp add: distinct_map)
  with assms(2) show ?thesis
    unfolding sortedWorkers_def by (intro sort_key_perm) (metis mset_filter)+
qed

text \<open>
  C17. Go iterates over maps in no particular order, and the result of \<open>Assign\<close> does not depend on
  it: with the same maps listed in another order \<open>Assign\<close> returns the same assignment or error,
  for every strategy that is a function of the request and the candidates.
\<close>

theorem assign_order_independent:
  assumes "maps_ok s" "reordered s s'"
  shows "map_option fst (Assign select req s) = map_option fst (Assign select req s')"
proof -
  have ws: "map_of (ms_workers s) k = None \<longleftrightarrow> map_of (ms_workers s') k = None" for k
    using assms(2) unfolding reordered_def map_of_eq_None_iff by (metis list.set_map mset_eq_setD)
  have cands: "assignCandidates s req = assignCandidates s' req"
  proof -
    have "(case map_of (ms_workers s) key of None \<Rightarrow> [] | Some w \<Rightarrow> workerCandidates key w p) =
        (case map_of (ms_workers s') key of None \<Rightarrow> [] | Some w \<Rightarrow> workerCandidates key w p)" for key p
    proof (cases "map_of (ms_workers s) key")
      case None
      with ws [of key] show ?thesis by simp
    next
      case (Some w)
      then obtain slots where "map_of (ms_workers s') key = Some (w\<lparr>ws_Slots := slots\<rparr>)"
        "mset (ws_Slots w) = mset slots"
        using assms(2) unfolding reordered_def by blast
      moreover have "gm_ok (ws_Slots w)"
        using assms(1) Some unfolding maps_ok_def by blast
      ultimately show ?thesis
        using Some workerCandidates_perm [of w slots] by simp
    qed
    then show ?thesis
      using assms sortedWorkers_perm [of s s'] by (simp add: assignCandidates_def reordered_def maps_ok_def)
  qed
  have "map_of (ms_assignments s) = map_of (ms_assignments s')"
    using assms(2) by (simp add: reordered_def)
  with cands ws show ?thesis
    by (auto simp: Assign_def Let_def split: option.splits sum.splits) (metis option.distinct(1))
qed

theorem assign_order_independent_witness:
  "map_option fst (Assign BinPackStrategy_Select req_a sched1) =
   map_option fst (Assign BinPackStrategy_Select req_a
     \<lparr>ms_workers = [(key1, worker1\<lparr>ws_Slots := rev (ws_Slots worker1)\<rparr>)], ms_assignments = []\<rparr>)"
  by (rule assign_order_independent)
    (simp_all add: maps_ok_def reordered_def sched1_eq worker1_def)

end
