(* ===== verification/ApiFrames.thy ===== *)
theory ApiFrames
  imports ControlPlane SchedulerCorrect
begin

text \<open>
  What the controllers leave alone.  A part of the world that the API server's operations on other
  objects and the calls of Workers do not change is not changed by a reconciliation of a Pool or of a
  snapshot either; the Pool controller's reports keep the scheduler's assignments and its invariant.
\<close>

subsection \<open>The scheduler under the Pool controller\<close>

definition reported :: "memory_scheduler \<Rightarrow> memory_scheduler \<Rightarrow> bool" where
  "reported sched sched' \<longleftrightarrow> ms_assignments sched' = ms_assignments sched \<and> (sched_inv sched \<longrightarrow> sched_inv sched')"

lemma reported_refl: "reported sched sched"
  by (simp add: reported_def)

lemma reported_trans: "reported s t \<Longrightarrow> reported t u \<Longrightarrow> reported s u"
  by (simp add: reported_def)

lemma slotMapOf_ok: "gm_ok (slotMapOf slots)"
proof -
  have "gm_ok m \<Longrightarrow> gm_ok (foldl (\<lambda>m info. gm_set (si_ID info) info m) m slots)" for m :: "(int, slot_info) gomap"
    by (induction slots arbitrary: m) auto
  then show ?thesis by (simp add: slotMapOf_def)
qed

lemma remove_reported: "reported sched (RemoveWorker key sched)"
  by (auto simp: reported_def RemoveWorker_inv) (simp add: RemoveWorker_def)

lemma update_reported: "gm_ok (ws_Slots w) \<Longrightarrow> reported sched (UpdateWorker w sched)"
  by (auto simp: reported_def UpdateWorker_inv) (simp add: UpdateWorker_def)

lemma removeMissing_reported: "reported sched (removeMissing pool t sched)"
proof -
  have "reported sched (foldl (\<lambda>s name. RemoveWorker (podWorkerKey pool name) s) sched names)" for names
    by (induction names arbitrary: sched) (auto intro: reported_refl reported_trans [OF remove_reported])
  then show ?thesis by (simp add: removeMissing_def)
qed

subsection \<open>What a call leaves alone\<close>

definition keeps :: "('f \<Rightarrow> 'v) \<Rightarrow> ('f \<Rightarrow> 'r \<times> 'f) \<Rightarrow> bool" where
  "keeps view op \<longleftrightarrow> (\<forall>f. view (snd (op f)) = view f)"

lemma keepsD: "keeps view op \<Longrightarrow> op f = (r, f') \<Longrightarrow> view f' = view f"
  unfolding keeps_def by (metis snd_conv)

locale quiet_api =
  fixes k :: "('q :: {linorder, comm_monoid_add}, 'f) kube" and cl :: "('q, 'f) worker_client" and view :: "'f \<Rightarrow> 'v"
  assumes reads: "keeps view (ku_GetSandbox k ns n)" "keeps view (ku_ListSandboxes k ns)"
      "keeps view (ku_GetSnapshot k ns n)" "keeps view (ku_GetPool k ns n)" "keeps view (ku_GetPod k ns n)"
      "keeps view (ku_ListPods k ns labels)" "keeps view (ku_GetSecret k ns n)" "keeps view (ku_GetService k ns n)"
      "keeps view (ku_GetStatefulSet k ns n)" "keeps view (ku_Now k)"
    and writes: "keeps view (ku_UpdateSnapshot k snap)" "keeps view (ku_UpdateSnapshotStatus k snap)"
      "keeps view (ku_UpdatePoolStatus k pool)" "keeps view (ku_CreateService k svc)"
      "keeps view (ku_CreateStatefulSet k sts)" "keeps view (ku_UpdateStatefulSet k sts)"
    and calls: "keeps view (wl_Health cl ep)" "keeps view (wl_ListSlots cl ep)" "keeps view (wl_ApplyTopology cl ep configs)"
      "keeps view (wl_ReserveSlot cl ep ref)" "keeps view (wl_StartSandbox cl ep start)"
      "keeps view (wl_StopSandbox cl ep ref)" "keeps view (wl_ReleaseSlot cl ep ref)"
      "keeps view (wl_CreateSnapshot cl ep create)" "keeps view (wl_RestoreFromSnapshot cl ep restore)"
      "keeps view (wl_DeleteSnapshotObjects cl ep delete)"
begin

lemmas read_frame = keepsD [OF reads(1)] keepsD [OF reads(2)] keepsD [OF reads(3)] keepsD [OF reads(4)] keepsD [OF reads(5)]
  keepsD [OF reads(6)] keepsD [OF reads(7)] keepsD [OF reads(8)] keepsD [OF reads(9)] keepsD [OF reads(10)]

lemmas write_frame = keepsD [OF writes(1)] keepsD [OF writes(2)] keepsD [OF writes(3)] keepsD [OF writes(4)]
  keepsD [OF writes(5)] keepsD [OF writes(6)]

lemmas call_frame = keepsD [OF calls(1)] keepsD [OF calls(2)] keepsD [OF calls(3)] keepsD [OF calls(4)] keepsD [OF calls(5)]
  keepsD [OF calls(6)] keepsD [OF calls(7)] keepsD [OF calls(8)] keepsD [OF calls(9)] keepsD [OF calls(10)]

subsection \<open>What the controllers share\<close>

lemma resolve_frame:
  assumes "resolveWorkerEndpoint r ns n f = (ep, f')" "rc_Kube r = k"
  shows "view f' = view f"
  using assms(1) unfolding resolveWorkerEndpoint_def assms(2)
  by (auto split: prod.splits sum.splits dest: read_frame)

lemma storage_frame: "snapshotStorageConfig k pool f = (storage, f') \<Longrightarrow> view f' = view f"
  by (auto simp: snapshotStorageConfig_def Let_def split: option.splits if_splits prod.splits sum.splits dest: read_frame)

subsection \<open>The snapshot controller\<close>

lemma snapStatus_frame: "snapshotSyncStatus k s f = (upd, f') \<Longrightarrow> view f' = view f"
  by (auto simp: snapshotSyncStatus_def Let_def split: prod.splits sum.splits dest: write_frame)

lemma snapFinish_frame: "snapFinish k after s f = (res, f') \<Longrightarrow> view f' = view f"
  by (auto simp: snapFinish_def split: prod.splits sum.splits dest: snapStatus_frame)

lemma failSnapshot_frame: "failSnapshot k s reason message f = (res, f') \<Longrightarrow> view f' = view f"
  by (auto simp: failSnapshot_def dest: snapFinish_frame)

lemma parentNotReady_frame: "parentNotReady k s f = (res, f') \<Longrightarrow> view f' = view f"
  by (auto simp: parentNotReady_def Let_def dest: snapFinish_frame)

lemmas snap_frame = snapStatus_frame snapFinish_frame failSnapshot_frame parentNotReady_frame storage_frame

lemma snapSyncCreate_frame:
  assumes "snapSyncCreate r s f = (res, f')" "rc_Kube r = k" "rc_Client r = cl"
  shows "view f' = view f"
  using assms(1) unfolding snapSyncCreate_def assms(2,3) Let_def
  by (auto split: prod.splits sum.splits option.splits if_splits
      dest!: read_frame(1,4) call_frame(8,10) snap_frame resolve_frame [OF _ assms(2)])

lemma pickWorker_frame:
  assumes "pickWorkerEndpoint r ns pool preferred f = (ep, f')" "rc_Kube r = k"
  shows "view f' = view f"
  using assms(1) unfolding pickWorkerEndpoint_def assms(2) Let_def
  by (auto split: prod.splits sum.splits if_splits dest!: read_frame(6) resolve_frame [OF _ assms(2)])

lemma deleteObjects_frame:
  assumes "deleteObjects r s f = (err, f')" "rc_Kube r = k" "rc_Client r = cl"
  shows "view f' = view f"
  using assms(1) unfolding deleteObjects_def assms(2,3) Let_def
  by (auto split: prod.splits sum.splits if_splits
      dest!: read_frame(4) call_frame(10) storage_frame pickWorker_frame [OF _ assms(2)])

lemma snapSyncDelete_frame:
  assumes "snapSyncDelete r s f = (res, f')" "rc_Kube r = k" "rc_Client r = cl"
  shows "view f' = view f"
  using assms(1) unfolding snapSyncDelete_def assms(2,3) Let_def
  by (auto split: prod.splits sum.splits option.splits if_splits
      dest!: read_frame(2) write_frame(1) snapStatus_frame deleteObjects_frame [OF _ assms(2,3)])

lemma SnapshotReconcile_frame:
  assumes "SnapshotReconcile r ns n f = (res, f')" "rc_Kube r = k" "rc_Client r = cl"
  shows "view f' = view f"
  using assms(1) unfolding SnapshotReconcile_def assms(2,3) Let_def
  by (auto split: prod.splits sum.splits option.splits if_splits
      dest!: read_frame(3) write_frame(1) snapSyncDelete_frame [OF _ assms(2,3)] snapSyncCreate_frame [OF _ assms(2,3)])

subsection \<open>The Pool controller\<close>

lemma service_frame:
  assumes "syncService r pool f = (err, f')" "pr_Kube r = k"
  shows "view f' = view f"
  using assms(1) unfolding syncService_def assms(2) Let_def
  by (auto split: option.splits prod.splits sum.splits if_splits dest!: read_frame(8) write_frame(4))

lemma templatePods_frame:
  assumes "listTemplatePods r pool tname f = (pods, f')" "pr_Kube r = k"
  shows "view f' = view f"
  using assms(1) unfolding listTemplatePods_def assms(2) Let_def
  by (auto split: prod.splits sum.splits dest!: read_frame(6))

lemma gather_frame:
  assumes "gatherOccupied r ps occupied f = (occ, f')" "pr_Client r = cl"
  shows "view f' = view f"
  using assms
proof (induction ps arbitrary: occupied f)
  case (Cons p ps)
  show ?case
  proof (cases "rc_Endpoint (pr_Base r) p")
    case (Inl e)
    with Cons show ?thesis by simp
  next
    case (Inr ep)
    obtain listed f1 where run: "wl_ListSlots cl ep f = (listed, f1)" by fastforce
    with Cons.prems Inr Cons.IH [of _ f1] call_frame(2) [OF run] show ?thesis
      by (auto split: sum.splits)
  qed
qed simp

lemma occupied_frame:
  assumes "occupiedSlots r pool tname f = (occ, f')" "pr_Kube r = k" "pr_Client r = cl"
  shows "view f' = view f"
  using assms(1) unfolding occupiedSlots_def
  by (auto split: prod.splits sum.splits dest!: templatePods_frame [OF _ assms(2)] gather_frame [OF _ assms(3)])

lemma canFit_frame:
  assumes "workersCanFit r pool tname need f = (fit, f')" "pr_Kube r = k"
  shows "view f' = view f"
  using assms(1) unfolding workersCanFit_def
  by (auto split: prod.splits sum.splits dest!: templatePods_frame [OF _ assms(2)])

lemma push_frame:
  assumes "pushTopology r configs ps f = (failed, f')" "pr_Client r = cl"
  shows "view f' = view f"
  using assms
proof (induction ps arbitrary: failed f)
  case (Cons p ps)
  show ?case
  proof (cases "rc_Endpoint (pr_Base r) p")
    case (Inl e)
    with Cons show ?thesis by (auto split: if_splits prod.splits)
  next
    case (Inr ep)
    obtain err f1 where run: "wl_ApplyTopology cl ep configs f = (err, f1)" by fastforce
    with Cons.prems Inr Cons.IH [of f1] Cons.IH [of f] call_frame(3) [OF run] show ?thesis
      by (auto split: if_splits prod.splits)
  qed
qed simp

lemma topology_frame:
  assumes "syncTopology r tname configs pool f = (res, pool', f')" "pr_Kube r = k" "pr_Client r = cl"
  shows "view f' = view f"
  using assms(1) unfolding syncTopology_def
  by (auto split: prod.splits sum.splits if_splits dest!: templatePods_frame [OF _ assms(2)] push_frame [OF _ assms(3)])

lemma anyBusy_frame:
  assumes "anyBusy r pool tname ords f = (busy, f')" "pr_Kube r = k" "pr_Client r = cl"
  shows "view f' = view f"
  using assms(1)
proof (induction ords arbitrary: f)
  case (Cons n ords)
  obtain got f1 where got: "ku_GetPod k (poolNs pool) (workerName pool tname n) f = (got, f1)" by fastforce
  note f1 = read_frame(5) [OF got]
  note run = Cons.prems [unfolded anyBusy.simps assms(2,3) Let_def got prod.case]
  show ?case
  proof (cases got)
    case (Inl e)
    with run f1 Cons.IH [of f1] show ?thesis by (auto split: if_splits)
  next
    case (Inr p)
    show ?thesis
    proof (cases "rc_Endpoint (pr_Base r) p")
      case (Inl e)
      with run Inr f1 show ?thesis by simp
    next
      case ep: (Inr ep)
      obtain listed f2 where listed: "wl_ListSlots cl ep f1 = (listed, f2)" by fastforce
      with run Inr ep f1 Cons.IH [of f2] call_frame(2) [OF listed] show ?thesis
        by (auto split: sum.splits if_splits)
    qed
  qed
qed simp

lemma target_frame:
  assumes "targetReplicas r pool tname current desired f = (target, f')" "pr_Kube r = k" "pr_Client r = cl"
  shows "view f' = view f"
  using assms(1) unfolding targetReplicas_def workersStillBusy_def
  by (auto split: option.splits prod.splits sum.splits if_splits bool.splits dest!: anyBusy_frame [OF _ assms(2,3)])

lemma workers_frame:
  assumes "syncWorkers r pool template configs f = (busy, f')" "pr_Kube r = k" "pr_Client r = cl"
  shows "view f' = view f"
proof (cases "ku_SetControllerReference k pool (tf_Name (pr_Build r pool template configs))")
  case (Some e)
  with assms show ?thesis by (simp add: syncWorkers_def)
next
  case None
  obtain got f1 where got: "ku_GetStatefulSet k (poolNs pool) (tf_Name (pr_Build r pool template configs)) f = (got, f1)"
    by fastforce
  note f1 = read_frame(9) [OF got]
  note run = assms(1) [unfolded syncWorkers_def assms(2) Let_def None got option.case prod.case]
  show ?thesis
  proof (cases got)
    case (Inl e)
    with run f1 show ?thesis by (auto split: if_splits prod.splits dest!: write_frame(5))
  next
    case (Inr current)
    obtain target f2 where target: "targetReplicas r pool (wt_Name template) (tf_Replicas current)
        (tf_Replicas (pr_Build r pool template configs)) f1 = (target, f2)" by fastforce
    note f2 = target_frame [OF target assms(2,3)]
    note run = run [unfolded Inr sum.case target prod.case]
    show ?thesis
    proof (cases target)
      case (Inl e)
      with run f1 f2 show ?thesis by simp
    next
      case (Inr t)
      obtain replicas stillBusy where t: "t = (replicas, stillBusy)" by fastforce
      have "view f' = view f2"
        using run unfolding Inr t sum.case prod.case
        by (simp only: split: if_splits prod.splits) (auto dest!: write_frame(6))
      with f1 f2 show ?thesis by simp
    qed
  qed
qed

lemma fit_frame:
  assumes "fitLayout r pool tname current plan f = (layout, f')" "pr_Kube r = k"
  shows "view f' = view f"
  using assms(1) unfolding fitLayout_def Let_def
  by (auto split: if_splits prod.splits sum.splits bool.splits dest!: canFit_frame [OF _ assms(2)])

lemma pushAndSize_frame:
  assumes "pushAndSize r template slots pending pool f = (res, pool', f')" "pr_Kube r = k" "pr_Client r = cl"
  shows "view f' = view f"
  using assms(1) unfolding pushAndSize_def Let_def
  by (auto split: prod.splits sum.splits dest!: topology_frame [OF _ assms(2,3)] workers_frame [OF _ assms(2,3)])

lemma template_frame:
  assumes "syncTemplate r template pool f = (res, pool', f')" "pr_Kube r = k" "pr_Client r = cl"
  shows "view f' = view f"
  using assms(1) unfolding syncTemplate_def Let_def
  by (auto split: prod.splits sum.splits option.splits
      dest!: occupied_frame [OF _ assms(2,3)] fit_frame [OF _ assms(2)] pushAndSize_frame [OF _ assms(2,3)])

lemma templates_frame:
  assumes "syncTemplates r ts pending pool f = (res, pool', f')" "pr_Kube r = k" "pr_Client r = cl"
  shows "view f' = view f"
  using assms(1)
proof (induction ts arbitrary: pending pool f)
  case (Cons t ts)
  obtain res1 pool1 f1 where run: "syncTemplate r t pool f = (res1, pool1, f1)" by (metis prod_cases3)
  with Cons.prems Cons.IH [of _ pool1 f1] template_frame [OF run assms(2,3)] show ?case
    by (auto split: sum.splits)
qed simp

lemma observe_frame:
  assumes "observePod r p f = (slots, f')" "pr_Client r = cl"
  shows "view f' = view f"
  using assms(1) unfolding observePod_def assms(2) Let_def
  by (auto split: if_splits sum.splits prod.splits dest!: call_frame(1,2))

lemma syncPod_effect:
  assumes "syncPod r pool p t sched f = (t', sched', f')" "pr_Kube r = k" "pr_Client r = cl"
  shows "reported sched sched' \<and> view f' = view f"
proof -
  obtain slots f1 where obs: "observePod r p f = (slots, f1)" by fastforce
  note f1 = observe_frame [OF obs assms(3)]
  note run = assms(1) [unfolded syncPod_def assms(2) Let_def obs prod.case]
  show ?thesis
  proof (cases slots)
    case None
    with run f1 remove_reported show ?thesis by auto
  next
    case (Some xs)
    obtain now f2 where now: "ku_Now k f1 = (now, f2)" by fastforce
    with run Some f1 read_frame(10) [OF now] show ?thesis
      by (auto intro!: update_reported slotMapOf_ok)
  qed
qed

lemma syncPods_effect:
  assumes "syncPods r pool ps t sched f = (t', sched', f')" "pr_Kube r = k" "pr_Client r = cl"
  shows "reported sched sched' \<and> view f' = view f"
  using assms(1)
proof (induction ps arbitrary: t sched f)
  case Nil
  then show ?case by (simp add: reported_refl)
next
  case (Cons p ps)
  obtain t1 sched1 f1 where run: "syncPod r pool p t sched f = (t1, sched1, f1)" by (metis prod_cases3)
  with Cons.prems Cons.IH [of t1 sched1 f1] syncPod_effect [OF run assms(2,3)] show ?case
    by (auto intro: reported_trans)
qed

lemma poolStatus_effect:
  assumes "poolSyncStatus r pending pool sched f = (err, sched', f')" "pr_Kube r = k" "pr_Client r = cl"
  shows "reported sched sched' \<and> view f' = view f"
proof -
  obtain pods f1 where pods: "ku_ListPods k (poolNs pool) [(labelManaged, ''true''), (labelPool, poolName pool)] f = (pods, f1)"
    by fastforce
  note f1 = read_frame(6) [OF pods]
  note run = assms(1) [unfolded poolSyncStatus_def assms(2) Let_def pods prod.case]
  show ?thesis
  proof (cases pods)
    case (Inl e)
    with run f1 show ?thesis by (auto simp: reported_refl)
  next
    case (Inr ps)
    obtain t sched1 f2 where sync: "syncPods r pool ps (newTally pool) sched f1 = (t, sched1, f2)" by (metis prod_cases3)
    note step = syncPods_effect [OF sync assms(2,3)]
    have "sched' = removeMissing pool t sched1" "view f' = view f2"
      using run unfolding Inr sum.case sync prod.case
      by (auto split: if_splits prod.splits dest!: write_frame(3))
    with step f1 show ?thesis by (auto intro: reported_trans [OF _ removeMissing_reported])
  qed
qed

lemma PoolReconcile_effect:
  assumes "PoolReconcile r ns n sched f = (res, sched', f')" "pr_Kube r = k" "pr_Client r = cl"
  shows "reported sched sched' \<and> view f' = view f"
proof -
  obtain got f1 where got: "ku_GetPool k ns n f = (got, f1)" by fastforce
  note f1 = read_frame(4) [OF got]
  note run = assms(1) [unfolded PoolReconcile_def assms(2) Let_def got prod.case]
  show ?thesis
  proof (cases got)
    case (Inl e)
    with run f1 show ?thesis by (auto simp: reported_refl)
  next
    case (Inr pool)
    obtain err f2 where svc: "syncService r pool f1 = (err, f2)" by fastforce
    note f2 = service_frame [OF svc assms(2)]
    show ?thesis
    proof (cases err)
      case (Some e)
      with run Inr svc f1 f2 show ?thesis by (auto simp: reported_refl)
    next
      case None
      obtain res1 pool1 f3 where ts: "syncTemplates r (po_WorkerTemplates (po_Spec pool)) [] pool f2 = (res1, pool1, f3)"
        by (metis prod_cases3)
      note f3 = templates_frame [OF ts assms(2,3)]
      show ?thesis
      proof (cases res1)
        case (Inl stop)
        with run Inr svc None ts f1 f2 f3 show ?thesis by (auto simp: reported_refl)
      next
        case pending: (Inr pending)
        obtain err2 sched1 f4 where st: "poolSyncStatus r pending pool1 sched f3 = (err2, sched1, f4)"
          by (metis prod_cases3)
        with run Inr svc None ts pending f1 f2 f3 poolStatus_effect [OF st assms(2,3)] show ?thesis by simp
      qed
    qed
  qed
qed

end

end
