(* ===== verification/Assignments.thy ===== *)
theory Assignments
  imports ApiFrames
begin

text \<open>
  The assignments of Sandboxes to Slots exist twice: in the scheduler's memory and in the status of the
  Sandboxes the API server stores.  This theory states how the two agree, and that everything the
  Sandbox controller does to them keeps the agreement, whatever fails.
\<close>

subsection \<open>The agreement\<close>

definition apiOf :: "assignment \<Rightarrow> api_assignment" where
  "apiOf a = \<lparr>aa_Worker = wk_Name (as_Worker a), aa_SlotID = as_SlotID a, aa_SlotProfile = as_SlotProfile a\<rparr>"

text \<open>
  A Sandbox agrees with the scheduler: what the scheduler holds for its UID is an assignment made for it,
  and the assignment in its status, if it has one, is the one the scheduler holds.
\<close>

definition box_ok :: "memory_scheduler \<Rightarrow> sandbox \<Rightarrow> bool" where
  "box_ok sched s \<longleftrightarrow>
     (\<forall>a. Get (om_UID (sb_Meta s)) sched = Some a \<longrightarrow> a = assignmentFromSandbox s (apiOf a)) \<and>
     (\<forall>x. ss_Assignment (sb_Status s) = Some x \<longrightarrow> Get (om_UID (sb_Meta s)) sched = Some (assignmentFromSandbox s x))"

type_synonym boxes = "string \<times> string \<Rightarrow> sandbox option"

text \<open>\<open>U\<close> are the UIDs the API server has given out.\<close>

definition box_inv :: "memory_scheduler \<Rightarrow> boxes \<Rightarrow> string set \<Rightarrow> bool" where
  "box_inv sched b U \<longleftrightarrow> sched_inv sched \<and>
     (\<forall>key s. b key = Some s \<longrightarrow> metaKey (sb_Meta s) = key \<and> om_UID (sb_Meta s) \<in> U) \<and>
     (\<forall>key key' s s'. b key = Some s \<longrightarrow> b key' = Some s' \<longrightarrow> om_UID (sb_Meta s) = om_UID (sb_Meta s') \<longrightarrow> key = key') \<and>
     (\<forall>u a. Get u sched = Some a \<longrightarrow> u \<in> U) \<and>
     (\<forall>key s. b key = Some s \<longrightarrow> \<not> om_Deleting (sb_Meta s) \<longrightarrow> box_ok sched s)"

lemma box_invD:
  assumes "box_inv sched b U" "b key = Some s"
  shows "metaKey (sb_Meta s) = key" "om_UID (sb_Meta s) \<in> U" "\<not> om_Deleting (sb_Meta s) \<Longrightarrow> box_ok sched s"
    "sched_inv sched" "b key' = Some s' \<Longrightarrow> om_UID (sb_Meta s') = om_UID (sb_Meta s) \<Longrightarrow> key' = key"
  using assms unfolding box_inv_def by blast+

lemma box_inv_uid: "box_inv sched b U \<Longrightarrow> Get u sched = Some a \<Longrightarrow> u \<in> U"
  unfolding box_inv_def by blast

lemma box_invI:
  assumes "sched_inv sched" "\<And>u a. Get u sched = Some a \<Longrightarrow> u \<in> U"
    and "\<And>key s. b key = Some s \<Longrightarrow> metaKey (sb_Meta s) = key \<and> om_UID (sb_Meta s) \<in> U"
    and "\<And>key key' s s'. b key = Some s \<Longrightarrow> b key' = Some s' \<Longrightarrow> om_UID (sb_Meta s) = om_UID (sb_Meta s') \<Longrightarrow> key = key'"
    and "\<And>key s. b key = Some s \<Longrightarrow> \<not> om_Deleting (sb_Meta s) \<Longrightarrow> box_ok sched s"
  shows "box_inv sched b U"
  using assms unfolding box_inv_def by blast

text \<open>A write of the status of one Sandbox, or nothing; \<open>A\<close> is the assignment in the status written.\<close>

definition restatus :: "string \<times> string \<Rightarrow> api_assignment option \<Rightarrow> boxes \<Rightarrow> boxes \<Rightarrow> bool" where
  "restatus key A b b' \<longleftrightarrow>
     b' = b \<or> (\<exists>cur st. b key = Some cur \<and> ss_Assignment st = A \<and> b' = b(key \<mapsto> cur\<lparr>sb_Status := st\<rparr>))"

lemma restatus_refl [simp]: "restatus key A b b"
  by (simp add: restatus_def)

text \<open>Changes of one stored Sandbox and of the scheduler that keep the agreement.\<close>

lemma box_inv_change:
  assumes inv: "box_inv sched b U" and key: "b key = Some s"
    and new: "metaKey (sb_Meta t) = key" "om_UID (sb_Meta t) = om_UID (sb_Meta s)"
    and sched: "sched_inv sched'" "\<And>v. v \<noteq> om_UID (sb_Meta s) \<Longrightarrow> Get v sched' = Get v sched"
    and ok: "\<not> om_Deleting (sb_Meta t) \<Longrightarrow> box_ok sched' t"
  shows "box_inv sched' (b(key \<mapsto> t)) U"
proof (rule box_invI)
  let ?u = "om_UID (sb_Meta s)"
  have uid: "om_UID (sb_Meta s') \<noteq> ?u" if "b key' = Some s'" "key' \<noteq> key" for key' s'
    using box_invD(5) [OF inv key that(1)] that(2) by blast
  show "sched_inv sched'" by fact
  show "u \<in> U" if "Get u sched' = Some a" for u a
    using that sched(2) [of u] box_inv_uid [OF inv] box_invD(2) [OF inv key] by (cases "u = ?u") auto
  show "metaKey (sb_Meta t') = key' \<and> om_UID (sb_Meta t') \<in> U" if "(b(key \<mapsto> t)) key' = Some t'" for key' t'
    using that new box_invD(2) [OF inv key] box_invD(1,2) [OF inv, of key' t'] by (cases "key' = key") auto
  show "key' = key''" if "(b(key \<mapsto> t)) key' = Some t'" "(b(key \<mapsto> t)) key'' = Some t''"
    "om_UID (sb_Meta t') = om_UID (sb_Meta t'')" for key' key'' t' t''
    using that new(2) uid [of key' t'] uid [of key'' t''] box_invD(5) [OF inv, of key'' t'' key' t']
    by (cases "key' = key"; cases "key'' = key") auto
  show "box_ok sched' t'" if "(b(key \<mapsto> t)) key' = Some t'" "\<not> om_Deleting (sb_Meta t')" for key' t'
  proof (cases "key' = key")
    case True
    with that ok show ?thesis by simp
  next
    case False
    with that uid [of key' t'] box_invD(3) [OF inv, of key' t'] show ?thesis
      by (simp add: box_ok_def sched(2))
  qed
qed

lemma box_ok_status: "box_ok sched s \<Longrightarrow> ss_Assignment st = ss_Assignment (sb_Status s) \<Longrightarrow> box_ok sched (s\<lparr>sb_Status := st\<rparr>)"
  by (simp add: box_ok_def assignmentFromSandbox_def)

lemma restatus_inv:
  assumes "box_inv sched b U" "b key = Some s" "restatus key (ss_Assignment (sb_Status s)) b b'"
  shows "box_inv sched b' U"
  using assms(3) unfolding restatus_def
proof (elim disjE exE conjE)
  fix cur st
  assume st: "b key = Some cur" "ss_Assignment st = ss_Assignment (sb_Status s)" "b' = b(key \<mapsto> cur\<lparr>sb_Status := st\<rparr>)"
  with assms(2) have "cur = s" by simp
  have "box_inv sched (b(key \<mapsto> s\<lparr>sb_Status := st\<rparr>)) U"
  proof (rule box_inv_change [OF assms(1,2)])
    show "box_ok sched (s\<lparr>sb_Status := st\<rparr>)" if "\<not> om_Deleting (sb_Meta (s\<lparr>sb_Status := st\<rparr>))"
      using box_invD(3) [OF assms(1,2)] that st(2) by (intro box_ok_status) simp_all
  qed (use box_invD [OF assms(1,2)] in simp_all)
  with st \<open>cur = s\<close> show ?thesis by simp
qed (use assms in simp)

lemma finalizer_inv:
  assumes "box_inv sched b U" "b key = Some s"
  shows "box_inv sched (b(key \<mapsto> s\<lparr>sb_Meta := (sb_Meta s)\<lparr>om_Finalizers := fs\<rparr>\<rparr>)) U"
proof (rule box_inv_change [OF assms])
  let ?t = "s\<lparr>sb_Meta := (sb_Meta s)\<lparr>om_Finalizers := fs\<rparr>\<rparr>"
  show "box_ok sched ?t" if "\<not> om_Deleting (sb_Meta ?t)"
    using box_invD(3) [OF assms] that by (simp add: box_ok_def assignmentFromSandbox_def)
qed (use box_invD [OF assms] in \<open>simp_all add: metaKey_def\<close>)

context placement_strategy
begin

lemma assign_keeps_inv:
  assumes inv: "box_inv sched b U" and key: "b key = Some s" "\<not> om_Deleting (sb_Meta s)"
    and run: "Assign (select d)
      \<lparr>ar_SandboxUID = om_UID (sb_Meta s), ar_Namespace = om_Namespace (sb_Meta s), ar_Name = om_Name (sb_Meta s),
       ar_Pool = sb_PoolRef (sb_Spec s), ar_SlotProfile = sb_SlotProfile (sb_Spec s)\<rparr> sched = Some (Inr a, sched')"
    and st: "restatus key (Some (apiOf a)) b b'" "ss_Assignment (sb_Status s) = None"
  shows "box_inv sched' b' U"
proof -
  note s = box_invD [OF inv key(1)]
  have "sched_inv sched'" using Assign_inv [OF s(4) run] .
  moreover have "Get (om_UID (sb_Meta s)) sched' = Some a \<and> a = assignmentFromSandbox s (apiOf a) \<and>
      (\<forall>v. v \<noteq> om_UID (sb_Meta s) \<longrightarrow> Get v sched' = Get v sched)"
    using run
  proof (cases rule: Assign_outcome [where d = d and s = sched and req = "\<lparr>ar_SandboxUID = om_UID (sb_Meta s),
      ar_Namespace = om_Namespace (sb_Meta s), ar_Name = om_Name (sb_Meta s), ar_Pool = sb_PoolRef (sb_Spec s),
      ar_SlotProfile = sb_SlotProfile (sb_Spec s)\<rparr>"])
    case (known a')
    with run s(3) [OF key(2)] show ?thesis by (auto simp: box_ok_def Get_def)
  next
    case (placed k i)
    with run show ?thesis
      by (auto simp: Get_def placed_def assignmentOf_def assignmentFromSandbox_def apiOf_def offers_def)
  qed (use run in auto)
  moreover from this have ok: "box_ok sched' (s\<lparr>sb_Status := st\<rparr>)" if "ss_Assignment st = None \<or> ss_Assignment st = Some (apiOf a)" for st
    using that by (auto simp: box_ok_def assignmentFromSandbox_def)
  ultimately have "box_inv sched' (b(key \<mapsto> s\<lparr>sb_Status := st\<rparr>)) U"
    if "ss_Assignment st = None \<or> ss_Assignment st = Some (apiOf a)" for st
    using that s(1) by (intro box_inv_change [OF inv key(1)]) simp_all
  note change = this
  from st(1) show ?thesis
    unfolding restatus_def
  proof (elim disjE exE conjE)
    assume "b' = b"
    with change [of "sb_Status s"] st(2) key(1) show ?thesis by (simp add: fun_upd_idem)
  qed (use change key(1) in simp)
qed

end

lemma Restore_known: "Get (as_SandboxUID a) sched = Some a \<Longrightarrow> Restore a sched = (None, sched)"
  by (simp add: Get_def Restore_def)

lemma Get_Release: "Get v (Release u sched) = (if v = u then None else Get v sched)"
  by (auto simp: Get_def Release_def Let_def split: option.splits)

lemma release_keeps_inv:
  assumes inv: "box_inv sched b U" and key: "b key = Some s" "om_Deleting (sb_Meta s)"
    and sched: "sched' = sched \<or> sched' = Release (om_UID (sb_Meta s)) sched"
    and new: "\<And>key'. key' \<noteq> key \<Longrightarrow> b' key' = b key'"
      "\<And>t. b' key = Some t \<Longrightarrow> om_Deleting (sb_Meta t) \<and> metaKey (sb_Meta t) = key \<and> om_UID (sb_Meta t) = om_UID (sb_Meta s)"
  shows "box_inv sched' b' U"
proof -
  note s = box_invD [OF inv key(1)]
  have "sched_inv sched'" "\<And>v. v \<noteq> om_UID (sb_Meta s) \<Longrightarrow> Get v sched' = Get v sched"
    using sched s(4) by (auto intro: Release_inv simp: Get_Release)
  then have step: "box_inv sched' (b(key \<mapsto> t)) U" if "om_Deleting (sb_Meta t)" "metaKey (sb_Meta t) = key"
      "om_UID (sb_Meta t) = om_UID (sb_Meta s)" for t
    using that by (intro box_inv_change [OF inv key(1)]) simp_all
  show ?thesis
  proof (cases "b' key")
    case (Some t)
    with new(1) have "b' = b(key \<mapsto> t)" by (intro ext) simp
    with step new(2) [OF Some] show ?thesis by simp
  next
    case None
    have "box_inv sched' (b(key \<mapsto> s)) U" using step key(2) s(1) by blast
    moreover have sub: "(b(key \<mapsto> s)) key' = Some t" if "b' key' = Some t" for key' t
      using that None new(1) [of key'] by (cases "key' = key") auto
    ultimately show ?thesis
      by (intro box_invI) (auto dest: box_invD sub box_inv_uid)
  qed
qed


subsection \<open>What the Sandbox controller relies on\<close>

text \<open>
  The API server's Sandboxes: a read returns the stored object, a write is done, not done, or done
  although an error is reported; other calls leave the Sandboxes alone.  The finalizer helpers change
  nothing but the finalizers.
\<close>

locale sandbox_api = quiet_api k cl boxes
  for k :: "('q :: {linorder, comm_monoid_add}, 'f) kube" and cl :: "('q, 'f) worker_client" and boxes :: "'f \<Rightarrow> boxes" +
  assumes read_box: "ku_GetSandbox k ns n f = (Inr s, f') \<Longrightarrow> boxes f (ns, n) = Some s"
    and put_status: "ku_UpdateSandboxStatus k s f = (r, f') \<Longrightarrow> boxes f' = boxes f \<and> (\<exists>e. r = Inl e) \<or>
      (\<exists>cur. boxes f (metaKey (sb_Meta s)) = Some cur \<and> boxes f' = (boxes f)(metaKey (sb_Meta s) \<mapsto> cur\<lparr>sb_Status := sb_Status s\<rparr>) \<and>
        (\<forall>new. r = Inr new \<longrightarrow> new = cur\<lparr>sb_Status := sb_Status s\<rparr>))"
    and put_box: "ku_UpdateSandbox k s f = (err, f') \<Longrightarrow> boxes f' = boxes f \<or> boxes f (metaKey (sb_Meta s)) \<noteq> None \<and>
      (boxes f' = (boxes f)(metaKey (sb_Meta s) \<mapsto> s) \<or> om_Deleting (sb_Meta s) \<and> boxes f' = (boxes f)(metaKey (sb_Meta s) := None))"
    and finalizers: "\<exists>fs. ku_AddFinalizer k m z = m\<lparr>om_Finalizers := fs\<rparr>" "\<exists>fs. ku_RemoveFinalizer k m z = m\<lparr>om_Finalizers := fs\<rparr>"
begin

lemma get_box: "ku_GetSandbox k ns n f = (r, f') \<Longrightarrow> boxes f' = boxes f \<and> (\<forall>s. r = Inr s \<longrightarrow> boxes f (ns, n) = Some s)"
  using read_frame(1) read_box by blast

lemmas frame = read_frame(4) read_frame(5) read_frame(3) read_frame(7) call_frame(4) call_frame(5) call_frame(6) call_frame(7)
  call_frame(9)

definition keyed :: "'f \<Rightarrow> bool" where
  "keyed f \<longleftrightarrow> (\<forall>key s. boxes f key = Some s \<longrightarrow> metaKey (sb_Meta s) = key)"

lemma syncStatus_effect:
  assumes "sandboxSyncStatus k s f = (err, s', f')" "keyed f"
  shows "restatus (metaKey (sb_Meta s)) (ss_Assignment (sb_Status s)) (boxes f) (boxes f') \<and>
    (err = None \<longrightarrow> (\<exists>cur. boxes f (metaKey (sb_Meta s)) = Some cur \<and> sb_Meta s' = sb_Meta cur) \<and>
       sb_Spec s' = sb_Spec s \<and> ss_Assignment (sb_Status s') = ss_Assignment (sb_Status s))"
proof -
  let ?st = "(sb_Status s)\<lparr>ss_ObservedGeneration := om_Generation (sb_Meta s)\<rparr>"
  obtain got f1 where got: "ku_GetSandbox k (om_Namespace (sb_Meta s)) (om_Name (sb_Meta s)) f = (got, f1)"
    by fastforce
  have f1: "boxes f1 = boxes f" using get_box [OF got] by blast
  show ?thesis
  proof (cases got)
    case (Inl e)
    with assms(1) got f1 show ?thesis by (auto simp: sandboxSyncStatus_def Let_def)
  next
    case (Inr cur)
    then have cur: "boxes f (metaKey (sb_Meta s)) = Some cur" "metaKey (sb_Meta cur) = metaKey (sb_Meta s)"
      using get_box [OF got] assms(2) by (auto simp: metaKey_def keyed_def)
    show ?thesis
    proof (cases "sb_Status cur = ?st")
      case True
      with assms(1) got Inr f1 cur(1) show ?thesis by (auto simp: sandboxSyncStatus_def Let_def)
    next
      case False
      obtain upd f2 where upd: "ku_UpdateSandboxStatus k (cur\<lparr>sb_Status := ?st\<rparr>) f1 = (upd, f2)"
        by fastforce
      have f': "f' = f2"
        using assms(1) got Inr False upd by (auto simp: sandboxSyncStatus_def Let_def split: sum.splits)
      have "restatus (metaKey (sb_Meta s)) (ss_Assignment (sb_Status s)) (boxes f) (boxes f')"
        using put_status [OF upd] cur f1 unfolding f' restatus_def
        by (auto intro!: exI [of _ ?st])
      moreover have "sb_Meta s' = sb_Meta cur \<and> sb_Spec s' = sb_Spec s \<and> ss_Assignment (sb_Status s') = ss_Assignment (sb_Status s)"
        if "err = None"
        using that put_status [OF upd] cur f1 assms(1) got Inr False upd
        by (auto simp: sandboxSyncStatus_def Let_def split: sum.splits)
      ultimately show ?thesis using cur(1) by blast
    qed
  qed
qed

lemma finishWith_effect:
  assumes "finishWith k after s f = (res, f')" "keyed f"
  shows "restatus (metaKey (sb_Meta s)) (ss_Assignment (sb_Status s)) (boxes f) (boxes f')"
proof -
  obtain err s1 f1 where "sandboxSyncStatus k s f = (err, s1, f1)" by (metis prod_cases3)
  with syncStatus_effect [OF this assms(2)] assms(1) show ?thesis
    by (auto simp: finishWith_def split: option.splits)
qed

lemma condition_simps [simp]:
  "sb_Meta (setSandboxCondition k ty st reason message s) = sb_Meta s"
  "ss_Assignment (sb_Status (setSandboxCondition k ty st reason message s)) = ss_Assignment (sb_Status s)"
  "sb_Meta (setPhase p s) = sb_Meta s" "sb_Spec (setPhase p s) = sb_Spec s"
  "ss_Assignment (sb_Status (setPhase p s)) = ss_Assignment (sb_Status s)"
  by (simp_all add: setSandboxCondition_def setPhase_def)

lemma handleWorkerError_effect:
  assumes "handleWorkerError k s reason e f = (res, f')" "keyed f"
  shows "restatus (metaKey (sb_Meta s)) (ss_Assignment (sb_Status s)) (boxes f) (boxes f')"
  using assms finishWith_effect [of _ _ f res f'] by (fastforce simp: handleWorkerError_def Let_def split: if_splits)

lemma keyed_cong: "boxes f' = boxes f \<Longrightarrow> keyed f' \<longleftrightarrow> keyed f"
  by (simp add: keyed_def)

lemma startFromSnapshot_frame:
  assumes "startFromSnapshot r s ep ref f = (err, f')" "rc_Kube r = k" "rc_Client r = cl"
  shows "boxes f' = boxes f"
  using assms(1) unfolding startFromSnapshot_def assms(2,3) Let_def
  by (auto split: prod.splits sum.splits if_splits dest!: frame storage_frame)

lemma launch_effect:
  assumes "launch r s ep ref f = (stopped, f')" "rc_Kube r = k" "rc_Client r = cl" "keyed f"
  shows "restatus (metaKey (sb_Meta s)) (ss_Assignment (sb_Status s)) (boxes f) (boxes f') \<and>
    (stopped = None \<longrightarrow> boxes f' = boxes f)"
proof (cases "sb_FromSnapshot (sb_Spec s) = []")
  case False
  obtain err f1 where run: "startFromSnapshot r s ep ref f = (err, f1)" by fastforce
  note same = startFromSnapshot_frame [OF run assms(2,3)]
  show ?thesis
  proof (cases err)
    case None
    with assms(1) run False same show ?thesis by (simp add: launch_def)
  next
    case (Some e)
    obtain res f2 where "handleWorkerError k s ''RestoreFailed'' e f1 = (res, f2)" by fastforce
    with handleWorkerError_effect [OF this] keyed_cong [OF same] assms run False Some show ?thesis
      by (auto simp: launch_def same)
  qed
next
  case snap: True
  show ?thesis
  proof (cases "sb_Container (sb_Spec s)")
    case None
    let ?s = "setPhase SandboxPhaseFailed (setSandboxCondition k ConditionReady False ''InvalidSpec''
      (Lit ''container is required when fromSnapshot is empty'') s)"
    obtain res f2 where "finishWith k 0 ?s f = (res, f2)" by fastforce
    with finishWith_effect [OF this assms(4)] assms None snap show ?thesis
      by (auto simp: launch_def)
  next
    case (Some c)
    obtain err f1 where run: "wl_StartSandbox cl ep \<lparr>sq_SlotID = sr_SlotID ref, sq_Identity = sr_Identity ref, sq_Container = c\<rparr> f = (err, f1)"
      by fastforce
    note same = frame(6) [OF run]
    show ?thesis
    proof (cases err)
      case None
      with assms run Some snap same show ?thesis by (simp add: launch_def)
    next
      case err: (Some e)
      obtain res f2 where "handleWorkerError k s ''StartFailed'' e f1 = (res, f2)" by fastforce
      with handleWorkerError_effect [OF this] keyed_cong [OF same] assms run err Some snap show ?thesis
        by (auto simp: launch_def same)
    qed
  qed
qed

lemma syncStart_effect:
  assumes "syncStart r s a sched f = (res, sched', f')" "rc_Kube r = k" "rc_Client r = cl" "keyed f"
    and known: "Get (om_UID (sb_Meta s)) sched = Some (assignmentFromSandbox s a)"
  shows "sched' = sched \<and> restatus (metaKey (sb_Meta s)) (ss_Assignment (sb_Status s)) (boxes f) (boxes f')"
proof -
  have restored: "Restore (assignmentFromSandbox s a) sched = (None, sched)"
    using known by (intro Restore_known) (simp add: assignmentFromSandbox_def)
  note run = assms(1) [unfolded syncStart_def assms(2,3) restored Let_def, simplified]
  obtain ep f1 where ep: "resolveWorkerEndpoint r (om_Namespace (sb_Meta s)) (aa_Worker a) f = (ep, f1)"
    by fastforce
  note f1 = resolve_frame [OF ep assms(2)]
  note keyed1 = assms(4) [folded keyed_cong [OF f1]]
  show ?thesis
  proof (cases ep)
    case (Inl e)
    with run ep f1 keyed1 show ?thesis
      by (auto split: prod.splits dest!: finishWith_effect)
  next
    case (Inr endpoint)
    let ?ref = "\<lparr>sr_SlotID = aa_SlotID a, sr_Identity = sandboxIdentity s\<rparr>"
    obtain err f2 where reserve: "wl_ReserveSlot cl endpoint ?ref f1 = (err, f2)"
      by fastforce
    note f2 = trans [OF frame(5) [OF reserve] f1]
    note keyed2 = assms(4) [folded keyed_cong [OF f2]]
    show ?thesis
    proof (cases err)
      case (Some e)
      with run ep Inr reserve f2 keyed2 show ?thesis
        by (auto split: prod.splits dest!: handleWorkerError_effect)
    next
      case None
      obtain stopped f3 where l: "launch r s endpoint ?ref f2 = (stopped, f3)"
        by fastforce
      note f3 = launch_effect [OF l assms(2,3) keyed2, unfolded f2]
      show ?thesis
      proof (cases stopped)
        case (Some res')
        with run ep Inr reserve None l f3 show ?thesis by simp
      next
        case up: None
        with f3 have same: "boxes f3 = boxes f" by blast
        with keyed_cong [OF same] assms(4) run ep Inr reserve None l up show ?thesis
          by (auto split: prod.splits dest!: finishWith_effect)
      qed
    qed
  qed
qed

lemma teardown_effect:
  assumes "teardown r s f = (down, f')" "rc_Kube r = k" "rc_Client r = cl" "keyed f"
    and key: "boxes f (metaKey (sb_Meta s)) = Some s"
  shows "restatus (metaKey (sb_Meta s)) (ss_Assignment (sb_Status s)) (boxes f) (boxes f') \<and>
    (\<forall>s'. down = Inr s' \<longrightarrow> sb_Meta s' = sb_Meta s)"
proof (cases "ss_Assignment (sb_Status s)")
  case None
  with assms(1) show ?thesis by (auto simp: teardown_def)
next
  case (Some a)
  obtain err s1 f1 where sync: "sandboxSyncStatus k (setPhase SandboxPhaseStopping s) f = (err, s1, f1)"
    by (metis prod_cases3)
  note f1 = syncStatus_effect [OF sync assms(4), simplified]
  show ?thesis
  proof (cases err)
    case (Some e)
    with assms(1,2) sync f1 \<open>ss_Assignment (sb_Status s) = Some a\<close> show ?thesis
      by (auto simp: teardown_def)
  next
    case None
    with f1 key Some have s1: "sb_Meta s1 = sb_Meta s" "ss_Assignment (sb_Status s1) = Some a" by auto
    note run = assms(1) [unfolded teardown_def assms(2,3) Some sync None Let_def prod.case option.case s1(2)]
    obtain ep f2 where ep: "resolveWorkerEndpoint r (om_Namespace (sb_Meta s1)) (aa_Worker a) f1 = (ep, f2)"
      by fastforce
    note f2 = resolve_frame [OF ep assms(2)]
    have "boxes f' = boxes f1 \<and> (down = Inr s1 \<or> (\<exists>res. down = Inl res))"
    proof (cases ep)
      case (Inl e)
      with run ep f2 show ?thesis by auto
    next
      case (Inr endpoint)
      let ?ref = "\<lparr>sr_SlotID = aa_SlotID a, sr_Identity = sandboxIdentity s1\<rparr>"
      obtain err1 f3 where stop: "wl_StopSandbox cl endpoint ?ref f2 = (err1, f3)" by fastforce
      obtain err2 f4 where release: "wl_ReleaseSlot cl endpoint ?ref f3 = (err2, f4)" by fastforce
      from run ep Inr stop release frame(7) [OF stop] frame(8) [OF release] f2 show ?thesis
        by (cases err1; cases err2) auto
    qed
    with f1 s1(1) show ?thesis by auto
  qed
qed

lemma inv_keyed: "box_inv sched (boxes f) U \<Longrightarrow> keyed f"
  by (auto simp: keyed_def box_inv_def)

lemma syncDelete_inv:
  assumes "syncDelete r s sched f = (res, sched', f')" "rc_Kube r = k" "rc_Client r = cl"
    and inv: "box_inv sched (boxes f) U" and key: "boxes f (metaKey (sb_Meta s)) = Some s" "om_Deleting (sb_Meta s)"
  shows "box_inv sched' (boxes f') U"
proof (cases "ku_ContainsFinalizer k (sb_Meta s) SandboxFinalizer")
  case False
  with assms show ?thesis by (simp add: syncDelete_def)
next
  case True
  obtain down f1 where down: "teardown r s f = (down, f1)" by fastforce
  note f1 = teardown_effect [OF down assms(2,3) inv_keyed [OF inv] key(1)]
  have inv1: "box_inv sched (boxes f1) U"
    using restatus_inv [OF inv key(1)] f1 by blast
  from f1 key obtain s1 where s1: "boxes f1 (metaKey (sb_Meta s)) = Some s1" "sb_Meta s1 = sb_Meta s"
    by (auto simp: restatus_def)
  show ?thesis
  proof (cases down)
    case (Inl res')
    with assms(1,2) True down inv1 show ?thesis by (simp add: syncDelete_def)
  next
    case (Inr s')
    let ?t = "s'\<lparr>sb_Meta := ku_RemoveFinalizer k (sb_Meta s') SandboxFinalizer\<rparr>"
    obtain fs where fs: "ku_RemoveFinalizer k (sb_Meta s') SandboxFinalizer = (sb_Meta s')\<lparr>om_Finalizers := fs\<rparr>"
      using finalizers(2) by blast
    have meta: "sb_Meta s' = sb_Meta s" using f1 Inr by blast
    then have mkey: "metaKey (sb_Meta ?t) = metaKey (sb_Meta s)" using fs by (simp add: metaKey_def)
    obtain err f2 where put: "ku_UpdateSandbox k ?t f1 = (err, f2)" by fastforce
    have eq: "sched' = Release (om_UID (sb_Meta s1)) sched" "f' = f2"
      using assms(1,2) True down Inr put meta s1(2) by (auto simp: syncDelete_def Let_def split: option.splits)
    show ?thesis
      using put_box [OF put] unfolding eq mkey
      by (intro release_keeps_inv [OF inv1 s1(1)]) (use s1 key meta fs in \<open>auto simp: metaKey_def split: if_splits\<close>)
  qed
qed

end

locale sandbox_system = sandbox_api k cl boxes + placement_strategy select
  for k :: "('q :: {linorder, comm_monoid_add}, 'f) kube" and cl :: "('q, 'f) worker_client" and boxes :: "'f \<Rightarrow> boxes" and select :: "nat \<Rightarrow> strategy"
begin

lemma syncAssign_inv:
  assumes "syncAssign r s pool sched f = (res, sched', f')" "rc_Kube r = k" "rc_Select r = select d"
    and inv: "box_inv sched (boxes f) U" and key: "boxes f (metaKey (sb_Meta s)) = Some s" "\<not> om_Deleting (sb_Meta s)"
    and none: "ss_Assignment (sb_Status s) = None"
  shows "box_inv sched' (boxes f') U"
proof -
  let ?req = "\<lparr>ar_SandboxUID = om_UID (sb_Meta s), ar_Namespace = om_Namespace (sb_Meta s), ar_Name = om_Name (sb_Meta s),
       ar_Pool = sb_PoolRef (sb_Spec s), ar_SlotProfile = sb_SlotProfile (sb_Spec s)\<rparr>"
  note keyed = inv_keyed [OF inv]
  have same: "box_inv sched1 (boxes f1) U" if "finishWith k n t f = (res1, f1)" "sched1 = sched" "metaKey (sb_Meta t) = metaKey (sb_Meta s)"
      "ss_Assignment (sb_Status t) = None" for n t res1 f1 sched1
    using finishWith_effect [OF that(1) keyed] that(2-) none restatus_inv [OF inv key(1)] by simp
  have set: "box_inv sched1 (boxes f1) U" if "finishWith k n t f = (res1, f1)" "metaKey (sb_Meta t) = metaKey (sb_Meta s)"
      "ss_Assignment (sb_Status t) = Some (apiOf a)" "Assign (select d) ?req sched2 = Some (Inr a, sched1)" "sched2 = sched"
    for n t a sched1 sched2 res1 f1
    using finishWith_effect [OF that(1) keyed] that(2-) assign_keeps_inv [OF inv key, of d a sched1] none by simp
  note run = assms(1) [unfolded syncAssign_def assms(2,3) Let_def]
  show ?thesis
  proof (cases rule: Assign_outcome [where d = d and s = sched and req = ?req])
    case (known a)
    with run none show ?thesis
      by (auto split: if_splits prod.splits intro: same set simp: apiOf_def)
  next
    case (rejected e)
    with run none inv show ?thesis
      by (auto split: if_splits prod.splits intro: same)
  next
    case (placed k' i)
    with run none show ?thesis
      by (auto split: if_splits prod.splits intro: same set simp: apiOf_def)
  qed
qed

lemma reconcile_keeps_inv:
  assumes "SandboxReconcile r ns n sched f = (res, sched', f')"
    and r: "rc_Kube r = k" "rc_Client r = cl" "rc_Select r = select d"
    and inv: "box_inv sched (boxes f) U"
  shows "box_inv sched' (boxes f') U"
proof -
  obtain got f1 where got: "ku_GetSandbox k ns n f = (got, f1)" by fastforce
  note f1 = get_box [OF got]
  have inv1: "box_inv sched (boxes f1) U" using f1 inv by simp
  note run = assms(1) [unfolded SandboxReconcile_def r(1) Let_def got prod.case]
  show ?thesis
  proof (cases got)
    case (Inl e)
    with run inv1 show ?thesis by simp
  next
    case (Inr s)
    with f1 have key: "boxes f1 (metaKey (sb_Meta s)) = Some s"
      using box_invD(1) [OF inv1, of "(ns, n)" s] by simp
    note run = run [unfolded Inr sum.case]
    show ?thesis
    proof (cases "om_Deleting (sb_Meta s)")
      case True
      with run syncDelete_inv [OF _ r(1,2) inv1 key] show ?thesis by simp
    next
      case alive: False
      show ?thesis
      proof (cases "ku_ContainsFinalizer k (sb_Meta s) SandboxFinalizer")
        case False
        let ?t = "s\<lparr>sb_Meta := ku_AddFinalizer k (sb_Meta s) SandboxFinalizer\<rparr>"
        obtain fs where fs: "ku_AddFinalizer k (sb_Meta s) SandboxFinalizer = (sb_Meta s)\<lparr>om_Finalizers := fs\<rparr>"
          using finalizers(1) by blast
        obtain err f2 where put: "ku_UpdateSandbox k ?t f1 = (err, f2)" by fastforce
        have eq: "sched' = sched" "f' = f2"
          using run alive False put by (auto split: option.splits)
        have "boxes f2 = boxes f1 \<or> boxes f2 = (boxes f1)(metaKey (sb_Meta s) \<mapsto> s\<lparr>sb_Meta := (sb_Meta s)\<lparr>om_Finalizers := fs\<rparr>\<rparr>)"
          using put_box [OF put] alive unfolding fs by (auto simp: metaKey_def)
        then show ?thesis
          unfolding eq using inv1 finalizer_inv [OF inv1 key, of fs] by auto
      next
        case fin: True
        obtain gotPool f2 where pool: "ku_GetPool k (om_Namespace (sb_Meta s)) (sb_PoolRef (sb_Spec s)) f1 = (gotPool, f2)"
          by fastforce
        note f2 = frame(1) [OF pool]
        note inv2 = inv1 [folded f2] and key2 = key [folded f2]
        note run = run [unfolded pool, simplified alive fin, simplified]
        show ?thesis
        proof (cases gotPool)
          case (Inl e)
          with run inv2 show ?thesis by simp
        next
          case (Inr p)
          note run = run [unfolded Inr, simplified]
          show ?thesis
          proof (cases "conditionTrue k (pt_Conditions (po_Status p)) ConditionReady")
            case False
            with run inv2 key2 show ?thesis
              by (auto split: prod.splits dest!: finishWith_effect [OF _ inv_keyed [OF inv2]] intro: restatus_inv)
          next
            case ready: True
            show ?thesis
            proof (cases "ss_Assignment (sb_Status s)")
              case None
              with run ready syncAssign_inv [OF _ r(1,3) inv2 key2 alive] show ?thesis by simp
            next
              case (Some a)
              have known: "Get (om_UID (sb_Meta s)) sched = Some (assignmentFromSandbox s a)"
                using box_invD(3) [OF inv2 key2 alive] Some by (simp add: box_ok_def)
              have "syncStart r s a sched f2 = (res, sched', f')" using run ready Some by simp
              from syncStart_effect [OF this r(1,2) inv_keyed [OF inv2] known] restatus_inv [OF inv2 key2]
              show ?thesis by simp
            qed
          qed
        qed
      qed
    qed
  qed
qed

end

end
