(* ===== verification/TopologyPlan.thy ===== *)
theory TopologyPlan
  imports SlotTopology
begin

text \<open>
  Correctness of the topology planner: an invariant of the loop over the profiles, kept by each
  of its three branches, and the properties of \<open>PlanTopology\<close> that follow from it.
\<close>

subsection \<open>New slots\<close>

abbreviation ids :: "'q slot_config list \<Rightarrow> int set" where
  "ids cs \<equiv> sc_ID ` set cs"

lemma growLoop_spec:
  assumes "growLoop profile res n used maxID nxt = (nxt', used', maxID')"
    and "maxID_ok used maxID" and "length used + n < 2 ^ 31"
  shows "\<exists>new. nxt' = nxt @ new \<and> length new = n \<and> distinct (map sc_ID new) \<and>
    ids new \<inter> set used = {} \<and> set used' = set used \<union> ids new \<and>
    length used' = length used + n \<and> maxID_ok used' maxID' \<and>
    (\<forall>c \<in> set new. sc_Profile c = profile \<and> sc_Resources c = cloneResources res \<and> 0 \<le> sc_ID c)"
  using assms
proof (induction n arbitrary: used maxID nxt)
  case 0
  then show ?case by auto
next
  case (Suc n)
  obtain j m where next_: "nextFreeID used maxID = (j, m)"
    by fastforce
  note spec = nextFreeID_spec [OF Suc.prems(2) _ next_]
  let ?c = "\<lparr>sc_ID = j, sc_Profile = profile, sc_Resources = cloneResources res\<rparr>"
  from Suc.prems next_ have
    run: "growLoop profile res n (j # used) m (nxt @ [?c]) = (nxt', used', maxID')"
    by simp
  have size: "length used < 2 ^ 31 - 1" "length (j # used) + n < 2 ^ 31"
    using Suc.prems(3) by auto
  obtain new where new: "nxt' = (nxt @ [?c]) @ new" "length new = n" "distinct (map sc_ID new)"
    "ids new \<inter> set (j # used) = {}" "set used' = set (j # used) \<union> ids new"
    "length used' = length (j # used) + n" "maxID_ok used' maxID'"
    "\<forall>c \<in> set new. sc_Profile c = profile \<and> sc_Resources c = cloneResources res \<and> 0 \<le> sc_ID c"
    using Suc.IH [OF run spec(2) [OF size(1)] size(2)] by blast
  have "j \<notin> set used" "0 \<le> j"
    using spec(1) [OF size(1)] by (auto simp: leastFree_def)
  with new show ?case
    by (intro exI [of _ "?c # new"]) auto
qed

subsection \<open>The loop invariant\<close>

text \<open>
  What holds of the inputs a caller passes: distinct IDs that fit 32 bits, non-negative counts,
  every counted profile in the order (the controller builds both from the template's slot groups),
  and few enough slots that \<open>int32(len(existing))\<close> and the IDs do not wrap.
\<close>

definition planInputs_ok ::
    "'q slot_config list \<Rightarrow> profile_counts \<Rightarrow> string list \<Rightarrow> bool" where
  "planInputs_ok current counts order \<longleftrightarrow>
     distinct (map sc_ID current) \<and> list_all (\<lambda>c. int32_ok (sc_ID c)) current \<and>
     list_all (\<lambda>(p, n). 0 \<le> n \<and> p \<in> set order) counts \<and>
     length current +
       sum_list (map (\<lambda>p. nat (gm_get0 0 counts p))
         (orderedProfiles order counts (groupByProfile current))) < 2 ^ 31"

text \<open>
  \<open>P\<close> is the set of profiles already visited, \<open>rest\<close> the part of the current layout still to be
  visited.
\<close>

definition rest :: "'q slot_config list \<Rightarrow> string set \<Rightarrow> 'q slot_config set" where
  "rest current P = {c \<in> set current. sc_Profile c \<notin> P}"

record ('q) plan_input =
  pi_current :: "'q slot_config list"
  pi_counts :: profile_counts
  pi_profiles :: "'q profile_resources"
  pi_busy :: "(int, bool) gomap"

definition fresh_slot :: "'q plan_input \<Rightarrow> 'q slot_config \<Rightarrow> bool" where
  "fresh_slot i c \<longleftrightarrow> 0 \<le> sc_ID c \<and>
     (\<exists>res. map_of (pi_profiles i) (sc_Profile c) = Some res \<and> sc_Resources c = cloneResources res)"

abbreviation existing :: "'q plan_input \<Rightarrow> string \<Rightarrow> 'q slot_config list" where
  "existing i p \<equiv> sort_key sc_ID (of_profile p (pi_current i))"

abbreviation lowest :: "'q plan_input \<Rightarrow> string \<Rightarrow> 'q slot_config set" where
  "lowest i p \<equiv> set (take (nat (gm_get0 0 (pi_counts i) p)) (existing i p))"

definition plan_inv :: "'q plan_input \<Rightarrow> string set \<Rightarrow> 'q plan_state \<Rightarrow> bool" where
  "plan_inv i P s \<longleftrightarrow>
     distinct (map sc_ID (ps_next s)) \<and>
     set (ps_used s) = ids (ps_next s) \<union> sc_ID ` rest (pi_current i) P \<and>
     ids (ps_next s) \<inter> sc_ID ` rest (pi_current i) P = {} \<and>
     maxID_ok (ps_used s) (ps_maxID s) \<and>
     sc_Profile ` set (ps_next s) \<subseteq> P \<and>
     (\<forall>c \<in> set (pi_current i). sc_Profile c \<in> P \<longrightarrow> isBusy (pi_busy i) c \<longrightarrow> c \<in> set (ps_next s)) \<and>
     (\<forall>p \<in> P. lowest i p \<subseteq> set (ps_next s)) \<and>
     (\<forall>c \<in> set (ps_next s). c \<in> set (pi_current i) \<or> fresh_slot i c) \<and>
     (ps_reasons s = [] \<longrightarrow>
        (\<forall>p \<in> P. int (length (of_profile p (ps_next s))) = gm_get0 0 (pi_counts i) p))"

lemma rest_split: "rest cs P = set (of_profile p cs) \<union> rest cs (insert p P)" if "p \<notin> P"
  using that by (auto simp: rest_def)

lemma id_inj: "distinct (map sc_ID cs) \<Longrightarrow> c \<in> set cs \<Longrightarrow> d \<in> set cs \<Longrightarrow> sc_ID c = sc_ID d \<Longrightarrow> c = d"
  by (auto simp: distinct_map inj_on_def)

lemma rest_ids_disjoint:
  assumes "distinct (map sc_ID cs)" "A \<subseteq> set (of_profile p cs)"
  shows "sc_ID ` A \<inter> sc_ID ` rest cs (insert p P) = {}"
  using assms by (auto simp: rest_def dest: id_inj)

lemma of_profile_none: "p \<notin> sc_Profile ` set xs \<Longrightarrow> of_profile p xs = []"
  by (auto simp: filter_empty_conv)

lemma of_profile_all: "sc_Profile ` set ys \<subseteq> {p} \<Longrightarrow> of_profile p ys = ys"
  by (auto simp: filter_id_conv)

text \<open>
  Every branch appends slots \<open>ys\<close> of the profile to \<open>ps_next\<close>; what a branch has to provide for the
  invariant is collected here once.
\<close>

lemma plan_inv_append:
  assumes inv: "plan_inv i P s" and dist: "distinct (map sc_ID (pi_current i))" and new: "p \<notin> P"
    and s': "ps_next s' = ps_next s @ ys" "\<exists>rs. ps_reasons s' = ps_reasons s @ rs"
    and ys: "distinct (map sc_ID ys)" "sc_Profile ` set ys \<subseteq> {p}"
      "ids ys \<inter> ids (ps_next s) = {}"
      "ids ys \<inter> sc_ID ` rest (pi_current i) (insert p P) = {}"
      "\<forall>c \<in> set ys. c \<in> set (pi_current i) \<or> fresh_slot i c"
    and used: "set (ps_used s') = ids (ps_next s) \<union> ids ys \<union> sc_ID ` rest (pi_current i) (insert p P)"
      "maxID_ok (ps_used s') (ps_maxID s')"
    and busy: "\<forall>c \<in> set (of_profile p (pi_current i)). isBusy (pi_busy i) c \<longrightarrow> c \<in> set ys"
    and low: "lowest i p \<subseteq> set ys"
    and count: "ps_reasons s' = [] \<longrightarrow> int (length ys) = gm_get0 0 (pi_counts i) p"
  shows "plan_inv i (insert p P) s'"
proof -
  have vis: "sc_Profile ` set (ps_next s) \<subseteq> P"
    using inv by (simp add: plan_inv_def)
  have disj: "ids (ps_next s) \<inter> sc_ID ` rest (pi_current i) (insert p P) = {}"
    using inv rest_split [OF new, of "pi_current i"] by (auto simp: plan_inv_def)
  have counts: "ps_reasons s' = [] \<longrightarrow>
      (\<forall>q \<in> insert p P. int (length (of_profile q (ps_next s @ ys))) = gm_get0 0 (pi_counts i) q)"
  proof (intro impI ballI)
    fix q assume rs: "ps_reasons s' = []" and q: "q \<in> insert p P"
    from rs s'(2) have "ps_reasons s = []" by auto
    with inv have "\<forall>q \<in> P. int (length (of_profile q (ps_next s))) = gm_get0 0 (pi_counts i) q"
      by (simp add: plan_inv_def)
    note old = this
    show "int (length (of_profile q (ps_next s @ ys))) = gm_get0 0 (pi_counts i) q"
    proof (cases "q = p")
      case True
      with vis new have "of_profile p (ps_next s) = []"
        by (intro of_profile_none) auto
      with True rs count of_profile_all [OF ys(2)] show ?thesis by simp
    next
      case False
      with ys(2) have "of_profile q ys = []"
        by (intro of_profile_none) auto
      with False q old show ?thesis by simp
    qed
  qed
  have kept: "\<forall>c \<in> set (pi_current i). sc_Profile c \<in> insert p P \<longrightarrow> isBusy (pi_busy i) c \<longrightarrow>
      c \<in> set (ps_next s @ ys)"
    using inv busy by (auto simp: plan_inv_def)
  have lows: "\<forall>q \<in> insert p P. lowest i q \<subseteq> set (ps_next s @ ys)"
    using inv low by (auto simp: plan_inv_def)
  have shape: "\<forall>c \<in> set (ps_next s @ ys). c \<in> set (pi_current i) \<or> fresh_slot i c"
    using inv ys(5) by (auto simp: plan_inv_def)
  have "distinct (map sc_ID (ps_next s @ ys))"
    using inv ys(1,3) by (auto simp: plan_inv_def)
  moreover have "sc_Profile ` set (ps_next s @ ys) \<subseteq> insert p P"
    using vis ys(2) by auto
  ultimately show ?thesis
    unfolding plan_inv_def s'(1) using used disj ys(4) counts kept lows shape by auto
qed

subsection \<open>The three branches keep the invariant\<close>

lemma plan_inv_existing:
  assumes "plan_inv i P s" "distinct (map sc_ID (pi_current i))" "p \<notin> P"
  shows "distinct (map sc_ID (existing i p))" "sc_Profile ` set (existing i p) \<subseteq> {p}"
    "ids (existing i p) \<inter> ids (ps_next s) = {}"
    "ids (existing i p) \<inter> sc_ID ` rest (pi_current i) (insert p P) = {}"
    "set (ps_used s) = ids (ps_next s) \<union> ids (existing i p) \<union> sc_ID ` rest (pi_current i) (insert p P)"
proof -
  have split: "rest (pi_current i) P = set (existing i p) \<union> rest (pi_current i) (insert p P)"
    using rest_split [OF assms(3)] by simp
  show "distinct (map sc_ID (existing i p))"
    using assms(2) by (simp add: distinct_map_filter)
  show "sc_Profile ` set (existing i p) \<subseteq> {p}" by auto
  show "ids (existing i p) \<inter> ids (ps_next s) = {}"
    using assms(1) split by (auto simp: plan_inv_def)
  show "ids (existing i p) \<inter> sc_ID ` rest (pi_current i) (insert p P) = {}"
    using rest_ids_disjoint [OF assms(2), of "set (existing i p)" p P] by simp
  show "set (ps_used s) = ids (ps_next s) \<union> ids (existing i p) \<union> sc_ID ` rest (pi_current i) (insert p P)"
    using assms(1) split by (auto simp: plan_inv_def)
qed

lemma plan_inv_unknown:
  assumes "plan_inv i P s" "distinct (map sc_ID (pi_current i))" "p \<notin> P"
  shows "plan_inv i (insert p P)
    (s\<lparr>ps_reasons := ps_reasons s @ [r], ps_next := ps_next s @ existing i p\<rparr>)"
proof (rule plan_inv_append [OF assms, where ys = "existing i p"], goal_cases)
  case 4 show ?case by (rule plan_inv_existing(2) [OF assms])
next
  case 5 show ?case by (rule plan_inv_existing(3) [OF assms])
next
  case 6 show ?case by (rule plan_inv_existing(4) [OF assms])
next
  case 8 show ?case using plan_inv_existing(5) [OF assms] by simp
next
  case 9 show ?case using assms(1) by (simp add: plan_inv_def)
next
  case 11 show ?case by (rule set_take_subset)
qed (use plan_inv_existing(1) [OF assms] in simp_all)

lemma plan_inv_shrink:
  fixes i :: "'q plan_input"
  defines "keep d p \<equiv> take d (existing i p) @ filter (isBusy (pi_busy i)) (drop d (existing i p))"
  assumes base: "plan_inv i P s" "distinct (map sc_ID (pi_current i))" "p \<notin> P"
    and d: "int d = gm_get0 0 (pi_counts i) p" "d \<le> length (existing i p)"
  shows "plan_inv i (insert p P)
    (s\<lparr>ps_used := filter (\<lambda>u. \<forall>c \<in> set (drop d (existing i p)).
                     \<not> isBusy (pi_busy i) c \<longrightarrow> sc_ID c \<noteq> u) (ps_used s),
       ps_reasons := ps_reasons s @ map r (filter (isBusy (pi_busy i)) (drop d (existing i p))),
       ps_next := ps_next s @ sort_key sc_ID (keep d p)\<rparr>)"
proof -
  let ?ex = "existing i p" and ?busy = "isBusy (pi_busy i)" and ?keep = "keep d p"
  have ex_split: "set ?ex = set (take d ?ex) \<union> set (drop d ?ex)"
    by (metis append_take_drop_id set_append)
  have keep_set: "set ?keep \<subseteq> set ?ex" "c \<in> set ?ex \<Longrightarrow> ?busy c \<Longrightarrow> c \<in> set ?keep" for c
    using ex_split by (auto simp: keep_def)
  have ex_eq: "set ?ex = set (of_profile p (pi_current i))" by simp
  note ex = plan_inv_existing [OF base]
  have dist_ex: "distinct (map sc_ID (take d ?ex @ drop d ?ex))"
    using ex(1) by simp
  have keep_dist: "distinct (map sc_ID ?keep)"
    using dist_ex unfolding keep_def map_append distinct_append
    by (auto simp: distinct_map_filter)
  have gone: "sc_ID c \<notin> ids ?keep" if "c \<in> set (drop d ?ex)" "\<not> ?busy c" for c
  proof
    assume "sc_ID c \<in> ids ?keep"
    then obtain e where e: "e \<in> set ?keep" "sc_ID c = sc_ID e" by auto
    have "c = e"
      using id_inj [OF ex(1), of c e] that(1) e keep_set(1) ex_split by blast
    moreover have "distinct ?ex"
      using ex(1) by (simp only: distinct_map)
    then have "set (take d ?ex) \<inter> set (drop d ?ex) = {}"
      by (intro set_take_disj_set_drop_if_distinct) simp_all
    ultimately show False
      using e(1) that unfolding keep_def by auto
  qed
  let ?rest = "sc_ID ` rest (pi_current i) (insert p P)"
  let ?used = "filter (\<lambda>u. \<forall>c \<in> set (drop d ?ex). \<not> ?busy c \<longrightarrow> sc_ID c \<noteq> u) (ps_used s)"
  have used: "set ?used = ids (ps_next s) \<union> ids ?keep \<union> ?rest"
  proof (intro set_eqI iffI)
    fix u assume u: "u \<in> set ?used"
    then have "u \<in> ids (ps_next s) \<union> ids ?ex \<union> ?rest" using ex(5) by auto
    moreover have "u \<in> ids ?keep" if "u \<in> ids ?ex"
      using that u ex_split unfolding keep_def by auto
    ultimately show "u \<in> ids (ps_next s) \<union> ids ?keep \<union> ?rest" by blast
  next
    fix u assume u: "u \<in> ids (ps_next s) \<union> ids ?keep \<union> ?rest"
    then have "u \<in> set (ps_used s)" using ex(5) keep_set(1) by auto
    moreover have "sc_ID c \<noteq> u" if "c \<in> set (drop d ?ex)" "\<not> ?busy c" for c
      using gone [OF that] ex(3,4) that(1) u ex_split by blast
    ultimately show "u \<in> set ?used" by auto
  qed
  have sk: "set (sort_key sc_ID ?keep) = set ?keep" by simp
  show ?thesis
  proof (rule plan_inv_append [OF base, where ys = "sort_key sc_ID ?keep"], goal_cases)
    case 1 show ?case by simp
  next
    case 2 show ?case by simp
  next
    case 3 show ?case using keep_dist by simp
  next
    case 4 show ?case using ex(2) keep_set(1) unfolding sk by blast
  next
    case 5 show ?case using ex(3) keep_set(1) unfolding sk by blast
  next
    case 6 show ?case using ex(4) keep_set(1) unfolding sk by blast
  next
    case 7 show ?case using keep_set(1) unfolding sk by auto
  next
    case 8 show ?case using used unfolding sk by simp
  next
    case 9 show ?case using base(1) by (auto simp: plan_inv_def maxID_ok_def)
  next
    case 10 show ?case using keep_set(2) unfolding sk ex_eq [symmetric] by blast
  next
    case 11
    have "nat (gm_get0 0 (pi_counts i) p) = d" using d(1) by (simp flip: d(1))
    then show ?case unfolding sk keep_def by simp
  next
    case 12
    show ?case using d by (simp add: keep_def)
  qed
qed

lemma plan_inv_grow:
  assumes base: "plan_inv i P s" "distinct (map sc_ID (pi_current i))" "p \<notin> P"
    and grow: "growLoop p res n (ps_used s) (ps_maxID s) (ps_next s @ existing i p) = (nxt, used, maxID)"
    and size: "length (ps_used s) + n < 2 ^ 31"
    and n: "int (length (existing i p)) + int n = gm_get0 0 (pi_counts i) p"
    and known: "n > 0 \<Longrightarrow> map_of (pi_profiles i) p = Some res"
  shows "plan_inv i (insert p P) (s\<lparr>ps_used := used, ps_maxID := maxID, ps_next := nxt\<rparr>)"
    and "length used = length (ps_used s) + n"
proof -
  note ex = plan_inv_existing [OF base]
  have max: "maxID_ok (ps_used s) (ps_maxID s)"
    using base(1) by (simp add: plan_inv_def)
  obtain new where new: "nxt = (ps_next s @ existing i p) @ new" "length new = n"
    "distinct (map sc_ID new)" "ids new \<inter> set (ps_used s) = {}"
    "set used = set (ps_used s) \<union> ids new" "length used = length (ps_used s) + n"
    "maxID_ok used maxID"
    "\<forall>c \<in> set new. sc_Profile c = p \<and> sc_Resources c = cloneResources res \<and> 0 \<le> sc_ID c"
    using growLoop_spec [OF grow max size] by blast
  show "length used = length (ps_used s) + n" by (rule new(6))
  have fresh: "\<forall>c \<in> set new. fresh_slot i c"
    using new(2,8) known by (fastforce simp: fresh_slot_def)
  show "plan_inv i (insert p P) (s\<lparr>ps_used := used, ps_maxID := maxID, ps_next := nxt\<rparr>)"
  proof (rule plan_inv_append [OF base, where ys = "existing i p @ new"], goal_cases)
    case 1 show ?case using new(1) by simp
  next
    case 2 show ?case by simp
  next
    case 3 show ?case using ex(1,5) new(3,4) by auto
  next
    case 4 show ?case using new(8) by auto
  next
    case 5 show ?case using ex(3,5) new(4) by auto
  next
    case 6 show ?case using ex(4,5) new(4) by auto
  next
    case 7 show ?case using fresh by auto
  next
    case 8 show ?case using ex(5) new(5) by auto
  next
    case 9 show ?case using new(7) by simp
  next
    case 10 show ?case by simp
  next
    case 11 show ?case using set_take_subset by fastforce
  next
    case 12 show ?case using n new(2) by simp
  qed
qed

subsection \<open>The whole loop\<close>

lemma planProfile_inv:
  assumes base: "plan_inv i P s" "distinct (map sc_ID (pi_current i))" "p \<notin> P"
    and cnt: "0 \<le> gm_get0 0 (pi_counts i) p"
    and size: "length (pi_current i) < 2 ^ 31"
      "length (ps_used s) + nat (gm_get0 0 (pi_counts i) p) < 2 ^ 31"
  shows "\<exists>s'. planProfile (pi_counts i) (pi_profiles i) (groupByProfile (pi_current i)) (pi_busy i) p s
      = Some s' \<and> plan_inv i (insert p P) s' \<and>
      length (ps_used s') \<le> length (ps_used s) + nat (gm_get0 0 (pi_counts i) p)"
proof -
  let ?d = "gm_get0 0 (pi_counts i) p" and ?n = "length (existing i p)"
  have n: "?n < 2 ^ 31"
    using size(1) length_filter_le [of "\<lambda>c. sc_Profile c = p" "pi_current i"]
    by (simp only: length_sort)
  then have w: "wrap32 (int ?n) = int ?n"
    by (rule wrap32_nat)
  consider (unknown) "map_of (pi_profiles i) p = None" "?d > 0"
    | (shrink) "map_of (pi_profiles i) p \<noteq> None \<or> ?d \<le> 0" "int ?n > ?d"
    | (grow) "map_of (pi_profiles i) p \<noteq> None \<or> ?d \<le> 0" "int ?n \<le> ?d"
    by linarith
  then show ?thesis
  proof cases
    case unknown
    then show ?thesis
      using plan_inv_unknown [OF base] by (simp add: planProfile_def Let_def)
  next
    case shrink
    have d: "int (nat ?d) = ?d" "nat ?d \<le> ?n" using cnt shrink(2) by auto
    have loop: "shrinkLoop (pi_busy i) p (nat ?d) (nat ?d) (existing i p) (ps_used s) (ps_reasons s) =
       (take (nat ?d) (existing i p) @ filter (isBusy (pi_busy i)) (drop (nat ?d) (existing i p)),
        filter (\<lambda>u. \<forall>c \<in> set (drop (nat ?d) (existing i p)). \<not> isBusy (pi_busy i) c \<longrightarrow> sc_ID c \<noteq> u)
          (ps_used s),
        ps_reasons s @ map (busyReason p) (filter (isBusy (pi_busy i)) (drop (nat ?d) (existing i p))))"
      using d(2) by (intro shrinkLoop_eq) simp_all
    show ?thesis
      using shrink cnt plan_inv_shrink [OF base d, where r = "busyReason p"]
      by (auto simp: planProfile_def Let_def w loop simp del: filter_sort length_sort intro: le_trans
          [OF length_filter_le])
  next
    case grow
    let ?m = "nat (?d - int ?n)"
    have m: "int ?n + int ?m = ?d" using grow(2) by simp
    have w2: "wrap32 (?d - wrap32 (int ?n)) = ?d - int ?n"
      using w n grow(2) size(2) by (simp add: int32_ok_def)
    obtain nxt used maxID where g: "growLoop p (gm_get0 zero_resources (pi_profiles i) p) ?m
        (ps_used s) (ps_maxID s) (ps_next s @ existing i p) = (nxt, used, maxID)"
      by (metis prod_cases3)
    have sz: "length (ps_used s) + ?m < 2 ^ 31" using size(2) grow(2) by linarith
    have known: "?m > 0 \<Longrightarrow> map_of (pi_profiles i) p = Some (gm_get0 zero_resources (pi_profiles i) p)"
      using grow(1) by (auto simp: gm_get0_def)
    note inv = plan_inv_grow [OF base g sz m known]
    have "planProfile (pi_counts i) (pi_profiles i) (groupByProfile (pi_current i)) (pi_busy i) p s =
        Some (s\<lparr>ps_used := used, ps_maxID := maxID, ps_next := nxt\<rparr>)"
      using grow g w w2 by (auto simp: planProfile_def Let_def simp del: length_sort)
    with inv grow(2) show ?thesis by auto
  qed
qed

lemma planLoop_inv:
  assumes "plan_inv i P s" "distinct (map sc_ID (pi_current i))"
    and "distinct names" "set names \<inter> P = {}"
    and "\<forall>p. 0 \<le> gm_get0 0 (pi_counts i) p" "length (pi_current i) < 2 ^ 31"
    and "length (ps_used s) + sum_list (map (\<lambda>p. nat (gm_get0 0 (pi_counts i) p)) names) < 2 ^ 31"
  shows "\<exists>s'. planLoop (pi_counts i) (pi_profiles i) (groupByProfile (pi_current i)) (pi_busy i) names s
      = Some s' \<and> plan_inv i (P \<union> set names) s'"
  using assms
proof (induction names arbitrary: P s)
  case Nil
  then show ?case by simp
next
  case (Cons p names)
  obtain s1 where s1: "planProfile (pi_counts i) (pi_profiles i) (groupByProfile (pi_current i))
      (pi_busy i) p s = Some s1" "plan_inv i (insert p P) s1"
      "length (ps_used s1) \<le> length (ps_used s) + nat (gm_get0 0 (pi_counts i) p)"
    using planProfile_inv [OF Cons.prems(1,2), of p] Cons.prems by auto
  have "\<exists>s'. planLoop (pi_counts i) (pi_profiles i) (groupByProfile (pi_current i)) (pi_busy i) names s1
      = Some s' \<and> plan_inv i (insert p P \<union> set names) s'"
    using Cons.prems s1(3) by (intro Cons.IH [OF s1(2)]) auto
  with s1(1) show ?case by simp
qed

lemma maxSlotID_fold:
  fixes cs :: "'q slot_config list"
  defines "m x ys \<equiv> foldl (\<lambda>m (cfg :: 'q slot_config). if sc_ID cfg > m then sc_ID cfg else m) x ys"
  shows "x \<le> m x cs \<and> (\<forall>c \<in> set cs. sc_ID c \<le> m x cs) \<and> (m x cs = x \<or> m x cs \<in> ids cs)"
  unfolding m_def
proof (induction cs arbitrary: x)
  case (Cons c cs)
  let ?x = "if sc_ID c > x then sc_ID c else x"
  show ?case
    using Cons [of ?x] by (auto split: if_splits)
qed simp

lemma maxSlotID_ok:
  assumes "list_all (\<lambda>c. int32_ok (sc_ID c)) cs"
  shows "maxID_ok (map sc_ID cs) (maxSlotID cs)"
proof -
  have "maxSlotID cs = -1 \<or> maxSlotID cs \<in> ids cs"
    using maxSlotID_fold [of "-1" cs] by (simp add: maxSlotID_def)
  then have "maxSlotID cs < 2 ^ 31"
    using assms by (auto simp: list_all_iff int32_ok_def)
  then show ?thesis
    using maxSlotID_fold [of "-1" cs] by (auto simp: maxID_ok_def maxSlotID_def)
qed

lemma counts_nonneg:
  fixes counts :: profile_counts
  assumes "list_all (\<lambda>(p, n). 0 \<le> n \<and> p \<in> A) counts"
  shows "0 \<le> gm_get0 0 counts p"
  using assms by (fastforce simp: gm_get0_def list_all_iff dest: map_of_SomeD split: option.splits)

definition planInput ::
    "'q slot_config list \<Rightarrow> profile_counts \<Rightarrow> 'q profile_resources \<Rightarrow> (int, bool) gomap \<Rightarrow> 'q plan_input" where
  "planInput current counts profiles busy =
     \<lparr>pi_current = current, pi_counts = counts, pi_profiles = profiles, pi_busy = busy\<rparr>"

lemma planInput_sel [simp]:
  "pi_current (planInput c n p b) = c" "pi_counts (planInput c n p b) = n"
  "pi_profiles (planInput c n p b) = p" "pi_busy (planInput c n p b) = b"
  by (simp_all add: planInput_def)

definition planOf :: "'q plan_state \<Rightarrow> 'q topology_plan" where
  "planOf s = \<lparr>tp_Slots = sort_key sc_ID (ps_next s), tp_Blocked = (ps_reasons s \<noteq> []),
     tp_Reason = (if ps_reasons s \<noteq> [] then JoinText (ps_reasons s) ''; '' else Lit '''')\<rparr>"

lemma planOf_sel [simp]:
  "tp_Slots (planOf s) = sort_key sc_ID (ps_next s)" "tp_Blocked (planOf s) \<longleftrightarrow> ps_reasons s \<noteq> []"
  by (simp_all add: planOf_def)

abbreviation allProfiles :: "'q slot_config list \<Rightarrow> profile_counts \<Rightarrow> string list \<Rightarrow> string set" where
  "allProfiles current counts order \<equiv> set order \<union> fst ` set counts \<union> sc_Profile ` set current"

lemma PlanTopology_run:
  assumes ok: "planInputs_ok current counts order"
  obtains s where "PlanTopology current counts profiles busy order = Some (planOf s)"
    "plan_inv (planInput current counts profiles busy) (allProfiles current counts order) s"
proof -
  let ?i = "planInput current counts profiles busy"
  let ?names = "orderedProfiles order counts (groupByProfile current)"
  let ?s = "\<lparr>ps_used = map sc_ID current, ps_maxID = maxSlotID current, ps_next = [], ps_reasons = []\<rparr>"
  have dist: "distinct (map sc_ID current)" and int32: "list_all (\<lambda>c. int32_ok (sc_ID c)) current"
    and cnt: "list_all (\<lambda>(p, n). 0 \<le> n \<and> p \<in> set order) counts"
    and size: "length current + sum_list (map (\<lambda>p. nat (gm_get0 0 counts p)) ?names) < 2 ^ 31"
    using ok by (simp_all add: planInputs_ok_def)
  have start: "plan_inv ?i {} ?s"
    using maxSlotID_ok [OF int32] by (auto simp: plan_inv_def rest_def)
  have "fst ` set counts \<subseteq> set order"
    using cnt by (auto simp: list_all_iff)
  then have names: "distinct ?names"
    by (rule orderedProfiles_distinct)
  have "\<exists>s'. planLoop counts profiles (groupByProfile current) busy ?names ?s = Some s' \<and>
      plan_inv ?i ({} \<union> set ?names) s'"
    using planLoop_inv [OF start, of ?names] dist names counts_nonneg [OF cnt] size by simp
  then obtain s' where "planLoop counts profiles (groupByProfile current) busy ?names ?s = Some s'"
    "plan_inv ?i (set ?names) s'"
    by auto
  then show thesis
    by (intro that [of s']) (simp_all add: PlanTopology_def Let_def planOf_def)
qed

subsection \<open>Replanning an applied layout\<close>

lemma mset_by_profile:
  assumes "distinct names"
  shows "mset (concat (map (\<lambda>p. sort_key sc_ID (of_profile p cs)) names)) =
    filter_mset (\<lambda>c. sc_Profile c \<in> set names) (mset cs)"
  using assms
proof (induction names)
  case (Cons p names)
  have "filter_mset (\<lambda>c. sc_Profile c = p) (mset cs) + filter_mset (\<lambda>c. sc_Profile c \<in> set names) (mset cs)
      = filter_mset (\<lambda>c. sc_Profile c = p \<or> sc_Profile c \<in> set names) (mset cs)"
    using Cons.prems by (induction cs) auto
  with Cons show ?case by simp
qed simp

lemma planLoop_steady:
  assumes "\<forall>p \<in> set names. int (length (of_profile p cs)) = gm_get0 0 counts p \<and>
    gm_get0 0 counts p < 2 ^ 31 \<and> (gm_get0 0 counts p > 0 \<longrightarrow> map_of profiles p \<noteq> None)"
  shows "planLoop counts profiles (groupByProfile cs) busy names s =
    Some (s\<lparr>ps_next := ps_next s @ concat (map (\<lambda>p. sort_key sc_ID (of_profile p cs)) names)\<rparr>)"
  using assms
proof (induction names arbitrary: s)
  case (Cons p names)
  let ?ex = "sort_key sc_ID (of_profile p cs)"
  have len: "int (length ?ex) = gm_get0 0 counts p"
    and w: "wrap32 (int (length ?ex)) = gm_get0 0 counts p"
    using Cons.prems by (auto simp: int32_ok_def)
  have "planProfile counts profiles (groupByProfile cs) busy p s = Some (s\<lparr>ps_next := ps_next s @ ?ex\<rparr>)"
    using Cons.prems w by (auto simp: planProfile_def Let_def int32_ok_def simp del: length_sort)
  with Cons.IH [of "s\<lparr>ps_next := ps_next s @ ?ex\<rparr>"] Cons.prems show ?case
    by simp
qed simp

lemma planProfile_reasons:
  assumes "planProfile counts profiles byProfile busy p s = Some s'"
  shows "\<exists>rs. ps_reasons s' = ps_reasons s @ rs \<and>
    (map_of profiles p = None \<and> 0 < gm_get0 0 counts p \<longrightarrow> rs \<noteq> [])"
proof -
  have shrink: "\<exists>rs. snd (snd (shrinkLoop busy q i k arr used reasons)) = reasons @ rs" for q i k arr used reasons
  proof (induction busy q i k arr used reasons rule: shrinkLoop.induct)
    case (1 busy q i k arr used reasons)
    then show ?case
      by (subst shrinkLoop.simps) (auto simp: Let_def)
  qed
  show ?thesis
    using assms shrink [of p "nat (gm_get0 0 counts p)" "nat (gm_get0 0 counts p)"
        "gm_get0 [] byProfile p" "ps_used s" "ps_reasons s"]
    by (auto simp: planProfile_def Let_def split: if_splits prod.splits)
qed

lemma planLoop_known:
  assumes "planLoop counts profiles byProfile busy names s = Some s'" "ps_reasons s' = []"
  shows "ps_reasons s = [] \<and> (\<forall>p \<in> set names. gm_get0 0 counts p > 0 \<longrightarrow> map_of profiles p \<noteq> None)"
  using assms
proof (induction names arbitrary: s)
  case (Cons p names)
  then obtain s1 where s1: "planProfile counts profiles byProfile busy p s = Some s1"
    "planLoop counts profiles byProfile busy names s1 = Some s'"
    by (auto split: option.splits)
  with Cons.IH Cons.prems(2) planProfile_reasons [OF s1(1)] show ?case
    by fastforce
qed auto

lemma plan_inv_counts:
  assumes "plan_inv (planInput current counts profiles busy) (allProfiles current counts order) s"
    and "ps_reasons s = []"
  shows "int (length (of_profile p (ps_next s))) = gm_get0 0 counts p"
proof (cases "p \<in> allProfiles current counts order")
  case True
  then show ?thesis using assms by (auto simp: plan_inv_def)
next
  case False
  with assms have "of_profile p (ps_next s) = []"
    by (intro of_profile_none) (auto simp: plan_inv_def)
  moreover from False have "map_of counts p = None"
    by (simp add: map_of_eq_None_iff)
  ultimately show ?thesis by (simp add: gm_get0_def)
qed

subsection \<open>Properties of the plan\<close>

text \<open>A layout of two small slots and a large one, used by the witnesses.\<close>

definition res1 :: "int resource_requirements" where
  "res1 = \<lparr>rr_Requests = [(''cpu'', 1)], rr_Limits = [(''memory'', 2)]\<rparr>"

definition layout1 :: "int slot_config list" where
  "layout1 = [\<lparr>sc_ID = 0, sc_Profile = ''small'', sc_Resources = res1\<rparr>,
     \<lparr>sc_ID = 1, sc_Profile = ''small'', sc_Resources = res1\<rparr>,
     \<lparr>sc_ID = 2, sc_Profile = ''large'', sc_Resources = res1\<rparr>]"

definition profiles1 :: "int profile_resources" where
  "profiles1 = [(''small'', res1), (''large'', res1)]"

lemma layout1_ok: "planInputs_ok layout1 [(''small'', 1), (''large'', 2)] [''small'', ''large'']"
  by (simp add: planInputs_ok_def layout1_def int32_ok_def orderedProfiles_def groupByProfile_def
      gm_get0_def)

lemma layout1_plan:
  "\<exists>plan. PlanTopology layout1 [(''small'', 1), (''large'', 2)] profiles1 [] [''small'', ''large''] = Some plan \<and>
     \<not> tp_Blocked plan \<and>
     map (\<lambda>c. (sc_ID c, sc_Profile c)) (tp_Slots plan) = [(0, ''small''), (1, ''large''), (2, ''large'')] \<and>
     CountNewSlots layout1 (tp_Slots plan) = 0"
  by (simp add: PlanTopology_def layout1_def orderedProfiles_def groupByProfile_def
      gm_get0_def planProfile_def profiles1_def wrap32_def shrinkLoop.simps nextFreeID_def
      scanFreeID.simps maxSlotID_def Let_def numeral_2_eq_2 CountNewSlots_def)

text \<open>
  The planner returns (it does not panic) and its layout has distinct Slot IDs in increasing
  order, for every current layout with distinct IDs, whatever is busy.
\<close>

theorem plan_ids_distinct:
  assumes "planInputs_ok current counts order"
  shows "\<exists>plan. PlanTopology current counts profiles busy order = Some plan \<and>
    distinct (map sc_ID (tp_Slots plan)) \<and> sorted (map sc_ID (tp_Slots plan))"
proof -
  obtain s where "PlanTopology current counts profiles busy order = Some (planOf s)"
    "plan_inv (planInput current counts profiles busy) (allProfiles current counts order) s"
    using PlanTopology_run [OF assms] .
  then show ?thesis
    by (simp add: plan_inv_def)
qed

theorem plan_ids_distinct_witness:
  "planInputs_ok layout1 [(''small'', 1), (''large'', 2)] [''small'', ''large''] \<and>
   (\<exists>plan. PlanTopology layout1 [(''small'', 1), (''large'', 2)] profiles1 [(1, True)]
      [''small'', ''large''] = Some plan \<and>
    distinct (map sc_ID (tp_Slots plan)) \<and> sorted (map sc_ID (tp_Slots plan)))"
  using layout1_ok plan_ids_distinct [OF layout1_ok] by blast

text \<open>
  C11. Scale-down is safe: a busy Slot of the current layout is in the plan, with its ID, profile
  and resources unchanged; and of each profile the slots with the lowest IDs are kept.
\<close>

theorem plan_keeps_busy_and_lowest:
  assumes "planInputs_ok current counts order"
    and "PlanTopology current counts profiles busy order = Some plan"
  shows "(\<forall>cfg \<in> set current. gm_get0 False busy (sc_ID cfg) \<longrightarrow> cfg \<in> set (tp_Slots plan)) \<and>
    (\<forall>p. set (take (nat (gm_get0 0 counts p)) (sort_key sc_ID (of_profile p current)))
       \<subseteq> set (tp_Slots plan))"
proof -
  obtain s where s: "PlanTopology current counts profiles busy order = Some (planOf s)"
    "plan_inv (planInput current counts profiles busy) (allProfiles current counts order) s"
    using PlanTopology_run [OF assms(1)] .
  have "set (take n (sort_key sc_ID (of_profile p current))) = {}" if "p \<notin> sc_Profile ` set current" for p n
    using of_profile_none [OF that] by simp
  with s assms(2) show ?thesis
    by (fastforce simp: plan_inv_def isBusy_def)
qed

theorem plan_keeps_busy_and_lowest_witness:
  "\<exists>plan. PlanTopology layout1 [(''small'', 1), (''large'', 2)] profiles1 [(1, True)]
      [''small'', ''large''] = Some plan \<and> layout1 ! 1 \<in> set (tp_Slots plan)"
proof -
  obtain plan where plan: "PlanTopology layout1 [(''small'', 1), (''large'', 2)] profiles1 [(1, True)]
      [''small'', ''large''] = Some plan"
    using PlanTopology_run [OF layout1_ok] by metis
  then show ?thesis
    using plan_keeps_busy_and_lowest [OF layout1_ok plan] by (simp add: layout1_def gm_get0_def)
qed

text \<open>
  C8. A plan that is not blocked has exactly the desired number of Slots of every profile, and
  every one of its Slots is a Slot of the current layout or a new Slot with the resources of its
  profile.
\<close>

theorem plan_counts_exact:
  assumes "planInputs_ok current counts order"
    and "PlanTopology current counts profiles busy order = Some plan" "\<not> tp_Blocked plan"
  shows "(\<forall>p. int (length (of_profile p (tp_Slots plan))) = gm_get0 0 counts p) \<and>
    (\<forall>cfg \<in> set (tp_Slots plan). cfg \<in> set current \<or>
       (\<exists>res. map_of profiles (sc_Profile cfg) = Some res \<and> sc_Resources cfg = cloneResources res))"
proof -
  obtain s where s: "PlanTopology current counts profiles busy order = Some (planOf s)"
    "plan_inv (planInput current counts profiles busy) (allProfiles current counts order) s"
    using PlanTopology_run [OF assms(1)] .
  with assms(2,3) show ?thesis
    using plan_inv_counts [OF s(2)] by (auto simp: plan_inv_def fresh_slot_def)
qed

theorem plan_counts_exact_witness:
  "\<exists>plan. PlanTopology layout1 [(''small'', 1), (''large'', 2)] profiles1 [] [''small'', ''large''] = Some plan \<and>
    \<not> tp_Blocked plan \<and> length (of_profile ''large'' (tp_Slots plan)) = 2"
proof -
  obtain plan where plan: "PlanTopology layout1 [(''small'', 1), (''large'', 2)] profiles1 []
      [''small'', ''large''] = Some plan" "\<not> tp_Blocked plan"
    using layout1_plan by blast
  have "int (length (of_profile ''large'' (tp_Slots plan))) =
      gm_get0 0 [(''small'', 1), (''large'', 2)] ''large''"
    using plan_counts_exact [OF layout1_ok plan] by blast
  then show ?thesis
    using plan by (auto simp: gm_get0_def)
qed

text \<open>
  C12. Planning converges: replanning the layout of an unblocked plan for the same counts, whatever
  is busy by then, changes nothing and is not blocked.
\<close>

theorem plan_fixpoint:
  assumes ok: "planInputs_ok current counts order"
    and plan: "PlanTopology current counts profiles busy order = Some plan" "\<not> tp_Blocked plan"
  shows "\<exists>plan'. PlanTopology (tp_Slots plan) counts profiles busy' order = Some plan' \<and>
    tp_Slots plan' = tp_Slots plan \<and> \<not> tp_Blocked plan'"
proof -
  let ?cs = "tp_Slots plan"
  let ?names = "orderedProfiles order counts (groupByProfile ?cs)"
  let ?byp = "concat (map (\<lambda>p. sort_key sc_ID (of_profile p ?cs)) ?names)"
  let ?s = "\<lparr>ps_used = map sc_ID ?cs, ps_maxID = maxSlotID ?cs, ps_next = [], ps_reasons = []\<rparr>"
  obtain s0 where run: "PlanTopology current counts profiles busy order = Some (planOf s0)"
    "plan_inv (planInput current counts profiles busy) (allProfiles current counts order) s0"
    using PlanTopology_run [OF ok] .
  have counts: "\<forall>p. int (length (of_profile p ?cs)) = gm_get0 0 counts p"
    and ids: "distinct (map sc_ID ?cs)" "sorted (map sc_ID ?cs)"
    using run plan plan_inv_counts [OF run(2)] by (auto simp: plan_inv_def)
  have known: "gm_get0 0 counts p > 0 \<longrightarrow> map_of profiles p \<noteq> None" for p
  proof (cases "p \<in> fst ` set counts")
    case True
    from plan obtain s where "planLoop counts profiles (groupByProfile current) busy
        (orderedProfiles order counts (groupByProfile current))
        \<lparr>ps_used = map sc_ID current, ps_maxID = maxSlotID current, ps_next = [], ps_reasons = []\<rparr> = Some s"
      "ps_reasons s = []"
      by (auto simp: PlanTopology_def Let_def split: option.splits)
    from planLoop_known [OF this] True show ?thesis by auto
  next
    case False
    then show ?thesis by (simp add: gm_get0_def map_of_eq_None_iff [THEN iffD2])
  qed
  have small: "gm_get0 0 counts p < 2 ^ 31" for p
  proof (cases "p \<in> fst ` set counts")
    case True
    then have "p \<in> set (orderedProfiles order counts (groupByProfile current))" by simp
    then have "nat (gm_get0 0 counts p) \<le> sum_list (map (\<lambda>p. nat (gm_get0 0 counts p))
        (orderedProfiles order counts (groupByProfile current)))"
      by (intro member_le_sum_list) auto
    with ok show ?thesis by (auto simp: planInputs_ok_def)
  next
    case False
    then show ?thesis by (simp add: gm_get0_def map_of_eq_None_iff [THEN iffD2])
  qed
  have sub: "fst ` set counts \<subseteq> set order"
    using ok by (auto simp: planInputs_ok_def list_all_iff)
  have "mset ?byp = filter_mset (\<lambda>c. sc_Profile c \<in> set ?names) (mset ?cs)"
    using orderedProfiles_distinct [OF sub] by (rule mset_by_profile)
  also have "\<dots> = mset ?cs"
    by (simp add: filter_mset_eq_conv)
  finally have perm: "sort_key sc_ID ?byp = sort_key sc_ID ?cs"
    using ids(1) by (intro sort_key_perm) (metis mset_eq_imp_distinct_iff mset_map)+
  have "planLoop counts profiles (groupByProfile ?cs) busy' ?names ?s = Some (?s\<lparr>ps_next := ?byp\<rparr>)"
    using planLoop_steady [of ?names ?cs counts profiles busy' ?s] counts known small by simp
  then show ?thesis
    using perm sort_key_sorted_id [OF ids(2)] by (simp add: PlanTopology_def Let_def)
qed

theorem plan_fixpoint_witness:
  "\<exists>plan plan'. PlanTopology layout1 [(''small'', 1), (''large'', 2)] profiles1 [] [''small'', ''large''] = Some plan \<and>
    PlanTopology (tp_Slots plan) [(''small'', 1), (''large'', 2)] profiles1 [(2, True)] [''small'', ''large'']
      = Some plan' \<and> tp_Slots plan' = tp_Slots plan"
proof -
  obtain plan where plan: "PlanTopology layout1 [(''small'', 1), (''large'', 2)] profiles1 []
      [''small'', ''large''] = Some plan" "\<not> tp_Blocked plan"
    using layout1_plan by blast
  show ?thesis
    using plan(1) plan_fixpoint [OF layout1_ok plan, of "[(2, True)]"] by blast
qed

text \<open>
  A freed ID is reused in the same plan by another profile.  Swapping one small Slot for a
  large one on an idle Worker plans a large Slot under the ID of the small Slot it removes, which
  a Worker that still has that Slot cannot apply, and which counts as no new Slot, so the check of
  the Pod's resources is skipped.
\<close>

theorem plan_reuses_freed_id:
  "\<exists>plan. PlanTopology layout1 [(''small'', 1), (''large'', 2)] profiles1 [] [''small'', ''large''] = Some plan \<and>
     \<not> tp_Blocked plan \<and>
     map (\<lambda>c. (sc_ID c, sc_Profile c)) (tp_Slots plan) = [(0, ''small''), (1, ''large''), (2, ''large'')] \<and>
     CountNewSlots layout1 (tp_Slots plan) = 0"
  using layout1_plan by blast

text \<open>
  A counted profile that is missing from the order but has Slots is visited twice: the layout
  then lists the same Slot twice.
\<close>

theorem plan_duplicates_unordered_profile:
  "\<exists>plan. PlanTopology [layout1 ! 0] [(''small'', 1)] profiles1 [] [] = Some plan \<and>
     tp_Slots plan = [layout1 ! 0, layout1 ! 0] \<and> \<not> tp_Blocked plan"
  by (simp add: PlanTopology_def layout1_def orderedProfiles_def groupByProfile_def
      gm_get0_def planProfile_def profiles1_def wrap32_def maxSlotID_def Let_def)

end
