(* ===== verification/WorkerProperties.thy ===== *)
theory WorkerProperties
  imports SlotManagerCorrect TopologyPlan
begin

text \<open>
  The properties of the Worker's Slot manager, and of the topology planner together with it.
\<close>

subsection \<open>An example Worker\<close>

text \<open>
  A runtime whose objects are named by the UID of their Sandbox, with switches that make \<open>Start\<close> and
  \<open>Delete\<close> fail, and a Worker with the layout \<open>layout1\<close> on it.
\<close>

record ex_world =
  ew_objects :: "string list"
  ew_failStart :: bool
  ew_failDelete :: bool

definition rt1 :: "(int, ex_world) runtime_iface" where
  "rt1 = \<lparr>rt_Create = \<lambda>req w. (Inr (id_UID (re_Identity req)), w\<lparr>ew_objects := id_UID (re_Identity req) # ew_objects w\<rparr>),
    rt_Start = \<lambda>rid w. (if ew_failStart w then Some (External ''start'') else None, w),
    rt_Stop = \<lambda>rid w. (None, w),
    rt_Delete = \<lambda>rid w. (if ew_failDelete w then (Some (External ''delete''), w)
                            else (None, w\<lparr>ew_objects := removeAll rid (ew_objects w)\<rparr>)),
    rt_Status = \<lambda>rid w. (if rid \<in> set (ew_objects w)
                            then Inr \<lparr>rs_State = RtRunning, rs_ExitCode = 0, rs_Message = []\<rparr>
                            else Inl (Sentinel RuntimeErrNotFound), w),
    rt_List = \<lambda>w. (Inr (map (\<lambda>rid. \<lparr>ri_ID = rid,
        ri_Identity = \<lparr>id_Namespace = ''ns'', id_Name = ''box'', id_UID = rid\<rparr>, ri_SlotID = 0,
        ri_Status = \<lparr>rs_State = RtRunning, rs_ExitCode = 0, rs_Message = []\<rparr>\<rparr>) (ew_objects w)), w),
    rt_Exec = \<lambda>rid req w. (Inr \<lparr>er_ExitCode = 0, er_Stdout = [], er_Stderr = []\<rparr>, w),
    rt_ReadFile = \<lambda>rid p w. (Inr [], w), rt_WriteFile = \<lambda>rid p c w. (None, w),
    rt_ListFiles = \<lambda>rid p w. (Inr [], w), rt_FileExists = \<lambda>rid p w. (Inr False, w),
    rt_PrimaryContainerID = None\<rparr>"

definition os1 :: "ex_world host_iface" where
  "os1 = \<lparr>ho_MkdirTemp = \<lambda>p w. (Inr p, w), ho_RemoveAll = \<lambda>p w. (None, w)\<rparr>"

definition config1 :: "int worker_config" where
  "config1 = \<lparr>wc_Name = ''w0'', wc_Namespace = ''ns'', wc_Pool = ''pool'', wc_Slots = layout1,
     wc_Runtime = \<lparr>rc_Backend = RuntimeBackendCRI, rc_CRI = None\<rparr>\<rparr>"

definition mgr1 :: "(int, ex_world) slot_manager" where
  "mgr1 = NewSlotManager config1 rt1 None"

definition world1 :: ex_world where
  "world1 = \<lparr>ew_objects = [], ew_failStart = False, ew_failDelete = False\<rparr>"

definition box_a :: sandbox_identity where
  "box_a = \<lparr>id_Namespace = ''ns'', id_Name = ''box'', id_UID = ''a''\<rparr>"

definition ref_a :: sandbox_slot_ref where
  "ref_a = \<lparr>sr_SlotID = 0, sr_Identity = box_a\<rparr>"

definition start_a :: start_sandbox_request where
  "start_a = \<lparr>sq_SlotID = 0, sq_Identity = box_a,
     sq_Container = \<lparr>cs_Image = ''busybox'', cs_Command = [], cs_Args = [], cs_Env = []\<rparr>\<rparr>"

definition slot_a :: "int managed_slot" where
  "slot_a = (newManagedSlot (layout1 ! 0))\<lparr>mg_state := StateRunning, mg_sandbox := box_a, mg_runtimeRef := Some ''a''\<rparr>"

definition mgr_a :: "(int, ex_world) slot_manager" where
  "mgr_a = mgr1\<lparr>sm_slots := gm_set 0 slot_a (sm_slots mgr1)\<rparr>"

lemmas ex_defs = rt1_def os1_def config1_def mgr1_def world1_def box_a_def ref_a_def start_a_def slot_a_def
  mgr_a_def layout1_def res1_def NewSlotManager_def newManagedSlot_def

lemma mgr1_slot0: "map_of (sm_slots mgr1) 0 = Some (newManagedSlot (layout1 ! 0))"
  by (simp add: mgr1_def config1_def NewSlotManager_def layout1_def)

lemma mgr_a_slot0: "map_of (sm_slots mgr_a) 0 = Some slot_a"
  by (simp add: mgr_a_def)

subsection \<open>Slots\<close>

text \<open>
  C5. In every state a Worker can reach, whatever its runtime, its snapshotters and its callers
  do, a free Slot carries no trace of a Sandbox (no owner, no runtime object, no restore
  directory), and a running Slot has a runtime object.
\<close>

theorem worker_slots_stay_clean:
  assumes "reach (mgr_step deq env) (NewSlotManager config rt snaps, w0) (m, w)"
    and "map_of (sm_slots m) sid = Some s"
  shows "mg_id s = sid \<and>
    (mg_state s = StateFree \<longrightarrow> mg_sandbox s = noIdentity \<and> mg_runtimeRef s = None \<and>
       \<not> mg_restored s \<and> mg_restoreDir s = []) \<and>
    (mg_state s = StateRunning \<longrightarrow> mg_runtimeRef s \<noteq> None)"
proof -
  have "mgr_ok m"
    using worker.reachable_inv [OF _ assms(1)] by auto
  from slots_okD [OF this assms(2)] show ?thesis by (simp add: slot_ok_def)
qed

theorem worker_slots_stay_clean_witness:
  "\<exists>s. map_of (sm_slots mgr1) 0 = Some s \<and> mg_state s = StateFree \<and> mg_runtimeRef s = None"
proof -
  have "reach (mgr_step (=) env) (NewSlotManager config1 rt1 None, world1) (mgr1, world1)" for env
    by (simp add: mgr1_def reach.reach_refl)
  from worker_slots_stay_clean [OF this mgr1_slot0] show ?thesis
    by (simp add: mgr1_slot0 newManagedSlot_def)
qed

text \<open>
  C13. A Slot that is busy for one Sandbox cannot be reserved, started, stopped, released or
  restored by another: each of these calls reports the conflict, and neither the Slots nor the
  outside world change.
\<close>

theorem foreign_sandbox_is_rejected:
  assumes "map_of (sm_slots m) sid = Some s" "mg_state s \<noteq> StateFree"
    and "validateIdentity other = None" "id_UID other \<noteq> id_UID (mg_sandbox s)"
  shows "(\<exists>e m'. ReserveSlot \<lparr>sr_SlotID = sid, sr_Identity = other\<rparr> m w = (Some e, m', w) \<and>
      errors_is ErrSlotConflict e \<and> map_of (sm_slots m') = map_of (sm_slots m)) \<and>
    (\<exists>e m'. StartSandbox \<lparr>sq_SlotID = sid, sq_Identity = other, sq_Container = c\<rparr> m w = (Some e, m', w) \<and>
      errors_is ErrSlotConflict e \<and> map_of (sm_slots m') = map_of (sm_slots m)) \<and>
    (\<exists>e m'. StopSandbox os \<lparr>sr_SlotID = sid, sr_Identity = other\<rparr> m w = (Some e, m', w) \<and>
      errors_is ErrSlotConflict e \<and> map_of (sm_slots m') = map_of (sm_slots m)) \<and>
    (\<exists>e m'. ReleaseSlot os \<lparr>sr_SlotID = sid, sr_Identity = other\<rparr> m w = (Some e, m', w) \<and>
      errors_is ErrSlotConflict e \<and> map_of (sm_slots m') = map_of (sm_slots m)) \<and>
    (\<exists>e. restoreLocked env sn handler
        \<lparr>rq_SlotID = sid, rq_Identity = other, rq_StoragePath = p, rq_Storage = st, rq_Runtime = rn\<rparr> s w = (Some e, s, w) \<and>
      errors_is ErrSlotConflict e)"
proof -
  have idem: "(map_of (sm_slots m))(sid \<mapsto> s) = map_of (sm_slots m)"
    using assms(1) by (rule fun_upd_idem)
  show ?thesis
    using assms
    by (simp add: ReserveSlot_def StartSandbox_def StopSandbox_def ReleaseSlot_def onSlot_def reserveLocked_def
        startLocked_def stopLocked_def releaseLocked_def restoreLocked_def idem eq_commute [of "id_UID other"])
qed

theorem foreign_sandbox_is_rejected_witness:
  "\<exists>e m'. ReleaseSlot os1 \<lparr>sr_SlotID = 0, sr_Identity = box_a\<lparr>id_UID := ''b''\<rparr>\<rparr> mgr_a world1 = (Some e, m', world1) \<and>
     errors_is ErrSlotConflict e"
proof -
  have "mg_state slot_a \<noteq> StateFree" "validateIdentity (box_a\<lparr>id_UID := ''b''\<rparr>) = None"
    "id_UID (box_a\<lparr>id_UID := ''b''\<rparr>) \<noteq> id_UID (mg_sandbox slot_a)"
    by (simp_all add: slot_a_def box_a_def validateIdentity_def)
  from foreign_sandbox_is_rejected [OF mgr_a_slot0 this, where os = os1 and w = world1] show ?thesis by blast
qed

text \<open>
  C7. \<open>ReleaseSlot\<close> frees a Slot only after its runtime object is gone.  When a Sandbox releases its
  own busy Slot, success means that the deletion of the runtime object, if there is one, has
  succeeded, and the Slot is then free and empty.  When the deletion fails, the Slot is failed and
  still has its owner and its runtime object, so that the release can be repeated.
\<close>

theorem release_deletes_before_freeing:
  assumes "map_of (sm_slots m) (sr_SlotID ref) = Some s" "mg_state s \<noteq> StateFree"
    and "validateIdentity (sr_Identity ref) = None" "id_UID (sr_Identity ref) = id_UID (mg_sandbox s)"
    and "ReleaseSlot os ref m w = (r, m', w')"
  shows "(r = None \<longrightarrow> map_of (sm_slots m') = (map_of (sm_slots m))(sr_SlotID ref \<mapsto> freed s) \<and>
       (\<forall>rid. mg_runtimeRef s = Some rid \<longrightarrow>
          (if mg_restored s
           then \<exists>sn. Registry_For (sm_snapshotters m) (runtimeHandler m) = Inr sn \<and>
                fst (sh_DeleteRestored sn rid w) = None
           else fst (rt_Delete (sm_runtime m) rid w) = None))) \<and>
    (r \<noteq> None \<longrightarrow> map_of (sm_slots m') = (map_of (sm_slots m))(sr_SlotID ref \<mapsto> s\<lparr>mg_state := StateFailed\<rparr>))"
proof -
  obtain s' where s': "releaseLocked os m ref s w = (r, s', w')"
    "m' = m\<lparr>sm_slots := gm_set (sr_SlotID ref) s' (sm_slots m)\<rparr>"
    using assms by (auto simp: ReleaseSlot_def onSlot_def split: prod.splits)
  have rt: "fst (rt_Delete (sm_runtime m) rid w) = None"
    if "releaseRuntime m s w = (None, v)" "mg_runtimeRef s = Some rid" "\<not> mg_restored s" for rid v
    using that by (auto simp: releaseRuntime_def split: prod.splits option.splits)
  have sn: "\<exists>sn. Registry_For (sm_snapshotters m) (runtimeHandler m) = Inr sn \<and>
      fst (sh_DeleteRestored sn rid w) = None"
    if "releaseRuntime m s w = (None, v)" "mg_runtimeRef s = Some rid" "mg_restored s" for rid v
    using that by (auto simp: releaseRuntime_def split: prod.splits option.splits sum.splits)
  from s'(1) show ?thesis
    by (cases rule: releaseLocked_cases) (use assms(2,4) s'(2) rt sn in auto)
qed

theorem release_deletes_before_freeing_witness:
  "\<exists>m'. ReleaseSlot os1 ref_a mgr_a (world1\<lparr>ew_failDelete := True\<rparr>) =
      (Some (Errorf ''delete runtime: %w'' [FW (External ''delete'')]), m', world1\<lparr>ew_failDelete := True\<rparr>) \<and>
     map_of (sm_slots m') 0 = Some (slot_a\<lparr>mg_state := StateFailed\<rparr>)"
proof -
  obtain r m' w' where run: "ReleaseSlot os1 ref_a mgr_a (world1\<lparr>ew_failDelete := True\<rparr>) = (r, m', w')"
    by (cases "ReleaseSlot os1 ref_a mgr_a (world1\<lparr>ew_failDelete := True\<rparr>)")
  then have r: "r = Some (Errorf ''delete runtime: %w'' [FW (External ''delete'')])" "w' = world1\<lparr>ew_failDelete := True\<rparr>"
    by (auto simp: ReleaseSlot_def onSlot_def releaseLocked_def releaseRuntime_def validateIdentity_def getSlot_def ex_defs)
  have "map_of (sm_slots mgr_a) (sr_SlotID ref_a) = Some slot_a" "mg_state slot_a \<noteq> StateFree"
    "validateIdentity (sr_Identity ref_a) = None" "id_UID (sr_Identity ref_a) = id_UID (mg_sandbox slot_a)"
    using mgr_a_slot0 by (simp_all add: ref_a_def box_a_def slot_a_def validateIdentity_def)
  from release_deletes_before_freeing [OF this run] run r show ?thesis
    by (auto simp: ref_a_def)
qed

text \<open>Reserving a free Slot and starting a container in it, when the runtime creates and starts its object.\<close>

lemma reserve_start_free:
  assumes "map_of (sm_slots m) sid = Some s" "mg_state s = StateFree" "slot_ok s"
    and "validateIdentity i = None" "convertEnv (cs_Env c) = Inr vars"
    and "rt_Create (sm_runtime m) \<lparr>re_Identity = i, re_SlotID = sid, re_Resources = mg_resources s,
        re_Container = \<lparr>cc_Image = cs_Image c, cc_Command = cs_Command c, cc_Args = cs_Args c, cc_Env = vars\<rparr>\<rparr> w
        = (Inr rid, w1)"
    and "rt_Start (sm_runtime m) rid w1 = (None, w2)"
  defines "m1 \<equiv> m\<lparr>sm_slots := gm_set sid (s\<lparr>mg_state := StateReserved, mg_sandbox := i\<rparr>) (sm_slots m)\<rparr>"
  defines "m2 \<equiv> m1\<lparr>sm_slots := gm_set sid (s\<lparr>mg_state := StateRunning, mg_sandbox := i, mg_runtimeRef := Some rid,
      mg_restored := IsRestoredID rid\<rparr>) (sm_slots m1)\<rparr>"
  shows "ReserveSlot \<lparr>sr_SlotID = sid, sr_Identity = i\<rparr> m w = (None, m1, w)"
    and "StartSandbox \<lparr>sq_SlotID = sid, sq_Identity = i, sq_Container = c\<rparr> m1 w = (None, m2, w2)"
proof -
  have none: "mg_runtimeRef s = None"
    using assms(2,3) by (simp add: slot_ok_def)
  show "ReserveSlot \<lparr>sr_SlotID = sid, sr_Identity = i\<rparr> m w = (None, m1, w)"
    using assms(1-4) by (simp add: ReserveSlot_def onSlot_def reserveLocked_def m1_def)
  have "startLocked (sm_runtime m) \<lparr>sq_SlotID = sid, sq_Identity = i, sq_Container = c\<rparr>
      (s\<lparr>mg_state := StateReserved, mg_sandbox := i\<rparr>) w
    = (None, s\<lparr>mg_state := StateRunning, mg_sandbox := i, mg_runtimeRef := Some rid, mg_restored := IsRestoredID rid\<rparr>, w2)"
    using assms(1-7) none by (simp add: startLocked_def checkRunning_def resumeStart_def createAndStart_def containerConfig_def)
  then show "StartSandbox \<lparr>sq_SlotID = sid, sq_Identity = i, sq_Container = c\<rparr> m1 w = (None, m2, w2)"
    using assms(4) by (simp add: StartSandbox_def onSlot_def getSlot_def m1_def m2_def)
qed

text \<open>
  C14. The normal life of a Sandbox.  Reserving a free Slot and then starting a container in it,
  when the runtime creates and starts its object, leaves the Slot running for the Sandbox with
  that object and every other Slot as it was; \<open>GetSandbox\<close> reports it; and a second start, while
  the runtime reports the object running, succeeds without creating another.
\<close>

theorem reserve_then_start:
  assumes "map_of (sm_slots m) sid = Some s" "mg_state s = StateFree" "slot_ok s"
    and "validateIdentity i = None" "convertEnv (cs_Env c) = Inr vars"
    and "rt_Create (sm_runtime m) \<lparr>re_Identity = i, re_SlotID = sid, re_Resources = mg_resources s,
        re_Container = \<lparr>cc_Image = cs_Image c, cc_Command = cs_Command c, cc_Args = cs_Args c, cc_Env = vars\<rparr>\<rparr> w
        = (Inr rid, w1)"
    and "rt_Start (sm_runtime m) rid w1 = (None, w2)"
    and "rt_Status (sm_runtime m) rid w2 = (Inr st, w3)" "rs_State st = RtRunning"
  shows "\<exists>m1 m2 m3. ReserveSlot \<lparr>sr_SlotID = sid, sr_Identity = i\<rparr> m w = (None, m1, w) \<and>
    StartSandbox \<lparr>sq_SlotID = sid, sq_Identity = i, sq_Container = c\<rparr> m1 w = (None, m2, w2) \<and>
    map_of (sm_slots m2) = (map_of (sm_slots m))(sid \<mapsto> s\<lparr>mg_state := StateRunning, mg_sandbox := i,
      mg_runtimeRef := Some rid, mg_restored := IsRestoredID rid\<rparr>) \<and>
    GetSandbox \<lparr>sr_SlotID = sid, sr_Identity = i\<rparr> m2 = Inr \<lparr>sx_Identity = i, sx_SlotID = mg_id s, sx_State = StateRunning\<rparr> \<and>
    StartSandbox \<lparr>sq_SlotID = sid, sq_Identity = i, sq_Container = c\<rparr> m2 w2 = (None, m3, w3) \<and>
    map_of (sm_slots m3) = map_of (sm_slots m2)"
proof -
  let ?s1 = "s\<lparr>mg_state := StateReserved, mg_sandbox := i\<rparr>"
  let ?s2 = "s\<lparr>mg_state := StateRunning, mg_sandbox := i, mg_runtimeRef := Some rid, mg_restored := IsRestoredID rid\<rparr>"
  let ?m1 = "m\<lparr>sm_slots := gm_set sid ?s1 (sm_slots m)\<rparr>"
  let ?m2 = "?m1\<lparr>sm_slots := gm_set sid ?s2 (sm_slots ?m1)\<rparr>"
  let ?req = "\<lparr>sq_SlotID = sid, sq_Identity = i, sq_Container = c\<rparr>"
  note reserve = reserve_start_free(1) [OF assms(1-7)] and start = reserve_start_free(2) [OF assms(1-7)]
  have "startLocked (sm_runtime m) ?req ?s2 w2 = (None, ?s2, w3)"
    using assms by (simp add: startLocked_def checkRunning_def)
  then have again: "StartSandbox ?req ?m2 w2 = (None, ?m2\<lparr>sm_slots := gm_set sid ?s2 (sm_slots ?m2)\<rparr>, w3)"
    using assms(4) by (simp add: StartSandbox_def onSlot_def getSlot_def)
  have got: "GetSandbox \<lparr>sr_SlotID = sid, sr_Identity = i\<rparr> ?m2 = Inr \<lparr>sx_Identity = i, sx_SlotID = mg_id s, sx_State = StateRunning\<rparr>"
    using assms(4) by (simp add: GetSandbox_def getSlot_def)
  have look: "map_of (sm_slots ?m2) = (map_of (sm_slots m))(sid \<mapsto> ?s2)"
    "map_of (sm_slots (?m2\<lparr>sm_slots := gm_set sid ?s2 (sm_slots ?m2)\<rparr>)) = map_of (sm_slots ?m2)"
    by simp_all
  show ?thesis
    by (intro exI conjI) (fact reserve start look got again)+
qed

theorem reserve_then_start_witness:
  "\<exists>m1 m2. ReserveSlot ref_a mgr1 world1 = (None, m1, world1) \<and>
     StartSandbox start_a m1 world1 = (None, m2, world1\<lparr>ew_objects := [''a'']\<rparr>)"
proof -
  let ?w = "world1\<lparr>ew_objects := [''a'']\<rparr>"
  have "mg_state (newManagedSlot (layout1 ! 0)) = StateFree" "slot_ok (newManagedSlot (layout1 ! 0))"
    "validateIdentity box_a = None" "convertEnv (cs_Env (sq_Container start_a)) = Inr []"
    "\<And>req. id_UID (re_Identity req) = ''a'' \<Longrightarrow> rt_Create (sm_runtime mgr1) req world1 = (Inr ''a'', ?w)"
    "rt_Start (sm_runtime mgr1) ''a'' ?w = (None, ?w)"
    "rt_Status (sm_runtime mgr1) ''a'' ?w = (Inr \<lparr>rs_State = RtRunning, rs_ExitCode = 0, rs_Message = []\<rparr>, ?w)"
    by (simp_all add: newManagedSlot_def slot_ok_def box_a_def validateIdentity_def start_a_def mgr1_def
        NewSlotManager_def rt1_def world1_def)
  note reserve_then_start [OF mgr1_slot0 this(1-4) this(5) this(6,7)]
  then show ?thesis
    by (auto simp: ref_a_def start_a_def box_a_def)
qed

text \<open>
  A runtime object can be leaked: when the start of a created object fails and its cleanup
  fails too, the Slot forgets the object, and releasing the Slot then frees it although the object
  still exists.
\<close>

theorem failed_cleanup_leaks_runtime_object:
  "\<exists>m1 m2 m3 e w. ReserveSlot ref_a mgr1 (world1\<lparr>ew_failStart := True, ew_failDelete := True\<rparr>) =
       (None, m1, world1\<lparr>ew_failStart := True, ew_failDelete := True\<rparr>) \<and>
     StartSandbox start_a m1 (world1\<lparr>ew_failStart := True, ew_failDelete := True\<rparr>) = (Some e, m2, w) \<and>
     ReleaseSlot os1 ref_a m2 (w\<lparr>ew_failDelete := False\<rparr>) = (None, m3, w\<lparr>ew_failDelete := False\<rparr>) \<and>
     map_of (sm_slots m3) 0 = Some (newManagedSlot (layout1 ! 0)) \<and> ''a'' \<in> set (ew_objects w)"
  by (simp add: ReserveSlot_def StartSandbox_def ReleaseSlot_def onSlot_def reserveLocked_def startLocked_def
      checkRunning_def resumeStart_def createAndStart_def containerConfig_def releaseLocked_def releaseRuntime_def
      validateIdentity_def getSlot_def clearRestoreDir_def ex_defs noIdentity_def)

subsection \<open>Topology\<close>

text \<open>
  C9. \<open>ApplySlots\<close> accepts a layout exactly when its IDs are distinct, it keeps every busy Slot, and
  it changes neither the profile nor the resources of a Slot it keeps.  A rejected layout changes
  nothing; an accepted one keeps every kept Slot with its Sandbox and adds the others as free
  Slots, and after it the Worker has exactly the IDs of the layout.
\<close>

theorem apply_slots_exact:
  assumes "gm_ok (sm_slots m)" "ApplySlots deq configs m = (r, m')"
  shows "(r = None \<longleftrightarrow> acceptable deq configs (sm_slots m)) \<and>
    (\<forall>e. r = Some e \<longrightarrow> m' = m \<and> errors_is ErrSlotConfigInvalid e) \<and>
    (r = None \<longrightarrow> map fst (sm_slots m') = map sc_ID configs \<and>
       (\<forall>cfg \<in> set configs. map_of (sm_slots m') (sc_ID cfg) =
          Some (case map_of (sm_slots m) (sc_ID cfg) of Some s \<Rightarrow> s | None \<Rightarrow> newManagedSlot cfg)) \<and>
       (\<forall>sid s. map_of (sm_slots m) sid = Some s \<longrightarrow> mg_state s \<noteq> StateFree \<longrightarrow> map_of (sm_slots m') sid = Some s))"
proof (cases "acceptable deq configs (sm_slots m)")
  case True
  then have d: "distinct (map sc_ID configs)" by (simp add: acceptable_def)
  have m': "sm_slots m' = appliedSlots configs (sm_slots m)" "r = None"
    using ApplySlots_accepts [OF assms(1) True] assms(2) by auto
  note look = appliedSlots_look [OF d]
  have "map_of (sm_slots m') sid = Some s" if busy: "map_of (sm_slots m) sid = Some s" "mg_state s \<noteq> StateFree" for sid s
  proof -
    have "sid \<in> sc_ID ` set configs"
      using True busy unfolding acceptable_def by blast
    with look busy(1) m' show ?thesis by auto
  qed
  with True look m' show ?thesis
    by (simp add: appliedSlots_def comp_def)
next
  case False
  with ApplySlots_rejects [OF assms(1) False] assms(2) show ?thesis by auto
qed

theorem apply_slots_exact_witness:
  "\<exists>e. ApplySlots (=) [layout1 ! 1] mgr_a = (Some e, mgr_a) \<and> errors_is ErrSlotConfigInvalid e"
proof -
  obtain r m' where run: "ApplySlots (=) [layout1 ! 1] mgr_a = (r, m')"
    by (cases "ApplySlots (=) [layout1 ! 1] mgr_a")
  have ok: "gm_ok (sm_slots mgr_a)"
    by (simp add: ex_defs)
  have "\<not> acceptable (=) [layout1 ! 1] (sm_slots mgr_a)"
  proof
    assume "acceptable (=) [layout1 ! 1] (sm_slots mgr_a)"
    then have "0 \<notin> sc_ID ` set [layout1 ! 1] \<longrightarrow> mg_state slot_a = StateFree"
      using mgr_a_slot0 unfolding acceptable_def by blast
    then show False by (simp add: layout1_def slot_a_def)
  qed
  with apply_slots_exact [OF ok run] run show ?thesis by (cases r) auto
qed

text \<open>A Worker's Slots are those of a layout.\<close>

definition matches ::
    "('q resource_requirements \<Rightarrow> 'q resource_requirements \<Rightarrow> bool) \<Rightarrow> 'q slot_config list \<Rightarrow>
     (int, 'q managed_slot) gomap \<Rightarrow> bool" where
  "matches deq current slots \<longleftrightarrow> gm_ok slots \<and>
     (\<forall>sid s. map_of slots sid = Some s \<longrightarrow>
        (\<exists>c \<in> set current. sc_ID c = sid \<and> mg_profile s = sc_Profile c \<and> deq (mg_resources s) (sc_Resources c)))"

text \<open>
  C10. Scaling up goes through.  When no profile loses Slots, the layout that \<open>PlanTopology\<close> plans
  from a Worker's current layout is accepted by \<open>ApplySlots\<close> on that Worker, whatever its Slots are
  doing, and no Slot is disturbed.
\<close>

theorem scale_up_plan_is_applied:
  assumes "planInputs_ok current counts order" "PlanTopology current counts profiles busy order = Some plan"
    and "\<forall>p. int (length (of_profile p current)) \<le> gm_get0 0 counts p"
    and "matches deq current (sm_slots m)"
  shows "\<exists>m'. ApplySlots deq (tp_Slots plan) m = (None, m') \<and>
    (\<forall>sid s. map_of (sm_slots m) sid = Some s \<longrightarrow> map_of (sm_slots m') sid = Some s)"
proof -
  obtain st where run: "PlanTopology current counts profiles busy order = Some (planOf st)"
    "plan_inv (planInput current counts profiles busy) (allProfiles current counts order) st"
    using PlanTopology_run [OF assms(1)] .
  then have ids: "distinct (map sc_ID (tp_Slots plan))"
    and low: "\<And>p. p \<in> allProfiles current counts order \<Longrightarrow>
      set (take (nat (gm_get0 0 counts p)) (sort_key sc_ID (of_profile p current))) \<subseteq> set (tp_Slots plan)"
    using assms(2) by (auto simp: plan_inv_def)
  have kept: "c \<in> set (tp_Slots plan)" if "c \<in> set current" for c
  proof -
    let ?p = "sc_Profile c"
    have "take (nat (gm_get0 0 counts ?p)) (sort_key sc_ID (of_profile ?p current)) = sort_key sc_ID (of_profile ?p current)"
      using assms(3) [rule_format, of ?p] by (intro take_all) (simp add: nat_le_iff le_nat_iff)
    with low [of ?p] that show ?thesis by auto
  qed
  have gm: "gm_ok (sm_slots m)"
    using assms(4) by (simp add: matches_def)
  have here: "\<exists>c \<in> set (tp_Slots plan). sc_ID c = sid \<and> mg_profile s = sc_Profile c \<and> deq (mg_resources s) (sc_Resources c)"
    if "map_of (sm_slots m) sid = Some s" for sid s
    using assms(4) that kept unfolding matches_def by blast
  have "acceptable deq (tp_Slots plan) (sm_slots m)"
    unfolding acceptable_def using ids here id_inj [OF ids] by (metis image_eqI)
  from ApplySlots_accepts [OF gm this] have "ApplySlots deq (tp_Slots plan) m = (None, m\<lparr>
      sm_slots := appliedSlots (tp_Slots plan) (sm_slots m), sm_config := (sm_config m)\<lparr>wc_Slots := tp_Slots plan\<rparr>\<rparr>)" .
  moreover have "map_of (appliedSlots (tp_Slots plan) (sm_slots m)) sid = Some s"
    if "map_of (sm_slots m) sid = Some s" for sid s
    using here [OF that] appliedSlots_look [OF ids] that by fastforce
  ultimately show ?thesis by simp
qed

lemma mgr1_matches: "matches (=) layout1 (sm_slots mgr1)"
  by (auto simp: matches_def ex_defs cloneResources_def cloneResourceList_def split: if_splits)

theorem scale_up_plan_is_applied_witness:
  "\<exists>plan m'. PlanTopology layout1 [(''small'', 3), (''large'', 1)] profiles1 [] [''small'', ''large''] = Some plan \<and>
     ApplySlots (=) (tp_Slots plan) mgr1 = (None, m')"
proof -
  have ok: "planInputs_ok layout1 [(''small'', 3), (''large'', 1)] [''small'', ''large'']"
    by (simp add: planInputs_ok_def layout1_def int32_ok_def orderedProfiles_def groupByProfile_def gm_get0_def)
  obtain plan where plan: "PlanTopology layout1 [(''small'', 3), (''large'', 1)] profiles1 [] [''small'', ''large''] = Some plan"
    using PlanTopology_run [OF ok] by metis
  have "\<forall>p. int (length (of_profile p layout1)) \<le> gm_get0 0 [(''small'', 3), (''large'', 1)] p"
    by (auto simp: layout1_def gm_get0_def)
  from scale_up_plan_is_applied [OF ok plan this mgr1_matches] plan show ?thesis by blast
qed

text \<open>
  Exchanging Slots between profiles does not go through.  The layout planned for an idle Worker
  that trades a small Slot for a large one reuses the ID of the Slot it removes, and the Worker
  rejects it as a change of an immutable Slot, however often it is pushed.
\<close>

theorem exchange_plan_is_rejected:
  "\<exists>plan e. PlanTopology layout1 [(''small'', 1), (''large'', 2)] profiles1 [] [''small'', ''large''] = Some plan \<and>
     \<not> tp_Blocked plan \<and> ApplySlots (=) (tp_Slots plan) mgr1 = (Some e, mgr1) \<and> errors_is ErrSlotConfigInvalid e"
proof -
  obtain plan where plan: "PlanTopology layout1 [(''small'', 1), (''large'', 2)] profiles1 []
      [''small'', ''large''] = Some plan" "\<not> tp_Blocked plan"
    "map (\<lambda>c. (sc_ID c, sc_Profile c)) (tp_Slots plan) = [(0, ''small''), (1, ''large''), (2, ''large'')]"
    using layout1_plan by (elim exE conjE) (rule that)
  have n: "1 < length (tp_Slots plan)"
    using arg_cong [OF plan(3), of length] by simp
  let ?c = "tp_Slots plan ! 1"
  have c: "?c \<in> set (tp_Slots plan)" "(sc_ID ?c, sc_Profile ?c) = (1, ''large'')"
    using n arg_cong [OF plan(3), of "\<lambda>xs. xs ! 1"] by simp_all
  have "map_of (sm_slots mgr1) 1 = Some (newManagedSlot (layout1 ! 1))"
    by (simp add: ex_defs)
  then have "\<not> acceptable (=) (tp_Slots plan) (sm_slots mgr1)"
    using c unfolding acceptable_def by (auto simp: newManagedSlot_def layout1_def simp del: nth_mem dest!: bspec [of _ _ ?c])
  moreover have "gm_ok (sm_slots mgr1)"
    by (simp add: ex_defs)
  ultimately show ?thesis
    using ApplySlots_rejects plan(1,2) by blast
qed

subsection \<open>Reports and recovery\<close>

text \<open>
  A Worker's report lists every Slot exactly once, in the order of the IDs, with its profile,
  its state and its owner.
\<close>

theorem list_slots_complete:
  assumes "gm_ok (sm_slots m)"
  shows "map si_ID (ListSlots m) = sort (map fst (sm_slots m)) \<and> distinct (map si_ID (ListSlots m)) \<and>
    (\<forall>info. info \<in> set (ListSlots m) \<longleftrightarrow>
      (\<exists>s. map_of (sm_slots m) (si_ID info) = Some s \<and> si_Profile info = mg_profile s \<and>
         si_State info = mg_state s \<and> si_SandboxUID info = id_UID (mg_sandbox s)))"
proof -
  let ?row = "\<lambda>sid. case getSlot m sid of Inl _ \<Rightarrow> []
     | Inr s \<Rightarrow> [\<lparr>si_ID = sid, si_Profile = mg_profile s, si_State = mg_state s, si_SandboxUID = id_UID (mg_sandbox s)\<rparr>]"
  have one: "\<exists>s. map_of (sm_slots m) sid = Some s" if "sid \<in> set (map fst (sm_slots m))" for sid
    using that by (simp add: gm_key_get)
  have "map si_ID (concat (map ?row sids)) = sids" if "set sids \<subseteq> set (map fst (sm_slots m))" for sids
    using that
  proof (induction sids)
    case (Cons sid sids)
    then obtain s where "map_of (sm_slots m) sid = Some s" using one by auto
    with Cons show ?case by simp
  qed simp
  from this [of "sort (map fst (sm_slots m))"] have ids: "map si_ID (ListSlots m) = sort (map fst (sm_slots m))"
    by (simp add: ListSlots_def)
  have "info \<in> set (ListSlots m) \<longleftrightarrow>
      (\<exists>s. map_of (sm_slots m) (si_ID info) = Some s \<and> si_Profile info = mg_profile s \<and>
         si_State info = mg_state s \<and> si_SandboxUID info = id_UID (mg_sandbox s))" for info
  proof -
    have "info \<in> set (ListSlots m) \<longleftrightarrow> (\<exists>sid s. map_of (sm_slots m) sid = Some s \<and> info \<in> set (?row sid))"
    proof -
      have "info \<in> set (ListSlots m) \<longleftrightarrow> (\<exists>sid \<in> fst ` set (sm_slots m). info \<in> set (?row sid))"
        by (simp add: ListSlots_def)
      then show ?thesis unfolding Bex_def gm_key_get by blast
    qed
    also have "\<dots> \<longleftrightarrow> (\<exists>sid s. map_of (sm_slots m) sid = Some s \<and>
        info = \<lparr>si_ID = sid, si_Profile = mg_profile s, si_State = mg_state s, si_SandboxUID = id_UID (mg_sandbox s)\<rparr>)"
      by (intro ex_cong1 conj_cong refl) simp
    finally have eq: "info \<in> set (ListSlots m) \<longleftrightarrow> (\<exists>sid s. map_of (sm_slots m) sid = Some s \<and>
        info = \<lparr>si_ID = sid, si_Profile = mg_profile s, si_State = mg_state s, si_SandboxUID = id_UID (mg_sandbox s)\<rparr>)" .
    show ?thesis
      unfolding eq by (cases info) simp
  qed
  with ids assms show ?thesis by simp
qed

theorem list_slots_complete_witness: "map si_ID (ListSlots mgr_a) = [0, 1, 2]"
proof -
  have "gm_ok (sm_slots mgr_a)" "sort (map fst (sm_slots mgr_a)) = [0, 1, 2]"
    by (simp_all add: ex_defs)
  with list_slots_complete [of mgr_a] show ?thesis by simp
qed

text \<open>
  Recovery.  When the runtime's objects lie in distinct, known and free Slots, \<open>Recover\<close> succeeds
  and gives every such Slot the identity, the runtime object and the state of its object, and
  leaves the other Slots alone.
\<close>

theorem recover_rebuilds_slots:
  assumes "rt_List (sm_runtime m) w = (Inr objs, w')" "distinct (map ri_SlotID objs)"
    and "\<forall>obj \<in> set objs. \<exists>s. map_of (sm_slots m) (ri_SlotID obj) = Some s \<and> mg_state s = StateFree"
  shows "\<exists>m'. Recover m w = (None, m', w') \<and>
    (\<forall>obj \<in> set objs. \<exists>s. map_of (sm_slots m) (ri_SlotID obj) = Some s \<and>
       map_of (sm_slots m') (ri_SlotID obj) = Some (s\<lparr>mg_sandbox := ri_Identity obj, mg_runtimeRef := Some (ri_ID obj),
         mg_state := runtimeSlotState (rs_State (ri_Status obj))\<rparr>)) \<and>
    (\<forall>sid. sid \<notin> ri_SlotID ` set objs \<longrightarrow> map_of (sm_slots m') sid = map_of (sm_slots m) sid)"
proof -
  have "\<exists>m'. recoverObjects objs m = (None, m') \<and>
    (\<forall>obj \<in> set objs. \<exists>s. map_of (sm_slots m) (ri_SlotID obj) = Some s \<and>
       map_of (sm_slots m') (ri_SlotID obj) = Some (s\<lparr>mg_sandbox := ri_Identity obj, mg_runtimeRef := Some (ri_ID obj),
         mg_state := runtimeSlotState (rs_State (ri_Status obj))\<rparr>)) \<and>
    (\<forall>sid. sid \<notin> ri_SlotID ` set objs \<longrightarrow> map_of (sm_slots m') sid = map_of (sm_slots m) sid)"
    using assms(2,3)
  proof (induction objs arbitrary: m)
    case (Cons obj objs)
    then obtain s where s: "map_of (sm_slots m) (ri_SlotID obj) = Some s" "mg_state s = StateFree"
      by auto
    let ?s = "s\<lparr>mg_sandbox := ri_Identity obj, mg_runtimeRef := Some (ri_ID obj),
        mg_state := runtimeSlotState (rs_State (ri_Status obj))\<rparr>"
    let ?m = "m\<lparr>sm_slots := gm_set (ri_SlotID obj) ?s (sm_slots m)\<rparr>"
    have other: "map_of (sm_slots ?m) (ri_SlotID o') = map_of (sm_slots m) (ri_SlotID o')" if "o' \<in> set objs" for o'
      using Cons.prems(1) that by (auto simp: image_iff)
    then have "\<forall>o' \<in> set objs. \<exists>s. map_of (sm_slots ?m) (ri_SlotID o') = Some s \<and> mg_state s = StateFree"
      using Cons.prems(2) by simp
    then obtain m' where m': "recoverObjects objs ?m = (None, m')"
      "\<forall>o' \<in> set objs. \<exists>s. map_of (sm_slots ?m) (ri_SlotID o') = Some s \<and>
         map_of (sm_slots m') (ri_SlotID o') = Some (s\<lparr>mg_sandbox := ri_Identity o', mg_runtimeRef := Some (ri_ID o'),
           mg_state := runtimeSlotState (rs_State (ri_Status o'))\<rparr>)"
      "\<forall>sid. sid \<notin> ri_SlotID ` set objs \<longrightarrow> map_of (sm_slots m') sid = map_of (sm_slots ?m) sid"
      using Cons.IH [of ?m] Cons.prems(1) by auto
    have "recoverObjects (obj # objs) m = (None, m')"
      using s m'(1) by simp
    moreover have "map_of (sm_slots m') (ri_SlotID obj) = Some ?s"
      using m'(3) Cons.prems(1) by simp
    ultimately show ?case
      using m'(2,3) other s(1) by (intro exI [of _ m']) auto
  qed simp
  with assms(1) show ?thesis by (auto simp: Recover_def)
qed

theorem recover_rebuilds_slots_witness:
  "\<exists>m'. Recover mgr1 (world1\<lparr>ew_objects := [''a'']\<rparr>) = (None, m', world1\<lparr>ew_objects := [''a'']\<rparr>)"
proof -
  let ?obj = "\<lparr>ri_ID = ''a'', ri_Identity = box_a, ri_SlotID = 0,
    ri_Status = \<lparr>rs_State = RtRunning, rs_ExitCode = 0, rs_Message = []\<rparr>\<rparr>"
  have "rt_List (sm_runtime mgr1) (world1\<lparr>ew_objects := [''a'']\<rparr>) = (Inr [?obj], world1\<lparr>ew_objects := [''a'']\<rparr>)"
    by (simp add: ex_defs)
  from recover_rebuilds_slots [OF this] mgr1_slot0 show ?thesis
    by (fastforce simp: newManagedSlot_def)
qed

text \<open>
  A Worker that recovers before its topology is pushed cannot start: with no Slots configured,
  as the Worker process is, any object of the runtime makes \<open>Recover\<close> fail.
\<close>

theorem recover_without_topology_fails:
  assumes "wc_Slots config = []" "rt_List rt w = (Inr objs, w')" "objs \<noteq> []"
  shows "\<exists>e. Recover (NewSlotManager config rt snaps) w = (Some e, NewSlotManager config rt snaps, w')"
  using assms by (cases objs) (simp_all add: Recover_def NewSlotManager_def getSlot_def)

theorem recover_without_topology_fails_witness:
  "\<exists>e. Recover (NewSlotManager (config1\<lparr>wc_Slots := []\<rparr>) rt1 None) (world1\<lparr>ew_objects := [''a'']\<rparr>) =
     (Some e, NewSlotManager (config1\<lparr>wc_Slots := []\<rparr>) rt1 None, world1\<lparr>ew_objects := [''a'']\<rparr>)"
  by (rule recover_without_topology_fails) (auto simp: rt1_def)

end
