(* ===== verification/ControllerProperties.thy ===== *)
theory ControllerProperties
  imports ControlPlane SchedulerCorrect WorkerProperties
begin

text \<open>
  The properties of the controllers and of the HTTP interface between them and the Workers.
\<close>

subsection \<open>An example cluster\<close>

text \<open>One Worker with the Slots of \<open>layout1\<close>, of which Slot 0 runs the Sandbox \<open>a\<close>, behind a good network.\<close>

definition store_env1 :: "ex_world store_env" where
  "store_env1 = \<lparr>se_ReadDir = \<lambda>p w. (Inr [], w), se_ReadFile = \<lambda>p w. (Inr [], w), se_OpenFile = \<lambda>p w. (None, w),
     se_MkdirAll = \<lambda>p w. (None, w), se_Now = \<lambda>w. (0, w), se_Compress = \<lambda>p w. (Inr [], w),
     se_NewReader = \<lambda>p. None, se_CopyDecoded = \<lambda>p d w. (None, w), se_Marshal = \<lambda>m. Inr [],
     se_Unmarshal = \<lambda>s. Inl (External ''empty'')\<rparr>"

definition env1 :: "(int, ex_world) server_env" where
  "env1 = \<lparr>se_Env = \<lparr>we_Os = os1, we_Store = store_env1,
     we_S3New = \<lambda>opts. \<lparr>cl_PutObject = \<lambda>b k d w. (None, w), cl_GetObject = \<lambda>b k w. (Inr [], w),
       cl_DeleteObject = \<lambda>b k w. (None, w)\<rparr>\<rparr>, se_DeepEqual = (=)\<rparr>"

definition fleet1 :: "(int, ex_world) fleet" where
  "fleet1 = \<lparr>fl_Workers = [(''http://w0'', mgr_a)], fl_World = world1\<lparr>ew_objects := [''a'']\<rparr>\<rparr>"

definition good_net :: "(int, ex_world) network" where
  "good_net host req fl = Delivered"

lemma fleet1_worker: "workerAt fleet1 ''http://w0'' = Some mgr_a"
  by (simp add: workerAt_def fleet1_def TrimRightSlash_def)

text \<open>The cluster around it: the Worker's Pod, a Pool and the Sandbox, which is being deleted.\<close>

definition pod1 :: "int pod" where
  "pod1 = \<lparr>pd_Namespace = ''ns'', pd_Name = ''pool-t-worker-0'',
     pd_Labels = [(labelManaged, ''true''), (labelPool, ''pool''), (labelTemplate, ''t'')],
     pd_PodIP = ''http://w0'', pd_Conditions = [(''Ready'', ''True'')], pd_Containers = []\<rparr>"

definition box1 :: sandbox where
  "box1 = \<lparr>sb_Meta = \<lparr>om_Namespace = ''ns'', om_Name = ''box'', om_UID = ''a'', om_Generation = 1,
       om_Finalizers = [SandboxFinalizer], om_Deleting = True\<rparr>,
     sb_Spec = \<lparr>sb_PoolRef = ''pool'', sb_SlotProfile = ''small'',
       sb_Container = Some \<lparr>cs_Image = ''busybox'', cs_Command = [], cs_Args = [], cs_Env = []\<rparr>, sb_FromSnapshot = []\<rparr>,
     sb_Status = \<lparr>ss_ObservedGeneration = 1, ss_Phase = SandboxPhaseRunning,
       ss_Assignment = Some \<lparr>aa_Worker = ''pool-t-worker-0'', aa_SlotID = 0, aa_SlotProfile = ''small''\<rparr>,
       ss_Conditions = []\<rparr>\<rparr>"

definition pool1 :: "int sandbox_pool" where
  "pool1 = \<lparr>po_Meta = \<lparr>om_Namespace = ''ns'', om_Name = ''pool'', om_UID = ''p'', om_Generation = 1,
       om_Finalizers = [], om_Deleting = False\<rparr>,
     po_Spec = \<lparr>po_Runtime = \<lparr>rc_Backend = RuntimeBackendCRI, rc_CRI = None\<rparr>, po_SnapshotStorage = None,
       po_SlotProfiles = [\<lparr>pf_Name = ''small'', pf_Resources = res1\<rparr>, \<lparr>pf_Name = ''large'', pf_Resources = res1\<rparr>],
       po_WorkerTemplates = [\<lparr>wt_Name = ''t'', wt_Replicas = 1,
         wt_Slots = [\<lparr>sg_Profile = ''small'', sg_Count = 2\<rparr>, \<lparr>sg_Profile = ''large'', sg_Count = 1\<rparr>]\<rparr>]\<rparr>,
     po_Status = \<lparr>pt_ObservedGeneration = 0, pt_CurrentWorkers = 0, pt_ReadyWorkers = 0, pt_UsedSlots = 0,
       pt_AvailableSlots = 0, pt_Templates = [], pt_Profiles = [], pt_Conditions = []\<rparr>\<rparr>"

definition store1 :: "int api_store" where
  "store1 = \<lparr>ax_Sandboxes = [((''ns'', ''box''), box1)], ax_Snapshots = [], ax_Pools = [((''ns'', ''pool''), pool1)],
     ax_Pods = [((''ns'', ''pool-t-worker-0''), pod1)], ax_Secrets = [], ax_Services = [], ax_StatefulSets = [], ax_Clock = 0\<rparr>"

definition cluster1 :: "(int, ex_world) store_cluster" where
  "cluster1 = \<lparr>cu_Fleet = fleet1, cu_Store = store1\<rparr>"

definition rec1 :: "(int, (int, ex_world) store_cluster) reconciler" where
  "rec1 = \<lparr>rc_Kube = storeKube, rc_Client = httpClient (clusterDo good_net env1),
     rc_Endpoint = \<lambda>p. Inr (pd_PodIP p), rc_Select = BinPackStrategy_Select\<rparr>"

definition prec1 :: "(int, (int, ex_world) store_cluster) pool_reconciler" where
  "prec1 = \<lparr>pr_Base = rec1,
     pr_Build = Build \<lparr>sb_Port = 8090, sb_DefaultImage = ''worker'', sb_Profiles = []\<rparr> 2, pr_WorkerPort = 8090\<rparr>"

definition sched_a :: memory_scheduler where
  "sched_a = snd (Restore \<lparr>as_SandboxUID = ''a'', as_Namespace = ''ns'', as_Name = ''box'',
     as_Worker = \<lparr>wk_Namespace = ''ns'', wk_Pool = ''pool'', wk_Name = ''pool-t-worker-0''\<rparr>, as_SlotID = 0,
     as_SlotProfile = ''small''\<rparr> (snd (New None)))"

subsection \<open>Calls over HTTP\<close>





text \<open>
  The upload endpoint does not keep the rule that a file is written by a plain name: the manager
  refuses a name with a directory, but over HTTP the same request writes the file of the last path
  element into the root of the files.
\<close>

theorem upload_flattens_nested_names:
  "\<exists>fl'. client_WriteSandboxFile (fleetDo good_net env1) ''http://w0''
       \<lparr>fr_SlotID = 0, fr_Identity = box_a, fr_Path = ''sub/x''\<rparr> ''data'' fleet1 = (None, fl') \<and>
     (\<exists>e. fst (WriteSandboxFile \<lparr>fr_SlotID = 0, fr_Identity = box_a, fr_Path = ''sub/x''\<rparr> ''data'' mgr_a (fl_World fleet1)) =
        Some e \<and> errors_is ErrInvalidRequest e)"
proof -
  let ?req = "\<lparr>fr_SlotID = 0, fr_Identity = box_a, fr_Path = ''sub/x''\<rparr>"
  have names: "uploadName ''sub/x'' = ''x''" "ValidateWriteName ''x'' = None" "ValidateWriteName ''sub/x'' \<noteq> None"
    by code_simp+
  have slot: "runningSlot mgr_a 0 box_a = Inr (slot_a, ''a'')"
    by (simp add: runningSlot_def validateIdentity_def mgr_a_slot0 getSlot_def) (simp add: slot_a_def box_a_def)
  have "WriteSandboxFile (?req\<lparr>fr_Path := uploadName ''sub/x''\<rparr>) ''data'' mgr_a w = (None, w)" for w
    by (simp add: WriteSandboxFile_def names slot MaxFileBytes_def sandboxFSFor_def criSandboxFS_def)
      (simp add: ex_defs)
  moreover have "ServeHTTP env1 (request POST (fileURL (fr_SlotID ?req) ''upload'') (fileQuery ''upload'' ?req)
      (Multipart (fr_Path ?req) ''data'')) mgr_a w =
    (let (err, w) = WriteSandboxFile (?req\<lparr>fr_Path := uploadName (fr_Path ?req)\<rparr>) ''data'' mgr_a w in (answer err, mgr_a, w))" for w
    by (rule serve_write) (simp_all add: names slotID_ok_def int32_ok_def MaxFileBytes_def)
  ultimately have serve: "ServeHTTP env1 (request POST (fileURL 0 ''upload'') (fileQuery ''upload'' ?req)
      (Multipart ''sub/x'' ''data'')) mgr_a w = (answer None, mgr_a, w)" for w
    by simp
  have "client_WriteSandboxFile (fleetDo good_net env1) ''http://w0'' ?req ''data'' fleet1 =
      (None, workerPut ''http://w0'' mgr_a (fl_World fleet1) fleet1)"
    unfolding client_WriteSandboxFile_def
    using doCall_delivered [where net = good_net, OF fleet1_worker _ serve] by (simp add: good_net_def)
  moreover have "\<exists>e. fst (WriteSandboxFile ?req ''data'' mgr_a w) = Some e \<and> errors_is ErrInvalidRequest e" for w
    using names(3) by (auto simp: WriteSandboxFile_def)
  ultimately show ?thesis by blast
qed

subsection \<open>Deletion of a Sandbox\<close>



subsection \<open>Layouts of a Pool\<close>

lemma setAppliedIn_find:
  "find (\<lambda>t. ts_Name t = tname) (setAppliedIn tname applied ts) = Some t \<Longrightarrow> ts_AppliedSlots t = applied"
  by (induction ts) (auto split: if_splits)

lemma setAppliedIn_found:
  "\<exists>t. find (\<lambda>t. ts_Name t = tname) (setAppliedIn tname applied ts) = Some t \<and> ts_AppliedSlots t = applied"
  by (induction ts) auto

lemma appliedConfigs_set:
  "appliedConfigs (setAppliedSlots tname configs pool) tname resources =
     map (\<lambda>cfg. cfg\<lparr>sc_Resources := gm_get0 zero_resources resources (sc_Profile cfg)\<rparr>) configs"
proof -
  obtain t where "find (\<lambda>t. ts_Name t = tname) (setAppliedIn tname (appliedOf configs) (pt_Templates (po_Status pool))) = Some t"
    "ts_AppliedSlots t = appliedOf configs"
    using setAppliedIn_found by blast
  then show ?thesis
    by (simp add: appliedConfigs_def setAppliedSlots_def appliedOf_def)
qed

text \<open>
  C21. The layout recorded in the status of a Pool is on the Workers.  When \<open>syncTopology\<close> reports
  nothing pending, every ready Worker of the template has exactly the Slots of the layout, and
  \<open>AppliedSlots\<close> of the template is that layout; when a Worker could not be updated, the recorded
  layout stays as it was.
\<close>

theorem recorded_layout_is_on_workers:
  assumes "pr_Client r = httpClient (clusterDo net env)"
    and "syncTopology r tname configs pool c = (res, pool', c')"
  shows "(res = Inr None \<longrightarrow>
      (\<forall>resources. appliedConfigs pool' tname resources =
         map (\<lambda>cfg. cfg\<lparr>sc_Resources := gm_get0 zero_resources resources (sc_Profile cfg)\<rparr>) configs) \<and>
      (\<forall>ps p. fst (listTemplatePods r pool tname c) = Inr ps \<longrightarrow> p \<in> set ps \<longrightarrow> podReady p \<longrightarrow>
         (\<exists>ep m. rc_Endpoint (pr_Base r) p = Inr ep \<and> clusterWorker c' (TrimRightSlash ep) = Some m \<and>
            has_layout configs m))) \<and>
    (res \<noteq> Inr None \<longrightarrow> pool' = pool)"
proof -
  have "pool' = setAppliedSlots tname configs pool" if "res = Inr None"
    using assms(2) that by (auto simp: syncTopology_def split: prod.splits sum.splits if_splits)
  moreover have "pool' = pool" if "res \<noteq> Inr None"
    using assms(2) that by (auto simp: syncTopology_def split: prod.splits sum.splits if_splits)
  ultimately show ?thesis
    using http.syncTopology_layout [OF _ assms(1)] assms(2) by (auto simp: appliedConfigs_set)
qed

theorem recorded_layout_is_on_workers_witness:
  "\<exists>pool' c' m. syncTopology prec1 ''t'' layout1 pool1 cluster1 = (Inr None, pool', c') \<and>
     clusterWorker c' ''http://w0'' = Some m \<and> has_layout layout1 m"
proof -
  have "fst (syncTopology prec1 ''t'' layout1 pool1 cluster1) = Inr None"
    by code_simp
  then obtain pool' c' where run: "syncTopology prec1 ''t'' layout1 pool1 cluster1 = (Inr None, pool', c')"
    by (cases "syncTopology prec1 ''t'' layout1 pool1 cluster1") auto
  have client: "pr_Client prec1 = httpClient (clusterDo good_net env1)"
    by (simp add: prec1_def rec1_def)
  have pods: "fst (listTemplatePods prec1 pool1 ''t'' cluster1) = Inr [pod1]" "podReady pod1"
    by code_simp+
  have "\<exists>ep m. rc_Endpoint (pr_Base prec1) pod1 = Inr ep \<and> clusterWorker c' (TrimRightSlash ep) = Some m \<and>
      has_layout layout1 m"
    using recorded_layout_is_on_workers [OF client run] pods by auto
  with run show ?thesis
    by (auto simp: prec1_def rec1_def pod1_def TrimRightSlash_def)
qed

lemma ordinals_set [simp]: "i \<in> set (ordinals lo hi) \<longleftrightarrow> lo \<le> i \<and> i < hi"
proof -
  have "i \<in> set (ordinals lo hi) \<longleftrightarrow> (\<exists>j < nat (hi - lo). i = lo + int j)"
    by (auto simp: ordinals_def)
  also have "\<dots> \<longleftrightarrow> lo \<le> i \<and> i < hi"
  proof
    assume "lo \<le> i \<and> i < hi"
    then have "nat (i - lo) < nat (hi - lo)" "i = lo + int (nat (i - lo))" by auto
    then show "\<exists>j < nat (hi - lo). i = lo + int j" by blast
  qed auto
  finally show ?thesis .
qed

text \<open>
  C22. A scale-down removes idle Workers only.  When the controller lowers the replicas of a template
  from \<open>n\<close> to \<open>d\<close>, every Worker with an ordinal from \<open>d\<close> to \<open>n - 1\<close> either has no Pod, or its Pod's Worker
  answered and all its Slots were free.  The Kubernetes API reads a Pod from its state.
\<close>

theorem scale_down_only_idle:
  assumes "pr_Client r = httpClient (clusterDo net env)"
    and read: "\<And>ns n c. ku_GetPod (pr_Kube r) ns n c = (podOf (cu_Store c) ns n, c)"
    and run: "targetReplicas r pool tname (Some n) (Some d) c = (Inr (Some d, stillBusy), c')"
    and "d < n" "d \<le> i" "i < n"
  shows "case podOf (cu_Store c) (poolNs pool) (workerName pool tname i) of
      Inl e \<Rightarrow> isNotFound e
    | Inr p \<Rightarrow> \<exists>ep m. rc_Endpoint (pr_Base r) p = Inr ep \<and> clusterWorker c (TrimRightSlash ep) = Some m \<and>
        (\<forall>info \<in> set (ListSlots m). si_State info = StateFree)"
proof -
  have "control_plane (httpClient (clusterDo net env)) clusterWorker TrimRightSlash (we_Os (se_Env env))
      (se_DeepEqual env) (pr_Kube r) (\<lambda>c. podOf (cu_Store c))"
    by unfold_locales (auto simp: read httpClient_def dest: http_list(2))
  moreover have "anyBusy r pool tname (ordinals d n) c = (Inr False, c')"
    using run \<open>d < n\<close> by (auto simp: targetReplicas_def workersStillBusy_def split: prod.splits sum.splits bool.splits)
  moreover have "i \<in> set (ordinals d n)"
    using assms(5,6) by simp
  ultimately show ?thesis
    using control_plane.anyBusy_idle [where r = r and pool = pool and tname = tname, OF _ _ assms(1) refl] by blast
qed

theorem scale_down_only_idle_witness:
  "\<exists>m. clusterWorker (cluster1\<lparr>cu_Fleet := fleet1\<lparr>fl_Workers := [(''http://w0'', mgr1)]\<rparr>\<rparr>) ''http://w0'' = Some m \<and>
     (\<forall>info \<in> set (ListSlots m). si_State info = StateFree)"
proof -
  let ?c = "cluster1\<lparr>cu_Fleet := fleet1\<lparr>fl_Workers := [(''http://w0'', mgr1)]\<rparr>\<rparr>"
  have "fst (targetReplicas prec1 pool1 ''t'' (Some 1) (Some 0) ?c) = Inr (Some 0, False)"
    by code_simp
  then obtain c' where run: "targetReplicas prec1 pool1 ''t'' (Some 1) (Some 0) ?c = (Inr (Some 0, False), c')"
    by (cases "targetReplicas prec1 pool1 ''t'' (Some 1) (Some 0) ?c") auto
  have client: "pr_Client prec1 = httpClient (clusterDo good_net env1)"
    by (simp add: prec1_def rec1_def)
  have read: "ku_GetPod (pr_Kube prec1) ns n c = ((\<lambda>st ns n. storeGet ax_Pods ns n st) (cu_Store c) ns n, c)" for ns n c
    by (simp add: prec1_def rec1_def storeKube_def overStore_def)
  have pod: "storeGet ax_Pods (poolNs pool1) (workerName pool1 ''t'' 0) (cu_Store ?c) = Inr pod1"
    by code_simp
  from scale_down_only_idle [where d = 0 and i = 0 and n = 1, OF client read run] show ?thesis
    unfolding pod by (simp add: prec1_def rec1_def pod1_def TrimRightSlash_def)
qed

end
