(* ===== verification/SystemSafety.thy ===== *)
theory SystemSafety
  imports Assignments ControllerProperties
begin

text \<open>
  The controllers, the API server, the Workers and the users as one transition system.  Any of the API
  server's operations and any call of a Worker may fail in any step, before or after it took effect.
\<close>

subsection \<open>An unreliable API server\<close>

datatype fault = Done | Refused go_error | Unheard go_error

type_synonym 'f faults = "string \<Rightarrow> 'f \<Rightarrow> fault"

definition faultyRead :: "('f \<Rightarrow> fault) \<Rightarrow> ('f \<Rightarrow> (go_error + 'r) \<times> 'f) \<Rightarrow> 'f \<Rightarrow> (go_error + 'r) \<times> 'f" where
  "faultyRead p op f =
     (case p f of Done \<Rightarrow> op f | Refused e \<Rightarrow> (Inl e, f) | Unheard e \<Rightarrow> (Inl e, snd (op f)))"

definition faultyWrite :: "('f \<Rightarrow> fault) \<Rightarrow> ('f \<Rightarrow> go_error option \<times> 'f) \<Rightarrow> 'f \<Rightarrow> go_error option \<times> 'f" where
  "faultyWrite p op f =
     (case p f of Done \<Rightarrow> op f | Refused e \<Rightarrow> (Some e, f) | Unheard e \<Rightarrow> (Some e, snd (op f)))"

definition faultyKube :: "'f faults \<Rightarrow> ('q, 'f) kube \<Rightarrow> ('q, 'f) kube" where
  "faultyKube p k = k\<lparr>
     ku_GetSandbox := \<lambda>ns n. faultyRead (p ''GetSandbox'') (ku_GetSandbox k ns n),
     ku_UpdateSandbox := \<lambda>s. faultyWrite (p ''UpdateSandbox'') (ku_UpdateSandbox k s),
     ku_UpdateSandboxStatus := \<lambda>s. faultyRead (p ''UpdateSandboxStatus'') (ku_UpdateSandboxStatus k s),
     ku_ListSandboxes := \<lambda>ns. faultyRead (p ''ListSandboxes'') (ku_ListSandboxes k ns),
     ku_GetSnapshot := \<lambda>ns n. faultyRead (p ''GetSnapshot'') (ku_GetSnapshot k ns n),
     ku_UpdateSnapshot := \<lambda>s. faultyWrite (p ''UpdateSnapshot'') (ku_UpdateSnapshot k s),
     ku_UpdateSnapshotStatus := \<lambda>s. faultyRead (p ''UpdateSnapshotStatus'') (ku_UpdateSnapshotStatus k s),
     ku_GetPool := \<lambda>ns n. faultyRead (p ''GetPool'') (ku_GetPool k ns n),
     ku_UpdatePoolStatus := \<lambda>s. faultyWrite (p ''UpdatePoolStatus'') (ku_UpdatePoolStatus k s),
     ku_GetPod := \<lambda>ns n. faultyRead (p ''GetPod'') (ku_GetPod k ns n),
     ku_ListPods := \<lambda>ns l. faultyRead (p ''ListPods'') (ku_ListPods k ns l),
     ku_GetSecret := \<lambda>ns n. faultyRead (p ''GetSecret'') (ku_GetSecret k ns n),
     ku_GetService := \<lambda>ns n. faultyRead (p ''GetService'') (ku_GetService k ns n),
     ku_CreateService := \<lambda>s. faultyWrite (p ''CreateService'') (ku_CreateService k s),
     ku_GetStatefulSet := \<lambda>ns n. faultyRead (p ''GetStatefulSet'') (ku_GetStatefulSet k ns n),
     ku_CreateStatefulSet := \<lambda>s. faultyWrite (p ''CreateStatefulSet'') (ku_CreateStatefulSet k s),
     ku_UpdateStatefulSet := \<lambda>s. faultyWrite (p ''UpdateStatefulSet'') (ku_UpdateStatefulSet k s)\<rparr>"

lemma faulty_keeps:
  "keeps view op \<Longrightarrow> keeps view (faultyRead q op)" "keeps view op' \<Longrightarrow> keeps view (faultyWrite q op')"
  by (auto simp: keeps_def faultyRead_def faultyWrite_def split: fault.splits)

lemma faultyRead_cases:
  assumes "faultyRead q op f = (r, f')"
  obtains "op f = (r, f')" | e where "r = Inl e" "f' = f" | e where "r = Inl e" "f' = snd (op f)"
  using assms by (auto simp: faultyRead_def split: fault.splits)

lemma faultyWrite_cases:
  assumes "faultyWrite q op f = (r, f')"
  obtains "f' = f" | "f' = snd (op f)"
  using assms by (auto simp: faultyWrite_def split: fault.splits)

subsection \<open>The store and the HTTP client keep the contract\<close>

definition boxesOf :: "('q, 'w) store_cluster \<Rightarrow> boxes" where
  "boxesOf c = map_of (ax_Sandboxes (cu_Store c))"

lemma store_keeps:
  "keeps boxesOf (ku_GetSandbox storeKube ns n)" "keeps boxesOf (ku_ListSandboxes storeKube ns)"
  "keeps boxesOf (ku_GetSnapshot storeKube ns n)" "keeps boxesOf (ku_GetPool storeKube ns n)"
  "keeps boxesOf (ku_GetPod storeKube ns n)" "keeps boxesOf (ku_ListPods storeKube ns labels)"
  "keeps boxesOf (ku_GetSecret storeKube ns n)" "keeps boxesOf (ku_GetService storeKube ns n)"
  "keeps boxesOf (ku_GetStatefulSet storeKube ns n)" "keeps boxesOf (ku_Now storeKube)"
  "keeps boxesOf (ku_UpdateSnapshot storeKube snap)" "keeps boxesOf (ku_UpdateSnapshotStatus storeKube snap)"
  "keeps boxesOf (ku_UpdatePoolStatus storeKube pool)" "keeps boxesOf (ku_CreateService storeKube svc)"
  "keeps boxesOf (ku_CreateStatefulSet storeKube sts)" "keeps boxesOf (ku_UpdateStatefulSet storeKube sts)"
  by (auto simp: keeps_def boxesOf_def storeKube_def overStore_def storePut_def Let_def split: sum.splits)

lemma doCall_keeps: "keeps boxesOf (doCall (clusterDo net env) ep req)"
  by (auto simp: keeps_def boxesOf_def doCall_cluster Let_def split: prod.splits)

lemma doResult_keeps: "keeps boxesOf (doResult (clusterDo net env) dec z ep req)"
  by (auto simp: keeps_def boxesOf_def doResult_cluster Let_def split: prod.splits)

lemmas http_keeps = client_Health_def client_ListSlots_def client_ApplyTopology_def client_ReserveSlot_def
  client_StartSandbox_def client_StopSandbox_def client_ReleaseSlot_def client_CreateSnapshot_def
  client_RestoreFromSnapshot_def client_DeleteSnapshotObjects_def doCall_keeps doResult_keeps

interpretation api: quiet_api "faultyKube p storeKube" "httpClient (clusterDo net env)" boxesOf
  for p :: "('q :: {linorder, comm_monoid_add}, 'w) store_cluster faults" and net :: "('q, 'w) network"
    and env :: "('q, 'w) server_env"
  by unfold_locales (simp_all add: faultyKube_def httpClient_def http_keeps faulty_keeps store_keeps)

lemma store_get_box: "ku_GetSandbox storeKube ns n f = (Inr s, f') \<Longrightarrow> boxesOf f (ns, n) = Some s"
  by (auto simp: storeKube_def overStore_def storeGet_def boxesOf_def split: option.splits)

lemma store_put_status:
  assumes "ku_UpdateSandboxStatus storeKube s f = (r, f')"
  shows "boxesOf f' = boxesOf f \<and> (\<exists>e. r = Inl e) \<or>
    (\<exists>cur. boxesOf f (metaKey (sb_Meta s)) = Some cur \<and>
      boxesOf f' = (boxesOf f)(metaKey (sb_Meta s) \<mapsto> cur\<lparr>sb_Status := sb_Status s\<rparr>) \<and> r = Inr (cur\<lparr>sb_Status := sb_Status s\<rparr>))"
  using assms
  by (auto simp: storeKube_def overStore_def storeGet_def boxesOf_def metaKey_def Let_def split: option.splits)

lemma store_put_box:
  assumes "ku_UpdateSandbox storeKube s f = (err, f')"
  shows "boxesOf f' = boxesOf f \<or> boxesOf f (metaKey (sb_Meta s)) \<noteq> None \<and>
    (boxesOf f' = (boxesOf f)(metaKey (sb_Meta s) \<mapsto> s) \<or>
     om_Deleting (sb_Meta s) \<and> boxesOf f' = (boxesOf f)(metaKey (sb_Meta s) := None))"
  using assms
  by (auto simp: storeKube_def overStore_def storePut_def boxesOf_def split: option.splits if_splits)

interpretation api: sandbox_api "faultyKube p storeKube" "httpClient (clusterDo net env)" boxesOf
  for p :: "('q :: {linorder, comm_monoid_add}, 'w) store_cluster faults" and net :: "('q, 'w) network"
    and env :: "('q, 'w) server_env"
proof (unfold_locales, goal_cases)
  case (1 ns n f s f')
  then show ?case
    by (auto simp: faultyKube_def elim: faultyRead_cases dest: store_get_box)
next
  case (2 s f r f')
  then have run: "faultyRead (p ''UpdateSandboxStatus'') (ku_UpdateSandboxStatus storeKube s) f = (r, f')"
    by (simp add: faultyKube_def)
  obtain r1 f1 where put: "ku_UpdateSandboxStatus storeKube s f = (r1, f1)" by fastforce
  from run show ?case
    by (cases rule: faultyRead_cases) (use store_put_status [OF put] put in auto)
next
  case (3 s f err f')
  then have run: "faultyWrite (p ''UpdateSandbox'') (ku_UpdateSandbox storeKube s) f = (err, f')"
    by (simp add: faultyKube_def)
  obtain r1 f1 where put: "ku_UpdateSandbox storeKube s f = (r1, f1)" by fastforce
  from run show ?case
    by (cases rule: faultyWrite_cases) (use store_put_box [OF put] put in auto)
next
  case (4 m z)
  show ?case
    by (auto simp: faultyKube_def storeKube_def intro: exI [of _ "om_Finalizers m"])
next
  case (5 m z)
  show ?case by (auto simp: faultyKube_def storeKube_def)
qed


interpretation stable_system: sandbox_system "faultyKube p storeKube" "httpClient (clusterDo net env)" boxesOf
    "\<lambda>_. StableStrategy_Select"
  for p :: "('q :: {linorder, comm_monoid_add}, 'w) store_cluster faults" and net :: "('q, 'w) network"
    and env :: "('q, 'w) server_env"
  by unfold_locales

interpretation random_system: sandbox_system "faultyKube p storeKube" "httpClient (clusterDo net env)" boxesOf
    RandomStrategy_Select
  for p :: "('q :: {linorder, comm_monoid_add}, 'w) store_cluster faults" and net :: "('q, 'w) network"
    and env :: "('q, 'w) server_env"
  by unfold_locales

interpretation binpack_system: sandbox_system "faultyKube p storeKube" "httpClient (clusterDo net env)" boxesOf
    "\<lambda>_. BinPackStrategy_Select"
  for p :: "('q :: {linorder, comm_monoid_add}, 'w) store_cluster faults" and net :: "('q, 'w) network"
    and env :: "('q, 'w) server_env"
  by unfold_locales

subsection \<open>Steps\<close>

text \<open>
  The state: the scheduler, the API server with the Workers, and the UIDs the API server has given out.
\<close>

record ('q, 'w) system =
  sys_Sched :: memory_scheduler
  sys_Cluster :: "('q, 'w) store_cluster"
  sys_UIDs :: "string list"

definition reconcilerOf ::
    "('q, 'w) store_cluster faults \<Rightarrow> ('q, 'w) network \<Rightarrow> ('q, 'w) server_env \<Rightarrow> ('q pod \<Rightarrow> go_error + string) \<Rightarrow>
     strategy \<Rightarrow> ('q, ('q, 'w) store_cluster) reconciler" where
  "reconcilerOf p net env endpoint select =
     \<lparr>rc_Kube = faultyKube p storeKube, rc_Client = httpClient (clusterDo net env), rc_Endpoint = endpoint, rc_Select = select\<rparr>"

definition storeBox :: "sandbox \<Rightarrow> ('q, 'w) store_cluster \<Rightarrow> ('q, 'w) store_cluster" where
  "storeBox s c = c\<lparr>cu_Store := (cu_Store c)\<lparr>ax_Sandboxes := gm_set (metaKey (sb_Meta s)) s (ax_Sandboxes (cu_Store c))\<rparr>\<rparr>"

text \<open>The user's deletion: an object with finalizers is marked, another one goes away.\<close>

definition markDeleted :: "sandbox \<Rightarrow> ('q, 'w) store_cluster \<Rightarrow> ('q, 'w) store_cluster" where
  "markDeleted s c =
     (if om_Finalizers (sb_Meta s) = []
      then c\<lparr>cu_Store := (cu_Store c)\<lparr>ax_Sandboxes := gm_del (metaKey (sb_Meta s)) (ax_Sandboxes (cu_Store c))\<rparr>\<rparr>
      else storeBox (s\<lparr>sb_Meta := (sb_Meta s)\<lparr>om_Deleting := True\<rparr>\<rparr>) c)"

text \<open>
  One step: a reconciliation by one of the three controllers, with any faults; a user creates a Sandbox,
  to which the API server gives a new UID and an empty status, or deletes one; anything else that leaves
  the stored Sandboxes alone (Pods come and go, Pools change, Workers restart).  The specification of a
  Sandbox cannot be changed, and nobody else writes its status.
\<close>

inductive sys_step ::
    "(nat \<Rightarrow> strategy) \<Rightarrow> ('q :: {linorder, comm_monoid_add}, 'w) system \<Rightarrow> ('q, 'w) system \<Rightarrow> bool" for select where
  sandbox: "SandboxReconcile (reconcilerOf p net env endpoint (select d)) ns n sched c = (res, sched', c') \<Longrightarrow>
    sys_step select \<lparr>sys_Sched = sched, sys_Cluster = c, sys_UIDs = us\<rparr> \<lparr>sys_Sched = sched', sys_Cluster = c', sys_UIDs = us\<rparr>"
| pool: "PoolReconcile \<lparr>pr_Base = reconcilerOf p net env endpoint (select d), pr_Build = build, pr_WorkerPort = port\<rparr> ns n sched c
      = (res, sched', c') \<Longrightarrow>
    sys_step select \<lparr>sys_Sched = sched, sys_Cluster = c, sys_UIDs = us\<rparr> \<lparr>sys_Sched = sched', sys_Cluster = c', sys_UIDs = us\<rparr>"
| snapshot: "SnapshotReconcile (reconcilerOf p net env endpoint (select d)) ns n c = (res, c') \<Longrightarrow>
    sys_step select \<lparr>sys_Sched = sched, sys_Cluster = c, sys_UIDs = us\<rparr> \<lparr>sys_Sched = sched, sys_Cluster = c', sys_UIDs = us\<rparr>"
| create: "om_UID (sb_Meta s) \<notin> set us \<Longrightarrow> boxesOf c (metaKey (sb_Meta s)) = None \<Longrightarrow> ss_Assignment (sb_Status s) = None \<Longrightarrow>
    sys_step select \<lparr>sys_Sched = sched, sys_Cluster = c, sys_UIDs = us\<rparr>
      \<lparr>sys_Sched = sched, sys_Cluster = storeBox s c, sys_UIDs = om_UID (sb_Meta s) # us\<rparr>"
| delete: "boxesOf c (metaKey (sb_Meta s)) = Some s \<Longrightarrow>
    sys_step select \<lparr>sys_Sched = sched, sys_Cluster = c, sys_UIDs = us\<rparr>
      \<lparr>sys_Sched = sched, sys_Cluster = markDeleted s c, sys_UIDs = us\<rparr>"
| environment: "boxesOf c' = boxesOf c \<Longrightarrow>
    sys_step select \<lparr>sys_Sched = sched, sys_Cluster = c, sys_UIDs = us\<rparr> \<lparr>sys_Sched = sched, sys_Cluster = c', sys_UIDs = us\<rparr>"

definition sys_inv :: "('q, 'w) system \<Rightarrow> bool" where
  "sys_inv S \<longleftrightarrow> box_inv (sys_Sched S) (boxesOf (sys_Cluster S)) (set (sys_UIDs S))"

lemma boxesOf_store: "boxesOf (storeBox s c) = (boxesOf c)(metaKey (sb_Meta s) \<mapsto> s)"
  by (simp add: boxesOf_def storeBox_def)

lemma box_inv_sub:
  assumes "box_inv sched b U" "\<And>key s. b' key = Some s \<Longrightarrow> b key = Some s"
  shows "box_inv sched b' U"
  using assms unfolding box_inv_def by blast

lemma reported_inv: "box_inv sched b U \<Longrightarrow> reported sched sched' \<Longrightarrow> box_inv sched' b U"
  by (simp add: box_inv_def reported_def box_ok_def Get_def)

lemma create_inv:
  assumes inv: "box_inv sched b U" and new: "om_UID (sb_Meta s) \<notin> U" "ss_Assignment (sb_Status s) = None"
  shows "box_inv sched (b(metaKey (sb_Meta s) \<mapsto> s)) (insert (om_UID (sb_Meta s)) U)"
proof (rule box_invI)
  let ?b = "b(metaKey (sb_Meta s) \<mapsto> s)"
  show "sched_inv sched" using inv by (simp add: box_inv_def)
  show "u \<in> insert (om_UID (sb_Meta s)) U" if "Get u sched = Some a" for u a
    using box_inv_uid [OF inv that] by simp
  show "metaKey (sb_Meta t) = key \<and> om_UID (sb_Meta t) \<in> insert (om_UID (sb_Meta s)) U" if "?b key = Some t" for key t
    using that box_invD(1,2) [OF inv, of key t] by (cases "key = metaKey (sb_Meta s)") auto
  show "key = key'" if "?b key = Some t" "?b key' = Some t'" "om_UID (sb_Meta t) = om_UID (sb_Meta t')" for key key' t t'
  proof -
    have fresh: "om_UID (sb_Meta x) \<noteq> om_UID (sb_Meta s)" if "b y = Some x" for x y
      using box_invD(2) [OF inv that] new(1) by metis
    from that fresh [of key t] fresh [of key' t'] box_invD(5) [OF inv, of key' t' key t] show ?thesis
      by (simp split: if_splits)
  qed
  show "box_ok sched t" if "?b key = Some t" "\<not> om_Deleting (sb_Meta t)" for key t
  proof (cases "key = metaKey (sb_Meta s)")
    case True
    with that new box_inv_uid [OF inv] show ?thesis by (auto simp: box_ok_def)
  next
    case False
    with that box_invD(3) [OF inv, of key t] show ?thesis by simp
  qed
qed

lemma delete_inv:
  assumes inv: "box_inv sched (boxesOf c) U" and key: "boxesOf c (metaKey (sb_Meta s)) = Some s"
  shows "box_inv sched (boxesOf (markDeleted s c)) U"
proof (cases "om_Finalizers (sb_Meta s) = []")
  case True
  then have "boxesOf (markDeleted s c) = (boxesOf c)(metaKey (sb_Meta s) := None)"
    by (simp add: markDeleted_def boxesOf_def)
  then show ?thesis
    by (intro box_inv_sub [OF inv]) (simp split: if_splits)
next
  case False
  let ?t = "s\<lparr>sb_Meta := (sb_Meta s)\<lparr>om_Deleting := True\<rparr>\<rparr>"
  have meta: "metaKey (sb_Meta ?t) = metaKey (sb_Meta s)" by (simp add: metaKey_def)
  have "box_inv sched ((boxesOf c)(metaKey (sb_Meta s) \<mapsto> ?t)) U"
    by (rule box_inv_change [OF inv key meta]) (use box_invD(4) [OF inv key] in simp_all)
  with False meta show ?thesis by (simp only: markDeleted_def boxesOf_store if_False)
qed

lemma step_inv:
  assumes sel: "select \<in> strategies" and step: "sys_step select S T" and inv: "sys_inv S"
  shows "sys_inv T"
  using step
proof cases
  case (sandbox p net env endpoint d ns n sched c res sched' c' us)
  have sys: "sandbox_system (faultyKube p storeKube) (httpClient (clusterDo net env)) boxesOf select"
    by (intro sandbox_system.intro api.sandbox_api_axioms strategies_placement sel)
  have "box_inv sched' (boxesOf c') (set us)"
    by (rule sandbox_system.reconcile_keeps_inv [OF sys sandbox(3), where d = d])
      (use inv sandbox(1) in \<open>simp_all add: reconcilerOf_def sys_inv_def\<close>)
  with sandbox show ?thesis by (simp add: sys_inv_def)
next
  case (pool p net env endpoint d build port ns n sched c res sched' c' us)
  from api.PoolReconcile_effect [OF pool(3), of p net env] have "reported sched sched'" "boxesOf c' = boxesOf c"
    by (simp_all add: reconcilerOf_def)
  with pool inv reported_inv show ?thesis by (simp add: sys_inv_def)
next
  case (snapshot p net env endpoint d ns n c res c' sched us)
  from api.SnapshotReconcile_frame [OF snapshot(3), of p net env] have "boxesOf c' = boxesOf c"
    by (simp add: reconcilerOf_def)
  with snapshot inv show ?thesis by (simp add: sys_inv_def)
next
  case (create s us c sched)
  with inv show ?thesis by (simp add: sys_inv_def boxesOf_store create_inv)
next
  case (delete c s sched us)
  with inv show ?thesis by (simp add: sys_inv_def delete_inv)
next
  case (environment c' c sched us)
  with inv show ?thesis by (simp add: sys_inv_def)
qed


subsection \<open>Sandboxes never share a Slot\<close>

definition sys_start :: "('q, 'w) system \<Rightarrow> bool" where
  "sys_start S \<longleftrightarrow> sys_Sched S = snd (New None) \<and> boxesOf (sys_Cluster S) = (\<lambda>_. None)"

lemma start_inv:
  assumes "sys_start S"
  shows "sys_inv S"
proof -
  have "Get u (sys_Sched S) = None" for u
    using assms by (simp add: sys_start_def New_def Get_def)
  with assms New_inv [of None] show ?thesis
    by (simp add: sys_inv_def box_inv_def sys_start_def)
qed

lemma sys_system: "select \<in> strategies \<Longrightarrow> transition_system sys_start (sys_step select) sys_inv"
  by unfold_locales (use start_inv step_inv in blast)+

lemma sched_inv_exclusive:
  "sched_inv s \<Longrightarrow> Get u s = Some a \<Longrightarrow> Get v s = Some b \<Longrightarrow> as_Worker a = as_Worker b \<Longrightarrow> as_SlotID a = as_SlotID b \<Longrightarrow> u = v"
  by (auto simp: sched_inv_def exclusive_def holds_slot_def Get_def)

lemma sched_inv_held: "sched_inv s \<Longrightarrow> Get u s = Some a \<Longrightarrow> \<not> offers s req (as_Worker a) (as_SlotID a)"
  using held_not_free_holds [of s req _ _ u] by (auto simp: sched_inv_def holds_slot_def Get_def)



text \<open>An example: two Sandboxes of a Pool with one idle Worker.\<close>

definition boxNamed :: "string \<Rightarrow> string \<Rightarrow> sandbox" where
  "boxNamed n u = \<lparr>sb_Meta = \<lparr>om_Namespace = ''ns'', om_Name = n, om_UID = u, om_Generation = 1,
       om_Finalizers = [], om_Deleting = False\<rparr>,
     sb_Spec = \<lparr>sb_PoolRef = ''pool'', sb_SlotProfile = ''small'',
       sb_Container = Some \<lparr>cs_Image = ''busybox'', cs_Command = [], cs_Args = [], cs_Env = []\<rparr>, sb_FromSnapshot = []\<rparr>,
     sb_Status = \<lparr>ss_ObservedGeneration = 0, ss_Phase = PhaseUnset, ss_Assignment = None, ss_Conditions = []\<rparr>\<rparr>"

definition pool0 :: "int sandbox_pool" where
  "pool0 = pool1\<lparr>po_Spec := (po_Spec pool1)\<lparr>po_WorkerTemplates := []\<rparr>\<rparr>"

definition system0 :: "(int, ex_world) system" where
  "system0 = \<lparr>sys_Sched = snd (New None),
     sys_Cluster = \<lparr>cu_Fleet = fleet1\<lparr>fl_Workers := [(''http://w0'', mgr1)]\<rparr>,
       cu_Store = store1\<lparr>ax_Sandboxes := [], ax_Pods := [((''ns'', ''pool-t-worker-0''), pod1)],
       ax_Pools := [((''ns'', ''pool''), pool0)]\<rparr>\<rparr>,
     sys_UIDs = []\<rparr>"

definition calm :: "(int, ex_world) store_cluster faults" where
  "calm op c = Done"

definition rec0 :: "(int, (int, ex_world) store_cluster) reconciler" where
  "rec0 = reconcilerOf calm good_net env1 (\<lambda>p. Inr (pd_PodIP p)) BinPackStrategy_Select"

definition runSandbox :: "string \<Rightarrow> (int, ex_world) system \<Rightarrow> (int, ex_world) system" where
  "runSandbox n S =
     (let (_, sched, c) = SandboxReconcile rec0 ''ns'' n (sys_Sched S) (sys_Cluster S)
      in \<lparr>sys_Sched = sched, sys_Cluster = c, sys_UIDs = sys_UIDs S\<rparr>)"

definition runPool :: "(int, ex_world) system \<Rightarrow> (int, ex_world) system" where
  "runPool S =
     (let (_, sched, c) = PoolReconcile (prec1\<lparr>pr_Base := rec0\<rparr>) ''ns'' ''pool'' (sys_Sched S) (sys_Cluster S)
      in \<lparr>sys_Sched = sched, sys_Cluster = c, sys_UIDs = sys_UIDs S\<rparr>)"

definition runCreate :: "sandbox \<Rightarrow> (int, ex_world) system \<Rightarrow> (int, ex_world) system" where
  "runCreate s S = S\<lparr>sys_Cluster := storeBox s (sys_Cluster S), sys_UIDs := om_UID (sb_Meta s) # sys_UIDs S\<rparr>"

definition sched0 :: memory_scheduler where
  "sched0 = UpdateWorker
     \<lparr>ws_Key = podWorkerKey pool1 ''pool-t-worker-0'', ws_Healthy = True, ws_LastObserved = 0, ws_Slots = slotMapOf (ListSlots mgr1)\<rparr>
     (snd (New None))"

text \<open>The Pool is set up once the Worker is known to the scheduler.\<close>

definition system1 :: "(int, ex_world) system" where
  "system1 = \<lparr>sys_Sched = sched0,
     sys_Cluster = \<lparr>cu_Fleet = fleet1\<lparr>fl_Workers := [(''http://w0'', mgr1)]\<rparr>,
       cu_Store = store1\<lparr>ax_Sandboxes := [], ax_Pools := [((''ns'', ''pool''), setPoolCondition (rc_Kube rec0) ConditionReady True
         ''WorkerAvailable'' (Lit ''1 Workers can accept Sandbox operations'') pool1)]\<rparr>\<rparr>,
     sys_UIDs = []\<rparr>"

definition system2 :: "(int, ex_world) system" where
  "system2 = runSandbox ''x'' (runSandbox ''x'' (runCreate (boxNamed ''x'' ''u'') system1))"

definition system3 :: "(int, ex_world) system" where
  "system3 = runSandbox ''y'' (runSandbox ''y'' (runCreate (boxNamed ''y'' ''v'') system2))"

lemma system0_start: "sys_start system0"
  by (simp add: sys_start_def system0_def boxesOf_def)

lemma binpack_strategy: "(\<lambda>_. BinPackStrategy_Select) \<in> strategies"
  by (simp add: strategies_def)

abbreviation sys_reach0 :: "(int, ex_world) system \<Rightarrow> bool" where
  "sys_reach0 \<equiv> reach (sys_step (\<lambda>_. BinPackStrategy_Select)) system0"

lemma runSandbox_reach:
  assumes "sys_reach0 S"
  shows "sys_reach0 (runSandbox n S)"
proof -
  obtain res sched c where run: "SandboxReconcile rec0 ''ns'' n (sys_Sched S) (sys_Cluster S) = (res, sched, c)"
    by (metis prod_cases3)
  have "sys_step (\<lambda>_. BinPackStrategy_Select) \<lparr>sys_Sched = sys_Sched S, sys_Cluster = sys_Cluster S, sys_UIDs = sys_UIDs S\<rparr>
      \<lparr>sys_Sched = sched, sys_Cluster = c, sys_UIDs = sys_UIDs S\<rparr>"
    using run unfolding rec0_def by (rule sys_step.sandbox)
  with assms run show ?thesis by (cases S) (auto simp: runSandbox_def intro: reach_step)
qed

lemma runPool_reach:
  assumes "sys_reach0 S"
  shows "sys_reach0 (runPool S)"
proof -
  obtain res sched c where run: "PoolReconcile (prec1\<lparr>pr_Base := rec0\<rparr>) ''ns'' ''pool'' (sys_Sched S) (sys_Cluster S) = (res, sched, c)"
    by (metis prod_cases3)
  have "sys_step (\<lambda>_. BinPackStrategy_Select) \<lparr>sys_Sched = sys_Sched S, sys_Cluster = sys_Cluster S, sys_UIDs = sys_UIDs S\<rparr>
      \<lparr>sys_Sched = sched, sys_Cluster = c, sys_UIDs = sys_UIDs S\<rparr>"
    using run unfolding rec0_def prec1_def pool_reconciler.simps by (rule sys_step.pool)
  with assms run show ?thesis by (cases S) (auto simp: runPool_def intro: reach_step)
qed

lemma runCreate_reach:
  assumes "sys_reach0 S" "om_UID (sb_Meta s) \<notin> set (sys_UIDs S)" "boxesOf (sys_Cluster S) (metaKey (sb_Meta s)) = None"
    and "ss_Assignment (sb_Status s) = None"
  shows "sys_reach0 (runCreate s S)"
  using reach_step [OF assms(1)] sys_step.create [OF assms(2-4), of "\<lambda>_. BinPackStrategy_Select" "sys_Sched S"]
  by (cases S) (simp add: runCreate_def)

lemma system1_reach: "sys_reach0 system1"
proof -
  have pool: "sys_Sched (runPool system0) = sched0" "sys_UIDs (runPool system0) = []"
      "ax_Sandboxes (cu_Store (sys_Cluster (runPool system0))) = []"
    by code_simp+
  have "sys_step (\<lambda>_. BinPackStrategy_Select)
      \<lparr>sys_Sched = sched0, sys_Cluster = sys_Cluster (runPool system0), sys_UIDs = []\<rparr> system1"
    unfolding system1_def by (rule sys_step.environment) (simp add: boxesOf_def pool)
  moreover have "\<lparr>sys_Sched = sched0, sys_Cluster = sys_Cluster (runPool system0), sys_UIDs = []\<rparr> = runPool system0"
    by (simp flip: pool)
  ultimately show ?thesis
    using reach_step [OF runPool_reach [OF reach_refl]] by simp
qed

lemma system2_boxes: "map (\<lambda>(key, s). (key, ss_Assignment (sb_Status s), om_Deleting (sb_Meta s))) (ax_Sandboxes (cu_Store (sys_Cluster system2)))
    = [((''ns'', ''x''), Some \<lparr>aa_Worker = ''pool-t-worker-0'', aa_SlotID = 0, aa_SlotProfile = ''small''\<rparr>, False)]"
  "sys_UIDs system2 = [''u'']"
  by code_simp+

lemma system2_reach: "sys_reach0 system2"
  unfolding system2_def
  by (intro runSandbox_reach runCreate_reach system1_reach) (simp_all add: system1_def boxNamed_def boxesOf_def)

lemma system3_reach: "sys_reach0 system3"
proof -
  have "boxesOf (sys_Cluster system2) (''ns'', ''y'') = None"
    using arg_cong [OF system2_boxes(1), of "map fst"] by (auto simp: boxesOf_def map_of_eq_None_iff comp_def case_prod_beta)
  then show ?thesis
    unfolding system3_def
    by (intro runSandbox_reach runCreate_reach system2_reach) (simp_all add: system2_boxes(2) boxNamed_def metaKey_def)
qed



subsection \<open>A restarted controller\<close>

text \<open>
  A new controller process: its scheduler knows the Worker from the Worker's report, and no assignment.
  Then \<open>y\<close> is created and reconciled three times before \<open>x\<close> is looked at again.
\<close>

definition systemR :: "(int, ex_world) system" where
  "systemR = runSandbox ''y'' (runSandbox ''y'' (runSandbox ''y'' (runCreate (boxNamed ''y'' ''v'') (system2\<lparr>sys_Sched := sched0\<rparr>))))"

definition boxView :: "string \<Rightarrow> (int, ex_world) system \<Rightarrow> (sandbox_phase \<times> (string \<times> int) option) option" where
  "boxView n S = map_option (\<lambda>s. (ss_Phase (sb_Status s), map_option (\<lambda>a. (aa_Worker a, aa_SlotID a)) (ss_Assignment (sb_Status s))))
     (map_of (ax_Sandboxes (cu_Store (sys_Cluster S))) (''ns'', n))"


end
