(* ===== verification/SandboxProgress.thy ===== *)
theory SandboxProgress
  imports SystemSafety
begin

text \<open>
  Progress of the Sandbox controller: without failures, a new Sandbox is running after three reconciliations.
\<close>

subsection \<open>Writes of the store\<close>

definition boxAt :: "('q, 'w) store_cluster \<Rightarrow> string \<times> string \<Rightarrow> sandbox option" where
  "boxAt c key = map_of (ax_Sandboxes (cu_Store c)) key"

text \<open>Only the Sandbox at \<open>key\<close> has changed, and is now \<open>t\<close>.\<close>

definition only_box :: "string \<times> string \<Rightarrow> sandbox \<Rightarrow> ('q, 'w) store_cluster \<Rightarrow> ('q, 'w) store_cluster \<Rightarrow> bool" where
  "only_box key t c c' \<longleftrightarrow> boxAt c' = (boxAt c)(key \<mapsto> t) \<and> cu_Fleet c' = cu_Fleet c \<and>
     ax_Pools (cu_Store c') = ax_Pools (cu_Store c) \<and> ax_Pods (cu_Store c') = ax_Pods (cu_Store c)"

lemma store_reads:
  "ku_GetSandbox storeKube ns n c = (case boxAt c (ns, n) of None \<Rightarrow> Inl (ApiNotFound n) | Some s \<Rightarrow> Inr s, c)"
  "ku_GetPool storeKube ns n c = (case map_of (ax_Pools (cu_Store c)) (ns, n) of None \<Rightarrow> Inl (ApiNotFound n) | Some s \<Rightarrow> Inr s, c)"
  "ku_GetPod storeKube ns n c = (case map_of (ax_Pods (cu_Store c)) (ns, n) of None \<Rightarrow> Inl (ApiNotFound n) | Some s \<Rightarrow> Inr s, c)"
  by (simp_all add: storeKube_def overStore_def storeGet_def boxAt_def split: option.splits)

lemma store_update:
  assumes "boxAt c (metaKey (sb_Meta s)) \<noteq> None" "\<not> om_Deleting (sb_Meta s)"
  shows "\<exists>c'. ku_UpdateSandbox storeKube s c = (None, c') \<and> only_box (metaKey (sb_Meta s)) s c c'"
  using assms by (auto simp: storeKube_def overStore_def storePut_def boxAt_def only_box_def fun_eq_iff)

lemma store_status:
  assumes "boxAt c (metaKey (sb_Meta s)) = Some cur"
  shows "\<exists>c'. ku_UpdateSandboxStatus storeKube s c = (Inr (cur\<lparr>sb_Status := sb_Status s\<rparr>), c') \<and>
    only_box (metaKey (sb_Meta s)) (cur\<lparr>sb_Status := sb_Status s\<rparr>) c c'"
  using assms by (auto simp: storeKube_def overStore_def storeGet_def boxAt_def only_box_def metaKey_def fun_eq_iff Let_def)

lemma only_box_refl: "boxAt c key = Some t \<Longrightarrow> only_box key t c c"
  by (simp add: only_box_def fun_upd_idem)

definition observed :: "sandbox \<Rightarrow> sandbox_status" where
  "observed s = (sb_Status s)\<lparr>ss_ObservedGeneration := om_Generation (sb_Meta s)\<rparr>"

lemma finishWith_store:
  assumes "boxAt c key = Some cur" "key = metaKey (sb_Meta s)" "metaKey (sb_Meta cur) = key"
  shows "\<exists>c'. finishWith storeKube after s c = (Requeue after, c') \<and> only_box key (cur\<lparr>sb_Status := observed s\<rparr>) c c'"
proof (cases "sb_Status cur = observed s")
  case True
  then have "cur\<lparr>sb_Status := observed s\<rparr> = cur" by simp
  with True assms show ?thesis
    by (auto simp: finishWith_def sandboxSyncStatus_def store_reads metaKey_def observed_def Let_def intro: only_box_refl)
next
  case False
  have "boxAt c (metaKey (sb_Meta (cur\<lparr>sb_Status := observed s\<rparr>))) = Some cur"
    using assms by simp
  from store_status [OF this] obtain c' where
    "ku_UpdateSandboxStatus storeKube (cur\<lparr>sb_Status := observed s\<rparr>) c = (Inr (cur\<lparr>sb_Status := observed s\<rparr>), c')"
    "only_box key (cur\<lparr>sb_Status := observed s\<rparr>) c c'"
    using assms by auto
  with False assms show ?thesis
    by (auto simp: finishWith_def sandboxSyncStatus_def store_reads metaKey_def observed_def Let_def)
qed

lemma find_setCondition: "find (\<lambda>d. cn_Type d = cn_Type c) (setCondition cs c) = Some c"
proof -
  have "list_ex (\<lambda>d. cn_Type d = cn_Type c) cs \<Longrightarrow>
      find (\<lambda>d. cn_Type d = cn_Type c) (map (\<lambda>d. if cn_Type d = cn_Type c then c else d) cs) = Some c"
    by (induction cs) auto
  moreover have "\<not> list_ex (\<lambda>d. cn_Type d = cn_Type c) cs \<Longrightarrow> find (\<lambda>d. cn_Type d = cn_Type c) (cs @ [c]) = Some c"
    by (induction cs) auto
  ultimately show ?thesis by (simp add: setCondition_def)
qed

subsection \<open>The three steps\<close>

lemma reconcile_finalizer:
  assumes "rc_Kube r = storeKube" "boxAt c (ns, n) = Some s" "metaKey (sb_Meta s) = (ns, n)" "\<not> om_Deleting (sb_Meta s)"
    and "SandboxFinalizer \<notin> set (om_Finalizers (sb_Meta s))"
  defines "t \<equiv> s\<lparr>sb_Meta := (sb_Meta s)\<lparr>om_Finalizers := om_Finalizers (sb_Meta s) @ [SandboxFinalizer]\<rparr>\<rparr>"
  shows "\<exists>c'. SandboxReconcile r ns n sched c = (Requeue 0, sched, c') \<and> only_box (ns, n) t c c'"
proof -
  have meta: "metaKey (sb_Meta t) = (ns, n)" using assms(3) by (simp add: t_def metaKey_def)
  have "boxAt c (metaKey (sb_Meta t)) \<noteq> None" "\<not> om_Deleting (sb_Meta t)"
    using assms(2,4) meta by (simp_all add: t_def)
  from store_update [OF this] obtain c' where upd: "ku_UpdateSandbox storeKube t c = (None, c')" "only_box (ns, n) t c c'"
    by (auto simp: meta)
  have add: "s\<lparr>sb_Meta := ku_AddFinalizer storeKube (sb_Meta s) SandboxFinalizer\<rparr> = t"
    using assms(5) by (simp add: t_def storeKube_def)
  have has: "\<not> ku_ContainsFinalizer storeKube (sb_Meta s) SandboxFinalizer"
    using assms(5) by (simp add: storeKube_def)
  show ?thesis
    using upd has assms(2,4) by (auto simp: SandboxReconcile_def assms(1) store_reads add)
qed


text \<open>A Sandbox that is being served: it has the finalizer and its Pool is ready and defines its profile.\<close>

definition served_box :: "('q, 'w) store_cluster \<Rightarrow> string \<times> string \<Rightarrow> sandbox \<Rightarrow> 'q sandbox_pool \<Rightarrow> bool" where
  "served_box c key s pool \<longleftrightarrow> boxAt c key = Some s \<and> metaKey (sb_Meta s) = key \<and> \<not> om_Deleting (sb_Meta s) \<and>
     SandboxFinalizer \<in> set (om_Finalizers (sb_Meta s)) \<and>
     map_of (ax_Pools (cu_Store c)) (fst key, sb_PoolRef (sb_Spec s)) = Some pool \<and>
     conditionTrue (storeKube :: ('q, ('q, 'w) store_cluster) kube) (pt_Conditions (po_Status pool)) ConditionReady \<and>
     hasSlotProfile (po_Spec pool) (sb_SlotProfile (sb_Spec s))"

definition boxRequest :: "sandbox \<Rightarrow> assign_request" where
  "boxRequest s = \<lparr>ar_SandboxUID = om_UID (sb_Meta s), ar_Namespace = om_Namespace (sb_Meta s), ar_Name = om_Name (sb_Meta s),
     ar_Pool = sb_PoolRef (sb_Spec s), ar_SlotProfile = sb_SlotProfile (sb_Spec s)\<rparr>"

lemma reconcile_served:
  assumes "rc_Kube r = storeKube" "served_box c (ns, n) s pool"
  shows "SandboxReconcile r ns n sched c =
    (case ss_Assignment (sb_Status s) of None \<Rightarrow> syncAssign r s pool sched c | Some a \<Rightarrow> syncStart r s a sched c)"
proof -
  have "om_Namespace (sb_Meta s) = ns" "ku_ContainsFinalizer storeKube (sb_Meta s) SandboxFinalizer"
    using assms(2) by (auto simp: served_box_def metaKey_def storeKube_def)
  with assms show ?thesis
    by (auto simp: SandboxReconcile_def store_reads served_box_def)
qed

lemma reconcile_assigns:
  assumes r: "rc_Kube r = storeKube" "placement_strategy select" "rc_Select r = select d"
    and box: "served_box c (ns, n) s pool" "ss_Assignment (sb_Status s) = None"
    and free: "Get (om_UID (sb_Meta s)) sched = None" "sb_SlotProfile (sb_Spec s) \<noteq> []" "offers sched (boxRequest s) k0 i0"
  shows "\<exists>k i t c'. offers sched (boxRequest s) k i \<and>
    SandboxReconcile r ns n sched c = (Requeue 0, placed (boxRequest s) k i sched, c') \<and> only_box (ns, n) t c c' \<and>
    sb_Meta t = sb_Meta s \<and> sb_Spec t = sb_Spec s \<and>
    ss_Assignment (sb_Status t) = Some \<lparr>aa_Worker = wk_Name k, aa_SlotID = i, aa_SlotProfile = sb_SlotProfile (sb_Spec s)\<rparr>"
proof -
  have "map_of (ms_assignments sched) (ar_SandboxUID (boxRequest s)) = None" "ar_SlotProfile (boxRequest s) \<noteq> []"
    using free by (simp_all add: boxRequest_def Get_def)
  from placement_strategy.Assign_places [OF r(2) this free(3), of d] obtain k i where
    k: "offers sched (boxRequest s) k i"
      "Assign (select d) (boxRequest s) sched = Some (Inr (assignmentOf (boxRequest s) k i), placed (boxRequest s) k i sched)"
    by blast
  let ?s = "s\<lparr>sb_Status := (sb_Status s)\<lparr>
                  ss_Assignment := Some \<lparr>aa_Worker = wk_Name k, aa_SlotID = i, aa_SlotProfile = sb_SlotProfile (sb_Spec s)\<rparr>,
                  ss_Phase := SandboxPhaseStarting\<rparr>\<rparr>"
  let ?s' = "setSandboxCondition (rc_Kube r) ConditionReady False ''Starting'' (Lit ''the Sandbox is starting'')
      (setSandboxCondition (rc_Kube r) ConditionScheduled True ''Assigned'' (Lit ''a Worker and Slot were assigned'') ?s)"
  have s: "boxAt c (ns, n) = Some s" "metaKey (sb_Meta s) = (ns, n)" "hasSlotProfile (po_Spec pool) (sb_SlotProfile (sb_Spec s))"
    using box(1) by (simp_all add: served_box_def)
  have "(ns, n) = metaKey (sb_Meta ?s')"
    using s(2) by (simp add: setSandboxCondition_def)
  from finishWith_store [OF s(1) this s(2), of 0] obtain c' where
    fin: "finishWith (rc_Kube r) 0 ?s' c = (Requeue 0, c')" "only_box (ns, n) (s\<lparr>sb_Status := observed ?s'\<rparr>) c c'"
    unfolding r(1) by blast
  have "syncAssign r s pool sched c = (Requeue 0, placed (boxRequest s) k i sched, c')"
    using s(3) k(2) fin(1) by (simp add: syncAssign_def r(3) boxRequest_def assignmentOf_def)
  then have "SandboxReconcile r ns n sched c = (Requeue 0, placed (boxRequest s) k i sched, c')"
    using reconcile_served [OF r(1) box(1)] box(2) by simp
  moreover have "ss_Assignment (observed ?s') =
      Some \<lparr>aa_Worker = wk_Name k, aa_SlotID = i, aa_SlotProfile = sb_SlotProfile (sb_Spec s)\<rparr>"
    by (simp add: observed_def setSandboxCondition_def)
  ultimately show ?thesis
    using k(1) fin(2) by (intro exI conjI) (assumption | simp)+
qed


lemma cluster_reserve:
  assumes "workerAt (cu_Fleet c) ep = Some m" "\<And>req fl. net (TrimRightSlash ep) req fl = Delivered" "slotID_ok (sr_SlotID ref)"
    and "ReserveSlot ref m (fl_World (cu_Fleet c)) = (None, m', w')"
  shows "wl_ReserveSlot (httpClient (clusterDo net env)) ep ref c = (None, c\<lparr>cu_Fleet := workerPut ep m' w' (cu_Fleet c)\<rparr>)"
proof -
  have "ServeHTTP env (request POST (slotURL (sr_SlotID ref) ''reserve'') [] (Json (JRef ref))) m (fl_World (cu_Fleet c))
      = (answer None, m', w')"
    using assms(3,4) by (simp add: serve_reserve)
  from doCall_delivered [where net = net, OF assms(1) assms(2) this] show ?thesis
    by (simp add: httpClient_def client_ReserveSlot_def doCall_cluster)
qed

lemma cluster_start:
  assumes "workerAt (cu_Fleet c) ep = Some m" "\<And>req fl. net (TrimRightSlash ep) req fl = Delivered" "slotID_ok (sq_SlotID req)"
    and "StartSandbox req m (fl_World (cu_Fleet c)) = (None, m', w')"
  shows "wl_StartSandbox (httpClient (clusterDo net env)) ep req c = (None, c\<lparr>cu_Fleet := workerPut ep m' w' (cu_Fleet c)\<rparr>)"
proof -
  have "ServeHTTP env (request POST (slotURL (sq_SlotID req) ''start'') [] (Json (JStart req))) m (fl_World (cu_Fleet c))
      = (answer None, m', w')"
    using assms(3,4) by (simp add: serve_start)
  from doCall_delivered [where net = net, OF assms(1) assms(2) this] show ?thesis
    by (simp add: httpClient_def client_StartSandbox_def doCall_cluster)
qed

text \<open>The Worker of an assignment takes the Sandbox: its Slot is free and its runtime creates and starts the container.\<close>

definition worker_takes ::
    "('q pod \<Rightarrow> go_error + string) \<Rightarrow> ('q, 'w) store_cluster \<Rightarrow> sandbox \<Rightarrow> string \<Rightarrow> int \<Rightarrow> string \<Rightarrow> bool" where
  "worker_takes endpoint c s worker i ep \<longleftrightarrow> slotID_ok i \<and>
     (\<exists>p m slot cont vars rid w1 w2. map_of (ax_Pods (cu_Store c)) (om_Namespace (sb_Meta s), worker) = Some p \<and> endpoint p = Inr ep \<and>
        workerAt (cu_Fleet c) ep = Some m \<and> map_of (sm_slots m) i = Some slot \<and> mg_state slot = StateFree \<and> slot_ok slot \<and>
        validateIdentity (sandboxIdentity s) = None \<and> sb_FromSnapshot (sb_Spec s) = [] \<and> sb_Container (sb_Spec s) = Some cont \<and>
        convertEnv (cs_Env cont) = Inr vars \<and>
        rt_Create (sm_runtime m) \<lparr>re_Identity = sandboxIdentity s, re_SlotID = i, re_Resources = mg_resources slot,
          re_Container = \<lparr>cc_Image = cs_Image cont, cc_Command = cs_Command cont, cc_Args = cs_Args cont, cc_Env = vars\<rparr>\<rparr>
          (fl_World (cu_Fleet c)) = (Inr rid, w1) \<and> rt_Start (sm_runtime m) rid w1 = (None, w2))"

lemma reconcile_starts:
  assumes r: "rc_Kube r = storeKube" "rc_Client r = httpClient (clusterDo net env)"
    and net: "\<And>req fl. net (TrimRightSlash ep) req fl = Delivered"
    and box: "served_box c (ns, n) s pool" "ss_Assignment (sb_Status s) = Some a"
    and known: "Get (om_UID (sb_Meta s)) sched = Some (assignmentFromSandbox s a)"
    and takes: "worker_takes (rc_Endpoint r) c s (aa_Worker a) (aa_SlotID a) ep"
  shows "\<exists>t c' m slot. SandboxReconcile r ns n sched c = (Requeue poolPollInterval, sched, c') \<and> boxAt c' (ns, n) = Some t \<and>
    ss_Phase (sb_Status t) = SandboxPhaseRunning \<and> ss_Assignment (sb_Status t) = Some a \<and>
    conditionTrue (rc_Kube r) (ss_Conditions (sb_Status t)) ConditionReady \<and>
    workerAt (cu_Fleet c') ep = Some m \<and> map_of (sm_slots m) (aa_SlotID a) = Some slot \<and> mg_state slot = StateRunning \<and>
    mg_sandbox slot = sandboxIdentity s"
proof -
  obtain p m slot cont vars rid w1 w2 where w: "slotID_ok (aa_SlotID a)"
      "map_of (ax_Pods (cu_Store c)) (om_Namespace (sb_Meta s), aa_Worker a) = Some p" "rc_Endpoint r p = Inr ep"
      "workerAt (cu_Fleet c) ep = Some m"
    and slot: "map_of (sm_slots m) (aa_SlotID a) = Some slot" "mg_state slot = StateFree" "slot_ok slot"
      "validateIdentity (sandboxIdentity s) = None" "convertEnv (cs_Env cont) = Inr vars"
      "rt_Create (sm_runtime m) \<lparr>re_Identity = sandboxIdentity s, re_SlotID = aa_SlotID a, re_Resources = mg_resources slot,
          re_Container = \<lparr>cc_Image = cs_Image cont, cc_Command = cs_Command cont, cc_Args = cs_Args cont, cc_Env = vars\<rparr>\<rparr>
          (fl_World (cu_Fleet c)) = (Inr rid, w1)" "rt_Start (sm_runtime m) rid w1 = (None, w2)"
    and spec: "sb_FromSnapshot (sb_Spec s) = []" "sb_Container (sb_Spec s) = Some cont"
    using takes by (auto simp: worker_takes_def)
  let ?ref = "\<lparr>sr_SlotID = aa_SlotID a, sr_Identity = sandboxIdentity s\<rparr>"
  let ?start = "\<lparr>sq_SlotID = aa_SlotID a, sq_Identity = sandboxIdentity s, sq_Container = cont\<rparr>"
  let ?m1 = "m\<lparr>sm_slots := gm_set (aa_SlotID a) (slot\<lparr>mg_state := StateReserved, mg_sandbox := sandboxIdentity s\<rparr>) (sm_slots m)\<rparr>"
  let ?slot = "slot\<lparr>mg_state := StateRunning, mg_sandbox := sandboxIdentity s, mg_runtimeRef := Some rid,
      mg_restored := IsRestoredID rid\<rparr>"
  let ?m2 = "?m1\<lparr>sm_slots := gm_set (aa_SlotID a) ?slot (sm_slots ?m1)\<rparr>"
  let ?c1 = "c\<lparr>cu_Fleet := workerPut ep ?m1 (fl_World (cu_Fleet c)) (cu_Fleet c)\<rparr>"
  let ?c2 = "?c1\<lparr>cu_Fleet := workerPut ep ?m2 w2 (cu_Fleet ?c1)\<rparr>"
  have reserve: "wl_ReserveSlot (httpClient (clusterDo net env)) ep ?ref c = (None, ?c1)"
    by (rule cluster_reserve [where net = net, OF w(4) net]) (use w(1) reserve_start_free(1) [OF slot] in simp_all)
  have "workerAt (cu_Fleet ?c1) ep = Some ?m1" by simp
  from cluster_start [where net = net, OF this net, of ?start ?m2 w2] have start: "wl_StartSandbox (httpClient (clusterDo net env)) ep ?start ?c1 = (None, ?c2)"
    using w(1) reserve_start_free(2) [OF slot] by simp
  let ?s = "setSandboxCondition (rc_Kube r) ConditionReady True ''Running'' (Lit ''the Sandbox is running'') (setPhase SandboxPhaseRunning s)"
  have s: "boxAt ?c2 (ns, n) = Some s" "metaKey (sb_Meta s) = (ns, n)"
    using box(1) by (simp_all add: served_box_def boxAt_def)
  have "(ns, n) = metaKey (sb_Meta ?s)"
    using s(2) by (simp add: setSandboxCondition_def setPhase_def)
  from finishWith_store [OF s(1) this s(2), of poolPollInterval] obtain c' where
    fin: "finishWith (rc_Kube r) poolPollInterval ?s ?c2 = (Requeue poolPollInterval, c')" "only_box (ns, n) (s\<lparr>sb_Status := observed ?s\<rparr>) ?c2 c'"
    unfolding r(1) by blast
  have restored: "Restore (assignmentFromSandbox s a) sched = (None, sched)"
    using known by (simp add: Get_def Restore_def assignmentFromSandbox_def)
  have ep: "resolveWorkerEndpoint r (om_Namespace (sb_Meta s)) (aa_Worker a) c = (Inr ep, c)"
    using w(2,3) by (simp add: resolveWorkerEndpoint_def r(1) store_reads)
  have launch: "launch r s ep ?ref ?c1 = (None, ?c2)"
    using start spec by (simp add: launch_def r(2))
  have "syncStart r s a sched c = (Requeue poolPollInterval, sched, c')"
    using fin(1) launch reserve by (simp add: syncStart_def restored ep r(2))
  then have "SandboxReconcile r ns n sched c = (Requeue poolPollInterval, sched, c')"
    using reconcile_served [OF r(1) box(1)] box(2) by simp
  moreover have "conditionTrue (rc_Kube r) (ss_Conditions (observed ?s)) ConditionReady"
    using find_setCondition [of "\<lparr>cn_Type = ConditionReady, cn_Status = True, cn_Reason = ''Running'', cn_Message = Lit ''the Sandbox is running'',
        cn_ObservedGeneration = om_Generation (sb_Meta s)\<rparr>" "ss_Conditions (sb_Status s)"]
    by (simp add: observed_def setSandboxCondition_def setPhase_def conditionTrue_def r(1) storeKube_def)
  moreover have "ss_Phase (observed ?s) = SandboxPhaseRunning" "ss_Assignment (observed ?s) = Some a"
    using box(2) by (simp_all add: observed_def setSandboxCondition_def setPhase_def)
  moreover have "boxAt c' (ns, n) = Some (s\<lparr>sb_Status := observed ?s\<rparr>)" "workerAt (cu_Fleet c') ep = Some ?m2"
    using fin(2) by (simp_all add: only_box_def)
  ultimately show ?thesis
    by (intro exI [of _ "s\<lparr>sb_Status := observed ?s\<rparr>"] exI [of _ c'] exI [of _ ?m2] exI [of _ ?slot]) simp
qed


lemma worker_takes_cong:
  assumes "cu_Fleet c' = cu_Fleet c" "ax_Pods (cu_Store c') = ax_Pods (cu_Store c)"
    and "sandboxIdentity s' = sandboxIdentity s" "om_Namespace (sb_Meta s') = om_Namespace (sb_Meta s)" "sb_Spec s' = sb_Spec s"
  shows "worker_takes endpoint c' s' = worker_takes endpoint c s"
  by (simp add: worker_takes_def assms fun_eq_iff)

lemma placed_known:
  "offers sched (boxRequest s) k i \<Longrightarrow> Get (om_UID (sb_Meta s)) (placed (boxRequest s) k i sched) =
     Some (assignmentFromSandbox s \<lparr>aa_Worker = wk_Name k, aa_SlotID = i, aa_SlotProfile = p\<rparr>)"
  by (auto simp: Get_def placed_def assignmentOf_def assignmentFromSandbox_def offers_def boxRequest_def)

text \<open>
  C2. A Sandbox comes up.  Let no call fail.  A new Sandbox of a ready Pool that defines its profile, for
  which the scheduler offers a Slot, is running after three reconciliations, if each offered Slot is
  free on its Worker and the Worker's runtime can create and start the container there: the first
  adds the finalizer, the second assigns an offered Slot, the third starts the Sandbox on the Worker of
  that Slot.  Then the status says so, and the Worker's Slot is running for this Sandbox.
\<close>

theorem new_sandbox_runs_after_three_reconciliations:
  assumes r: "rc_Kube r = storeKube" "rc_Client r = httpClient (clusterDo net env)" "rc_Select r = select d" "select \<in> strategies"
    and net: "\<And>host req fl. net host req fl = Delivered"
    and box: "boxAt c (ns, n) = Some s" "metaKey (sb_Meta s) = (ns, n)" "\<not> om_Deleting (sb_Meta s)"
      "om_Finalizers (sb_Meta s) = []" "ss_Assignment (sb_Status s) = None" "sb_SlotProfile (sb_Spec s) \<noteq> []"
    and pool: "map_of (ax_Pools (cu_Store c)) (ns, sb_PoolRef (sb_Spec s)) = Some pool"
      "conditionTrue (rc_Kube r) (pt_Conditions (po_Status pool)) ConditionReady" "hasSlotProfile (po_Spec pool) (sb_SlotProfile (sb_Spec s))"
    and free: "Get (om_UID (sb_Meta s)) sched = None" "offers sched (boxRequest s) k0 i0"
    and takes: "\<And>k i. offers sched (boxRequest s) k i \<Longrightarrow> \<exists>ep. worker_takes (rc_Endpoint r) c s (wk_Name k) i ep"
  shows "\<exists>k i c1 sched' c2 c3 t ep m slot. offers sched (boxRequest s) k i \<and>
    SandboxReconcile r ns n sched c = (Requeue 0, sched, c1) \<and>
    SandboxReconcile r ns n sched c1 = (Requeue 0, sched', c2) \<and>
    SandboxReconcile r ns n sched' c2 = (Requeue poolPollInterval, sched', c3) \<and>
    boxAt c3 (ns, n) = Some t \<and> ss_Phase (sb_Status t) = SandboxPhaseRunning \<and>
    ss_Assignment (sb_Status t) = Some \<lparr>aa_Worker = wk_Name k, aa_SlotID = i, aa_SlotProfile = sb_SlotProfile (sb_Spec s)\<rparr> \<and>
    conditionTrue (rc_Kube r) (ss_Conditions (sb_Status t)) ConditionReady \<and>
    workerAt (cu_Fleet c3) ep = Some m \<and> map_of (sm_slots m) i = Some slot \<and> mg_state slot = StateRunning \<and>
    mg_sandbox slot = sandboxIdentity s"
proof -
  let ?s1 = "s\<lparr>sb_Meta := (sb_Meta s)\<lparr>om_Finalizers := [SandboxFinalizer]\<rparr>\<rparr>"
  have same: "boxRequest ?s1 = boxRequest s" "sandboxIdentity ?s1 = sandboxIdentity s"
    by (simp_all add: boxRequest_def sandboxIdentity_def)
  obtain c1 where c1: "SandboxReconcile r ns n sched c = (Requeue 0, sched, c1)" "only_box (ns, n) ?s1 c c1"
    using reconcile_finalizer [OF r(1) box(1-3), of sched] box(4) by auto
  have served1: "served_box c1 (ns, n) ?s1 pool"
    using c1(2) box pool by (simp add: served_box_def only_box_def metaKey_def r(1))
  have free1: "ss_Assignment (sb_Status ?s1) = None" "Get (om_UID (sb_Meta ?s1)) sched = None"
    "sb_SlotProfile (sb_Spec ?s1) \<noteq> []" "offers sched (boxRequest ?s1) k0 i0"
    using box free same by simp_all
  obtain k i t2 c2 where k: "offers sched (boxRequest s) k i"
    "SandboxReconcile r ns n sched c1 = (Requeue 0, placed (boxRequest s) k i sched, c2)" "only_box (ns, n) t2 c1 c2"
    "sb_Meta t2 = sb_Meta ?s1" "sb_Spec t2 = sb_Spec s"
    "ss_Assignment (sb_Status t2) = Some \<lparr>aa_Worker = wk_Name k, aa_SlotID = i, aa_SlotProfile = sb_SlotProfile (sb_Spec s)\<rparr>"
    using reconcile_assigns [OF r(1) strategies_placement [OF r(4)] r(3) served1 free1] unfolding same by auto
  have served2: "served_box c2 (ns, n) t2 pool"
    using served1 k(3-5) by (simp add: served_box_def only_box_def)
  have req2: "boxRequest t2 = boxRequest s" "sandboxIdentity t2 = sandboxIdentity s"
    using k(4,5) by (simp_all add: boxRequest_def sandboxIdentity_def)
  have known2: "Get (om_UID (sb_Meta t2)) (placed (boxRequest s) k i sched) =
      Some (assignmentFromSandbox t2 \<lparr>aa_Worker = wk_Name k, aa_SlotID = i, aa_SlotProfile = sb_SlotProfile (sb_Spec s)\<rparr>)"
    using placed_known [of sched t2 k i] k(1) req2 by simp
  obtain ep where "worker_takes (rc_Endpoint r) c s (wk_Name k) i ep" using takes [OF k(1)] by blast
  then have takes2: "worker_takes (rc_Endpoint r) c2 t2 (aa_Worker \<lparr>aa_Worker = wk_Name k, aa_SlotID = i, aa_SlotProfile = sb_SlotProfile (sb_Spec s)\<rparr>)
      (aa_SlotID \<lparr>aa_Worker = wk_Name k, aa_SlotID = i, aa_SlotProfile = sb_SlotProfile (sb_Spec s)\<rparr>) ep"
    using worker_takes_cong [of c2 c t2 s "rc_Endpoint r"] c1(2) k(3-5) req2 by (simp add: only_box_def)
  obtain t3 c3 m slot where step3:
    "SandboxReconcile r ns n (placed (boxRequest s) k i sched) c2 = (Requeue poolPollInterval, placed (boxRequest s) k i sched, c3)"
    "boxAt c3 (ns, n) = Some t3" "ss_Phase (sb_Status t3) = SandboxPhaseRunning"
    "ss_Assignment (sb_Status t3) = Some \<lparr>aa_Worker = wk_Name k, aa_SlotID = i, aa_SlotProfile = sb_SlotProfile (sb_Spec s)\<rparr>"
    "conditionTrue (rc_Kube r) (ss_Conditions (sb_Status t3)) ConditionReady" "workerAt (cu_Fleet c3) ep = Some m"
    "map_of (sm_slots m) i = Some slot" "mg_state slot = StateRunning" "mg_sandbox slot = sandboxIdentity s"
    using reconcile_starts [OF r(1,2) net served2 k(6) known2 takes2] req2 by auto
  show ?thesis
    using k(1) c1(1) k(2) step3 by blast
qed


definition cluster_x :: "(int, ex_world) store_cluster" where
  "cluster_x = storeBox (boxNamed ''x'' ''u'') (sys_Cluster system1)"

definition key_w0 :: worker_key where
  "key_w0 = \<lparr>wk_Namespace = ''ns'', wk_Pool = ''pool'', wk_Name = ''pool-t-worker-0''\<rparr>"

lemma sched0_eq: "sched0 = \<lparr>ms_workers = [(key_w0, \<lparr>ws_Key = key_w0, ws_Healthy = True, ws_LastObserved = 0,
         ws_Slots = [(0, \<lparr>si_ID = 0, si_Profile = ''small'', si_State = StateFree, si_SandboxUID = []\<rparr>),
            (1, \<lparr>si_ID = 1, si_Profile = ''small'', si_State = StateFree, si_SandboxUID = []\<rparr>),
            (2, \<lparr>si_ID = 2, si_Profile = ''large'', si_State = StateFree, si_SandboxUID = []\<rparr>)]\<rparr>)],
    ms_assignments = []\<rparr>"
  by code_simp

lemma sched0_offers: "offers sched0 (boxRequest (boxNamed ''x'' ''u'')) k i \<longleftrightarrow> k = key_w0 \<and> i \<in> {0, 1}"
  unfolding sched0_eq by (auto simp: offers_def boxRequest_def boxNamed_def key_w0_def split: if_splits)

lemma takes_x:
  assumes "i \<in> {0, 1}"
  shows "worker_takes (rc_Endpoint rec1) cluster_x (boxNamed ''x'' ''u'') (wk_Name key_w0) i ''http://w0''"
proof -
  let ?slot = "newManagedSlot (layout1 ! nat i)"
  let ?w = "fl_World (cu_Fleet cluster_x)"
  have slot: "map_of (sm_slots mgr1) i = Some ?slot" "mg_state ?slot = StateFree" "slot_ok ?slot" "slotID_ok i"
    using assms by (auto simp: mgr1_def config1_def NewSlotManager_def layout1_def newManagedSlot_def slot_ok_def
        slotID_ok_def int32_ok_def)
  have worker: "workerAt (cu_Fleet cluster_x) ''http://w0'' = Some mgr1"
    "map_of (ax_Pods (cu_Store cluster_x)) (om_Namespace (sb_Meta (boxNamed ''x'' ''u'')), wk_Name key_w0) = Some pod1"
    "rc_Endpoint rec1 pod1 = Inr ''http://w0''"
    by (simp_all add: cluster_x_def storeBox_def system1_def workerAt_def TrimRightSlash_def store1_def rec1_def pod1_def
        fleet1_def boxNamed_def key_w0_def)
  have runtime: "rt_Create (sm_runtime mgr1) req ?w = (Inr (id_UID (re_Identity req)), ?w\<lparr>ew_objects := id_UID (re_Identity req) # ew_objects ?w\<rparr>)"
    "rt_Start (sm_runtime mgr1) rid (?w\<lparr>ew_objects := os\<rparr>) = (None, ?w\<lparr>ew_objects := os\<rparr>)" for req rid os
    by (simp_all add: mgr1_def NewSlotManager_def rt1_def cluster_x_def storeBox_def system1_def fleet1_def world1_def)
  have box: "validateIdentity (sandboxIdentity (boxNamed ''x'' ''u'')) = None" "sb_FromSnapshot (sb_Spec (boxNamed ''x'' ''u'')) = []"
    "sb_Container (sb_Spec (boxNamed ''x'' ''u'')) = Some \<lparr>cs_Image = ''busybox'', cs_Command = [], cs_Args = [], cs_Env = []\<rparr>"
    "convertEnv [] = Inr []"
    by (simp_all add: boxNamed_def sandboxIdentity_def validateIdentity_def)
  show ?thesis
    unfolding worker_takes_def
    using slot worker runtime box by (intro conjI exI) (assumption | simp)+
qed

theorem new_sandbox_runs_after_three_reconciliations_witness:
  "\<exists>c1 sched' c2 c3 t. SandboxReconcile rec1 ''ns'' ''x'' sched0 cluster_x = (Requeue 0, sched0, c1) \<and>
     SandboxReconcile rec1 ''ns'' ''x'' sched0 c1 = (Requeue 0, sched', c2) \<and>
     SandboxReconcile rec1 ''ns'' ''x'' sched' c2 = (Requeue poolPollInterval, sched', c3) \<and>
     boxAt c3 (''ns'', ''x'') = Some t \<and> ss_Phase (sb_Status t) = SandboxPhaseRunning"
proof -
  let ?x = "boxNamed ''x'' ''u''"
  have rec: "rc_Kube rec1 = storeKube" "rc_Client rec1 = httpClient (clusterDo good_net env1)"
    "rc_Select rec1 = (\<lambda>_ :: nat. BinPackStrategy_Select) 0"
    by (simp_all add: rec1_def)
  have net: "good_net host req fl = Delivered" for host req fl
    by (simp add: good_net_def)
  have box: "boxAt cluster_x (''ns'', ''x'') = Some ?x" "metaKey (sb_Meta ?x) = (''ns'', ''x'')" "\<not> om_Deleting (sb_Meta ?x)"
      "om_Finalizers (sb_Meta ?x) = []" "ss_Assignment (sb_Status ?x) = None" "sb_SlotProfile (sb_Spec ?x) \<noteq> []"
    by (simp_all add: boxAt_def cluster_x_def storeBox_def boxNamed_def metaKey_def)
  let ?pool = "setPoolCondition (rc_Kube rec0) ConditionReady True ''WorkerAvailable''
      (Lit ''1 Workers can accept Sandbox operations'') pool1"
  have pool: "map_of (ax_Pools (cu_Store cluster_x)) (''ns'', sb_PoolRef (sb_Spec ?x)) = Some ?pool"
    by (simp add: cluster_x_def storeBox_def system1_def store1_def boxNamed_def)
  have ready: "conditionTrue (rc_Kube rec1) (pt_Conditions (po_Status ?pool)) ConditionReady"
    "hasSlotProfile (po_Spec ?pool) (sb_SlotProfile (sb_Spec ?x))"
    by code_simp+
  have free: "Get (om_UID (sb_Meta ?x)) sched0 = None" "offers sched0 (boxRequest ?x) key_w0 0"
    by (simp_all add: sched0_offers) (simp add: sched0_eq Get_def)
  have takes: "\<exists>ep. worker_takes (rc_Endpoint rec1) cluster_x ?x (wk_Name k) i ep" if "offers sched0 (boxRequest ?x) k i" for k i
    using that takes_x by (auto simp: sched0_offers)
  from new_sandbox_runs_after_three_reconciliations [where net = good_net, OF rec binpack_strategy net box pool ready free takes]
  show ?thesis by blast
qed

end
