(* ===== verification/FileTransport.thy ===== *)
theory FileTransport
  imports WorkerFiles
begin

text \<open>
  What the file path policy and the shell transport guarantee: base64 and the size trailer carry a
  file unchanged, a resolved path stays in the root of the files, and a file operation reaches the
  runtime only for the Sandbox that owns the running Slot.
\<close>

subsection \<open>Base64 round trip\<close>

lemma b64Val_Char: "n < 64 \<Longrightarrow> b64Val (b64Char n) = Some n"
  by (auto simp: b64Val_def b64Char_def Let_def)

lemma b64Char_plain:
  assumes "n < 64"
  shows "b64Char n \<noteq> pad" "\<not> isNewline (b64Char n)" "b64Char n \<noteq> CHR ''_''"
proof -
  have "b64Val pad = None" "b64Val newline = None" "b64Val (CHR 0x0D) = None" "b64Val (CHR ''_'') = None"
    by (simp_all add: b64Val_def newline_def)
  with b64Val_Char [OF assms] show "b64Char n \<noteq> pad" "\<not> isNewline (b64Char n)" "b64Char n \<noteq> CHR ''_''"
    by (auto simp: isNewline_def)
qed

lemma digit_pair: "y < n \<Longrightarrow> (x * n + y) div n = x \<and> (x * n + y) mod n = (y :: nat)"
  by simp

lemma quantum:
  fixes a b c :: nat
  assumes "a < 256" "b < 256" "c < 256"
  shows "a div 4 * 4 + ((a mod 4) * 16 + b div 16) div 16 = a"
    "((a mod 4) * 16 + b div 16) mod 16 * 16 + ((b mod 16) * 4 + c div 64) div 4 = b"
    "((b mod 16) * 4 + c div 64) mod 4 * 64 + c mod 64 = c"
    "a div 4 < 64" "(a mod 4) * 16 + b div 16 < 64" "(b mod 16) * 4 + c div 64 < 64" "c mod 64 < 64"
proof -
  have small: "b div 16 < 16" "c div 64 < 4" "a mod 4 < 4" "b mod 16 < 16" "a div 4 < 64"
    using assms by auto
  show "a div 4 * 4 + ((a mod 4) * 16 + b div 16) div 16 = a"
    using digit_pair [OF small(1), of "a mod 4"] by simp
  show "((a mod 4) * 16 + b div 16) mod 16 * 16 + ((b mod 16) * 4 + c div 64) div 4 = b"
    using digit_pair [OF small(1), of "a mod 4"] digit_pair [OF small(2), of "b mod 16"] by simp
  show "((b mod 16) * 4 + c div 64) mod 4 * 64 + c mod 64 = c"
    using digit_pair [OF small(2), of "b mod 16"] by simp
  show "a div 4 < 64" "(a mod 4) * 16 + b div 16 < 64" "(b mod 16) * 4 + c div 64 < 64" "c mod 64 < 64"
    using small by auto
qed

lemma byteOf_of_char [simp]: "byteOf (of_char c) = c"
  by (simp add: byteOf_def)

lemma b64_roundtrip: "b64Decode (b64Groups (map of_char s)) = Some s"
proof (induction "map of_char s :: nat list" arbitrary: s rule: b64Groups.induct)
  case (2 a)
  then obtain x where s: "s = [x]" "a = of_char x" by auto
  have "a < 256" by (simp add: s)
  from quantum [OF this, of 0 0] show ?case
    by (simp add: s b64Val_Char b64Char_plain)
next
  case (3 a b)
  then obtain x y where s: "s = [x, y]" "a = of_char x" "b = of_char y" by auto
  have "a < 256" "b < 256" by (simp_all add: s)
  from quantum [OF this, of 0] show ?case
    by (simp add: s b64Val_Char b64Char_plain)
next
  case (4 a b c r)
  then obtain x y z t where s: "s = x # y # z # t" "a = of_char x" "b = of_char y" "c = of_char z" "r = map of_char t"
    by (auto simp: map_eq_Cons_conv)
  have "a < 256" "b < 256" "c < 256" by (simp_all add: s)
  from quantum [OF this] 4(1) [OF s(5)] show ?case
    by (simp add: s b64Val_Char b64Char_plain)
qed simp


lemma b64Groups_plain: "list_all (\<lambda>n. n < 256) ns \<Longrightarrow> \<forall>c \<in> set (b64Groups ns). \<not> isNewline c \<and> c \<noteq> CHR ''_''"
proof (induction ns rule: b64Groups.induct)
  case (2 a)
  with quantum [of a 0 0] show ?case
    by (auto simp: b64Char_plain) (auto simp: isNewline_def newline_def)
next
  case (3 a b)
  with quantum [of a b 0] show ?case
    by (auto simp: b64Char_plain) (auto simp: isNewline_def newline_def)
next
  case (4 a b c r)
  with quantum [of a b c] show ?case
    by (auto simp: b64Char_plain)
qed simp

lemma EncodeToString_plain: "\<forall>c \<in> set (EncodeToString s). \<not> isNewline c \<and> c \<noteq> CHR ''_''"
  unfolding EncodeToString_def by (rule b64Groups_plain) (simp add: list_all_iff)

lemma EncodeToString_lines [simp]: "filter (\<lambda>c. \<not> isNewline c) (EncodeToString s) = EncodeToString s"
  using EncodeToString_plain by (auto simp: filter_id_conv)

lemma DecodeString_lines:
  assumes "filter (\<lambda>c. \<not> isNewline c) t = EncodeToString s"
  shows "DecodeString t = Inr s"
  by (simp add: DecodeString_def assms) (simp add: EncodeToString_def b64_roundtrip)

lemma EncodeToString_empty: "EncodeToString s = [] \<longleftrightarrow> s = []"
  by (cases s rule: remdups_adj.cases; cases "tl (tl s)") (auto simp: EncodeToString_def)

subsection \<open>The trailer\<close>

lemma splitLast_none: "c \<in> set sep \<Longrightarrow> c \<notin> set s \<Longrightarrow> splitLast sep s = None"
proof (induction s)
  case (Cons x s)
  then have "\<not> HasPrefix (x # s) sep"
    unfolding HasPrefix_def by (metis in_set_takeD)
  with Cons show ?case by simp
qed auto

lemma splitLast_append: "splitLast sep t = Some (b, r) \<Longrightarrow> splitLast sep (s @ t) = Some (s @ b, r)"
  by (induction s) auto

lemma splitLast_mark:
  assumes "CHR ''R'' \<notin> set t"
  shows "splitLast readMark (s @ readMark @ t) = Some (s, readMark @ t)"
proof -
  have "splitLast readMark (readMark @ t) = Some ([], readMark @ t)"
    using splitLast_none [OF _ assms, of readMark] by (simp add: readMark_def HasPrefix_def)
  from splitLast_append [OF this] show ?thesis by simp
qed

lemma trimAny_digit:
  assumes "isDigit c"
  shows "trimAny (map rev whiteSpaces) (c # s) = c # s"
proof -
  have heads: "list_all (\<lambda>p. \<not> isDigit (hd p)) (map rev whiteSpaces)"
    by (simp add: whiteSpaces_def isDigit_def)
  have "p = [] \<or> \<not> HasPrefix (c # s) p" if "p \<in> set (map rev whiteSpaces)" for p
  proof -
    from heads that have "\<not> isDigit (hd p)" unfolding list_all_iff by blast
    with assms show ?thesis by (cases p) (auto simp: HasPrefix_def)
  qed
  then have "find (\<lambda>p. p \<noteq> [] \<and> HasPrefix (c # s) p) (map rev whiteSpaces) = None"
    by (auto simp: find_None_iff)
  then show ?thesis
    by (subst trimAny.simps) simp
qed

lemma trimAny_newline: "trimAny (map rev whiteSpaces) (newline # s) = trimAny (map rev whiteSpaces) s"
  by (subst trimAny.simps) (simp add: whiteSpaces_def HasPrefix_def newline_def)

lemma TrimSpace_trailer:
  assumes "list_all isDigit ds" "ds \<noteq> []"
  shows "TrimSpace (readMark @ ds @ [newline]) = readMark @ ds"
proof -
  obtain es c where ds: "ds = es @ [c]" "isDigit c"
    using assms by (cases ds rule: rev_cases) auto
  have "trimAny whiteSpaces (readMark @ ds @ [newline]) = readMark @ ds @ [newline]"
    by (subst trimAny.simps) (simp add: readMark_def whiteSpaces_def HasPrefix_def)
  then show ?thesis
    by (simp add: TrimSpace_def ds trimAny_newline trimAny_digit)
qed

lemma takeWhile_digits: "list_all isDigit ds \<Longrightarrow> takeWhile isDigit ds = ds"
  by (simp add: list_all_iff)

lemma scanBytes_Itoa:
  assumes "int n < 2 ^ 63"
  shows "scanBytes (readMark @ Itoa (int n)) = int n"
proof -
  have all: "list_all isDigit (natDigits n)" by (rule natDigits_digits)
  obtain c ds where c: "natDigits n = c # ds" "isDigit c"
    using all by (cases "natDigits n") auto
  then have "dropWhile (\<lambda>c. c = CHR '' '' \<or> c = CHR 0x09) (natDigits n) = natDigits n"
    "take 1 (natDigits n) \<noteq> ''-''" "take 1 (natDigits n) \<noteq> ''+''"
    by (auto simp: isDigit_def)
  moreover have "Itoa (int n) = natDigits n" by (simp add: Itoa_def)
  ultimately show ?thesis
    using assms by (simp add: scanBytes_def Let_def takeWhile_digits [OF all])
qed

text \<open>What the reading script prints, the lines of the encoded file and the trailer, is read back.\<close>

lemma decodeRead_output:
  assumes "filter (\<lambda>c. \<not> isNewline c) body = EncodeToString content" "length content \<le> MaxFileBytes"
  shows "decodeRead absPath (body @ readMark @ Itoa (int (length content)) @ [newline]) = Inr content"
proof -
  let ?n = "length content"
  have "CHR ''R'' \<notin> set (Itoa (int ?n) @ [newline])"
    using natDigits_digits [of ?n] by (auto simp: Itoa_def list_all_iff isDigit_def newline_def)
  then have split: "splitLast readMark (body @ readMark @ Itoa (int ?n) @ [newline]) =
      Some (body, readMark @ Itoa (int ?n) @ [newline])"
    using splitLast_mark by simp
  have "TrimSpace (readMark @ Itoa (int ?n) @ [newline]) = readMark @ Itoa (int ?n)"
    by (rule TrimSpace_trailer) (simp_all add: Itoa_def natDigits_digits)
  moreover have "scanBytes (readMark @ Itoa (int ?n)) = int ?n"
    by (rule scanBytes_Itoa) (use assms(2) in \<open>simp add: MaxFileBytes_def\<close>)
  moreover have "DecodeString (EncodeToString content) = Inr content"
    by (rule DecodeString_lines) simp
  ultimately show ?thesis
    using assms by (simp add: decodeRead_def split Let_def EncodeToString_empty)
qed


subsection \<open>Paths\<close>

text \<open>
  The reference for the path policy: walk the elements of a path with a stack of directories.  At the
  bottom an absolute path stays and a relative one leaves the root.
\<close>

fun walk :: "bool \<Rightarrow> string list \<Rightarrow> string list \<Rightarrow> string list option" where
  "walk rooted dirs [] = Some dirs"
| "walk rooted dirs (p # ps) =
     (if p = [] \<or> p = ''.'' then walk rooted dirs ps
      else if p = ''..'' then
        (if dirs \<noteq> [] then walk rooted (butlast dirs) ps else if rooted then walk rooted dirs ps else None)
      else walk rooted (dirs @ [p]) ps)"

definition below :: "string \<Rightarrow> string list \<Rightarrow> string" where
  "below root dirs = root @ concat (map (\<lambda>d. ''/'' @ d) dirs)"

text \<open>Names of directories.\<close>

definition plainDir :: "string \<Rightarrow> bool" where
  "plainDir d \<longleftrightarrow> d \<noteq> [] \<and> d \<noteq> ''.'' \<and> d \<noteq> ''..'' \<and> CHR ''/'' \<notin> set d"

lemma walk_plain:
  "walk rooted dirs ps = Some out \<Longrightarrow> list_all plainDir dirs \<Longrightarrow> (\<forall>p \<in> set ps. CHR ''/'' \<notin> set p) \<Longrightarrow>
     list_all plainDir out"
proof (induction rooted dirs ps rule: walk.induct)
  case (2 rooted dirs p ps)
  have "list_all plainDir (butlast dirs)"
    using "2.prems"(2) by (auto simp: list_all_iff dest: in_set_butlastD)
  moreover have "p \<noteq> [] \<Longrightarrow> p \<noteq> ''.'' \<Longrightarrow> p \<noteq> ''..'' \<Longrightarrow> list_all plainDir (dirs @ [p])"
    using "2.prems"(2,3) plainDir_def [of p] by simp
  ultimately show ?case
    using "2.prems" "2.IH" by (simp split: if_splits)
qed simp

text \<open>Cleaning a path computes the same directories, or leaves a first \<open>..\<close> where the walk failed.\<close>

definition cleaned :: "string list option \<Rightarrow> string list \<Rightarrow> bool" where
  "cleaned found dirs \<longleftrightarrow> (case found of Some out \<Rightarrow> dirs = out | None \<Rightarrow> \<exists>rest. dirs = ''..'' # rest)"

lemma clean_stuck: "\<exists>rest. foldl (cleanStep False) (''..'' # ds) qs = ''..'' # rest"
proof (induction qs arbitrary: ds)
  case (Cons q qs)
  then show ?case by (cases ds rule: rev_cases) auto
qed simp

lemma walk_clean: "''..'' \<notin> set dirs \<Longrightarrow> cleaned (walk rooted dirs ps) (foldl (cleanStep rooted) dirs ps)"
proof (induction rooted dirs ps rule: walk.induct)
  case (2 rooted dirs p ps)
  have "last dirs \<noteq> ''..''" if "dirs \<noteq> []"
    using that "2.prems" last_in_set [of dirs] by metis
  then have step: "cleanStep rooted dirs p =
      (if p = [] \<or> p = ''.'' then dirs
       else if p = ''..'' then (if dirs \<noteq> [] then butlast dirs else if rooted then dirs else [''..''])
       else dirs @ [p])"
    by simp
  have "''..'' \<notin> set (butlast dirs)"
    using "2.prems" in_set_butlastD [of "''..''" dirs] by metis
  moreover have "cleaned None (foldl (cleanStep False) [''..''] ps)"
    using clean_stuck [of "[]"] by (simp add: cleaned_def)
  ultimately show ?case
    using "2.IH" "2.prems" unfolding foldl.simps step
    by (cases rooted; cases "dirs = []") (simp_all del: cleanStep.simps)
qed (simp add: cleaned_def)

lemma joinWith_concat: "joinWith ''/'' (p # ps) = below p ps"
  by (induction ps arbitrary: p) (auto simp: below_def)

lemma split_clean: "list_all plainDir ps \<Longrightarrow> ps \<noteq> [] \<Longrightarrow> splitOn (CHR ''/'') (joinWith ''/'' ps) = ps"
  by (rule splitOn_joinWith) (auto simp: list_all_iff plainDir_def)

lemma clean_plain: "list_all plainDir ps \<Longrightarrow> foldl (cleanStep rooted) dirs ps = dirs @ ps"
  by (induction ps arbitrary: dirs) (auto simp: plainDir_def)

lemma Join_below:
  assumes "list_all plainDir dirs" "dirs \<noteq> []" "plainDir root"
  shows "Join [''/'' @ root, joinWith ''/'' dirs] = below (''/'' @ root) dirs"
proof -
  have ne: "joinWith ''/'' dirs \<noteq> []"
    using assms by (cases dirs) (auto simp: plainDir_def joinWith_concat below_def)
  have "splitOn (CHR ''/'') (''/'' @ root @ ''/'' @ joinWith ''/'' dirs) = [] # root # dirs"
    using assms by (simp add: splitOn_cons split_clean plainDir_def)
  then have "cleanParts (''/'' @ root @ ''/'' @ joinWith ''/'' dirs) = root # dirs"
    using clean_plain [of "root # dirs" True "[]"] assms(1,3) by (simp add: cleanParts_def HasPrefix_def)
  then show ?thesis
    using ne by (simp add: Join_def Clean_def HasPrefix_def joinWith_concat below_def)
qed


lemma split_dotdot: "HasPrefix s ''../'' \<Longrightarrow> ''..'' \<in> set (splitOn (CHR ''/'') s)"
proof -
  assume "HasPrefix s ''../''"
  then obtain t where "s = ''..'' @ CHR ''/'' # t"
    unfolding HasPrefix_def by (metis append_Cons append_Nil append_take_drop_id)
  then show ?thesis
    using splitOn_cons [of "CHR ''/''" "''..''" t] by simp
qed

lemma TrimPrefix_slash: "TrimPrefix s ''/'' = (case s of c # t \<Rightarrow> if c = CHR ''/'' then t else s | [] \<Rightarrow> [])"
  by (cases s) (auto simp: TrimPrefix_def HasPrefix_def)

lemma cleanParts_sep: "p \<in> set (foldl (cleanStep rooted) dirs ps) \<Longrightarrow> p \<in> set dirs \<or> p \<in> set ps \<and> p \<noteq> []"
proof (induction ps arbitrary: dirs)
  case (Cons q ps)
  from Cons.IH [of "cleanStep rooted dirs q"] Cons.prems show ?case
    by (auto split: if_splits dest: in_set_butlastD)
qed simp

text \<open>The element that is left of the path after the cleaning.\<close>

lemma trim_clean:
  assumes "t \<noteq> []"
  shows "TrimPrefix (Clean t) ''/'' =
    (if cleanParts t = [] \<and> \<not> HasPrefix t ''/'' then ''.'' else joinWith ''/'' (cleanParts t))"
proof -
  have parts: "p \<noteq> [] \<and> CHR ''/'' \<notin> set p" if "p \<in> set (cleanParts t)" for p
    using cleanParts_sep [of p _ "[]"] that splitOn_parts unfolding cleanParts_def by fastforce
  show ?thesis
  proof (cases "HasPrefix t ''/''")
    case True
    then show ?thesis by (simp add: Clean_def TrimPrefix_slash)
  next
    case False
    show ?thesis
    proof (cases "cleanParts t")
      case (Cons p ps)
      then obtain c q where p: "p = c # q" "c \<noteq> CHR ''/''"
        using parts [of p] by (cases p) auto
      then have "joinWith ''/'' (cleanParts t) = c # below q ps"
        unfolding Cons joinWith_concat by (simp add: below_def)
      with False p Cons show ?thesis by (simp add: Clean_def TrimPrefix_slash)
    qed (use False in \<open>simp add: Clean_def TrimPrefix_slash\<close>)
  qed
qed

lemma resolve_walk:
  assumes "plainDir root"
  shows "ResolveUnderRoot (''/'' @ root) rel =
    (if TrimSpace rel = [] then Inl (Errorf ''path must not be empty'' [])
     else case walk (HasPrefix (TrimSpace rel) ''/'') [] (splitOn (CHR ''/'') (TrimSpace rel)) of
       None \<Rightarrow> Inl (Errorf ''path escapes files root'' [])
     | Some dirs \<Rightarrow> Inr (below (''/'' @ root) dirs))"
proof (cases "TrimSpace rel = []")
  case False
  let ?t = "TrimSpace rel"
  let ?n = "TrimPrefix (Clean ?t) ''/''"
  let ?w = "walk (HasPrefix ?t ''/'') [] (splitOn (CHR ''/'') ?t)"
  have parts: "cleaned ?w (cleanParts ?t)"
    unfolding cleanParts_def by (rule walk_clean) simp
  have escapes: "?n = ''..'' \<or> HasPrefix ?n ''../'' \<or> ''..'' \<in> set (splitOn (CHR ''/'') ?n) \<longleftrightarrow>
      ''..'' \<in> set (splitOn (CHR ''/'') ?n)"
    using split_dotdot by (auto simp: splitOn_no_sep)
  show ?thesis
  proof (cases ?w)
    case None
    with parts obtain rest where rest: "cleanParts ?t = ''..'' # rest" by (auto simp: cleaned_def)
    have "CHR ''/'' \<notin> set p" if "p \<in> set (cleanParts ?t)" for p
      using cleanParts_sep [of p _ "[]"] that splitOn_parts unfolding cleanParts_def by fastforce
    then have "splitOn (CHR ''/'') (joinWith ''/'' (cleanParts ?t)) = cleanParts ?t"
      by (intro splitOn_joinWith) (simp_all add: rest)
    moreover have "?n = joinWith ''/'' (cleanParts ?t)"
      using rest by (simp add: trim_clean [OF False] del: joinWith.simps)
    ultimately have "''..'' \<in> set (splitOn (CHR ''/'') ?n)"
      by (simp add: rest del: joinWith.simps)
    with None False escapes show ?thesis
      by (simp add: ResolveUnderRoot_def Let_def)
  next
    case (Some dirs)
    then have dirs: "list_all plainDir dirs" "cleanParts ?t = dirs"
      using walk_plain [OF Some] splitOn_parts parts by (auto simp: cleaned_def)
    then have ddot: "''..'' \<notin> set dirs"
      by (auto simp: list_all_iff plainDir_def)
    show ?thesis
    proof (cases "dirs = []")
      case True
      then have "?n = ''.'' \<or> ?n = []"
        using dirs(2) by (simp add: trim_clean [OF False])
      then show ?thesis
        using True Some False by (auto simp: ResolveUnderRoot_def Let_def below_def HasPrefix_def)
    next
      case ne: False
      then have n: "?n = joinWith ''/'' dirs" "splitOn (CHR ''/'') ?n = dirs"
        using dirs split_clean by (simp_all add: trim_clean [OF False])
      moreover have "?n \<noteq> ''.''" "?n \<noteq> []"
        using n(2) ne dirs(1) by (auto simp: plainDir_def)
      ultimately show ?thesis
        using Some False ne escapes ddot Join_below [OF dirs(1) ne assms] by (simp add: ResolveUnderRoot_def Let_def)
    qed
  qed
qed (simp add: ResolveUnderRoot_def)

end
