(* ===== verification/FileProperties.thy ===== *)
theory FileProperties
  imports FileTransport WorkerProperties
begin

text \<open>
  The properties of the file operations, from the Worker's calls down to the shell in the sandbox.
\<close>

subsection \<open>Paths\<close>

lemma DefaultFilesRoot_app: "DefaultFilesRoot = ''/'' @ ''app''"
  by (simp add: DefaultFilesRoot_def)

lemma plain_app: "plainDir ''app''"
  by (simp add: plainDir_def)

lemma Contains_char: "Contains s [c] \<longleftrightarrow> c \<in> set s"
proof (induction s)
  case Nil
  show ?case by (subst Contains.simps) (simp add: HasPrefix_def)
next
  case (Cons x s)
  then show ?case by (subst Contains.simps) (auto simp: HasPrefix_def)
qed

lemma ValidateWriteName_plain: "ValidateWriteName name = None \<Longrightarrow> plainDir name"
  by (cases name) (auto simp: ValidateWriteName_def plainDir_def Contains_char Let_def Base_def split: if_splits)

lemma split_below: "list_all plainDir dirs \<Longrightarrow> splitOn (CHR ''/'') (below DefaultFilesRoot dirs) = [] # ''app'' # dirs"
  using split_clean [of "''app'' # dirs"]
  by (simp add: joinWith_concat plainDir_def) (simp add: below_def DefaultFilesRoot_def)

text \<open>
  C33. The path policy of the files is the walk over the elements of the path: a relative path that
  leaves the root at any point is refused, an absolute one is taken below the root and stays there,
  and what comes out is \<open>/app\<close> followed by plain names, without \<open>.\<close>, \<open>..\<close> or empty elements.
\<close>

theorem resolved_paths_stay_in_root:
  "ResolveUnderRoot DefaultFilesRoot rel =
     (if TrimSpace rel = [] then Inl (Errorf ''path must not be empty'' [])
      else case walk (HasPrefix (TrimSpace rel) ''/'') [] (splitOn (CHR ''/'') (TrimSpace rel)) of
        None \<Rightarrow> Inl (Errorf ''path escapes files root'' [])
      | Some dirs \<Rightarrow> Inr (below DefaultFilesRoot dirs)) \<and>
   (\<forall>p. ResolveUnderRoot DefaultFilesRoot rel = Inr p \<longrightarrow>
      (\<exists>dirs. splitOn (CHR ''/'') p = [] # ''app'' # dirs \<and> list_all plainDir dirs))"
proof -
  note walk = resolve_walk [OF plain_app, of rel, folded DefaultFilesRoot_app]
  have "\<exists>dirs. splitOn (CHR ''/'') p = [] # ''app'' # dirs \<and> list_all plainDir dirs"
    if p: "ResolveUnderRoot DefaultFilesRoot rel = Inr p" for p
  proof -
    obtain dirs where dirs: "walk (HasPrefix (TrimSpace rel) ''/'') [] (splitOn (CHR ''/'') (TrimSpace rel)) = Some dirs"
      "p = below DefaultFilesRoot dirs"
      using p unfolding walk by (auto split: if_splits option.splits)
    moreover have "list_all plainDir dirs"
      using walk_plain [OF dirs(1)] splitOn_parts by auto
    ultimately show ?thesis
      using split_below by blast
  qed
  with walk show ?thesis by blast
qed

theorem resolved_paths_stay_in_root_witness:
  "ResolveUnderRoot DefaultFilesRoot ''a/./../b/c'' = Inr ''/app/b/c'' \<and>
   (\<exists>dirs. splitOn (CHR ''/'') ''/app/b/c'' = [] # ''app'' # dirs \<and> list_all plainDir dirs)"
proof -
  have "ResolveUnderRoot DefaultFilesRoot ''a/./../b/c'' = Inr ''/app/b/c''" by code_simp
  with resolved_paths_stay_in_root [of "''a/./../b/c''"] show ?thesis by blast
qed

definition file_refused :: "go_error \<Rightarrow> bool" where
  "file_refused e \<longleftrightarrow> errors_is ErrInvalidRequest e \<or> errors_is ErrSlotNotFound e \<or> errors_is ErrSandboxNotFound e"

definition file_target :: "('q, 'w) slot_manager \<Rightarrow> sandbox_file_request \<Rightarrow> 'q managed_slot \<Rightarrow> runtime_id \<Rightarrow> bool" where
  "file_target m req s rid \<longleftrightarrow> map_of (sm_slots m) (fr_SlotID req) = Some s \<and> mg_state s = StateRunning \<and>
     id_UID (mg_sandbox s) = id_UID (fr_Identity req) \<and> mg_runtimeRef s = Some rid"

lemma runningSlot_cases:
  "(\<exists>e. runningSlot m (fr_SlotID req) (fr_Identity req) = Inl e \<and> file_refused e) \<or>
   (\<exists>s rid. runningSlot m (fr_SlotID req) (fr_Identity req) = Inr (s, rid) \<and> file_target m req s rid)"
  by (auto simp: runningSlot_def validateIdentity_def getSlot_def file_refused_def file_target_def split: option.splits)

lemma onFile_cases:
  "(\<exists>e. onFile act req m w = (Inl e, w) \<and> file_refused e) \<or>
   (\<exists>s rid dirs. file_target m req s rid \<and> list_all plainDir dirs \<and>
      onFile act req m w = act (sandboxFSFor m s rid) (below DefaultFilesRoot dirs) w)"
proof (cases "ResolveUnderRoot DefaultFilesRoot (fr_Path req)")
  case (Inl e)
  then show ?thesis by (auto simp: onFile_def file_refused_def)
next
  case (Inr p)
  then obtain dirs where p: "p = below DefaultFilesRoot dirs" "list_all plainDir dirs"
    using resolve_walk [OF plain_app, of "fr_Path req", folded DefaultFilesRoot_app] walk_plain splitOn_parts
    by (auto split: if_splits option.splits)
  from runningSlot_cases [of m req] show ?thesis
  proof (elim disjE exE conjE)
    fix s rid
    assume "runningSlot m (fr_SlotID req) (fr_Identity req) = Inr (s, rid)" "file_target m req s rid"
    moreover from this have "onFile act req m w = act (sandboxFSFor m s rid) (below DefaultFilesRoot dirs) w"
      using Inr p(1) by (simp add: onFile_def)
    ultimately show ?thesis using p(2) by blast
  qed (use Inr in \<open>auto simp: onFile_def\<close>)
qed

text \<open>
  C32. A file operation touches the sandbox only for its owner and only below the root.  Each of the
  four operations either fails with an invalid request or an unknown Slot or Sandbox and leaves the
  world as it was, or the Slot runs the Sandbox with the caller's UID and the operation is one call
  of that Sandbox's file system on \<open>/app\<close> followed by plain names; a write also keeps the limit of
  1 MiB and names a file directly in \<open>/app\<close>.
\<close>

theorem file_access_confined:
  "((\<exists>e. ExistsSandboxFile req m w = (Inl e, w) \<and> file_refused e) \<or>
    (\<exists>s rid dirs. file_target m req s rid \<and> list_all plainDir dirs \<and>
      ExistsSandboxFile req m w = fs_Exists (sandboxFSFor m s rid) (below DefaultFilesRoot dirs) w)) \<and>
   ((\<exists>e. ListSandboxFiles req m w = (Inl e, w) \<and> file_refused e) \<or>
    (\<exists>s rid dirs. file_target m req s rid \<and> list_all plainDir dirs \<and>
      ListSandboxFiles req m w = fs_List (sandboxFSFor m s rid) (below DefaultFilesRoot dirs) w)) \<and>
   ((\<exists>e. ReadSandboxFile req m w = (Inl e, w) \<and> file_refused e) \<or>
    (\<exists>s rid dirs. file_target m req s rid \<and> list_all plainDir dirs \<and>
      ReadSandboxFile req m w = fs_Read (sandboxFSFor m s rid) (below DefaultFilesRoot dirs) w)) \<and>
   ((\<exists>e. WriteSandboxFile req content m w = (Some e, w) \<and> file_refused e) \<or>
    (\<exists>s rid. file_target m req s rid \<and> plainDir (fr_Path req) \<and> length content \<le> 1048576 \<and>
      WriteSandboxFile req content m w =
        fs_Write (sandboxFSFor m s rid) (below DefaultFilesRoot [fr_Path req]) content w))"
proof -
  have "(\<exists>e. WriteSandboxFile req content m w = (Some e, w) \<and> file_refused e) \<or>
    (\<exists>s rid. file_target m req s rid \<and> plainDir (fr_Path req) \<and> length content \<le> 1048576 \<and>
      WriteSandboxFile req content m w =
        fs_Write (sandboxFSFor m s rid) (below DefaultFilesRoot [fr_Path req]) content w)"
  proof (cases "ValidateWriteName (fr_Path req)")
    case None
    then have name: "plainDir (fr_Path req)" by (rule ValidateWriteName_plain)
    then have "Join [DefaultFilesRoot, fr_Path req] = below DefaultFilesRoot [fr_Path req]"
      using Join_below [OF _ _ plain_app, of "[fr_Path req]"] unfolding DefaultFilesRoot_app by simp
    note run = this None
    show ?thesis
    proof (cases "length content \<le> 1048576")
      case True
      from runningSlot_cases [of m req] show ?thesis
      proof (elim disjE exE conjE)
        fix s rid
        assume "runningSlot m (fr_SlotID req) (fr_Identity req) = Inr (s, rid)" "file_target m req s rid"
        moreover from this have "WriteSandboxFile req content m w =
            fs_Write (sandboxFSFor m s rid) (below DefaultFilesRoot [fr_Path req]) content w"
          using run True by (simp add: WriteSandboxFile_def MaxFileBytes_def)
        ultimately show ?thesis using name True by blast
      qed (use run True in \<open>auto simp: WriteSandboxFile_def MaxFileBytes_def\<close>)
    qed (use run in \<open>auto simp: WriteSandboxFile_def MaxFileBytes_def file_refused_def\<close>)
  qed (simp add: WriteSandboxFile_def file_refused_def)
  then show ?thesis
    unfolding ExistsSandboxFile_def ListSandboxFiles_def ReadSandboxFile_def by (intro conjI onFile_cases)
qed


subsection \<open>The shell transport\<close>

text \<open>A shell over a map of files, with a limit on the length of one argument.\<close>

definition shell1 :: "nat \<Rightarrow> (string, string) gomap exec_func" where
  "shell1 limit req w =
     (case eq_Command req of
        [_, _, script, _, p] \<Rightarrow>
          (case map_of w p of
             None \<Rightarrow> (Inr \<lparr>er_ExitCode = 1, er_Stdout = [], er_Stderr = ''no such file''\<rparr>, w)
           | Some d \<Rightarrow>
               (Inr \<lparr>er_ExitCode = 0, er_Stdout = EncodeToString d @ readMark @ Itoa (int (length d)) @ [newline], er_Stderr = []\<rparr>, w))
      | [_, _, script, _, p, enc, want] \<Rightarrow>
          if limit \<le> length enc then (Inl (External ''argument list too long''), w)
          else (case b64Decode enc of
             None \<Rightarrow> (Inr \<lparr>er_ExitCode = 1, er_Stdout = [], er_Stderr = ''invalid input''\<rparr>, w)
           | Some d \<Rightarrow>
               (Inr \<lparr>er_ExitCode = (if want = Itoa (int (length d)) then 0 else 1), er_Stdout = [], er_Stderr = []\<rparr>,
                gm_set p d w))
      | _ \<Rightarrow> (Inl (External ''unknown command''), w))"

lemma b64Groups_append: "length ns mod 3 = 0 \<Longrightarrow> b64Groups (ns @ ms) = b64Groups ns @ b64Groups ms"
proof (induction ns rule: b64Groups.induct)
  case (4 a b c r)
  then show ?case by (simp add: mod_Suc split: if_splits)
qed auto

lemma b64Groups_length: "length (b64Groups ns) = 4 * ((length ns + 2) div 3)"
proof (induction ns rule: b64Groups.induct)
  case (4 a b c r)
  then show ?case by simp presburger
qed auto

lemma EncodeToString_length: "length (EncodeToString s) = 4 * ((length s + 2) div 3)"
  by (simp add: EncodeToString_def b64Groups_length)

text \<open>
  C34. A file that is written through a shell is read back.  The shell is the sandbox's: the reading
  script prints the file in base64, broken into lines in any way, and the trailer with its size; the
  writing script decodes its argument into the file and fails when the size differs; one argument is
  shorter than a limit.  Then a content of at most 1 MiB whose encoding is below the limit is written
  without an error, nothing but this file changes, and reading it returns the content, an empty one too.
\<close>

theorem written_file_is_read_back:
  fixes exec :: "'w exec_func" and files :: "'w \<Rightarrow> string \<Rightarrow> string option"
  assumes shell_reads: "\<And>p d w. files w p = Some d \<Longrightarrow>
      \<exists>body err. filter (\<lambda>c. \<not> isNewline c) body = EncodeToString d \<and>
        exec \<lparr>eq_Command = [''sh'', ''-c'', readScript, ''read'', p], eq_Timeout = seconds 60\<rparr> w =
          (Inr \<lparr>er_ExitCode = 0, er_Stdout = body @ readMark @ Itoa (int (length d)) @ [newline], er_Stderr = err\<rparr>, w)"
    and shell_writes: "\<And>p enc d want w. length enc < limit \<Longrightarrow> b64Decode enc = Some d \<Longrightarrow>
      \<exists>out err w'. files w' = (files w)(p \<mapsto> d) \<and>
        exec \<lparr>eq_Command = [''sh'', ''-c'', writeScript, ''write'', p, enc, want], eq_Timeout = seconds 60\<rparr> w =
          (Inr \<lparr>er_ExitCode = (if want = Itoa (int (length d)) then 0 else 1), er_Stdout = out, er_Stderr = err\<rparr>, w')"
    and size: "length content \<le> 1048576" "4 * ((length content + 2) div 3) < limit"
  shows "\<exists>w'. WriteFileVia exec p content w = (None, w') \<and> files w' = (files w)(p \<mapsto> content) \<and>
    ReadFileVia exec p w' = (Inr content, w')"
proof -
  have dec: "b64Decode (EncodeToString content) = Some content"
    by (simp add: EncodeToString_def b64_roundtrip)
  obtain out err w' where w': "files w' = (files w)(p \<mapsto> content)"
    "exec \<lparr>eq_Command = [''sh'', ''-c'', writeScript, ''write'', p, EncodeToString content, Itoa (int (length content))],
       eq_Timeout = seconds 60\<rparr> w = (Inr \<lparr>er_ExitCode = 0, er_Stdout = out, er_Stderr = err\<rparr>, w')"
    using shell_writes [OF _ dec, where w = w and p = p and want = "Itoa (int (length content))"] size(2)
    by (auto simp: EncodeToString_length)
  have wrote: "WriteFileVia exec p content w = (None, w')"
    using size(1) w'(2) by (simp add: WriteFileVia_def MaxFileBytes_def)
  obtain body err' where body: "filter (\<lambda>c. \<not> isNewline c) body = EncodeToString content"
    "exec \<lparr>eq_Command = [''sh'', ''-c'', readScript, ''read'', p], eq_Timeout = seconds 60\<rparr> w' =
      (Inr \<lparr>er_ExitCode = 0, er_Stdout = body @ readMark @ Itoa (int (length content)) @ [newline], er_Stderr = err'\<rparr>, w')"
    using shell_reads [where w = w' and p = p and d = content] w'(1) by auto
  have "ReadFileVia exec p w' = (Inr content, w')"
    using decodeRead_output [OF body(1)] size(1) by (simp add: ReadFileVia_def body(2) MaxFileBytes_def)
  with wrote w'(1) show ?thesis by blast
qed

theorem written_file_is_read_back_witness:
  "\<exists>w'. WriteFileVia (shell1 131072) ''/app/x'' ''hello'' [] = (None, w') \<and>
     ReadFileVia (shell1 131072) ''/app/x'' w' = (Inr ''hello'', w')"
proof -
  have "\<exists>w'. WriteFileVia (shell1 131072) ''/app/x'' ''hello'' [] = (None, w') \<and> map_of w' = (map_of [])(''/app/x'' \<mapsto> ''hello'') \<and>
     ReadFileVia (shell1 131072) ''/app/x'' w' = (Inr ''hello'', w')"
  proof (rule written_file_is_read_back [where files = map_of and limit = 131072])
    fix p d and w :: "(string, string) gomap"
    assume "map_of w p = Some d"
    then show "\<exists>body err. filter (\<lambda>c. \<not> isNewline c) body = EncodeToString d \<and>
        shell1 131072 \<lparr>eq_Command = [''sh'', ''-c'', readScript, ''read'', p], eq_Timeout = seconds 60\<rparr> w =
          (Inr \<lparr>er_ExitCode = 0, er_Stdout = body @ readMark @ Itoa (int (length d)) @ [newline], er_Stderr = err\<rparr>, w)"
      by (intro exI [of _ "EncodeToString d"] exI [of _ "[]"]) (simp add: shell1_def)
  qed (auto simp: shell1_def)
  then show ?thesis by blast
qed

text \<open>
  What a successful read guarantees.  The content has at most 1 MiB, and it has the size of the
  trailer when there is one.  The trailer is not required, though: when the output of the script for
  a file \<open>a @ b\<close> ends early, after the encoding of \<open>a\<close>, the read succeeds and returns \<open>a\<close>.
\<close>

theorem read_checks_trailer_size:
  "(\<forall>d. decodeRead p out = Inr d \<longrightarrow> length d \<le> 1048576 \<and>
      (\<forall>before trailer. splitLast readMark out = Some (before, trailer) \<longrightarrow> 0 \<le> scanBytes (TrimSpace trailer) \<longrightarrow>
         int (length d) = scanBytes (TrimSpace trailer))) \<and>
   (a \<noteq> [] \<longrightarrow> length a mod 3 = 0 \<longrightarrow> length a \<le> 1048576 \<longrightarrow>
      (\<exists>rest. EncodeToString (a @ b) = EncodeToString a @ rest) \<and> decodeRead p (EncodeToString a) = Inr a)"
proof (intro conjI allI impI)
  show "length d \<le> 1048576" if "decodeRead p out = Inr d" for d
    using that by (auto simp: decodeRead_def Let_def MaxFileBytes_def split: option.splits if_splits sum.splits)
  show "int (length d) = scanBytes (TrimSpace trailer)" if "decodeRead p out = Inr d"
    "splitLast readMark out = Some (before, trailer)" "0 \<le> scanBytes (TrimSpace trailer)" for d before trailer
    using that by (auto simp: decodeRead_def Let_def split: if_splits sum.splits)
  assume a: "a \<noteq> []" "length a mod 3 = 0" "length a \<le> 1048576"
  show "\<exists>rest. EncodeToString (a @ b) = EncodeToString a @ rest"
    using b64Groups_append [of "map of_char a" "map of_char b"] a(2) by (simp add: EncodeToString_def)
  have "splitLast readMark (EncodeToString a) = None"
    by (rule splitLast_none [of "CHR ''_''"]) (use EncodeToString_plain in \<open>auto simp: readMark_def\<close>)
  moreover have "DecodeString (EncodeToString a) = Inr a"
    by (rule DecodeString_lines) simp
  ultimately show "decodeRead p (EncodeToString a) = Inr a"
    using a(1,3) by (simp add: decodeRead_def EncodeToString_empty MaxFileBytes_def)
qed

theorem read_checks_trailer_size_witness:
  "decodeRead ''/app/x'' (take 4 (EncodeToString ''abcdef'')) = Inr ''abc''"
proof -
  have "take 4 (EncodeToString ''abcdef'') = EncodeToString ''abc''" by code_simp
  then show ?thesis
    using read_checks_trailer_size [of "''/app/x''" "[]" "''abc''" "''def''"] by simp
qed


text \<open>
  The size of what a write puts into one argument of the command: four characters for every three
  bytes, rounded up, at most 1398104 for the permitted 1 MiB.  On a host that refuses an argument of
  131072 bytes or more, as Linux does, every write of 98302 bytes or more therefore fails, far
  below the limit the code checks, and smaller ones stay below it.
\<close>

theorem write_argument_size:
  assumes host_limit: "\<And>req w. (\<exists>a \<in> set (eq_Command req). 131072 \<le> length a) \<Longrightarrow> \<exists>e. exec req w = (Inl e, w)"
  shows "length (EncodeToString content) = 4 * ((length content + 2) div 3) \<and>
    (length content \<le> 1048576 \<longrightarrow> length (EncodeToString content) \<le> 1398104) \<and>
    (98302 \<le> length content \<longrightarrow> (\<exists>e. WriteFileVia exec p content w = (Some e, w))) \<and>
    (length content < 98302 \<longrightarrow> length (EncodeToString content) < 131072)"
proof -
  have "\<exists>e. WriteFileVia exec p content w = (Some e, w)" if "98302 \<le> length content"
  proof (cases "length content \<le> MaxFileBytes")
    case True
    let ?req = "\<lparr>eq_Command = [''sh'', ''-c'', writeScript, ''write'', p, EncodeToString content, Itoa (int (length content))],
      eq_Timeout = seconds 60\<rparr>"
    have "131072 \<le> length (EncodeToString content)"
      unfolding EncodeToString_length using that by presburger
    then have "\<exists>a \<in> set (eq_Command ?req). 131072 \<le> length a" by simp
    from host_limit [OF this, of w] obtain e where "exec ?req w = (Inl e, w)" by blast
    with True show ?thesis by (simp add: WriteFileVia_def)
  qed (simp add: WriteFileVia_def)
  moreover have "4 * ((n + 2) div 3) \<le> 1398104" if "n \<le> 1048576" for n :: nat using that by presburger
  moreover have "4 * ((n + 2) div 3) < 131072" if "n < 98302" for n :: nat using that by presburger
  ultimately show ?thesis
    unfolding EncodeToString_length by blast
qed

theorem write_argument_size_witness:
  "\<exists>e. WriteFileVia (\<lambda>req w. (if \<exists>a \<in> set (eq_Command req). 131072 \<le> length a then Inl (External ''E2BIG'')
        else Inr \<lparr>er_ExitCode = 0, er_Stdout = [], er_Stderr = []\<rparr>, w)) ''/app/x'' (replicate 100000 CHR ''x'') () = (Some e, ())"
  by (rule write_argument_size [THEN conjunct2, THEN conjunct2, THEN conjunct1, rule_format]) auto

end
