(* ===== verification/CriRuntime.thy ===== *)
theory CriRuntime
  imports RuntimeFiles
begin

text \<open>
  The container runtime behind the Worker, \<open>internal/runtime/cri/runtime.go\<close> and \<open>files.go\<close>.  A Sandbox
  is a CRI pod sandbox with one container; the labels of the pod carry the Slot and the identity, from
  which a restarted Worker rebuilds its state.  The CRI service, which is reached over gRPC, and the
  conversions of \<open>resource.Quantity\<close> are parameters; logging is not modelled.
\<close>

subsection \<open>The CRI service\<close>

record pod_sandbox_config =
  pg_Name :: string
  pg_Namespace :: string
  pg_Uid :: string
  pg_Labels :: "(string, string) gomap"

record pod_sandbox =
  pb_Id :: string
  pb_Labels :: "(string, string) gomap"

record linux_resources =
  lx_CpuShares :: int
  lx_CpuPeriod :: int
  lx_CpuQuota :: int
  lx_MemoryLimitInBytes :: int

record cri_container_config =
  ce_Name :: string
  ce_Image :: string
  ce_Command :: "string list"
  ce_Args :: "string list"
  ce_Envs :: "(string \<times> string) list"
  ce_Labels :: "(string, string) gomap"
  ce_Resources :: linux_resources

datatype container_state = CONTAINER_CREATED | CONTAINER_RUNNING | CONTAINER_EXITED | CONTAINER_UNKNOWN

record cri_container_status =
  ca_State :: container_state
  ca_ExitCode :: int
  ca_Message :: string

text \<open>
  The calls of the runtime and image services.  \<open>cv_IsNotFound\<close> is \<open>status.Code(err) == codes.NotFound\<close>,
  which looks through wrapped errors.
\<close>

record 'w cri_service =
  cv_PullImage :: "string \<Rightarrow> 'w \<Rightarrow> (go_error + string) \<times> 'w"
  cv_RunPodSandbox :: "pod_sandbox_config \<Rightarrow> string \<Rightarrow> 'w \<Rightarrow> (go_error + string) \<times> 'w"
  cv_StopPodSandbox :: "string \<Rightarrow> 'w \<Rightarrow> go_error option \<times> 'w"
  cv_RemovePodSandbox :: "string \<Rightarrow> 'w \<Rightarrow> go_error option \<times> 'w"
  cv_ListPodSandbox :: "(string, string) gomap \<Rightarrow> 'w \<Rightarrow> (go_error + pod_sandbox list) \<times> 'w"
  cv_CreateContainer :: "string \<Rightarrow> pod_sandbox_config \<Rightarrow> cri_container_config \<Rightarrow> 'w \<Rightarrow> (go_error + string) \<times> 'w"
  cv_StartContainer :: "string \<Rightarrow> 'w \<Rightarrow> go_error option \<times> 'w"
  cv_StopContainer :: "string \<Rightarrow> int \<Rightarrow> 'w \<Rightarrow> go_error option \<times> 'w"
  cv_RemoveContainer :: "string \<Rightarrow> 'w \<Rightarrow> go_error option \<times> 'w"
  cv_ListContainers :: "string \<Rightarrow> 'w \<Rightarrow> (go_error + string list) \<times> 'w"
  cv_ContainerStatus :: "string \<Rightarrow> 'w \<Rightarrow> (go_error + cri_container_status option) \<times> 'w"
  cv_ExecSync :: "string \<Rightarrow> string list \<Rightarrow> int \<Rightarrow> 'w \<Rightarrow> (go_error + (int \<times> string \<times> string)) \<times> 'w"
  cv_IsNotFound :: "go_error \<Rightarrow> bool"

subsection \<open>Configuration\<close>

definition labelSandboxUID :: string where "labelSandboxUID = ''sandboxfleet.io/sandbox-uid''"

definition labelSandboxNamespace :: string where "labelSandboxNamespace = ''sandboxfleet.io/sandbox-namespace''"

definition labelSandboxName :: string where "labelSandboxName = ''sandboxfleet.io/sandbox-name''"

definition labelWorker :: string where "labelWorker = ''sandboxfleet.io/worker''"

definition labelSlotID :: string where "labelSlotID = ''sandboxfleet.io/slot-id''"

record ('q, 'w) cri_config =
  cf_Endpoint :: string
  cf_WorkerName :: string
  cf_RuntimeHandler :: string
  cf_Resources :: "'q resource_requirements"
  cf_PreDelete :: "(string \<Rightarrow> 'w \<Rightarrow> 'w) option"

text \<open>
  \<open>cx_Backoff\<close> is the wait between two attempts: it fails when the context is done first.
  \<open>cx_MilliValue\<close> and \<open>cx_Value\<close> are the methods of \<open>resource.Quantity\<close>, of 64 bits.
\<close>

record ('q, 'w) cri_runtime =
  cx_Service :: "'w cri_service"
  cx_Config :: "('q, 'w) cri_config"
  cx_Backoff :: "'w \<Rightarrow> go_error option \<times> 'w"
  cx_MilliValue :: "'q \<Rightarrow> int"
  cx_Value :: "'q \<Rightarrow> int"

definition criNew ::
    "(string \<Rightarrow> go_error + 'w cri_service) \<Rightarrow> ('w \<Rightarrow> go_error option \<times> 'w) \<Rightarrow> ('q \<Rightarrow> int) \<Rightarrow> ('q \<Rightarrow> int) \<Rightarrow>
     ('q, 'w) cri_config \<Rightarrow> go_error + ('q, 'w) cri_runtime" where
  "criNew dial backoff milliValue quantityValue config =
     (if cf_Endpoint config = [] then Inl (Errorf ''CRI endpoint is required'' [])
      else case dial (cf_Endpoint config) of
        Inl e \<Rightarrow> Inl (Errorf ''connect to CRI endpoint: %w'' [FW e])
      | Inr service \<Rightarrow>
          Inr \<lparr>cx_Service = service, cx_Config = config, cx_Backoff = backoff,
               cx_MilliValue = milliValue, cx_Value = quantityValue\<rparr>)"

definition criIsNotFound :: "('q, 'w) cri_runtime \<Rightarrow> go_error \<Rightarrow> bool" where
  "criIsNotFound r e \<longleftrightarrow> errors_is RuntimeErrNotFound e \<or> cv_IsNotFound (cx_Service r) e"

subsection \<open>Resources and states\<close>

text \<open>The arithmetic is of 64 bits and the division truncates.\<close>

definition linuxResources :: "('q, 'w) cri_runtime \<Rightarrow> 'q resource_requirements \<Rightarrow> linux_resources" where
  "linuxResources r resources =
     (let shares = (case map_of (rr_Requests resources) ''cpu'' of
            None \<Rightarrow> 0
          | Some cpu \<Rightarrow> let shares = quot (wrap64 (cx_MilliValue r cpu * 1024)) 1000 in if shares < 2 then 2 else shares)
      in \<lparr>lx_CpuShares = shares,
          lx_CpuPeriod = (case map_of (rr_Limits resources) ''cpu'' of None \<Rightarrow> 0 | Some cpu \<Rightarrow> 100000),
          lx_CpuQuota = (case map_of (rr_Limits resources) ''cpu'' of
              None \<Rightarrow> 0 | Some cpu \<Rightarrow> quot (wrap64 (cx_MilliValue r cpu * 100000)) 1000),
          lx_MemoryLimitInBytes = (case map_of (rr_Limits resources) ''memory'' of
              None \<Rightarrow> 0 | Some memory \<Rightarrow> cx_Value r memory)\<rparr>)"

definition containerStatus :: "cri_container_status option \<Rightarrow> runtime_status" where
  "containerStatus current =
     (case current of
        None \<Rightarrow> \<lparr>rs_State = RtUnknown, rs_ExitCode = 0, rs_Message = []\<rparr>
      | Some c \<Rightarrow>
          \<lparr>rs_State = (case ca_State c of
               CONTAINER_CREATED \<Rightarrow> RtCreated | CONTAINER_RUNNING \<Rightarrow> RtRunning
             | CONTAINER_EXITED \<Rightarrow> RtStopped | CONTAINER_UNKNOWN \<Rightarrow> RtUnknown),
           rs_ExitCode = ca_ExitCode c, rs_Message = ca_Message c\<rparr>)"

subsection \<open>Creation\<close>

definition criLabels :: "string \<Rightarrow> 'q create_request \<Rightarrow> (string, string) gomap" where
  "criLabels worker req =
     [(labelSandboxUID, id_UID (re_Identity req)), (labelSandboxNamespace, id_Namespace (re_Identity req)),
      (labelSandboxName, id_Name (re_Identity req)), (labelWorker, worker), (labelSlotID, Itoa (re_SlotID req))]"

definition criPodConfig :: "string \<Rightarrow> 'q create_request \<Rightarrow> pod_sandbox_config" where
  "criPodConfig worker req =
     \<lparr>pg_Name = id_Name (re_Identity req), pg_Namespace = id_Namespace (re_Identity req),
      pg_Uid = id_UID (re_Identity req), pg_Labels = criLabels worker req\<rparr>"

definition criContainerConfig ::
    "('q, 'w) cri_runtime \<Rightarrow> 'q create_request \<Rightarrow> string \<Rightarrow> cri_container_config" where
  "criContainerConfig r req imageRef =
     (let imageReference = (if imageRef = [] then cc_Image (re_Container req) else imageRef);
          resources = (if rr_Requests (re_Resources req) = [] \<and> rr_Limits (re_Resources req) = []
                       then cf_Resources (cx_Config r) else re_Resources req)
      in \<lparr>ce_Name = id_Name (re_Identity req), ce_Image = imageReference,
          ce_Command = cc_Command (re_Container req), ce_Args = cc_Args (re_Container req),
          ce_Envs = map (\<lambda>v. (en_Name v, en_Value v)) (cc_Env (re_Container req)),
          ce_Labels = criLabels (cf_WorkerName (cx_Config r)) req, ce_Resources = linuxResources r resources\<rparr>)"

definition criCreate ::
    "('q, 'w) cri_runtime \<Rightarrow> 'q create_request \<Rightarrow> 'w \<Rightarrow> (go_error + runtime_id) \<times> 'w" where
  "criCreate r req w =
     (let sv = cx_Service r; (image, w) = cv_PullImage sv (cc_Image (re_Container req)) w in
      case image of
        Inl e \<Rightarrow> (Inl (Errorf ''pull image %q: %w'' [FS (cc_Image (re_Container req)), FW e]), w)
      | Inr imageRef \<Rightarrow>
          let podConfig = criPodConfig (cf_WorkerName (cx_Config r)) req;
              (pod, w) = cv_RunPodSandbox sv podConfig (cf_RuntimeHandler (cx_Config r)) w in
          (case pod of
             Inl e \<Rightarrow> (Inl (Errorf ''create pod sandbox: %w'' [FW e]), w)
           | Inr podID \<Rightarrow>
               let (created, w) = cv_CreateContainer sv podID podConfig (criContainerConfig r req imageRef) w in
               (case created of
                  Inl e \<Rightarrow>
                    let (_, w) = cv_StopPodSandbox sv podID w; (_, w) = cv_RemovePodSandbox sv podID w
                    in (Inl (Errorf ''create container: %w'' [FW e]), w)
                | Inr _ \<Rightarrow> (Inr podID, w))))"

subsection \<open>Containers of a pod\<close>

definition containerIDs :: "('q, 'w) cri_runtime \<Rightarrow> runtime_id \<Rightarrow> 'w \<Rightarrow> (go_error + string list) \<times> 'w" where
  "containerIDs r rid w =
     (let (listed, w) = cv_ListContainers (cx_Service r) rid w in
      case listed of
        Inl e \<Rightarrow> (Inl (Errorf ''list containers: %w'' [FW e]), w)
      | Inr ids \<Rightarrow>
          if ids = [] then (Inl (wrapf RuntimeErrNotFound ''%w: sandbox container'' []), w) else (Inr ids, w))"

definition PrimaryContainerID :: "('q, 'w) cri_runtime \<Rightarrow> runtime_id \<Rightarrow> 'w \<Rightarrow> (go_error + string) \<times> 'w" where
  "PrimaryContainerID r rid w =
     (let (ids, w) = containerIDs r rid w in
      case ids of Inl e \<Rightarrow> (Inl e, w) | Inr ids \<Rightarrow> (Inr (hd ids), w))"

fun startContainers :: "'w cri_service \<Rightarrow> string list \<Rightarrow> 'w \<Rightarrow> go_error option \<times> 'w" where
  "startContainers sv [] w = (None, w)"
| "startContainers sv (c # cs) w =
     (let (err, w) = cv_StartContainer sv c w in
      case err of Some e \<Rightarrow> (Some (Errorf ''start container: %w'' [FW e]), w) | None \<Rightarrow> startContainers sv cs w)"

definition criStart :: "('q, 'w) cri_runtime \<Rightarrow> runtime_id \<Rightarrow> 'w \<Rightarrow> go_error option \<times> 'w" where
  "criStart r rid w =
     (let (ids, w) = containerIDs r rid w in
      case ids of Inl e \<Rightarrow> (Some e, w) | Inr ids \<Rightarrow> startContainers (cx_Service r) ids w)"

text \<open>The error of a call that may find its object gone.\<close>

definition ignoreGone :: "('q, 'w) cri_runtime \<Rightarrow> go_error option \<Rightarrow> go_error option" where
  "ignoreGone r err = (case err of None \<Rightarrow> None | Some e \<Rightarrow> if criIsNotFound r e then None else Some e)"

fun stopContainers :: "('q, 'w) cri_runtime \<Rightarrow> string list \<Rightarrow> 'w \<Rightarrow> go_error option \<times> 'w" where
  "stopContainers r [] w = (None, w)"
| "stopContainers r (c # cs) w =
     (let (err, w) = cv_StopContainer (cx_Service r) c 10 w in
      case ignoreGone r err of
        Some e \<Rightarrow> (Some (Errorf ''stop container: %w'' [FW e]), w)
      | None \<Rightarrow> stopContainers r cs w)"

definition criStop :: "('q, 'w) cri_runtime \<Rightarrow> runtime_id \<Rightarrow> 'w \<Rightarrow> go_error option \<times> 'w" where
  "criStop r rid w =
     (let (ids, w) = containerIDs r rid w in
      case ids of
        Inl e \<Rightarrow> if criIsNotFound r e then (None, w) else (Some e, w)
      | Inr ids \<Rightarrow> stopContainers r ids w)"

subsection \<open>Deletion\<close>

fun removeContainers :: "('q, 'w) cri_runtime \<Rightarrow> string list \<Rightarrow> 'w \<Rightarrow> go_error option \<times> 'w" where
  "removeContainers r [] w = (None, w)"
| "removeContainers r (c # cs) w =
     (let (stopErr, w) = cv_StopContainer (cx_Service r) c 10 w in
      case ignoreGone r stopErr of
        Some e \<Rightarrow> (Some (Errorf ''stop container before removal: %w'' [FW e]), w)
      | None \<Rightarrow>
          let (err, w) = cv_RemoveContainer (cx_Service r) c w in
          (case ignoreGone r err of
             Some e \<Rightarrow> (Some (Errorf ''remove container: %w'' [FW e]), w)
           | None \<Rightarrow> removeContainers r cs w))"

definition preDelete :: "('q, 'w) cri_runtime \<Rightarrow> string \<Rightarrow> 'w \<Rightarrow> 'w" where
  "preDelete r pod w = (case cf_PreDelete (cx_Config r) of None \<Rightarrow> w | Some hook \<Rightarrow> hook pod w)"

definition podContainersGone :: "('q, 'w) cri_runtime \<Rightarrow> string \<Rightarrow> 'w \<Rightarrow> (go_error + bool) \<times> 'w" where
  "podContainersGone r pod w =
     (let (listed, w) = cv_ListContainers (cx_Service r) pod w in
      case listed of
        Inl e \<Rightarrow> if criIsNotFound r e then (Inr True, w) else (Inl e, w)
      | Inr ids \<Rightarrow> (Inr (ids = []), w))"

text \<open>
  The attempts to stop the pod: \<open>n\<close> more of them, the first without a wait.  The result is the error
  of the context, or the last error.
\<close>

fun stopAttempts ::
    "('q, 'w) cri_runtime \<Rightarrow> string \<Rightarrow> bool \<Rightarrow> nat \<Rightarrow> go_error option \<Rightarrow> 'w \<Rightarrow> (go_error + go_error option) \<times> 'w" where
  "stopAttempts r pod first 0 lastErr w = (Inr lastErr, w)"
| "stopAttempts r pod first (Suc n) lastErr w =
     (let (waited, w) = (if first then (None, w) else cx_Backoff r w) in
      case waited of
        Some e \<Rightarrow> (Inl e, w)
      | None \<Rightarrow>
          let w = (if first then w else preDelete r pod w);
              (err, w) = cv_StopPodSandbox (cx_Service r) pod w in
          (case ignoreGone r err of
             None \<Rightarrow> (Inr None, w)
           | Some e \<Rightarrow> stopAttempts r pod False n (Some e) w))"

definition teardownPodSandbox :: "('q, 'w) cri_runtime \<Rightarrow> string \<Rightarrow> 'w \<Rightarrow> go_error option \<times> 'w" where
  "teardownPodSandbox r pod w =
     (let (stopped, w) = stopAttempts r pod True 5 None w in
      case stopped of
        Inl e \<Rightarrow> (Some e, w)
      | Inr lastErr \<Rightarrow>
          let (remErr, w) = cv_RemovePodSandbox (cx_Service r) pod w in
          (case ignoreGone r remErr of
             None \<Rightarrow> (None, w)
           | Some e \<Rightarrow>
               let lastErr = (case lastErr of None \<Rightarrow> e | Some l \<Rightarrow> l); (gone, w) = podContainersGone r pod w in
               if gone = Inr True then (None, w)
               else (Some (Errorf ''stop/remove pod sandbox: %w'' [FW lastErr]), w)))"

definition criDelete :: "('q, 'w) cri_runtime \<Rightarrow> runtime_id \<Rightarrow> 'w \<Rightarrow> go_error option \<times> 'w" where
  "criDelete r rid w =
     (let (ids, w) = containerIDs r rid w in
      case (case ids of Inl e \<Rightarrow> if criIsNotFound r e then Inr [] else Inl e | Inr ids \<Rightarrow> Inr ids) of
        Inl e \<Rightarrow> (Some e, w)
      | Inr ids \<Rightarrow>
          let (err, w) = removeContainers r ids w in
          (case err of
             Some e \<Rightarrow> (Some e, w)
           | None \<Rightarrow> teardownPodSandbox r rid (preDelete r rid w)))"

subsection \<open>Status, listing and execution\<close>

definition criStatus :: "('q, 'w) cri_runtime \<Rightarrow> runtime_id \<Rightarrow> 'w \<Rightarrow> (go_error + runtime_status) \<times> 'w" where
  "criStatus r rid w =
     (let (ids, w) = containerIDs r rid w in
      case ids of
        Inl e \<Rightarrow> (Inl e, w)
      | Inr ids \<Rightarrow>
          let (response, w) = cv_ContainerStatus (cx_Service r) (hd ids) w in
          (case response of
             Inl e \<Rightarrow> (Inl (Errorf ''get container status: %w'' [FW e]), w)
           | Inr status \<Rightarrow> (Inr (containerStatus status), w)))"

fun listPods :: "('q, 'w) cri_runtime \<Rightarrow> pod_sandbox list \<Rightarrow> 'w \<Rightarrow> (go_error + runtime_info list) \<times> 'w" where
  "listPods r [] w = (Inr [], w)"
| "listPods r (item # items) w =
     (case ParseInt32 (gm_get0 [] (pb_Labels item) labelSlotID) of
        None \<Rightarrow> (Inl (Errorf ''runtime %q has invalid slot label: %w'' [FS (pb_Id item), FW (External ''invalid syntax'')]), w)
      | Some slotID \<Rightarrow>
          let (status, w) = criStatus r (pb_Id item) w;
              info = \<lparr>ri_ID = pb_Id item,
                ri_Identity = \<lparr>id_Namespace = gm_get0 [] (pb_Labels item) labelSandboxNamespace,
                  id_Name = gm_get0 [] (pb_Labels item) labelSandboxName,
                  id_UID = gm_get0 [] (pb_Labels item) labelSandboxUID\<rparr>,
                ri_SlotID = slotID,
                ri_Status = (case status of
                    Inl _ \<Rightarrow> \<lparr>rs_State = RtCreated, rs_ExitCode = 0, rs_Message = []\<rparr>
                  | Inr current \<Rightarrow> current)\<rparr>;
              (rest, w) = listPods r items w
          in (case rest of Inl e \<Rightarrow> (Inl e, w) | Inr infos \<Rightarrow> (Inr (info # infos), w)))"

definition criList :: "('q, 'w) cri_runtime \<Rightarrow> 'w \<Rightarrow> (go_error + runtime_info list) \<times> 'w" where
  "criList r w =
     (let (response, w) = cv_ListPodSandbox (cx_Service r) [(labelWorker, cf_WorkerName (cx_Config r))] w in
      case response of
        Inl e \<Rightarrow> (Inl (Errorf ''list pod sandboxes: %w'' [FW e]), w)
      | Inr items \<Rightarrow> listPods r items w)"

text \<open>The timeout of a command is in nanoseconds, that of the service in whole seconds.\<close>

definition criExec ::
    "('q, 'w) cri_runtime \<Rightarrow> runtime_id \<Rightarrow> exec_request \<Rightarrow> 'w \<Rightarrow> (go_error + exec_result) \<times> 'w" where
  "criExec r rid req w =
     (if eq_Command req = [] then (Inl (Errorf ''exec command is required'' []), w)
      else
        let (ids, w) = containerIDs r rid w in
        case ids of
          Inl e \<Rightarrow> (Inl e, w)
        | Inr ids \<Rightarrow>
            let timeout = (if eq_Timeout req \<le> 0 then 30 else eq_Timeout req div 1000000000);
                (response, w) = cv_ExecSync (cx_Service r) (hd ids) (eq_Command req) timeout w in
            (case response of
               Inl e \<Rightarrow> (Inl (Errorf ''exec in container: %w'' [FW e]), w)
             | Inr (exitCode, out, err) \<Rightarrow> (Inr \<lparr>er_ExitCode = exitCode, er_Stdout = out, er_Stderr = err\<rparr>, w)))"

definition criReadFile :: "('q, 'w) cri_runtime \<Rightarrow> runtime_id \<Rightarrow> string \<Rightarrow> 'w \<Rightarrow> (go_error + string) \<times> 'w" where
  "criReadFile r rid = ReadFileVia (criExec r rid)"

definition criWriteFile :: "('q, 'w) cri_runtime \<Rightarrow> runtime_id \<Rightarrow> string \<Rightarrow> string \<Rightarrow> 'w \<Rightarrow> go_error option \<times> 'w" where
  "criWriteFile r rid = WriteFileVia (criExec r rid)"

definition criListFiles ::
    "('q, 'w) cri_runtime \<Rightarrow> runtime_id \<Rightarrow> string \<Rightarrow> 'w \<Rightarrow> (go_error + sandbox_file_entry list) \<times> 'w" where
  "criListFiles r rid = ListFilesVia (criExec r rid)"

definition criFileExists :: "('q, 'w) cri_runtime \<Rightarrow> runtime_id \<Rightarrow> string \<Rightarrow> 'w \<Rightarrow> (go_error + bool) \<times> 'w" where
  "criFileExists r rid = FileExistsVia (criExec r rid)"

definition criRuntime :: "('q, 'w) cri_runtime \<Rightarrow> ('q, 'w) runtime_iface" where
  "criRuntime r =
     \<lparr>rt_Create = criCreate r, rt_Start = criStart r, rt_Stop = criStop r, rt_Delete = criDelete r,
      rt_Status = criStatus r, rt_List = criList r, rt_Exec = criExec r,
      rt_ReadFile = criReadFile r, rt_WriteFile = criWriteFile r, rt_ListFiles = criListFiles r,
      rt_FileExists = criFileExists r, rt_PrimaryContainerID = Some (PrimaryContainerID r)\<rparr>"

end
