(* ===== verification/CriProperties.thy ===== *)
theory CriProperties
  imports CriRuntime
begin

text \<open>
  The properties of the CRI runtime.  What the CRI service promises is stated as hypotheses on a view
  of its state, the labels of its pod sandboxes and their containers, in the words of the CRI
  documentation; an example service meets them.
\<close>

subsection \<open>An example service\<close>

record cri_world =
  ci_pods :: "(string, (string, string) gomap) gomap"
  ci_containers :: "(string, string list) gomap"
  ci_failCreate :: bool

definition ctrs :: "cri_world \<Rightarrow> string \<Rightarrow> string list" where
  "ctrs w pod = gm_get0 [] (ci_containers w) pod"

definition service1 :: "cri_world cri_service" where
  "service1 = \<lparr>cv_PullImage = \<lambda>img w. (Inr [], w),
     cv_RunPodSandbox = \<lambda>cfg h w. (Inr (pg_Uid cfg), w\<lparr>ci_pods := gm_set (pg_Uid cfg) (pg_Labels cfg) (ci_pods w)\<rparr>),
     cv_StopPodSandbox = \<lambda>pod w. (None, w),
     cv_RemovePodSandbox = \<lambda>pod w. (None, w\<lparr>ci_pods := gm_del pod (ci_pods w), ci_containers := gm_del pod (ci_containers w)\<rparr>),
     cv_ListPodSandbox = \<lambda>sel w. (Inr (map (\<lambda>(pod, labels). \<lparr>pb_Id = pod, pb_Labels = labels\<rparr>)
        (filter (\<lambda>(pod, labels). list_all (\<lambda>(k, v). map_of labels k = Some v) sel) (ci_pods w))), w),
     cv_CreateContainer = \<lambda>pod cfg c w.
       if ci_failCreate w then (Inl (External ''create''), w)
       else (Inr (pod @ ''-c''), w\<lparr>ci_containers := gm_set pod [pod @ ''-c''] (ci_containers w)\<rparr>),
     cv_StartContainer = \<lambda>c w. (None, w), cv_StopContainer = \<lambda>c t w. (None, w), cv_RemoveContainer = \<lambda>c w. (None, w),
     cv_ListContainers = \<lambda>pod w. (Inr (ctrs w pod), w),
     cv_ContainerStatus = \<lambda>c w. (Inr (Some \<lparr>ca_State = CONTAINER_RUNNING, ca_ExitCode = 0, ca_Message = []\<rparr>), w),
     cv_ExecSync = \<lambda>c cmd t w. (Inr (0, [], []), w), cv_IsNotFound = \<lambda>e. False\<rparr>"

definition cri1 :: "(int, cri_world) cri_runtime" where
  "cri1 = \<lparr>cx_Service = service1, cx_Config = \<lparr>cf_Endpoint = ''/run/cri.sock'', cf_WorkerName = ''w0'',
       cf_RuntimeHandler = ''runc'', cf_Resources = zero_resources, cf_PreDelete = None\<rparr>,
     cx_Backoff = \<lambda>w. (None, w), cx_MilliValue = \<lambda>q. q, cx_Value = \<lambda>q. q\<rparr>"

definition cri_world1 :: cri_world where
  "cri_world1 = \<lparr>ci_pods = [], ci_containers = [], ci_failCreate = False\<rparr>"

definition create1 :: "int create_request" where
  "create1 = \<lparr>re_Identity = \<lparr>id_Namespace = ''ns'', id_Name = ''box'', id_UID = ''u1''\<rparr>, re_SlotID = 7,
     re_Resources = zero_resources, re_Container = \<lparr>cc_Image = ''busybox'', cc_Command = [], cc_Args = [], cc_Env = []\<rparr>\<rparr>"

subsection \<open>Creation and listing\<close>

lemma criCreate_cases:
  assumes "criCreate r req w = (res, w')"
  obtains (pull) e e' where "res = Inl e" "cv_PullImage (cx_Service r) (cc_Image (re_Container req)) w = (Inl e', w')"
  | (run) e' w1 where "cv_RunPodSandbox (cx_Service r) (criPodConfig (cf_WorkerName (cx_Config r)) req) (cf_RuntimeHandler (cx_Config r)) w1 = (Inl e', w')"
      "\<exists>i. cv_PullImage (cx_Service r) (cc_Image (re_Container req)) w = (Inr i, w1)" "\<exists>e. res = Inl e"
  | (container) pod ref w1 w2 e w3 w4 e1 e2 where
      "cv_PullImage (cx_Service r) (cc_Image (re_Container req)) w = (Inr ref, w1)"
      "cv_RunPodSandbox (cx_Service r) (criPodConfig (cf_WorkerName (cx_Config r)) req) (cf_RuntimeHandler (cx_Config r)) w1 = (Inr pod, w2)"
      "cv_CreateContainer (cx_Service r) pod (criPodConfig (cf_WorkerName (cx_Config r)) req) (criContainerConfig r req ref) w2 = (Inl e, w3)"
      "cv_StopPodSandbox (cx_Service r) pod w3 = (e1, w4)" "cv_RemovePodSandbox (cx_Service r) pod w4 = (e2, w')"
      "res = Inl (Errorf ''create container: %w'' [FW e])"
  | (created) pod ref w1 w2 c where
      "cv_PullImage (cx_Service r) (cc_Image (re_Container req)) w = (Inr ref, w1)"
      "cv_RunPodSandbox (cx_Service r) (criPodConfig (cf_WorkerName (cx_Config r)) req) (cf_RuntimeHandler (cx_Config r)) w1 = (Inr pod, w2)"
      "cv_CreateContainer (cx_Service r) pod (criPodConfig (cf_WorkerName (cx_Config r)) req) (criContainerConfig r req ref) w2 = (Inr c, w')"
      "res = Inr pod"
  using assms by (auto simp: criCreate_def Let_def split: prod.splits sum.splits)

lemma listPods_member:
  assumes "listPods r items w = (Inr infos, w')" "item \<in> set items"
  shows "\<exists>info \<in> set infos. ri_ID info = pb_Id item \<and>
    ri_Identity info = \<lparr>id_Namespace = gm_get0 [] (pb_Labels item) labelSandboxNamespace,
      id_Name = gm_get0 [] (pb_Labels item) labelSandboxName, id_UID = gm_get0 [] (pb_Labels item) labelSandboxUID\<rparr> \<and>
    ParseInt32 (gm_get0 [] (pb_Labels item) labelSlotID) = Some (ri_SlotID info)"
  using assms
proof (induction items arbitrary: w infos w')
  case (Cons it items)
  obtain n where n: "ParseInt32 (gm_get0 [] (pb_Labels it) labelSlotID) = Some n"
    using Cons.prems(1) by (auto split: option.splits)
  obtain st w1 where st: "criStatus r (pb_Id it) w = (st, w1)"
    by (cases "criStatus r (pb_Id it) w")
  obtain rest info where rest: "listPods r items w1 = (Inr rest, w')" "infos = info # rest"
    using Cons.prems(1) n st by (auto split: prod.splits sum.splits)
  show ?case
  proof (cases "item = it")
    case True
    then show ?thesis
      using Cons.prems(1) n st rest by (auto split: prod.splits sum.splits)
  next
    case False
    with Cons.IH [OF rest(1)] Cons.prems(2) rest(2) show ?thesis by auto
  qed
qed simp

lemmas label_defs = labelSandboxUID_def labelSandboxNamespace_def labelSandboxName_def labelWorker_def labelSlotID_def

lemma criLabels_look:
  "map_of (criLabels worker req) labelSlotID = Some (Itoa (re_SlotID req))"
  "map_of (criLabels worker req) labelWorker = Some worker"
  "map_of (criLabels worker req) labelSandboxUID = Some (id_UID (re_Identity req))"
  "map_of (criLabels worker req) labelSandboxName = Some (id_Name (re_Identity req))"
  "map_of (criLabels worker req) labelSandboxNamespace = Some (id_Namespace (re_Identity req))"
  by (simp_all add: criLabels_def label_defs)

text \<open>
  C35. The labels carry a Sandbox through a restart of the Worker.  The service keeps the labels a pod
  was run with and lists the pods whose labels match a selector.  Then a Sandbox that was created is
  in every later successful listing, with its pod, its identity and its Slot.
\<close>

theorem created_sandbox_is_listed:
  fixes pods :: "'w \<Rightarrow> string \<Rightarrow> (string, string) gomap option"
  assumes run_law: "\<And>cfg h w pod w'. cv_RunPodSandbox (cx_Service r) cfg h w = (Inr pod, w') \<Longrightarrow>
      pods w' pod = Some (pg_Labels cfg)"
    and container_frame: "\<And>pod cfg c w res w'. cv_CreateContainer (cx_Service r) pod cfg c w = (res, w') \<Longrightarrow> pods w' = pods w"
    and list_law: "\<And>sel w items w' pod labels. cv_ListPodSandbox (cx_Service r) sel w = (Inr items, w') \<Longrightarrow>
      pods w pod = Some labels \<Longrightarrow> list_all (\<lambda>(k, v). map_of labels k = Some v) sel \<Longrightarrow>
      \<exists>item \<in> set items. pb_Id item = pod \<and> map_of (pb_Labels item) = map_of labels"
    and created: "criCreate r req w = (Inr pod, w1)" "int32_ok (re_SlotID req)"
    and later: "pods w2 pod = pods w1 pod" "criList r w2 = (Inr infos, w3)"
  shows "\<exists>info \<in> set infos. ri_ID info = pod \<and> ri_Identity info = re_Identity req \<and> ri_SlotID info = re_SlotID req"
proof -
  let ?labels = "criLabels (cf_WorkerName (cx_Config r)) req"
  have "pods w1 pod = Some ?labels"
    using created(1)
  proof (cases rule: criCreate_cases)
    case (created pod' ref w1' w2' c)
    then show ?thesis
      using run_law [OF created(2)] container_frame [OF created(3)] by (simp add: criPodConfig_def)
  qed auto
  with later(1) have pod: "pods w2 pod = Some ?labels" by simp
  obtain items w' where items: "cv_ListPodSandbox (cx_Service r) [(labelWorker, cf_WorkerName (cx_Config r))] w2 = (Inr items, w')"
    "listPods r items w' = (Inr infos, w3)"
    using later(2) by (auto simp: criList_def split: prod.splits sum.splits)
  have "\<exists>item \<in> set items. pb_Id item = pod \<and> map_of (pb_Labels item) = map_of ?labels"
    by (rule list_law [OF items(1) pod]) (simp add: criLabels_look)
  then obtain item where item: "item \<in> set items" "pb_Id item = pod" "map_of (pb_Labels item) = map_of ?labels"
    by blast
  have "ParseInt32 (Itoa (re_SlotID req)) = Some (re_SlotID req)"
    using created(2) by (rule ParseInt32_roundtrip)
  with listPods_member [OF items(2) item(1)] show ?thesis
    by (auto simp: gm_get0_def item(2,3) criLabels_look)
qed

theorem created_sandbox_is_listed_witness:
  "\<exists>pod w1 infos w3. criCreate cri1 create1 cri_world1 = (Inr pod, w1) \<and> criList cri1 w1 = (Inr infos, w3) \<and>
     (\<exists>info \<in> set infos. ri_ID info = pod \<and> ri_Identity info = re_Identity create1 \<and> ri_SlotID info = 7)"
proof -
  obtain pod w1 where create: "criCreate cri1 create1 cri_world1 = (Inr pod, w1)"
    by (simp add: criCreate_def cri1_def service1_def create1_def cri_world1_def Let_def)
  then have w1: "w1 = snd (criCreate cri1 create1 cri_world1)" by simp
  have "\<not> isl (fst (criList cri1 (snd (criCreate cri1 create1 cri_world1))))" by code_simp
  then obtain infos w3 where listing: "criList cri1 w1 = (Inr infos, w3)"
    unfolding w1 by (cases "criList cri1 (snd (criCreate cri1 create1 cri_world1))") (auto simp: isl_def, metis sum.exhaust)
  have slot: "re_SlotID create1 = 7" "int32_ok (re_SlotID create1)"
    by (simp_all add: create1_def int32_ok_def)
  have "\<exists>info \<in> set infos. ri_ID info = pod \<and> ri_Identity info = re_Identity create1 \<and> ri_SlotID info = re_SlotID create1"
    by (rule created_sandbox_is_listed [where pods = "\<lambda>w. map_of (ci_pods w)", OF _ _ _ create slot(2) refl listing])
      (auto simp: cri1_def service1_def split: if_splits dest!: map_of_SomeD)
  with create listing slot(1) show ?thesis by auto
qed


subsection \<open>Deletion\<close>

lemma podContainersGone_law:
  assumes "podContainersGone r pod w = (Inr True, w')"
    and "\<And>ids w w'. cv_ListContainers (cx_Service r) pod w = (Inr ids, w') \<Longrightarrow> ids = containers w' pod"
    and "\<And>e w w'. cv_ListContainers (cx_Service r) pod w = (Inl e, w') \<Longrightarrow> criIsNotFound r e \<Longrightarrow> containers w' pod = []"
  shows "containers w' pod = []"
  using assms by (auto simp: podContainersGone_def split: prod.splits sum.splits if_splits)

text \<open>
  C36. A deletion that reports success leaves no container of the Sandbox behind.  The service lists
  the containers a pod has, answers NotFound only for a pod it does not have, and a successful removal
  of the pod removes its containers.  \<open>Delete\<close> may ignore that the pod sandbox itself could not be
  stopped or removed, but then the service has listed no container after the attempts.
\<close>

theorem deleted_sandbox_has_no_containers:
  fixes containers :: "'w \<Rightarrow> string \<Rightarrow> string list"
  assumes list_law: "\<And>ids w w'. cv_ListContainers (cx_Service r) pod w = (Inr ids, w') \<Longrightarrow> ids = containers w' pod"
    and gone_law: "\<And>e w w'. cv_ListContainers (cx_Service r) pod w = (Inl e, w') \<Longrightarrow> criIsNotFound r e \<Longrightarrow> containers w' pod = []"
    and remove_law: "\<And>e w w'. cv_RemovePodSandbox (cx_Service r) pod w = (e, w') \<Longrightarrow> ignoreGone r e = None \<Longrightarrow> containers w' pod = []"
    and deleted: "criDelete r pod w = (None, w')"
  shows "containers w' pod = []"
proof -
  obtain w1 where "teardownPodSandbox r pod w1 = (None, w')"
    using deleted by (auto simp: criDelete_def Let_def split: prod.splits sum.splits option.splits if_splits)
  then consider e w2 where "cv_RemovePodSandbox (cx_Service r) pod w2 = (e, w')" "ignoreGone r e = None"
    | w2 where "podContainersGone r pod w2 = (Inr True, w')"
    by (auto simp: teardownPodSandbox_def Let_def split: prod.splits sum.splits option.splits if_splits)
  then show ?thesis
  proof cases
    case 1
    then show ?thesis by (rule remove_law)
  next
    case 2
    then show ?thesis by (rule podContainersGone_law) (fact list_law, fact gone_law)
  qed
qed

theorem deleted_sandbox_has_no_containers_witness:
  "\<exists>w'. criDelete cri1 ''u1'' (snd (criCreate cri1 create1 cri_world1)) = (None, w') \<and> ctrs w' ''u1'' = [] \<and>
     ctrs (snd (criCreate cri1 create1 cri_world1)) ''u1'' \<noteq> []"
proof -
  have "fst (criDelete cri1 ''u1'' (snd (criCreate cri1 create1 cri_world1))) = None"
    "ctrs (snd (criCreate cri1 create1 cri_world1)) ''u1'' \<noteq> []"
    by code_simp+
  moreover from this obtain w' where run: "criDelete cri1 ''u1'' (snd (criCreate cri1 create1 cri_world1)) = (None, w')"
    by (cases "criDelete cri1 ''u1'' (snd (criCreate cri1 create1 cri_world1))") auto
  moreover have "ctrs w' ''u1'' = []"
    by (rule deleted_sandbox_has_no_containers [where containers = ctrs, OF _ _ _ run])
      (auto simp: cri1_def service1_def ctrs_def gm_get0_def)
  ultimately show ?thesis by blast
qed

text \<open>
  C37. A creation that fails after the pod was run takes the pod down again.  When the container cannot
  be created the pod is stopped and removed, both on the pod that was run, and the error of the
  container is reported; if the removal succeeds the pod is gone.
\<close>

theorem failed_create_removes_pod:
  fixes pods :: "'w \<Rightarrow> string \<Rightarrow> (string, string) gomap option"
  assumes remove_law: "\<And>pod w w'. cv_RemovePodSandbox (cx_Service r) pod w = (None, w') \<Longrightarrow> pods w' pod = None"
    and pull: "cv_PullImage (cx_Service r) (cc_Image (re_Container req)) w = (Inr ref, w1)"
    and run: "cv_RunPodSandbox (cx_Service r) (criPodConfig (cf_WorkerName (cx_Config r)) req)
        (cf_RuntimeHandler (cx_Config r)) w1 = (Inr pod, w2)"
    and failed: "criCreate r req w = (Inl err, w')"
  shows "\<exists>e w3 stopErr w4 remErr.
    cv_CreateContainer (cx_Service r) pod (criPodConfig (cf_WorkerName (cx_Config r)) req) (criContainerConfig r req ref) w2 = (Inl e, w3) \<and>
    err = Errorf ''create container: %w'' [FW e] \<and>
    cv_StopPodSandbox (cx_Service r) pod w3 = (stopErr, w4) \<and> cv_RemovePodSandbox (cx_Service r) pod w4 = (remErr, w') \<and>
    (remErr = None \<longrightarrow> pods w' pod = None)"
  using failed
proof (cases rule: criCreate_cases)
  case (container pod' ref' w1' w2' e w3 w4 e1 e2)
  with pull run have same: "pod' = pod" "ref' = ref" "w2' = w2" by auto
  have "e2 = None \<longrightarrow> pods w' pod = None"
    using remove_law container(5) same(1) by blast
  with container(3-6) same show ?thesis by blast
qed (use pull run in auto)

theorem failed_create_removes_pod_witness:
  "\<exists>err w'. criCreate cri1 create1 (cri_world1\<lparr>ci_failCreate := True\<rparr>) = (Inl err, w') \<and> map_of (ci_pods w') ''u1'' = None"
proof -
  let ?w = "cri_world1\<lparr>ci_failCreate := True\<rparr>"
  have "isl (fst (criCreate cri1 create1 ?w))" by code_simp
  then obtain err w' where failed: "criCreate cri1 create1 ?w = (Inl err, w')"
    by (cases "criCreate cri1 create1 ?w") (auto simp: isl_def)
  have remove_law: "map_of (ci_pods w') pod = None" if "cv_RemovePodSandbox (cx_Service cri1) pod w = (None, w')" for pod w w'
    using that by (auto simp: cri1_def service1_def)
  have pull: "cv_PullImage (cx_Service cri1) (cc_Image (re_Container create1)) ?w = (Inr [], ?w)"
    by (simp add: cri1_def service1_def)
  have run: "cv_RunPodSandbox (cx_Service cri1) (criPodConfig (cf_WorkerName (cx_Config cri1)) create1) (cf_RuntimeHandler (cx_Config cri1)) ?w =
      (Inr ''u1'', ?w\<lparr>ci_pods := gm_set ''u1'' (criLabels ''w0'' create1) (ci_pods ?w)\<rparr>)"
    by (simp add: cri1_def service1_def criPodConfig_def create1_def)
  from failed_create_removes_pod [where pods = "\<lambda>w. map_of (ci_pods w)", OF remove_law pull run failed]
  have "map_of (ci_pods w') ''u1'' = None"
    by (auto simp: cri1_def service1_def)
  with failed show ?thesis by blast
qed

subsection \<open>Resources\<close>

text \<open>
  The resource limits of a container.  A CPU request of \<open>m\<close> milli-cores becomes \<open>m * 1024 / 1000\<close>
  shares, rounded down and at least 2, the minimum of the kernel; a CPU limit becomes 100 microseconds
  of each period of 100 milliseconds per milli-core; a memory limit is passed on; what is not set is 0.
  This holds for every request below \<open>2 ^ 53\<close> and every limit below \<open>9 * 10 ^ 13\<close> milli-cores, where the
  64-bit products do not wrap.
\<close>

theorem container_resources_exact:
  assumes "\<And>q. map_of (rr_Requests res) ''cpu'' = Some q \<Longrightarrow> 0 \<le> cx_MilliValue r q \<and> cx_MilliValue r q < 2 ^ 53"
    and "\<And>q. map_of (rr_Limits res) ''cpu'' = Some q \<Longrightarrow> 0 \<le> cx_MilliValue r q \<and> cx_MilliValue r q < 90000000000000"
  shows "lx_CpuShares (linuxResources r res) = (case map_of (rr_Requests res) ''cpu'' of None \<Rightarrow> 0
      | Some q \<Rightarrow> max 2 (cx_MilliValue r q * 1024 div 1000)) \<and>
    (lx_CpuPeriod (linuxResources r res), lx_CpuQuota (linuxResources r res)) =
      (case map_of (rr_Limits res) ''cpu'' of None \<Rightarrow> (0, 0) | Some q \<Rightarrow> (100000, cx_MilliValue r q * 100)) \<and>
    lx_MemoryLimitInBytes (linuxResources r res) = (case map_of (rr_Limits res) ''memory'' of None \<Rightarrow> 0 | Some q \<Rightarrow> cx_Value r q)"
  using assms by (auto simp: linuxResources_def Let_def wrap64_id quot_nonneg split: option.splits)

theorem container_resources_exact_witness:
  "lx_CpuShares (linuxResources cri1 \<lparr>rr_Requests = [(''cpu'', 250)], rr_Limits = [(''cpu'', 500), (''memory'', 536870912)]\<rparr>) = 256 \<and>
   lx_CpuQuota (linuxResources cri1 \<lparr>rr_Requests = [(''cpu'', 250)], rr_Limits = [(''cpu'', 500), (''memory'', 536870912)]\<rparr>) = 50000"
proof -
  let ?res = "\<lparr>rr_Requests = [(''cpu'', 250)], rr_Limits = [(''cpu'', 500), (''memory'', 536870912)]\<rparr> :: int resource_requirements"
  show ?thesis
    using container_resources_exact [where r = cri1 and res = ?res] by (simp add: cri1_def)
qed

end
