(* ===== verification/Sdk.thy ===== *)
theory Sdk
  imports HttpApi
begin

text \<open>
  The Go client library, \<open>clients/go/sandboxfleet\<close>: Sandboxes and snapshots are created, awaited and
  deleted through the Kubernetes API, an open session talks to the Worker directly.  The waiting loops
  may run forever, so they return an option; the wait between two polls is a parameter, in which the
  rest of the system makes progress and which fails when the caller's context ends.
\<close>

subsection \<open>The client\<close>

record create_options =
  co_Namespace :: string
  co_Name :: string
  co_PoolRef :: string
  co_SlotProfile :: string
  co_Container :: container_spec

record snapshot_options =
  ox_Namespace :: string
  ox_Name :: string
  ox_SourceSandbox :: string
  ox_Pool :: string

record fork_options =
  fo_ParentNamespace :: string
  fo_ParentName :: string
  fo_Count :: int
  fo_ChildNames :: "string list"
  fo_SnapshotName :: string
  fo_SlotProfile :: string

record fork_result =
  fk_Snapshot :: sandbox_snapshot
  fk_Children :: "sandbox list"

text \<open>
  The calls of the Kubernetes API and \<open>FindStatusCondition\<close> of \<open>meta\<close>.  A creation returns the object as
  the server filled it in.  \<open>sd_Reach\<close> is the \<open>WorkerReachability\<close>; its cleanup function is not
  modelled, the default one does nothing.
\<close>

record ('q, 'w) sdk_client =
  sd_GetSandbox :: "string \<Rightarrow> string \<Rightarrow> 'w \<Rightarrow> (go_error + sandbox) \<times> 'w"
  sd_GetSnapshot :: "string \<Rightarrow> string \<Rightarrow> 'w \<Rightarrow> (go_error + sandbox_snapshot) \<times> 'w"
  sd_FindStatusCondition :: "condition list \<Rightarrow> string \<Rightarrow> condition option"
  sd_CreateSandbox :: "sandbox \<Rightarrow> 'w \<Rightarrow> (go_error + sandbox) \<times> 'w"
  sd_DeleteSandbox :: "sandbox \<Rightarrow> 'w \<Rightarrow> go_error option \<times> 'w"
  sd_CreateSnapshot :: "sandbox_snapshot \<Rightarrow> 'w \<Rightarrow> (go_error + sandbox_snapshot) \<times> 'w"
  sd_DeleteSnapshot :: "sandbox_snapshot \<Rightarrow> 'w \<Rightarrow> go_error option \<times> 'w"
  sd_Worker :: "('q, 'w) transport"
  sd_Reach :: "string \<Rightarrow> string \<Rightarrow> int \<Rightarrow> 'w \<Rightarrow> (go_error + string) \<times> 'w"
  sd_Wait :: "'w \<Rightarrow> go_error option \<times> 'w"

definition defaultWorkerPort :: int where "defaultWorkerPort = 8090"

definition ReachWorker ::
    "(string \<Rightarrow> string \<Rightarrow> 'w \<Rightarrow> (go_error + 'q pod) \<times> 'w) \<Rightarrow> string \<Rightarrow> string \<Rightarrow> int \<Rightarrow> 'w \<Rightarrow> (go_error + string) \<times> 'w" where
  "ReachWorker getPod namespace workerName port w =
     (let (got, w) = getPod namespace workerName w in
      case got of
        Inl e \<Rightarrow> (Inl (Errorf ''get Worker Pod %q: %w'' [FS workerName, FW e]), w)
      | Inr p \<Rightarrow>
          if pd_PodIP p = [] then (Inl (Errorf ''Worker Pod %q has no IP'' [FS workerName]), w)
          else (Inr (''http://'' @ JoinHostPort (pd_PodIP p) (Itoa port)), w))"

subsection \<open>Sandboxes\<close>

definition newMeta :: "string \<Rightarrow> string \<Rightarrow> object_meta" where
  "newMeta ns name =
     \<lparr>om_Namespace = ns, om_Name = name, om_UID = [], om_Generation = 0, om_Finalizers = [], om_Deleting = False\<rparr>"

definition newSandbox :: "create_options \<Rightarrow> container_spec option \<Rightarrow> string \<Rightarrow> sandbox" where
  "newSandbox opts container fromSnapshot =
     \<lparr>sb_Meta = newMeta (co_Namespace opts) (co_Name opts),
      sb_Spec = \<lparr>sb_PoolRef = co_PoolRef opts, sb_SlotProfile = co_SlotProfile opts, sb_Container = container,
                 sb_FromSnapshot = fromSnapshot\<rparr>,
      sb_Status = \<lparr>ss_ObservedGeneration = 0, ss_Phase = PhaseUnset, ss_Assignment = None, ss_Conditions = []\<rparr>\<rparr>"

definition CreateSandbox ::
    "('q, 'w) sdk_client \<Rightarrow> create_options \<Rightarrow> 'w \<Rightarrow> (go_error + sandbox) \<times> 'w" where
  "CreateSandbox c opts w =
     (if co_Namespace opts = [] \<or> co_Name opts = [] \<or> co_PoolRef opts = [] \<or> co_SlotProfile opts = [] \<or>
         cs_Image (co_Container opts) = []
      then (Inl (Errorf ''namespace, name, poolRef, slotProfile, and container image are required'' []), w)
      else sd_CreateSandbox c (newSandbox opts (Some (co_Container opts)) []) w)"

definition sdkGetSandbox :: "('q, 'w) sdk_client \<Rightarrow> string \<Rightarrow> string \<Rightarrow> 'w \<Rightarrow> (go_error + sandbox) \<times> 'w" where
  "sdkGetSandbox c = sd_GetSandbox c"

definition SandboxFailedError :: "string \<Rightarrow> string \<Rightarrow> go_text \<Rightarrow> go_error" where
  "SandboxFailedError ns name message = Errorf ''Sandbox %s/%s failed: %s'' [FS ns, FS name, FT message]"

definition conditionMessage :: "('q, 'w) sdk_client \<Rightarrow> condition list \<Rightarrow> go_text" where
  "conditionMessage c conditions =
     (case sd_FindStatusCondition c conditions ConditionReady of
        None \<Rightarrow> Lit ''the controller could not make progress''
      | Some ready \<Rightarrow>
          if cn_Message ready = Lit [] then Lit ''the controller could not make progress'' else cn_Message ready)"

definition readyTrue :: "('q, 'w) sdk_client \<Rightarrow> condition list \<Rightarrow> bool" where
  "readyTrue c conditions =
     (case sd_FindStatusCondition c conditions ConditionReady of None \<Rightarrow> False | Some ready \<Rightarrow> cn_Status ready)"

text \<open>What one poll concludes from the Sandbox it read; \<open>None\<close> is to wait.\<close>

definition readyVerdict ::
    "('q, 'w) sdk_client \<Rightarrow> string \<Rightarrow> string \<Rightarrow> sandbox \<Rightarrow> (go_error + sandbox) option" where
  "readyVerdict c ns name s =
     (if ss_Phase (sb_Status s) = SandboxPhaseFailed
      then Some (Inl (SandboxFailedError ns name (conditionMessage c (ss_Conditions (sb_Status s)))))
      else case sd_FindStatusCondition c (ss_Conditions (sb_Status s)) ConditionReady of
        None \<Rightarrow> None
      | Some ready \<Rightarrow>
          if cn_Status ready then Some (Inr s)
          else if cn_Reason ready = ''RestoreFailed'' \<or> cn_Reason ready = ''StartFailed'' \<or> cn_Reason ready = ''InvalidSpec''
          then Some (Inl (SandboxFailedError ns name (cn_Message ready)))
          else None)"

partial_function (option) WaitSandboxReady ::
    "('q, 'w) sdk_client \<Rightarrow> string \<Rightarrow> string \<Rightarrow> 'w \<Rightarrow> ((go_error + sandbox) \<times> 'w) option" where
  "WaitSandboxReady c ns name w =
     (case sdkGetSandbox c ns name w of
        (Inl e, w) \<Rightarrow> Some (Inl e, w)
      | (Inr s, w) \<Rightarrow>
          (case readyVerdict c ns name s of
             Some verdict \<Rightarrow> Some (verdict, w)
           | None \<Rightarrow>
               (case sd_Wait c w of
                  (Some e, w) \<Rightarrow> Some (Inl e, w)
                | (None, w) \<Rightarrow> WaitSandboxReady c ns name w)))"

definition DeleteSandbox :: "('q, 'w) sdk_client \<Rightarrow> string \<Rightarrow> string \<Rightarrow> 'w \<Rightarrow> go_error option \<times> 'w" where
  "DeleteSandbox c ns name w =
     (let (got, w) = sdkGetSandbox c ns name w in
      case got of
        Inl e \<Rightarrow> (if isNotFound e then None else Some e, w)
      | Inr s \<Rightarrow> sd_DeleteSandbox c s w)"

partial_function (option) WaitSandboxDeleted ::
    "('q, 'w) sdk_client \<Rightarrow> string \<Rightarrow> string \<Rightarrow> 'w \<Rightarrow> (go_error option \<times> 'w) option" where
  "WaitSandboxDeleted c ns name w =
     (case sdkGetSandbox c ns name w of
        (Inl e, w) \<Rightarrow> Some (if isNotFound e then None else Some e, w)
      | (Inr s, w) \<Rightarrow>
          (case sd_Wait c w of
             (Some e, w) \<Rightarrow> Some (Some e, w)
           | (None, w) \<Rightarrow> WaitSandboxDeleted c ns name w))"

subsection \<open>Snapshots and forks\<close>

definition sdkGetSnapshot :: "('q, 'w) sdk_client \<Rightarrow> string \<Rightarrow> string \<Rightarrow> 'w \<Rightarrow> (go_error + sandbox_snapshot) \<times> 'w" where
  "sdkGetSnapshot c = sd_GetSnapshot c"

definition newSnapshot :: "snapshot_options \<Rightarrow> string \<Rightarrow> sandbox_snapshot" where
  "newSnapshot opts name =
     \<lparr>sn_Meta = newMeta (ox_Namespace opts) name,
      sn_Spec = \<lparr>sp_SourceSandbox = ox_SourceSandbox opts, sp_Pool = ox_Pool opts\<rparr>,
      sn_Status = \<lparr>st_ObservedGeneration = 0, st_Phase = SnapPhaseUnset, st_StoragePath = [], st_SnapshotFiles = [],
        st_Runtime = [], st_FormatVersion = [], st_SizeBytes = 0, st_SourceWorker = [], st_Message = Lit [],
        st_Conditions = []\<rparr>\<rparr>"

definition sdkCreateSnapshot ::
    "('q, 'w) sdk_client \<Rightarrow> snapshot_options \<Rightarrow> 'w \<Rightarrow> (go_error + sandbox_snapshot) \<times> 'w" where
  "sdkCreateSnapshot c opts w =
     (if ox_Namespace opts = [] \<or> ox_SourceSandbox opts = [] \<or> ox_Pool opts = []
      then (Inl (Errorf ''namespace, sourceSandbox, and pool are required'' []), w)
      else if ox_Name opts = [] then
        let (got, w) = sdkGetSandbox c (ox_Namespace opts) (ox_SourceSandbox opts) w in
        case got of
          Inl e \<Rightarrow> (Inl e, w)
        | Inr parent \<Rightarrow>
            sd_CreateSnapshot c
              (newSnapshot opts (ox_SourceSandbox opts @ ''-snap-'' @ take 8 (om_UID (sb_Meta parent)))) w
      else sd_CreateSnapshot c (newSnapshot opts (ox_Name opts)) w)"

definition snapVerdict ::
    "('q, 'w) sdk_client \<Rightarrow> string \<Rightarrow> string \<Rightarrow> sandbox_snapshot \<Rightarrow> (go_error + sandbox_snapshot) option" where
  "snapVerdict c ns name snap =
     (let st = sn_Status snap in
      if st_Phase st = SandboxSnapshotPhaseFailed
      then Some (Inl (Errorf ''SandboxSnapshot %s/%s failed: %s'' [FS ns, FS name, FT (st_Message st)]))
      else if st_Phase st = SandboxSnapshotPhaseReady \<and> readyTrue c (st_Conditions st)
      then Some (Inr snap) else None)"

partial_function (option) WaitSnapshotReady ::
    "('q, 'w) sdk_client \<Rightarrow> string \<Rightarrow> string \<Rightarrow> 'w \<Rightarrow> ((go_error + sandbox_snapshot) \<times> 'w) option" where
  "WaitSnapshotReady c ns name w =
     (case sdkGetSnapshot c ns name w of
        (Inl e, w) \<Rightarrow> Some (Inl e, w)
      | (Inr snap, w) \<Rightarrow>
          (case snapVerdict c ns name snap of
             Some verdict \<Rightarrow> Some (verdict, w)
           | None \<Rightarrow>
               (case sd_Wait c w of
                  (Some e, w) \<Rightarrow> Some (Inl e, w)
                | (None, w) \<Rightarrow> WaitSnapshotReady c ns name w)))"

definition DeleteSnapshot :: "('q, 'w) sdk_client \<Rightarrow> string \<Rightarrow> string \<Rightarrow> 'w \<Rightarrow> go_error option \<times> 'w" where
  "DeleteSnapshot c ns name w =
     (let (got, w) = sdkGetSnapshot c ns name w in
      case got of
        Inl e \<Rightarrow> (if isNotFound e then None else Some e, w)
      | Inr snap \<Rightarrow> sd_DeleteSnapshot c snap w)"

partial_function (option) WaitSnapshotDeleted ::
    "('q, 'w) sdk_client \<Rightarrow> string \<Rightarrow> string \<Rightarrow> 'w \<Rightarrow> (go_error option \<times> 'w) option" where
  "WaitSnapshotDeleted c ns name w =
     (case sdkGetSnapshot c ns name w of
        (Inl e, w) \<Rightarrow> Some (if isNotFound e then None else Some e, w)
      | (Inr snap, w) \<Rightarrow>
          (case sd_Wait c w of
             (Some e, w) \<Rightarrow> Some (Some e, w)
           | (None, w) \<Rightarrow> WaitSnapshotDeleted c ns name w))"

definition CreateSandboxFromSnapshot ::
    "('q, 'w) sdk_client \<Rightarrow> create_options \<Rightarrow> string \<Rightarrow> 'w \<Rightarrow> (go_error + sandbox) \<times> 'w" where
  "CreateSandboxFromSnapshot c opts snapshotName w =
     (if co_Namespace opts = [] \<or> co_Name opts = [] \<or> co_PoolRef opts = [] \<or> co_SlotProfile opts = [] \<or> snapshotName = []
      then (Inl (Errorf ''namespace, name, poolRef, slotProfile, and snapshotName are required'' []), w)
      else sd_CreateSandbox c (newSandbox opts None snapshotName) w)"

fun forkChildren ::
    "('q, 'w) sdk_client \<Rightarrow> create_options \<Rightarrow> string \<Rightarrow> string list \<Rightarrow> 'w \<Rightarrow> (go_error + sandbox list) \<times> 'w" where
  "forkChildren c opts snapshotName [] w = (Inr [], w)"
| "forkChildren c opts snapshotName (name # names) w =
     (let (child, w) = CreateSandboxFromSnapshot c (opts\<lparr>co_Name := name\<rparr>) snapshotName w in
      case child of
        Inl e \<Rightarrow> (Inl e, w)
      | Inr child \<Rightarrow>
          let (rest, w) = forkChildren c opts snapshotName names w in
          (case rest of Inl e \<Rightarrow> (Inl e, w) | Inr children \<Rightarrow> (Inr (child # children), w)))"

definition forkNames :: "fork_options \<Rightarrow> string list" where
  "forkNames opts =
     (if fo_ChildNames opts = []
      then map (\<lambda>i. fo_ParentName opts @ ''-fork-'' @ Itoa (int i)) [0 ..< nat (fo_Count opts)]
      else fo_ChildNames opts)"

text \<open>The part of \<open>Fork\<close> after the snapshot is ready.\<close>

definition forkFrom ::
    "('q, 'w) sdk_client \<Rightarrow> fork_options \<Rightarrow> sandbox \<Rightarrow> sandbox_snapshot \<Rightarrow> 'w \<Rightarrow> (go_error + fork_result) \<times> 'w" where
  "forkFrom c opts parent snap w =
     (let slotProfile = (if fo_SlotProfile opts = [] then sb_SlotProfile (sb_Spec parent) else fo_SlotProfile opts);
          names = forkNames opts
      in if int (length names) \<noteq> fo_Count opts
         then (Inl (Errorf ''childNames length must equal count'' []), w)
         else
           let (children, w) = forkChildren c
                 \<lparr>co_Namespace = fo_ParentNamespace opts, co_Name = [], co_PoolRef = sb_PoolRef (sb_Spec parent),
                  co_SlotProfile = slotProfile,
                  co_Container = \<lparr>cs_Image = [], cs_Command = [], cs_Args = [], cs_Env = []\<rparr>\<rparr>
                 (om_Name (sn_Meta snap)) names w
           in (case children of Inl e \<Rightarrow> (Inl e, w) | Inr cs \<Rightarrow> (Inr \<lparr>fk_Snapshot = snap, fk_Children = cs\<rparr>, w)))"

definition Fork :: "('q, 'w) sdk_client \<Rightarrow> fork_options \<Rightarrow> 'w \<Rightarrow> ((go_error + fork_result) \<times> 'w) option" where
  "Fork c opts w =
     (if fo_ParentNamespace opts = [] \<or> fo_ParentName opts = [] \<or> fo_Count opts < 1
      then Some (Inl (Errorf ''parentNamespace, parentName, and count>=1 are required'' []), w)
      else case WaitSandboxReady c (fo_ParentNamespace opts) (fo_ParentName opts) w of
        None \<Rightarrow> None
      | Some (Inl e, w) \<Rightarrow> Some (Inl e, w)
      | Some (Inr parent, w) \<Rightarrow>
          (case sdkCreateSnapshot c
                  \<lparr>ox_Namespace = fo_ParentNamespace opts, ox_Name = fo_SnapshotName opts,
                   ox_SourceSandbox = fo_ParentName opts, ox_Pool = sb_PoolRef (sb_Spec parent)\<rparr> w of
             (Inl e, w) \<Rightarrow> Some (Inl e, w)
           | (Inr snap, w) \<Rightarrow>
               (case WaitSnapshotReady c (om_Namespace (sn_Meta snap)) (om_Name (sn_Meta snap)) w of
                  None \<Rightarrow> None
                | Some (Inl e, w) \<Rightarrow> Some (Inl e, w)
                | Some (Inr snap, w) \<Rightarrow> Some (forkFrom c opts parent snap w))))"

subsection \<open>Sessions\<close>

text \<open>
  An open session: the Sandbox as read when it was opened, its assignment and the Worker's endpoint.
\<close>

record session =
  sv_Object :: sandbox
  sv_Assignment :: api_assignment
  sv_Endpoint :: string

definition phaseString :: "sandbox_phase \<Rightarrow> string" where
  "phaseString p =
     (case p of PhaseUnset \<Rightarrow> [] | SandboxPhasePending \<Rightarrow> ''Pending'' | SandboxPhaseStarting \<Rightarrow> ''Starting''
      | SandboxPhaseRunning \<Rightarrow> ''Running'' | SandboxPhaseStopping \<Rightarrow> ''Stopping'' | SandboxPhaseFailed \<Rightarrow> ''Failed'')"

definition OpenSandbox :: "('q, 'w) sdk_client \<Rightarrow> string \<Rightarrow> string \<Rightarrow> 'w \<Rightarrow> (go_error + session) \<times> 'w" where
  "OpenSandbox c ns name w =
     (let (got, w) = sdkGetSandbox c ns name w in
      case got of
        Inl e \<Rightarrow> (Inl e, w)
      | Inr s \<Rightarrow>
          (case ss_Assignment (sb_Status s) of
             None \<Rightarrow> (Inl (Errorf ''Sandbox %s/%s has no assignment'' [FS ns, FS name]), w)
           | Some a \<Rightarrow>
               if ss_Phase (sb_Status s) \<noteq> SandboxPhaseRunning
               then (Inl (Errorf ''Sandbox %s/%s is not Running (phase=%s)''
                       [FS ns, FS name, FS (phaseString (ss_Phase (sb_Status s)))]), w)
               else
                 let (endpoint, w) = sd_Reach c (om_Namespace (sb_Meta s)) (aa_Worker a) defaultWorkerPort w in
                 (case endpoint of
                    Inl e \<Rightarrow> (Inl e, w)
                  | Inr ep \<Rightarrow> (Inr \<lparr>sv_Object = s, sv_Assignment = a, sv_Endpoint = ep\<rparr>, w))))"

definition OpenSandboxReady :: "('q, 'w) sdk_client \<Rightarrow> string \<Rightarrow> string \<Rightarrow> 'w \<Rightarrow> ((go_error + session) \<times> 'w) option" where
  "OpenSandboxReady c ns name w =
     (case WaitSandboxReady c ns name w of
        None \<Rightarrow> None
      | Some (Inl e, w) \<Rightarrow> Some (Inl e, w)
      | Some (Inr _, w) \<Rightarrow> Some (OpenSandbox c ns name w))"

definition sessionIdentity :: "session \<Rightarrow> sandbox_identity" where
  "sessionIdentity s =
     \<lparr>id_Namespace = om_Namespace (sb_Meta (sv_Object s)), id_Name = om_Name (sb_Meta (sv_Object s)),
      id_UID = om_UID (sb_Meta (sv_Object s))\<rparr>"

definition sessionFile :: "session \<Rightarrow> string \<Rightarrow> sandbox_file_request" where
  "sessionFile s path = \<lparr>fr_SlotID = aa_SlotID (sv_Assignment s), fr_Identity = sessionIdentity s, fr_Path = path\<rparr>"

text \<open>A positive timeout, in nanoseconds, becomes whole seconds; 0 is the Worker's default.\<close>

definition sessionExec ::
    "('q, 'w) sdk_client \<Rightarrow> session \<Rightarrow> string list \<Rightarrow> int \<Rightarrow> 'w \<Rightarrow> (go_error + exec_sandbox_result) \<times> 'w" where
  "sessionExec c s command timeout w =
     (if command = [] then (Inl (Errorf ''command is required'' []), w)
      else
        let (res, w) = client_ExecSandbox (sd_Worker c) (sv_Endpoint s)
              \<lparr>xq_SlotID = aa_SlotID (sv_Assignment s), xq_Identity = sessionIdentity s, xq_Command = command,
               xq_TimeoutSeconds = (if timeout > 0 then timeout div 1000000000 else 0)\<rparr> w
        in case res of
             Inl e \<Rightarrow> (Inl (Errorf ''exec on Worker: %w'' [FW e]), w)
           | Inr r \<Rightarrow> (Inr \<lparr>xr_ExitCode = xr_ExitCode r, xr_Stdout = xr_Stdout r, xr_Stderr = xr_Stderr r\<rparr>, w))"

definition sessionWriteFile ::
    "('q, 'w) sdk_client \<Rightarrow> session \<Rightarrow> string \<Rightarrow> string \<Rightarrow> 'w \<Rightarrow> go_error option \<times> 'w" where
  "sessionWriteFile c s path content w =
     (let (err, w) = client_WriteSandboxFile (sd_Worker c) (sv_Endpoint s) (sessionFile s path) content w in
      (map_option (\<lambda>e. Errorf ''write on Worker: %w'' [FW e]) err, w))"

definition sessionReadFile ::
    "('q, 'w) sdk_client \<Rightarrow> session \<Rightarrow> string \<Rightarrow> 'w \<Rightarrow> (go_error + string) \<times> 'w" where
  "sessionReadFile c s path w =
     (let (res, w) = client_ReadSandboxFile (sd_Worker c) (sv_Endpoint s) (sessionFile s path) w in
      (map_sum (\<lambda>e. Errorf ''read on Worker: %w'' [FW e]) id res, w))"

definition sessionListFiles ::
    "('q, 'w) sdk_client \<Rightarrow> session \<Rightarrow> string \<Rightarrow> 'w \<Rightarrow> (go_error + sandbox_file_entry list) \<times> 'w" where
  "sessionListFiles c s path w =
     (let (res, w) = client_ListSandboxFiles (sd_Worker c) (sv_Endpoint s) (sessionFile s path) w in
      (map_sum (\<lambda>e. Errorf ''list on Worker: %w'' [FW e])
         (map (\<lambda>e. \<lparr>fe_Name = fe_Name e, fe_Type = fe_Type e\<rparr>)) res, w))"

definition sessionExistsFile ::
    "('q, 'w) sdk_client \<Rightarrow> session \<Rightarrow> string \<Rightarrow> 'w \<Rightarrow> (go_error + bool) \<times> 'w" where
  "sessionExistsFile c s path w =
     (let (res, w) = client_ExistsSandboxFile (sd_Worker c) (sv_Endpoint s) (sessionFile s path) w in
      (map_sum (\<lambda>e. Errorf ''exists on Worker: %w'' [FW e]) id res, w))"

end
