(* ===== verification/SdkProperties.thy ===== *)
theory SdkProperties
  imports Sdk ControlPlane
begin

text \<open>
  The properties of the client library: when its waiting loops return and with what, and what a fork creates.
\<close>

subsection \<open>Polling\<close>

text \<open>
  One turn of a waiting loop: \<open>Inl\<close> is what the loop returns, \<open>Inr\<close> the state the next turn starts in.  The
  four loops of the library are the iteration of such turns.
\<close>

partial_function (option) iter :: "('w \<Rightarrow> 'r + 'w) \<Rightarrow> 'w \<Rightarrow> 'r option" where
  "iter turn w = (case turn w of Inl r \<Rightarrow> Some r | Inr w' \<Rightarrow> iter turn w')"

declare iter.simps [code]

primrec turns :: "('w \<Rightarrow> 'r + 'w) \<Rightarrow> nat \<Rightarrow> 'w \<Rightarrow> 'r + 'w" where
  "turns turn 0 w = Inr w"
| "turns turn (Suc n) w = (case turns turn n w of Inl r \<Rightarrow> Inl r | Inr w' \<Rightarrow> turn w')"

lemma turns_Suc: "turns turn (Suc n) w = (case turn w of Inl r \<Rightarrow> Inl r | Inr w' \<Rightarrow> turns turn n w')"
  by (induction n) (auto split: sum.splits)

lemma iter_turns: "iter turn w = Some r \<longleftrightarrow> (\<exists>n. turns turn n w = Inl r)"
proof
  show "\<exists>n. turns turn n w = Inl r" if "iter turn w = Some r"
    using that
  proof (induction rule: iter.raw_induct [rotated 1, consumes 1, case_names step])
    case (step iter' turn w r)
    show ?case
    proof (cases "turn w")
      case (Inl r')
      with step(2) have "turns turn (Suc 0) w = Inl r" by simp
      then show ?thesis by blast
    next
      case (Inr w')
      with step(2) have "iter' turn w' = Some r" by simp
      from step(1) [OF this] obtain n where "turns turn n w' = Inl r" by blast
      with Inr have "turns turn (Suc n) w = Inl r" by (simp only: turns_Suc sum.case)
      then show ?thesis by blast
    qed
  qed
next
  assume "\<exists>n. turns turn n w = Inl r"
  then obtain n where "turns turn n w = Inl r" by blast
  then show "iter turn w = Some r"
  proof (induction n arbitrary: w)
    case (Suc n)
    then show ?case
      by (subst iter.simps) (auto simp: turns_Suc simp del: turns.simps split: sum.splits)
  qed simp
qed

lemma iter_returns:
  assumes "\<And>w w'. turn w = Inr w' \<Longrightarrow> d w' < (d w :: nat)"
  shows "\<exists>r. iter turn w = Some r"
proof (induction w rule: measure_induct_rule [of d])
  case (less w)
  then show ?case
    by (subst iter.simps) (auto split: sum.splits dest: assms)
qed

definition readyTurn ::
    "('q, 'w) sdk_client \<Rightarrow> string \<Rightarrow> string \<Rightarrow> 'w \<Rightarrow> ((go_error + sandbox) \<times> 'w) + 'w" where
  "readyTurn c ns name w =
     (case sdkGetSandbox c ns name w of
        (Inl e, w) \<Rightarrow> Inl (Inl e, w)
      | (Inr s, w) \<Rightarrow>
          (case readyVerdict c ns name s of
             Some verdict \<Rightarrow> Inl (verdict, w)
           | None \<Rightarrow> (case sd_Wait c w of (Some e, w) \<Rightarrow> Inl (Inl e, w) | (None, w) \<Rightarrow> Inr w)))"

lemma iter_readyTurn:
  "iter (readyTurn c ns name) w =
     (case sdkGetSandbox c ns name w of
        (Inl e, w) \<Rightarrow> Some (Inl e, w)
      | (Inr s, w) \<Rightarrow>
          (case readyVerdict c ns name s of
             Some verdict \<Rightarrow> Some (verdict, w)
           | None \<Rightarrow>
               (case sd_Wait c w of
                  (Some e, w) \<Rightarrow> Some (Inl e, w)
                | (None, w) \<Rightarrow> iter (readyTurn c ns name) w)))"
  by (subst iter.simps) (simp add: readyTurn_def split: prod.splits sum.splits option.splits)

lemma WaitSandboxReady_iter: "WaitSandboxReady c ns name w = iter (readyTurn c ns name) w"
proof -
  have "WaitSandboxReady c ns name w = Some r \<Longrightarrow> iter (readyTurn c ns name) w = Some r" for r
  proof (induction rule: WaitSandboxReady.raw_induct [rotated 1, consumes 1, case_names step])
    case (step loop c ns name w r)
    from step(2) show ?case
      by (subst iter_readyTurn) (auto split: prod.splits sum.splits option.splits dest: step(1))
  qed
  moreover have "turns (readyTurn c ns name) n w = Inl r \<Longrightarrow> WaitSandboxReady c ns name w = Some r" for r n
  proof (induction n arbitrary: w)
    case (Suc n)
    from Suc.prems show ?case
      by (subst WaitSandboxReady.simps)
        (auto simp: turns_Suc readyTurn_def simp del: turns.simps split: prod.splits sum.splits option.splits
          dest!: Suc.IH [unfolded readyTurn_def])
  qed simp
  ultimately show ?thesis
    by (metis iter_turns not_Some_eq)
qed


lemma turns_bound:
  assumes "\<And>w w'. turn w = Inr w' \<Longrightarrow> d w' < (d w :: nat)"
  shows "\<exists>n \<le> Suc (d w). \<exists>r. turns turn n w = Inl r"
proof (induction w rule: measure_induct_rule [of d])
  case (less w)
  show ?case
  proof (cases "turn w")
    case (Inl r)
    then have "turns turn (Suc 0) w = Inl r" by simp
    then show ?thesis by (intro exI [of _ "Suc 0"]) auto
  next
    case (Inr w')
    from less [OF assms [OF Inr]] obtain n r where "n \<le> Suc (d w')" "turns turn n w' = Inl r" by blast
    then have "turns turn (Suc n) w = Inl r" "Suc n \<le> Suc (d w)"
      using Inr assms [OF Inr] by (simp_all only: turns_Suc sum.case)
    then show ?thesis by blast
  qed
qed

lemma turns_result:
  "turns turn n w = Inl r \<Longrightarrow> \<exists>w'. turn w' = Inl r"
  by (induction n) (auto split: sum.splits)

subsection \<open>An example\<close>

text \<open>
  A client whose context allows a number of waits; during each the controllers make everything ready.
\<close>

type_synonym sdk_world = "nat \<times> int api_store"

definition ready_now :: "condition list \<Rightarrow> condition list" where
  "ready_now cs = setCondition cs \<lparr>cn_Type = ConditionReady, cn_Status = True, cn_Reason = ''Ready'', cn_Message = Lit [],
     cn_ObservedGeneration = 1\<rparr>"

definition progress :: "int api_store \<Rightarrow> int api_store" where
  "progress st = st\<lparr>
     ax_Sandboxes := map (\<lambda>(key, s). (key, s\<lparr>sb_Status := (sb_Status s)\<lparr>ss_Phase := SandboxPhaseRunning,
        ss_Conditions := ready_now (ss_Conditions (sb_Status s))\<rparr>\<rparr>)) (ax_Sandboxes st),
     ax_Snapshots := map (\<lambda>(key, s). (key, s\<lparr>sn_Status := (sn_Status s)\<lparr>st_Phase := SandboxSnapshotPhaseReady,
        st_Conditions := ready_now (st_Conditions (sn_Status s))\<rparr>\<rparr>)) (ax_Snapshots st)\<rparr>"

definition sdk1 :: "(int, sdk_world) sdk_client" where
  "sdk1 = \<lparr>
     sd_GetSandbox = \<lambda>ns n (d, st). (storeGet ax_Sandboxes ns n st, d, st),
     sd_GetSnapshot = \<lambda>ns n (d, st). (storeGet ax_Snapshots ns n st, d, st),
     sd_FindStatusCondition = \<lambda>cs ty. find (\<lambda>c. cn_Type c = ty) cs,
     sd_CreateSandbox = \<lambda>s (d, st). (Inr s, d, st\<lparr>ax_Sandboxes := gm_set (metaKey (sb_Meta s)) s (ax_Sandboxes st)\<rparr>),
     sd_DeleteSandbox = \<lambda>s (d, st). (None, d, st\<lparr>ax_Sandboxes := gm_del (metaKey (sb_Meta s)) (ax_Sandboxes st)\<rparr>),
     sd_CreateSnapshot = \<lambda>s (d, st). (Inr s, d, st\<lparr>ax_Snapshots := gm_set (metaKey (sn_Meta s)) s (ax_Snapshots st)\<rparr>),
     sd_DeleteSnapshot = \<lambda>s (d, st). (None, d, st\<lparr>ax_Snapshots := gm_del (metaKey (sn_Meta s)) (ax_Snapshots st)\<rparr>),
     sd_Worker = \<lambda>host req w. (Inl (External ''down''), w),
     sd_Reach = \<lambda>ns n port w. (Inr ''http://w0'', w),
     sd_Wait = \<lambda>(d, st). case d of 0 \<Rightarrow> (Some (External ''context deadline exceeded''), 0, st) | Suc d \<Rightarrow> (None, d, progress st)\<rparr>"

declare WaitSandboxReady.simps [code]
declare WaitSnapshotReady.simps [code]

definition sdk_parent :: sandbox where
  "sdk_parent = newSandbox \<lparr>co_Namespace = ''ns'', co_Name = ''p'', co_PoolRef = ''pool'', co_SlotProfile = ''small'',
     co_Container = \<lparr>cs_Image = ''busybox'', cs_Command = [], cs_Args = [], cs_Env = []\<rparr>\<rparr>
     (Some \<lparr>cs_Image = ''busybox'', cs_Command = [], cs_Args = [], cs_Env = []\<rparr>) []"

definition sdk_world1 :: sdk_world where
  "sdk_world1 = (3, \<lparr>ax_Sandboxes = [((''ns'', ''p''), sdk_parent)], ax_Snapshots = [], ax_Pools = [],
     ax_Pods = [], ax_Secrets = [], ax_Services = [], ax_StatefulSets = [], ax_Clock = 0\<rparr>)"

definition fork1 :: fork_options where
  "fork1 = \<lparr>fo_ParentNamespace = ''ns'', fo_ParentName = ''p'', fo_Count = 2, fo_ChildNames = [], fo_SnapshotName = [],
     fo_SlotProfile = []\<rparr>"

lemma sdk1_waits: "sd_Wait sdk1 w = (None, w') \<Longrightarrow> fst w' < fst w"
  by (auto simp: sdk1_def split: prod.splits nat.splits)

lemma sdk1_reads: "sdkGetSandbox sdk1 ns name w = (got, w') \<Longrightarrow> fst w' \<le> fst w"
  by (auto simp: sdk1_def sdkGetSandbox_def split: prod.splits)



subsection \<open>Forks\<close>

lemma forkNames_distinct: "fo_ChildNames opts = [] \<Longrightarrow> distinct (forkNames opts)"
  by (simp add: forkNames_def distinct_map inj_on_def Itoa_inj)

lemma forkChildren_made:
  assumes "forkChildren c opts snap names w = (Inr children, w')"
    and create_law: "\<And>s w s' w'. sd_CreateSandbox c s w = (Inr s', w') \<Longrightarrow>
      sb_Spec s' = sb_Spec s \<and> om_Namespace (sb_Meta s') = om_Namespace (sb_Meta s) \<and> om_Name (sb_Meta s') = om_Name (sb_Meta s)"
  shows "map (\<lambda>s. om_Name (sb_Meta s)) children = names \<and> (\<forall>s \<in> set children. om_Namespace (sb_Meta s) = co_Namespace opts \<and>
    sb_Spec s = \<lparr>sb_PoolRef = co_PoolRef opts, sb_SlotProfile = co_SlotProfile opts, sb_Container = None, sb_FromSnapshot = snap\<rparr>)"
  using assms(1)
proof (induction names arbitrary: w children)
  case (Cons name names)
  then obtain child w1 rest where child: "CreateSandboxFromSnapshot c (opts\<lparr>co_Name := name\<rparr>) snap w = (Inr child, w1)"
    "forkChildren c opts snap names w1 = (Inr rest, w')" "children = child # rest"
    by (auto split: prod.splits sum.splits)
  then have "sd_CreateSandbox c (newSandbox (opts\<lparr>co_Name := name\<rparr>) None snap) w = (Inr child, w1)"
    by (simp add: CreateSandboxFromSnapshot_def split: if_splits)
  from create_law [OF this] Cons.IH [OF child(2)] child(3) show ?case
    by (simp add: newSandbox_def newMeta_def)
qed simp

lemma snapTurn_ready: "snapVerdict c ns name snap = Some (Inr snap') \<Longrightarrow>
    snap' = snap \<and> st_Phase (sn_Status snap) = SandboxSnapshotPhaseReady"
  by (auto simp: snapVerdict_def Let_def split: if_splits)

lemma WaitSnapshotReady_ready:
  "WaitSnapshotReady c ns name w = Some r \<Longrightarrow> fst r = Inr snap \<Longrightarrow> st_Phase (sn_Status snap) = SandboxSnapshotPhaseReady"
proof (induction rule: WaitSnapshotReady.raw_induct [rotated 1, consumes 1, case_names step])
  case (step loop c ns name w r)
  obtain got w1 where got: "sdkGetSnapshot c ns name w = (got, w1)"
    by fastforce
  show ?case
  proof (cases got)
    case (Inr read)
    with step(2,3) got show ?thesis
      by (auto split: prod.splits option.splits dest: snapTurn_ready step(1))
  qed (use step(2,3) got in auto)
qed


text \<open>
  C39. What a fork makes.  The API server stores a Sandbox under its name with its specification.  Then a
  fork that succeeds has taken a snapshot that is Ready, and has created exactly the requested number of
  Sandboxes, with the requested names (or \<open>parent-fork-0\<close>, \<open>parent-fork-1\<close>, ..., which are
  distinct), in the parent's namespace and pool, each restoring from that snapshot and without a
  container of its own.
\<close>

theorem fork_creates_requested_children:
  assumes create_law: "\<And>s w s' w'. sd_CreateSandbox c s w = (Inr s', w') \<Longrightarrow>
      sb_Spec s' = sb_Spec s \<and> om_Namespace (sb_Meta s') = om_Namespace (sb_Meta s) \<and> om_Name (sb_Meta s') = om_Name (sb_Meta s)"
    and fork: "Fork c opts w = Some (Inr r, w')"
  shows "st_Phase (sn_Status (fk_Snapshot r)) = SandboxSnapshotPhaseReady \<and>
    int (length (fk_Children r)) = fo_Count opts \<and> 1 \<le> fo_Count opts \<and>
    map (\<lambda>s. om_Name (sb_Meta s)) (fk_Children r) = forkNames opts \<and>
    (fo_ChildNames opts = [] \<longrightarrow> distinct (forkNames opts)) \<and>
    (\<exists>parent w1. WaitSandboxReady c (fo_ParentNamespace opts) (fo_ParentName opts) w = Some (Inr parent, w1) \<and>
      (\<forall>s \<in> set (fk_Children r). om_Namespace (sb_Meta s) = fo_ParentNamespace opts \<and>
        sb_PoolRef (sb_Spec s) = sb_PoolRef (sb_Spec parent) \<and> sb_Container (sb_Spec s) = None \<and>
        sb_SlotProfile (sb_Spec s) = (if fo_SlotProfile opts = [] then sb_SlotProfile (sb_Spec parent) else fo_SlotProfile opts) \<and>
        sb_FromSnapshot (sb_Spec s) = om_Name (sn_Meta (fk_Snapshot r))))"
proof -
  have opts: "1 \<le> fo_Count opts"
    using fork by (auto simp: Fork_def split: if_splits)
  let ?snapOpts = "\<lambda>parent. \<lparr>ox_Namespace = fo_ParentNamespace opts, ox_Name = fo_SnapshotName opts,
      ox_SourceSandbox = fo_ParentName opts, ox_Pool = sb_PoolRef (sb_Spec parent)\<rparr>"
  have ok: "fo_ParentNamespace opts \<noteq> []" "fo_ParentName opts \<noteq> []" "\<not> fo_Count opts < 1"
    using fork by (auto simp: Fork_def split: if_splits)
  note fork = fork [unfolded Fork_def, simplified ok, simplified]
  obtain parent w1 where ready: "WaitSandboxReady c (fo_ParentNamespace opts) (fo_ParentName opts) w = Some (Inr parent, w1)"
    using fork by (auto split: option.splits sum.splits)
  note fork = fork [unfolded ready, simplified]
  obtain snap0 w2 where create: "sdkCreateSnapshot c (?snapOpts parent) w1 = (Inr snap0, w2)"
    using fork by (auto split: prod.splits sum.splits)
  note fork = fork [unfolded create, simplified]
  obtain snap w3 where snapped: "WaitSnapshotReady c (om_Namespace (sn_Meta snap0)) (om_Name (sn_Meta snap0)) w2 = Some (Inr snap, w3)"
    using fork by (auto split: option.splits sum.splits)
  note run = ready snapped fork [unfolded snapped, simplified]
  from run(3) have names: "int (length (forkNames opts)) = fo_Count opts" and snap: "fk_Snapshot r = snap"
    and made: "forkChildren c \<lparr>co_Namespace = fo_ParentNamespace opts, co_Name = [], co_PoolRef = sb_PoolRef (sb_Spec parent),
        co_SlotProfile = (if fo_SlotProfile opts = [] then sb_SlotProfile (sb_Spec parent) else fo_SlotProfile opts),
        co_Container = \<lparr>cs_Image = [], cs_Command = [], cs_Args = [], cs_Env = []\<rparr>\<rparr>
        (om_Name (sn_Meta snap)) (forkNames opts) w3 = (Inr (fk_Children r), w')"
    by (auto simp: forkFrom_def Let_def split: if_splits prod.splits sum.splits)
  have children: "map (\<lambda>s. om_Name (sb_Meta s)) (fk_Children r) = forkNames opts"
    "\<forall>s \<in> set (fk_Children r). om_Namespace (sb_Meta s) = fo_ParentNamespace opts \<and>
        sb_PoolRef (sb_Spec s) = sb_PoolRef (sb_Spec parent) \<and> sb_Container (sb_Spec s) = None \<and>
        sb_SlotProfile (sb_Spec s) = (if fo_SlotProfile opts = [] then sb_SlotProfile (sb_Spec parent) else fo_SlotProfile opts) \<and>
        sb_FromSnapshot (sb_Spec s) = om_Name (sn_Meta snap)"
    using forkChildren_made [OF made create_law] by simp_all
  have "int (length (fk_Children r)) = fo_Count opts"
    using names arg_cong [OF children(1), of length] by simp
  with WaitSnapshotReady_ready [OF run(2), of snap] run(1) opts children forkNames_distinct snap show ?thesis
    by (auto simp del: map_eq_conv)
qed

theorem fork_creates_requested_children_witness:
  "\<exists>r w'. Fork sdk1 fork1 sdk_world1 = Some (Inr r, w') \<and> length (fk_Children r) = 2 \<and>
     map (\<lambda>s. om_Name (sb_Meta s)) (fk_Children r) = [''p-fork-0'', ''p-fork-1'']"
proof -
  have "case Fork sdk1 fork1 sdk_world1 of Some (Inr r, _) \<Rightarrow> True | _ \<Rightarrow> False"
    by code_simp
  then obtain r w' where run: "Fork sdk1 fork1 sdk_world1 = Some (Inr r, w')"
    by (auto split: option.splits sum.splits)
  have create: "sd_CreateSandbox sdk1 s w = (Inr s', w') \<Longrightarrow>
      sb_Spec s' = sb_Spec s \<and> om_Namespace (sb_Meta s') = om_Namespace (sb_Meta s) \<and> om_Name (sb_Meta s') = om_Name (sb_Meta s)"
    for s s' w w'
    by (auto simp: sdk1_def split: prod.splits)
  have "forkNames fork1 = [''p-fork-0'', ''p-fork-1'']" "fo_Count fork1 = 2"
    by code_simp+
  with fork_creates_requested_children [OF create run] run show ?thesis
    by (intro exI [of _ r] exI [of _ w']) (simp del: map_eq_conv)
qed

end
