(* ===== verification/GoText.thy ===== *)
theory GoText
  imports GoErrors GoStrings
begin

text \<open>
  The text of errors, for the code that looks into it, and a few more functions of Go's \<open>strings\<close>
  package.
\<close>

subsection \<open>The text of an error\<close>

fun sentinelText :: "sentinel \<Rightarrow> string" where
  "sentinelText ErrNoCapacity = ''no available slot''"
| "sentinelText ErrAssignmentConflict = ''assignment conflicts with slot ownership''"
| "sentinelText ErrInvalidSlotProfile = ''invalid slot profile''"
| "sentinelText ErrNoStrategyCandidate = ''strategy returned no candidate''"
| "sentinelText ErrInvalidRequest = ''invalid request''"
| "sentinelText ErrSlotNotFound = ''slot not found''"
| "sentinelText ErrSandboxNotFound = ''sandbox not found''"
| "sentinelText ErrSlotConflict = ''slot belongs to another sandbox''"
| "sentinelText ErrSlotConfigInvalid = ''slot config update rejected''"
| "sentinelText ErrSnapshotLoad = ''snapshot load failed''"
| "sentinelText RuntimeErrNotFound = ''runtime object not found''"

text \<open>
  The verbs of \<open>fmt\<close> the errors use; \<open>%q\<close> is written out for printable text, where only the quote and
  the backslash are escaped.
\<close>

definition quoteText :: "string \<Rightarrow> string" where
  "quoteText s =
     [CHR 0x22] @ concat (map (\<lambda>c. if c = CHR 0x22 \<or> c = CHR 0x5C then [CHR 0x5C, c] else [c]) s) @ [CHR 0x22]"

fun formatVerbs :: "string \<Rightarrow> string list \<Rightarrow> string" where
  "formatVerbs [] args = []"
| "formatVerbs [c] args = [c]"
| "formatVerbs (c # v # s) args =
     (if c \<noteq> CHR ''%'' then c # formatVerbs (v # s) args
      else if v = CHR ''%'' then CHR ''%'' # formatVerbs s args
      else case args of
        [] \<Rightarrow> c # v # formatVerbs s args
      | a # args' \<Rightarrow> (if v = CHR ''q'' then quoteText a else a) @ formatVerbs s args')"

fun errorText :: "go_error \<Rightarrow> string"
and argText :: "farg \<Rightarrow> string"
and goText :: "go_text \<Rightarrow> string" where
  "errorText (Sentinel s) = sentinelText s"
| "errorText (Errorf fmt args) = formatVerbs fmt (map argText args)"
| "errorText (HttpError status code message) =
     formatVerbs ''worker API %s (%d): %s'' [code, Itoa status, goText message]"
| "errorText (ApiNotFound s) = s"
| "errorText (External s) = s"
| "argText (FS s) = s"
| "argText (FD i) = Itoa i"
| "argText (FW e) = errorText e"
| "argText (FV e) = errorText e"
| "argText (FT t) = goText t"
| "goText (Lit s) = s"
| "goText (Sprintf fmt args) = formatVerbs fmt (map argText args)"
| "goText (JoinText ts sep) = joinWith sep (map goText ts)"
| "goText (ErrText e) = errorText e"

subsection \<open>Splitting and replacing\<close>

text \<open>\<open>strings.Fields\<close> and \<open>strings.CutPrefix\<close>.\<close>

function fieldsFrom :: "string \<Rightarrow> string \<Rightarrow> string list" where
  "fieldsFrom cur s =
     (if s = [] then (if cur = [] then [] else [cur])
      else case find (\<lambda>p. p \<noteq> [] \<and> HasPrefix s p) whiteSpaces of
        None \<Rightarrow> fieldsFrom (cur @ [hd s]) (tl s)
      | Some p \<Rightarrow> (if cur = [] then [] else [cur]) @ fieldsFrom [] (drop (length p) s))"
  by pat_completeness auto
termination
proof (relation "measure (\<lambda>(cur, s). length s)")
  fix cur s :: string and p
  assume "s \<noteq> []" "find (\<lambda>p. p \<noteq> [] \<and> HasPrefix s p) whiteSpaces = Some p"
  then have "p \<noteq> []" by (auto simp: find_Some_iff)
  with \<open>s \<noteq> []\<close> show "(([], drop (length p) s), (cur, s)) \<in> measure (\<lambda>(cur, s). length s)"
    by (cases s) auto
qed auto

declare fieldsFrom.simps [simp del]

definition Fields :: "string \<Rightarrow> string list" where
  "Fields s = fieldsFrom [] s"

definition CutPrefix :: "string \<Rightarrow> string \<Rightarrow> string option" where
  "CutPrefix s p = (if HasPrefix s p then Some (drop (length p) s) else None)"

definition lines :: "string \<Rightarrow> string list" where
  "lines s = splitOn (CHR 0x0A) (TrimSpace s)"

text \<open>\<open>strings.ReplaceAll\<close> of a single byte.\<close>

definition ReplaceByte :: "char \<Rightarrow> string \<Rightarrow> string \<Rightarrow> string" where
  "ReplaceByte c r s = concat (map (\<lambda>x. if x = c then r else [x]) s)"

end
