(* ===== verification/LinuxHost.thy ===== *)
theory LinuxHost
  imports Snapshotters GoText
begin

text \<open>
  The Linux host the snapshotters act on: the system calls and programs they use, as a record of
  functions on the outside world, and the control groups of the Worker (\<open>cgroup_linux.go\<close>).
\<close>

subsection \<open>The host\<close>

text \<open>
  \<open>lx_CombinedOutput\<close> runs a program and gives what it printed, \<open>lx_RunStderr\<close> only its standard error;
  \<open>lx_RunLogged\<close> sends the output to a file, if there is one, and \<open>lx_RunTimed\<close> to two files, with a deadline
  in nanoseconds.  \<open>lx_LeaveNetNS\<close> goes back to the original network namespace, where a failure would be a
  panic.  \<open>lx_ReadDir\<close> says which entries are directories, \<open>lx_Stat\<close> whether a path is a regular file,
  \<open>lx_ExitCode\<close> which errors of a program are an \<open>exec.ExitError\<close>.  An error of the host is \<open>External\<close> with its text.
\<close>

record 'w linux =
  lx_Mkdir :: "string \<Rightarrow> 'w \<Rightarrow> go_error option \<times> 'w"
  lx_MkdirAll :: "string \<Rightarrow> 'w \<Rightarrow> go_error option \<times> 'w"
  lx_Remove :: "string \<Rightarrow> 'w \<Rightarrow> go_error option \<times> 'w"
  lx_RemoveAll :: "string \<Rightarrow> 'w \<Rightarrow> go_error option \<times> 'w"
  lx_Rename :: "string \<Rightarrow> string \<Rightarrow> 'w \<Rightarrow> go_error option \<times> 'w"
  lx_WriteFile :: "string \<Rightarrow> string \<Rightarrow> 'w \<Rightarrow> go_error option \<times> 'w"
  lx_ReadFile :: "string \<Rightarrow> 'w \<Rightarrow> (go_error + string) \<times> 'w"
  lx_ReadDir :: "string \<Rightarrow> 'w \<Rightarrow> (go_error + (string \<times> bool) list) \<times> 'w"
  lx_Stat :: "string \<Rightarrow> 'w \<Rightarrow> (go_error + bool) \<times> 'w"
  lx_CreateTemp :: "string \<Rightarrow> 'w \<Rightarrow> (go_error + string) \<times> 'w"
  lx_OpenLog :: "string \<Rightarrow> 'w \<Rightarrow> go_error option \<times> 'w"
  lx_CombinedOutput :: "string list \<Rightarrow> 'w \<Rightarrow> (go_error option \<times> string) \<times> 'w"
  lx_RunStderr :: "string list \<Rightarrow> 'w \<Rightarrow> (go_error option \<times> string) \<times> 'w"
  lx_RunLogged :: "string list \<Rightarrow> string option \<Rightarrow> 'w \<Rightarrow> go_error option \<times> 'w"
  lx_RunTimed :: "string list \<Rightarrow> int \<Rightarrow> string \<Rightarrow> string \<Rightarrow> 'w \<Rightarrow> go_error option \<times> 'w"
  lx_OpenNetNS :: "string \<Rightarrow> 'w \<Rightarrow> go_error option \<times> 'w"
  lx_OpenOwnNetNS :: "'w \<Rightarrow> go_error option \<times> 'w"
  lx_SetNetNS :: "string \<Rightarrow> 'w \<Rightarrow> go_error option \<times> 'w"
  lx_LeaveNetNS :: "'w \<Rightarrow> 'w"
  lx_IsCgroup2 :: "string \<Rightarrow> 'w \<Rightarrow> bool \<times> 'w"
  lx_MountBind :: "string \<Rightarrow> string \<Rightarrow> 'w \<Rightarrow> go_error option \<times> 'w"
  lx_RemountBind :: "string \<Rightarrow> 'w \<Rightarrow> go_error option \<times> 'w"
  lx_MountOverlay :: "string \<Rightarrow> string \<Rightarrow> 'w \<Rightarrow> go_error option \<times> 'w"
  lx_UnmountDetach :: "string \<Rightarrow> 'w \<Rightarrow> go_error option \<times> 'w"
  lx_Fsopen :: "'w \<Rightarrow> (go_error + int) \<times> 'w"
  lx_FsconfigSetString :: "int \<Rightarrow> string \<Rightarrow> string \<Rightarrow> 'w \<Rightarrow> go_error option \<times> 'w"
  lx_FsconfigCreate :: "int \<Rightarrow> 'w \<Rightarrow> go_error option \<times> 'w"
  lx_Fsmount :: "int \<Rightarrow> 'w \<Rightarrow> (go_error + int) \<times> 'w"
  lx_MoveMount :: "int \<Rightarrow> string \<Rightarrow> 'w \<Rightarrow> go_error option \<times> 'w"
  lx_Close :: "int \<Rightarrow> 'w \<Rightarrow> 'w"
  lx_Getenv :: "string \<Rightarrow> string"
  lx_IsExist :: "go_error \<Rightarrow> bool"
  lx_ExitCode :: "go_error \<Rightarrow> int option"

subsection \<open>Control groups\<close>

definition cgroupMount :: string where "cgroupMount = ''/sys/fs/cgroup''"

text \<open>The path of the first cgroup v2 entry of \<open>/proc/self/cgroup\<close>.\<close>

fun cgroupV2Entry :: "string list \<Rightarrow> string option" where
  "cgroupV2Entry [] = None"
| "cgroupV2Entry (l # ls) = (case CutPrefix l ''0::'' of Some p \<Rightarrow> Some p | None \<Rightarrow> cgroupV2Entry ls)"

definition inPrivateCgroupNamespace :: "'w linux \<Rightarrow> 'w \<Rightarrow> (go_error + bool) \<times> 'w" where
  "inPrivateCgroupNamespace lx w =
     (let (got, w) = lx_ReadFile lx ''/proc/self/cgroup'' w in
      (case got of
         Inl e \<Rightarrow> Inl e
       | Inr b \<Rightarrow>
           (case cgroupV2Entry (lines b) of
              Some path \<Rightarrow> Inr (path = ''/'')
            | None \<Rightarrow> Inl (Errorf ''no cgroup v2 entry in /proc/self/cgroup'' [])), w))"

definition currentCgroupV2RelPath :: "'w linux \<Rightarrow> 'w \<Rightarrow> (go_error + string) \<times> 'w" where
  "currentCgroupV2RelPath lx w =
     (let (got, w) = lx_ReadFile lx ''/proc/self/cgroup'' w in
      (case got of
         Inl e \<Rightarrow> Inl e
       | Inr b \<Rightarrow>
           (case cgroupV2Entry (lines b) of
              Some path \<Rightarrow> Inr (if path = [] then ''/'' else path)
            | None \<Rightarrow> Inl (Errorf ''no cgroup v2 entry in /proc/self/cgroup'' [])), w))"

definition restoreCgroupsPath :: "'w linux \<Rightarrow> string \<Rightarrow> 'w \<Rightarrow> string \<times> 'w" where
  "restoreCgroupsPath lx sandboxName w =
     (let (private, w) = inPrivateCgroupNamespace lx w in
      if private = Inr True then (''/'' @ sandboxName, w)
      else
        let (rel, w) = currentCgroupV2RelPath lx w in
        case rel of
          Inl _ \<Rightarrow> (''/'' @ sandboxName, w)
        | Inr rel \<Rightarrow>
            if rel = [] \<or> rel = ''/'' then (''/'' @ sandboxName, w)
            else (Join [TrimSuffix rel ''/sandboxfleet'', sandboxName], w))"

definition ensureRestoreCgroup :: "'w linux \<Rightarrow> string \<Rightarrow> 'w \<Rightarrow> go_error option \<times> 'w" where
  "ensureRestoreCgroup lx sandboxName w =
     (let (path, w) = restoreCgroupsPath lx sandboxName w
      in lx_MkdirAll lx (Join [cgroupMount, TrimPrefix path ''/'']) w)"

definition ensureCgroupV2Mount :: "'w linux \<Rightarrow> 'w \<Rightarrow> go_error option \<times> 'w" where
  "ensureCgroupV2Mount lx w =
     (let (ok, w) = lx_IsCgroup2 lx cgroupMount w in
      if ok then (None, w)
      else
        let unified = Join [cgroupMount, ''unified''];
            (st, w) = lx_Stat lx (Join [unified, ''cgroup.controllers'']) w;
            (bound, w) =
              (if isl st then (Inr False, w)
               else
                 let (err, w) = lx_MountBind lx unified cgroupMount w in
                 case err of
                   Some e \<Rightarrow> (Inl (Errorf ''bind %s -> %s: %w'' [FS unified, FS cgroupMount, FW e]), w)
                 | None \<Rightarrow> let (ok, w) = lx_IsCgroup2 lx cgroupMount w in (Inr ok, w))
        in case bound of
             Inl e \<Rightarrow> (Some e, w)
           | Inr True \<Rightarrow> (None, w)
           | Inr False \<Rightarrow>
               let (st, w) = lx_Stat lx (Join [cgroupMount, ''cgroup.controllers'']) w in
               if isl st
               then (Some (Errorf ''%s is not a cgroup2 mount (runsc IsOnlyV2 would be false)'' [FS cgroupMount]), w)
               else (None, w))"

text \<open>Moving processes: at most 100 rounds over the processes still listed.\<close>

fun writePids :: "'w linux \<Rightarrow> string \<Rightarrow> string list \<Rightarrow> 'w \<Rightarrow> 'w" where
  "writePids lx dst [] w = w"
| "writePids lx dst (pid # pids) w = writePids lx dst pids (snd (lx_WriteFile lx dst pid w))"

fun moveRounds :: "'w linux \<Rightarrow> nat \<Rightarrow> string \<Rightarrow> string \<Rightarrow> 'w \<Rightarrow> go_error option \<times> 'w" where
  "moveRounds lx 0 src dst w = (Some (Errorf ''%s did not drain'' [FS src]), w)"
| "moveRounds lx (Suc n) src dst w =
     (let (got, w) = lx_ReadFile lx src w in
      case got of
        Inl e \<Rightarrow> (Some e, w)
      | Inr b \<Rightarrow>
          if Fields b = [] then (None, w)
          else moveRounds lx n src dst (writePids lx dst (Fields b) w))"

definition moveCgroupProcs :: "'w linux \<Rightarrow> string \<Rightarrow> string \<Rightarrow> 'w \<Rightarrow> go_error option \<times> 'w" where
  "moveCgroupProcs lx = moveRounds lx 100"

fun enableControllers :: "'w linux \<Rightarrow> string \<Rightarrow> string list \<Rightarrow> 'w \<Rightarrow> 'w" where
  "enableControllers lx base [] w = w"
| "enableControllers lx base (c # cs) w =
     enableControllers lx base cs (snd (lx_WriteFile lx (Join [base, ''cgroup.subtree_control'']) (''+'' @ c) w))"

text \<open>The directory the Worker delegates; a first failure is retried after a remount.\<close>

definition makeLeaf :: "'w linux \<Rightarrow> string \<Rightarrow> string \<Rightarrow> 'w \<Rightarrow> go_error option \<times> 'w" where
  "makeLeaf lx base leaf w =
     (let (err, w) = lx_Mkdir lx leaf w in
      case err of
        None \<Rightarrow> (None, w)
      | Some e \<Rightarrow>
          if lx_IsExist lx e then (None, w)
          else
            let (_, w) = lx_RemountBind lx base w; (err, w) = lx_Mkdir lx leaf w in
            (case err of
               None \<Rightarrow> None
             | Some e \<Rightarrow> if lx_IsExist lx e then None else Some (Errorf ''mkdir %s: %w'' [FS leaf, FW e]), w))"

definition delegateUnder :: "'w linux \<Rightarrow> string \<Rightarrow> 'w \<Rightarrow> go_error option \<times> 'w" where
  "delegateUnder lx base w =
     (let leaf = Join [base, ''sandboxfleet'']; (err, w) = makeLeaf lx base leaf w in
      case err of
        Some e \<Rightarrow> (Some e, w)
      | None \<Rightarrow>
          let (err, w) = moveCgroupProcs lx (Join [base, ''cgroup.procs'']) (Join [leaf, ''cgroup.procs'']) w in
          case err of
            Some e \<Rightarrow> (Some (Errorf ''move procs into %s: %w'' [FS leaf, FW e]), w)
          | None \<Rightarrow>
              let (avail, w) = lx_ReadFile lx (Join [base, ''cgroup.controllers'']) w in
              (case avail of
                 Inl e \<Rightarrow> (Some (Errorf ''read cgroup.controllers: %w'' [FW e]), w)
               | Inr b \<Rightarrow> (None, enableControllers lx base (Fields b) w)))"

definition SetupCgroupDelegation :: "'w linux \<Rightarrow> 'w \<Rightarrow> go_error option \<times> 'w" where
  "SetupCgroupDelegation lx w =
     (let (err, w) = ensureCgroupV2Mount lx w in
      case err of
        Some e \<Rightarrow> (Some e, w)
      | None \<Rightarrow>
          let (private, w) = inPrivateCgroupNamespace lx w in
          case private of
            Inl e \<Rightarrow> (Some (Errorf ''detect cgroup namespace: %w'' [FW e]), w)
          | Inr True \<Rightarrow> delegateUnder lx cgroupMount w
          | Inr False \<Rightarrow>
              let (rel, w) = currentCgroupV2RelPath lx w in
              (case rel of
                 Inl e \<Rightarrow> (Some e, w)
               | Inr rel \<Rightarrow> delegateUnder lx (Join [cgroupMount, TrimPrefix rel ''/'']) w))"

end
