(* ===== verification/GvisorNetwork.thy ===== *)
theory GvisorNetwork
  imports LinuxHost
begin

text \<open>
  The network of a sandbox restored by gVisor (\<open>gvisor_restore_network_linux.go\<close>): a namespace with a
  virtual Ethernet pair on the shared bridge, the file that remembers it, and running \<open>runsc\<close> inside it.
  Logging is left out, and so are the file descriptors of the namespaces: a namespace is entered and
  left again.
\<close>

subsection \<open>The state on disk\<close>

record gvisor =
  gv_RunscPath :: string
  gv_SourceRoot :: string
  gv_RestoreRoot :: string

record restore_net_info =
  ni_Netns :: string
  ni_Veth :: string
  ni_SlotID :: int
  ni_IP :: string

text \<open>An OCI mount, namespaces and the configuration of a container, as far as the program writes it.\<close>

record oci_mount =
  om_Destination :: string
  om_Type :: string
  om_Source :: string
  om_Options :: "string list"

record oci_config =
  oc_OciVersion :: string
  oc_UID :: int
  oc_GID :: int
  oc_Args :: "string list"
  oc_Cwd :: string
  oc_Env :: "string list"
  oc_RootPath :: string
  oc_Annotations :: "(string, string) gomap"
  oc_CgroupsPath :: string
  oc_Namespaces :: "string list"
  oc_Mounts :: "oci_mount list"

text \<open>\<open>encoding/json\<close> on the three types the snapshotter writes.\<close>

record gvisor_json =
  gj_EncodeNet :: "restore_net_info \<Rightarrow> go_error + string"
  gj_DecodeNet :: "string \<Rightarrow> go_error + restore_net_info"
  gj_EncodeContainers :: "gvisor_restore_container list \<Rightarrow> go_error + string"
  gj_DecodeContainers :: "string \<Rightarrow> go_error + gvisor_restore_container list"
  gj_EncodeConfig :: "oci_config \<Rightarrow> go_error + string"

definition restoreNetInfoPath :: "gvisor \<Rightarrow> string \<Rightarrow> string" where
  "restoreNetInfoPath g name = Join [gv_RestoreRoot g, name @ ''.net.json'']"

definition saveRestoreNetInfo ::
    "'w linux \<Rightarrow> gvisor_json \<Rightarrow> gvisor \<Rightarrow> string \<Rightarrow> restore_net_info \<Rightarrow> 'w \<Rightarrow> go_error option \<times> 'w" where
  "saveRestoreNetInfo lx js g name info w =
     (let (err, w) = lx_MkdirAll lx (gv_RestoreRoot g) w in
      case err of
        Some e \<Rightarrow> (Some e, w)
      | None \<Rightarrow>
          (case gj_EncodeNet js info of
             Inl e \<Rightarrow> (Some e, w)
           | Inr raw \<Rightarrow> lx_WriteFile lx (restoreNetInfoPath g name) raw w))"

definition loadRestoreNetInfo ::
    "'w linux \<Rightarrow> gvisor_json \<Rightarrow> gvisor \<Rightarrow> string \<Rightarrow> 'w \<Rightarrow> (go_error + restore_net_info) \<times> 'w" where
  "loadRestoreNetInfo lx js g name w =
     (let (got, w) = lx_ReadFile lx (restoreNetInfoPath g name) w in
      (case got of Inl e \<Rightarrow> Inl e | Inr raw \<Rightarrow> gj_DecodeNet js raw, w))"

subsection \<open>The commands\<close>

definition guestBridge :: string where "guestBridge = ''sf-br0''"

definition gatewayMAC :: string where "gatewayMAC = ''02:00:00:5f:00:fe''"

definition guestGateway :: string where "guestGateway = ''10.89.0.1''"

definition guestMask :: string where "guestMask = ''16''"

definition guestSubnet :: string where "guestSubnet = ''10.89.0.0/16''"

definition runIPCommand :: "'w linux \<Rightarrow> string list \<Rightarrow> 'w \<Rightarrow> go_error option \<times> 'w" where
  "runIPCommand lx args w =
     (let ((err, out), w) = lx_CombinedOutput lx (''ip'' # args) w in
      (case err of
         None \<Rightarrow> None
       | Some e \<Rightarrow> Some (Errorf ''ip %s: %w: %s'' [FS (joinWith '' '' args), FW e, FS (TrimSpace out)]), w))"

definition deleteRestoreNetwork :: "'w linux \<Rightarrow> restore_net_info \<Rightarrow> 'w \<Rightarrow> go_error option \<times> 'w" where
  "deleteRestoreNetwork lx info w =
     (let (first, w) =
            (if ni_Veth info = [] then (None, w)
             else
               let (err, w) = runIPCommand lx [''link'', ''del'', ni_Veth info] w in
               (case err of
                  None \<Rightarrow> None
                | Some e \<Rightarrow>
                    if Contains (errorText e) ''Cannot find device'' \<or> Contains (errorText e) ''does not exist''
                    then None else Some e, w))
      in if ni_Netns info = [] then (first, w)
         else
           let (err, w) = runIPCommand lx [''netns'', ''del'', ni_Netns info] w in
           (case (err, first) of
              (Some e, None) \<Rightarrow>
                if Contains (errorText e) ''No such file'' \<or> Contains (errorText e) ''does not exist''
                then None else Some e
            | _ \<Rightarrow> first, w))"

definition ensureSharedBridge :: "'w linux \<Rightarrow> 'w \<Rightarrow> go_error option \<times> 'w" where
  "ensureSharedBridge lx w =
     (let (err, w) = runIPCommand lx [''link'', ''show'', guestBridge] w;
          (err, w) =
            (if err = None then (None, w)
             else runIPCommand lx [''link'', ''add'', guestBridge, ''type'', ''bridge''] w)
      in case err of
           Some e \<Rightarrow> (Some (Errorf ''create bridge %s: %w'' [FS guestBridge, FW e]), w)
         | None \<Rightarrow>
             let (err, w) = runIPCommand lx [''link'', ''set'', guestBridge, ''address'', gatewayMAC] w in
             case err of
               Some e \<Rightarrow> (Some (Errorf ''set bridge %s MAC %s: %w'' [FS guestBridge, FS gatewayMAC, FW e]), w)
             | None \<Rightarrow>
                 let (_, w) = runIPCommand lx
                       [''addr'', ''replace'', guestGateway @ ''/'' @ guestMask, ''dev'', guestBridge] w;
                     (err, w) = runIPCommand lx [''link'', ''set'', guestBridge, ''up''] w
                 in (case err of Some e \<Rightarrow> Some (Errorf ''bridge up: %w'' [FW e]) | None \<Rightarrow> None, w))"

text \<open>The first \<open>-C\<close> becomes \<open>-A\<close> or \<open>-I\<close>.\<close>

fun addRuleArgs :: "bool \<Rightarrow> string list \<Rightarrow> string list" where
  "addRuleArgs appendRule [] = []"
| "addRuleArgs appendRule (a # as) =
     (if a = ''-C'' then (if appendRule then ''-A'' else ''-I'') # as else a # addRuleArgs appendRule as)"

definition ensureIptablesRule :: "'w linux \<Rightarrow> bool \<Rightarrow> string list \<Rightarrow> 'w \<Rightarrow> go_error option \<times> 'w" where
  "ensureIptablesRule lx appendRule checkArgs w =
     (let ((err, _), w) = lx_CombinedOutput lx (''iptables'' # checkArgs) w in
      if err = None then (None, w)
      else
        let addArgs = addRuleArgs appendRule checkArgs;
            ((err, out), w) = lx_CombinedOutput lx (''iptables'' # addArgs) w
        in (case err of
              None \<Rightarrow> None
            | Some e \<Rightarrow>
                Some (Errorf ''%v: %w: %s''
                  [FT (Lit (''['' @ joinWith '' '' addArgs @ '']'')), FW e, FS (TrimSpace out)]), w))"

definition ensureOutboundNAT :: "'w linux \<Rightarrow> 'w \<Rightarrow> 'w" where
  "ensureOutboundNAT lx w =
     (let (_, w) = lx_WriteFile lx ''/proc/sys/net/ipv4/ip_forward'' ''1'' w;
          (_, w) = ensureIptablesRule lx True
            [''-t'', ''nat'', ''-C'', ''POSTROUTING'', ''-s'', guestSubnet, ''!'', ''-o'', guestBridge,
             ''-j'', ''MASQUERADE''] w;
          (_, w) = ensureIptablesRule lx False [''-C'', ''FORWARD'', ''-i'', guestBridge, ''-j'', ''ACCEPT''] w;
          (_, w) = ensureIptablesRule lx False
            [''-C'', ''FORWARD'', ''-o'', guestBridge, ''-m'', ''conntrack'', ''--ctstate'',
             ''RELATED,ESTABLISHED'', ''-j'', ''ACCEPT''] w
      in w)"

subsection \<open>The diagnostics file\<close>

definition diagRun :: "'w linux \<Rightarrow> string \<Rightarrow> string list \<Rightarrow> string \<times> 'w \<Rightarrow> string \<times> 'w" where
  "diagRun lx title args = (\<lambda>(b, w).
     let ((err, out), w) = lx_CombinedOutput lx args w in
     (b @ [CHR 0x0A] @ formatVerbs ''=== %s: %s ==='' [title, joinWith '' '' args] @ [CHR 0x0A] @ out @
        (case err of
           None \<Rightarrow> []
         | Some e \<Rightarrow> [CHR 0x0A] @ ''[err] '' @ errorText e @ [CHR 0x0A]), w))"

fun firstNameserver :: "string list \<Rightarrow> string option" where
  "firstNameserver [] = None"
| "firstNameserver (line # ls) =
     (case Fields line of
        f # ns # _ \<Rightarrow> if f = ''nameserver'' then Some ns else firstNameserver ls
      | _ \<Rightarrow> firstNameserver ls)"

definition writeRestoreNetworkDiag ::
    "'w linux \<Rightarrow> gvisor \<Rightarrow> string \<Rightarrow> restore_net_info \<Rightarrow> guest_net \<Rightarrow> 'w \<Rightarrow> 'w" where
  "writeRestoreNetworkDiag lx g name info netCfg w =
     (let inNs = (\<lambda>args. [''ip'', ''netns'', ''exec'', ni_Netns info] @ args);
          ping = (\<lambda>to. inNs [''ping'', ''-c1'', ''-W2'', to]);
          head = formatVerbs ''name=%s netns=%s veth=%s slot=%d ip=%s/%s gw=%s''
            [name, ni_Netns info, ni_Veth info, Itoa (ni_SlotID info), gn_IP netCfg, gn_Mask netCfg,
             gn_Gateway netCfg] @ [CHR 0x0A];
          (b, w) = foldl (\<lambda>s (title, args). diagRun lx title args s) (head, w)
            [(''ip_forward'', [''cat'', ''/proc/sys/net/ipv4/ip_forward'']),
             (''host_resolv'', [''cat'', ''/etc/resolv.conf'']),
             (''iptables_forward'', [''iptables'', ''-S'', ''FORWARD'']),
             (''iptables_nat'', [''iptables'', ''-t'', ''nat'', ''-S'', ''POSTROUTING'']),
             (''bridge'', [''ip'', ''link'', ''show'', guestBridge]),
             (''host_route'', [''ip'', ''route'']),
             (''netns_addr'', inNs [''ip'', ''addr'']),
             (''netns_route'', inNs [''ip'', ''route'']),
             (''ping_gw'', ping (gn_Gateway netCfg)),
             (''ping_8888'', ping ''8.8.8.8'')];
          (resolv, w) = lx_ReadFile lx ''/etc/resolv.conf'' w;
          (b, w) =
            (case resolv of
               Inl _ \<Rightarrow> (b, w)
             | Inr raw \<Rightarrow>
                 (case firstNameserver (splitOn (CHR 0x0A) raw) of
                    None \<Rightarrow> (b, w)
                  | Some ns \<Rightarrow> diagRun lx (''ping_nameserver_'' @ ns) (ping ns) (b, w)))
      in snd (lx_WriteFile lx (Join [gv_RestoreRoot g, name @ ''.net.diag.txt'']) b w))"

subsection \<open>Creating the network\<close>

text \<open>
  The commands after the pair exists, with the wrapping of their errors; any failure removes the
  network again.
\<close>

definition linkSteps :: "string \<Rightarrow> string \<Rightarrow> guest_net \<Rightarrow> (string option \<times> string list) list" where
  "linkSteps netns veth cfg =
     (let peer = veth @ ''p''; ns = (\<lambda>args. [''netns'', ''exec'', netns, ''ip''] @ args) in
      [(Some ''veth set netns: %w'', [''link'', ''set'', peer, ''netns'', netns]),
       (Some ''veth master bridge: %w'', [''link'', ''set'', veth, ''master'', guestBridge]),
       (None, [''link'', ''set'', veth, ''up'']),
       (None, ns [''link'', ''set'', ''lo'', ''up'']),
       (None, ns [''link'', ''set'', peer, ''name'', gn_Iface cfg]),
       (None, ns [''link'', ''set'', gn_Iface cfg, ''address'', gn_MAC cfg]),
       (None, ns [''addr'', ''add'', gn_IP cfg @ ''/'' @ gn_Mask cfg, ''dev'', gn_Iface cfg]),
       (None, ns [''link'', ''set'', gn_Iface cfg, ''up'']),
       (None, ns [''route'', ''add'', ''default'', ''via'', gn_Gateway cfg])])"

fun runLinkSteps ::
    "'w linux \<Rightarrow> restore_net_info \<Rightarrow> (string option \<times> string list) list \<Rightarrow> 'w \<Rightarrow> go_error option \<times> 'w" where
  "runLinkSteps lx info [] w = (None, w)"
| "runLinkSteps lx info ((fmt, args) # steps) w =
     (let (err, w) = runIPCommand lx args w in
      case err of
        None \<Rightarrow> runLinkSteps lx info steps w
      | Some e \<Rightarrow>
          let (_, w) = deleteRestoreNetwork lx info w
          in (Some (case fmt of None \<Rightarrow> e | Some f \<Rightarrow> Errorf f [FW e]), w))"

definition createRestoreNetwork ::
    "'w linux \<Rightarrow> gvisor_json \<Rightarrow> gvisor \<Rightarrow> int \<Rightarrow> string \<Rightarrow> 'w \<Rightarrow> (go_error + restore_net_info) \<times> 'w" where
  "createRestoreNetwork lx js g slotID name w =
     (case guestNetForSlot slotID of
        Inl e \<Rightarrow> (Inl e, w)
      | Inr netCfg \<Rightarrow>
          let (err, w) = ensureSharedBridge lx w in
          case err of
            Some e \<Rightarrow> (Inl e, w)
          | None \<Rightarrow>
              let w = ensureOutboundNAT lx w;
                  netns = ''sfg'' @ Itoa slotID;
                  veth = ''sfv'' @ Itoa slotID;
                  names = \<lparr>ni_Netns = netns, ni_Veth = veth, ni_SlotID = 0, ni_IP = []\<rparr>;
                  (_, w) = deleteRestoreNetwork lx names w;
                  (err, w) = runIPCommand lx [''netns'', ''add'', netns] w
              in case err of
                   Some e \<Rightarrow> (Inl (Errorf ''netns add: %w'' [FW e]), w)
                 | None \<Rightarrow>
                     let (err, w) = runIPCommand lx
                           [''link'', ''add'', veth, ''type'', ''veth'', ''peer'', ''name'', veth @ ''p''] w in
                     case err of
                       Some e \<Rightarrow>
                         let (_, w) = runIPCommand lx [''netns'', ''del'', netns] w
                         in (Inl (Errorf ''veth add: %w'' [FW e]), w)
                     | None \<Rightarrow>
                         let (err, w) = runLinkSteps lx names (linkSteps netns veth netCfg) w in
                         case err of
                           Some e \<Rightarrow> (Inl e, w)
                         | None \<Rightarrow>
                             let info = \<lparr>ni_Netns = netns, ni_Veth = veth, ni_SlotID = slotID,
                                          ni_IP = gn_IP netCfg\<rparr>;
                                 (err, w) = saveRestoreNetInfo lx js g name info w
                             in case err of
                                  Some e \<Rightarrow>
                                    let (_, w) = deleteRestoreNetwork lx info w in (Inl e, w)
                                | None \<Rightarrow> (Inr info, writeRestoreNetworkDiag lx g name info netCfg w))"

subsection \<open>Running inside the network\<close>

definition doInNamedNetNS ::
    "'w linux \<Rightarrow> string \<Rightarrow> ('w \<Rightarrow> go_error option \<times> 'w) \<Rightarrow> 'w \<Rightarrow> go_error option \<times> 'w" where
  "doInNamedNetNS lx nsName fn w =
     (let (err, w) = lx_OpenNetNS lx (Join [''/var/run/netns'', nsName]) w in
      case err of
        Some e \<Rightarrow> (Some (Errorf ''open netns %q: %w'' [FS nsName, FW e]), w)
      | None \<Rightarrow>
          let (err, w) = lx_OpenOwnNetNS lx w in
          case err of
            Some e \<Rightarrow> (Some (Errorf ''open current netns: %w'' [FW e]), w)
          | None \<Rightarrow>
              let (err, w) = lx_SetNetNS lx nsName w in
              case err of
                Some e \<Rightarrow> (Some (Errorf ''setns net %q: %w'' [FS nsName, FW e]), w)
              | None \<Rightarrow> let (err, w) = fn w in (err, lx_LeaveNetNS lx w))"

text \<open>
  The log file is opened for writing only, so reading it back through the same descriptor fails.
\<close>

definition readWriteOnlyFile :: "go_error + string" where
  "readWriteOnlyFile = Inl (External ''bad file descriptor'')"

definition runInNetworkNamespace ::
    "'w linux \<Rightarrow> gvisor \<Rightarrow> string \<Rightarrow> string list \<Rightarrow> string \<Rightarrow> 'w \<Rightarrow> go_error option \<times> 'w" where
  "runInNetworkNamespace lx g nsName args logPath = doInNamedNetNS lx nsName (\<lambda>w.
     let (err, w) = (if logPath = [] then (None, w) else lx_OpenLog lx logPath w) in
     case err of
       Some e \<Rightarrow> (Some (Errorf ''open runsc log %q: %w'' [FS logPath, FW e]), w)
     | None \<Rightarrow>
         let (err, w) = lx_RunLogged lx (gv_RunscPath g # args) (if logPath = [] then None else Some logPath) w in
         case err of
           None \<Rightarrow> (None, w)
         | Some e \<Rightarrow>
             let msg = (if logPath = [] then []
                        else case readWriteOnlyFile of Inl _ \<Rightarrow> [] | Inr b \<Rightarrow> TrimSpace b);
                 args' = joinWith '' '' args
             in (Some (if msg = [] then Errorf ''%s %s: %w'' [FS (gv_RunscPath g), FS args', FW e]
                       else Errorf ''%s %s: %w: %s'' [FS (gv_RunscPath g), FS args', FW e, FS msg]), w))"

text \<open>The errors of entering the namespace are no \<open>exec.ExitError\<close>.\<close>

definition asExitError :: "'w linux \<Rightarrow> go_error \<Rightarrow> int option" where
  "asExitError lx e = (case e of External _ \<Rightarrow> lx_ExitCode lx e | _ \<Rightarrow> None)"

definition execInNetworkNamespace ::
    "'w linux \<Rightarrow> gvisor \<Rightarrow> string \<Rightarrow> string list \<Rightarrow> int \<Rightarrow> 'w \<Rightarrow> (go_error + exec_result) \<times> 'w" where
  "execInNetworkNamespace lx g nsName args timeout w =
     (let (outPath, w) = lx_CreateTemp lx ''sandboxfleet-runsc-exec-out-*'' w in
      case outPath of
        Inl e \<Rightarrow> (Inl e, w)
      | Inr outPath \<Rightarrow>
          let (errPath, w) = lx_CreateTemp lx ''sandboxfleet-runsc-exec-err-*'' w in
          case errPath of
            Inl e \<Rightarrow> (Inl e, snd (lx_Remove lx outPath w))
          | Inr errPath \<Rightarrow>
              let (runErr, w) = doInNamedNetNS lx nsName
                    (lx_RunTimed lx (gv_RunscPath g # args) timeout outPath errPath) w;
                  (stdout, w) = lx_ReadFile lx outPath w;
                  (stderr, w) = lx_ReadFile lx errPath w;
                  text = (\<lambda>got. case got of Inl _ \<Rightarrow> [] | Inr b \<Rightarrow> b);
                  result = (\<lambda>code. \<lparr>er_ExitCode = code, er_Stdout = text stdout, er_Stderr = text stderr\<rparr>);
                  (_, w) = lx_Remove lx errPath w;
                  (_, w) = lx_Remove lx outPath w
              in (case runErr of
                    None \<Rightarrow> Inr (result 0)
                  | Some e \<Rightarrow>
                      (case asExitError lx e of
                         Some code \<Rightarrow> Inr (result (wrap32 code))
                       | None \<Rightarrow> Inl (Errorf ''runsc exec: %w: %s'' [FW e, FS (TrimSpace (text stderr))])), w))"

end
