(* ===== verification/GvisorImage.thy ===== *)
theory GvisorImage
  imports LinuxHost
begin

text \<open>
  Root file systems of restored containers (\<open>gvisor_image_linux.go\<close>, \<open>gvisor_image_ref.go\<close>): the layers of a
  containerd image under a private writable overlay.  The containerd client and the parser of image
  references are a record of functions.
\<close>

subsection \<open>containerd\<close>

record mount_entry =
  mt_Type :: string
  mt_Source :: string
  mt_Options :: "string list"

text \<open>
  Every call names the containerd namespace; the snapshotter is the default one.  \<open>ci_ShowMounts\<close> is the
  verb \<open>%#v\<close> on a list of mounts.
\<close>

record ('i, 'w) containerd =
  ci_Connect :: "string \<Rightarrow> 'w \<Rightarrow> go_error option \<times> 'w"
  ci_Close :: "'w \<Rightarrow> 'w"
  ci_GetImage :: "string \<Rightarrow> string \<Rightarrow> 'w \<Rightarrow> (go_error + 'i) \<times> 'w"
  ci_Pull :: "string \<Rightarrow> string \<Rightarrow> 'w \<Rightarrow> (go_error + 'i) \<times> 'w"
  ci_IsUnpacked :: "string \<Rightarrow> 'i \<Rightarrow> 'w \<Rightarrow> (go_error + bool) \<times> 'w"
  ci_Unpack :: "string \<Rightarrow> 'i \<Rightarrow> 'w \<Rightarrow> go_error option \<times> 'w"
  ci_RootFS :: "string \<Rightarrow> 'i \<Rightarrow> 'w \<Rightarrow> (go_error + string list) \<times> 'w"
  ci_ChainID :: "string list \<Rightarrow> string"
  ci_View :: "string \<Rightarrow> string \<Rightarrow> string \<Rightarrow> 'w \<Rightarrow> (go_error + mount_entry list) \<times> 'w"
  ci_RemoveSnapshot :: "string \<Rightarrow> string \<Rightarrow> 'w \<Rightarrow> go_error option \<times> 'w"
  ci_ParseDockerRef :: "string \<Rightarrow> go_error + string"
  ci_ShowMounts :: "mount_entry list \<Rightarrow> string"

definition defaultPauseImage :: string where "defaultPauseImage = ''registry.k8s.io/pause:3.10''"

definition pauseImageRef :: "'w linux \<Rightarrow> string" where
  "pauseImageRef lx = firstNonEmpty [lx_Getenv lx ''SANDBOXFLEET_PAUSE_IMAGE'', defaultPauseImage]"

definition containerdAddress :: "'w linux \<Rightarrow> string" where
  "containerdAddress lx =
     firstNonEmpty [lx_Getenv lx ''SANDBOXFLEET_CONTAINERD_ADDRESS'', ''/run/containerd/containerd.sock'']"

definition containerdNamespace :: "'w linux \<Rightarrow> string" where
  "containerdNamespace lx = firstNonEmpty [lx_Getenv lx ''SANDBOXFLEET_CONTAINERD_NAMESPACE'', ''k8s.io'']"

subsection \<open>Image references\<close>

definition normalizeImageRef :: "('i, 'w) containerd \<Rightarrow> string \<Rightarrow> go_error + string" where
  "normalizeImageRef ci ref =
     (if ref = [] then Inl (Errorf ''image ref is empty'' []) else ci_ParseDockerRef ci ref)"

definition addCandidate :: "string \<Rightarrow> string list \<Rightarrow> string list" where
  "addCandidate s out = (if s = [] \<or> s \<in> set out then out else out @ [s])"

definition imageRefCandidates :: "('i, 'w) containerd \<Rightarrow> string \<Rightarrow> string list" where
  "imageRefCandidates ci ref =
     addCandidate ref (case normalizeImageRef ci ref of Inl _ \<Rightarrow> [] | Inr n \<Rightarrow> addCandidate n [])"

text \<open>The first candidate containerd has, unpacked; otherwise the last error of the search.\<close>

fun findLocalImage ::
    "('i, 'w) containerd \<Rightarrow> string \<Rightarrow> string list \<Rightarrow> go_error option \<Rightarrow> 'w \<Rightarrow>
     ((go_error + 'i) option \<times> go_error option) \<times> 'w" where
  "findLocalImage ci ns [] lastErr w = ((None, lastErr), w)"
| "findLocalImage ci ns (c # cs) lastErr w =
     (let (img, w) = ci_GetImage ci ns c w in
      case img of
        Inl e \<Rightarrow> findLocalImage ci ns cs (Some e) w
      | Inr img \<Rightarrow>
          let (unpacked, w) = ci_IsUnpacked ci ns img w in
          if unpacked = Inr False
          then
            let (err, w) = ci_Unpack ci ns img w in
            ((Some (case err of
                      None \<Rightarrow> Inr img
                    | Some e \<Rightarrow> Inl (Errorf ''unpack image %q: %w'' [FS c, FW e])), lastErr), w)
          else ((Some (Inr img), lastErr), w))"

definition getOrPullContainerdImage ::
    "('i, 'w) containerd \<Rightarrow> string \<Rightarrow> string \<Rightarrow> 'w \<Rightarrow> (go_error + 'i) \<times> 'w" where
  "getOrPullContainerdImage ci ns imageRef w =
     (let candidates = imageRefCandidates ci imageRef;
          ((found, lastErr), w) = findLocalImage ci ns candidates None w
      in case found of
           Some r \<Rightarrow> (r, w)
         | None \<Rightarrow>
             let pullRef = (case normalizeImageRef ci imageRef of Inl _ \<Rightarrow> imageRef | Inr n \<Rightarrow> n);
                 (img, w) = ci_Pull ci ns pullRef w
             in (case img of
                   Inr img \<Rightarrow> Inr img
                 | Inl e \<Rightarrow>
                     Inl (case lastErr of
                            Some l \<Rightarrow>
                              Errorf ''pull image %q (GetImage tried %v: %v): %w''
                                [FS pullRef, FT (Lit (''['' @ joinWith '' '' candidates @ '']'')), FV l, FW e]
                          | None \<Rightarrow> Errorf ''pull image %q: %w'' [FS pullRef, FW e]), w))"

subsection \<open>Layer directories\<close>

text \<open>
  \<open>splitLoop\<close> is the loop over the option's value, with the flag of a pending escape and the part read so
  far; it gives the finished parts and the rest.  Values are UTF-8, so the loop over runes is one over
  bytes: the two special bytes never occur inside a longer rune.
\<close>

fun splitLoop :: "bool \<Rightarrow> string \<Rightarrow> string \<Rightarrow> string list \<times> string" where
  "splitLoop escaped b [] = ([], b)"
| "splitLoop escaped b (r # v) =
     (if escaped then splitLoop False (b @ [r]) v
      else if r = CHR 0x5C then splitLoop True b v
      else if r = CHR '':'' then (let (out, b') = splitLoop False [] v in (b # out, b'))
      else splitLoop False (b @ [r]) v)"

definition splitOverlayLowerdirs :: "string \<Rightarrow> string list" where
  "splitOverlayLowerdirs v =
     (let (out, b) = splitLoop False [] v in if b \<noteq> [] \<or> HasSuffix v '':'' then out @ [b] else out)"

fun lowerdirOption :: "string list \<Rightarrow> string option" where
  "lowerdirOption [] = None"
| "lowerdirOption (opt # opts) =
     (case CutPrefix opt ''lowerdir='' of Some rest \<Rightarrow> Some rest | None \<Rightarrow> lowerdirOption opts)"

fun lowerDirsLoop :: "go_error \<Rightarrow> string list \<Rightarrow> mount_entry list \<Rightarrow> go_error + string list" where
  "lowerDirsLoop none lowers [] = (if lowers \<noteq> [] then Inr lowers else Inl none)"
| "lowerDirsLoop none lowers (m # ms) =
     (if mt_Type m = ''overlay'' \<or> mt_Type m = ''overlayfs'' then
        (case lowerdirOption (mt_Options m) of
           Some rest \<Rightarrow>
             let parts = splitOverlayLowerdirs rest in
             if parts = [] then Inl (Errorf ''empty lowerdir in mount options'' []) else Inr parts
         | None \<Rightarrow> lowerDirsLoop none lowers ms)
      else if mt_Type m = ''bind'' \<and> mt_Source m \<noteq> [] then lowerDirsLoop none (lowers @ [mt_Source m]) ms
      else lowerDirsLoop none lowers ms)"

definition lowerDirsFromMounts :: "('i, 'w) containerd \<Rightarrow> mount_entry list \<Rightarrow> go_error + string list" where
  "lowerDirsFromMounts ci mounts =
     lowerDirsLoop (Errorf ''no overlay/bind lowerdirs in %#v'' [FT (Lit (ci_ShowMounts ci mounts))]) [] mounts"

definition shortDigest :: "string \<Rightarrow> string" where
  "shortDigest s = (let s = TrimPrefix s ''sha256:'' in if length s > 12 then take 12 s else s)"

subsection \<open>The overlay\<close>

definition isFsconfigUnsupported :: "go_error option \<Rightarrow> bool" where
  "isFsconfigUnsupported err =
     (case err of
        None \<Rightarrow> False
      | Some e \<Rightarrow>
          Contains (errorText e) ''fsopen'' \<or> Contains (errorText e) ''fsconfig'' \<or>
          Contains (errorText e) ''function not implemented'' \<or> Contains (errorText e) ''invalid argument'')"

fun setOverlayOptions :: "'w linux \<Rightarrow> int \<Rightarrow> (string \<times> string) list \<Rightarrow> 'w \<Rightarrow> go_error option \<times> 'w" where
  "setOverlayOptions lx fsfd [] w = (None, w)"
| "setOverlayOptions lx fsfd ((key, val) # opts) w =
     (let (err, w) = lx_FsconfigSetString lx fsfd key val w in
      case err of
        Some e \<Rightarrow> (Some (Errorf ''fsconfig %s=%q: %w'' [FS key, FS val, FW e]), w)
      | None \<Rightarrow> setOverlayOptions lx fsfd opts w)"

definition mountOverlayFSConfig ::
    "'w linux \<Rightarrow> string \<Rightarrow> string list \<Rightarrow> string \<Rightarrow> string \<Rightarrow> 'w \<Rightarrow> go_error option \<times> 'w" where
  "mountOverlayFSConfig lx mountpoint lowers upper work w =
     (let (fsfd, w) = lx_Fsopen lx w in
      case fsfd of
        Inl e \<Rightarrow> (Some (Errorf ''fsopen overlay: %w'' [FW e]), w)
      | Inr fsfd \<Rightarrow>
          let (err, w) = setOverlayOptions lx fsfd
                (map (\<lambda>l. (''lowerdir+'', l)) lowers @ [(''upperdir'', upper), (''workdir'', work)]) w in
          case err of
            Some e \<Rightarrow> (Some e, lx_Close lx fsfd w)
          | None \<Rightarrow>
              let (err, w) = lx_FsconfigCreate lx fsfd w in
              case err of
                Some e \<Rightarrow> (Some (Errorf ''fsconfig create: %w'' [FW e]), lx_Close lx fsfd w)
              | None \<Rightarrow>
                  let (mfd, w) = lx_Fsmount lx fsfd w in
                  case mfd of
                    Inl e \<Rightarrow> (Some (Errorf ''fsmount: %w'' [FW e]), lx_Close lx fsfd w)
                  | Inr mfd \<Rightarrow>
                      let (err, w) = lx_MoveMount lx mfd mountpoint w in
                      (case err of
                         Some e \<Rightarrow> Some (Errorf ''move_mount to %q: %w'' [FS mountpoint, FW e])
                       | None \<Rightarrow> None, lx_Close lx fsfd (lx_Close lx mfd w)))"

definition escapeLower :: "string \<Rightarrow> string" where
  "escapeLower l =
     ReplaceByte (CHR '','') [CHR 0x5C, CHR '','']
       (ReplaceByte (CHR '':'') [CHR 0x5C, CHR '':''] (ReplaceByte (CHR 0x5C) [CHR 0x5C, CHR 0x5C] l))"

definition mountOverlayClassic ::
    "'w linux \<Rightarrow> string \<Rightarrow> string list \<Rightarrow> string \<Rightarrow> string \<Rightarrow> 'w \<Rightarrow> go_error option \<times> 'w" where
  "mountOverlayClassic lx mountpoint lowers upper work w =
     (let opts = formatVerbs ''lowerdir=%s,upperdir=%s,workdir=%s''
            [joinWith '':'' (map escapeLower lowers), upper, work];
          (err, w) = lx_MountOverlay lx mountpoint opts w
      in (case err of
            Some e \<Rightarrow> Some (Errorf ''mount overlay at %q: %w'' [FS mountpoint, FW e])
          | None \<Rightarrow> None, w))"

definition mountOverlayLowers ::
    "'w linux \<Rightarrow> string \<Rightarrow> string list \<Rightarrow> string \<Rightarrow> string \<Rightarrow> 'w \<Rightarrow> go_error option \<times> 'w" where
  "mountOverlayLowers lx mountpoint lowers upper work w =
     (let (err, w) = mountOverlayFSConfig lx mountpoint lowers upper work w in
      if err = None then (None, w)
      else if \<not> isFsconfigUnsupported err then (err, w)
      else mountOverlayClassic lx mountpoint lowers upper work w)"

subsection \<open>Setting up and tearing down\<close>

fun mkdirAllOf :: "'w linux \<Rightarrow> string list \<Rightarrow> 'w \<Rightarrow> go_error option \<times> 'w" where
  "mkdirAllOf lx [] w = (None, w)"
| "mkdirAllOf lx (d # ds) w =
     (let (err, w) = lx_MkdirAll lx d w in if err \<noteq> None then (err, w) else mkdirAllOf lx ds w)"

definition layersOf ::
    "'w linux \<Rightarrow> ('i, 'w) containerd \<Rightarrow> string \<Rightarrow> string \<Rightarrow> 'w \<Rightarrow> (go_error + string list) \<times> 'w" where
  "layersOf lx ci imageRef bundleDir w =
     (let ns = containerdNamespace lx; (img, w) = getOrPullContainerdImage ci ns imageRef w in
      case img of
        Inl e \<Rightarrow> (Inl e, w)
      | Inr img \<Rightarrow>
          let (diffIDs, w) = ci_RootFS ci ns img w in
          case diffIDs of
            Inl e \<Rightarrow> (Inl (Errorf ''image rootfs %q: %w'' [FS imageRef, FW e]), w)
          | Inr diffIDs \<Rightarrow>
              let parent = ci_ChainID ci diffIDs;
                  viewKey = ''sandboxfleet-gvisor-layers-'' @ Base bundleDir @ ''-'' @ shortDigest parent;
                  (_, w) = ci_RemoveSnapshot ci ns viewKey w;
                  (mounts, w) = ci_View ci ns viewKey parent w
              in case mounts of
                   Inl e \<Rightarrow> (Inl (Errorf ''snapshot view %q: %w'' [FS imageRef, FW e]), w)
                 | Inr mounts \<Rightarrow>
                     let lowers = lowerDirsFromMounts ci mounts;
                         (_, w) = ci_RemoveSnapshot ci ns viewKey w
                     in (case lowers of
                           Inl e \<Rightarrow> Inl (Errorf ''resolve layer dirs %q: %w'' [FS imageRef, FW e])
                         | Inr lowers \<Rightarrow>
                             if lowers = [] then Inl (Errorf ''image %q has no overlay lowerdirs'' [FS imageRef])
                             else Inr lowers, w))"

definition setupImageRootfs ::
    "'w linux \<Rightarrow> ('i, 'w) containerd \<Rightarrow> string \<Rightarrow> string \<Rightarrow> 'w \<Rightarrow> go_error option \<times> 'w" where
  "setupImageRootfs lx ci imageRef bundleDir w =
     (if imageRef = [] then (Some (Errorf ''image ref is empty'' []), w)
      else
        let (err, w) = lx_MkdirAll lx bundleDir w;
            rootfs = Join [bundleDir, ''rootfs''];
            upper = Join [bundleDir, ''upper''];
            work = Join [bundleDir, ''work'']
        in if err \<noteq> None then (err, w)
           else
             let (err, w) = mkdirAllOf lx [rootfs, upper, work] w in
             if err \<noteq> None then (err, w)
             else
               let (_, w) = lx_UnmountDetach lx rootfs w;
                   (err, w) = ci_Connect ci (containerdAddress lx) w
               in case err of
                    Some e \<Rightarrow> (Some (Errorf ''containerd connect: %w'' [FW e]), w)
                  | None \<Rightarrow>
                      let (lowers, w) = layersOf lx ci imageRef bundleDir w in
                      case lowers of
                        Inl e \<Rightarrow> (Some e, ci_Close ci w)
                      | Inr lowers \<Rightarrow>
                          let (err, w) = mountOverlayLowers lx rootfs lowers upper work w in
                          if err \<noteq> None then (err, ci_Close ci w)
                          else
                            let w = foldl (\<lambda>w d. snd (lx_MkdirAll lx (Join [rootfs, d]) w)) w
                                  [''proc'', ''sys'', ''dev'', ''etc'']
                            in (None, ci_Close ci w))"

definition teardownImageRootfs :: "'w linux \<Rightarrow> string \<Rightarrow> 'w \<Rightarrow> 'w" where
  "teardownImageRootfs lx bundleDir w =
     (if bundleDir = [] then w else snd (lx_UnmountDetach lx (Join [bundleDir, ''rootfs'']) w))"

end
