(* ===== verification/Gvisor.thy ===== *)
theory Gvisor
  imports GvisorNetwork GvisorImage
begin

text \<open>
  The gVisor snapshotter (\<open>gvisor.go\<close>, \<open>gvisor_containers.go\<close>): a checkpoint of a running sandbox with
  \<open>runsc checkpoint\<close>, the file that lists its containers, the restore of all of them in a private root and
  network, deletion and commands.  The environment is the host, containerd and JSON.
\<close>

record ('i, 'w) gvisor_env =
  ge_Linux :: "'w linux"
  ge_Containerd :: "('i, 'w) containerd"
  ge_Json :: gvisor_json

definition gvisorFormatVersion :: string where "gvisorFormatVersion = ''runsc-checkpoint-v1''"

definition gvisorIDPrefix :: string where "gvisorIDPrefix = ''runsc:''"

definition gvisorDefaultPATH :: string where
  "gvisorDefaultPATH = ''PATH=/usr/local/sbin:/usr/local/bin:/usr/sbin:/usr/bin:/sbin:/bin''"

definition gvisorRestoreResolvConf :: string where
  "gvisorRestoreResolvConf = ''nameserver 8.8.8.8'' @ [CHR 0x0A]"

definition NewGVisor :: "'w linux \<Rightarrow> gvisor" where
  "NewGVisor lx =
     \<lparr>gv_RunscPath = firstNonEmpty [lx_Getenv lx ''SANDBOXFLEET_RUNSC_PATH'', ''runsc''],
      gv_SourceRoot = firstNonEmpty [lx_Getenv lx ''SANDBOXFLEET_RUNSC_ROOT'', ''/run/containerd/runsc/k8s.io''],
      gv_RestoreRoot =
        firstNonEmpty [lx_Getenv lx ''SANDBOXFLEET_RUNSC_RESTORE_ROOT'', ''/var/lib/sandboxfleet/runsc'']\<rparr>"

definition runsc :: "'w linux \<Rightarrow> gvisor \<Rightarrow> string list \<Rightarrow> 'w \<Rightarrow> go_error option \<times> 'w" where
  "runsc lx g args w =
     (let ((err, out), w) = lx_RunStderr lx (gv_RunscPath g # args) w in
      (case err of
         None \<Rightarrow> None
       | Some e \<Rightarrow> Some (Errorf ''%s: %w: %s'' [FS (joinWith '' '' args), FW e, FS (TrimSpace out)]), w))"

subsection \<open>The list of containers\<close>

definition gvisorContainersFile :: string where "gvisorContainersFile = ''sandboxfleet-containers.json''"

fun checkContainerIDs :: "nat \<Rightarrow> gvisor_restore_container list \<Rightarrow> go_error option" where
  "checkContainerIDs i [] = None"
| "checkContainerIDs i (c # cs) =
     (if gc_ID c = [] then Some (Errorf ''containers[%d]: id is required'' [FD (int i)])
      else checkContainerIDs (Suc i) cs)"

definition writeGVisorContainersFile ::
    "('i, 'w) gvisor_env \<Rightarrow> string \<Rightarrow> gvisor_restore_container list \<Rightarrow> 'w \<Rightarrow> go_error option \<times> 'w" where
  "writeGVisorContainersFile env dir containers w =
     (if containers = [] then (Some (Errorf ''containers list is empty'' []), w)
      else case checkContainerIDs 0 containers of
        Some e \<Rightarrow> (Some e, w)
      | None \<Rightarrow>
          (case gj_EncodeContainers (ge_Json env) containers of
             Inl e \<Rightarrow> (Some e, w)
           | Inr raw \<Rightarrow> lx_WriteFile (ge_Linux env) (Join [dir, gvisorContainersFile]) raw w))"

definition readGVisorContainersFile ::
    "('i, 'w) gvisor_env \<Rightarrow> string \<Rightarrow> 'w \<Rightarrow> (go_error + gvisor_restore_container list) \<times> 'w" where
  "readGVisorContainersFile env dir w =
     (let (got, w) = lx_ReadFile (ge_Linux env) (Join [dir, gvisorContainersFile]) w in
      (case got of
         Inl e \<Rightarrow> Inl e
       | Inr raw \<Rightarrow>
           (case gj_DecodeContainers (ge_Json env) raw of
              Inl e \<Rightarrow> Inl e
            | Inr cs \<Rightarrow> if cs = [] then Inl (Errorf ''%s is empty'' [FS gvisorContainersFile]) else Inr cs), w))"

subsection \<open>Checkpoints\<close>

definition gvisorCheckpointArgs :: "string \<Rightarrow> string \<Rightarrow> string \<Rightarrow> string list" where
  "gvisorCheckpointArgs root imagePath sandboxName =
     [''--root'', root, ''--network=host'', ''checkpoint'', ''--image-path'', imagePath, ''--leave-running'',
      sandboxName]"

definition resolveCheckpointPaths :: "gvisor \<Rightarrow> runtime_id \<Rightarrow> string \<times> string" where
  "resolveCheckpointPaths g rid =
     (let (name, ok) = StripPrefix rid gvisorIDPrefix in
      if ok then (Join [gv_RestoreRoot g, name], ''pause'') else (gv_SourceRoot g, rid))"

definition containersForSave ::
    "('i, 'w) gvisor_env \<Rightarrow> gvisor \<Rightarrow> save_request \<Rightarrow> 'w \<Rightarrow> (go_error + gvisor_restore_container list) \<times> 'w" where
  "containersForSave env g req w =
     (let (name, ok) = StripPrefix (sv_ID req) gvisorIDPrefix;
          (listed, w) =
            (if ok
             then
               let (got, w) = readGVisorContainersFile env (Join [gv_RestoreRoot g, name]) w
               in (case got of Inr cs \<Rightarrow> Some cs | Inl _ \<Rightarrow> None, w)
             else (None, w))
      in (case listed of
            Some containers \<Rightarrow> Inr containers
          | None \<Rightarrow>
              if sv_AppContainerName req = []
              then Inl (Errorf ''AppContainerName is required to record gVisor restore containers'' [])
              else Inr (gvisorCRIContainers (pauseImageRef (ge_Linux env)) (sv_AppContainerName req)
                          (sv_AppImage req)), w))"

definition writeContainersForSave ::
    "('i, 'w) gvisor_env \<Rightarrow> gvisor \<Rightarrow> save_request \<Rightarrow> 'w \<Rightarrow> go_error option \<times> 'w" where
  "writeContainersForSave env g req w =
     (let (containers, w) = containersForSave env g req w in
      case containers of
        Inl e \<Rightarrow> (Some e, w)
      | Inr containers \<Rightarrow>
          let (err, containers) =
                fillGVisorContainerImages (pauseImageRef (ge_Linux env)) (sv_AppImage req) containers in
          case err of
            Some e \<Rightarrow> (Some e, w)
          | None \<Rightarrow> writeGVisorContainersFile env (sv_DestDir req) containers w)"

definition gvisorSaveSnapshot ::
    "('i, 'w) gvisor_env \<Rightarrow> gvisor \<Rightarrow> save_request \<Rightarrow> 'w \<Rightarrow> go_error option \<times> 'w" where
  "gvisorSaveSnapshot env g req w =
     (if sv_ID req = [] then (Some (Errorf ''runtime id is required'' []), w)
      else
        let (err, w) = lx_MkdirAll (ge_Linux env) (sv_DestDir req) w in
        if err \<noteq> None then (err, w)
        else
          let (root, sandboxName) = resolveCheckpointPaths g (sv_ID req);
              (err, w) = runsc (ge_Linux env) g (gvisorCheckpointArgs root (sv_DestDir req) sandboxName) w
          in case err of
               Some e \<Rightarrow> (Some (Errorf ''runsc checkpoint: %w'' [FW e]), w)
             | None \<Rightarrow>
                 let (err, w) = writeContainersForSave env g req w in
                 (case err of
                    Some e \<Rightarrow> Some (Errorf ''write containers metadata: %w'' [FW e])
                  | None \<Rightarrow> None, w))"

subsection \<open>The bundle of a restored container\<close>

definition gvisorDebugFlags :: "string \<Rightarrow> string list" where
  "gvisorDebugFlags debugDir =
     (if debugDir = [] then []
      else [''--debug'', ''--debug-log'', if HasSuffix debugDir ''/'' then debugDir else debugDir @ ''/'',
            ''--alsologtostderr''])"

definition gvisorCreateArgs :: "string \<Rightarrow> string \<Rightarrow> string \<Rightarrow> string \<Rightarrow> bool \<Rightarrow> string list" where
  "gvisorCreateArgs root bundleDir sandboxName debugDir sandbox =
     [''--root'', root, ''--network=host'', ''--restore-spec-validation=ignore''] @
     (if sandbox then [''--overlay2=none''] else []) @ gvisorDebugFlags debugDir @
     [''create'', ''--bundle'', bundleDir, sandboxName]"

definition gvisorRestoreArgs :: "string \<Rightarrow> string \<Rightarrow> string \<Rightarrow> string \<Rightarrow> string \<Rightarrow> bool \<Rightarrow> string list" where
  "gvisorRestoreArgs root bundleDir imagePath sandboxName debugDir sandbox =
     [''--root'', root, ''--network=host'', ''--restore-spec-validation=ignore''] @
     (if sandbox then [''--overlay2=none''] else []) @ gvisorDebugFlags debugDir @
     [''restore'', ''--bundle'', bundleDir, ''--image-path'', imagePath, ''--background'', ''--direct'', ''--detach'',
      sandboxName]"

definition hostsText :: string where
  "hostsText =
     ''127.0.0.1'' @ [CHR 0x09] @ ''localhost'' @ [CHR 0x0A] @ ''::1'' @ [CHR 0x09] @ ''localhost'' @ [CHR 0x0A]"

text \<open>The files are written in one iteration order of the map that holds them.\<close>

fun writeMissingFiles :: "'w linux \<Rightarrow> string \<Rightarrow> (string \<times> string) list \<Rightarrow> 'w \<Rightarrow> go_error option \<times> 'w" where
  "writeMissingFiles lx dir [] w = (None, w)"
| "writeMissingFiles lx dir ((name, body) # files) w =
     (let (st, w) = lx_Stat lx (Join [dir, name]) w in
      if st = Inr True then writeMissingFiles lx dir files w
      else
        let (err, w) = lx_WriteFile lx (Join [dir, name]) body w in
        if err \<noteq> None then (err, w) else writeMissingFiles lx dir files w)"

definition ensureRootfsEtcFiles :: "'w linux \<Rightarrow> string \<Rightarrow> string \<Rightarrow> 'w \<Rightarrow> go_error option \<times> 'w" where
  "ensureRootfsEtcFiles lx bundleDir hostname w =
     (let rootEtc = Join [bundleDir, ''rootfs'', ''etc''];
          (err, w) = lx_MkdirAll lx rootEtc w;
          hostname = (if hostname = [] then ''sandbox'' else hostname)
      in if err \<noteq> None then (err, w)
         else writeMissingFiles lx rootEtc
                [(''hosts'', hostsText), (''hostname'', hostname @ [CHR 0x0A]),
                 (''resolv.conf'', gvisorRestoreResolvConf)] w)"

fun writeFiles :: "'w linux \<Rightarrow> (string \<times> string) list \<Rightarrow> 'w \<Rightarrow> go_error option \<times> 'w" where
  "writeFiles lx [] w = (None, w)"
| "writeFiles lx ((path, body) # files) w =
     (let (err, w) = lx_WriteFile lx path body w in
      if err \<noteq> None then (err, w) else writeFiles lx files w)"

definition gvisorRestoreEtcMounts ::
    "'w linux \<Rightarrow> string \<Rightarrow> string \<Rightarrow> 'w \<Rightarrow> (go_error + oci_mount list) \<times> 'w" where
  "gvisorRestoreEtcMounts lx bundleDir hostname w =
     (let hostname = (if hostname = [] then ''sandbox'' else hostname);
          etcDir = Join [bundleDir, ''etc''];
          (err, w) = lx_MkdirAll lx etcDir w;
          hostsPath = Join [etcDir, ''hosts''];
          hostnamePath = Join [etcDir, ''hostname''];
          resolvPath = Join [etcDir, ''resolv.conf'']
      in case err of
           Some e \<Rightarrow> (Inl e, w)
         | None \<Rightarrow>
             let (err, w) = writeFiles lx
                   [(hostsPath, hostsText), (hostnamePath, hostname @ [CHR 0x0A]),
                    (resolvPath, gvisorRestoreResolvConf)] w in
             case err of
               Some e \<Rightarrow> (Inl e, w)
             | None \<Rightarrow>
                 let (err, w) = ensureRootfsEtcFiles lx bundleDir hostname w;
                     bind = (\<lambda>dest src opts. \<lparr>om_Destination = dest, om_Type = ''bind'', om_Source = src,
                                                om_Options = opts\<rparr>)
                 in (case err of
                       Some e \<Rightarrow> Inl e
                     | None \<Rightarrow>
                         Inr [bind ''/etc/hosts'' hostsPath [''rbind'', ''rprivate'', ''ro''],
                              bind ''/etc/hostname'' hostnamePath [''rbind'', ''rprivate'', ''ro''],
                              bind ''/etc/resolv.conf'' resolvPath [''ro'']], w))"

definition restoreAnnotations :: "gvisor_restore_container \<Rightarrow> string \<Rightarrow> (string, string) gomap" where
  "restoreAnnotations c rootCID =
     (let m = (if gc_Sandbox c then gm_set ''io.kubernetes.cri.container-type'' ''sandbox'' []
               else gm_set ''io.kubernetes.cri.sandbox-id'' rootCID
                      (gm_set ''io.kubernetes.cri.container-type'' ''container'' []))
      in if gc_Name c \<noteq> [] then gm_set ''io.kubernetes.cri.container-name'' (gc_Name c) m else m)"

definition writeGVisorRestoreConfig ::
    "('i, 'w) gvisor_env \<Rightarrow> string \<Rightarrow> gvisor_restore_container \<Rightarrow> string \<Rightarrow> 'w \<Rightarrow> go_error option \<times> 'w" where
  "writeGVisorRestoreConfig env bundleDir c rootCID w =
     (let lx = ge_Linux env;
          (cgroups, w) = restoreCgroupsPath lx (gc_ID c) w;
          hostname = (if gc_Sandbox c then ''pause'' else gc_Name c);
          (mounts, w) = gvisorRestoreEtcMounts lx bundleDir hostname w
      in case mounts of
           Inl e \<Rightarrow> (Some e, w)
         | Inr mounts \<Rightarrow>
             (case gj_EncodeConfig (ge_Json env)
                     \<lparr>oc_OciVersion = ''1.1.0'', oc_UID = 0, oc_GID = 0, oc_Args = [''sleep'', ''3600''],
                      oc_Cwd = ''/'', oc_Env = [gvisorDefaultPATH], oc_RootPath = ''rootfs'',
                      oc_Annotations = restoreAnnotations c rootCID, oc_CgroupsPath = cgroups,
                      oc_Namespaces = [''pid'', ''ipc'', ''uts'', ''mount''], oc_Mounts = mounts\<rparr> of
                Inl e \<Rightarrow> (Some e, w)
              | Inr raw \<Rightarrow> lx_WriteFile lx (Join [bundleDir, ''config.json'']) raw w))"

definition writeGVisorRestoreBundle ::
    "('i, 'w) gvisor_env \<Rightarrow> string \<Rightarrow> gvisor_restore_container \<Rightarrow> string \<Rightarrow> 'w \<Rightarrow> go_error option \<times> 'w" where
  "writeGVisorRestoreBundle env bundleDir c rootCID w =
     (if gc_Image c = []
      then (Some (Errorf ''container %s missing image in %s'' [FS (gc_ID c), FS gvisorContainersFile]), w)
      else
        let (err, w) = setupImageRootfs (ge_Linux env) (ge_Containerd env) (gc_Image c) bundleDir w in
        case err of
          Some e \<Rightarrow> (Some (Errorf ''setup image rootfs %q: %w'' [FS (gc_Image c), FW e]), w)
        | None \<Rightarrow>
            let (err, w) = writeGVisorRestoreConfig env bundleDir c rootCID w in
            case err of
              Some e \<Rightarrow> (Some e, teardownImageRootfs (ge_Linux env) bundleDir w)
            | None \<Rightarrow> (None, w))"

subsection \<open>Restoring\<close>

text \<open>
  What a failed restore leaves for inspection: the stage, the debug directory and the log files, moved to a
  directory beside the root; its path, or nothing when it cannot be made.
\<close>

fun moveLogs :: "'w linux \<Rightarrow> string \<Rightarrow> string \<Rightarrow> (string \<times> bool) list \<Rightarrow> 'w \<Rightarrow> 'w" where
  "moveLogs lx root keep [] w = w"
| "moveLogs lx root keep ((name, isDir) # entries) w =
     moveLogs lx root keep entries
       (if isDir \<or> \<not> HasSuffix name ''.log'' then w
        else snd (lx_Rename lx (Join [root, name]) (Join [keep, name]) w))"

definition preserveFailedLogs ::
    "'w linux \<Rightarrow> gvisor \<Rightarrow> string \<Rightarrow> string \<Rightarrow> 'w \<Rightarrow> string \<times> 'w" where
  "preserveFailedLogs lx g name stage w =
     (let root = Join [gv_RestoreRoot g, name];
          keep = Join [gv_RestoreRoot g, name @ ''-failed''];
          (_, w) = lx_RemoveAll lx keep w;
          (err, w) = lx_MkdirAll lx keep w
      in if err \<noteq> None then ([], w)
         else
           let (_, w) = lx_WriteFile lx (Join [keep, ''failed-stage.txt'']) (stage @ [CHR 0x0A]) w;
               debugDir = Join [root, ''debug''];
               (st, w) = lx_Stat lx debugDir w;
               w = (if isl st then w else snd (lx_Rename lx debugDir (Join [keep, ''debug'']) w));
               (entries, w) = lx_ReadDir lx root w
           in (keep, moveLogs lx root keep (case entries of Inl _ \<Rightarrow> [] | Inr es \<Rightarrow> es) w))"

text \<open>The containers are deleted in reverse order; the result is the first error.\<close>

fun deleteContainers ::
    "'w linux \<Rightarrow> gvisor \<Rightarrow> string \<Rightarrow> gvisor_restore_container list \<Rightarrow> 'w \<Rightarrow> go_error option \<times> 'w" where
  "deleteContainers lx g root [] w = (None, w)"
| "deleteContainers lx g root (c # cs) w =
     (let (err, w) = runsc lx g [''--root'', root, ''delete'', ''-force'', gc_ID c] w;
          w = teardownImageRootfs lx (Join [root, ''bundles'', gc_ID c]) w;
          (first, w) = deleteContainers lx g root cs w
      in (if err \<noteq> None then err else first, w))"

definition cleanupFailed ::
    "('i, 'w) gvisor_env \<Rightarrow> gvisor \<Rightarrow> string \<Rightarrow> gvisor_restore_container list \<Rightarrow> string \<Rightarrow> 'w \<Rightarrow> string \<times> 'w" where
  "cleanupFailed env g name containers stage w =
     (let lx = ge_Linux env;
          root = Join [gv_RestoreRoot g, name];
          (keep, w) = preserveFailedLogs lx g name stage w;
          (_, w) = deleteContainers lx g root (rev containers) w;
          (info, w) = loadRestoreNetInfo lx (ge_Json env) g name w;
          w = (case info of Inl _ \<Rightarrow> w | Inr info \<Rightarrow> snd (deleteRestoreNetwork lx info w));
          (_, w) = lx_Remove lx (restoreNetInfoPath g name) w;
          (_, w) = lx_RemoveAll lx root w
      in (keep, w))"

text \<open>The root container: the first sandbox with an ID, or else the first container, which becomes one.\<close>

definition pickRoot ::
    "gvisor_restore_container list \<Rightarrow> string \<times> gvisor_restore_container list" where
  "pickRoot containers =
     (let rootCID = (case find gc_Sandbox containers of Some c \<Rightarrow> gc_ID c | None \<Rightarrow> []) in
      if rootCID \<noteq> [] then (rootCID, containers)
      else (gc_ID (hd containers), (hd containers)\<lparr>gc_Sandbox := True\<rparr> # tl containers))"

text \<open>
  One container is created and restored inside the network; an error carries the stage for the name of the
  preserved logs.
\<close>

definition restoreContainer ::
    "('i, 'w) gvisor_env \<Rightarrow> gvisor \<Rightarrow> string \<Rightarrow> string \<Rightarrow> string \<Rightarrow> string \<Rightarrow> gvisor_restore_container \<Rightarrow> 'w \<Rightarrow>
     (string \<times> string \<times> go_error) option \<times> 'w" where
  "restoreContainer env g root netns imagePath rootCID c w =
     (let lx = ge_Linux env;
          debugDir = Join [root, ''debug''];
          bundleDir = Join [root, ''bundles'', gc_ID c];
          (err, w) = writeGVisorRestoreBundle env bundleDir c rootCID w
      in case err of
           Some e \<Rightarrow> (Some (''write-bundle-'' @ gc_ID c, ''write restore bundle %s: %w (logs: %s)'', e), w)
         | None \<Rightarrow>
             let (_, w) = ensureRestoreCgroup lx (gc_ID c) w;
                 (err, w) = runInNetworkNamespace lx g netns
                   (gvisorCreateArgs root bundleDir (gc_ID c) debugDir (gc_Sandbox c))
                   (Join [root, ''create-'' @ gc_ID c @ ''.log'']) w
             in case err of
                  Some e \<Rightarrow> (Some (''create-'' @ gc_ID c, ''runsc create %s: %w (logs: %s)'', e), w)
                | None \<Rightarrow>
                    let restoreLog = Join [root, ''restore-'' @ gc_ID c @ ''.log''];
                        (err, w) = runInNetworkNamespace lx g netns
                          (gvisorRestoreArgs root bundleDir imagePath (gc_ID c) debugDir (gc_Sandbox c))
                          restoreLog w
                    in case err of
                         Some e \<Rightarrow>
                           (Some (''restore-'' @ gc_ID c, ''runsc restore %s: %w (logs: %s)'', e),
                            snd (lx_ReadFile lx restoreLog w))
                       | None \<Rightarrow> (None, w))"

fun restoreContainers ::
    "('i, 'w) gvisor_env \<Rightarrow> gvisor \<Rightarrow> string \<Rightarrow> string \<Rightarrow> string \<Rightarrow> string \<Rightarrow> gvisor_restore_container list \<Rightarrow>
     gvisor_restore_container list \<Rightarrow> 'w \<Rightarrow> go_error option \<times> 'w" where
  "restoreContainers env g name netns imagePath rootCID containers [] w = (None, w)"
| "restoreContainers env g name netns imagePath rootCID containers (c # cs) w =
     (let (failed, w) = restoreContainer env g (Join [gv_RestoreRoot g, name]) netns imagePath rootCID c w in
      case failed of
        Some (stage, fmt, e) \<Rightarrow>
          let (keep, w) = cleanupFailed env g name containers stage w
          in (Some (Errorf fmt [FS (gc_ID c), FW e, FS keep]), w)
      | None \<Rightarrow> restoreContainers env g name netns imagePath rootCID containers cs w)"

text \<open>The part of a restore that needs the network: any failure cleans up.\<close>

definition restoreInNetwork ::
    "('i, 'w) gvisor_env \<Rightarrow> gvisor \<Rightarrow> string \<Rightarrow> string \<Rightarrow> string \<Rightarrow> gvisor_restore_container list \<Rightarrow> 'w \<Rightarrow>
     (go_error + runtime_id) \<times> 'w" where
  "restoreInNetwork env g name netns src containers w =
     (let root = Join [gv_RestoreRoot g, name];
          (err, w) = lx_MkdirAll (ge_Linux env) (Join [root, ''debug'']) w
      in case err of
           Some e \<Rightarrow>
             let (_, w) = cleanupFailed env g name containers ''mkdir-debug'' w
             in (Inl (Errorf ''mkdir debug log dir: %w'' [FW e]), w)
         | None \<Rightarrow>
             let (rootCID, containers) = pickRoot containers;
                 (err, w) = restoreContainers env g name netns src rootCID containers containers w
             in case err of
                  Some e \<Rightarrow> (Inl e, w)
                | None \<Rightarrow>
                    let (err, w) = writeGVisorContainersFile env root containers w in
                    case err of
                      Some e \<Rightarrow>
                        let (keep, w) = cleanupFailed env g name containers ''persist-containers'' w
                        in (Inl (Errorf ''persist restore containers: %w (logs: %s)'' [FW e, FS keep]), w)
                    | None \<Rightarrow> (Inr (gvisorIDPrefix @ name), w))"

definition gvisorLoadSnapshot ::
    "('i, 'w) gvisor_env \<Rightarrow> gvisor \<Rightarrow> load_request \<Rightarrow> 'w \<Rightarrow> (go_error + runtime_id) \<times> 'w" where
  "gvisorLoadSnapshot env g req w =
     (if ld_SourceDir req = [] then (Inl (Errorf ''source dir is required'' []), w)
      else
        let lx = ge_Linux env; (listed, w) = readGVisorContainersFile env (ld_SourceDir req) w in
        case listed of
          Inl e \<Rightarrow> (Inl (Errorf ''read restore containers: %w'' [FW e]), w)
        | Inr containers \<Rightarrow>
            let (err, containers) = fillGVisorContainerImages (pauseImageRef lx) (ld_AppImage req) containers in
            case err of
              Some e \<Rightarrow> (Inl e, w)
            | None \<Rightarrow>
                let name = RestoredName (ld_Identity req);
                    root = Join [gv_RestoreRoot g, name];
                    (_, w) = lx_RemoveAll lx root w;
                    (_, w) = lx_Remove lx (restoreNetInfoPath g name) w;
                    (err, w) = lx_MkdirAll lx root w
                in case err of
                     Some e \<Rightarrow> (Inl e, w)
                   | None \<Rightarrow>
                       let (net, w) = createRestoreNetwork lx (ge_Json env) g (ld_SlotID req) name w in
                       case net of
                         Inl e \<Rightarrow>
                           let (_, w) = lx_RemoveAll lx root w
                           in (Inl (Errorf ''setup restore network: %w'' [FW e]), w)
                       | Inr net \<Rightarrow> restoreInNetwork env g name (ni_Netns net) (ld_SourceDir req) containers w)"

subsection \<open>Restored sandboxes\<close>

definition gvisorDeleteRestored ::
    "('i, 'w) gvisor_env \<Rightarrow> gvisor \<Rightarrow> runtime_id \<Rightarrow> 'w \<Rightarrow> go_error option \<times> 'w" where
  "gvisorDeleteRestored env g rid w =
     (let lx = ge_Linux env; (name, ok) = StripPrefix rid gvisorIDPrefix in
      if \<not> ok then (Some (Errorf ''not a restored runsc id: %q'' [FS rid]), w)
      else
        let root = Join [gv_RestoreRoot g, name];
            (listed, w) = readGVisorContainersFile env root w;
            containers =
              (case listed of
                 Inr cs \<Rightarrow> cs
               | Inl _ \<Rightarrow> [\<lparr>gc_ID = name, gc_Name = [], gc_Sandbox = True, gc_Image = [], gc_RootfsTar = []\<rparr>]);
            (first, w) = deleteContainers lx g root (rev containers) w;
            (_, w) = lx_RemoveAll lx root w;
            (info, w) = loadRestoreNetInfo lx (ge_Json env) g name w;
            w = (case info of
                   Inl _ \<Rightarrow> w
                 | Inr info \<Rightarrow>
                     let (_, w) = deleteRestoreNetwork lx info w
                     in snd (lx_Remove lx (restoreNetInfoPath g name) w))
        in (first, w))"

definition gvisorExecRestored ::
    "('i, 'w) gvisor_env \<Rightarrow> gvisor \<Rightarrow> runtime_id \<Rightarrow> exec_request \<Rightarrow> 'w \<Rightarrow> (go_error + exec_result) \<times> 'w" where
  "gvisorExecRestored env g rid req w =
     (let lx = ge_Linux env; (name, ok) = StripPrefix rid gvisorIDPrefix in
      if \<not> ok then (Inl (Errorf ''not a restored runsc id: %q'' [FS rid]), w)
      else
        let timeout = (if eq_Timeout req \<le> 0 then 30 * 1000000000 else eq_Timeout req);
            root = Join [gv_RestoreRoot g, name];
            (listed, w) = readGVisorContainersFile env root w;
            containers =
              (case listed of
                 Inr cs \<Rightarrow> cs
               | Inl _ \<Rightarrow> [\<lparr>gc_ID = name, gc_Name = [], gc_Sandbox = False, gc_Image = [], gc_RootfsTar = []\<rparr>]);
            cid = gvisorAppContainerID containers
        in if cid = [] then (Inl (Errorf ''no app container for restored %q'' [FS name]), w)
           else
             let (info, w) = loadRestoreNetInfo lx (ge_Json env) g name w in
             case info of
               Inl e \<Rightarrow> (Inl (Errorf ''load restore netns: %w'' [FW e]), w)
             | Inr info \<Rightarrow>
                 execInNetworkNamespace lx g (ni_Netns info)
                   ([''--root'', root, ''--network=host''] @ gvisorDebugFlags (Join [root, ''debug'']) @
                    [''exec'', cid] @ eq_Command req) timeout w)"

definition BestEffortCleanupCRI :: "'w linux \<Rightarrow> gvisor option \<Rightarrow> string \<Rightarrow> 'w \<Rightarrow> 'w" where
  "BestEffortCleanupCRI lx g podSandboxID w =
     (case g of
        None \<Rightarrow> w
      | Some g \<Rightarrow>
          if podSandboxID = [] \<or> gv_SourceRoot g = [] then w
          else snd (runsc lx g [''--root'', gv_SourceRoot g, ''delete'', ''-force'', podSandboxID] w))"

text \<open>The snapshotter the Worker's registry holds for gVisor; a save leaves the sandbox running.\<close>

definition gvisorSnapshotter :: "('i, 'w) gvisor_env \<Rightarrow> gvisor \<Rightarrow> 'w snapshotter" where
  "gvisorSnapshotter env g =
     \<lparr>sh_FormatVersion = gvisorFormatVersion,
      sh_SaveSnapshot = gvisorSaveSnapshot env g,
      sh_LoadSnapshot = gvisorLoadSnapshot env g,
      sh_DeleteRestored = gvisorDeleteRestored env g,
      sh_ExecRestored = gvisorExecRestored env g,
      sh_TearsDownOnSave = None\<rparr>"

end
