(* ===== verification/GvisorTrace.thy ===== *)
theory GvisorTrace
  imports Gvisor
begin

text \<open>
  A host that remembers which \<open>runsc\<close> commands were run, and in which network namespace.  Every host has
  such a traced version, so what is shown of the trace holds for every behaviour of the kernel, of
  \<open>runsc\<close> and of containerd.
\<close>

subsection \<open>The traced host\<close>

record 'w traced =
  tr_World :: 'w
  tr_Netns :: "string option"
  tr_Runs :: "(string option \<times> string list) list"

definition quietly :: "('w \<Rightarrow> 'r \<times> 'w) \<Rightarrow> 'w traced \<Rightarrow> 'r \<times> 'w traced" where
  "quietly f s = (let (r, w) = f (tr_World s) in (r, s\<lparr>tr_World := w\<rparr>))"

definition noting :: "string list \<Rightarrow> ('w \<Rightarrow> 'r \<times> 'w) \<Rightarrow> 'w traced \<Rightarrow> 'r \<times> 'w traced" where
  "noting args f s =
     (let (r, w) = f (tr_World s)
      in (r, s\<lparr>tr_World := w, tr_Runs := tr_Runs s @ [(tr_Netns s, args)]\<rparr>))"

definition entering :: "string \<Rightarrow> ('w \<Rightarrow> go_error option \<times> 'w) \<Rightarrow> 'w traced \<Rightarrow> go_error option \<times> 'w traced" where
  "entering ns f s =
     (let (err, w) = f (tr_World s)
      in (err, s\<lparr>tr_World := w, tr_Netns := (if err = None then Some ns else tr_Netns s)\<rparr>))"

definition tracedLinux :: "'w linux \<Rightarrow> 'w traced linux" where
  "tracedLinux lx =
     \<lparr>lx_Mkdir = (\<lambda>p. quietly (lx_Mkdir lx p)),
      lx_MkdirAll = (\<lambda>p. quietly (lx_MkdirAll lx p)),
      lx_Remove = (\<lambda>p. quietly (lx_Remove lx p)),
      lx_RemoveAll = (\<lambda>p. quietly (lx_RemoveAll lx p)),
      lx_Rename = (\<lambda>p q. quietly (lx_Rename lx p q)),
      lx_WriteFile = (\<lambda>p b. quietly (lx_WriteFile lx p b)),
      lx_ReadFile = (\<lambda>p. quietly (lx_ReadFile lx p)),
      lx_ReadDir = (\<lambda>p. quietly (lx_ReadDir lx p)),
      lx_Stat = (\<lambda>p. quietly (lx_Stat lx p)),
      lx_CreateTemp = (\<lambda>p. quietly (lx_CreateTemp lx p)),
      lx_OpenLog = (\<lambda>p. quietly (lx_OpenLog lx p)),
      lx_CombinedOutput = (\<lambda>args. quietly (lx_CombinedOutput lx args)),
      lx_RunStderr = (\<lambda>args. noting args (lx_RunStderr lx args)),
      lx_RunLogged = (\<lambda>args out. noting args (lx_RunLogged lx args out)),
      lx_RunTimed = (\<lambda>args t out err. noting args (lx_RunTimed lx args t out err)),
      lx_OpenNetNS = (\<lambda>p. quietly (lx_OpenNetNS lx p)),
      lx_OpenOwnNetNS = quietly (lx_OpenOwnNetNS lx),
      lx_SetNetNS = (\<lambda>ns. entering ns (lx_SetNetNS lx ns)),
      lx_LeaveNetNS = (\<lambda>s. s\<lparr>tr_World := lx_LeaveNetNS lx (tr_World s), tr_Netns := None\<rparr>),
      lx_IsCgroup2 = (\<lambda>p. quietly (lx_IsCgroup2 lx p)),
      lx_MountBind = (\<lambda>p q. quietly (lx_MountBind lx p q)),
      lx_RemountBind = (\<lambda>p. quietly (lx_RemountBind lx p)),
      lx_MountOverlay = (\<lambda>p opts. quietly (lx_MountOverlay lx p opts)),
      lx_UnmountDetach = (\<lambda>p. quietly (lx_UnmountDetach lx p)),
      lx_Fsopen = quietly (lx_Fsopen lx),
      lx_FsconfigSetString = (\<lambda>fd k v. quietly (lx_FsconfigSetString lx fd k v)),
      lx_FsconfigCreate = (\<lambda>fd. quietly (lx_FsconfigCreate lx fd)),
      lx_Fsmount = (\<lambda>fd. quietly (lx_Fsmount lx fd)),
      lx_MoveMount = (\<lambda>fd p. quietly (lx_MoveMount lx fd p)),
      lx_Close = (\<lambda>fd s. s\<lparr>tr_World := lx_Close lx fd (tr_World s)\<rparr>),
      lx_Getenv = lx_Getenv lx,
      lx_IsExist = lx_IsExist lx,
      lx_ExitCode = lx_ExitCode lx\<rparr>"

definition tracedContainerd :: "('i, 'w) containerd \<Rightarrow> ('i, 'w traced) containerd" where
  "tracedContainerd ci =
     \<lparr>ci_Connect = (\<lambda>a. quietly (ci_Connect ci a)),
      ci_Close = (\<lambda>s. s\<lparr>tr_World := ci_Close ci (tr_World s)\<rparr>),
      ci_GetImage = (\<lambda>ns r. quietly (ci_GetImage ci ns r)),
      ci_Pull = (\<lambda>ns r. quietly (ci_Pull ci ns r)),
      ci_IsUnpacked = (\<lambda>ns i. quietly (ci_IsUnpacked ci ns i)),
      ci_Unpack = (\<lambda>ns i. quietly (ci_Unpack ci ns i)),
      ci_RootFS = (\<lambda>ns i. quietly (ci_RootFS ci ns i)),
      ci_ChainID = ci_ChainID ci,
      ci_View = (\<lambda>ns k p. quietly (ci_View ci ns k p)),
      ci_RemoveSnapshot = (\<lambda>ns k. quietly (ci_RemoveSnapshot ci ns k)),
      ci_ParseDockerRef = ci_ParseDockerRef ci,
      ci_ShowMounts = ci_ShowMounts ci\<rparr>"

definition tracedEnv :: "('i, 'w) gvisor_env \<Rightarrow> ('i, 'w traced) gvisor_env" where
  "tracedEnv env =
     \<lparr>ge_Linux = tracedLinux (ge_Linux env), ge_Containerd = tracedContainerd (ge_Containerd env),
      ge_Json = ge_Json env\<rparr>"

definition startTrace :: "'w \<Rightarrow> 'w traced" where
  "startTrace w = \<lparr>tr_World = w, tr_Netns = None, tr_Runs = []\<rparr>"

subsection \<open>Quiet operations\<close>

text \<open>What a quiet operation leaves as it was.\<close>

definition note_of :: "'w traced \<Rightarrow> string option \<times> (string option \<times> string list) list" where
  "note_of s = (tr_Netns s, tr_Runs s)"

named_theorems noted \<open>how an operation changes the trace\<close>

lemma quietly_note [noted]: "note_of (snd (quietly f s)) = note_of s"
  by (simp add: quietly_def note_of_def split_beta)

lemma world_note [noted]: "note_of (s\<lparr>tr_World := w\<rparr>) = note_of s"
  by (simp add: note_of_def)

lemma traced_fields [simp]:
  "ge_Linux (tracedEnv env) = tracedLinux (ge_Linux env)"
  "ge_Containerd (tracedEnv env) = tracedContainerd (ge_Containerd env)"
  "ge_Json (tracedEnv env) = ge_Json env"
  "lx_Getenv (tracedLinux lx) = lx_Getenv lx"
  by (simp_all add: tracedEnv_def tracedLinux_def)

lemma linux_notes [noted]:
  "note_of (snd (lx_Mkdir (tracedLinux lx) p s)) = note_of s"
  "note_of (snd (lx_MkdirAll (tracedLinux lx) p s)) = note_of s"
  "note_of (snd (lx_Remove (tracedLinux lx) p s)) = note_of s"
  "note_of (snd (lx_RemoveAll (tracedLinux lx) p s)) = note_of s"
  "note_of (snd (lx_Rename (tracedLinux lx) p q s)) = note_of s"
  "note_of (snd (lx_WriteFile (tracedLinux lx) p b s)) = note_of s"
  "note_of (snd (lx_ReadFile (tracedLinux lx) p s)) = note_of s"
  "note_of (snd (lx_ReadDir (tracedLinux lx) p s)) = note_of s"
  "note_of (snd (lx_Stat (tracedLinux lx) p s)) = note_of s"
  "note_of (snd (lx_OpenLog (tracedLinux lx) p s)) = note_of s"
  "note_of (snd (lx_CombinedOutput (tracedLinux lx) args s)) = note_of s"
  "note_of (snd (lx_OpenNetNS (tracedLinux lx) p s)) = note_of s"
  "note_of (snd (lx_OpenOwnNetNS (tracedLinux lx) s)) = note_of s"
  "note_of (snd (lx_MountOverlay (tracedLinux lx) p opts s)) = note_of s"
  "note_of (snd (lx_UnmountDetach (tracedLinux lx) p s)) = note_of s"
  "note_of (snd (lx_Fsopen (tracedLinux lx) s)) = note_of s"
  "note_of (snd (lx_FsconfigSetString (tracedLinux lx) fd k v s)) = note_of s"
  "note_of (snd (lx_FsconfigCreate (tracedLinux lx) fd s)) = note_of s"
  "note_of (snd (lx_Fsmount (tracedLinux lx) fd s)) = note_of s"
  "note_of (snd (lx_MoveMount (tracedLinux lx) fd p s)) = note_of s"
  "note_of (lx_Close (tracedLinux lx) fd s) = note_of s"
  by (simp_all add: tracedLinux_def noted)

lemma containerd_notes [noted]:
  "note_of (snd (ci_Connect (tracedContainerd ci) a s)) = note_of s"
  "note_of (ci_Close (tracedContainerd ci) s) = note_of s"
  "note_of (snd (ci_GetImage (tracedContainerd ci) ns r s)) = note_of s"
  "note_of (snd (ci_Pull (tracedContainerd ci) ns r s)) = note_of s"
  "note_of (snd (ci_IsUnpacked (tracedContainerd ci) ns i s)) = note_of s"
  "note_of (snd (ci_Unpack (tracedContainerd ci) ns i s)) = note_of s"
  "note_of (snd (ci_RootFS (tracedContainerd ci) ns i s)) = note_of s"
  "note_of (snd (ci_View (tracedContainerd ci) ns k p s)) = note_of s"
  "note_of (snd (ci_RemoveSnapshot (tracedContainerd ci) ns k s)) = note_of s"
  by (simp_all add: tracedContainerd_def noted)

text \<open>A result keeps a trace when its world has it; the rules follow the control flow of an operation.\<close>

definition kept :: "string option \<times> (string option \<times> string list) list \<Rightarrow> 'r \<times> 'w traced \<Rightarrow> bool" where
  "kept n r \<longleftrightarrow> note_of (snd r) = n"

lemma keptD: "kept (note_of s) r \<Longrightarrow> note_of (snd r) = note_of s"
  by (simp add: kept_def)

lemma kept_pair: "note_of b = n \<Longrightarrow> kept n (a, b)"
  by (simp add: kept_def)

lemma kept_bind:
  "kept n f \<Longrightarrow> (\<And>a b. note_of b = n \<Longrightarrow> kept n (g a b)) \<Longrightarrow> kept n (let (a, b) = f in g a b)"
  by (simp add: kept_def split_beta)

lemma kept_prod: "(\<And>x y. kept n (h x y b)) \<Longrightarrow> kept n (case_prod h p b)"
  by (simp add: split_beta)

lemma kept_world: "note_of v = n \<Longrightarrow> (\<And>w. note_of w = n \<Longrightarrow> kept n (g w)) \<Longrightarrow> kept n (let w = v in g w)"
  for v :: "'w traced"
  by simp

lemma kept_let: "kept n (g x) \<Longrightarrow> kept n (let y = x in g y)"
  by simp

lemma kept_if: "(c \<Longrightarrow> kept n a) \<Longrightarrow> (\<not> c \<Longrightarrow> kept n b) \<Longrightarrow> kept n (if c then a else b)"
  by simp

lemma kept_option:
  "kept n a \<Longrightarrow> (\<And>x. kept n (f x)) \<Longrightarrow> kept n (case v of None \<Rightarrow> a | Some x \<Rightarrow> f x)"
  by (simp split: option.split)

lemma kept_sum:
  "(\<And>x. kept n (f x)) \<Longrightarrow> (\<And>y. kept n (g y)) \<Longrightarrow> kept n (case v of Inl x \<Rightarrow> f x | Inr y \<Rightarrow> g y)"
  by (simp split: sum.split)

lemma kept_bool: "kept n a \<Longrightarrow> kept n b \<Longrightarrow> kept n (case v of True \<Rightarrow> a | False \<Rightarrow> b)"
  by (simp split: bool.split)

lemmas kept_intros = kept_bind kept_prod kept_pair kept_world kept_let kept_if kept_option kept_sum kept_bool

lemma runIPCommand_note [noted]: "note_of (snd (runIPCommand (tracedLinux lx) args s)) = note_of s"
  unfolding runIPCommand_def by (rule keptD, intro kept_intros) (simp_all add: noted kept_def)

lemma deleteRestoreNetwork_note [noted]:
  "note_of (snd (deleteRestoreNetwork (tracedLinux lx) info s)) = note_of s"
  unfolding deleteRestoreNetwork_def by (rule keptD, intro kept_intros) (simp_all add: noted kept_def)

lemma ensureSharedBridge_note [noted]: "note_of (snd (ensureSharedBridge (tracedLinux lx) s)) = note_of s"
  unfolding ensureSharedBridge_def by (rule keptD, intro kept_intros) (simp_all add: noted kept_def)

lemma ensureIptablesRule_note [noted]:
  "note_of (snd (ensureIptablesRule (tracedLinux lx) a args s)) = note_of s"
  unfolding ensureIptablesRule_def by (rule keptD, intro kept_intros) (simp_all add: noted kept_def)

lemma ensureOutboundNAT_note [noted]: "note_of (ensureOutboundNAT (tracedLinux lx) s) = note_of s"
  by (simp add: ensureOutboundNAT_def noted split_beta)

lemma saveRestoreNetInfo_note [noted]:
  "note_of (snd (saveRestoreNetInfo (tracedLinux lx) js g name info s)) = note_of s"
  unfolding saveRestoreNetInfo_def by (rule keptD, intro kept_intros) (simp_all add: noted kept_def)

lemma loadRestoreNetInfo_note [noted]:
  "note_of (snd (loadRestoreNetInfo (tracedLinux lx) js g name s)) = note_of s"
  unfolding loadRestoreNetInfo_def by (rule keptD, intro kept_intros) (simp_all add: noted kept_def)

lemma diagRun_note [noted]: "note_of (snd (diagRun (tracedLinux lx) title args s)) = note_of (snd s)"
  by (simp add: diagRun_def noted split_beta)

lemma diagRuns_note [noted]:
  "note_of (snd (foldl (\<lambda>s (title, args). diagRun (tracedLinux lx) title args s) s runs)) = note_of (snd s)"
  by (induction runs arbitrary: s) (auto simp: noted)

lemma runLinkSteps_note [noted]:
  "note_of (snd (runLinkSteps (tracedLinux lx) info steps s)) = note_of s"
  by (induction steps arbitrary: s) (auto simp: noted split_beta Let_def split: option.split)


lemma writeRestoreNetworkDiag_note [noted]:
  "note_of (writeRestoreNetworkDiag (tracedLinux lx) g name info cfg s) = note_of s"
  by (simp add: writeRestoreNetworkDiag_def noted split_beta Let_def diagRuns_note [simplified split_beta]
      split: sum.split option.split del: foldl.simps)

lemma createRestoreNetwork_note [noted]:
  "note_of (snd (createRestoreNetwork (tracedLinux lx) js g slotID name s)) = note_of s"
  unfolding createRestoreNetwork_def by (rule keptD, intro kept_intros) (simp_all add: noted kept_def)

lemma inPrivateCgroupNamespace_note [noted]:
  "note_of (snd (inPrivateCgroupNamespace (tracedLinux lx) s)) = note_of s"
  by (simp add: inPrivateCgroupNamespace_def noted split_beta)

lemma currentCgroupV2RelPath_note [noted]:
  "note_of (snd (currentCgroupV2RelPath (tracedLinux lx) s)) = note_of s"
  by (simp add: currentCgroupV2RelPath_def noted split_beta)

lemma restoreCgroupsPath_note [noted]:
  "note_of (snd (restoreCgroupsPath (tracedLinux lx) name s)) = note_of s"
  unfolding restoreCgroupsPath_def by (rule keptD, intro kept_intros) (simp_all add: noted kept_def)

lemma ensureRestoreCgroup_note [noted]:
  "note_of (snd (ensureRestoreCgroup (tracedLinux lx) name s)) = note_of s"
  unfolding ensureRestoreCgroup_def by (rule keptD, intro kept_intros) (simp_all add: noted kept_def)

lemma findLocalImage_note [noted]:
  "note_of (snd (findLocalImage (tracedContainerd ci) ns cs lastErr s)) = note_of s"
  by (induction cs arbitrary: lastErr s) (auto simp: noted split_beta Let_def split: sum.split)

lemma getOrPullContainerdImage_note [noted]:
  "note_of (snd (getOrPullContainerdImage (tracedContainerd ci) ns ref s)) = note_of s"
  unfolding getOrPullContainerdImage_def by (rule keptD, intro kept_intros) (simp_all add: noted kept_def)

lemma setOverlayOptions_note [noted]:
  "note_of (snd (setOverlayOptions (tracedLinux lx) fd opts s)) = note_of s"
  by (induction opts arbitrary: s) (auto simp: noted split_beta Let_def split: option.split)

lemma mountOverlayFSConfig_note [noted]:
  "note_of (snd (mountOverlayFSConfig (tracedLinux lx) m lowers u wk s)) = note_of s"
  unfolding mountOverlayFSConfig_def by (rule keptD, intro kept_intros) (simp_all add: noted kept_def)

lemma mountOverlayLowers_note [noted]:
  "note_of (snd (mountOverlayLowers (tracedLinux lx) m lowers u wk s)) = note_of s"
  unfolding mountOverlayLowers_def mountOverlayClassic_def
  by (rule keptD, intro kept_intros) (simp_all add: noted kept_def)

lemma mkdirAllOf_note [noted]: "note_of (snd (mkdirAllOf (tracedLinux lx) ds s)) = note_of s"
  by (induction ds arbitrary: s) (auto simp: noted split_beta Let_def)

lemma mkdirs_note [noted]:
  "note_of (foldl (\<lambda>s d. snd (lx_MkdirAll (tracedLinux lx) (f d) s)) s ds) = note_of s"
  by (induction ds arbitrary: s) (auto simp: noted)

lemma layersOf_note [noted]:
  "note_of (snd (layersOf (tracedLinux lx) (tracedContainerd ci) ref dir s)) = note_of s"
  unfolding layersOf_def by (rule keptD, intro kept_intros) (simp_all add: noted kept_def)

lemma setupImageRootfs_note [noted]:
  "note_of (snd (setupImageRootfs (tracedLinux lx) (tracedContainerd ci) ref dir s)) = note_of s"
  unfolding setupImageRootfs_def by (rule keptD, intro kept_intros) (simp_all add: noted kept_def del: foldl.simps mkdirAllOf.simps)

lemma teardownImageRootfs_note [noted]: "note_of (teardownImageRootfs (tracedLinux lx) dir s) = note_of s"
  by (simp add: teardownImageRootfs_def noted)

lemma readGVisorContainersFile_note [noted]:
  "note_of (snd (readGVisorContainersFile (tracedEnv env) dir s)) = note_of s"
  by (simp add: readGVisorContainersFile_def noted split_beta)

lemma writeGVisorContainersFile_note [noted]:
  "note_of (snd (writeGVisorContainersFile (tracedEnv env) dir cs s)) = note_of s"
  unfolding writeGVisorContainersFile_def by (rule keptD, intro kept_intros) (simp_all add: noted kept_def)

lemma writeMissingFiles_note [noted]:
  "note_of (snd (writeMissingFiles (tracedLinux lx) dir files s)) = note_of s"
  by (induction files arbitrary: s) (auto simp: noted split_beta Let_def)

lemma writeFiles_note [noted]: "note_of (snd (writeFiles (tracedLinux lx) files s)) = note_of s"
  by (induction files arbitrary: s) (auto simp: noted split_beta Let_def)

lemma gvisorRestoreEtcMounts_note [noted]:
  "note_of (snd (gvisorRestoreEtcMounts (tracedLinux lx) dir hostname s)) = note_of s"
  unfolding gvisorRestoreEtcMounts_def ensureRootfsEtcFiles_def
  by (rule keptD, intro kept_intros)
    (simp_all add: noted kept_def split_beta Let_def del: writeFiles.simps writeMissingFiles.simps)

lemma writeGVisorRestoreConfig_note [noted]:
  "note_of (snd (writeGVisorRestoreConfig (tracedEnv env) dir c root s)) = note_of s"
  unfolding writeGVisorRestoreConfig_def by (rule keptD, intro kept_intros) (simp_all add: noted kept_def)

lemma writeGVisorRestoreBundle_note [noted]:
  "note_of (snd (writeGVisorRestoreBundle (tracedEnv env) dir c root s)) = note_of s"
  unfolding writeGVisorRestoreBundle_def by (rule keptD, intro kept_intros) (simp_all add: noted kept_def)

lemma moveLogs_note [noted]: "note_of (moveLogs (tracedLinux lx) root keep es s) = note_of s"
  by (induction es arbitrary: s) (auto simp: noted)

lemma preserveFailedLogs_note [noted]:
  "note_of (snd (preserveFailedLogs (tracedLinux lx) g name stage s)) = note_of s"
  unfolding preserveFailedLogs_def by (rule keptD, intro kept_intros) (simp_all add: noted kept_def)

subsection \<open>Results\<close>

text \<open>The same rules for what an operation answers.\<close>

definition yields :: "('r \<Rightarrow> bool) \<Rightarrow> 'r \<times> 'w \<Rightarrow> bool" where
  "yields P r \<longleftrightarrow> P (fst r)"

lemma yieldsD: "yields P (r, w) \<Longrightarrow> P r"
  by (simp add: yields_def)

lemma yields_pair: "P a \<Longrightarrow> yields P (a, b)"
  by (simp add: yields_def)

lemma yields_bind: "(\<And>a b. yields P (g a b)) \<Longrightarrow> yields P (let (a, b) = f in g a b)"
  by (simp add: split_beta)

lemma yields_prod: "(\<And>x y. yields P (h x y b)) \<Longrightarrow> yields P (case_prod h p b)"
  by (simp add: split_beta)

lemma yields_let: "yields P (g x) \<Longrightarrow> yields P (let y = x in g y)"
  by simp

lemma yields_if: "(c \<Longrightarrow> yields P a) \<Longrightarrow> (\<not> c \<Longrightarrow> yields P b) \<Longrightarrow> yields P (if c then a else b)"
  by simp

lemma yields_option:
  "yields P a \<Longrightarrow> (\<And>x. yields P (f x)) \<Longrightarrow> yields P (case v of None \<Rightarrow> a | Some x \<Rightarrow> f x)"
  by (simp split: option.split)

lemma yields_sum:
  "(\<And>x. yields P (f x)) \<Longrightarrow> (\<And>y. yields P (g y)) \<Longrightarrow> yields P (case v of Inl x \<Rightarrow> f x | Inr y \<Rightarrow> g y)"
  by (simp split: sum.split)

lemmas yields_intros =
  yields_bind yields_prod yields_pair yields_let yields_if yields_option yields_sum

lemma traced_read_file:
  "lx_ReadFile (tracedLinux lx) path s =
     (let (r, w) = lx_ReadFile lx path (tr_World s) in (r, s\<lparr>tr_World := w\<rparr>))"
  by (simp add: tracedLinux_def quietly_def)

end
