(* ===== verification/GvisorProperties.thy ===== *)
theory GvisorProperties
  imports GvisorTrace
begin

text \<open>
  What the gVisor snapshotter guarantees: the commands of a restore, the container list of a saved
  checkpoint, deletion, the layers of an overlay and the guest addresses.
\<close>

subsection \<open>The commands of a restore\<close>

lemma runsc_note:
  "note_of s = (n, l) \<Longrightarrow>
     note_of (snd (runsc (tracedLinux lx) g args s)) = (n, l @ [(n, gv_RunscPath g # args)])"
  by (auto simp: runsc_def tracedLinux_def noting_def note_of_def split_beta Let_def)

definition deleteRun :: "gvisor \<Rightarrow> string \<Rightarrow> gvisor_restore_container \<Rightarrow> string option \<times> string list" where
  "deleteRun g root c = (None, gv_RunscPath g # [''--root'', root, ''delete'', ''-force'', gc_ID c])"

lemma deleteContainers_note:
  "note_of s = (None, l) \<Longrightarrow>
     note_of (snd (deleteContainers (tracedLinux lx) g root cs s)) = (None, l @ map (deleteRun g root) cs)"
proof (induction cs arbitrary: s l)
  case (Cons c cs)
  from Cons.IH [OF trans [OF teardownImageRootfs_note runsc_note [OF Cons.prems]]] show ?case
    by (simp add: split_beta Let_def deleteRun_def)
qed simp

lemma cleanupFailed_note:
  assumes "note_of s = (None, l)"
  shows "note_of (snd (cleanupFailed (tracedEnv env) g name cs stage s)) =
    (None, l @ map (deleteRun g (Join [gv_RestoreRoot g, name])) (rev cs))"
proof -
  let ?lx = "tracedLinux (ge_Linux env)"
  have "note_of (snd (preserveFailedLogs ?lx g name stage s)) = (None, l)"
    using assms by (simp add: noted)
  from deleteContainers_note [OF this] show ?thesis
    by (simp add: cleanupFailed_def split_beta Let_def noted split: sum.split)
qed

lemma runInNetworkNamespace_note:
  assumes "note_of s = (None, l)" "runInNetworkNamespace (tracedLinux lx) g ns args logPath s = (err, s')"
  shows "note_of s' = (None, l @ [(Some ns, gv_RunscPath g # args)]) \<or> err \<noteq> None \<and> note_of s' = (None, l)"
proof -
  have "tr_Netns s = None" "tr_Runs s = l"
    using assms(1) by (auto simp: note_of_def)
  then show ?thesis
    using assms(2)
    by (auto simp: runInNetworkNamespace_def doInNamedNetNS_def tracedLinux_def quietly_def noting_def
        entering_def note_of_def Let_def split: prod.splits option.splits if_splits)
qed

text \<open>The two commands that restore a container, both inside the network of the sandbox.\<close>

definition createRun ::
    "gvisor \<Rightarrow> string \<Rightarrow> string \<Rightarrow> gvisor_restore_container \<Rightarrow> string option \<times> string list" where
  "createRun g root netns c =
     (Some netns, gv_RunscPath g #
        gvisorCreateArgs root (Join [root, ''bundles'', gc_ID c]) (gc_ID c) (Join [root, ''debug'']) (gc_Sandbox c))"

definition restoreRun ::
    "gvisor \<Rightarrow> string \<Rightarrow> string \<Rightarrow> string \<Rightarrow> gvisor_restore_container \<Rightarrow> string option \<times> string list" where
  "restoreRun g root netns src c =
     (Some netns, gv_RunscPath g #
        gvisorRestoreArgs root (Join [root, ''bundles'', gc_ID c]) src (gc_ID c) (Join [root, ''debug''])
          (gc_Sandbox c))"

lemma restoreContainer_note:
  assumes "note_of s = (None, l)"
    and run: "restoreContainer (tracedEnv env) g root netns src rootCID c s = (failed, s')"
  shows "\<exists>k. note_of s' = (None, l @ take k [createRun g root netns c, restoreRun g root netns src c]) \<and>
    (failed = None \<longrightarrow> k = 2)"
proof -
  let ?lx = "tracedLinux (ge_Linux env)" and ?dir = "Join [root, ''bundles'', gc_ID c]"
  let ?runs = "[createRun g root netns c, restoreRun g root netns src c]"
  obtain err1 s1 where b: "writeGVisorRestoreBundle (tracedEnv env) ?dir c rootCID s = (err1, s1)"
    by fastforce
  obtain r2 s2 where cg: "ensureRestoreCgroup ?lx (gc_ID c) s1 = (r2, s2)"
    by fastforce
  obtain err3 s3 where cr: "runInNetworkNamespace ?lx g netns
      (gvisorCreateArgs root ?dir (gc_ID c) (Join [root, ''debug'']) (gc_Sandbox c))
      (Join [root, ''create-'' @ gc_ID c @ ''.log'']) s2 = (err3, s3)"
    by fastforce
  obtain err4 s4 where re: "runInNetworkNamespace ?lx g netns
      (gvisorRestoreArgs root ?dir src (gc_ID c) (Join [root, ''debug'']) (gc_Sandbox c))
      (Join [root, ''restore-'' @ gc_ID c @ ''.log'']) s3 = (err4, s4)"
    by fastforce
  have n1: "note_of s1 = (None, l)" and n2: "note_of s2 = (None, l)"
    using writeGVisorRestoreBundle_note [of env ?dir c rootCID s] b
      ensureRestoreCgroup_note [of "ge_Linux env" "gc_ID c" s1] cg assms(1) by auto
  have n3: "note_of s3 = (None, l @ take 1 ?runs) \<or> err3 \<noteq> None \<and> note_of s3 = (None, l)"
    using runInNetworkNamespace_note [OF n2 cr] by (simp add: createRun_def)
  show ?thesis
  proof (cases "err1 = None \<and> err3 = None")
    case True
    then have "note_of s3 = (None, l @ take 1 ?runs)"
      using n3 by simp
    from runInNetworkNamespace_note [OF this re]
    have "note_of s4 = (None, l @ take 2 ?runs) \<or> err4 \<noteq> None \<and> note_of s4 = (None, l @ take 1 ?runs)"
      by (simp add: restoreRun_def)
    moreover have "note_of s' = note_of s4" "failed = None \<longleftrightarrow> err4 = None"
      using True run unfolding restoreContainer_def
      by (auto simp: b cg cr re Let_def noted simp del: append_Cons split: option.splits)
    ultimately show ?thesis
      by metis
  next
    case False
    then have "failed \<noteq> None \<and> (s' = s1 \<or> s' = s3)"
      using run unfolding restoreContainer_def
      by (auto simp: b cg cr Let_def simp del: append_Cons split: option.splits prod.splits)
    then show ?thesis
      using n1 n3 take_0 [of ?runs] append_Nil2 by metis
  qed
qed


definition containerRuns ::
    "gvisor \<Rightarrow> string \<Rightarrow> string \<Rightarrow> string \<Rightarrow> gvisor_restore_container list \<Rightarrow> (string option \<times> string list) list" where
  "containerRuns g root netns src cs =
     concat (map (\<lambda>c. [createRun g root netns c, restoreRun g root netns src c]) cs)"

lemma restoreContainers_note:
  assumes "note_of s = (None, l)"
    and "restoreContainers (tracedEnv env) g name netns src rootCID containers cs s = (err, s')"
    and root: "root = Join [gv_RestoreRoot g, name]"
  shows "err = None \<and> note_of s' = (None, l @ containerRuns g root netns src cs) \<or>
    err \<noteq> None \<and> (\<exists>k. note_of s' =
      (None, l @ take k (containerRuns g root netns src cs) @ map (deleteRun g root) (rev containers)))"
  using assms(1,2)
proof (induction cs arbitrary: s l)
  case Nil
  then show ?case
    by (auto simp: containerRuns_def)
next
  case (Cons c cs)
  obtain failed s1 where r: "restoreContainer (tracedEnv env) g root netns src rootCID c s = (failed, s1)"
    by fastforce
  from restoreContainer_note [OF Cons.prems(1) r] obtain k where
    k: "note_of s1 = (None, l @ take k [createRun g root netns c, restoreRun g root netns src c])"
      "failed = None \<longrightarrow> k = 2"
    by auto
  show ?case
  proof (cases failed)
    case None
    with k have n1: "note_of s1 = (None, l @ [createRun g root netns c, restoreRun g root netns src c])"
      by simp
    have "restoreContainers (tracedEnv env) g name netns src rootCID containers cs s1 = (err, s')"
      using Cons.prems(2) r None by (simp add: root)
    from Cons.IH [OF n1 this] show ?thesis
    proof (elim disjE conjE exE)
      fix j
      assume "err \<noteq> None" "note_of s' = (None, (l @ [createRun g root netns c, restoreRun g root netns src c]) @
        take j (containerRuns g root netns src cs) @ map (deleteRun g root) (rev containers))"
      then show ?thesis
        by (intro disjI2 conjI exI [of _ "Suc (Suc j)"]) (simp_all add: containerRuns_def)
    qed (simp add: containerRuns_def)
  next
    case (Some f)
    obtain stage fmt e where f: "f = (stage, fmt, e)"
      by (cases f)
    have "note_of s' = (None, (l @ take k [createRun g root netns c, restoreRun g root netns src c]) @
        map (deleteRun g root) (rev containers))" "err \<noteq> None"
      using Cons.prems(2) r Some f cleanupFailed_note [OF k(1), of env g name containers stage]
      by (auto simp: root split_beta Let_def)
    moreover have "\<exists>j. take k [createRun g root netns c, restoreRun g root netns src c] =
        take j (containerRuns g root netns src (c # cs))"
      by (rule exI [of _ "min k 2"]) (auto simp: containerRuns_def take_Cons' min_def)
    ultimately show ?thesis
      by (metis append.assoc)
  qed
qed

text \<open>The containers a directory lists for a restore, with their images and the root container.\<close>

definition restorable ::
    "('i, 'w) gvisor_env \<Rightarrow> load_request \<Rightarrow> 'w \<Rightarrow> gvisor_restore_container list option" where
  "restorable env req w =
     (case fst (readGVisorContainersFile env (ld_SourceDir req) w) of
        Inl _ \<Rightarrow> None
      | Inr cs \<Rightarrow>
          (case fillGVisorContainerImages (pauseImageRef (ge_Linux env)) (ld_AppImage req) cs of
             (Some _, _) \<Rightarrow> None
           | (None, cs) \<Rightarrow> Some (snd (pickRoot cs))))"

lemma traced_read:
  "fst (readGVisorContainersFile (tracedEnv env) dir s) = fst (readGVisorContainersFile env dir (tr_World s))"
  by (simp add: readGVisorContainersFile_def traced_read_file split_beta Let_def split: sum.split)

lemma read_nonempty: "fst (readGVisorContainersFile env dir w) = Inr cs \<Longrightarrow> cs \<noteq> []"
  by (auto simp: readGVisorContainersFile_def split_beta Let_def split: sum.splits if_splits)

lemma fill_nonempty: "fillGVisorContainerImages p a cs = (err, cs') \<Longrightarrow> cs \<noteq> [] \<Longrightarrow> cs' \<noteq> []"
  by (cases cs) (auto simp: Let_def split: if_splits prod.splits)

lemma pickRoot_ids: "cs \<noteq> [] \<Longrightarrow> map gc_ID (snd (pickRoot cs)) = map gc_ID cs"
  by (cases cs) (auto simp: pickRoot_def Let_def)

lemma deleteRun_ids:
  assumes "map gc_ID cs = map gc_ID cs'"
  shows "map (deleteRun g root) (rev cs) = map (deleteRun g root) (rev cs')"
proof -
  have *: "map (deleteRun g root) (rev xs) =
      map (\<lambda>i. (None, gv_RunscPath g # [''--root'', root, ''delete'', ''-force'', i])) (rev (map gc_ID xs))" for xs
    by (simp add: deleteRun_def rev_map)
  show ?thesis
    by (simp only: * assms)
qed

lemma createRestoreNetwork_netns:
  assumes "createRestoreNetwork lx js g slotID name w = (Inr net, w')"
  shows "ni_Netns net = ''sfg'' @ Itoa slotID"
proof -
  have "yields (\<lambda>r. \<forall>net. r = Inr net \<longrightarrow> ni_Netns net = ''sfg'' @ Itoa slotID)
      (createRestoreNetwork lx js g slotID name w)"
    unfolding createRestoreNetwork_def by (intro yields_intros) auto
  from yieldsD [OF this [unfolded assms]] show ?thesis
    by simp
qed

lemma traced_pause [simp]: "pauseImageRef (tracedLinux lx) = pauseImageRef lx"
  by (simp add: pauseImageRef_def)

text \<open>How a restore ends: with the commands of all containers, or with a clean-up after some of them.\<close>

definition restored_well ::
    "gvisor \<Rightarrow> string \<Rightarrow> string \<Rightarrow> string \<Rightarrow> gvisor_restore_container list \<Rightarrow>
     (go_error + runtime_id) \<times> 'w traced \<Rightarrow> bool" where
  "restored_well g name netns src cs r \<longleftrightarrow>
     (let root = Join [gv_RestoreRoot g, name]; commands = containerRuns g root netns src cs in
      case fst r of
        Inr rid \<Rightarrow> rid = ''runsc:'' @ name \<and> note_of (snd r) = (None, commands)
      | Inl _ \<Rightarrow> \<exists>k. note_of (snd r) = (None, take k commands @ map (deleteRun g root) (rev cs)))"

lemma restored_well_failed:
  "note_of s = (None, take k (containerRuns g (Join [gv_RestoreRoot g, name]) netns src cs) @
       map (deleteRun g (Join [gv_RestoreRoot g, name])) (rev cs)) \<Longrightarrow>
   restored_well g name netns src cs (Inl e, s)"
  by (auto simp: restored_well_def Let_def)

lemma restoreInNetwork_well:
  assumes n: "note_of s = (None, [])" and pick: "pickRoot filled = (rootCID, cs)" and "filled \<noteq> []"
  shows "restored_well g name netns src cs (restoreInNetwork (tracedEnv env) g name netns src filled s)"
proof -
  let ?env = "tracedEnv env" and ?lx = "tracedLinux (ge_Linux env)" and ?root = "Join [gv_RestoreRoot g, name]"
  let ?commands = "containerRuns g ?root netns src cs"
  obtain e1 s1 where r1: "lx_MkdirAll ?lx (Join [?root, ''debug'']) s = (e1, s1)" by fastforce
  obtain e2 s2 where r2: "restoreContainers ?env g name netns src rootCID cs cs s1 = (e2, s2)" by fastforce
  obtain e3 s3 where r3: "writeGVisorContainersFile ?env ?root cs s2 = (e3, s3)" by fastforce
  have n1: "note_of s1 = (None, [])" and n3: "note_of s3 = note_of s2"
    using n linux_notes(2) [of "ge_Linux env" "Join [?root, ''debug'']" s] r1
      writeGVisorContainersFile_note [of env ?root cs s2] r3 by simp_all
  note run = restoreInNetwork_def [of ?env g name netns src filled s] and clean = cleanupFailed_note [of _ _ env g name]
  have n2: "e2 = None \<and> note_of s2 = (None, ?commands) \<or>
      e2 \<noteq> None \<and> (\<exists>k. note_of s2 = (None, take k ?commands @ map (deleteRun g ?root) (rev cs)))"
    using restoreContainers_note [OF n1 r2 refl] by simp
  consider (debug) e where "e1 = Some e" | (failed) e where "e1 = None" "e2 = Some e"
    | (persist) e where "e1 = None" "e2 = None" "e3 = Some e" | (finished) "e1 = None" "e2 = None" "e3 = None"
    by (cases e1; cases e2; cases e3) auto
  then show ?thesis
  proof cases
    case debug
    have "map (deleteRun g ?root) (rev filled) = map (deleteRun g ?root) (rev cs)"
      using pickRoot_ids [OF assms(3)] pick by (intro deleteRun_ids) simp
    with clean [OF n1, of filled "''mkdir-debug''"] show ?thesis
      using debug by (simp add: run r1 split_beta Let_def restored_well_failed [where k = 0])
  next
    case failed
    with n2 show ?thesis
      by (auto simp: run r1 r2 pick Let_def intro: restored_well_failed)
  next
    case persist
    with n2 n3 have "note_of s3 = (None, ?commands)"
      by simp
    from clean [OF this, of cs "''persist-containers''"] show ?thesis
      using persist
      by (simp add: run r1 r2 r3 pick Let_def split_beta restored_well_failed [where k = "length ?commands"])
  next
    case finished
    with n2 n3 show ?thesis
      by (simp add: run r1 r2 r3 pick Let_def restored_well_def gvisorIDPrefix_def)
  qed
qed

text \<open>What comes before is silent.\<close>

lemma load_begins:
  assumes "gvisorLoadSnapshot (tracedEnv env) g req (startTrace w) = r"
  shows "(isl (fst r) \<and> note_of (snd r) = (None, [])) \<or>
    (\<exists>filled rootCID cs s. restorable env req w = Some cs \<and> pickRoot filled = (rootCID, cs) \<and> filled \<noteq> [] \<and>
       note_of s = (None, []) \<and>
       r = restoreInNetwork (tracedEnv env) g (RestoredName (ld_Identity req)) (''sfg'' @ Itoa (ld_SlotID req))
             (ld_SourceDir req) filled s)"
proof -
  let ?env = "tracedEnv env" and ?lx = "tracedLinux (ge_Linux env)" and ?name = "RestoredName (ld_Identity req)"
  let ?root = "Join [gv_RestoreRoot g, ?name]"
  obtain listed s1 where r1: "readGVisorContainersFile ?env (ld_SourceDir req) (startTrace w) = (listed, s1)"
    by fastforce
  have plain: "fst (readGVisorContainersFile env (ld_SourceDir req) w) = listed"
    using traced_read [of env "ld_SourceDir req" "startTrace w"] r1 by (simp add: startTrace_def)
  have n1: "note_of s1 = (None, [])"
    using readGVisorContainersFile_note [of env "ld_SourceDir req" "startTrace w"] r1
    by (simp add: note_of_def startTrace_def)
  obtain e2 s2 where r2: "lx_RemoveAll ?lx ?root s1 = (e2, s2)" by fastforce
  obtain e3 s3 where r3: "lx_Remove ?lx (restoreNetInfoPath g ?name) s2 = (e3, s3)" by fastforce
  obtain e4 s4 where r4: "lx_MkdirAll ?lx ?root s3 = (e4, s4)" by fastforce
  obtain net s5 where r5: "createRestoreNetwork ?lx (ge_Json env) g (ld_SlotID req) ?name s4 = (net, s5)" by fastforce
  obtain e6 s6 where r6: "lx_RemoveAll ?lx ?root s5 = (e6, s6)" by fastforce
  have n: "note_of s4 = (None, [])" "note_of s5 = (None, [])" "note_of s6 = (None, [])"
    using n1 linux_notes(4) [of "ge_Linux env" ?root s1] r2
      linux_notes(3) [of "ge_Linux env" "restoreNetInfoPath g ?name" s2] r3
      linux_notes(2) [of "ge_Linux env" ?root s3] r4
      createRestoreNetwork_note [of "ge_Linux env" "ge_Json env" g "ld_SlotID req" ?name s4] r5
      linux_notes(4) [of "ge_Linux env" ?root s5] r6 by simp_all
  have start: "note_of (startTrace w) = (None, [])"
    by (simp add: note_of_def startTrace_def)
  note run = gvisorLoadSnapshot_def [of ?env g req "startTrace w", unfolded assms]
  show ?thesis
  proof (cases "restorable env req w")
    case None
    then show ?thesis
      using n1 start plain by (auto simp: run r1 restorable_def Let_def
          split: sum.splits prod.splits option.splits)
  next
    case (Some cs)
    then obtain containers filled rootCID where l: "listed = Inr containers"
      and f: "fillGVisorContainerImages (pauseImageRef (ge_Linux env)) (ld_AppImage req) containers = (None, filled)"
      and pick: "pickRoot filled = (rootCID, cs)"
      by (auto simp: restorable_def plain split: sum.splits prod.splits option.splits) (metis prod.collapse)
    have ne: "filled \<noteq> []"
      using fill_nonempty [OF f] read_nonempty plain l by metis
    show ?thesis
    proof (cases "ld_SourceDir req = [] \<or> e4 \<noteq> None \<or> isl net")
      case True
      then show ?thesis
        using n start by (cases e4; cases net) (auto simp: run r1 r2 r3 r4 r5 r6 l f Let_def)
    next
      case False
      then obtain info where net: "net = Inr info" and e4: "e4 = None"
        by (cases net) auto
      have "r = restoreInNetwork ?env g ?name (''sfg'' @ Itoa (ld_SlotID req)) (ld_SourceDir req) filled s5"
        using False createRestoreNetwork_netns [OF r5 [unfolded net]]
        by (simp add: run r1 r2 r3 r4 r5 l f net e4 Let_def del: append_Cons)
      with Some pick ne n(2) show ?thesis
        by blast
    qed
  qed
qed

text \<open>
  C23. The commands of a restore.  Whatever the kernel, \<open>runsc\<close> and containerd do, a restore that succeeds
  has created and restored every container the checkpoint lists, in the order of the list and with the
  images filled in, each command inside the network namespace of the Slot, and has run nothing else.  A
  restore that fails before any container is touched runs nothing; otherwise it has run a first part of
  these commands and then deleted every container in reverse order, outside the namespace.  Either way the
  Worker is back in its own namespace.
\<close>

theorem restore_runs_every_container:
  "case gvisorLoadSnapshot (tracedEnv env) g req (startTrace w) of (result, s) \<Rightarrow>
     let name = RestoredName (ld_Identity req);
         root = Join [gv_RestoreRoot g, name];
         commands = containerRuns g root (''sfg'' @ Itoa (ld_SlotID req)) (ld_SourceDir req)
     in tr_Netns s = None \<and>
        (case result of
           Inr rid \<Rightarrow>
             rid = ''runsc:'' @ name \<and>
             (\<exists>cs. restorable env req w = Some cs \<and> tr_Runs s = commands cs)
         | Inl e \<Rightarrow>
             tr_Runs s = [] \<or>
             (\<exists>cs k. restorable env req w = Some cs \<and>
                tr_Runs s = take k (commands cs) @ map (deleteRun g root) (rev cs)))"
proof -
  obtain result s where r: "gvisorLoadSnapshot (tracedEnv env) g req (startTrace w) = (result, s)"
    by fastforce
  from load_begins [OF r] show ?thesis
  proof (elim disjE exE conjE)
    fix filled rootCID cs s0
    assume plan: "restorable env req w = Some cs" "pickRoot filled = (rootCID, cs)" "filled \<noteq> []"
      "note_of s0 = (None, [])"
      and "(result, s) = restoreInNetwork (tracedEnv env) g (RestoredName (ld_Identity req))
        (''sfg'' @ Itoa (ld_SlotID req)) (ld_SourceDir req) filled s0"
    then have "restored_well g (RestoredName (ld_Identity req)) (''sfg'' @ Itoa (ld_SlotID req)) (ld_SourceDir req) cs
        (result, s)"
      using restoreInNetwork_well [OF plan(4,2,3)] by metis
    then show ?thesis
      using plan(1) by (cases result) (auto simp: r restored_well_def note_of_def Let_def)
  qed (auto simp: r note_of_def Let_def split: sum.split)
qed

subsection \<open>Layers of an overlay\<close>

definition escapeByte :: "char \<Rightarrow> string" where
  "escapeByte c = (if c = CHR 0x5C \<or> c = CHR '':'' \<or> c = CHR '','' then [CHR 0x5C, c] else [c])"

lemma escapeLower_bytes: "escapeLower l = concat (map escapeByte l)"
  by (induction l) (auto simp: escapeLower_def ReplaceByte_def escapeByte_def)

lemma splitLoop_byte: "splitLoop False b (escapeByte c @ v) = splitLoop False (b @ [c]) v"
  by (auto simp: escapeByte_def)

lemma splitLoop_escaped: "splitLoop False b (escapeLower l @ v) = splitLoop False (b @ l) v"
  by (induction l arbitrary: b) (simp_all add: escapeLower_bytes splitLoop_byte)

lemma splitLoop_joined:
  "ls \<noteq> [] \<Longrightarrow>
     splitLoop False [] (joinWith '':'' (map escapeLower ls)) = (butlast ls, last ls)"
proof (induction ls rule: induct_list012)
  case (2 l)
  then show ?case
    using splitLoop_escaped [of "[]" l "[]"] by simp
next
  case (3 l m ls)
  have "joinWith '':'' (map escapeLower (l # m # ls)) =
      escapeLower l @ CHR '':'' # joinWith '':'' (map escapeLower (m # ls))"
    by simp
  then show ?case
    using 3 by (simp only: splitLoop_escaped) simp
qed simp

lemma joined_suffix: "HasSuffix (joinWith '':'' (map escapeLower (ls @ [l, []]))) '':''"
proof -
  have "joinWith '':'' (ps @ [[]]) = joinWith '':'' ps @ '':''" if "ps \<noteq> []" for ps
    using that by (induction ps rule: induct_list012) auto
  from this [of "map escapeLower (ls @ [l])"] show ?thesis
    by (simp add: HasSuffix_def HasPrefix_def escapeLower_bytes)
qed


subsection \<open>The list of a saved checkpoint\<close>

lemma checkContainerIDs_None: "checkContainerIDs i cs = None \<Longrightarrow> c \<in> set cs \<Longrightarrow> gc_ID c \<noteq> []"
  by (induction i cs rule: checkContainerIDs.induct) (auto split: if_splits)

lemma fill_images:
  "fillGVisorContainerImages p a cs = (None, cs') \<Longrightarrow> p \<noteq> [] \<Longrightarrow> c \<in> set cs' \<Longrightarrow> gc_Image c \<noteq> []"
  by (induction cs arbitrary: cs' c) (auto simp: Let_def split: if_splits prod.splits)

lemma fill_full:
  "(\<And>c. c \<in> set cs \<Longrightarrow> gc_Image c \<noteq> []) \<Longrightarrow> fillGVisorContainerImages p a cs = (None, cs)"
  by (induction cs) (auto simp: Let_def)

lemma pauseImageRef_ne [simp]: "pauseImageRef lx \<noteq> []"
  by (simp add: pauseImageRef_def defaultPauseImage_def)


text \<open>
  C24. A saved checkpoint can be restored.  When saving succeeds, the checkpoint's directory lists its
  containers, each with an ID and an image: for a sandbox of the container runtime the pause container and
  the application, as the request names them, whatever the images of the snapshot's load request say.  This
  rests on files reading back as written and on JSON decoding what it encoded.
\<close>

theorem saved_checkpoint_is_restorable:
  assumes saved: "gvisorSaveSnapshot env g req w = (None, w')"
    and stored: "\<And>p b w w'. lx_WriteFile (ge_Linux env) p b w = (None, w') \<Longrightarrow>
      fst (lx_ReadFile (ge_Linux env) p w') = Inr b"
    and json: "\<And>cs raw. gj_EncodeContainers (ge_Json env) cs = Inr raw \<Longrightarrow>
      gj_DecodeContainers (ge_Json env) raw = Inr cs"
  shows "\<exists>cs. fst (readGVisorContainersFile env (sv_DestDir req) w') = Inr cs \<and>
    (\<forall>c \<in> set cs. gc_ID c \<noteq> [] \<and> gc_Image c \<noteq> []) \<and>
    (\<not> HasPrefix (sv_ID req) ''runsc:'' \<longrightarrow>
       cs = gvisorCRIContainers (pauseImageRef (ge_Linux env)) (sv_AppContainerName req) (sv_AppImage req)) \<and>
    (\<forall>load. ld_SourceDir load = sv_DestDir req \<longrightarrow> restorable env load w' = Some (snd (pickRoot cs)))"
proof -
  let ?lx = "ge_Linux env"
  obtain w1 where "writeContainersForSave env g req w1 = (None, w')"
    using saved by (auto simp: gvisorSaveSnapshot_def Let_def split: prod.splits if_splits option.splits)
  then obtain listed cs w2 where
    listed: "containersForSave env g req w1 = (Inr listed, w2)"
    and fill: "fillGVisorContainerImages (pauseImageRef ?lx) (sv_AppImage req) listed = (None, cs)"
    and wrote: "writeGVisorContainersFile env (sv_DestDir req) cs w2 = (None, w')"
    by (auto simp: writeContainersForSave_def Let_def split: prod.splits sum.splits option.splits)
  from wrote obtain raw where ne: "cs \<noteq> []" and ids: "checkContainerIDs 0 cs = None"
    and enc: "gj_EncodeContainers (ge_Json env) cs = Inr raw"
    and put: "lx_WriteFile ?lx (Join [sv_DestDir req, gvisorContainersFile]) raw w2 = (None, w')"
    by (auto simp: writeGVisorContainersFile_def split: if_splits option.splits sum.splits)
  have read: "fst (readGVisorContainersFile env (sv_DestDir req) w') = Inr cs"
    using stored [OF put] json [OF enc] ne by (simp add: readGVisorContainersFile_def split_beta Let_def)
  have full: "gc_ID c \<noteq> [] \<and> gc_Image c \<noteq> []" if "c \<in> set cs" for c
    using checkContainerIDs_None [OF ids that] fill_images [OF fill _ that] by simp
  have "cs = gvisorCRIContainers (pauseImageRef ?lx) (sv_AppContainerName req) (sv_AppImage req)"
    if "\<not> HasPrefix (sv_ID req) ''runsc:''"
    using listed fill that
    by (auto simp: containersForSave_def StripPrefix_def gvisorIDPrefix_def gvisorCRIContainers_def Let_def
        split: if_splits)
  moreover have "restorable env load w' = Some (snd (pickRoot cs))" if "ld_SourceDir load = sv_DestDir req" for load
    using read full that by (simp add: restorable_def fill_full)
  ultimately show ?thesis
    using read full by blast
qed

subsection \<open>Deleting a restored sandbox\<close>



subsection \<open>Guest addresses\<close>

lemma hexDigit_inj: "0 \<le> a \<Longrightarrow> a < 16 \<Longrightarrow> 0 \<le> b \<Longrightarrow> b < 16 \<Longrightarrow> hexDigit a = hexDigit b \<Longrightarrow> a = b"
proof -
  assume ab: "0 \<le> a" "a < 16" "0 \<le> b" "b < 16" "hexDigit a = hexDigit b"
  have "distinct ''0123456789abcdef''" "length ''0123456789abcdef'' = 16"
    by code_simp+
  with ab have "nat a = nat b"
    unfolding hexDigit_def by (subst (asm) nth_eq_iff_index_eq) (auto simp: nat_less_iff)
  with ab show "a = b"
    by simp
qed

lemma hexByte_inj:
  assumes "0 \<le> a" "a < 256" "0 \<le> b" "b < 256" "hexByte a = hexByte b"
  shows "a = b"
proof -
  have "a div 16 = b div 16" "a mod 16 = b mod 16"
    using assms by (auto simp: hexByte_def intro!: hexDigit_inj)
  then show ?thesis
    by (metis div_mult_mod_eq)
qed

lemma createRestoreNetwork_info:
  assumes "createRestoreNetwork lx js g slotID name w = (Inr net, w')"
  shows "\<exists>cfg. guestNetForSlot slotID = Inr cfg \<and> net =
    \<lparr>ni_Netns = ''sfg'' @ Itoa slotID, ni_Veth = ''sfv'' @ Itoa slotID, ni_SlotID = slotID, ni_IP = gn_IP cfg\<rparr>"
proof (cases "guestNetForSlot slotID")
  case (Inr cfg)
  have "yields (\<lambda>r. \<forall>net. r = Inr net \<longrightarrow> net =
      \<lparr>ni_Netns = ''sfg'' @ Itoa slotID, ni_Veth = ''sfv'' @ Itoa slotID, ni_SlotID = slotID, ni_IP = gn_IP cfg\<rparr>)
      (createRestoreNetwork lx js g slotID name w)"
    unfolding createRestoreNetwork_def Inr sum.case by (intro yields_intros) auto
  from yieldsD [OF this [unfolded assms]] Inr show ?thesis
    by simp
qed (use assms in \<open>simp add: createRestoreNetwork_def\<close>)



subsection \<open>A concrete host\<close>

text \<open>
  A host whose files are a map and whose \<open>runsc\<close> knows some containers, the first few deletions of which
  fail; everything else succeeds.  JSON keeps a list of containers by its first ID, as much as the examples
  need.
\<close>

record mem_world =
  mw_Files :: "(string, string) gomap"
  mw_Live :: "string list"
  mw_Stuck :: nat

definition memRunsc :: "string list \<Rightarrow> mem_world \<Rightarrow> (go_error option \<times> string) \<times> mem_world" where
  "memRunsc args w =
     (if ''delete'' \<notin> set args then ((None, []), w)
      else if last args \<in> set (mw_Live w) \<and> 0 < mw_Stuck w
      then ((Some (External ''exit status 128''), ''container is busy''), w\<lparr>mw_Stuck := mw_Stuck w - 1\<rparr>)
      else ((None, []), w\<lparr>mw_Live := removeAll (last args) (mw_Live w)\<rparr>))"

definition memLinux :: "mem_world linux" where
  "memLinux =
     \<lparr>lx_Mkdir = (\<lambda>_ w. (None, w)), lx_MkdirAll = (\<lambda>_ w. (None, w)),
      lx_Remove = (\<lambda>p w. (None, w\<lparr>mw_Files := gm_del p (mw_Files w)\<rparr>)),
      lx_RemoveAll = (\<lambda>p w. (None, w\<lparr>mw_Files := filter (\<lambda>(f, _). \<not> HasPrefix f (p @ ''/'')) (mw_Files w)\<rparr>)),
      lx_Rename = (\<lambda>_ _ w. (None, w)),
      lx_WriteFile = (\<lambda>p b w. (None, w\<lparr>mw_Files := gm_set p b (mw_Files w)\<rparr>)),
      lx_ReadFile = (\<lambda>p w. (case map_of (mw_Files w) p of Some b \<Rightarrow> Inr b
                                | None \<Rightarrow> Inl (External ''no such file or directory''), w)),
      lx_ReadDir = (\<lambda>_ w. (Inr [], w)), lx_Stat = (\<lambda>_ w. (Inr False, w)),
      lx_CreateTemp = (\<lambda>p w. (Inr p, w)), lx_OpenLog = (\<lambda>_ w. (None, w)),
      lx_CombinedOutput = (\<lambda>_ w. ((None, []), w)), lx_RunStderr = memRunsc,
      lx_RunLogged = (\<lambda>_ _ w. (None, w)), lx_RunTimed = (\<lambda>_ _ _ _ w. (None, w)),
      lx_OpenNetNS = (\<lambda>_ w. (None, w)), lx_OpenOwnNetNS = (\<lambda>w. (None, w)), lx_SetNetNS = (\<lambda>_ w. (None, w)),
      lx_LeaveNetNS = (\<lambda>w. w), lx_IsCgroup2 = (\<lambda>_ w. (True, w)), lx_MountBind = (\<lambda>_ _ w. (None, w)),
      lx_RemountBind = (\<lambda>_ w. (None, w)), lx_MountOverlay = (\<lambda>_ _ w. (None, w)),
      lx_UnmountDetach = (\<lambda>_ w. (None, w)), lx_Fsopen = (\<lambda>w. (Inr 3, w)),
      lx_FsconfigSetString = (\<lambda>_ _ _ w. (None, w)), lx_FsconfigCreate = (\<lambda>_ w. (None, w)),
      lx_Fsmount = (\<lambda>_ w. (Inr 4, w)), lx_MoveMount = (\<lambda>_ _ w. (None, w)), lx_Close = (\<lambda>_ w. w),
      lx_Getenv = (\<lambda>_. []), lx_IsExist = (\<lambda>_. False), lx_ExitCode = (\<lambda>_. None)\<rparr>"

definition memContainers :: "gvisor_restore_container list" where
  "memContainers = gvisorCRIContainers ''registry.k8s.io/pause:3.10'' ''app'' ''python:3.12''"

definition memJson :: gvisor_json where
  "memJson =
     \<lparr>gj_EncodeNet = (\<lambda>_. Inr ''{}''),
      gj_DecodeNet = (\<lambda>_. Inl (External ''unexpected end of JSON input'')),
      gj_EncodeContainers = (\<lambda>cs. if cs = memContainers then Inr ''[pause, app]'' else Inl (External ''unsupported'')),
      gj_DecodeContainers = (\<lambda>b. if b = ''[pause, app]'' then Inr memContainers else Inl (External ''invalid'')),
      gj_EncodeConfig = (\<lambda>_. Inr ''{}'')\<rparr>"

definition memContainerd :: "(unit, mem_world) containerd" where
  "memContainerd =
     \<lparr>ci_Connect = (\<lambda>_ w. (None, w)), ci_Close = (\<lambda>w. w), ci_GetImage = (\<lambda>_ _ w. (Inr (), w)),
      ci_Pull = (\<lambda>_ _ w. (Inr (), w)), ci_IsUnpacked = (\<lambda>_ _ w. (Inr True, w)), ci_Unpack = (\<lambda>_ _ w. (None, w)),
      ci_RootFS = (\<lambda>_ _ w. (Inr [''sha256:0''], w)), ci_ChainID = hd,
      ci_View = (\<lambda>_ _ _ w. (Inr [\<lparr>mt_Type = ''bind'', mt_Source = ''/layer'', mt_Options = []\<rparr>], w)),
      ci_RemoveSnapshot = (\<lambda>_ _ w. (None, w)), ci_ParseDockerRef = Inr, ci_ShowMounts = (\<lambda>_. [])\<rparr>"

definition memEnv :: "(unit, mem_world) gvisor_env" where
  "memEnv = \<lparr>ge_Linux = memLinux, ge_Containerd = memContainerd, ge_Json = memJson\<rparr>"

definition memG :: gvisor where
  "memG = \<lparr>gv_RunscPath = ''runsc'', gv_SourceRoot = ''/run'', gv_RestoreRoot = ''/var/sf''\<rparr>"

definition memSave :: save_request where
  "memSave = \<lparr>sv_ID = ''pod'', sv_DestDir = ''/snap'', sv_ContainerID = [], sv_AppContainerName = ''app'',
     sv_AppImage = ''python:3.12''\<rparr>"

definition memLoad :: load_request where
  "memLoad = \<lparr>ld_SourceDir = ''/snap'', ld_Identity = \<lparr>id_Namespace = ''ns'', id_Name = ''child'', id_UID = ''u1''\<rparr>,
     ld_SlotID = 0, ld_AppImage = []\<rparr>"

definition memStart :: mem_world where
  "memStart = \<lparr>mw_Files = [], mw_Live = [''pause'', ''app''], mw_Stuck = 0\<rparr>"

lemma mem_save:
  "gvisorSaveSnapshot memEnv memG memSave memStart = (None, snd (gvisorSaveSnapshot memEnv memG memSave memStart))"
  by code_simp

lemma mem_net:
  "\<not> isl (fst (createRestoreNetwork memLinux memJson memG 0 ''a'' memStart))"
  "\<not> isl (fst (createRestoreNetwork memLinux memJson memG 1 ''b'' memStart))"
  by code_simp+


theorem saved_checkpoint_is_restorable_witness:
  "\<exists>cs. fst (readGVisorContainersFile memEnv ''/snap'' (snd (gvisorSaveSnapshot memEnv memG memSave memStart))) =
     Inr cs \<and> length cs = 2"
proof -
  have "fst (lx_ReadFile (ge_Linux memEnv) p w') = Inr b"
    if "lx_WriteFile (ge_Linux memEnv) p b w = (None, w')" for p b w w'
    using that by (auto simp: memEnv_def memLinux_def)
  moreover have "gj_DecodeContainers (ge_Json memEnv) raw = Inr cs"
    if "gj_EncodeContainers (ge_Json memEnv) cs = Inr raw" for cs raw
    using that by (auto simp: memEnv_def memJson_def split: if_splits)
  ultimately obtain cs where
    "fst (readGVisorContainersFile memEnv (sv_DestDir memSave) (snd (gvisorSaveSnapshot memEnv memG memSave memStart))) =
      Inr cs"
    "\<not> HasPrefix (sv_ID memSave) ''runsc:'' \<longrightarrow>
      cs = gvisorCRIContainers (pauseImageRef (ge_Linux memEnv)) (sv_AppContainerName memSave) (sv_AppImage memSave)"
    using saved_checkpoint_is_restorable [OF mem_save] by blast
  then show ?thesis
    by (auto simp: memSave_def HasPrefix_def gvisorCRIContainers_def)
qed

text \<open>
  The whole story on the concrete host: the deletion of the application fails, so the first call reports an
  error, and the retry reports success with the application still alive.
\<close>

definition memRestored :: mem_world where
  "memRestored = \<lparr>mw_Files = [(''/var/sf/child-u1/sandboxfleet-containers.json'', ''[pause, app]'')],
     mw_Live = [''pause'', ''app''], mw_Stuck = 1\<rparr>"

definition memDeleted :: mem_world where
  "memDeleted = snd (gvisorDeleteRestored memEnv memG ''runsc:child-u1'' memRestored)"

lemma mem_first_delete:
  "fst (gvisorDeleteRestored memEnv memG ''runsc:child-u1'' memRestored) \<noteq> None"
  "memDeleted = \<lparr>mw_Files = [], mw_Live = [''app''], mw_Stuck = 0\<rparr>"
  by code_simp+



end
