(* ===== verification/KataMerge.thy ===== *)
theory KataMerge
  imports LinuxHost
begin

text \<open>
  Memory images of micro-VMs (\<open>internal/runtime/kata/ch/merge.go\<close>): a snapshot taken after a restore may hold
  only the pages written since, as a sparse file; it is completed by laying its data over the image the
  virtual machine was restored from.
\<close>

subsection \<open>Files with holes\<close>

text \<open>
  The file operations the merge uses.  \<open>mh_Copy\<close> is \<open>cp --sparse=always\<close> with its output, \<open>mh_ReadFull\<close>
  gives what was read and the error, a file that is opened is a number.
\<close>

record 'w sparse_host =
  mh_Stat :: "string \<Rightarrow> 'w \<Rightarrow> (go_error + int) \<times> 'w"
  mh_Remove :: "string \<Rightarrow> 'w \<Rightarrow> go_error option \<times> 'w"
  mh_Rename :: "string \<Rightarrow> string \<Rightarrow> 'w \<Rightarrow> go_error option \<times> 'w"
  mh_Copy :: "string \<Rightarrow> string \<Rightarrow> 'w \<Rightarrow> (go_error option \<times> string) \<times> 'w"
  mh_Open :: "string \<Rightarrow> 'w \<Rightarrow> (go_error + int) \<times> 'w"
  mh_OpenRW :: "string \<Rightarrow> 'w \<Rightarrow> (go_error + int) \<times> 'w"
  mh_FStat :: "int \<Rightarrow> 'w \<Rightarrow> (go_error + int) \<times> 'w"
  mh_SeekData :: "int \<Rightarrow> int \<Rightarrow> 'w \<Rightarrow> (go_error + int) \<times> 'w"
  mh_SeekHole :: "int \<Rightarrow> int \<Rightarrow> 'w \<Rightarrow> (go_error + int) \<times> 'w"
  mh_Seek :: "int \<Rightarrow> int \<Rightarrow> 'w \<Rightarrow> go_error option \<times> 'w"
  mh_ReadFull :: "int \<Rightarrow> int \<Rightarrow> 'w \<Rightarrow> (string \<times> go_error option) \<times> 'w"
  mh_Write :: "int \<Rightarrow> string \<Rightarrow> 'w \<Rightarrow> go_error option \<times> 'w"
  mh_Close :: "int \<Rightarrow> 'w \<Rightarrow> go_error option \<times> 'w"
  mh_IsENXIO :: "go_error \<Rightarrow> bool"
  mh_IsEXDEV :: "go_error \<Rightarrow> bool"

definition MemoryRangesFile :: string where "MemoryRangesFile = ''memory-ranges''"

subsection \<open>Copying the data regions\<close>

text \<open>The buffer has a mebibyte.\<close>

definition bufLen :: int where "bufLen = 2 ^ 20"

partial_function (option) copyChunks ::
    "'w sparse_host \<Rightarrow> int \<Rightarrow> int \<Rightarrow> int \<Rightarrow> int \<Rightarrow> 'w \<Rightarrow> ((int \<times> go_error option) \<times> 'w) option" where
  "copyChunks h src dst remaining copied w =
     (if remaining \<le> 0 then Some ((copied, None), w)
      else case mh_ReadFull h src (min bufLen remaining) w of
        ((b, err), w) \<Rightarrow>
          (case (if b = [] then (None, w) else mh_Write h dst b w) of
             (Some e, w) \<Rightarrow> Some ((copied, Some e), w)
           | (None, w) \<Rightarrow>
               (case err of
                  Some e \<Rightarrow>
                    Some ((copied + int (length b), Some (Errorf ''reading data region: %w'' [FW e])), w)
                | None \<Rightarrow> copyChunks h src dst (remaining - int (length b)) (copied + int (length b)) w)))"

partial_function (option) copyRegions ::
    "'w sparse_host \<Rightarrow> int \<Rightarrow> int \<Rightarrow> int \<Rightarrow> int \<Rightarrow> int \<Rightarrow> 'w \<Rightarrow> ((int \<times> go_error option) \<times> 'w) option" where
  "copyRegions h src dst len off copied w =
     (if len \<le> off then Some ((copied, None), w)
      else case mh_SeekData h src off w of
        (Inl e, w) \<Rightarrow>
          Some ((copied, if mh_IsENXIO h e then None else Some (Errorf ''SEEK_DATA: %w'' [FW e])), w)
      | (Inr ds, w) \<Rightarrow>
          (case mh_SeekHole h src ds w of
             (Inl e, w) \<Rightarrow> Some ((copied, Some (Errorf ''SEEK_HOLE: %w'' [FW e])), w)
           | (Inr de, w) \<Rightarrow>
               (case mh_Seek h src ds w of
                  (Some e, w) \<Rightarrow> Some ((copied, Some e), w)
                | (None, w) \<Rightarrow>
                    (case mh_Seek h dst ds w of
                       (Some e, w) \<Rightarrow> Some ((copied, Some e), w)
                     | (None, w) \<Rightarrow>
                         Option.bind (copyChunks h src dst (de - ds) copied w) (\<lambda>((copied, err), w).
                           if err \<noteq> None then Some ((copied, err), w)
                           else copyRegions h src dst len de copied w)))))"

definition copySparseRegions ::
    "'w sparse_host \<Rightarrow> int \<Rightarrow> int \<Rightarrow> 'w \<Rightarrow> ((int \<times> go_error option) \<times> 'w) option" where
  "copySparseRegions h src dst w =
     (case mh_FStat h src w of
        (Inl e, w) \<Rightarrow> Some ((0, Some e), w)
      | (Inr len, w) \<Rightarrow> copyRegions h src dst len 0 0 w)"

declare copyChunks.simps [code] copyRegions.simps [code]

subsection \<open>The two merges\<close>

definition closing :: "'w sparse_host \<Rightarrow> int list \<Rightarrow> 'r \<times> 'w \<Rightarrow> 'r \<times> 'w" where
  "closing h fds = (\<lambda>(r, w). (r, foldl (\<lambda>w fd. snd (mh_Close h fd w)) w fds))"

text \<open>What both merges do with the two open files; the last step is theirs.\<close>

definition overlayOpen ::
    "'w sparse_host \<Rightarrow> int \<Rightarrow> int \<Rightarrow> ('w \<Rightarrow> go_error option \<times> 'w) \<Rightarrow> 'w \<Rightarrow> (go_error option \<times> 'w) option" where
  "overlayOpen h src dst finish w =
     Option.bind (copySparseRegions h src dst w) (\<lambda>((_, err), w).
       Some (if err \<noteq> None then (err, w)
             else
               let (err, w) = mh_Close h dst w in
               if err \<noteq> None then (err, w) else finish w))"

definition MergeSparseOverlay ::
    "'w sparse_host \<Rightarrow> string \<Rightarrow> string \<Rightarrow> string \<Rightarrow> 'w \<Rightarrow> (go_error option \<times> 'w) option" where
  "MergeSparseOverlay h baseFile deltaFile outFile w =
     (case mh_Stat h baseFile w of
        (Inl e, w) \<Rightarrow> Some (Some (Errorf ''stat base %q: %w'' [FS baseFile, FW e]), w)
      | (Inr bi, w) \<Rightarrow>
          let tmp = outFile @ ''.merge.tmp''; w = snd (mh_Remove h tmp w) in
          (case mh_Copy h baseFile tmp w of
             ((Some e, out), w) \<Rightarrow> Some (Some (Errorf ''cp base->tmp: %w: %s'' [FW e, FS out]), w)
           | ((None, _), w) \<Rightarrow>
               (case mh_Open h deltaFile w of
                  (Inl e, w) \<Rightarrow> Some (Some (Errorf ''open delta %q: %w'' [FS deltaFile, FW e]), w)
                | (Inr d, w) \<Rightarrow>
                    (case mh_FStat h d w of
                       (Inl e, w) \<Rightarrow> Some (closing h [d] (Some e, w))
                     | (Inr di, w) \<Rightarrow>
                         if di \<noteq> bi
                         then Some (closing h [d]
                                (Some (Errorf ''MergeSparseOverlay: size mismatch base=%d delta=%d'' [FD bi, FD di]), w))
                         else (case mh_OpenRW h tmp w of
                            (Inl e, w) \<Rightarrow> Some (closing h [d] (Some e, w))
                          | (Inr out, w) \<Rightarrow>
                              map_option (closing h [out, d])
                                (overlayOpen h d out (mh_Rename h tmp outFile) w))))))"

definition MergeDeltaIntoBase ::
    "'w sparse_host \<Rightarrow> string \<Rightarrow> string \<Rightarrow> 'w \<Rightarrow> (go_error option \<times> 'w) option" where
  "MergeDeltaIntoBase h baseFile deltaFile w =
     (case mh_Stat h baseFile w of
        (Inl e, w) \<Rightarrow> Some (Some (Errorf ''stat base %q: %w'' [FS baseFile, FW e]), w)
      | (Inr bi, w) \<Rightarrow>
          (case mh_Stat h deltaFile w of
             (Inl e, w) \<Rightarrow> Some (Some (Errorf ''stat delta %q: %w'' [FS deltaFile, FW e]), w)
           | (Inr di, w) \<Rightarrow>
               if di \<noteq> bi
               then Some (Some (Errorf ''MergeDeltaIntoBase: size mismatch base=%d delta=%d'' [FD bi, FD di]), w)
               else
                 let merged = deltaFile @ ''.merged.tmp''; w = snd (mh_Remove h merged w) in
                 (case mh_Rename h baseFile merged w of
                    (Some e, w) \<Rightarrow>
                      if mh_IsEXDEV h e then MergeSparseOverlay h baseFile deltaFile deltaFile w
                      else Some (Some (Errorf ''rename base->merged: %w'' [FW e]), w)
                  | (None, w) \<Rightarrow>
                      (case mh_Open h deltaFile w of
                         (Inl e, w) \<Rightarrow> Some (Some (Errorf ''open delta %q: %w'' [FS deltaFile, FW e]), w)
                       | (Inr d, w) \<Rightarrow>
                           (case mh_OpenRW h merged w of
                              (Inl e, w) \<Rightarrow> Some (closing h [d] (Some e, w))
                            | (Inr m, w) \<Rightarrow>
                                map_option (closing h [m, d])
                                  (overlayOpen h d m (\<lambda>w.
                                     let (err, w) = mh_Remove h deltaFile w in
                                     case err of
                                       Some e \<Rightarrow> (Some (Errorf ''remove old delta: %w'' [FW e]), w)
                                     | None \<Rightarrow> mh_Rename h merged deltaFile w) w))))))"

end
