(* ===== verification/MergeProperties.thy ===== *)
theory MergeProperties
  imports KataMerge
begin

text \<open>
  The merge of memory images is right: on every file system whose operations do what they say or fail, a
  merge that reports success has laid the data of the delta over the base, byte for byte.
\<close>

subsection \<open>A file system that may fail\<close>

text \<open>
  A file is a list of bytes, of which those that lie in a hole are \<open>None\<close>.  Every operation first takes the
  next entry of a list of faults and fails with it if there is one, without any effect; so all patterns of
  failures are covered.  An open file is its path with a position.
\<close>

record sfs =
  sf_Files :: "(string, char option list) gomap"
  sf_Open :: "(int, string \<times> nat) gomap"
  sf_Next :: int
  sf_Faults :: "go_error option list"

definition ENOENT :: go_error where "ENOENT = External ''no such file or directory''"

definition ENXIO :: go_error where "ENXIO = External ''no such device or address''"

definition faulty :: "(sfs \<Rightarrow> (go_error + 'a) \<times> sfs) \<Rightarrow> sfs \<Rightarrow> (go_error + 'a) \<times> sfs" where
  "faulty f s =
     (case sf_Faults s of
        Some e # fs \<Rightarrow> (Inl e, s\<lparr>sf_Faults := fs\<rparr>)
      | None # fs \<Rightarrow> f (s\<lparr>sf_Faults := fs\<rparr>)
      | [] \<Rightarrow> f s)"

definition errorOf :: "(go_error + unit) \<times> 'w \<Rightarrow> go_error option \<times> 'w" where
  "errorOf = (\<lambda>(r, w). (case r of Inl e \<Rightarrow> Some e | Inr _ \<Rightarrow> None, w))"

definition onFd :: "int \<Rightarrow> (string \<Rightarrow> nat \<Rightarrow> char option list \<Rightarrow> (go_error + 'a) \<times> sfs) \<Rightarrow> sfs \<Rightarrow> (go_error + 'a) \<times> sfs" where
  "onFd fd f s =
     (case map_of (sf_Open s) fd of
        None \<Rightarrow> (Inl (External ''bad file descriptor''), s)
      | Some (p, off) \<Rightarrow>
          (case map_of (sf_Files s) p of None \<Rightarrow> (Inl ENOENT, s) | Some b \<Rightarrow> f p off b))"

definition plainByte :: "char option \<Rightarrow> char" where
  "plainByte b = (case b of None \<Rightarrow> CHR 0x00 | Some c \<Rightarrow> c)"

definition firstFrom :: "(char option \<Rightarrow> bool) \<Rightarrow> nat \<Rightarrow> char option list \<Rightarrow> nat option" where
  "firstFrom P off b =
     (let i = off + length (takeWhile (\<lambda>c. \<not> P c) (drop off b)) in if i < length b then Some i else None)"

definition openFile :: "string \<Rightarrow> sfs \<Rightarrow> (go_error + int) \<times> sfs" where
  "openFile p s =
     (if map_of (sf_Files s) p = None then (Inl ENOENT, s)
      else (Inr (sf_Next s), s\<lparr>sf_Open := gm_set (sf_Next s) (p, 0) (sf_Open s), sf_Next := sf_Next s + 1\<rparr>))"

definition writeAt :: "nat \<Rightarrow> string \<Rightarrow> char option list \<Rightarrow> char option list" where
  "writeAt off d b = take off b @ map Some d @ drop (off + length d) b"

definition statFile :: "string \<Rightarrow> sfs \<Rightarrow> (go_error + int) \<times> sfs" where
  "statFile p s = (case map_of (sf_Files s) p of None \<Rightarrow> Inl ENOENT | Some b \<Rightarrow> Inr (int (length b)), s)"

definition renameFile :: "string \<Rightarrow> string \<Rightarrow> sfs \<Rightarrow> (go_error + unit) \<times> sfs" where
  "renameFile p q s =
     (case map_of (sf_Files s) p of
        None \<Rightarrow> (Inl ENOENT, s)
      | Some b \<Rightarrow> (Inr (), s\<lparr>sf_Files := gm_set q b (gm_del p (sf_Files s))\<rparr>))"

definition removeFile :: "string \<Rightarrow> sfs \<Rightarrow> (go_error + unit) \<times> sfs" where
  "removeFile p s = (Inr (), s\<lparr>sf_Files := gm_del p (sf_Files s)\<rparr>)"

definition copyFile :: "(char option list \<Rightarrow> char option list) \<Rightarrow> string \<Rightarrow> string \<Rightarrow> sfs \<Rightarrow> (go_error + unit) \<times> sfs" where
  "copyFile resparse p q s =
     (case map_of (sf_Files s) p of
        None \<Rightarrow> (Inl ENOENT, s)
      | Some b \<Rightarrow> (Inr (), s\<lparr>sf_Files := gm_set q (resparse b) (sf_Files s)\<rparr>))"

definition lengthOf :: "int \<Rightarrow> sfs \<Rightarrow> (go_error + int) \<times> sfs" where
  "lengthOf fd s = onFd fd (\<lambda>p off b. (Inr (int (length b)), s)) s"

definition dataFrom :: "int \<Rightarrow> int \<Rightarrow> sfs \<Rightarrow> (go_error + int) \<times> sfs" where
  "dataFrom fd off s = onFd fd (\<lambda>p _ b.
     (case firstFrom (\<lambda>c. c \<noteq> None) (nat off) b of None \<Rightarrow> Inl ENXIO | Some i \<Rightarrow> Inr (int i), s)) s"

definition holeFrom :: "int \<Rightarrow> int \<Rightarrow> sfs \<Rightarrow> (go_error + int) \<times> sfs" where
  "holeFrom fd off s = onFd fd (\<lambda>p _ b.
     (Inr (case firstFrom (\<lambda>c. c = None) (nat off) b of None \<Rightarrow> int (length b) | Some i \<Rightarrow> int i), s)) s"

definition seekTo :: "int \<Rightarrow> int \<Rightarrow> sfs \<Rightarrow> (go_error + unit) \<times> sfs" where
  "seekTo fd off s = onFd fd (\<lambda>p _ b. (Inr (), s\<lparr>sf_Open := gm_set fd (p, nat off) (sf_Open s)\<rparr>)) s"

definition readBytes :: "int \<Rightarrow> int \<Rightarrow> sfs \<Rightarrow> (go_error + string \<times> go_error option) \<times> sfs" where
  "readBytes fd n s = onFd fd (\<lambda>p off b.
     let d = map plainByte (take (nat n) (drop off b))
     in (Inr (d, if int (length d) < n then Some (External ''unexpected EOF'') else None),
         s\<lparr>sf_Open := gm_set fd (p, off + length d) (sf_Open s)\<rparr>)) s"

definition writeBytes :: "int \<Rightarrow> string \<Rightarrow> sfs \<Rightarrow> (go_error + unit) \<times> sfs" where
  "writeBytes fd d s = onFd fd (\<lambda>p off b.
     (Inr (), s\<lparr>sf_Files := gm_set p (writeAt off d b) (sf_Files s),
                sf_Open := gm_set fd (p, off + length d) (sf_Open s)\<rparr>)) s"

text \<open>
  \<open>exdev\<close> says which failures of a renaming mean two file systems; \<open>resparse\<close> is what \<open>cp --sparse=always\<close>
  makes of the holes.
\<close>

definition sparseHost :: "(go_error \<Rightarrow> bool) \<Rightarrow> (char option list \<Rightarrow> char option list) \<Rightarrow> sfs sparse_host" where
  "sparseHost exdev resparse =
     \<lparr>mh_Stat = (\<lambda>p. faulty (statFile p)),
      mh_Remove = (\<lambda>p s. errorOf (faulty (removeFile p) s)),
      mh_Rename = (\<lambda>p q s. errorOf (faulty (renameFile p q) s)),
      mh_Copy = (\<lambda>p q s. let (err, s) = errorOf (faulty (copyFile resparse p q) s) in ((err, []), s)),
      mh_Open = (\<lambda>p. faulty (openFile p)),
      mh_OpenRW = (\<lambda>p. faulty (openFile p)),
      mh_FStat = (\<lambda>fd. faulty (lengthOf fd)),
      mh_SeekData = (\<lambda>fd off. faulty (dataFrom fd off)),
      mh_SeekHole = (\<lambda>fd off. faulty (holeFrom fd off)),
      mh_Seek = (\<lambda>fd off s. errorOf (faulty (seekTo fd off) s)),
      mh_ReadFull = (\<lambda>fd n s. case faulty (readBytes fd n) s of
           (Inl e, s) \<Rightarrow> (([], Some e), s)
         | (Inr r, s) \<Rightarrow> (r, s)),
      mh_Write = (\<lambda>fd d s. errorOf (faulty (writeBytes fd d) s)),
      mh_Close = (\<lambda>fd s. errorOf (faulty (\<lambda>s. (Inr (), s)) s)),
      mh_IsENXIO = (\<lambda>e. e = ENXIO),
      mh_IsEXDEV = exdev\<rparr>"

lemma host_ops [simp]:
  "mh_Stat (sparseHost exdev resparse) p = faulty (statFile p)"
  "mh_Remove (sparseHost exdev resparse) p s = errorOf (faulty (removeFile p) s)"
  "mh_Rename (sparseHost exdev resparse) p q s = errorOf (faulty (renameFile p q) s)"
  "mh_Copy (sparseHost exdev resparse) p q s =
     (let (err, s) = errorOf (faulty (copyFile resparse p q) s) in ((err, []), s))"
  "mh_Open (sparseHost exdev resparse) p = faulty (openFile p)"
  "mh_OpenRW (sparseHost exdev resparse) p = faulty (openFile p)"
  "mh_FStat (sparseHost exdev resparse) fd = faulty (lengthOf fd)"
  "mh_SeekData (sparseHost exdev resparse) fd off = faulty (dataFrom fd off)"
  "mh_SeekHole (sparseHost exdev resparse) fd off = faulty (holeFrom fd off)"
  "mh_Seek (sparseHost exdev resparse) fd off s = errorOf (faulty (seekTo fd off) s)"
  "mh_ReadFull (sparseHost exdev resparse) fd n s =
     (case faulty (readBytes fd n) s of (Inl e, s) \<Rightarrow> (([], Some e), s) | (Inr r, s) \<Rightarrow> (r, s))"
  "mh_Write (sparseHost exdev resparse) fd d s = errorOf (faulty (writeBytes fd d) s)"
  "mh_Close (sparseHost exdev resparse) fd s = errorOf (faulty (\<lambda>s. (Inr (), s)) s)"
  "mh_IsENXIO (sparseHost exdev resparse) e \<longleftrightarrow> e = ENXIO"
  "mh_IsEXDEV (sparseHost exdev resparse) = exdev"
  by (simp_all add: sparseHost_def)

text \<open>
  \<open>ENXIO\<close> must mean that there is no more data; a failure with it for another reason would end the copy
  early, so the faults do not contain it.
\<close>

definition faults_ok :: "sfs \<Rightarrow> bool" where
  "faults_ok s \<longleftrightarrow> Some ENXIO \<notin> set (sf_Faults s)"

text \<open>The reference: the data of the delta over the base.\<close>

fun overlay :: "char option list \<Rightarrow> char option list \<Rightarrow> char option list" where
  "overlay (d # ds) (b # bs) = (if d = None then b else d) # overlay ds bs"
| "overlay _ bs = bs"

lemma length_overlay [simp]: "length (overlay ds bs) = length bs"
  by (induction ds bs rule: overlay.induct) auto

lemma overlay_append:
  "length ds = length bs \<Longrightarrow> overlay (ds @ ds') (bs @ bs') = overlay ds bs @ overlay ds' bs'"
  by (induction ds bs rule: list_induct2) auto

lemma overlay_holes: "(\<And>d. d \<in> set ds \<Longrightarrow> d = None) \<Longrightarrow> overlay ds bs = bs"
  by (induction ds bs rule: overlay.induct) auto

lemma overlay_data: "length ds = length bs \<Longrightarrow> None \<notin> set ds \<Longrightarrow> overlay ds bs = ds"
  by (induction ds bs rule: list_induct2) auto

lemma overlay_nth: "length ds = length bs \<Longrightarrow> i < length bs \<Longrightarrow>
    overlay ds bs ! i = (if ds ! i = None then bs ! i else ds ! i)"
  by (induction ds bs arbitrary: i rule: list_induct2) (auto simp: nth_Cons split: nat.split)


subsection \<open>The operations\<close>

text \<open>The state up to the faults that are left.\<close>

definition same_fs :: "sfs \<Rightarrow> sfs \<Rightarrow> bool" where
  "same_fs s s' \<longleftrightarrow> sf_Files s' = sf_Files s \<and> sf_Open s' = sf_Open s \<and> sf_Next s' = sf_Next s \<and>
     (faults_ok s \<longrightarrow> faults_ok s')"

lemma faulty_cases:
  obtains (fault) e s' where "faulty f s = (Inl e, s')" "same_fs s s'" "Some e \<in> set (sf_Faults s)"
  | (run) s' where "faulty f s = f s'" "same_fs s s'"
proof (cases "sf_Faults s")
  case Nil
  then show ?thesis
    using run [of s] by (simp add: faulty_def same_fs_def)
next
  case (Cons e fs)
  show ?thesis
  proof (cases e)
    case None
    then show ?thesis
      using Cons run [of "s\<lparr>sf_Faults := fs\<rparr>"] by (auto simp: faulty_def same_fs_def faults_ok_def)
  next
    case (Some f')
    then show ?thesis
      using Cons fault [of f' "s\<lparr>sf_Faults := fs\<rparr>"] by (auto simp: faulty_def same_fs_def faults_ok_def)
  qed
qed

text \<open>Two open files, the delta at \<open>p\<close> and the image at \<open>q\<close>.\<close>

definition ready ::
    "int \<Rightarrow> int \<Rightarrow> string \<Rightarrow> string \<Rightarrow> char option list \<Rightarrow> char option list \<Rightarrow> sfs \<Rightarrow> bool" where
  "ready src dst p q D M s \<longleftrightarrow>
     (\<exists>o1. map_of (sf_Open s) src = Some (p, o1)) \<and> (\<exists>o2. map_of (sf_Open s) dst = Some (q, o2)) \<and>
     map_of (sf_Files s) p = Some D \<and> map_of (sf_Files s) q = Some M \<and> src \<noteq> dst \<and> p \<noteq> q \<and> faults_ok s"

definition at :: "int \<Rightarrow> nat \<Rightarrow> sfs \<Rightarrow> bool" where
  "at fd o1 s \<longleftrightarrow> (\<exists>p. map_of (sf_Open s) fd = Some (p, o1))"

definition others :: "string \<Rightarrow> sfs \<Rightarrow> sfs \<Rightarrow> bool" where
  "others q s s' \<longleftrightarrow> (\<forall>r. r \<noteq> q \<longrightarrow> map_of (sf_Files s') r = map_of (sf_Files s) r)"

lemma others_refl [simp]: "others q s s"
  by (simp add: others_def)

lemma others_trans: "others q s s' \<Longrightarrow> others q s' s'' \<Longrightarrow> others q s s''"
  by (simp add: others_def)

lemma same_ready: "same_fs s s' \<Longrightarrow> ready src dst p q D M s \<Longrightarrow> ready src dst p q D M s'"
  by (auto simp: same_fs_def ready_def)

lemma same_at: "same_fs s s' \<Longrightarrow> at fd o1 s \<Longrightarrow> at fd o1 s'"
  by (auto simp: same_fs_def at_def)

lemma same_others: "same_fs s s' \<Longrightarrow> others q s s'"
  by (auto simp: same_fs_def others_def)

lemma firstFrom_Some:
  assumes "firstFrom P off b = Some i"
  shows "off \<le> i" "i < length b" "P (b ! i)" "off \<le> j \<Longrightarrow> j < i \<Longrightarrow> \<not> P (b ! j)"
proof -
  let ?t = "takeWhile (\<lambda>c. \<not> P c) (drop off b)"
  have i: "i = off + length ?t" "i < length b"
    using assms by (auto simp: firstFrom_def Let_def split: if_splits)
  then show "off \<le> i" "i < length b"
    by auto
  have "length ?t < length (drop off b)"
    using i by simp
  from nth_length_takeWhile [OF this] i show "P (b ! i)"
    by simp
  show "\<not> P (b ! j)" if "off \<le> j" "j < i"
  proof -
    have j: "j - off < length ?t"
      using that i by simp
    then have "?t ! (j - off) \<in> set ?t"
      by (rule nth_mem)
    moreover have "?t ! (j - off) = b ! j"
      using that i j by (simp add: takeWhile_nth)
    ultimately show ?thesis
      by (metis set_takeWhileD)
  qed
qed

lemma firstFrom_None:
  assumes "firstFrom P off b = None" "off \<le> j" "j < length b"
  shows "\<not> P (b ! j)"
proof -
  let ?t = "takeWhile (\<lambda>c. \<not> P c) (drop off b)"
  have "length (drop off b) \<le> length ?t"
    using assms(1) assms(2,3) by (auto simp: firstFrom_def Let_def split: if_splits)
  moreover have "length ?t + length (dropWhile (\<lambda>c. \<not> P c) (drop off b)) = length (drop off b)"
    by (simp only: length_append [symmetric] takeWhile_dropWhile_id)
  ultimately have "length (dropWhile (\<lambda>c. \<not> P c) (drop off b)) = 0"
    by arith
  then have all: "\<forall>x\<in>set (drop off b). \<not> P x"
    by (simp only: length_0_conv dropWhile_eq_Nil_conv)
  have "drop off b ! (j - off) \<in> set (drop off b)"
    by (rule nth_mem) (use assms(2,3) in simp)
  then show ?thesis
    using all assms(2,3) by simp
qed

text \<open>An operation on the open delta that changes nothing.\<close>

lemma probe_cases:
  assumes "ready src dst p q D M s" "faulty (\<lambda>s. onFd src (\<lambda>p o1 b. (f b, s)) s) s = (r, s')"
  shows "ready src dst p q D M s' \<and> others q s s' \<and> (\<forall>fd o1. at fd o1 s \<longrightarrow> at fd o1 s') \<and>
    ((\<exists>e. r = Inl e \<and> e \<noteq> ENXIO) \<or> r = f D)"
proof (cases rule: faulty_cases [of "\<lambda>s. onFd src (\<lambda>p o1 b. (f b, s)) s" s])
  case (fault e t)
  then have "r = Inl e" "s' = t"
    using assms(2) by auto
  with fault(2,3) show ?thesis
    using assms(1) same_ready [OF fault(2) assms(1)] same_others [OF fault(2)] same_at [OF fault(2)]
    by (auto simp: ready_def faults_ok_def)
next
  case (run t)
  have "r = f D \<and> s' = t"
    using assms(2) run same_ready [OF run(2) assms(1)] by (auto simp: onFd_def ready_def)
  then show ?thesis
    using same_ready [OF run(2) assms(1)] same_others [OF run(2)] same_at [OF run(2)] by blast
qed

lemma seek_data:
  assumes "ready src dst p q D M s" "faulty (dataFrom src (int off)) s = (r, s')"
  shows "ready src dst p q D M s' \<and> others q s s' \<and>
    (case r of
       Inl e \<Rightarrow> e = ENXIO \<longrightarrow> (\<forall>j. off \<le> j \<and> j < length D \<longrightarrow> D ! j = None)
     | Inr ds \<Rightarrow> \<exists>i. ds = int i \<and> off \<le> i \<and> i < length D \<and> D ! i \<noteq> None \<and>
         (\<forall>j. off \<le> j \<and> j < i \<longrightarrow> D ! j = None))"
proof -
  have "dataFrom src (int off) = (\<lambda>s. onFd src (\<lambda>p o1 b.
      (case firstFrom (\<lambda>c. c \<noteq> None) off b of None \<Rightarrow> Inl ENXIO | Some i \<Rightarrow> Inr (int i), s)) s)"
    by (simp add: dataFrom_def fun_eq_iff)
  from probe_cases [OF assms(1) assms(2) [unfolded this]] show ?thesis
    using firstFrom_Some [of "\<lambda>c. c \<noteq> None" off D] firstFrom_None [of "\<lambda>c. c \<noteq> None" off D]
    by (cases "firstFrom (\<lambda>c. c \<noteq> None) off D") auto
qed

lemma seek_hole:
  assumes "ready src dst p q D M s" "faulty (holeFrom src (int off)) s = (r, s')"
    and "off < length D" "D ! off \<noteq> None"
  shows "ready src dst p q D M s' \<and> others q s s' \<and>
    (\<forall>de. r = Inr de \<longrightarrow> (\<exists>i. de = int i \<and> off < i \<and> i \<le> length D \<and> (\<forall>j. off \<le> j \<and> j < i \<longrightarrow> D ! j \<noteq> None)))"
proof -
  have eq: "holeFrom src (int off) = (\<lambda>s. onFd src (\<lambda>p o1 b.
      (Inr (case firstFrom (\<lambda>c. c = None) off b of None \<Rightarrow> int (length b) | Some i \<Rightarrow> int i), s)) s)"
    by (simp add: holeFrom_def fun_eq_iff)
  have "\<exists>i. (case firstFrom (\<lambda>c. c = None) off D of None \<Rightarrow> int (length D) | Some i \<Rightarrow> int i) = int i \<and>
      off < i \<and> i \<le> length D \<and> (\<forall>j. off \<le> j \<and> j < i \<longrightarrow> D ! j \<noteq> None)"
  proof (cases "firstFrom (\<lambda>c. c = None) off D")
    case None
    then show ?thesis
      using firstFrom_None [OF None] assms(3) by auto
  next
    case (Some i)
    from firstFrom_Some(1,2,3) [OF this] firstFrom_Some(4) [OF this] show ?thesis
      using Some assms(4) by (intro exI [of _ i]) (auto simp: le_less)
  qed
  with probe_cases [OF assms(1) assms(2) [unfolded eq]] show ?thesis
    by auto
qed


lemma seek_to:
  assumes "ready src dst p q D M s" "errorOf (faulty (seekTo fd (int k)) s) = (None, s')" "fd \<in> {src, dst}"
  shows "ready src dst p q D M s' \<and> others q s s' \<and> at fd k s' \<and> (\<forall>fd' o1. fd' \<noteq> fd \<and> at fd' o1 s \<longrightarrow> at fd' o1 s')"
proof (cases rule: faulty_cases [of "seekTo fd (int k)" s])
  case (fault e t)
  then show ?thesis
    using assms(2) by (simp add: errorOf_def)
next
  case (run t)
  then show ?thesis
    using assms same_ready [OF run(2) assms(1)]
    by (auto simp: errorOf_def seekTo_def onFd_def ready_def others_def at_def faults_ok_def same_fs_def)
qed

lemma read_full:
  assumes "ready src dst p q D M s" "at src k s" "0 < n"
    and "mh_ReadFull (sparseHost exdev resparse) src (int n) s = ((b, err), s')"
  shows "err = None \<longrightarrow> b = map plainByte (take n (drop k D)) \<and> length b = n \<and>
      ready src dst p q D M s' \<and> others q s s' \<and> at src (k + n) s' \<and> (\<forall>o2. at dst o2 s \<longrightarrow> at dst o2 s')"
proof (cases rule: faulty_cases [of "readBytes src (int n)" s])
  case (fault e t)
  then show ?thesis
    using assms(4) by auto
next
  case (run t)
  have r: "ready src dst p q D M t" and a: "at src k t"
    using same_ready [OF run(2) assms(1)] same_at [OF run(2) assms(2)] .
  then show ?thesis
    using assms(4) run
    by (auto simp: readBytes_def onFd_def ready_def others_def at_def faults_ok_def same_fs_def Let_def
          split: if_splits)
qed

lemma write_bytes:
  assumes "ready src dst p q D M s" "at dst k s" "errorOf (faulty (writeBytes dst d) s) = (None, s')"
  shows "ready src dst p q D (writeAt k d M) s' \<and> others q s s' \<and> at dst (k + length d) s' \<and>
      (\<forall>o1. at src o1 s \<longrightarrow> at src o1 s')"
proof (cases rule: faulty_cases [of "writeBytes dst d" s])
  case (fault e t)
  then show ?thesis
    using assms(3) by (simp add: errorOf_def)
next
  case (run t)
  have r: "ready src dst p q D M t" and a: "at dst k t"
    using same_ready [OF run(2) assms(1)] same_at [OF run(2) assms(2)] .
  then show ?thesis
    using assms(3) run
    by (auto simp: writeBytes_def errorOf_def onFd_def ready_def others_def at_def faults_ok_def same_fs_def)
qed

subsection \<open>The copy lays the data over the image\<close>

text \<open>What the image is when the data below \<open>k\<close> has been laid over it.\<close>

definition laid :: "nat \<Rightarrow> char option list \<Rightarrow> char option list \<Rightarrow> char option list" where
  "laid k D B = take k (overlay D B) @ drop k B"

lemma length_laid [simp]: "length (laid k D B) = length B"
  by (simp add: laid_def)

lemma laid_nth:
  assumes "length D = length B" "i < length B"
  shows "laid k D B ! i = (if i < k \<and> D ! i \<noteq> None then D ! i else B ! i)"
  using assms by (auto simp: laid_def nth_append overlay_nth)

lemma laid_ends: "laid 0 D B = B" "length D = length B \<Longrightarrow> length D \<le> k \<Longrightarrow> laid k D B = overlay D B"
  by (simp_all add: laid_def)

lemma laid_skip:
  assumes "length D = length B" "off \<le> i" "\<And>j. off \<le> j \<Longrightarrow> j < i \<Longrightarrow> j < length B \<Longrightarrow> D ! j = None"
  shows "laid i D B = laid off D B"
  by (rule nth_equalityI) (use assms in \<open>auto simp: laid_nth\<close>)

lemma laid_write:
  assumes "length D = length B" "i + n \<le> length B" "\<And>j. i \<le> j \<Longrightarrow> j < i + n \<Longrightarrow> D ! j \<noteq> None"
  shows "writeAt i (map plainByte (take n (drop i D))) (laid i D B) = laid (i + n) D B"
proof (rule nth_equalityI)
  have plain: "Some (plainByte (D ! j)) = D ! j" if "i \<le> j" "j < i + n" for j
    using assms(3) [OF that] by (auto simp: plainByte_def)
  show "length (writeAt i (map plainByte (take n (drop i D))) (laid i D B)) = length (laid (i + n) D B)"
    using assms(1,2) by (simp add: writeAt_def)
  show "writeAt i (map plainByte (take n (drop i D))) (laid i D B) ! j = laid (i + n) D B ! j"
    if "j < length (writeAt i (map plainByte (take n (drop i D))) (laid i D B))" for j
  proof -
    have j: "j < length B"
      using that assms(1,2) by (simp add: writeAt_def)
    consider "j < i" | "i \<le> j" "j < i + n" | "i + n \<le> j"
      by linarith
    then show ?thesis
    proof cases
      case 1
      then show ?thesis
        using assms(1,2) j by (simp add: writeAt_def nth_append laid_nth)
    next
      case 2
      then have "j - i < n"
        by arith
      with 2 show ?thesis
        using assms(1,2) assms(3) [OF 2] j plain [OF 2] by (simp add: writeAt_def nth_append laid_nth)
    next
      case 3
      then have "\<not> j - i < n"
        by arith
      with 3 show ?thesis
        using assms(1,2) j by (simp add: writeAt_def nth_append laid_nth)
    qed
  qed
qed


text \<open>One data region, from \<open>i\<close> to \<open>i + r\<close>: if every step works, it is laid.\<close>

lemma chunks:
  assumes "ready src dst p q D (laid i D B) s" "at src i s" "at dst i s"
    and "length D = length B" "i + r \<le> length B" "\<And>j. i \<le> j \<Longrightarrow> j < i + r \<Longrightarrow> D ! j \<noteq> None"
  shows "\<exists>c err s'. copyChunks (sparseHost exdev resparse) src dst (int r) copied s = Some ((c, err), s') \<and>
    (err = None \<longrightarrow> ready src dst p q D (laid (i + r) D B) s' \<and> others q s s')"
  using assms
proof (induction r arbitrary: i copied s rule: less_induct)
  case (less r)
  let ?h = "sparseHost exdev resparse"
  show ?case
  proof (cases "r = 0")
    case True
    then show ?thesis
      using less.prems by (subst copyChunks.simps) simp
  next
    case False
    define n where "n = nat (min bufLen (int r))"
    have n: "0 < n" "n \<le> r" "min bufLen (int r) = int n"
      using False by (auto simp: n_def bufLen_def)
    obtain b err t where rd: "mh_ReadFull ?h src (int n) s = ((b, err), t)"
      by (cases "mh_ReadFull ?h src (int n) s") auto
    note step = copyChunks.simps [of ?h src dst "int r" copied s]
    note spec = read_full [OF less.prems(1,2) n(1) rd]
    obtain werr u where wr: "(if b = [] then (None, t) else mh_Write ?h dst b t) = (werr, u)"
      by (cases "if b = [] then (None, t) else mh_Write ?h dst b t")
    show ?thesis
    proof (cases "werr = None \<and> err = None")
      case False
      then show ?thesis
        using rd wr n \<open>r \<noteq> 0\<close> by (subst step) (cases werr; cases err; simp)
    next
      case True
      with spec have b: "b = map plainByte (take n (drop i D))" "length b = n" "b \<noteq> []"
          and t: "ready src dst p q D (laid i D B) t" "others q s t" "at src (i + n) t" "at dst i t"
        using n(1) less.prems(3) by auto
      have w: "errorOf (faulty (writeBytes dst b) t) = (None, u)"
        using wr True b(3) by simp
      have "writeAt i b (laid i D B) = laid (i + n) D B"
        unfolding b(1) by (rule laid_write) (use less.prems(4,5,6) n in auto)
      with write_bytes [OF t(1,4) w] b(2) t(3)
      have u: "ready src dst p q D (laid (i + n) D B) u" "others q t u" "at dst (i + n) u" "at src (i + n) u"
        by auto
      have "\<exists>c err s'. copyChunks ?h src dst (int (r - n)) (copied + int n) u = Some ((c, err), s') \<and>
          (err = None \<longrightarrow> ready src dst p q D (laid (i + n + (r - n)) D B) s' \<and> others q u s')"
        by (rule less.IH) (use u less.prems(4,5,6) n \<open>r \<noteq> 0\<close> in auto)
      moreover have "copyChunks ?h src dst (int r) copied s = copyChunks ?h src dst (int (r - n)) (copied + int n) u"
        using rd wr True n b(2) \<open>r \<noteq> 0\<close> by (subst step) (simp add: of_nat_diff)
      ultimately show ?thesis
        using n(2) others_trans [OF others_trans [OF t(2) u(2)]] by auto
    qed
  qed
qed


text \<open>
  One round of the loop that has found data at \<open>i\<close> fails, or goes on after the region with the region laid.
\<close>

definition goes_on ::
    "sfs sparse_host \<Rightarrow> int \<Rightarrow> int \<Rightarrow> string \<Rightarrow> string \<Rightarrow> char option list \<Rightarrow> char option list \<Rightarrow> nat \<Rightarrow> sfs \<Rightarrow>
      ((int \<times> go_error option) \<times> sfs) option \<Rightarrow> bool" where
  "goes_on h src dst p q D B off s res \<longleftrightarrow>
     (\<exists>c e t. res = Some ((c, Some e), t)) \<or>
     (\<exists>c t. res = Some ((c, None), t) \<and> ready src dst p q D (overlay D B) t \<and> others q s t) \<or>
     (\<exists>j c t. off < j \<and> j \<le> length B \<and> res = copyRegions h src dst (int (length B)) (int j) c t \<and>
        ready src dst p q D (laid j D B) t \<and> others q s t)"

lemma region_found:
  assumes "ready src dst p q D (laid i D B) s1" "others q s s1" "length D = length B"
    and "faulty (dataFrom src (int off)) s = (Inr (int i), s1)" "off \<le> i" "i < length D" "D ! i \<noteq> None"
  shows "goes_on (sparseHost exdev resparse) src dst p q D B off s
    (copyRegions (sparseHost exdev resparse) src dst (int (length B)) (int off) copied s)"
proof -
  let ?h = "sparseHost exdev resparse"
  note step = copyRegions.simps [of ?h src dst "int (length B)" "int off" copied s]
  have off: "\<not> length B \<le> off"
    using assms(3,5,6) by simp
  obtain r2 s2 where sh: "faulty (holeFrom src (int i)) s1 = (r2, s2)"
    by (cases "faulty (holeFrom src (int i)) s1")
  obtain e3 s3 where s3: "errorOf (faulty (seekTo src (int i)) s2) = (e3, s3)"
    by (cases "errorOf (faulty (seekTo src (int i)) s2)")
  obtain e4 s4 where s4: "errorOf (faulty (seekTo dst (int i)) s3) = (e4, s4)"
    by (cases "errorOf (faulty (seekTo dst (int i)) s3)")
  show ?thesis
  proof (cases "\<exists>de. r2 = Inr de \<and> e3 = None \<and> e4 = None")
    case False
    then show ?thesis
      using assms(4) off sh s3 s4 unfolding goes_on_def
      by (intro disjI1, subst step) (cases r2; cases e3; cases e4; simp)
  next
    case True
    with seek_hole [OF assms(1) sh assms(6,7)] obtain j where j: "r2 = Inr (int j)" "i < j" "j \<le> length D"
        "\<And>k. i \<le> k \<Longrightarrow> k < j \<Longrightarrow> D ! k \<noteq> None"
        and r2: "ready src dst p q D (laid i D B) s2" "others q s1 s2"
      by auto
    have none: "e3 = None" "e4 = None"
      using True by auto
    have r3: "ready src dst p q D (laid i D B) s3" "others q s2 s3" "at src i s3"
      using seek_to [OF r2(1) s3 [unfolded none]] by auto
    have r4: "ready src dst p q D (laid i D B) s4" "others q s3 s4" "at dst i s4" "at src i s4"
      using seek_to [OF r3(1) s4 [unfolded none]] r3 by (auto simp: ready_def)
    from chunks [OF r4(1,4,3) assms(3), of "j - i" exdev resparse copied] j(2,3,4) assms(3)
    obtain c5 e5 s5 where c: "copyChunks ?h src dst (int (j - i)) copied s4 = Some ((c5, e5), s5)"
        and r5: "e5 = None \<Longrightarrow> ready src dst p q D (laid j D B) s5 \<and> others q s4 s5"
      by auto
    have "copyRegions ?h src dst (int (length B)) (int off) copied s =
        (if e5 \<noteq> None then Some ((c5, e5), s5)
         else copyRegions ?h src dst (int (length B)) (int j) c5 s5)"
      using assms(4) sh off j(1,2) s3 s4 none c by (subst step) (simp add: of_nat_diff)
    moreover have "e5 = None \<Longrightarrow> others q s s5"
      using assms(2) r2(2) r3(2) r4(2) r5 by (auto simp: others_def)
    ultimately show ?thesis
      using r5 j(2,3) assms(3,5) unfolding goes_on_def by (cases e5) (auto 0 3 intro!: exI [of _ j])
  qed
qed

lemma region_round:
  assumes "ready src dst p q D (laid off D B) s" "length D = length B" "off < length B"
  shows "goes_on (sparseHost exdev resparse) src dst p q D B off s
    (copyRegions (sparseHost exdev resparse) src dst (int (length B)) (int off) copied s)"
proof -
  obtain r1 s1 where sd: "faulty (dataFrom src (int off)) s = (r1, s1)"
    by (cases "faulty (dataFrom src (int off)) s")
  note d = seek_data [OF assms(1) sd]
  show ?thesis
  proof (cases r1)
    case (Inl e)
    have "laid (length B) D B = laid off D B" if "e = ENXIO"
      by (intro laid_skip) (use d Inl assms(2,3) that in auto)
    then show ?thesis
      using sd Inl assms d laid_ends(2) [of D B "length B"]
      unfolding goes_on_def by (subst (1 2) copyRegions.simps) auto
  next
    case (Inr ds)
    with d obtain i where i: "ds = int i" "off \<le> i" "i < length D" "D ! i \<noteq> None"
        "\<And>j. off \<le> j \<Longrightarrow> j < i \<Longrightarrow> D ! j = None"
      by auto
    have "laid i D B = laid off D B"
      by (rule laid_skip) (use i assms(2) in auto)
    with region_found [of src dst p q D i B s1 s off] d sd Inr i assms(2) show ?thesis
      by simp
  qed
qed

lemma regions:
  assumes "ready src dst p q D (laid off D B) s" "length D = length B"
  shows "\<exists>c err s'. copyRegions (sparseHost exdev resparse) src dst (int (length B)) (int off) copied s =
      Some ((c, err), s') \<and>
    (err = None \<longrightarrow> ready src dst p q D (overlay D B) s' \<and> others q s s')"
  using assms
proof (induction "length B - off" arbitrary: off copied s rule: less_induct)
  case less
  show ?case
  proof (cases "off < length B")
    case False
    then show ?thesis
      using less.prems laid_ends(2) [of D B off] by (subst copyRegions.simps) simp
  next
    case True
    from region_round [OF less.prems True, of exdev resparse copied] show ?thesis
      unfolding goes_on_def
    proof (elim disjE exE conjE)
      fix j c1 t
      assume j: "off < j" "ready src dst p q D (laid j D B) t" "others q s t"
        "copyRegions (sparseHost exdev resparse) src dst (int (length B)) (int off) copied s =
          copyRegions (sparseHost exdev resparse) src dst (int (length B)) (int j) c1 t"
      have "\<exists>c err s'. copyRegions (sparseHost exdev resparse) src dst (int (length B)) (int j) c1 t =
          Some ((c, err), s') \<and> (err = None \<longrightarrow> ready src dst p q D (overlay D B) s' \<and> others q t s')"
        by (rule less.hyps) (use j True less.prems(2) in auto)
      then show ?thesis
        using j(3,4) others_trans by auto
    qed auto
  qed
qed


subsection \<open>The merge\<close>

text \<open>The steps around the copy, for the paths of the two files.\<close>

definition holds :: "sfs \<Rightarrow> string \<Rightarrow> char option list \<Rightarrow> bool" where
  "holds s p b \<longleftrightarrow> faults_ok s \<and> map_of (sf_Files s) p = Some b"

lemma same_holds: "same_fs s s' \<Longrightarrow> holds s p b \<Longrightarrow> holds s' p b"
  by (auto simp: same_fs_def holds_def)

lemma same_trans: "same_fs s s' \<Longrightarrow> same_fs s' s'' \<Longrightarrow> same_fs s s''"
  by (auto simp: same_fs_def)

lemma stat_step:
  assumes "faulty (statFile p) s = (r, s')"
  shows "same_fs s s' \<and> (\<forall>n b. r = Inr n \<and> holds s p b \<longrightarrow> n = int (length b))"
  by (cases rule: faulty_cases [of "statFile p" s])
     (use assms in \<open>auto simp: statFile_def same_fs_def holds_def split: option.splits\<close>)

lemma fstat_step:
  assumes "faulty (lengthOf fd) s = (r, s')"
  shows "same_fs s s' \<and>
    (\<forall>p o1 b n. r = Inr n \<and> map_of (sf_Open s) fd = Some (p, o1) \<and> holds s p b \<longrightarrow> n = int (length b))"
  by (cases rule: faulty_cases [of "lengthOf fd" s])
     (use assms in \<open>auto simp: lengthOf_def onFd_def same_fs_def holds_def split: option.splits prod.splits\<close>)

lemma remove_step:
  assumes "errorOf (faulty (removeFile p) s) = (r, s')" "holds s q b" "q \<noteq> p"
  shows "holds s' q b"
  by (cases rule: faulty_cases [of "removeFile p" s])
     (use assms in \<open>auto simp: removeFile_def errorOf_def same_fs_def holds_def faults_ok_def\<close>)

lemma rename_step:
  assumes "errorOf (faulty (renameFile p q) s) = (r, s')"
  shows "(\<forall>e. r = Some e \<longrightarrow> (\<forall>x b. holds s x b \<longrightarrow> holds s' x b)) \<and>
    (\<forall>b. r = None \<and> holds s p b \<longrightarrow> holds s' q b) \<and> (\<forall>x b. holds s x b \<and> x \<notin> {p, q} \<longrightarrow> holds s' x b)"
  by (cases rule: faulty_cases [of "renameFile p q" s])
     (use assms in \<open>auto simp: renameFile_def errorOf_def same_fs_def holds_def faults_ok_def
        split: option.splits\<close>)

lemma copy_step:
  assumes "errorOf (faulty (copyFile resparse p q) s) = (None, s')" "holds s p b"
  shows "holds s' q (resparse b) \<and> (\<forall>x b. holds s x b \<and> x \<noteq> q \<longrightarrow> holds s' x b)"
  by (cases rule: faulty_cases [of "copyFile resparse p q" s])
     (use assms in \<open>auto simp: copyFile_def errorOf_def same_fs_def holds_def faults_ok_def
        split: option.splits\<close>)

lemma open_step:
  assumes "faulty (openFile p) s = (Inr d, s')"
  shows "d = sf_Next s \<and> sf_Next s' = d + 1 \<and> sf_Open s' = gm_set d (p, 0) (sf_Open s) \<and>
    sf_Files s' = sf_Files s \<and> (faults_ok s \<longrightarrow> faults_ok s')"
  by (cases rule: faulty_cases [of "openFile p" s])
     (use assms in \<open>auto simp: openFile_def same_fs_def faults_ok_def split: if_splits\<close>)

lemma opened:
  assumes "holds s p D" "holds s q B" "p \<noteq> q"
    and "faulty (openFile p) s = (Inr d, s1)" "same_fs s1 s2" "faulty (openFile q) s2 = (Inr m, s3)"
  shows "ready d m p q D B s3"
  using open_step [OF assms(4)] open_step [OF assms(6)] assms(1,2,3,5)
  by (auto simp: ready_def holds_def same_fs_def)

lemma close_step: "errorOf (faulty (\<lambda>s. (Inr (), s)) s) = (r, s') \<Longrightarrow> same_fs s s'"
  by (cases rule: faulty_cases [of "\<lambda>s. (Inr (), s)" s]) (auto simp: errorOf_def same_fs_def)

lemma closing_same:
  assumes "closing (sparseHost exdev resparse) fds (r, s) = (r', s')"
  shows "r' = r \<and> same_fs s s'"
  using assms
proof (induction fds arbitrary: s)
  case Nil
  then show ?case
    by (simp add: closing_def same_fs_def)
next
  case (Cons fd fds)
  obtain e t where t: "errorOf (faulty (\<lambda>s. (Inr (), s)) s) = (e, t)"
    by (cases "errorOf (faulty (\<lambda>s. (Inr (), s)) s)")
  then show ?case
    using Cons.IH [of t] Cons.prems same_trans [OF close_step [OF t]] by (simp add: closing_def)
qed


lemma overlay_open:
  assumes "ready d m p q D B s" "length D = length B"
  shows "\<exists>err s'. overlayOpen (sparseHost exdev resparse) d m finish s = Some (err, s') \<and>
    (err = None \<longrightarrow> (\<exists>t. holds t p D \<and> holds t q (overlay D B) \<and>
       (\<forall>x b. holds s x b \<and> x \<noteq> q \<longrightarrow> holds t x b) \<and> finish t = (None, s')))"
proof -
  let ?h = "sparseHost exdev resparse"
  obtain r s1 where st: "faulty (lengthOf d) s = (r, s1)"
    by (cases "faulty (lengthOf d) s")
  have eq: "lengthOf d = (\<lambda>s. onFd d (\<lambda>p o1 b. (Inr (int (length b)), s)) s)"
    by (simp add: lengthOf_def fun_eq_iff)
  note probe = probe_cases [OF assms(1) st [unfolded eq]]
  show ?thesis
  proof (cases r)
    case (Inl e)
    then show ?thesis
      using st by (simp add: overlayOpen_def copySparseRegions_def)
  next
    case (Inr n)
    with probe assms have n: "n = int (length B)" and r1: "ready d m p q D (laid 0 D B) s1" "others q s s1"
      by (auto simp: laid_ends)
    from regions [OF r1(1) assms(2), of exdev resparse 0] obtain c err s2
      where c: "copyRegions ?h d m (int (length B)) 0 0 s1 = Some ((c, err), s2)"
        and r2: "err = None \<Longrightarrow> ready d m p q D (overlay D B) s2 \<and> others q s1 s2"
      by auto
    obtain ce s3 where cl: "errorOf (faulty (\<lambda>s. (Inr (), s)) s2) = (ce, s3)"
      by (cases "errorOf (faulty (\<lambda>s. (Inr (), s)) s2)")
    have run: "overlayOpen ?h d m finish s =
        Some (if err \<noteq> None then (err, s2) else if ce \<noteq> None then (ce, s3) else finish s3)"
      using st Inr n c cl by (simp add: overlayOpen_def copySparseRegions_def)
    have "holds s3 p D \<and> holds s3 q (overlay D B) \<and> (\<forall>x b. holds s x b \<and> x \<noteq> q \<longrightarrow> holds s3 x b)"
      if "err = None"
      using r2 [OF that] r1(2) close_step [OF cl]
      by (auto simp: ready_def holds_def others_def same_fs_def)
    then show ?thesis
      unfolding run by (cases err; cases ce; cases "finish s3") auto
  qed
qed

text \<open>The contents a reader sees do not tell a hole from zeroes.\<close>

definition reads :: "sfs \<Rightarrow> string \<Rightarrow> string \<Rightarrow> bool" where
  "reads s p d \<longleftrightarrow> (\<exists>b. holds s p b \<and> map plainByte b = d)"

lemma overlay_plain:
  "map plainByte bs = map plainByte bs' \<Longrightarrow> map plainByte (overlay ds bs) = map plainByte (overlay ds bs')"
proof (induction ds bs arbitrary: bs' rule: overlay.induct)
  case (1 d ds b bs)
  from 1(2) obtain b' bs'' where b: "bs' = b' # bs''" "plainByte b = plainByte b'"
      "map plainByte bs = map plainByte bs''"
    by (cases bs') auto
  from 1(1) [OF b(3)] b(1,2) show ?case
    by simp
qed simp_all

definition merged_or_failed ::
    "string \<Rightarrow> char option list \<Rightarrow> char option list \<Rightarrow> sfs \<Rightarrow> string set \<Rightarrow> (go_error option \<times> sfs) option \<Rightarrow> bool" where
  "merged_or_failed p D B s T res \<longleftrightarrow> (\<exists>err s'. res = Some (err, s') \<and>
     (err = None \<longrightarrow> length D = length B \<and> reads s' p (map plainByte (overlay D B)) \<and>
       (\<forall>x b. holds s x b \<and> x \<notin> T \<longrightarrow> holds s' x b)))"

lemma merged_fails: "res = Some (Some e, s') \<Longrightarrow> merged_or_failed p D B s T res"
  by (simp add: merged_or_failed_def)

text \<open>Both merges end in the same way: the two files are opened, the data is laid, the last step moves the result.\<close>

lemma merge_opened:
  assumes "holds s p D" "holds s q C" "p \<noteq> q" "length D = length B" "map plainByte C = map plainByte B"
    and "faulty (openFile p) s = (Inr d, s1)" "same_fs s1 s2" "faulty (openFile q) s2 = (Inr m, s3)"
    and finish: "\<And>t s'. holds t p D \<Longrightarrow> holds t q (overlay D C) \<Longrightarrow> finish t = (None, s') \<Longrightarrow>
      holds s' p (overlay D C) \<and> (\<forall>x b. holds t x b \<and> x \<notin> {p, q} \<longrightarrow> holds s' x b)"
  shows "merged_or_failed p D B s {p, q}
    (map_option (closing (sparseHost exdev resparse) [m, d]) (overlayOpen (sparseHost exdev resparse) d m finish s3))"
proof -
  let ?h = "sparseHost exdev resparse"
  have rd: "ready d m p q D C s3"
    by (rule opened [OF assms(1,2,3,6,7,8)])
  have keep: "holds s3 x b" if "holds s x b" for x b
    using that open_step [OF assms(6)] assms(7) open_step [OF assms(8)] by (auto simp: holds_def same_fs_def)
  have "length D = length C"
    using assms(4,5) by (metis length_map)
  from overlay_open [OF rd this, of exdev resparse finish] obtain err s4
    where 4: "overlayOpen ?h d m finish s3 = Some (err, s4)"
      and ok: "err = None \<Longrightarrow> \<exists>t. holds t p D \<and> holds t q (overlay D C) \<and>
        (\<forall>x b. holds s3 x b \<and> x \<noteq> q \<longrightarrow> holds t x b) \<and> finish t = (None, s4)"
    by auto
  obtain err' s5 where 5: "closing ?h [m, d] (err, s4) = (err', s5)"
    by (cases "closing ?h [m, d] (err, s4)")
  have "reads s5 p (map plainByte (overlay D B)) \<and> (\<forall>x b. holds s x b \<and> x \<notin> {p, q} \<longrightarrow> holds s5 x b)"
    if "err' = None"
  proof -
    have c: "err = None" "same_fs s4 s5"
      using closing_same [OF 5] that by auto
    with ok obtain t where t: "holds t p D" "holds t q (overlay D C)"
      "\<forall>x b. holds s3 x b \<and> x \<noteq> q \<longrightarrow> holds t x b" "finish t = (None, s4)"
      by auto
    note fin = finish [OF t(1,2,4)]
    have "holds s5 x b" if "holds s x b" "x \<notin> {p, q}" for x b
      using fin t(3) keep same_holds [OF c(2)] that by blast
    moreover have "holds s5 p (overlay D C)"
      using fin same_holds [OF c(2)] by blast
    ultimately show ?thesis
      using overlay_plain [OF assms(5), of D] by (auto simp: reads_def)
  qed
  then show ?thesis
    using 4 5 assms(4) by (auto simp: merged_or_failed_def)
qed

lemma merge_copy:
  assumes "holds s p D" "holds s q B" "p \<noteq> q" "\<And>b. map plainByte (resparse b) = map plainByte b"
    and "p @ ''.merge.tmp'' \<noteq> q"
  shows "merged_or_failed p D B s {p, p @ ''.merge.tmp''} (MergeSparseOverlay (sparseHost exdev resparse) q p p s)"
proof -
  let ?h = "sparseHost exdev resparse" and ?t = "p @ ''.merge.tmp''"
  obtain r1 s1 where 1: "faulty (statFile q) s = (r1, s1)"
    by (cases "faulty (statFile q) s")
  obtain r2 s2 where 2: "errorOf (faulty (removeFile ?t) s1) = (r2, s2)"
    by (cases "errorOf (faulty (removeFile ?t) s1)")
  obtain r3 s3 where 3: "errorOf (faulty (copyFile resparse q ?t) s2) = (r3, s3)"
    by (cases "errorOf (faulty (copyFile resparse q ?t) s2)")
  obtain r4 s4 where 4: "faulty (openFile p) s3 = (r4, s4)"
    by (cases "faulty (openFile p) s3")
  obtain r5 s5 where 5: "faulty (lengthOf (projr r4)) s4 = (r5, s5)"
    by (cases "faulty (lengthOf (projr r4)) s4")
  obtain r6 s6 where 6: "faulty (openFile ?t) s5 = (r6, s6)"
    by (cases "faulty (openFile ?t) s5")
  show ?thesis
  proof (cases "\<exists>n. r1 = Inr n \<and> r3 = None \<and> \<not> isl r4 \<and> r5 = Inr n \<and> \<not> isl r6")
    case False
    then show ?thesis
      using 1 2 3 4 5 6
      by (cases r1; cases r3; cases r4; cases r5; cases r6)
         (simp_all add: merged_or_failed_def MergeSparseOverlay_def Let_def closing_def)
  next
    case True
    then obtain n d m where r: "r1 = Inr n" "r3 = None" "r4 = Inr d" "r5 = Inr n" "r6 = Inr m" "projr r4 = d"
      by (cases r4; cases r6) auto
    have h2: "holds s2 x b" if "holds s x b" "x \<noteq> ?t" for x b
      using remove_step [OF 2] stat_step [OF 1] same_holds that by blast
    from copy_step [OF 3 [unfolded r] h2 [OF assms(2)]] assms(5)
    have h3: "holds s3 ?t (resparse B)" "\<And>x b. holds s x b \<Longrightarrow> x \<noteq> ?t \<Longrightarrow> holds s3 x b"
      using h2 by blast+
    then have p3: "holds s3 p D"
      using assms(1) by simp
    note stat5 = fstat_step [OF 5 [unfolded r(6)]]
    have "holds s4 p D" "map_of (sf_Open s4) d = Some (p, 0)"
      using open_step [OF 4 [unfolded r(3)]] p3 by (auto simp: holds_def)
    then have len: "length D = length B"
      using stat5 stat_step [OF 1] r(1,4) assms(2) by fastforce
    have "merged_or_failed p D B s3 {p, ?t} (map_option (closing ?h [m, d])
        (overlayOpen ?h d m (mh_Rename ?h ?t p) s5'))"
      if "faulty (openFile ?t) s5 = (Inr m, s5')" for s5'
    proof (rule merge_opened [OF p3 h3(1) _ len assms(4) 4 [unfolded r(3)] _ that])
      show "holds s' p (overlay D (resparse B)) \<and> (\<forall>x b. holds t x b \<and> x \<notin> {p, ?t} \<longrightarrow> holds s' x b)"
        if "holds t ?t (overlay D (resparse B))" "mh_Rename ?h ?t p t = (None, s')" for t s'
        using rename_step [of ?t p t None s'] that by auto
    qed (use stat5 in auto)
    then show ?thesis
      using 1 2 3 4 5 6 r h3(2) by (auto simp: MergeSparseOverlay_def Let_def merged_or_failed_def)
  qed
qed


lemma merge_in_place:
  assumes "holds s p D" "holds s q B" "p \<noteq> q" "length D = length B"
    and "errorOf (faulty (renameFile q (p @ ''.merged.tmp'')) s) = (None, s1)" "p @ ''.merged.tmp'' \<noteq> q"
    and "faulty (openFile p) s1 = (Inr d, s2)" "faulty (openFile (p @ ''.merged.tmp'')) s2 = (Inr m, s3)"
  shows "merged_or_failed p D B s {p, q, p @ ''.merged.tmp''}
    (map_option (closing (sparseHost exdev resparse) [m, d])
      (overlayOpen (sparseHost exdev resparse) d m (\<lambda>w.
         let (err, w) = mh_Remove (sparseHost exdev resparse) p w in
         case err of
           Some e \<Rightarrow> (Some (Errorf ''remove old delta: %w'' [FW e]), w)
         | None \<Rightarrow> mh_Rename (sparseHost exdev resparse) (p @ ''.merged.tmp'') p w) s3))"
    (is "merged_or_failed _ _ _ _ _ (map_option _ (overlayOpen ?h _ _ ?finish _))")
proof -
  let ?t = "p @ ''.merged.tmp''"
  have h1: "holds s1 ?t B" "\<And>x b. holds s x b \<Longrightarrow> x \<notin> {q, ?t} \<Longrightarrow> holds s1 x b"
    using rename_step [OF assms(5)] assms(2) by blast+
  then have p1: "holds s1 p D"
    using assms(1,3) by simp
  have "merged_or_failed p D B s1 {p, ?t} (map_option (closing ?h [m, d]) (overlayOpen ?h d m ?finish s3))"
  proof (rule merge_opened [OF p1 h1(1) _ assms(4) refl assms(7) _ assms(8)])
    show "holds s' p (overlay D B) \<and> (\<forall>x b. holds t x b \<and> x \<notin> {p, ?t} \<longrightarrow> holds s' x b)"
      if t: "holds t ?t (overlay D B)" "?finish t = (None, s')" for t s'
    proof -
      obtain u where u: "errorOf (faulty (removeFile p) t) = (None, u)"
          "errorOf (faulty (renameFile ?t p) u) = (None, s')"
        using t(2) by (cases "errorOf (faulty (removeFile p) t)") (auto simp: Let_def split: option.splits)
      have "holds u x b" if "holds t x b" "x \<noteq> p" for x b
        using remove_step [OF u(1) that] .
      then show ?thesis
        using rename_step [OF u(2)] t(1) by (auto simp del: append_self_conv)
    qed
  qed (auto simp: same_fs_def)
  then show ?thesis
    using h1(2) by (auto simp: merged_or_failed_def)
qed

lemma merge_delta:
  assumes "holds s p D" "holds s q B" "p \<noteq> q" "\<And>b. map plainByte (resparse b) = map plainByte b"
    and "p @ ''.merge.tmp'' \<noteq> q" "p @ ''.merged.tmp'' \<noteq> q"
  shows "merged_or_failed p D B s {p, q, p @ ''.merge.tmp'', p @ ''.merged.tmp''}
    (MergeDeltaIntoBase (sparseHost exdev resparse) q p s)"
proof -
  let ?h = "sparseHost exdev resparse" and ?t = "p @ ''.merged.tmp''"
  obtain r1 s1 where 1: "faulty (statFile q) s = (r1, s1)"
    by (cases "faulty (statFile q) s")
  obtain r2 s2 where 2: "faulty (statFile p) s1 = (r2, s2)"
    by (cases "faulty (statFile p) s1")
  obtain r3 s3 where 3: "errorOf (faulty (removeFile ?t) s2) = (r3, s3)"
    by (cases "errorOf (faulty (removeFile ?t) s2)")
  obtain r4 s4 where 4: "errorOf (faulty (renameFile q ?t) s3) = (r4, s4)"
    by (cases "errorOf (faulty (renameFile q ?t) s3)")
  obtain r5 s5 where 5: "faulty (openFile p) s4 = (r5, s5)"
    by (cases "faulty (openFile p) s4")
  obtain r6 s6 where 6: "faulty (openFile ?t) s5 = (r6, s6)"
    by (cases "faulty (openFile ?t) s5")
  have h3: "holds s3 x b" if "holds s x b" "x \<noteq> ?t" for x b
    using remove_step [OF 3] stat_step [OF 1] stat_step [OF 2] same_holds that by blast
  have p3: "holds s3 p D" "holds s3 q B"
    using h3 assms(1,2,6) by auto
  consider (fails) "\<nexists>n. r1 = Inr n \<and> r2 = Inr n"
    | (error) n e where "r1 = Inr n" "r2 = Inr n" "r4 = Some e" "\<not> exdev e"
    | (copy) n e where "r1 = Inr n" "r2 = Inr n" "r4 = Some e" "exdev e"
    | (moved) n where "r1 = Inr n" "r2 = Inr n" "r4 = None"
    by (cases r4) auto
  then show ?thesis
  proof cases
    case fails
    then show ?thesis
      using 1 2 by (cases r1; cases r2) (simp_all add: merged_or_failed_def MergeDeltaIntoBase_def)
  next
    case error
    then show ?thesis
      using 1 2 3 4 by (simp add: merged_or_failed_def MergeDeltaIntoBase_def Let_def)
  next
    case copy
    have "merged_or_failed p D B s4 {p, p @ ''.merge.tmp''} (MergeSparseOverlay ?h q p p s4)"
      by (rule merge_copy) (use rename_step [OF 4] copy p3 assms in auto)
    then show ?thesis
      using 1 2 3 4 copy h3 rename_step [OF 4]
      by (auto simp: merged_or_failed_def MergeDeltaIntoBase_def Let_def)
  next
    case moved
    have len: "length D = length B"
      using moved stat_step [OF 1] stat_step [OF 2] assms(1,2) same_holds by fastforce
    show ?thesis
    proof (cases "isl r5 \<or> isl r6")
      case True
      then show ?thesis
        using 1 2 3 4 5 6 moved
        by (cases r5; cases r6) (simp_all add: merged_or_failed_def MergeDeltaIntoBase_def Let_def closing_def)
    next
      case False
      then obtain d m where r: "r5 = Inr d" "r6 = Inr m"
        by (cases r5; cases r6) auto
      show ?thesis
        using merge_in_place [OF p3 assms(3) len 4 [unfolded moved] assms(6) 5 [unfolded r] 6 [unfolded r],
            of exdev resparse] 1 2 3 4 5 6 moved r h3
        by (auto simp: MergeDeltaIntoBase_def Let_def merged_or_failed_def)
    qed
  qed
qed


subsection \<open>Property\<close>

text \<open>
  C31. Whatever operations of the file system fail (with anything but \<open>ENXIO\<close>, which has a meaning), and
  whether or not the two images are on one file system: the merge of a delta into its base returns, and when
  it reports success the two images had one length, the image at the path of the delta reads, byte for byte,
  as the data of the delta over the base, and no other file than the base and the two temporary ones has
  changed.  Of \<open>cp --sparse=always\<close> it is assumed that its copy reads like the original.
\<close>

theorem merge_gives_the_overlay:
  assumes "faults_ok s" "map_of (sf_Files s) delta = Some D" "map_of (sf_Files s) base = Some B"
    and "base \<notin> {delta, delta @ ''.merge.tmp'', delta @ ''.merged.tmp''}"
    and "\<And>b. map plainByte (resparse b) = map plainByte b"
  shows "\<exists>err s'. MergeDeltaIntoBase (sparseHost exdev resparse) base delta s = Some (err, s') \<and>
    (err = None \<longrightarrow> length D = length B \<and>
      (\<exists>b. map_of (sf_Files s') delta = Some b \<and> map plainByte b = map plainByte (overlay D B)) \<and>
      (\<forall>r b. r \<notin> {delta, base, delta @ ''.merge.tmp'', delta @ ''.merged.tmp''} \<longrightarrow>
         map_of (sf_Files s) r = Some b \<longrightarrow> map_of (sf_Files s') r = Some b))"
proof -
  have "holds s delta D" "holds s base B"
    using assms(1,2,3) by (simp_all add: holds_def)
  from merge_delta [OF this, of resparse exdev] assms(1,4,5) show ?thesis
    by (auto simp: merged_or_failed_def reads_def holds_def)
qed

text \<open>A delta of one page among holes, with a failing removal of the temporary file on the way.\<close>

definition twoImages :: sfs where
  "twoImages =
     \<lparr>sf_Files = [(''base'', map Some ''abcdef''), (''delta'', [None, None, Some CHR ''X'', Some CHR ''Y'', None, None]),
                 (''other'', map Some ''o'')],
      sf_Open = [], sf_Next = 3, sf_Faults = [None, None, Some ENOENT]\<rparr>"

theorem merge_gives_the_overlay_witness:
  "(\<exists>err s'. MergeDeltaIntoBase (sparseHost (\<lambda>_. False) id) ''base'' ''delta'' twoImages = Some (err, s') \<and>
      (err = None \<longrightarrow> (\<exists>b. map_of (sf_Files s') ''delta'' = Some b \<and>
         map plainByte b = map plainByte (overlay [None, None, Some CHR ''X'', Some CHR ''Y'', None, None] (map Some ''abcdef''))))) \<and>
   map_option (\<lambda>(err, s'). (err, map_of (sf_Files s') ''delta'', map_of (sf_Files s') ''base''))
     (MergeDeltaIntoBase (sparseHost (\<lambda>_. False) id) ''base'' ''delta'' twoImages) =
     Some (None, Some (map Some ''abXYef''), None)"
proof (rule conjI)
  have "faults_ok twoImages"
    by code_simp
  moreover have "map_of (sf_Files twoImages) ''delta'' = Some [None, None, Some CHR ''X'', Some CHR ''Y'', None, None]"
    "map_of (sf_Files twoImages) ''base'' = Some (map Some ''abcdef'')"
    by (simp_all add: twoImages_def)
  ultimately show "\<exists>err s'. MergeDeltaIntoBase (sparseHost (\<lambda>_. False) id) ''base'' ''delta'' twoImages = Some (err, s') \<and>
      (err = None \<longrightarrow> (\<exists>b. map_of (sf_Files s') ''delta'' = Some b \<and>
         map plainByte b = map plainByte (overlay [None, None, Some CHR ''X'', Some CHR ''Y'', None, None] (map Some ''abcdef''))))"
    using merge_gives_the_overlay [of twoImages "''delta''" _ "''base''" _ id "\<lambda>_. False"] by fastforce
  show "map_option (\<lambda>(err, s'). (err, map_of (sf_Files s') ''delta'', map_of (sf_Files s') ''base''))
     (MergeDeltaIntoBase (sparseHost (\<lambda>_. False) id) ''base'' ''delta'' twoImages) =
     Some (None, Some (map Some ''abXYef''), None)"
    by code_simp
qed

end
