(* ===== verification/KataHost.thy ===== *)
theory KataHost
  imports Complex_Main Gvisor KataMerge
begin

text \<open>
  What the Kata snapshotter works with: the bodies it sends to Cloud Hypervisor, the messages of the agent in
  the guest, the records it keeps on disk, and the host it runs on.
\<close>

subsection \<open>Bodies of the hypervisor's API (\<open>ch/createvm.go\<close>, \<open>ch/api.go\<close>)\<close>

record fs_config =
  fc_Tag :: string
  fc_Socket :: string
  fc_NumQueues :: int
  fc_QueueSize :: int
  fc_PciSegment :: int

record cpus_config =
  cp_BootVcpus :: int
  cp_MaxVcpus :: int

record memory_config =
  mm_Size :: int
  mm_Shared :: bool

record payload_config =
  py_Kernel :: string
  py_Cmdline :: string

record disk_config =
  dk_Path :: string
  dk_Readonly :: bool
  dk_Direct :: bool
  dk_NumQueues :: int
  dk_QueueSize :: int
  dk_ImageType :: string

record console_config =
  co_Mode :: string
  co_File :: string

record vsock_config =
  vs_Cid :: int
  vs_Socket :: string

text \<open>A pointer that may be nil is an option; \<open>RngConfig\<close> and \<open>PlatformConfig\<close> have one field each.\<close>

record vm_config =
  vm_Cpus :: cpus_config
  vm_Memory :: memory_config
  vm_Payload :: payload_config
  vm_Disks :: "disk_config list"
  vm_Fs :: "fs_config list"
  vm_Rng :: "string option"
  vm_Serial :: "console_config option"
  vm_Console :: "console_config option"
  vm_Vsock :: "vsock_config option"
  vm_Platform :: "int option"

datatype ch_body = SnapshotBody string | CreateBody vm_config

record vmm_info =
  vi_Version :: string
  vi_BuildVersion :: string
  vi_Features :: "string list"

record restore_config =
  rf_SourceURL :: string
  rf_MemoryRestoreMode :: string
  rf_NetFDs :: "(string \<times> int) list"

record add_net_config =
  an_Mac :: string
  an_NumQueues :: int
  an_NumFDs :: int

subsection \<open>Messages of the agent\<close>

text \<open>Of the generated types the fields the program sets; every address is of family IPv4.\<close>

record pb_interface =
  if_Device :: string
  if_Name :: string
  if_HwAddr :: string
  if_Mtu :: int
  if_IPAddresses :: "(string \<times> string) list"

record pb_route =
  ro_Dest :: string
  ro_Gateway :: string
  ro_Device :: string
  ro_Scope :: int

record pb_neighbor =
  ne_ToIPAddress :: string
  ne_Device :: string
  ne_Lladdr :: string
  ne_State :: int

record pb_storage =
  st_Driver :: string
  st_DriverOptions :: "string list"
  st_Source :: string
  st_Fstype :: string
  st_Options :: "string list"
  st_MountPoint :: string

record container_user =
  us_UID :: int
  us_GID :: int
  us_AdditionalGids :: "int list"
  us_Username :: string

record capabilities =
  ca_Bounding :: "string list"
  ca_Effective :: "string list"
  ca_Inheritable :: "string list"
  ca_Permitted :: "string list"
  ca_Ambient :: "string list"

record rlimit =
  rl_Type :: string
  rl_Hard :: int
  rl_Soft :: int

record pb_process =
  pp_Terminal :: bool
  pp_Args :: "string list"
  pp_Env :: "string list"
  pp_Cwd :: string
  pp_NoNewPrivileges :: bool
  pp_User :: container_user
  pp_Capabilities :: "capabilities option"
  pp_Rlimits :: "rlimit list"

record pb_device =
  pd_Allow :: bool
  pd_Type :: string
  pd_Major :: int
  pd_Minor :: int
  pd_Access :: string

record pb_resources =
  pr_Devices :: "pb_device list"
  pr_CPUShares :: "int option"

record pb_linux =
  pl_CgroupsPath :: string
  pl_MaskedPaths :: "string list"
  pl_ReadonlyPaths :: "string list"
  pl_Namespaces :: "(string \<times> string) list"
  pl_Resources :: "pb_resources option"

record pb_spec =
  ps_Version :: string
  ps_Hostname :: string
  ps_Annotations :: "(string, string) gomap"
  ps_Process :: "pb_process option"
  ps_Root :: "(string \<times> bool) option"
  ps_Mounts :: "oci_mount list"
  ps_Linux :: "pb_linux option"

datatype agent_request =
    UpdateInterfaceReq pb_interface
  | UpdateRoutesReq "pb_route list"
  | AddARPNeighborsReq "pb_neighbor list"
  | CreateSandboxReq string string "pb_storage list"
  | CreateContainerReq string string "pb_storage list" pb_spec
  | StartContainerReq string
  | ExecProcessReq string string pb_process
  | WaitProcessReq string string
  | ReadStdoutReq string string int
  | ReadStderrReq string string int

text \<open>The fields of replies that the program reads.\<close>

record agent_reply =
  ap_Status :: int
  ap_Data :: string

subsection \<open>Records on disk (\<open>kata.go\<close>, \<open>kata_instance.go\<close>)\<close>

record virtiofs_share =
  vh_Tag :: string
  vh_SharedDir :: string
  vh_Socket :: string

record kata_net_device =
  nd_ID :: string
  nd_QueuePairs :: int

record kata_meta =
  me_SourceSandboxID :: string
  me_ContainerID :: string
  me_AppImage :: string
  me_AppContainerName :: string
  me_BaseID :: string
  me_VirtiofsShares :: "virtiofs_share list"
  me_NetDevices :: "kata_net_device list"
  me_SavedAt :: int

record kata_instance =
  ki_Name :: string
  ki_Namespace :: string
  ki_SandboxName :: string
  ki_UID :: string
  ki_SlotID :: int
  ki_VMDir :: string
  ki_APISocket :: string
  ki_VsockPath :: string
  ki_SnapshotDir :: string
  ki_ContainerID :: string
  ki_BaseID :: string
  ki_AppImage :: string
  ki_BundleDir :: string
  ki_PID :: int

text \<open>A JSON document as \<open>map[string]any\<close> holds it; a number is a \<open>float64\<close>.\<close>

datatype json =
    JNull | JBool bool | JNum rat | JString string | JArray "json list" | JObject "(string, json) gomap"

text \<open>\<open>encoding/json\<close> and the TOML library on the types the snapshotter uses.\<close>

record kata_json =
  kj_EncodeInstance :: "kata_instance \<Rightarrow> go_error + string"
  kj_DecodeInstance :: "string \<Rightarrow> go_error + kata_instance"
  kj_EncodeMeta :: "kata_meta \<Rightarrow> go_error + string"
  kj_DecodeMeta :: "string \<Rightarrow> go_error + kata_meta"
  kj_DecodeState :: "string \<Rightarrow> go_error + string"
  kj_DecodeInfo :: "string \<Rightarrow> go_error + vmm_info"
  kj_EncodeRestore :: "restore_config \<Rightarrow> go_error + string"
  kj_EncodeAddNet :: "add_net_config \<Rightarrow> go_error + string"
  kj_EncodeObject :: "(string, json) gomap \<Rightarrow> go_error + string"
  kj_DecodeObject :: "string \<Rightarrow> go_error + (string, json) gomap"
  kj_DecodeNet :: "string \<Rightarrow> go_error + (string \<times> int \<times> string) list"
  kj_DecodeToml :: "string \<Rightarrow> go_error + (int \<times> int \<times> string)"

subsection \<open>The host\<close>

text \<open>The status, the body and the error of reading it.\<close>

record http_reply =
  hr_Status :: int
  hr_Body :: string
  hr_ReadError :: "go_error option"

text \<open>
  The host has, beside the system calls of \<open>linux\<close>: HTTP over a unix socket (socket, method, path, body);
  sockets, which are numbers, with file descriptors passed along; processes (\<open>kh_Start\<close> has a log for the
  output, \<open>kh_Alive\<close> probes with signal 0); virtual network devices; calls of the agent; files with holes.
  A deadline belongs to the outside world: \<open>kh_Polls d i\<close> is how many more rounds a loop that waits \<open>i\<close>
  nanoseconds between rounds makes before \<open>d\<close> nanoseconds are over, and \<open>kh_Reads\<close> how many reads the
  context of a reader allows.  \<open>kh_Wait\<close> waits for a time unless the caller's context ends first.
  \<open>kh_IsDir\<close> is \<open>os.Stat\<close> with \<open>IsDir\<close>; \<open>kh_Walk\<close> lists what \<open>filepath.Walk\<close> visits, with the path relative
  to the start and whether it is a directory.
\<close>

record 'w kata_host =
  kh_Linux :: "'w linux"
  kh_Http :: "string \<Rightarrow> string \<Rightarrow> string \<Rightarrow> ch_body option \<Rightarrow> 'w \<Rightarrow> (go_error + http_reply) \<times> 'w"
  kh_DialUnix :: "string \<Rightarrow> 'w \<Rightarrow> (go_error + int) \<times> 'w"
  kh_Send :: "int \<Rightarrow> string \<Rightarrow> int list \<Rightarrow> 'w \<Rightarrow> go_error option \<times> 'w"
  kh_ReadLine :: "int \<Rightarrow> 'w \<Rightarrow> (string \<times> go_error option) \<times> 'w"
  kh_CloseConn :: "int \<Rightarrow> 'w \<Rightarrow> 'w"
  kh_Call :: "int \<Rightarrow> agent_request \<Rightarrow> 'w \<Rightarrow> (go_error option \<times> agent_reply) \<times> 'w"
  kh_Start :: "string list \<Rightarrow> string \<Rightarrow> 'w \<Rightarrow> (go_error + int) \<times> 'w"
  kh_Kill :: "int \<Rightarrow> 'w \<Rightarrow> go_error option \<times> 'w"
  kh_Reap :: "int \<Rightarrow> 'w \<Rightarrow> 'w"
  kh_Alive :: "int \<Rightarrow> 'w \<Rightarrow> bool \<times> 'w"
  kh_Getpid :: int
  kh_OpenTun :: "'w \<Rightarrow> (go_error + int) \<times> 'w"
  kh_TunSetIff :: "int \<Rightarrow> string \<Rightarrow> int \<Rightarrow> 'w \<Rightarrow> go_error option \<times> 'w"
  kh_IsDir :: "string \<Rightarrow> 'w \<Rightarrow> (go_error + bool) \<times> 'w"
  kh_Walk :: "string \<Rightarrow> 'w \<Rightarrow> (go_error + (string \<times> bool)) list \<times> 'w"
  kh_CopyFile :: "string \<Rightarrow> string \<Rightarrow> 'w \<Rightarrow> go_error option \<times> 'w"
  kh_MountSelf :: "string \<Rightarrow> 'w \<Rightarrow> go_error option \<times> 'w"
  kh_MountShared :: "string \<Rightarrow> 'w \<Rightarrow> go_error option \<times> 'w"
  kh_Polls :: "int \<Rightarrow> int \<Rightarrow> 'w \<Rightarrow> nat"
  kh_Wait :: "int \<Rightarrow> 'w \<Rightarrow> go_error option \<times> 'w"
  kh_Reads :: "'w \<Rightarrow> nat"
  kh_Now :: "'w \<Rightarrow> int \<times> 'w"
  kh_NewUUID :: "'w \<Rightarrow> string \<times> 'w"
  kh_IsNotExist :: "go_error \<Rightarrow> bool"
  kh_Goarch :: string

text \<open>\<open>errors.Is (err, fs.ErrNotExist)\<close>, through the errors that wrap it.\<close>

fun wrapsNotExist :: "'w kata_host \<Rightarrow> go_error \<Rightarrow> bool" where
  "wrapsNotExist h (Errorf fmt args) =
     (\<exists>a \<in> set args. case a of FW e \<Rightarrow> wrapsNotExist h e | _ \<Rightarrow> False)"
| "wrapsNotExist h e = kh_IsNotExist h e"

record ('i, 'w) kata_env =
  ke_Host :: "'w kata_host"
  ke_Containerd :: "('i, 'w) containerd"
  ke_Sparse :: "'w sparse_host"
  ke_Json :: kata_json

text \<open>Durations in nanoseconds.\<close>

definition milliseconds :: "int \<Rightarrow> int" where "milliseconds n = n * 1000000"

definition inSeconds :: "int \<Rightarrow> int" where "inSeconds n = n * 1000000000"

text \<open>
  The loops that wait for something: an attempt gives the result or nothing, \<open>expired\<close> is the result
  when the deadline has passed, and the context may end while the loop waits.
\<close>

fun polling ::
    "'w kata_host \<Rightarrow> int \<Rightarrow> ('w \<Rightarrow> 'r option \<times> 'w) \<Rightarrow> ('w \<Rightarrow> 'r) \<Rightarrow> (go_error \<Rightarrow> 'r) \<Rightarrow> nat \<Rightarrow> 'w \<Rightarrow> 'r \<times> 'w" where
  "polling h interval attempt expired ended n w =
     (let (r, w) = attempt w in
      case r of
        Some r \<Rightarrow> (r, w)
      | None \<Rightarrow>
          (case n of
             0 \<Rightarrow> (expired w, w)
           | Suc n \<Rightarrow>
               let (err, w) = kh_Wait h interval w in
               (case err of
                  Some e \<Rightarrow> (ended e, w)
                | None \<Rightarrow> polling h interval attempt expired ended n w)))"

declare polling.simps [simp del]

end
