(* ===== verification/CloudHypervisor.thy ===== *)
theory CloudHypervisor
  imports KataHost
begin

text \<open>
  The two clients of Cloud Hypervisor's API: \<open>internal/snapshotter/kata_ch.go\<close>, which saves and restores, and
  \<open>internal/runtime/kata/ch\<close> (\<open>api.go\<close>, \<open>ch.go\<close>, \<open>createvm.go\<close>, \<open>restorefds.go\<close>), which boots.  A client is its
  socket's path; the fields of the Go structs that hold the HTTP client have no counterpart.
\<close>

subsection \<open>Requests\<close>

definition statusError :: "string \<Rightarrow> string \<Rightarrow> http_reply \<Rightarrow> go_error" where
  "statusError mthd path r =
     Errorf ''%s %s: status %d: %s'' [FS mthd, FS path, FD (hr_Status r), FS (TrimSpace (hr_Body r))]"

definition chDo :: "'w kata_host \<Rightarrow> string \<Rightarrow> string \<Rightarrow> string \<Rightarrow> ch_body option \<Rightarrow> 'w \<Rightarrow> go_error option \<times> 'w" where
  "chDo h sock mthd path body w =
     (let (resp, w) = kh_Http h sock mthd path body w in
      (case resp of
         Inl e \<Rightarrow> Some e
       | Inr r \<Rightarrow> if hr_Status r \<ge> 300 then Some (statusError mthd path r) else None, w))"

definition chGetJSON ::
    "'w kata_host \<Rightarrow> string \<Rightarrow> string \<Rightarrow> (string \<Rightarrow> go_error + 'a) \<Rightarrow> 'w \<Rightarrow> (go_error + 'a) \<times> 'w" where
  "chGetJSON h sock path decode w =
     (let (resp, w) = kh_Http h sock ''GET'' path None w in
      (case resp of
         Inl e \<Rightarrow> Inl e
       | Inr r \<Rightarrow>
           (case hr_ReadError r of
              Some e \<Rightarrow> Inl e
            | None \<Rightarrow>
                if hr_Status r \<ge> 300 then Inl (statusError ''GET'' path r) else decode (hr_Body r)), w))"

subsection \<open>The snapshotter's client\<close>

definition chState :: "'w kata_host \<Rightarrow> kata_json \<Rightarrow> string \<Rightarrow> 'w \<Rightarrow> (go_error + string) \<times> 'w" where
  "chState h js sock = chGetJSON h sock ''/api/v1/vm.info'' (kj_DecodeState js)"

definition chPause :: "'w kata_host \<Rightarrow> kata_json \<Rightarrow> string \<Rightarrow> 'w \<Rightarrow> go_error option \<times> 'w" where
  "chPause h js sock w =
     (let (state, w) = chState h js sock w in
      if state = Inr ''Paused'' then (None, w)
      else chDo h sock ''PUT'' ''/api/v1/vm.pause'' None w)"

definition chResume :: "'w kata_host \<Rightarrow> string \<Rightarrow> 'w \<Rightarrow> go_error option \<times> 'w" where
  "chResume h sock = chDo h sock ''PUT'' ''/api/v1/vm.resume'' None"

definition chSnapshot :: "'w kata_host \<Rightarrow> string \<Rightarrow> string \<Rightarrow> 'w \<Rightarrow> go_error option \<times> 'w" where
  "chSnapshot h sock destDir =
     chDo h sock ''PUT'' ''/api/v1/vm.snapshot'' (Some (SnapshotBody (''file://'' @ destDir)))"

definition chShutdown :: "'w kata_host \<Rightarrow> string \<Rightarrow> 'w \<Rightarrow> go_error option \<times> 'w" where
  "chShutdown h sock w =
     (let (_, w) = chDo h sock ''PUT'' ''/api/v1/vm.shutdown'' None w
      in chDo h sock ''PUT'' ''/api/v1/vmm.shutdown'' None w)"

text \<open>A duration is printed by its method \<open>String\<close>; the deadlines here are whole seconds.\<close>

definition showSeconds :: "int \<Rightarrow> string" where
  "showSeconds d = Itoa (d div 1000000000) @ ''s''"

definition chWaitReady :: "'w kata_host \<Rightarrow> string \<Rightarrow> int \<Rightarrow> 'w \<Rightarrow> go_error option \<times> 'w" where
  "chWaitReady h sock deadline w =
     polling h (milliseconds 20)
       (\<lambda>w. let (err, w) = chDo h sock ''GET'' ''/api/v1/vmm.ping'' None w in
          (if err = None then Some None else None, w))
       (\<lambda>_. Some (Errorf ''cloud-hypervisor api %q not ready after %s'' [FS sock, FS (showSeconds deadline)]))
       Some (kh_Polls h deadline (milliseconds 20) w) w"

subsection \<open>Requests with file descriptors\<close>

definition crlf :: string where "crlf = [CHR 0x0D, CHR 0x0A]"

text \<open>\<open>strings.SplitN (s, sep, 3)\<close> on a blank: the second part, if there is one.\<close>

definition secondWord :: "string \<Rightarrow> string option" where
  "secondWord s = (case splitOn (CHR '' '') s of _ # b # _ \<Rightarrow> Some b | _ \<Rightarrow> None)"

definition putRequest :: "string \<Rightarrow> string \<Rightarrow> string \<Rightarrow> string" where
  "putRequest path accept body =
     ''PUT '' @ path @ '' HTTP/1.1'' @ crlf @ ''Host: localhost'' @ crlf @ accept @
     ''Content-Type: application/json'' @ crlf @ ''Content-Length: '' @ Itoa (int (length body)) @ crlf @ crlf @ body"

definition bufioReadStatus :: "'w kata_host \<Rightarrow> int \<Rightarrow> 'w \<Rightarrow> (go_error + string) \<times> 'w" where
  "bufioReadStatus h conn w =
     (let ((line, err), w) = kh_ReadLine h conn w in
      (case err of
         Some e \<Rightarrow> Inl e
       | None \<Rightarrow> Inr (case secondWord (TrimSpace line) of Some b \<Rightarrow> b | None \<Rightarrow> line), w))"

text \<open>A network device of the guest with the open files of its tap.\<close>

record restore_tap_net =
  tn_id :: string
  tn_fds :: "int list"

definition restoreBody :: "string \<Rightarrow> restore_tap_net list \<Rightarrow> string \<Rightarrow> restore_config" where
  "restoreBody sourceDir nets memMode =
     \<lparr>rf_SourceURL = ''file://'' @ sourceDir, rf_MemoryRestoreMode = memMode,
      rf_NetFDs = map (\<lambda>n. (tn_id n, int (length (tn_fds n)))) nets\<rparr>"

definition restoreVMWithNetworkFDs ::
    "'w kata_host \<Rightarrow> kata_json \<Rightarrow> string \<Rightarrow> string \<Rightarrow> restore_tap_net list \<Rightarrow> string \<Rightarrow> 'w \<Rightarrow> go_error option \<times> 'w" where
  "restoreVMWithNetworkFDs h js sock sourceDir nets memMode w =
     (case kj_EncodeRestore js (restoreBody sourceDir nets memMode) of
        Inl e \<Rightarrow> (Some e, w)
      | Inr body \<Rightarrow>
          let (conn, w) = kh_DialUnix h sock w in
          case conn of
            Inl e \<Rightarrow> (Some e, w)
          | Inr conn \<Rightarrow>
              let (err, w) = kh_Send h conn (putRequest ''/api/v1/vm.restore'' [] body) (concat (map tn_fds nets)) w in
              case err of
                Some e \<Rightarrow> (Some (Errorf ''send vm.restore: %w'' [FW e]), kh_CloseConn h conn w)
              | None \<Rightarrow>
                  let (status, w) = bufioReadStatus h conn w in
                  (case status of
                     Inl e \<Rightarrow> Some e
                   | Inr status \<Rightarrow>
                       if take 1 status \<noteq> ''2''
                       then Some (Errorf ''vm.restore failed: %s'' [FS (TrimSpace status)]) else None,
                   kh_CloseConn h conn w))"

subsection \<open>The client that boots\<close>

definition apiPut :: "'w kata_host \<Rightarrow> string \<Rightarrow> string \<Rightarrow> ch_body option \<Rightarrow> 'w \<Rightarrow> go_error option \<times> 'w" where
  "apiPut h sock path body w =
     (let (resp, w) = kh_Http h sock ''PUT'' path body w in
      (case resp of
         Inl e \<Rightarrow> Some e
       | Inr r \<Rightarrow> if hr_Status r \<ge> 300 then Some (statusError ''PUT'' path r) else None, w))"

definition apiGetJSON ::
    "'w kata_host \<Rightarrow> string \<Rightarrow> string \<Rightarrow> (string \<Rightarrow> go_error + 'a) \<Rightarrow> 'w \<Rightarrow> (go_error + 'a) \<times> 'w" where
  "apiGetJSON h sock path decode w =
     (let (resp, w) = kh_Http h sock ''GET'' path None w in
      (case resp of
         Inl e \<Rightarrow> Inl e
       | Inr r \<Rightarrow>
           (case hr_ReadError r of
              Some e \<Rightarrow> Inl e
            | None \<Rightarrow>
                if hr_Status r \<ge> 300 then Inl (statusError ''GET'' path r) else decode (hr_Body r)), w))"

definition SnapshotURL :: "string \<Rightarrow> string" where "SnapshotURL dir = ''file://'' @ dir"

definition client_Ping :: "'w kata_host \<Rightarrow> kata_json \<Rightarrow> string \<Rightarrow> 'w \<Rightarrow> (go_error + vmm_info) \<times> 'w" where
  "client_Ping h js sock = apiGetJSON h sock ''/api/v1/vmm.ping'' (kj_DecodeInfo js)"

definition client_WaitReady ::
    "'w kata_host \<Rightarrow> kata_json \<Rightarrow> string \<Rightarrow> int \<Rightarrow> 'w \<Rightarrow> (go_error + vmm_info) \<times> 'w" where
  "client_WaitReady h js sock deadline w =
     polling h (milliseconds 10)
       (\<lambda>w. let (info, w) = client_Ping h js sock w in (case info of Inr i \<Rightarrow> Some (Inr i) | Inl _ \<Rightarrow> None, w))
       (\<lambda>_. Inl (Errorf ''cloud-hypervisor api socket %q not ready after %s'' [FS sock, FS (showSeconds deadline)]))
       Inl (kh_Polls h deadline (milliseconds 10) w) w"

definition client_State :: "'w kata_host \<Rightarrow> kata_json \<Rightarrow> string \<Rightarrow> 'w \<Rightarrow> (go_error + string) \<times> 'w" where
  "client_State h js sock = apiGetJSON h sock ''/api/v1/vm.info'' (kj_DecodeState js)"

definition client_Pause :: "'w kata_host \<Rightarrow> kata_json \<Rightarrow> string \<Rightarrow> 'w \<Rightarrow> go_error option \<times> 'w" where
  "client_Pause h js sock w =
     (let (state, w) = client_State h js sock w in
      if state = Inr ''Paused'' then (None, w) else apiPut h sock ''/api/v1/vm.pause'' None w)"

definition client_Resume :: "'w kata_host \<Rightarrow> string \<Rightarrow> 'w \<Rightarrow> go_error option \<times> 'w" where
  "client_Resume h sock = apiPut h sock ''/api/v1/vm.resume'' None"

definition client_Snapshot :: "'w kata_host \<Rightarrow> string \<Rightarrow> string \<Rightarrow> 'w \<Rightarrow> go_error option \<times> 'w" where
  "client_Snapshot h sock destDir w =
     (let (err, w) = lx_MkdirAll (kh_Linux h) destDir w in
      case err of
        Some e \<Rightarrow> (Some (Errorf ''while creating snapshot dir %q: %w'' [FS destDir, FW e]), w)
      | None \<Rightarrow> apiPut h sock ''/api/v1/vm.snapshot'' (Some (SnapshotBody (SnapshotURL destDir))) w)"

definition client_Shutdown :: "'w kata_host \<Rightarrow> string \<Rightarrow> 'w \<Rightarrow> go_error option \<times> 'w" where
  "client_Shutdown h sock w =
     (let (_, w) = apiPut h sock ''/api/v1/vm.shutdown'' None w in apiPut h sock ''/api/v1/vmm.shutdown'' None w)"

definition client_CreateVM :: "'w kata_host \<Rightarrow> string \<Rightarrow> vm_config \<Rightarrow> 'w \<Rightarrow> go_error option \<times> 'w" where
  "client_CreateVM h sock cfg w =
     (let (err, w) = apiPut h sock ''/api/v1/vm.create'' (Some (CreateBody cfg)) w in
      (case err of None \<Rightarrow> None | Some e \<Rightarrow> Some (Errorf ''vm.create: %w'' [FW e]), w))"

definition client_BootVM :: "'w kata_host \<Rightarrow> string \<Rightarrow> 'w \<Rightarrow> go_error option \<times> 'w" where
  "client_BootVM h sock w =
     (let (err, w) = apiPut h sock ''/api/v1/vm.boot'' None w in
      (case err of None \<Rightarrow> None | Some e \<Rightarrow> Some (Errorf ''vm.boot: %w'' [FW e]), w))"

text \<open>
  The VMM is started with nothing but its socket; it is killed when it does not answer.  The log takes
  standard output and error.
\<close>

definition LaunchVMM ::
    "'w kata_host \<Rightarrow> kata_json \<Rightarrow> string \<Rightarrow> string \<Rightarrow> string \<Rightarrow> 'w \<Rightarrow> (go_error + int) \<times> 'w" where
  "LaunchVMM h js binary sock logPath w =
     (if sock = [] then (Inl (Errorf ''LaunchVMMOptions.APISocket is required'' []), w)
      else
        let bin = (if binary = [] then ''cloud-hypervisor'' else binary);
            (_, w) = lx_Remove (kh_Linux h) sock w;
            (pid, w) = kh_Start h [bin, ''--api-socket'', sock] logPath w
        in case pid of
             Inl e \<Rightarrow> (Inl (Errorf ''while starting cloud-hypervisor: %w'' [FW e]), w)
           | Inr pid \<Rightarrow>
               let (info, w) = client_WaitReady h js sock (inSeconds 15) w in
               case info of
                 Inl e \<Rightarrow>
                   let (_, w) = kh_Kill h pid w
                   in (Inl (Errorf ''while waiting for VMM api-socket: %w'' [FW e]), kh_Reap h pid w)
               | Inr _ \<Rightarrow> (Inr pid, w))"

definition acceptAny :: string where "acceptAny = ''Accept: */*'' @ crlf"

text \<open>What \<open>RestoreWithNetFDs\<close> and \<open>AddNetWithFDs\<close> do with the encoded body.\<close>

definition putWithFDs ::
    "'w kata_host \<Rightarrow> string \<Rightarrow> string \<Rightarrow> string \<Rightarrow> int list \<Rightarrow> 'w \<Rightarrow> go_error option \<times> 'w" where
  "putWithFDs h sock verb body fds w =
     (let (conn, w) = kh_DialUnix h sock w in
      case conn of
        Inl e \<Rightarrow> (Some (Errorf ''dialing api-socket: %w'' [FW e]), w)
      | Inr conn \<Rightarrow>
          let (err, w) = kh_Send h conn (putRequest (''/api/v1/'' @ verb) acceptAny body) fds w in
          case err of
            Some e \<Rightarrow> (Some (Errorf (''sending '' @ verb @ '' with fds: %w'') [FW e]), kh_CloseConn h conn w)
          | None \<Rightarrow>
              let ((status, err), w) = kh_ReadLine h conn w in
              (case err of
                 Some e \<Rightarrow> Some (Errorf (''reading '' @ verb @ '' response: %w'') [FW e])
               | None \<Rightarrow>
                   (case secondWord (TrimSpace status) of
                      Some b \<Rightarrow>
                        if HasPrefix b ''2'' then None
                        else Some (Errorf (verb @ '' failed: %s'') [FS (TrimSpace status)])
                    | None \<Rightarrow> Some (Errorf (verb @ '' failed: %s'') [FS (TrimSpace status)])),
               kh_CloseConn h conn w))"

definition RestoreWithNetFDs ::
    "'w kata_host \<Rightarrow> kata_json \<Rightarrow> string \<Rightarrow> string \<Rightarrow> restore_tap_net list \<Rightarrow> string \<Rightarrow> 'w \<Rightarrow> go_error option \<times> 'w" where
  "RestoreWithNetFDs h js sock sourceDir nets memMode w =
     (case kj_EncodeRestore js
             \<lparr>rf_SourceURL = SnapshotURL sourceDir, rf_MemoryRestoreMode = memMode,
              rf_NetFDs = map (\<lambda>n. (tn_id n, int (length (tn_fds n)))) nets\<rparr> of
        Inl e \<Rightarrow> (Some e, w)
      | Inr body \<Rightarrow> putWithFDs h sock ''vm.restore'' body (concat (map tn_fds nets)) w)"

definition AddNetWithFDs ::
    "'w kata_host \<Rightarrow> kata_json \<Rightarrow> string \<Rightarrow> string \<Rightarrow> int \<Rightarrow> int list \<Rightarrow> 'w \<Rightarrow> go_error option \<times> 'w" where
  "AddNetWithFDs h js sock mac numQueues fds w =
     (case kj_EncodeAddNet js \<lparr>an_Mac = mac, an_NumQueues = numQueues, an_NumFDs = int (length fds)\<rparr> of
        Inl e \<Rightarrow> (Some e, w)
      | Inr body \<Rightarrow> putWithFDs h sock ''vm.add-net'' body fds w)"

record snapshot_net_device =
  sd_ID :: string
  sd_QueuePairs :: int
  sd_MAC :: string

definition SnapshotNetDevices ::
    "'w kata_host \<Rightarrow> kata_json \<Rightarrow> string \<Rightarrow> 'w \<Rightarrow> (go_error + snapshot_net_device list) \<times> 'w" where
  "SnapshotNetDevices h js snapshotDir w =
     (let (got, w) = lx_ReadFile (kh_Linux h) (snapshotDir @ ''/config.json'') w in
      (case got of
         Inl e \<Rightarrow> Inl e
       | Inr b \<Rightarrow>
           (case kj_DecodeNet js b of
              Inl e \<Rightarrow> Inl (Errorf ''parsing snapshot config.json: %w'' [FW e])
            | Inr nets \<Rightarrow>
                Inr (map (\<lambda>(i, queues, mac).
                  \<lparr>sd_ID = i, sd_QueuePairs = max 1 (quot queues 2), sd_MAC = mac\<rparr>) nets)), w))"

end
