(* ===== verification/KataAgent.thy ===== *)
theory KataAgent
  imports CloudHypervisor RuntimeFiles
begin

text \<open>
  The agent in the guest: the two clients that dial it (\<open>kata_agent_linux.go\<close>, \<open>overlay/agentclient.go\<close>), the
  address of the guest, commands in the guest (\<open>kata_exec.go\<close>), and what the agent is told about containers
  (\<open>overlay/specconv.go\<close>, the agent's part of \<open>overlay/overlay_linux.go\<close>).
\<close>

subsection \<open>Dialling\<close>

definition agentVsockPort :: int where "agentVsockPort = 1024"

definition debugConsoleVsockPort :: int where "debugConsoleVsockPort = 1026"

definition connectLine :: "int \<Rightarrow> string" where
  "connectLine port = ''CONNECT '' @ Itoa port @ [CHR 0x0A]"

text \<open>The handshake with the VMM; a connection that fails it is closed.  The two clients differ in one word.\<close>

definition handshake :: "'w kata_host \<Rightarrow> string \<Rightarrow> string \<Rightarrow> 'w \<Rightarrow> (go_error + int) \<times> 'w" where
  "handshake h dialing vsockPath w =
     (let (conn, w) = kh_DialUnix h vsockPath w in
      case conn of
        Inl e \<Rightarrow> (Inl (Errorf (dialing @ '' hybrid vsock %q: %w'') [FS vsockPath, FW e]), w)
      | Inr conn \<Rightarrow>
          let (err, w) = kh_Send h conn (connectLine agentVsockPort) [] w in
          case err of
            Some e \<Rightarrow> (Inl (Errorf ''hybrid vsock CONNECT: %w'' [FW e]), kh_CloseConn h conn w)
          | None \<Rightarrow>
              let ((line, err), w) = kh_ReadLine h conn w in
              case err of
                Some e \<Rightarrow> (Inl (Errorf ''hybrid vsock CONNECT response: %w'' [FW e]), kh_CloseConn h conn w)
              | None \<Rightarrow>
                  if \<not> HasPrefix line ''OK ''
                  then (Inl (Errorf ''hybrid vsock CONNECT refused: %q'' [FS (TrimSpace line)]), kh_CloseConn h conn w)
                  else (Inr conn, w))"

definition dialAgent :: "'w kata_host \<Rightarrow> string \<Rightarrow> 'w \<Rightarrow> (go_error + int) \<times> 'w" where
  "dialAgent h = handshake h ''dial''"

definition DialAgent :: "'w kata_host \<Rightarrow> string \<Rightarrow> 'w \<Rightarrow> (go_error + int) \<times> 'w" where
  "DialAgent h = handshake h ''dialing''"

text \<open>
  The loops that dial until the agent answers keep the last error; one that shows that the socket is gone
  ends them.  \<open>gone\<close> is what they make of it.
\<close>

fun dialLoop ::
    "'w kata_host \<Rightarrow> ('w \<Rightarrow> (go_error + int) \<times> 'w) \<Rightarrow> (go_error \<Rightarrow> go_error) \<Rightarrow> nat \<Rightarrow> 'w \<Rightarrow> (go_error + int) \<times> 'w" where
  "dialLoop h dial gone n w =
     (let (ac, w) = dial w in
      case ac of
        Inr ac \<Rightarrow> (Inr ac, w)
      | Inl e \<Rightarrow>
          if wrapsNotExist h e then (Inl (gone e), w)
          else case n of
              0 \<Rightarrow> (Inl e, w)
            | Suc n \<Rightarrow>
                let (err, w) = kh_Wait h (milliseconds 500) w in
                (case err of Some c \<Rightarrow> (Inl c, w) | None \<Rightarrow> dialLoop h dial gone n w))"

declare dialLoop.simps [simp del]

definition dialAgentRetry :: "'w kata_host \<Rightarrow> string \<Rightarrow> int \<Rightarrow> 'w \<Rightarrow> (go_error + int) \<times> 'w" where
  "dialAgentRetry h vsockPath timeout w =
     dialLoop h (dialAgent h vsockPath) (\<lambda>e. e) (kh_Polls h timeout (milliseconds 500) w) w"

definition dialOverlayAgentRetry :: "'w kata_host \<Rightarrow> string \<Rightarrow> int \<Rightarrow> 'w \<Rightarrow> (go_error + int) \<times> 'w" where
  "dialOverlayAgentRetry h vsockPath timeout w =
     dialLoop h (DialAgent h vsockPath)
       (\<lambda>e. Errorf ''guest stopped (cloud-hypervisor removed %q): %w'' [FS vsockPath, FW e])
       (kh_Polls h timeout (milliseconds 500) w) w"

text \<open>A call for its error alone, and one whose error names the method, as \<open>AgentClient\<close> has them.\<close>

definition callAgent :: "'w kata_host \<Rightarrow> int \<Rightarrow> agent_request \<Rightarrow> 'w \<Rightarrow> go_error option \<times> 'w" where
  "callAgent h ac req w = (let ((err, _), w) = kh_Call h ac req w in (err, w))"

definition agentCall :: "'w kata_host \<Rightarrow> string \<Rightarrow> int \<Rightarrow> agent_request \<Rightarrow> 'w \<Rightarrow> go_error option \<times> 'w" where
  "agentCall h name ac req w =
     (let (err, w) = callAgent h ac req w in
      (case err of None \<Rightarrow> None | Some e \<Rightarrow> Some (Errorf (''agent '' @ name @ '': %w'') [FW e]), w))"

definition agent_CreateContainer ::
    "'w kata_host \<Rightarrow> int \<Rightarrow> string \<Rightarrow> string \<Rightarrow> pb_storage list \<Rightarrow> pb_spec \<Rightarrow> 'w \<Rightarrow> go_error option \<times> 'w" where
  "agent_CreateContainer h ac cid execID storages spec =
     agentCall h ''CreateContainer'' ac (CreateContainerReq cid execID storages spec)"

definition agent_StartContainer :: "'w kata_host \<Rightarrow> int \<Rightarrow> string \<Rightarrow> 'w \<Rightarrow> go_error option \<times> 'w" where
  "agent_StartContainer h ac cid = agentCall h ''StartContainer'' ac (StartContainerReq cid)"

definition agent_CreateSandbox ::
    "'w kata_host \<Rightarrow> int \<Rightarrow> string \<Rightarrow> string \<Rightarrow> pb_storage list \<Rightarrow> 'w \<Rightarrow> go_error option \<times> 'w" where
  "agent_CreateSandbox h ac hostname sandboxID storages =
     agentCall h ''CreateSandbox'' ac (CreateSandboxReq hostname sandboxID storages)"

text \<open>
  The interface \<open>guestNetAgent\<close>: the snapshotter's client returns the errors of the calls, the overlay's
  client names the method.
\<close>

record 'w guest_net_agent =
  ga_UpdateInterface :: "pb_interface \<Rightarrow> 'w \<Rightarrow> go_error option \<times> 'w"
  ga_UpdateRoutes :: "pb_route list \<Rightarrow> 'w \<Rightarrow> go_error option \<times> 'w"
  ga_AddARPNeighbors :: "pb_neighbor list \<Rightarrow> 'w \<Rightarrow> go_error option \<times> 'w"

definition agentClient :: "'w kata_host \<Rightarrow> int \<Rightarrow> 'w guest_net_agent" where
  "agentClient h ac =
     \<lparr>ga_UpdateInterface = (\<lambda>iface. callAgent h ac (UpdateInterfaceReq iface)),
      ga_UpdateRoutes = (\<lambda>routes. callAgent h ac (UpdateRoutesReq routes)),
      ga_AddARPNeighbors = (\<lambda>neighbors. callAgent h ac (AddARPNeighborsReq neighbors))\<rparr>"

definition overlayClient :: "'w kata_host \<Rightarrow> int \<Rightarrow> 'w guest_net_agent" where
  "overlayClient h ac =
     \<lparr>ga_UpdateInterface = (\<lambda>iface. agentCall h ''UpdateInterface'' ac (UpdateInterfaceReq iface)),
      ga_UpdateRoutes = (\<lambda>routes. agentCall h ''UpdateRoutes'' ac (UpdateRoutesReq routes)),
      ga_AddARPNeighbors = (\<lambda>neighbors. agentCall h ''AddARPNeighbors'' ac (AddARPNeighborsReq neighbors))\<rparr>"

subsection \<open>The network of the guest\<close>

definition configureGuestNetwork :: "'w guest_net_agent \<Rightarrow> int \<Rightarrow> 'w \<Rightarrow> go_error option \<times> 'w" where
  "configureGuestNetwork ac slotID w =
     (case guestNetForSlot slotID of
        Inl e \<Rightarrow> (Some e, w)
      | Inr n \<Rightarrow>
          let (err, w) = ga_UpdateInterface ac
                \<lparr>if_Device = gn_Iface n, if_Name = gn_Iface n, if_HwAddr = gn_MAC n, if_Mtu = 1500,
                 if_IPAddresses = [(gn_IP n, gn_Mask n)]\<rparr> w
          in case err of
               Some e \<Rightarrow> (Some (Errorf ''UpdateInterface: %w'' [FW e]), w)
             | None \<Rightarrow>
                 let (err, w) = ga_UpdateRoutes ac
                       [\<lparr>ro_Dest = gn_Subnet n, ro_Gateway = [], ro_Device = gn_Iface n, ro_Scope = 253\<rparr>,
                        \<lparr>ro_Dest = [], ro_Gateway = gn_Gateway n, ro_Device = gn_Iface n, ro_Scope = 0\<rparr>] w
                 in case err of
                      Some e \<Rightarrow> (Some (Errorf ''UpdateRoutes: %w'' [FW e]), w)
                    | None \<Rightarrow>
                        ga_AddARPNeighbors ac
                          [\<lparr>ne_ToIPAddress = gn_Gateway n, ne_Device = gn_Iface n, ne_Lladdr = gn_GatewayMAC n,
                            ne_State = 0x80\<rparr>] w)"

subsection \<open>Commands in the guest\<close>

definition kataDefaultPATH :: string where
  "kataDefaultPATH = ''PATH=/usr/local/sbin:/usr/local/bin:/usr/sbin:/usr/bin:/sbin:/bin''"

text \<open>The directories of the search path in which \<open>argv0\<close> is a file; what is not there is skipped.\<close>

fun searchPath :: "'w kata_host \<Rightarrow> string \<Rightarrow> string \<Rightarrow> string list \<Rightarrow> 'w \<Rightarrow> string option \<times> 'w" where
  "searchPath h rootfs argv0 [] w = (None, w)"
| "searchPath h rootfs argv0 (dir # dirs) w =
     (if dir = [] then searchPath h rootfs argv0 dirs w
      else
        let (fi, w) = kh_IsDir h (Join [rootfs, TrimPrefix dir ''/'', argv0]) w in
        if fi = Inr False then (Some (dir @ ''/'' @ argv0), w) else searchPath h rootfs argv0 dirs w)"

definition resolveKataArgv0 :: "'w kata_host \<Rightarrow> string \<Rightarrow> string list \<Rightarrow> 'w \<Rightarrow> string list \<times> 'w" where
  "resolveKataArgv0 h rootfs args w =
     (case args of
        [] \<Rightarrow> (args, w)
      | argv0 # rest \<Rightarrow>
          if rootfs = [] \<or> argv0 = [] \<or> HasPrefix argv0 ''/'' then (args, w)
          else
            let (found, w) = searchPath h rootfs argv0 (splitOn (CHR '':'') (TrimPrefix kataDefaultPATH ''PATH='')) w
            in (case found of Some p \<Rightarrow> p # rest | None \<Rightarrow> args, w))"

definition noUser :: container_user where
  "noUser = \<lparr>us_UID = 0, us_GID = 0, us_AdditionalGids = [], us_Username = []\<rparr>"

definition kataExecProcess :: "string list \<Rightarrow> pb_process" where
  "kataExecProcess command =
     \<lparr>pp_Terminal = False, pp_Args = command, pp_Env = [kataDefaultPATH], pp_Cwd = ''/'',
      pp_NoNewPrivileges = False, pp_User = noUser, pp_Capabilities = None, pp_Rlimits = []\<rparr>"

text \<open>The data of a stream until a read fails or the context ends, which the host decides.\<close>

fun drainReads :: "'w kata_host \<Rightarrow> int \<Rightarrow> agent_request \<Rightarrow> nat \<Rightarrow> 'w \<Rightarrow> string \<times> 'w" where
  "drainReads h ac req 0 w = ([], w)"
| "drainReads h ac req (Suc n) w =
     (let ((err, resp), w) = kh_Call h ac req w in
      if err \<noteq> None then (ap_Data resp, w)
      else let (rest, w) = drainReads h ac req n w in (ap_Data resp @ rest, w))"

definition drainAgentStream :: "'w kata_host \<Rightarrow> int \<Rightarrow> string \<Rightarrow> string \<Rightarrow> bool \<Rightarrow> 'w \<Rightarrow> string \<times> 'w" where
  "drainAgentStream h ac containerID execID stderr w =
     (let (b, w) = drainReads h ac
            (if stderr then ReadStderrReq containerID execID 32768 else ReadStdoutReq containerID execID 32768)
            (kh_Reads h w) w
      in (TrimSuffix b [CHR 0x0A], w))"

text \<open>
  The two readers run beside the wait; here the one of the output runs first, then the one of the errors,
  then the wait.  An error of the wait loses the output for every caller.
\<close>

definition execViaAgent ::
    "'w kata_host \<Rightarrow> string \<Rightarrow> string \<Rightarrow> string list \<Rightarrow> 'w \<Rightarrow> (go_error + exec_result) \<times> 'w" where
  "execViaAgent h vsockPath containerID command w =
     (if command = [] then (Inl (Errorf ''command is required'' []), w)
      else if containerID = [] then (Inl (Errorf ''container id is required'' []), w)
      else
        let (ac, w) = dialAgent h vsockPath w in
        case ac of
          Inl e \<Rightarrow> (Inl e, w)
        | Inr ac \<Rightarrow>
            let (execID, w) = kh_NewUUID h w;
                (err, w) = callAgent h ac (ExecProcessReq containerID execID (kataExecProcess command)) w
            in case err of
                 Some e \<Rightarrow> (Inl (Errorf ''ExecProcess: %w'' [FW e]), kh_CloseConn h ac w)
               | None \<Rightarrow>
                   let (stdout, w) = drainAgentStream h ac containerID execID False w;
                       (stderr, w) = drainAgentStream h ac containerID execID True w;
                       ((err, resp), w) = kh_Call h ac (WaitProcessReq containerID execID) w
                   in (case err of
                         Some e \<Rightarrow> Inl (Errorf ''WaitProcess: %w'' [FW e])
                       | None \<Rightarrow>
                           Inr \<lparr>er_ExitCode = ap_Status resp, er_Stdout = stdout, er_Stderr = stderr\<rparr>,
                       kh_CloseConn h ac w))"

subsection \<open>Output as a reader\<close>

text \<open>\<open>AgentClient.ReadStdout\<close>, \<open>ReadStderr\<close> and the reader over them: every error of a call is \<open>io.EOF\<close>.\<close>

definition agentRead :: "'w kata_host \<Rightarrow> int \<Rightarrow> agent_request \<Rightarrow> 'w \<Rightarrow> (go_error + string) \<times> 'w" where
  "agentRead h ac req w =
     (let ((err, resp), w) = kh_Call h ac req w in (case err of Some e \<Rightarrow> Inl e | None \<Rightarrow> Inr (ap_Data resp), w))"

definition agent_ReadStdout :: "'w kata_host \<Rightarrow> int \<Rightarrow> string \<Rightarrow> string \<Rightarrow> int \<Rightarrow> 'w \<Rightarrow> (go_error + string) \<times> 'w" where
  "agent_ReadStdout h ac containerID execID n = agentRead h ac (ReadStdoutReq containerID execID n)"

definition agent_ReadStderr :: "'w kata_host \<Rightarrow> int \<Rightarrow> string \<Rightarrow> string \<Rightarrow> int \<Rightarrow> 'w \<Rightarrow> (go_error + string) \<times> 'w" where
  "agent_ReadStderr h ac containerID execID n = agentRead h ac (ReadStderrReq containerID execID n)"

record stream_reader =
  sr_ac :: int
  sr_containerID :: string
  sr_execID :: string
  sr_stderr :: bool

definition EOF :: go_error where "EOF = External ''EOF''"

text \<open>A read into a buffer of the given size; what does not fit is lost.\<close>

definition StreamReader_Read :: "'w kata_host \<Rightarrow> stream_reader \<Rightarrow> nat \<Rightarrow> 'w \<Rightarrow> (go_error + string) \<times> 'w" where
  "StreamReader_Read h r bufSize w =
     (let (got, w) =
            (if sr_stderr r
             then agent_ReadStderr h (sr_ac r) (sr_containerID r) (sr_execID r) (int bufSize mod 2 ^ 32) w
             else agent_ReadStdout h (sr_ac r) (sr_containerID r) (sr_execID r) (int bufSize mod 2 ^ 32) w)
      in (case got of Inl _ \<Rightarrow> Inl EOF | Inr data \<Rightarrow> Inr (take bufSize data), w))"

subsection \<open>The debug console\<close>

text \<open>The lines before the one with the end mark, or before the first read that fails.\<close>

fun consoleLines :: "'w kata_host \<Rightarrow> int \<Rightarrow> nat \<Rightarrow> 'w \<Rightarrow> string \<times> 'w" where
  "consoleLines h conn 0 w = ([], w)"
| "consoleLines h conn (Suc n) w =
     (let ((line, err), w) = kh_ReadLine h conn w in
      if line \<noteq> [] \<and> Contains line ''__ATE_END__'' then ([], w)
      else if err \<noteq> None then (line, w)
      else let (rest, w) = consoleLines h conn n w in (line @ rest, w))"

definition DebugConsoleDump :: "'w kata_host \<Rightarrow> string \<Rightarrow> string \<Rightarrow> 'w \<Rightarrow> string \<times> 'w" where
  "DebugConsoleDump h vsockPath cmd w =
     (let (conn, w) = kh_DialUnix h vsockPath w in
      case conn of
        Inl e \<Rightarrow> (''debug-console dial: '' @ errorText e, w)
      | Inr conn \<Rightarrow>
          let (err, w) = kh_Send h conn (connectLine debugConsoleVsockPort) [] w in
          case err of
            Some e \<Rightarrow> (''debug-console CONNECT: '' @ errorText e, kh_CloseConn h conn w)
          | None \<Rightarrow>
              let ((_, err), w) = kh_ReadLine h conn w in
              case err of
                Some e \<Rightarrow> (''debug-console CONNECT reply: '' @ errorText e, kh_CloseConn h conn w)
              | None \<Rightarrow>
                  let (err, w) = kh_Send h conn
                        (''{ '' @ cmd @ '' ; } 2>&1; echo __ATE'' @ sq @ sq @ ''_END__'' @ [CHR 0x0A]) [] w
                  in case err of
                       Some e \<Rightarrow> (''debug-console write: '' @ errorText e, kh_CloseConn h conn w)
                     | None \<Rightarrow>
                         let (out, w) = consoleLines h conn (kh_Reads h w) w in (out, kh_CloseConn h conn w))"

end
