(* ===== verification/KataContainers.thy ===== *)
theory KataContainers
  imports KataAgent
begin

text \<open>
  Containers in the guest: the OCI specification as the agent gets it (\<open>overlay/specconv.go\<close>), the carrier with
  the read-only image and the workload with the overlay over it (\<open>overlay/overlay_linux.go\<close>).
\<close>

subsection \<open>OCI specifications\<close>

text \<open>Of the types of \<open>runtime-spec\<close> the fields that are converted; pointers and their numbers are options.\<close>

record oci_process =
  pc_Args :: "string list"
  pc_Env :: "string list"
  pc_Cwd :: string
  pc_NoNewPrivileges :: bool
  pc_User :: container_user
  pc_Capabilities :: "capabilities option"
  pc_Rlimits :: "rlimit list"

record oci_device =
  dc_Allow :: bool
  dc_Type :: string
  dc_Major :: "int option"
  dc_Minor :: "int option"
  dc_Access :: string

record oci_resources =
  rc_Devices :: "oci_device list"
  rc_CPU :: "int option option"

record oci_linux =
  ol_CgroupsPath :: string
  ol_MaskedPaths :: "string list"
  ol_ReadonlyPaths :: "string list"
  ol_Namespaces :: "(string \<times> string) list"
  ol_Resources :: "oci_resources option"

record oci_spec =
  os_Version :: string
  os_Hostname :: string
  os_Annotations :: "(string, string) gomap"
  os_Process :: "oci_process option"
  os_Root :: "(string \<times> bool) option"
  os_Mounts :: "oci_mount list"
  os_Linux :: "oci_linux option"

definition PIDNamespace :: string where "PIDNamespace = ''pid''"
definition NetworkNamespace :: string where "NetworkNamespace = ''network''"
definition MountNamespace :: string where "MountNamespace = ''mount''"
definition IPCNamespace :: string where "IPCNamespace = ''ipc''"
definition UTSNamespace :: string where "UTSNamespace = ''uts''"
definition CgroupNamespace :: string where "CgroupNamespace = ''cgroup''"
definition TimeNamespace :: string where "TimeNamespace = ''time''"

definition pbProcess :: "oci_process \<Rightarrow> pb_process" where
  "pbProcess p =
     \<lparr>pp_Terminal = False, pp_Args = pc_Args p, pp_Env = pc_Env p, pp_Cwd = pc_Cwd p,
      pp_NoNewPrivileges = pc_NoNewPrivileges p, pp_User = pc_User p,
      pp_Capabilities = pc_Capabilities p, pp_Rlimits = pc_Rlimits p\<rparr>"

definition pbDevice :: "oci_device \<Rightarrow> pb_device" where
  "pbDevice d =
     \<lparr>pd_Allow = dc_Allow d, pd_Type = dc_Type d,
      pd_Major = (case dc_Major d of None \<Rightarrow> 0 | Some m \<Rightarrow> m),
      pd_Minor = (case dc_Minor d of None \<Rightarrow> 0 | Some m \<Rightarrow> m), pd_Access = dc_Access d\<rparr>"

definition pbResources :: "oci_resources \<Rightarrow> pb_resources" where
  "pbResources r =
     \<lparr>pr_Devices = map pbDevice (rc_Devices r),
      pr_CPUShares =
        (case rc_CPU r of
           None \<Rightarrow> None
         | Some None \<Rightarrow> Some 0
         | Some (Some shares) \<Rightarrow> Some shares)\<rparr>"

text \<open>
  The network, cgroup and time namespaces are left out, and the paths of the others, which are paths of the
  host.
\<close>

definition pbLinux :: "oci_linux \<Rightarrow> pb_linux" where
  "pbLinux l =
     \<lparr>pl_CgroupsPath = ol_CgroupsPath l, pl_MaskedPaths = ol_MaskedPaths l, pl_ReadonlyPaths = ol_ReadonlyPaths l,
      pl_Namespaces =
        map (\<lambda>(t, path). (t, []))
          (filter (\<lambda>(t, path). t \<notin> {NetworkNamespace, CgroupNamespace, TimeNamespace}) (ol_Namespaces l)),
      pl_Resources = map_option pbResources (ol_Resources l)\<rparr>"

definition SpecToAgentPB :: "oci_spec option \<Rightarrow> pb_spec option" where
  "SpecToAgentPB s =
     (case s of
        None \<Rightarrow> None
      | Some s \<Rightarrow> Some
          \<lparr>ps_Version = os_Version s, ps_Hostname = os_Hostname s, ps_Annotations = os_Annotations s,
           ps_Process = map_option pbProcess (os_Process s), ps_Root = os_Root s, ps_Mounts = os_Mounts s,
           ps_Linux = map_option pbLinux (os_Linux s)\<rparr>)"

subsection \<open>Names and paths in the guest\<close>

definition FsTag :: string where "FsTag = ''kataShared''"
definition typeVirtioFS :: string where "typeVirtioFS = ''virtiofs''"
definition virtioFSDriver :: string where "virtioFSDriver = ''virtio-fs''"
definition guestSharedDir :: string where "guestSharedDir = ''/run/kata-containers/shared/containers/''"
definition DurableFsTag :: string where "DurableFsTag = ''ateDurable''"
definition guestDurableDir :: string where "guestDurableDir = ''/run/ateom-durable''"

definition GuestDurableVolumeDir :: "string \<Rightarrow> string" where
  "GuestDurableVolumeDir volumeName = guestDurableDir @ ''/'' @ volumeName"

definition OverlayUpperBase :: "string \<Rightarrow> string" where
  "OverlayUpperBase containerID = ''/run/ateom-upper/'' @ containerID"

definition GuestSharedRootfs :: "string \<Rightarrow> string" where
  "GuestSharedRootfs containerID = guestSharedDir @ containerID @ ''/rootfs''"

subsection \<open>The agent's calls\<close>

definition virtioShare :: "string \<Rightarrow> string \<Rightarrow> pb_storage" where
  "virtioShare tag mountPoint =
     \<lparr>st_Driver = virtioFSDriver, st_DriverOptions = [], st_Source = tag, st_Fstype = typeVirtioFS,
      st_Options = [], st_MountPoint = mountPoint\<rparr>"

definition CreateSandboxForActor ::
    "'w kata_host \<Rightarrow> int \<Rightarrow> string \<Rightarrow> string \<Rightarrow> bool \<Rightarrow> 'w \<Rightarrow> go_error option \<times> 'w" where
  "CreateSandboxForActor h ac sandboxID hostname withDurableShare =
     agent_CreateSandbox h ac hostname sandboxID
       (virtioShare FsTag guestSharedDir #
        (if withDurableShare then [virtioShare DurableFsTag guestDurableDir] else []))"

definition setRoot :: "string \<Rightarrow> bool \<Rightarrow> string \<Rightarrow> pb_spec \<Rightarrow> pb_spec" where
  "setRoot path readonly cgroup spec =
     spec\<lparr>ps_Root := Some (path, readonly),
          ps_Linux := map_option (\<lambda>l. l\<lparr>pl_CgroupsPath := cgroup\<rparr>) (ps_Linux spec)\<rparr>"

text \<open>Both calls panic on a nil specification; their caller builds one.\<close>

definition CreateCarrier ::
    "'w kata_host \<Rightarrow> int \<Rightarrow> string \<Rightarrow> oci_spec \<Rightarrow> 'w \<Rightarrow> go_error option \<times> 'w" where
  "CreateCarrier h ac cid spec w =
     (let pbSpec = setRoot (GuestSharedRootfs cid) True (''/ateomchv/'' @ cid @ ''-carrier'')
                     (the (SpecToAgentPB (Some spec)));
          (err, w) = agent_CreateContainer h ac cid cid [] pbSpec w
      in (case err of
            None \<Rightarrow> None
          | Some e \<Rightarrow> Some (Errorf ''creating carrier container %q: %w'' [FS cid, FW e]), w))"

definition createDir :: string where "createDir = ''io.katacontainers.volume.overlayfs.create_directory''"

definition overlayStorages :: "string \<Rightarrow> string \<Rightarrow> string \<Rightarrow> pb_storage list" where
  "overlayStorages cid workloadID upperBase =
     (let sharedBase = ''/run/kata-containers/'' @ cid @ ''/rootfs'';
          base = ''/run/kata-containers/'' @ workloadID;
          lower = base @ ''/lower''; upper = upperBase @ ''/fs''; work = upperBase @ ''/work''
      in [\<lparr>st_Driver = virtioFSDriver, st_DriverOptions = [], st_Source = sharedBase, st_Fstype = ''bind'',
           st_Options = [''bind''], st_MountPoint = lower\<rparr>,
          \<lparr>st_Driver = ''overlayfs'', st_DriverOptions = [createDir @ ''='' @ upper, createDir @ ''='' @ work],
           st_Source = ''overlay'', st_Fstype = ''overlay'',
           st_Options = [''lowerdir='' @ lower, ''upperdir='' @ upper, ''workdir='' @ work],
           st_MountPoint = base @ ''/rootfs''\<rparr>])"

definition StartOverlayWorkload ::
    "'w kata_host \<Rightarrow> int \<Rightarrow> string \<Rightarrow> string \<Rightarrow> string \<Rightarrow> oci_spec \<Rightarrow> 'w \<Rightarrow> go_error option \<times> 'w" where
  "StartOverlayWorkload h ac cid workloadID upperBase spec w =
     (let pbSpec = setRoot (''/run/kata-containers/'' @ workloadID @ ''/rootfs'') False (''/ateomchv/'' @ workloadID)
                     (the (SpecToAgentPB (Some spec)));
          (err, w) = agent_CreateContainer h ac workloadID workloadID (overlayStorages cid workloadID upperBase) pbSpec w
      in case err of
           Some e \<Rightarrow> (Some (Errorf ''creating overlay workload %q: %w'' [FS workloadID, FW e]), w)
         | None \<Rightarrow>
             let (err, w) = agent_StartContainer h ac workloadID w in
             (case err of
                None \<Rightarrow> None
              | Some e \<Rightarrow> Some (Errorf ''starting overlay workload %q: %w'' [FS workloadID, FW e]), w))"

end
