(* ===== verification/KataOverlay.thy ===== *)
theory KataOverlay
  imports KataContainers
begin

text \<open>
  The host's side of the overlay (\<open>internal/runtime/kata/overlay\<close>): paths (\<open>paths.go\<close>, \<open>kata.go\<close>), the Kata
  configuration (\<open>config.go\<close>), virtiofsd and the read-only lower directory (\<open>overlay_linux.go\<close>), shared mounts
  (\<open>mountprop_linux.go\<close>) and the sweep of what a virtual machine leaves behind (\<open>cleanup_linux.go\<close>).
\<close>

subsection \<open>Paths\<close>

definition vcVMDir :: string where "vcVMDir = ''/run/vc/vm''"

definition VMDir :: "string \<Rightarrow> string" where "VMDir sid = Join [vcVMDir, sid]"

definition CLHSocketPath :: "string \<Rightarrow> string" where "CLHSocketPath sid = Join [vcVMDir, sid, ''clh-api.sock'']"

definition VsockSocketPath :: "string \<Rightarrow> string" where "VsockSocketPath sid = Join [VMDir sid, ''clh.sock'']"

definition DurableVirtiofsdSocketPath :: "string \<Rightarrow> string" where
  "DurableVirtiofsdSocketPath sid = Join [VMDir sid, ''virtiofsd-durable.sock'']"

definition sandboxesDir :: string where "sandboxesDir = ''/run/kata-containers/shared/sandboxes''"

definition SharedDir :: "string \<Rightarrow> string" where "SharedDir sid = Join [sandboxesDir, sid, ''shared'']"

definition VirtiofsdSocketPath :: "string \<Rightarrow> string" where
  "VirtiofsdSocketPath sid = Join [VMDir sid, ''virtiofsd.sock'']"

subsection \<open>Configuration\<close>

record kata_config =
  kc_MemoryMiB :: int
  kc_VCPUs :: int
  kc_KernelParams :: string

definition ParseConfig :: "kata_json \<Rightarrow> string \<Rightarrow> int \<Rightarrow> int \<Rightarrow> go_error + kata_config" where
  "ParseConfig js base memDefault vcpuDefault =
     (case kj_DecodeToml js base of
        Inl e \<Rightarrow> Inl (Errorf ''parsing kata config: %w'' [FW e])
      | Inr (mem, vcpus, params) \<Rightarrow>
          Inr \<lparr>kc_MemoryMiB = (if mem \<le> 0 then memDefault else mem),
               kc_VCPUs = (if vcpus \<le> 0 then vcpuDefault else vcpus), kc_KernelParams = params\<rparr>)"

definition appendKernelParams :: "string \<Rightarrow> string \<Rightarrow> string \<Rightarrow> string" where
  "appendKernelParams kernelParams marker add =
     (if Contains kernelParams marker then kernelParams
      else if kernelParams = [] then add else kernelParams @ '' '' @ add)"

definition WithDebugConsole :: "string \<Rightarrow> string" where
  "WithDebugConsole kernelParams =
     appendKernelParams kernelParams ''agent.debug_console_vport''
       ''agent.debug_console agent.debug_console_vport=1026''"

definition WithAgentDebug :: "string \<Rightarrow> string" where
  "WithAgentDebug kernelParams =
     appendKernelParams kernelParams ''agent.log='' ''agent.log=debug agent.debug_console''"

subsection \<open>virtiofsd\<close>

record virtiofsd_options =
  vo_Binary :: string
  vo_SocketPath :: string
  vo_SharedDir :: string
  vo_Cache :: string
  vo_Log :: string

definition virtiofsdArgs :: "virtiofsd_options \<Rightarrow> string list" where
  "virtiofsdArgs opts =
     (let cache = (if vo_Cache opts = [] then ''always'' else vo_Cache opts) in
      [''--socket-path='' @ vo_SocketPath opts, ''--shared-dir='' @ vo_SharedDir opts, ''--cache='' @ cache,
       ''--thread-pool-size=1'', ''--announce-submounts'', ''--migration-mode'', ''find-paths''])"

definition virtiofsdSocketTimeout :: int where "virtiofsdSocketTimeout = inSeconds 10"

definition socketPollInterval :: int where "socketPollInterval = milliseconds 1"

definition waitForSocket :: "'w kata_host \<Rightarrow> string \<Rightarrow> int \<Rightarrow> 'w \<Rightarrow> go_error option \<times> 'w" where
  "waitForSocket h path timeout w =
     polling h socketPollInterval
       (\<lambda>w. let (st, w) = kh_IsDir h path w in (if isl st then None else Some None, w))
       (\<lambda>_. Some (Errorf ''virtiofsd socket %q did not appear within %s'' [FS path, FS (showSeconds timeout)]))
       Some (kh_Polls h timeout socketPollInterval w) w"

definition StartVirtiofsd :: "'w kata_host \<Rightarrow> virtiofsd_options \<Rightarrow> 'w \<Rightarrow> (go_error + int) \<times> 'w" where
  "StartVirtiofsd h opts w =
     (let bin = (if vo_Binary opts = [] then ''virtiofsd'' else vo_Binary opts);
          (_, w) = lx_Remove (kh_Linux h) (vo_SocketPath opts) w;
          (pid, w) = kh_Start h (bin # virtiofsdArgs opts) (vo_Log opts) w
      in case pid of
           Inl e \<Rightarrow> (Inl (Errorf ''starting virtiofsd: %w'' [FW e]), w)
         | Inr pid \<Rightarrow>
             let (err, w) = waitForSocket h (vo_SocketPath opts) virtiofsdSocketTimeout w in
             case err of
               Some e \<Rightarrow> (Inl e, snd (kh_Kill h pid w))
             | None \<Rightarrow> (Inr pid, w))"

subsection \<open>The lower directory\<close>

text \<open>The fifth field of a line of \<open>mountinfo\<close> is the mount point.\<close>

definition mountPoints :: "string \<Rightarrow> string list" where
  "mountPoints b = concat (map (\<lambda>line. let fs = Fields line in if length fs < 5 then [] else [fs ! 4])
     (splitOn (CHR 0x0A) b))"

definition pathIsMountpoint :: "'w kata_host \<Rightarrow> string \<Rightarrow> 'w \<Rightarrow> (go_error + bool) \<times> 'w" where
  "pathIsMountpoint h path w =
     (let (got, w) = lx_ReadFile (kh_Linux h) ''/proc/self/mountinfo'' w in
      (case got of Inl e \<Rightarrow> Inl e | Inr b \<Rightarrow> Inr (path \<in> set (mountPoints b)), w))"

definition copyImageRootfs :: "'w kata_host \<Rightarrow> string \<Rightarrow> string \<Rightarrow> 'w \<Rightarrow> go_error option \<times> 'w" where
  "copyImageRootfs h src dst w =
     (let ((err, stderr), w) = lx_RunStderr (kh_Linux h) [''cp'', ''-a'', src @ ''/.'', dst] w in
      (case err of
         None \<Rightarrow> None
       | Some e \<Rightarrow>
           Some (Errorf ''copying image rootfs %q -> %q: %w (%s)'' [FS src, FS dst, FW e, FS (TrimSpace stderr)]), w))"

definition ReconstructSharedDirFromImage ::
    "'w kata_host \<Rightarrow> string \<Rightarrow> string \<Rightarrow> string \<Rightarrow> 'w \<Rightarrow> go_error option \<times> 'w" where
  "ReconstructSharedDirFromImage h bundleRootfs restoreID cid w =
     (if cid = [] then (Some (Errorf ''ReconstructSharedDirFromImage: empty container id'' []), w)
      else
        let lx = kh_Linux h; dst = Join [SharedDir restoreID, cid, ''rootfs''];
            ((err, _), w) = lx_CombinedOutput lx [''umount'', dst] w;
            w = (if err = None then w else snd (lx_CombinedOutput lx [''umount'', ''-l'', dst] w));
            (mounted, w) = pathIsMountpoint h dst w
        in case mounted of
             Inl e \<Rightarrow> (Some (Errorf ''checking mount %q: %w'' [FS dst, FW e]), w)
           | Inr True \<Rightarrow>
               (Some (Errorf ''shared rootfs %q still mounted after umount; refusing RemoveAll'' [FS dst]), w)
           | Inr False \<Rightarrow>
               let (err, w) = lx_RemoveAll lx dst w in
               case err of
                 Some e \<Rightarrow> (Some (Errorf ''removing stale shared rootfs %q: %w'' [FS dst, FW e]), w)
               | None \<Rightarrow>
                   let (err, w) = lx_MkdirAll lx dst w in
                   case err of
                     Some e \<Rightarrow> (Some (Errorf ''creating shared dir %q: %w'' [FS dst, FW e]), w)
                   | None \<Rightarrow>
                       let (err, w) = copyImageRootfs h bundleRootfs dst w in
                       if err \<noteq> None then (err, w)
                       else (None, foldl (\<lambda>w d. snd (lx_MkdirAll lx (Join [dst, d]) w)) w [''proc'', ''sys'', ''dev'']))"

subsection \<open>Shared mounts\<close>

definition alreadySharedMount :: "'w kata_host \<Rightarrow> string \<Rightarrow> 'w \<Rightarrow> bool \<times> 'w" where
  "alreadySharedMount h path w =
     (let (got, w) = lx_ReadFile (kh_Linux h) ''/proc/self/mountinfo'' w in
      (case got of
         Inl _ \<Rightarrow> False
       | Inr b \<Rightarrow>
           list_ex (\<lambda>line. let fs = Fields line in
               length fs \<ge> 7 \<and> fs ! 4 = path \<and> Contains line ''shared:'') (splitOn (CHR 0x0A) b), w))"

definition EnsureSharedPropagation :: "'w kata_host \<Rightarrow> string \<Rightarrow> 'w \<Rightarrow> go_error option \<times> 'w" where
  "EnsureSharedPropagation h path w =
     (if path = [] then (Some (Errorf ''EnsureSharedPropagation: empty path'' []), w)
      else
        let (err, w) = lx_MkdirAll (kh_Linux h) path w in
        case err of
          Some e \<Rightarrow> (Some (Errorf ''creating %q: %w'' [FS path, FW e]), w)
        | None \<Rightarrow>
            let (shared, w) = alreadySharedMount h path w in
            if shared then (None, w)
            else
              let (err, w) = kh_MountSelf h path w in
              case err of
                Some e \<Rightarrow> (Some (Errorf ''self-binding %q: %w'' [FS path, FW e]), w)
              | None \<Rightarrow>
                  let (err, w) = kh_MountShared h path w in
                  (case err of
                     None \<Rightarrow> None
                   | Some e \<Rightarrow> Some (Errorf ''marking %q rshared: %w'' [FS path, FW e]), w))"

subsection \<open>The sweep\<close>

text \<open>
  \<open>strconv.Atoi\<close> on 64 bits, of which only the sign and the digits count here.  The sort of mount points by
  length is not stable in Go; here points of one length keep their order.
\<close>

definition Atoi :: "string \<Rightarrow> int option" where
  "Atoi s =
     (let neg = (take 1 s = ''-'');
          ds = (if take 1 s = ''-'' \<or> take 1 s = ''+'' then drop 1 s else s);
          v = (if neg then - int (digitsVal ds) else int (digitsVal ds))
      in if ds = [] \<or> \<not> list_all isDigit ds \<or> v < - (2 ^ 63) \<or> v \<ge> 2 ^ 63 then None else Some v)"

definition sandboxDirs :: "string \<Rightarrow> string list" where
  "sandboxDirs sid = [Join [sandboxesDir, sid], Join [vcVMDir, sid]]"

definition mountsUnder :: "string list \<Rightarrow> string \<Rightarrow> string list" where
  "mountsUnder dirs b =
     rev (sort_key length (rev (filter (\<lambda>mp. list_ex (\<lambda>d. mp = d \<or> HasPrefix mp (d @ ''/'')) dirs) (mountPoints b))))"

text \<open>The process of an entry of \<open>/proc\<close> is killed if its command line names the sandbox and its program is one of the two.\<close>

definition argv0Of :: "string \<Rightarrow> string" where
  "argv0Of cmdline = takeWhile (\<lambda>c. c \<noteq> CHR 0x00) cmdline"

definition isSandboxProcess :: "string \<Rightarrow> string \<Rightarrow> bool" where
  "isSandboxProcess sid cmdline \<longleftrightarrow>
     Contains cmdline sid \<and>
     (Contains (argv0Of cmdline) ''cloud-hypervisor'' \<or> Contains (argv0Of cmdline) ''virtiofsd'')"

fun killOrphans :: "'w kata_host \<Rightarrow> string \<Rightarrow> string list \<Rightarrow> 'w \<Rightarrow> 'w" where
  "killOrphans h sid [] w = w"
| "killOrphans h sid (name # names) w =
     (case Atoi name of
        None \<Rightarrow> killOrphans h sid names w
      | Some pid \<Rightarrow>
          if pid = kh_Getpid h then killOrphans h sid names w
          else
            let (cmdline, w) = lx_ReadFile (kh_Linux h) (Join [''/proc'', name, ''cmdline'']) w in
            case cmdline of
              Inl _ \<Rightarrow> killOrphans h sid names w
            | Inr c \<Rightarrow>
                killOrphans h sid names (if isSandboxProcess sid c then snd (kh_Kill h pid w) else w))"

definition CleanupSandboxState :: "'w kata_host \<Rightarrow> string \<Rightarrow> 'w \<Rightarrow> 'w" where
  "CleanupSandboxState h sid w =
     (let lx = kh_Linux h; dirs = sandboxDirs sid;
          (b, w) = lx_ReadFile lx ''/proc/self/mountinfo'' w;
          w = (case b of
                 Inl _ \<Rightarrow> w
               | Inr b \<Rightarrow> foldl (\<lambda>w mp. snd (lx_UnmountDetach lx mp w)) w (mountsUnder dirs b));
          w = foldl (\<lambda>w d. snd (lx_RemoveAll lx d w)) w dirs;
          (entries, w) = lx_ReadDir lx ''/proc'' w
      in case entries of Inl _ \<Rightarrow> w | Inr es \<Rightarrow> killOrphans h sid (map fst es) w)"

end
