(* ===== verification/KataInstances.thy ===== *)
theory KataInstances
  imports KataOverlay
begin

text \<open>
  The Kata snapshotter's own data (\<open>internal/snapshotter/kata.go\<close>), the records of its virtual machines
  (\<open>kata_instance.go\<close>), and the shares and network devices a restore gives to Cloud Hypervisor
  (\<open>kata_virtiofs.go\<close>, the first part of \<open>kata_restore_linux.go\<close>).
\<close>

subsection \<open>Constants and paths\<close>

definition kataFormatVersion :: string where "kataFormatVersion = ''cloud-hypervisor-snapshot-v1''"
definition kataIDPrefix :: string where "kataIDPrefix = ''kata:''"
definition kataMetaFile :: string where "kataMetaFile = ''sandboxfleet-meta.json''"
definition kataBaseIDFile :: string where "kataBaseIDFile = ''base-id''"
definition kataOverlaySuffix :: string where "kataOverlaySuffix = ''_ovl''"
definition kataDefaultMemoryMiB :: int where "kataDefaultMemoryMiB = 512"
definition kataDefaultVCPUs :: int where "kataDefaultVCPUs = 1"
definition defaultKataKernelPath :: string where
  "defaultKataKernelPath = ''/opt/kata/share/kata-containers/vmlinux.container''"
definition defaultKataImagePath :: string where
  "defaultKataImagePath = ''/opt/kata/share/kata-containers/kata-containers.img''"
definition defaultKataConfigPath :: string where
  "defaultKataConfigPath = ''/opt/kata/share/defaults/kata-containers/configuration-clh.toml''"

record kata =
  kt_CloudHypervisorPath :: string
  kt_VirtiofsdPath :: string
  kt_StateDir :: string

text \<open>\<open>firstExistingPath\<close> of \<open>snapshotter.go\<close>: a bare name is left to the search path.\<close>

fun existingFrom :: "'w kata_host \<Rightarrow> string \<Rightarrow> string list \<Rightarrow> 'w \<Rightarrow> string \<times> 'w" where
  "existingFrom h fallback [] w = (fallback, w)"
| "existingFrom h fallback (v # values) w =
     (if v = [] then existingFrom h fallback values w
      else if CHR ''/'' \<notin> set v then (v, w)
      else
        let (st, w) = kh_IsDir h v w in
        if st = Inr False then (v, w) else existingFrom h v values w)"

definition firstExistingPath :: "'w kata_host \<Rightarrow> string list \<Rightarrow> 'w \<Rightarrow> string \<times> 'w" where
  "firstExistingPath h = existingFrom h []"

definition NewKata :: "'w kata_host \<Rightarrow> 'w \<Rightarrow> kata \<times> 'w" where
  "NewKata h w =
     (let env = lx_Getenv (kh_Linux h);
          (virtiofsd, w) = firstExistingPath h
            [env ''SANDBOXFLEET_VIRTIOFSD_PATH'', ''/opt/sandboxfleet/bin/virtiofsd'',
             ''/opt/kata/libexec/virtiofsd'', ''/opt/kata/bin/virtiofsd'', ''virtiofsd''] w
      in (\<lparr>kt_CloudHypervisorPath = firstNonEmpty
             [env ''SANDBOXFLEET_CLOUD_HYPERVISOR_PATH'', ''/opt/sandboxfleet/bin/cloud-hypervisor'',
              ''/opt/kata/bin/cloud-hypervisor'', ''cloud-hypervisor''],
           kt_VirtiofsdPath = virtiofsd,
           kt_StateDir = firstNonEmpty [env ''SANDBOXFLEET_KATA_STATE_DIR'', ''/var/lib/sandboxfleet/kata'']\<rparr>, w))"

definition kataAssetPaths :: "'w linux \<Rightarrow> string \<times> string \<times> string" where
  "kataAssetPaths lx =
     (firstNonEmpty [lx_Getenv lx ''SANDBOXFLEET_KATA_KERNEL'', defaultKataKernelPath],
      firstNonEmpty [lx_Getenv lx ''SANDBOXFLEET_KATA_IMAGE'', defaultKataImagePath],
      firstNonEmpty [lx_Getenv lx ''SANDBOXFLEET_KATA_CONFIG'', defaultKataConfigPath])"

definition kataOverlayWorkloadID :: "string \<Rightarrow> string" where
  "kataOverlayWorkloadID carrierID = carrierID @ kataOverlaySuffix"

definition kataCarrierID :: "kata_meta \<Rightarrow> string" where
  "kataCarrierID meta =
     (if me_AppContainerName meta \<noteq> [] then me_AppContainerName meta
      else TrimSuffix (me_ContainerID meta) kataOverlaySuffix)"

definition kataStableCarrierName :: "string \<Rightarrow> string \<Rightarrow> string" where
  "kataStableCarrierName containerID reqAppName =
     (let carrier = TrimSuffix containerID kataOverlaySuffix in
      if carrier \<noteq> [] \<and> carrier \<noteq> containerID then carrier else firstNonEmpty [reqAppName, containerID])"

definition readKataBaseID :: "'w kata_host \<Rightarrow> string \<Rightarrow> kata_meta \<Rightarrow> 'w \<Rightarrow> string \<times> 'w" where
  "readKataBaseID h snapshotDir meta w =
     (let (got, w) = lx_ReadFile (kh_Linux h) (Join [snapshotDir, kataBaseIDFile]) w in
      (case got of
         Inr raw \<Rightarrow> if TrimSpace raw \<noteq> [] then TrimSpace raw else me_BaseID meta
       | Inl _ \<Rightarrow> me_BaseID meta, w))"

definition readKataMeta :: "'w kata_host \<Rightarrow> kata_json \<Rightarrow> string \<Rightarrow> 'w \<Rightarrow> (go_error + kata_meta) \<times> 'w" where
  "readKataMeta h js dir w =
     (let (got, w) = lx_ReadFile (kh_Linux h) (Join [dir, kataMetaFile]) w in
      (case got of Inl e \<Rightarrow> Inl e | Inr raw \<Rightarrow> kj_DecodeMeta js raw, w))"

definition isKataSharedTag :: "string \<Rightarrow> bool" where
  "isKataSharedTag tag \<longleftrightarrow> tag = [] \<or> tag = ''kataShared''"

subsection \<open>Type assertions on JSON\<close>

fun asObject :: "json option \<Rightarrow> (string, json) gomap option" where
  "asObject (Some (JObject m)) = Some m"
| "asObject _ = None"

fun asArray :: "json option \<Rightarrow> json list option" where
  "asArray (Some (JArray xs)) = Some xs"
| "asArray _ = None"

text \<open>\<open>s, _ := v.(string)\<close>, and the integer part of a number.\<close>

fun asString :: "json option \<Rightarrow> string" where
  "asString (Some (JString s)) = s"
| "asString _ = []"

fun asInt :: "json option \<Rightarrow> int option" where
  "asInt (Some (JNum q)) = Some (if 0 \<le> q then \<lfloor>q\<rfloor> else \<lceil>q\<rceil>)"
| "asInt _ = None"

fun netDevices :: "json list \<Rightarrow> kata_net_device list" where
  "netDevices [] = []"
| "netDevices (n # ns) =
     (case asObject (Some n) of
        None \<Rightarrow> netDevices ns
      | Some m \<Rightarrow>
          if asString (map_of m ''id'') = [] then netDevices ns
          else
            let qp = (case asInt (map_of m ''num_queues'') of
                        Some v \<Rightarrow> if v > 0 then max 1 (quot v 2) else 1
                      | None \<Rightarrow> 1)
            in \<lparr>nd_ID = asString (map_of m ''id''), nd_QueuePairs = qp\<rparr> # netDevices ns)"

definition readNetDevicesFromConfig ::
    "'w kata_host \<Rightarrow> kata_json \<Rightarrow> string \<Rightarrow> 'w \<Rightarrow> kata_net_device list \<times> 'w" where
  "readNetDevicesFromConfig h js configPath w =
     (let (got, w) = lx_ReadFile (kh_Linux h) configPath w in
      (case got of
         Inl _ \<Rightarrow> []
       | Inr raw \<Rightarrow>
           (case kj_DecodeObject js raw of
              Inl _ \<Rightarrow> []
            | Inr cfg \<Rightarrow>
                (case asArray (map_of cfg ''net'') of None \<Rightarrow> [] | Some nets \<Rightarrow> netDevices nets)), w))"

subsection \<open>Records of virtual machines\<close>

record instance_view =
  iv_ID :: runtime_id
  iv_Identity :: sandbox_identity
  iv_SlotID :: int
  iv_ContainerID :: string
  iv_PID :: int

definition exported :: "kata_instance \<Rightarrow> instance_view" where
  "exported i =
     \<lparr>iv_ID = kataIDPrefix @ ki_Name i,
      iv_Identity = \<lparr>id_Namespace = ki_Namespace i, id_Name = ki_SandboxName i, id_UID = ki_UID i\<rparr>,
      iv_SlotID = ki_SlotID i, iv_ContainerID = ki_ContainerID i, iv_PID = ki_PID i\<rparr>"

definition instancesDir :: "kata \<Rightarrow> string" where "instancesDir k = Join [kt_StateDir k, ''instances'']"

definition instancePath :: "kata \<Rightarrow> string \<Rightarrow> string" where
  "instancePath k name = Join [instancesDir k, name @ ''.json'']"

definition kataBundleDir :: "kata \<Rightarrow> string \<Rightarrow> string" where
  "kataBundleDir k name = Join [kt_StateDir k, ''bundles'', name]"

definition saveInstance :: "'w kata_host \<Rightarrow> kata_json \<Rightarrow> kata \<Rightarrow> kata_instance \<Rightarrow> 'w \<Rightarrow> go_error option \<times> 'w" where
  "saveInstance h js k inst w =
     (let (err, w) = lx_MkdirAll (kh_Linux h) (instancesDir k) w in
      case err of
        Some e \<Rightarrow> (Some e, w)
      | None \<Rightarrow>
          (case kj_EncodeInstance js inst of
             Inl e \<Rightarrow> (Some e, w)
           | Inr raw \<Rightarrow> lx_WriteFile (kh_Linux h) (instancePath k (ki_Name inst)) raw w))"

definition loadInstance :: "'w kata_host \<Rightarrow> kata_json \<Rightarrow> kata \<Rightarrow> string \<Rightarrow> 'w \<Rightarrow> (go_error + kata_instance) \<times> 'w" where
  "loadInstance h js k name w =
     (let (got, w) = lx_ReadFile (kh_Linux h) (instancePath k name) w in
      (case got of Inl e \<Rightarrow> Inl e | Inr raw \<Rightarrow> kj_DecodeInstance js raw, w))"

definition kata_Instance :: "'w kata_host \<Rightarrow> kata_json \<Rightarrow> kata \<Rightarrow> runtime_id \<Rightarrow> 'w \<Rightarrow> (go_error + instance_view) \<times> 'w" where
  "kata_Instance h js k rid w =
     (let (name, ok) = StripPrefix rid kataIDPrefix in
      if \<not> ok then (Inl (Errorf ''not a kata runtime id: %q'' [FS rid]), w)
      else
        let (inst, w) = loadInstance h js k name w in
        (case inst of
           Inl e \<Rightarrow>
             if kh_IsNotExist h e then Inl (wrapf RuntimeErrNotFound ''%w: kata instance %q'' [FS name]) else Inl e
         | Inr i \<Rightarrow> Inr (exported i), w))"

text \<open>The names of the records, and the views of those that can be read.\<close>

definition recordNames :: "(string \<times> bool) list \<Rightarrow> string list" where
  "recordNames entries =
     sort (map (\<lambda>(n, d). TrimSuffix n ''.json'') (filter (\<lambda>(n, d). \<not> d \<and> HasSuffix n ''.json'') entries))"

fun loadViews :: "'w kata_host \<Rightarrow> kata_json \<Rightarrow> kata \<Rightarrow> string list \<Rightarrow> 'w \<Rightarrow> instance_view list \<times> 'w" where
  "loadViews h js k [] w = ([], w)"
| "loadViews h js k (name # names) w =
     (let (inst, w) = loadInstance h js k name w; (rest, w) = loadViews h js k names w in
      (case inst of Inl _ \<Rightarrow> rest | Inr i \<Rightarrow> exported i # rest, w))"

definition kata_Instances :: "'w kata_host \<Rightarrow> kata_json \<Rightarrow> kata \<Rightarrow> 'w \<Rightarrow> (go_error + instance_view list) \<times> 'w" where
  "kata_Instances h js k w =
     (let (entries, w) = lx_ReadDir (kh_Linux h) (instancesDir k) w in
      case entries of
        Inl e \<Rightarrow> (if kh_IsNotExist h e then Inr [] else Inl e, w)
      | Inr es \<Rightarrow> let (views, w) = loadViews h js k (recordNames es) w in (Inr views, w))"

subsection \<open>Sockets of a restored machine\<close>

definition dirExists :: "'w kata_host \<Rightarrow> string \<Rightarrow> 'w \<Rightarrow> bool \<times> 'w" where
  "dirExists h path w = (if path = [] then (False, w) else let (st, w) = kh_IsDir h path w in (st = Inr True, w))"

definition waitSocketReady :: "'w kata_host \<Rightarrow> string \<Rightarrow> int \<Rightarrow> 'w \<Rightarrow> go_error option \<times> 'w" where
  "waitSocketReady h path deadline w =
     polling h (milliseconds 50)
       (\<lambda>w. let (st, w) = kh_IsDir h path w in (if st = Inr False then Some None else None, w))
       (\<lambda>_. Some (Errorf ''unix socket %q did not appear within %s'' [FS path, FS (showSeconds deadline)]))
       Some (kh_Polls h deadline (milliseconds 50) w) w"

definition noShare :: virtiofs_share where "noShare = \<lparr>vh_Tag = [], vh_SharedDir = [], vh_Socket = []\<rparr>"

fun rewriteFs ::
    "string \<Rightarrow> virtiofs_share list \<Rightarrow> nat \<Rightarrow> json list \<Rightarrow> go_error + (json list \<times> virtiofs_share list)" where
  "rewriteFs vmDir metaShares i [] = Inr ([], [])"
| "rewriteFs vmDir metaShares i (f # fss) =
     (case asObject (Some f) of
        None \<Rightarrow> Inl (Errorf ''malformed fs device in snapshot config'' [])
      | Some fm \<Rightarrow>
          let tag = asString (map_of fm ''tag'');
              socket = Join [vmDir, ''virtiofsd-'' @ Itoa (int i) @ ''.sock''];
              byTag = foldl (\<lambda>m s. if vh_Tag s \<noteq> [] then gm_set (vh_Tag s) s m else m) [] metaShares;
              share = (case map_of byTag tag of
                         Some s \<Rightarrow> s
                       | None \<Rightarrow> if i < length metaShares then metaShares ! i else noShare)
          in case rewriteFs vmDir metaShares (Suc i) fss of
               Inl e \<Rightarrow> Inl e
             | Inr (rest, planned) \<Rightarrow>
                 Inr (JObject (gm_set ''socket'' (JString socket) fm) # rest,
                      share\<lparr>vh_Tag := tag, vh_Socket := socket\<rparr> # planned))"

definition rewriteConfig ::
    "string \<Rightarrow> virtiofs_share list \<Rightarrow> (string, json) gomap \<Rightarrow> go_error + ((string, json) gomap \<times> virtiofs_share list)" where
  "rewriteConfig vmDir metaShares cfg =
     (let cfg = (case asObject (map_of cfg ''vsock'') of
                   None \<Rightarrow> cfg
                 | Some vsock \<Rightarrow>
                     gm_set ''vsock'' (JObject (gm_set ''socket'' (JString (Join [vmDir, ''clh.sock''])) vsock)) cfg);
          cfg = (case asObject (map_of cfg ''serial'') of
                   None \<Rightarrow> cfg
                 | Some serial \<Rightarrow>
                     if asString (map_of serial ''mode'') = ''File''
                     then gm_set ''serial'' (JObject (gm_set ''file'' (JString (Join [vmDir, ''serial.log''])) serial)) cfg
                     else cfg)
      in case asArray (map_of cfg ''fs'') of
           None \<Rightarrow> Inr (cfg, [])
         | Some fss \<Rightarrow>
             (case rewriteFs vmDir metaShares 0 fss of
                Inl e \<Rightarrow> Inl e
              | Inr (fss, planned) \<Rightarrow> Inr (gm_set ''fs'' (JArray fss) cfg, planned)))"

definition rewriteRestoreSockets ::
    "'w kata_host \<Rightarrow> kata_json \<Rightarrow> string \<Rightarrow> string \<Rightarrow> virtiofs_share list \<Rightarrow> 'w \<Rightarrow> (go_error + virtiofs_share list) \<times> 'w" where
  "rewriteRestoreSockets h js snapshotDir vmDir metaShares w =
     (let cfgPath = Join [snapshotDir, ''config.json'']; (got, w) = lx_ReadFile (kh_Linux h) cfgPath w in
      case got of
        Inl e \<Rightarrow> (Inl e, w)
      | Inr raw \<Rightarrow>
          (case kj_DecodeObject js raw of
             Inl e \<Rightarrow> (Inl e, w)
           | Inr cfg \<Rightarrow>
               (case rewriteConfig vmDir metaShares cfg of
                  Inl e \<Rightarrow> (Inl e, w)
                | Inr (cfg, planned) \<Rightarrow>
                    (case kj_EncodeObject js cfg of
                       Inl e \<Rightarrow> (Inl e, w)
                     | Inr out \<Rightarrow>
                         let (err, w) = lx_WriteFile (kh_Linux h) cfgPath out w in
                         (case err of Some e \<Rightarrow> Inl e | None \<Rightarrow> Inr planned, w)))))"

end
