(* ===== verification/KataSnapshots.thy ===== *)
theory KataSnapshots
  imports KataInstances
begin

text \<open>
  Saving and restoring virtual machines (\<open>internal/snapshotter/kata_restore_linux.go\<close>).  Logging is left out, and
  so is what is done only to write a log.
\<close>

subsection \<open>Processes and files\<close>

definition killCmds :: "'w kata_host \<Rightarrow> int list \<Rightarrow> 'w \<Rightarrow> 'w" where
  "killCmds h pids w = foldl (\<lambda>w pid. snd (kh_Kill h pid w)) w pids"

definition closeFiles :: "'w kata_host \<Rightarrow> int list \<Rightarrow> 'w \<Rightarrow> 'w" where
  "closeFiles h fds w = foldl (\<lambda>w fd. lx_Close (kh_Linux h) fd w) w fds"

text \<open>\<open>filepath.Dir\<close>.\<close>

definition Dir :: "string \<Rightarrow> string" where
  "Dir p = Clean (rev (dropWhile (\<lambda>c. c \<noteq> CHR ''/'') (rev p)))"

text \<open>The files of a directory one by one; \<open>kh_CopyFile\<close> opens, creates, copies and closes.\<close>

fun copyEntries :: "'w kata_host \<Rightarrow> string \<Rightarrow> string \<Rightarrow> (go_error + (string \<times> bool)) list \<Rightarrow> 'w \<Rightarrow> go_error option \<times> 'w" where
  "copyEntries h src dst [] w = (None, w)"
| "copyEntries h src dst (e # es) w =
     (case e of
        Inl e \<Rightarrow> (Some e, w)
      | Inr (rel, isDir) \<Rightarrow>
          let target = Join [dst, rel];
              (err, w) =
                (if isDir then lx_MkdirAll (kh_Linux h) target w
                 else
                   let (err, w) = lx_MkdirAll (kh_Linux h) (Dir target) w in
                   if err \<noteq> None then (err, w) else kh_CopyFile h (Join [src, rel]) target w)
          in if err \<noteq> None then (err, w) else copyEntries h src dst es w)"

definition copyDir :: "'w kata_host \<Rightarrow> string \<Rightarrow> string \<Rightarrow> 'w \<Rightarrow> go_error option \<times> 'w" where
  "copyDir h src dst w = (let (es, w) = kh_Walk h src w in copyEntries h src dst es w)"

definition placeSnapshotDir :: "'w kata_host \<Rightarrow> string \<Rightarrow> string \<Rightarrow> 'w \<Rightarrow> go_error option \<times> 'w" where
  "placeSnapshotDir h src dst w =
     (let lx = kh_Linux h; (err, w) = lx_MkdirAll lx (Dir dst) w in
      if err \<noteq> None then (err, w)
      else
        let (_, w) = lx_RemoveAll lx dst w; (err, w) = lx_Rename lx src dst w in
        if err = None then (None, w)
        else
          let (err, w) = copyDir h src dst w in
          if err \<noteq> None then (err, snd (lx_RemoveAll lx dst w)) else (None, w))"

subsection \<open>virtiofsd and taps\<close>

definition virtiofsdCommand :: "kata \<Rightarrow> virtiofs_share \<Rightarrow> string list" where
  "virtiofsdCommand k share =
     [kt_VirtiofsdPath k, ''--socket-path='' @ vh_Socket share, ''--shared-dir='' @ vh_SharedDir share,
      ''--cache=always'', ''--thread-pool-size=1'', ''--announce-submounts'',
      ''--migration-mode'', ''find-paths'', ''--sandbox=none'']"

text \<open>The daemons that run, in the order they were started; a failure kills them.\<close>

fun startDaemons ::
    "'w kata_host \<Rightarrow> kata \<Rightarrow> string \<Rightarrow> nat \<Rightarrow> int list \<Rightarrow> virtiofs_share list \<Rightarrow> 'w \<Rightarrow> (go_error + int list) \<times> 'w" where
  "startDaemons h k vmDir i cmds [] w = (Inr cmds, w)"
| "startDaemons h k vmDir i cmds (share # shares) w =
     (if vh_SharedDir share = [] \<or> vh_Socket share = [] then startDaemons h k vmDir (Suc i) cmds shares w
      else
        let (ok, w) = dirExists h (vh_SharedDir share) w in
        if \<not> ok
        then (Inl (Errorf ''virtiofs sharedDir %q missing for restore'' [FS (vh_SharedDir share)]), killCmds h cmds w)
        else
          let (_, w) = lx_Remove (kh_Linux h) (vh_Socket share) w;
              logPath = Join [vmDir, ''virtiofsd-'' @ Itoa (int i) @ ''.log''];
              (err, w) = lx_OpenLog (kh_Linux h) logPath w
          in case err of
               Some e \<Rightarrow> (Inl (Errorf ''open virtiofsd log: %w'' [FW e]), killCmds h cmds w)
             | None \<Rightarrow>
                 let (pid, w) = kh_Start h (virtiofsdCommand k share) logPath w in
                 case pid of
                   Inl e \<Rightarrow>
                     (Inl (Errorf ''start virtiofsd for %q: %w'' [FS (vh_SharedDir share), FW e]), killCmds h cmds w)
                 | Inr pid \<Rightarrow>
                     let (err, w) = waitSocketReady h (vh_Socket share) (inSeconds 10) w in
                     case err of
                       Some e \<Rightarrow>
                         (Inl (Errorf ''wait virtiofsd socket for %q: %w'' [FS (vh_SharedDir share), FW e]),
                          killCmds h cmds (snd (kh_Kill h pid w)))
                     | None \<Rightarrow> startDaemons h k vmDir (Suc i) (cmds @ [pid]) shares w)"

definition startVirtiofsDaemons ::
    "'w kata_host \<Rightarrow> kata \<Rightarrow> string \<Rightarrow> virtiofs_share list \<Rightarrow> 'w \<Rightarrow> (go_error + int list) \<times> 'w" where
  "startVirtiofsDaemons h k vmDir shares = startDaemons h k vmDir 0 [] shares"

definition attachTapToBridge :: "'w linux \<Rightarrow> string \<Rightarrow> 'w \<Rightarrow> go_error option \<times> 'w" where
  "attachTapToBridge lx tapName w =
     (let (err, w) = runIPCommand lx [''link'', ''set'', tapName, ''master'', guestBridge] w in
      case err of
        Some e \<Rightarrow> (Some (Errorf ''tap %s master %s: %w'' [FS tapName, FS guestBridge, FW e]), w)
      | None \<Rightarrow>
          let (err, w) = runIPCommand lx [''link'', ''set'', tapName, ''up''] w in
          (case err of None \<Rightarrow> None | Some e \<Rightarrow> Some (Errorf ''tap %s up: %w'' [FS tapName, FW e]), w))"

definition tapFlags :: "int \<Rightarrow> int" where
  "tapFlags queuePairs = 0x0002 + 0x1000 + 0x4000 + (if queuePairs > 1 then 0x0100 else 0)"

text \<open>One file per queue pair; the name is cut to its 16 bytes.\<close>

fun openTaps :: "'w kata_host \<Rightarrow> string \<Rightarrow> int \<Rightarrow> int list \<Rightarrow> nat \<Rightarrow> 'w \<Rightarrow> (go_error + int list) \<times> 'w" where
  "openTaps h name flags fds 0 w = (Inr fds, w)"
| "openTaps h name flags fds (Suc q) w =
     (let (f, w) = kh_OpenTun h w in
      case f of
        Inl e \<Rightarrow> (Inl (Errorf ''open /dev/net/tun: %w'' [FW e]), closeFiles h fds w)
      | Inr fd \<Rightarrow>
          let (err, w) = kh_TunSetIff h fd (take 16 name) flags w in
          case err of
            Some e \<Rightarrow> (Inl e, closeFiles h fds (lx_Close (kh_Linux h) fd w))
          | None \<Rightarrow> openTaps h name flags (fds @ [fd]) q w)"

definition openTapDeviceFDs :: "'w kata_host \<Rightarrow> string \<Rightarrow> int \<Rightarrow> 'w \<Rightarrow> (go_error + int list) \<times> 'w" where
  "openTapDeviceFDs h name queuePairs =
     (let qp = (if queuePairs < 1 then 1 else queuePairs) in openTaps h name (tapFlags qp) [] (nat qp))"

definition tapNameFor :: "int \<Rightarrow> nat \<Rightarrow> string" where
  "tapNameFor slotID i =
     (let tapName = ''sft'' @ Itoa slotID @ ''-'' @ Itoa (int i) in
      if length tapName > 15 then ''s'' @ Itoa slotID @ ''-'' @ Itoa (int i) else tapName)"

fun createTaps ::
    "'w kata_host \<Rightarrow> int \<Rightarrow> nat \<Rightarrow> restore_tap_net list \<Rightarrow> int list \<Rightarrow> kata_net_device list \<Rightarrow> 'w \<Rightarrow>
      (go_error + (restore_tap_net list \<times> int list)) \<times> 'w" where
  "createTaps h slotID i nets files [] w = (Inr (nets, files), w)"
| "createTaps h slotID i nets files (d # ds) w =
     (let qp = (if nd_QueuePairs d < 1 then 1 else nd_QueuePairs d);
          tapName = tapNameFor slotID i;
          (opened, w) = openTapDeviceFDs h tapName qp w
      in case opened of
           Inl e \<Rightarrow> (Inl e, closeFiles h files w)
         | Inr fds \<Rightarrow>
             let (err, w) = attachTapToBridge (kh_Linux h) tapName w in
             case err of
               Some e \<Rightarrow> (Inl e, closeFiles h files (closeFiles h fds w))
             | None \<Rightarrow>
                 createTaps h slotID (Suc i) (nets @ [\<lparr>tn_id = nd_ID d, tn_fds = fds\<rparr>]) (files @ fds) ds w)"

definition createRestoreTaps ::
    "'w kata_host \<Rightarrow> int \<Rightarrow> kata_net_device list \<Rightarrow> 'w \<Rightarrow> (go_error + (restore_tap_net list \<times> int list)) \<times> 'w" where
  "createRestoreTaps h slotID devs w =
     (let (err, w) = ensureSharedBridge (kh_Linux h) w in
      case err of
        Some e \<Rightarrow> (Inl e, w)
      | None \<Rightarrow> createTaps h slotID 0 [] [] devs (ensureOutboundNAT (kh_Linux h) w))"

subsection \<open>Teardown\<close>

definition teardownInstance :: "'w kata_host \<Rightarrow> kata \<Rightarrow> kata_instance \<Rightarrow> 'w \<Rightarrow> 'w" where
  "teardownInstance h k inst w =
     (let lx = kh_Linux h;
          w = (if ki_APISocket inst \<noteq> [] then snd (chShutdown h (ki_APISocket inst) w) else w);
          w = (if ki_PID inst > 0 then snd (kh_Kill h (ki_PID inst) w) else w);
          w = (if ki_BaseID inst \<noteq> [] then CleanupSandboxState h (ki_BaseID inst) w else w);
          w = teardownImageRootfs lx (ki_BundleDir inst) w;
          w = (if ki_BundleDir inst \<noteq> [] then snd (lx_RemoveAll lx (ki_BundleDir inst) w) else w)
      in if ki_VMDir inst \<noteq> [] \<and> HasPrefix (ki_VMDir inst) (kt_StateDir k)
         then snd (lx_RemoveAll lx (ki_VMDir inst) w) else w)"

definition kataDeleteRestored :: "('i, 'w) kata_env \<Rightarrow> kata \<Rightarrow> runtime_id \<Rightarrow> 'w \<Rightarrow> go_error option \<times> 'w" where
  "kataDeleteRestored env k rid w =
     (let h = ke_Host env; (name, ok) = StripPrefix rid kataIDPrefix in
      if \<not> ok then (Some (Errorf ''not a kata runtime id: %q'' [FS rid]), w)
      else
        let (inst, w) = loadInstance h (ke_Json env) k name w in
        case inst of
          Inl _ \<Rightarrow> (None, w)
        | Inr inst \<Rightarrow>
            let w = teardownInstance h k inst w in (None, snd (lx_Remove (kh_Linux h) (instancePath k name) w)))"

text \<open>The time limit of the command belongs to the host, whose calls then fail.\<close>

definition kataExecRestored ::
    "('i, 'w) kata_env \<Rightarrow> kata \<Rightarrow> runtime_id \<Rightarrow> exec_request \<Rightarrow> 'w \<Rightarrow> (go_error + exec_result) \<times> 'w" where
  "kataExecRestored env k rid req w =
     (let h = ke_Host env; (name, ok) = StripPrefix rid kataIDPrefix in
      if \<not> ok then (Inl (Errorf ''not a kata runtime id: %q'' [FS rid]), w)
      else
        let (inst, w) = loadInstance h (ke_Json env) k name w in
        case inst of
          Inl e \<Rightarrow> (Inl e, w)
        | Inr inst \<Rightarrow> execViaAgent h (ki_VsockPath inst) (ki_ContainerID inst) (eq_Command req) w)"

subsection \<open>Saving\<close>

text \<open>The listing of the application's files, whose output is only logged.\<close>

definition guestFilesScript :: string where
  "guestFilesScript = joinWith [CHR 0x0A]
     ['''', ''set +e'', ''echo '' @ dq @ ''=== /app listing ==='' @ dq, ''ls -la /app 2>&1'',
      ''echo '' @ dq @ ''=== /app *.txt ==='' @ dq, ''for f in /app/*.txt; do'',
      ''  [ -e '' @ dq @ ''$f'' @ dq @ '' ] || continue'', ''  ls -la -- '' @ dq @ ''$f'' @ dq @ '' 2>&1'',
      ''  wc -c -- '' @ dq @ ''$f'' @ dq @ '' 2>&1'', ''done'',
      ''echo '' @ dq @ ''=== overlay upper /run/ateom-upper ==='' @ dq,
      ''find /run/ateom-upper -type f 2>/dev/null | head -50 | while IFS= read -r p; do'',
      ''  ls -la -- '' @ dq @ ''$p'' @ dq @ '' 2>&1'', ''  wc -c -- '' @ dq @ ''$p'' @ dq @ '' 2>&1'', ''done'', '''']"

definition syncGuestBeforeCheckpoint :: "'w kata_host \<Rightarrow> string \<Rightarrow> string \<Rightarrow> 'w \<Rightarrow> go_error option \<times> 'w" where
  "syncGuestBeforeCheckpoint h vsockPath containerID w =
     (if vsockPath = [] \<or> containerID = [] then (Some (Errorf ''vsockPath and containerID are required'' []), w)
      else
        let (_, w) = execViaAgent h vsockPath containerID [''sh'', ''-c'', guestFilesScript] w;
            (result, w) = execViaAgent h vsockPath containerID [''sync''] w
        in (case result of
              Inl e \<Rightarrow> Some e
            | Inr r \<Rightarrow>
                if er_ExitCode r \<noteq> 0
                then Some (Errorf ''sync exit %d stderr=%s'' [FD (er_ExitCode r), FS (TrimSpace (er_Stderr r))])
                else None, w))"

text \<open>The delta is merged into the image the machine was restored from, if that is still there.\<close>

definition mergeNested ::
    "('i, 'w) kata_env \<Rightarrow> kata_instance \<Rightarrow> string \<Rightarrow> 'w \<Rightarrow> (go_error option \<times> 'w) option" where
  "mergeNested env inst destDir w =
     (if ki_SnapshotDir inst = [] then Some (None, w)
      else
        let base = Join [ki_SnapshotDir inst, MemoryRangesFile];
            (st, w) = kh_IsDir (ke_Host env) base w
        in if isl st then Some (None, w)
           else
             map_option (\<lambda>(err, w).
                (case err of None \<Rightarrow> None | Some e \<Rightarrow> Some (Errorf ''merge nested memory-ranges: %w'' [FW e]), w))
               (MergeDeltaIntoBase (ke_Sparse env) base (Join [destDir, MemoryRangesFile]) w))"

definition metaOf ::
    "save_request \<Rightarrow> kata_instance \<Rightarrow> string \<Rightarrow> string \<Rightarrow> kata_net_device list \<Rightarrow> int \<Rightarrow> kata_meta" where
  "metaOf req inst containerID baseID nets now =
     \<lparr>me_SourceSandboxID = sv_ID req, me_ContainerID = containerID,
      me_AppImage = firstNonEmpty [sv_AppImage req, ki_AppImage inst],
      me_AppContainerName = kataStableCarrierName containerID (sv_AppContainerName req),
      me_BaseID = baseID,
      me_VirtiofsShares = [\<lparr>vh_Tag = FsTag, vh_SharedDir = SharedDir baseID, vh_Socket = []\<rparr>],
      me_NetDevices = nets, me_SavedAt = now\<rparr>"

text \<open>After the image: the base ID, the meta file, and the end of the machine.\<close>

definition finishSave ::
    "('i, 'w) kata_env \<Rightarrow> kata \<Rightarrow> save_request \<Rightarrow> kata_instance \<Rightarrow> string \<Rightarrow> string \<Rightarrow> 'w \<Rightarrow> go_error option \<times> 'w" where
  "finishSave env k req inst containerID baseID w =
     (let h = ke_Host env; lx = kh_Linux h; dest = sv_DestDir req;
          (err, w) = lx_WriteFile lx (Join [dest, kataBaseIDFile]) baseID w
      in case err of
           Some e \<Rightarrow> (Some (Errorf ''write %s: %w'' [FS kataBaseIDFile, FW e]), w)
         | None \<Rightarrow>
             let (nets, w) = readNetDevicesFromConfig h (ke_Json env) (Join [dest, ''config.json'']) w;
                 (now, w) = kh_Now h w
             in case kj_EncodeMeta (ke_Json env) (metaOf req inst containerID baseID nets now) of
                  Inl e \<Rightarrow> (Some e, w)
                | Inr raw \<Rightarrow>
                    let (err, w) = lx_WriteFile lx (Join [dest, kataMetaFile]) raw w in
                    if err \<noteq> None then (err, w) else (None, teardownInstance h k inst w))"

definition saveSelfManagedSnapshot ::
    "('i, 'w) kata_env \<Rightarrow> kata \<Rightarrow> save_request \<Rightarrow> 'w \<Rightarrow> (go_error option \<times> 'w) option" where
  "saveSelfManagedSnapshot env k req w =
     (let h = ke_Host env; (name, ok) = StripPrefix (sv_ID req) kataIDPrefix in
      if \<not> ok then Some (Some (Errorf ''not a kata runtime id: %q'' [FS (sv_ID req)]), w)
      else
        let (inst, w) = loadInstance h (ke_Json env) k name w in
        case inst of
          Inl e \<Rightarrow> Some (Some (Errorf ''read kata instance %q: %w'' [FS name, FW e]), w)
        | Inr inst \<Rightarrow>
            let containerID = firstNonEmpty [ki_ContainerID inst, sv_ContainerID req] in
            if containerID = []
            then Some (Some (Errorf ''kata instance %q has empty containerID'' [FS name]), w)
            else
              let baseID = firstNonEmpty [ki_BaseID inst, name];
                  (err, w) = lx_MkdirAll (kh_Linux h) (sv_DestDir req) w
              in if err \<noteq> None then Some (err, w)
                 else
                   let (_, w) = syncGuestBeforeCheckpoint h (ki_VsockPath inst) containerID w;
                       (err, w) = chPause h (ke_Json env) (ki_APISocket inst) w
                   in case err of
                        Some e \<Rightarrow> Some (Some (Errorf ''pause vm: %w'' [FW e]), w)
                      | None \<Rightarrow>
                          let (err, w) = chSnapshot h (ki_APISocket inst) (sv_DestDir req) w in
                          case err of
                            Some e \<Rightarrow> Some (Some (Errorf ''snapshot vm: %w'' [FW e]), w)
                          | None \<Rightarrow>
                              Option.bind (mergeNested env inst (sv_DestDir req) w) (\<lambda>(err, w).
                                Some (if err \<noteq> None then (err, w)
                                      else finishSave env k req inst containerID baseID w)))"

definition kataSaveSnapshot ::
    "('i, 'w) kata_env \<Rightarrow> kata \<Rightarrow> save_request \<Rightarrow> 'w \<Rightarrow> (go_error option \<times> 'w) option" where
  "kataSaveSnapshot env k req w =
     (if sv_ID req = [] then Some (Some (Errorf ''runtime id is required'' []), w)
      else if \<not> HasPrefix (sv_ID req) kataIDPrefix
      then Some (Some (Errorf ''kata snapshotter only checkpoints self-managed ids (%q prefix), got %q''
             [FS kataIDPrefix, FS (sv_ID req)]), w)
      else saveSelfManagedSnapshot env k req w)"

end
