(* ===== verification/KataRestore.thy ===== *)
theory KataRestore
  imports KataSnapshots
begin

text \<open>
  Restoring a virtual machine from a snapshot (\<open>LoadSnapshot\<close> of \<open>kata_restore_linux.go\<close>): the read-only lower
  directory is rebuilt from the image, virtiofsd and Cloud Hypervisor are started, and the memory is loaded.
\<close>

subsection \<open>The log in an error\<close>

definition maxTail :: nat where "maxTail = 8192"

definition logPart :: "'w linux \<Rightarrow> string \<Rightarrow> 'w \<Rightarrow> string \<times> 'w" where
  "logPart lx path w =
     (let (got, w) = lx_ReadFile lx path w in
      (case got of
         Inl e \<Rightarrow> Base path @ '': <unreadable: '' @ errorText e @ ''>''
       | Inr d \<Rightarrow>
           if d = [] then Base path @ '': <empty>''
           else Base path @ '':'' @ [CHR 0x0A] @ TrimSpace (drop (length d - maxTail) d), w))"

fun logParts :: "'w linux \<Rightarrow> string list \<Rightarrow> 'w \<Rightarrow> string list \<times> 'w" where
  "logParts lx [] w = ([], w)"
| "logParts lx (p # ps) w = (let (t, w) = logPart lx p w; (ts, w) = logParts lx ps w in (t # ts, w))"

definition withCHLog :: "'w linux \<Rightarrow> go_error \<Rightarrow> string list \<Rightarrow> 'w \<Rightarrow> go_error \<times> 'w" where
  "withCHLog lx err paths w =
     (let (parts, w) = logParts lx paths w in
      (if parts = [] then err
       else Errorf (''%w; cloud-hypervisor log tail:'' @ [CHR 0x0A] @ ''%s'')
              [FW err, FS (joinWith ([CHR 0x0A] @ ''---'' @ [CHR 0x0A]) parts)], w))"

subsection \<open>The machine\<close>

text \<open>What a restore knows before it starts a process.\<close>

record restore_plan =
  rp_Name :: string
  rp_VMDir :: string
  rp_SnapDir :: string
  rp_Bundle :: string
  rp_BaseID :: string
  rp_AppImage :: string
  rp_Meta :: kata_meta
  rp_Request :: load_request

definition restoreCleanup :: "'w linux \<Rightarrow> string \<Rightarrow> string \<Rightarrow> 'w \<Rightarrow> 'w" where
  "restoreCleanup lx bundle vmDir w =
     (let w = teardownImageRootfs lx bundle w; (_, w) = lx_RemoveAll lx bundle w
      in snd (lx_RemoveAll lx vmDir w))"

definition hypervisorCommand :: "kata \<Rightarrow> string \<Rightarrow> string list" where
  "hypervisorCommand k vmDir =
     [kt_CloudHypervisorPath k, ''-vv'', ''--log-file'', Join [vmDir, ''cloud-hypervisor.log''],
      ''--api-socket'', Join [vmDir, ''clh-api.sock'']]"

definition restoredInstance :: "restore_plan \<Rightarrow> int \<Rightarrow> kata_instance" where
  "restoredInstance p pid =
     \<lparr>ki_Name = rp_Name p, ki_Namespace = id_Namespace (ld_Identity (rp_Request p)),
      ki_SandboxName = id_Name (ld_Identity (rp_Request p)), ki_UID = id_UID (ld_Identity (rp_Request p)),
      ki_SlotID = ld_SlotID (rp_Request p), ki_VMDir = rp_VMDir p,
      ki_APISocket = Join [rp_VMDir p, ''clh-api.sock''], ki_VsockPath = Join [rp_VMDir p, ''clh.sock''],
      ki_SnapshotDir = rp_SnapDir p, ki_ContainerID = me_ContainerID (rp_Meta p), ki_BaseID = rp_BaseID p,
      ki_AppImage = rp_AppImage p, ki_BundleDir = rp_Bundle p, ki_PID = pid\<rparr>"

text \<open>From the start of Cloud Hypervisor to the saved record; a failure after the start kills it.\<close>

definition resumeVM ::
    "('i, 'w) kata_env \<Rightarrow> kata \<Rightarrow> restore_plan \<Rightarrow> restore_tap_net list \<Rightarrow> int \<Rightarrow> 'w \<Rightarrow> go_error option \<times> 'w" where
  "resumeVM env k p nets pid w =
     (let h = ke_Host env; lx = kh_Linux h; sock = Join [rp_VMDir p, ''clh-api.sock''];
          logs = [Join [rp_VMDir p, ''cloud-hypervisor.log''], Join [rp_VMDir p, ''cloud-hypervisor.stderr.log'']];
          (err, w) = chWaitReady h sock (inSeconds 30) w
      in case err of
           Some e \<Rightarrow> let (e, w) = withCHLog lx e logs w in (Some e, w)
         | None \<Rightarrow>
             let (err, w) = restoreVMWithNetworkFDs h (ke_Json env) sock (rp_SnapDir p) nets ''Copy'' w in
             case err of
               Some e \<Rightarrow>
                 let (e, w) = withCHLog lx (Errorf ''vm.restore: %w'' [FW e]) logs w in (Some e, w)
             | None \<Rightarrow>
                 let (err, w) = chResume h sock w in
                 case err of
                   Some e \<Rightarrow>
                     let (e, w) = withCHLog lx (Errorf ''resume restored vm: %w'' [FW e]) logs w in (Some e, w)
                 | None \<Rightarrow> saveInstance h (ke_Json env) k (restoredInstance p pid) w)"

definition launchRestored ::
    "('i, 'w) kata_env \<Rightarrow> kata \<Rightarrow> restore_plan \<Rightarrow> restore_tap_net list \<Rightarrow> 'w \<Rightarrow> go_error option \<times> 'w" where
  "launchRestored env k p nets w =
     (let h = ke_Host env; chErrPath = Join [rp_VMDir p, ''cloud-hypervisor.stderr.log''];
          (err, w) = lx_OpenLog (kh_Linux h) chErrPath w
      in case err of
           Some e \<Rightarrow> (Some (Errorf ''open cloud-hypervisor stderr log: %w'' [FW e]), w)
         | None \<Rightarrow>
             let (pid, w) = kh_Start h (hypervisorCommand k (rp_VMDir p)) chErrPath w in
             case pid of
               Inl e \<Rightarrow> (Some (Errorf ''start cloud-hypervisor: %w'' [FW e]), w)
             | Inr pid \<Rightarrow>
                 let (err, w) = resumeVM env k p nets pid w in
                 if err \<noteq> None then (err, snd (kh_Kill h pid w)) else (None, w))"

text \<open>
  With the daemons running: the taps, which are closed in any case, and the machine.  A failure kills the
  daemons and removes the directories.
\<close>

definition restoreWithDaemons ::
    "('i, 'w) kata_env \<Rightarrow> kata \<Rightarrow> restore_plan \<Rightarrow> int list \<Rightarrow> 'w \<Rightarrow> (go_error + runtime_id) \<times> 'w" where
  "restoreWithDaemons env k p cmds w =
     (let h = ke_Host env; lx = kh_Linux h;
          undo = (\<lambda>w. restoreCleanup lx (rp_Bundle p) (rp_VMDir p) (killCmds h cmds w));
          slot = ld_SlotID (rp_Request p);
          (taps, w) = createRestoreTaps h slot (me_NetDevices (rp_Meta p)) w
      in case taps of
           Inl e \<Rightarrow> (Inl e, undo w)
         | Inr (nets, files) \<Rightarrow>
             let (err, w) = launchRestored env k p nets w in
             case err of
               Some e \<Rightarrow> (Inl e, undo (closeFiles h files w))
             | None \<Rightarrow>
                 let rid = kataIDPrefix @ rp_Name p;
                     (ac, w) = dialAgentRetry h (Join [rp_VMDir p, ''clh.sock'']) (inSeconds 45) w
                 in case ac of
                      Inl e \<Rightarrow>
                        let (_, w) = kataDeleteRestored env k rid w
                        in (Inl (Errorf ''wait kata-agent: %w'' [FW e]), closeFiles h files w)
                    | Inr ac \<Rightarrow>
                        let (_, w) = configureGuestNetwork (agentClient h ac) slot w
                        in (Inr rid, closeFiles h files (kh_CloseConn h ac w)))"

text \<open>The rootfs, its copy below the shared directory, and the shares; a failure removes the directories.\<close>

definition shareDirs :: "string \<Rightarrow> virtiofs_share list \<Rightarrow> virtiofs_share list" where
  "shareDirs baseID =
     map (\<lambda>s. if isKataSharedTag (vh_Tag s) \<or> vh_SharedDir s = [] then s\<lparr>vh_SharedDir := SharedDir baseID\<rparr> else s)"

definition stageLower ::
    "('i, 'w) kata_env \<Rightarrow> kata \<Rightarrow> restore_plan \<Rightarrow> 'w \<Rightarrow> (go_error + int list) \<times> 'w" where
  "stageLower env k p w =
     (let h = ke_Host env; lx = kh_Linux h; rootfs = Join [rp_Bundle p, ''rootfs''];
          (err, w) = setupImageRootfs lx (ke_Containerd env) (rp_AppImage p) (rp_Bundle p) w
      in case err of
           Some e \<Rightarrow> (Inl (Errorf ''compose rootfs for %q: %w'' [FS (rp_AppImage p), FW e]), w)
         | None \<Rightarrow>
             let (err, w) = lx_WriteFile lx (Join [rootfs, ''etc'', ''resolv.conf'']) gvisorRestoreResolvConf w in
             case err of
               Some e \<Rightarrow> (Inl (Errorf ''write guest resolv.conf: %w'' [FW e]), w)
             | None \<Rightarrow>
                 let (err, w) = ReconstructSharedDirFromImage h rootfs (rp_BaseID p) (kataCarrierID (rp_Meta p)) w in
                 case err of
                   Some e \<Rightarrow> (Inl (Errorf ''stage overlay lower: %w'' [FW e]), w)
                 | None \<Rightarrow>
                     let (planned, w) =
                           rewriteRestoreSockets h (ke_Json env) (rp_SnapDir p) (rp_VMDir p)
                             (me_VirtiofsShares (rp_Meta p)) w
                     in case planned of
                          Inl e \<Rightarrow> (Inl e, w)
                        | Inr shares \<Rightarrow> startVirtiofsDaemons h k (rp_VMDir p) (shareDirs (rp_BaseID p) shares) w)"

text \<open>The checks on a placed snapshot.\<close>

definition planRestore ::
    "('i, 'w) kata_env \<Rightarrow> kata \<Rightarrow> load_request \<Rightarrow> kata_meta \<Rightarrow> 'w \<Rightarrow> (go_error + restore_plan) \<times> 'w" where
  "planRestore env k req meta w =
     (let h = ke_Host env; lx = kh_Linux h; name = RestoredName (ld_Identity req);
          vmDir = Join [kt_StateDir k, name]; snapDir = Join [vmDir, ''snapshot''];
          (err, w) = placeSnapshotDir h (ld_SourceDir req) snapDir w
      in case err of
           Some e \<Rightarrow> let (_, w) = lx_RemoveAll lx vmDir w in (Inl (Errorf ''place snapshot: %w'' [FW e]), w)
         | None \<Rightarrow>
             let (baseID, w) = readKataBaseID h snapDir meta w;
                 appImage = firstNonEmpty [me_AppImage meta, ld_AppImage req];
                 bad = (if baseID = []
                        then Some (Errorf (''snapshot has no %s (base sandbox id) '' @ [CHR 0xE2, CHR 0x80, CHR 0x94] @
                                 '' retake it with a current Worker'') [FS kataBaseIDFile])
                        else if appImage = []
                        then Some (Errorf ''snapshot meta missing appImage (needed to rebuild the rootfs lower)'' [])
                        else if kataCarrierID meta = []
                        then Some (Errorf ''snapshot meta missing appContainerName'' []) else None)
             in case bad of
                  Some e \<Rightarrow> let (_, w) = lx_RemoveAll lx vmDir w in (Inl e, w)
                | None \<Rightarrow>
                    (Inr \<lparr>rp_Name = name, rp_VMDir = vmDir, rp_SnapDir = snapDir, rp_Bundle = kataBundleDir k name,
                          rp_BaseID = baseID, rp_AppImage = appImage, rp_Meta = meta, rp_Request = req\<rparr>, w))"

definition kataLoadSnapshot ::
    "('i, 'w) kata_env \<Rightarrow> kata \<Rightarrow> load_request \<Rightarrow> 'w \<Rightarrow> (go_error + runtime_id) \<times> 'w" where
  "kataLoadSnapshot env k req w =
     (if ld_SourceDir req = [] then (Inl (Errorf ''source dir is required'' []), w)
      else
        let h = ke_Host env; lx = kh_Linux h; (meta, w) = readKataMeta h (ke_Json env) (ld_SourceDir req) w in
        case meta of
          Inl e \<Rightarrow> (Inl (Errorf ''read snapshot meta: %w'' [FW e]), w)
        | Inr meta \<Rightarrow>
            if me_ContainerID meta = [] then (Inl (Errorf ''snapshot meta missing containerID'' []), w)
            else
              let name = RestoredName (ld_Identity req); vmDir = Join [kt_StateDir k, name];
                  w = teardownImageRootfs lx (kataBundleDir k name) w;
                  (_, w) = lx_RemoveAll lx vmDir w;
                  (err, w) = lx_MkdirAll lx vmDir w
              in case err of
                   Some e \<Rightarrow> (Inl e, w)
                 | None \<Rightarrow>
                     let (p, w) = planRestore env k req meta w in
                     case p of
                       Inl e \<Rightarrow> (Inl e, w)
                     | Inr p \<Rightarrow>
                         let (cmds, w) = stageLower env k p w in
                         case cmds of
                           Inl e \<Rightarrow> (Inl e, restoreCleanup lx (rp_Bundle p) (rp_VMDir p) w)
                         | Inr cmds \<Rightarrow> restoreWithDaemons env k p cmds w)"

end
