(* ===== verification/KataColdBoot.thy ===== *)
theory KataColdBoot
  imports KataRestore
begin

text \<open>
  Booting a virtual machine for a new sandbox (\<open>internal/snapshotter/kata_coldboot_linux.go\<close>), with the retries
  of \<open>kata_carrier_retry.go\<close> and the diagnostics of \<open>kata_network_diag_linux.go\<close>.  Texts that are only logged are
  left out, commands and calls made for them are not.
\<close>

subsection \<open>What the machine is told\<close>

definition coldBootNetID :: string where "coldBootNetID = ''_net0''"

definition coldBootAgentTimeout :: int where "coldBootAgentTimeout = inSeconds 90"

definition kataSandboxID :: "sandbox_identity \<Rightarrow> string" where
  "kataSandboxID identity = (if id_UID identity \<noteq> [] then id_UID identity else Base (id_Name identity))"

definition bootCmdline :: "string \<Rightarrow> string \<Rightarrow> string" where
  "bootCmdline goarch kparams =
     (let console = (if goarch = ''arm64'' then ''ttyAMA0'' else ''ttyS0'');
          cmdline = ''root=/dev/vda1 rootflags=data=ordered,errors=remount-ro ro rootfstype=ext4 '' @
            ''panic=1 no_timer_check noreplace-smp console='' @ console @ '',115200n8 '' @
            ''systemd.unit=kata-containers.target systemd.mask=systemd-networkd.service systemd.mask=systemd-networkd.socket''
      in if kparams \<noteq> [] then cmdline @ '' '' @ kparams else cmdline)"

text \<open>The conversions to 32 bits wrap around, and so does the size of the memory at 64 bits.\<close>

definition kataBootVMConfig ::
    "string \<Rightarrow> string \<Rightarrow> string \<Rightarrow> string \<Rightarrow> string \<Rightarrow> string \<Rightarrow> int \<Rightarrow> int \<Rightarrow> vm_config" where
  "kataBootVMConfig goarch sid kernelPath img kparams serialLog memMiB vcpus =
     \<lparr>vm_Cpus = \<lparr>cp_BootVcpus = wrap32 vcpus, cp_MaxVcpus = wrap32 vcpus\<rparr>,
      vm_Memory = \<lparr>mm_Size = wrap64 (memMiB * 1024 * 1024), mm_Shared = True\<rparr>,
      vm_Payload = \<lparr>py_Kernel = kernelPath, py_Cmdline = bootCmdline goarch kparams\<rparr>,
      vm_Disks =
        [\<lparr>dk_Path = img, dk_Readonly = True, dk_Direct = False, dk_NumQueues = wrap32 vcpus,
          dk_QueueSize = 1024, dk_ImageType = ''Raw''\<rparr>],
      vm_Fs =
        [\<lparr>fc_Tag = FsTag, fc_Socket = VirtiofsdSocketPath sid, fc_NumQueues = 1, fc_QueueSize = 1024,
          fc_PciSegment = 1\<rparr>],
      vm_Rng = Some ''/dev/urandom'',
      vm_Serial = Some \<lparr>co_Mode = ''File'', co_File = serialLog\<rparr>,
      vm_Console = None,
      vm_Vsock = Some \<lparr>vs_Cid = 3, vs_Socket = VsockSocketPath sid\<rparr>,
      vm_Platform = Some 2\<rparr>"

definition defaultKataCapabilities :: capabilities where
  "defaultKataCapabilities =
     (let caps = [''CAP_CHOWN'', ''CAP_DAC_OVERRIDE'', ''CAP_FSETID'', ''CAP_FOWNER'', ''CAP_MKNOD'',
            ''CAP_NET_RAW'', ''CAP_SETGID'', ''CAP_SETUID'', ''CAP_SETFCAP'', ''CAP_SETPCAP'',
            ''CAP_NET_BIND_SERVICE'', ''CAP_SYS_CHROOT'', ''CAP_KILL'', ''CAP_AUDIT_WRITE'']
      in \<lparr>ca_Bounding = caps, ca_Effective = caps, ca_Inheritable = [], ca_Permitted = caps, ca_Ambient = []\<rparr>)"

definition defaultKataMounts :: "oci_mount list" where
  "defaultKataMounts =
     map (\<lambda>(dest, typ, src, opts). \<lparr>om_Destination = dest, om_Type = typ, om_Source = src, om_Options = opts\<rparr>)
       [(''/proc'', ''proc'', ''proc'', [''nosuid'', ''noexec'', ''nodev'']),
        (''/dev'', ''tmpfs'', ''tmpfs'', [''nosuid'', ''strictatime'', ''mode=755'', ''size=65536k'']),
        (''/dev/pts'', ''devpts'', ''devpts'',
           [''nosuid'', ''noexec'', ''newinstance'', ''ptmxmode=0666'', ''mode=0620'', ''gid=5'']),
        (''/dev/shm'', ''tmpfs'', ''shm'', [''nosuid'', ''noexec'', ''nodev'', ''mode=1777'', ''size=65536k'']),
        (''/dev/mqueue'', ''mqueue'', ''mqueue'', [''nosuid'', ''noexec'', ''nodev'']),
        (''/sys'', ''sysfs'', ''sysfs'', [''nosuid'', ''noexec'', ''nodev'', ''ro'']),
        (''/run'', ''tmpfs'', ''tmpfs'', [''nosuid'', ''strictatime'', ''mode=755'', ''size=65536k''])]"

definition charDevice :: "string \<Rightarrow> int \<Rightarrow> int \<Rightarrow> string \<Rightarrow> oci_device" where
  "charDevice t major minor access =
     \<lparr>dc_Allow = True, dc_Type = t, dc_Major = (if major \<noteq> 0 then Some major else None),
      dc_Minor = (if minor \<ge> 0 then Some minor else None), dc_Access = access\<rparr>"

definition defaultKataResources :: oci_resources where
  "defaultKataResources =
     \<lparr>rc_Devices =
        \<lparr>dc_Allow = False, dc_Type = [], dc_Major = None, dc_Minor = None, dc_Access = ''rwm''\<rparr> #
        map (\<lambda>(major, minor). charDevice ''c'' major minor ''rwm'')
          [(1, 3), (1, 8), (1, 7), (5, 0), (1, 5), (1, 9), (5, 1), (136, -1), (5, 2)],
      rc_CPU = Some (Some 1024)\<rparr>"

text \<open>
  The version of the specification is the library's.  \<open>args ! 0\<close> of an empty command would panic; the caller
  has refused it.
\<close>

definition kataWorkloadSpec ::
    "'w kata_host \<Rightarrow> string \<Rightarrow> 'q create_request \<Rightarrow> string \<Rightarrow> 'w \<Rightarrow> oci_spec \<times> 'w" where
  "kataWorkloadSpec h specVersion req bundleRootfs w =
     (let c = re_Container req; args = cc_Command c @ cc_Args c;
          (args, w) = resolveKataArgv0 h bundleRootfs args w;
          env = [kataDefaultPATH, ''HOME=/root'', ''TERM=xterm''] @
                map (\<lambda>v. en_Name v @ ''='' @ en_Value v) (cc_Env c)
      in (\<lparr>os_Version = specVersion, os_Hostname = id_Name (re_Identity req), os_Annotations = [],
           os_Process = Some
             \<lparr>pc_Args = args, pc_Env = env, pc_Cwd = ''/'', pc_NoNewPrivileges = False, pc_User = noUser,
              pc_Capabilities = Some defaultKataCapabilities, pc_Rlimits = []\<rparr>,
           os_Root = Some (''rootfs'', False), os_Mounts = defaultKataMounts,
           os_Linux = Some
             \<lparr>ol_CgroupsPath = ''/ateomchv/'' @ kataSandboxID (re_Identity req), ol_MaskedPaths = [],
              ol_ReadonlyPaths = [],
              ol_Namespaces = map (\<lambda>t. (t, []))
                [PIDNamespace, IPCNamespace, UTSNamespace, MountNamespace, NetworkNamespace],
              ol_Resources = Some defaultKataResources\<rparr>\<rparr>, w))"

subsection \<open>Diagnostics\<close>

definition shellSingleQuote :: "string \<Rightarrow> string" where
  "shellSingleQuote s = sq @ ReplaceByte (CHR 0x27) (sq @ bs @ sq @ sq) s @ sq"

definition carrierArgv0Base :: "string list \<Rightarrow> string" where
  "carrierArgv0Base args = (case args of [] \<Rightarrow> [] | a # _ \<Rightarrow> if a = [] then [] else Base a)"

definition carrierArgv0HostPath :: "string \<Rightarrow> string list \<Rightarrow> string" where
  "carrierArgv0HostPath hostRoot args =
     (case args of
        [] \<Rightarrow> Join [hostRoot, ''(missing-argv0)'']
      | a # _ \<Rightarrow>
          if a = [] then Join [hostRoot, ''(missing-argv0)'']
          else
            let p = Clean a in
            if HasPrefix p ''/'' then Join [hostRoot, TrimPrefix p ''/''] else Join [hostRoot, p])"

definition guestCarrierSharedDebugCmd :: "string \<Rightarrow> string list \<Rightarrow> string \<Rightarrow> string" where
  "guestCarrierSharedDebugCmd carrierID args cwd =
     (let root = GuestSharedRootfs carrierID; parent = Dir root; shared = Dir parent;
          argv0 = (case args of [] \<Rightarrow> [] | a # _ \<Rightarrow> a);
          cwd = (if cwd = [] then ''/'' else cwd);
          argvUnderRoot = carrierArgv0HostPath root args;
          binUnderRoot = Join [root, ''bin'', carrierArgv0Base args];
          cwdUnderRoot = (if cwd \<noteq> ''/'' then Join [root, TrimPrefix (Clean cwd) ''/''] else root);
          q = shellSingleQuote;
          title = (\<lambda>t. ''echo '' @ sq @ ''== '' @ t @ '' =='' @ sq @ ''; '')
      in joinWith ''; ''
        [title ''guest shared containers'' @ ''ls -la '' @ q shared @ '' 2>&1'',
         title ''guest cid'' @ ''ls -la '' @ q parent @ '' 2>&1'',
         title ''guest rootfs'' @ ''ls -la '' @ q root @ '' 2>&1'',
         title ''guest rootfs/bin'' @ ''ls -la '' @ q (root @ ''/bin'') @ '' 2>&1 | head -40'',
         title ''guest bin/sleep busybox'' @ ''ls -la '' @ q (root @ ''/bin/sleep'') @ '' '' @ q (root @ ''/bin/busybox'') @ '' 2>&1'',
         title ''argv0 probes'' @ ''echo argv0='' @ q argv0 @ '' cwd='' @ q cwd,
         title ''ls root+argv0'' @ ''ls -la '' @ q argvUnderRoot @ '' 2>&1'',
         title ''ls root+bin+base'' @ ''ls -la '' @ q binUnderRoot @ '' 2>&1'',
         title ''ls absolute argv0 as guest path'' @ ''ls -la '' @ q argv0 @ '' 2>&1'',
         title ''ls root+cwd'' @ ''ls -ld '' @ q cwdUnderRoot @ '' 2>&1'',
         title ''read bin/sleep'' @ ''wc -c < '' @ q (root @ ''/bin/sleep'') @ '' 2>&1; head -c 4 '' @ q (root @ ''/bin/sleep'') @
           '' 2>&1 | od -An -tx1 2>&1'',
         title ''agent bundle paths'' @ ''ls -la '' @ q (''/run/kata-containers/'' @ carrierID) @ '' 2>&1; ls -la '' @
           q (''/run/kata-containers/'' @ carrierID @ ''/rootfs'') @ '' 2>&1'',
         title ''mount kata/virtio'' @ ''mount 2>&1 | grep -E '' @ sq @ ''kata|virtio|shared'' @ sq @ '' | head -40'',
         title ''findmnt shared'' @ ''findmnt -R '' @ q shared @ '' 2>&1 | head -40''])"

text \<open>The script that lists the host's side of a failed carrier; \<open>%q\<close> quotes its paths.\<close>

definition hostStagingScript :: "string \<Rightarrow> string \<Rightarrow> string list \<Rightarrow> string" where
  "hostStagingScript share carrierID args =
     (let hostRoot = Join [share, carrierID, ''rootfs''] in
      formatVerbs (''echo '' @ sq @ ''=== %s ==='' @ sq @ ''; ls -la %q 2>&1; echo '' @ sq @ ''=== %s/%s ==='' @ sq @
        ''; ls -laR %q 2>&1 | head -60; echo '' @ sq @ ''=== findmnt rootfs ==='' @ sq @
        ''; findmnt -T %q 2>&1; findmnt -o TARGET,SOURCE,FSTYPE,PROPAGATION -T %q 2>&1; echo '' @ sq @
        ''=== findmnt /run/kata-containers ==='' @ sq @
        ''; findmnt -o TARGET,SOURCE,FSTYPE,PROPAGATION -T /run/kata-containers 2>&1; echo '' @ sq @
        ''=== host root+argv0 ==='' @ sq @ ''; ls -la %q 2>&1; echo '' @ sq @
        ''=== host root+bin+base ==='' @ sq @ ''; ls -la %q 2>&1'')
        [share, share, share, carrierID, Join [share, carrierID], hostRoot, hostRoot,
         carrierArgv0HostPath hostRoot args, Join [hostRoot, ''bin'', carrierArgv0Base args]])"

definition specArgs :: "oci_spec \<Rightarrow> string list" where
  "specArgs spec = (case os_Process spec of None \<Rightarrow> [] | Some p \<Rightarrow> pc_Args p)"

definition specCwd :: "oci_spec \<Rightarrow> string" where
  "specCwd spec = (case os_Process spec of None \<Rightarrow> ''/'' | Some p \<Rightarrow> if pc_Cwd p \<noteq> [] then pc_Cwd p else ''/'')"

definition logCarrierStagingDiag ::
    "'w kata_host \<Rightarrow> string \<Rightarrow> string \<Rightarrow> string \<Rightarrow> string \<Rightarrow> oci_spec \<Rightarrow> 'w \<Rightarrow> 'w" where
  "logCarrierStagingDiag h vsockPath baseID carrierID vmDir spec w =
     (let args = specArgs spec;
          (_, w) = lx_CombinedOutput (kh_Linux h)
            [''sh'', ''-c'', hostStagingScript (SharedDir baseID) carrierID args] w;
          (_, w) = DebugConsoleDump h vsockPath (guestCarrierSharedDebugCmd carrierID args (specCwd spec)) w
      in snd (lx_ReadFile (kh_Linux h) (Join [vmDir, ''virtiofsd.log'']) w))"

definition guestNetworkDebugCmd :: string where
  "guestNetworkDebugCmd = ''ip addr 2>&1; echo '' @ sq @ ''== route =='' @ sq @ ''; ip route 2>&1; echo '' @ sq @
     ''== resolv =='' @ sq @ ''; cat /etc/resolv.conf 2>&1''"

definition bridgeRun :: "'w linux \<Rightarrow> string \<Rightarrow> string list \<Rightarrow> string \<times> 'w \<Rightarrow> string \<times> 'w" where
  "bridgeRun lx title args = (\<lambda>(b, w).
     let ((err, out), w) = lx_CombinedOutput lx args w in
     (b @ [CHR 0x0A] @ formatVerbs ''=== %s: %s ==='' [title, joinWith '' '' args] @ [CHR 0x0A] @ out @
        (case err of
           None \<Rightarrow> []
         | Some e \<Rightarrow> [CHR 0x0A] @ ''[err] '' @ errorText e @ [CHR 0x0A]), w))"

definition writeKataBridgeDiag :: "'w linux \<Rightarrow> string \<Rightarrow> int \<Rightarrow> 'w \<Rightarrow> go_error option \<times> 'w" where
  "writeKataBridgeDiag lx path slotID w =
     (case guestNetForSlot slotID of
        Inl e \<Rightarrow> (Some e, w)
      | Inr n \<Rightarrow>
          let head = formatVerbs ''slot=%d guest_ip=%s/%s gw=%s gw_mac=%s''
                [Itoa slotID, gn_IP n, gn_Mask n, gn_Gateway n, gn_GatewayMAC n] @ [CHR 0x0A];
              (b, w) = foldl (\<lambda>s (title, args). bridgeRun lx title args s) (head, w)
                [(''ip_forward'', [''cat'', ''/proc/sys/net/ipv4/ip_forward'']),
                 (''bridge_link'', [''ip'', ''link'', ''show'', guestBridge]),
                 (''bridge_addr'', [''ip'', ''addr'', ''show'', guestBridge]),
                 (''host_route'', [''ip'', ''route'']),
                 (''iptables_forward'', [''iptables'', ''-S'', ''FORWARD'']),
                 (''iptables_nat'', [''iptables'', ''-t'', ''nat'', ''-S'', ''POSTROUTING''])]
          in lx_WriteFile lx path b w)"

definition logKataGuestNetworkDiag :: "'w kata_host \<Rightarrow> string \<Rightarrow> string \<Rightarrow> int \<Rightarrow> 'w \<Rightarrow> 'w" where
  "logKataGuestNetworkDiag h vsockPath diagPath slotID w =
     (let (_, w) = DebugConsoleDump h vsockPath guestNetworkDebugCmd w
      in snd (writeKataBridgeDiag (kh_Linux h) diagPath slotID w))"

definition logKataBootDiagnostics :: "'w linux \<Rightarrow> string list \<Rightarrow> 'w \<Rightarrow> 'w" where
  "logKataBootDiagnostics lx paths w = foldl (\<lambda>w path. snd (lx_ReadFile lx path w)) w paths"

subsection \<open>Retrying the carrier\<close>

text \<open>\<open>strings.ToLower\<close> on ASCII.\<close>

definition lowerChar :: "char \<Rightarrow> char" where
  "lowerChar c = (let n = of_char c :: nat in if 65 \<le> n \<and> n \<le> 90 then char_of (n + 32) else c)"

definition kataErrLooksLikeENOENT :: "'w kata_host \<Rightarrow> go_error option \<Rightarrow> bool" where
  "kataErrLooksLikeENOENT h err =
     (case err of
        None \<Rightarrow> False
      | Some e \<Rightarrow>
          wrapsNotExist h e \<or>
          (let s = map lowerChar (errorText e) in Contains s ''enoent'' \<or> Contains s ''no such file or directory''))"

definition createCarrierAttempts :: nat where "createCarrierAttempts = 15"

definition createCarrierRetryGap :: int where "createCarrierRetryGap = milliseconds 200"

text \<open>\<open>left\<close> attempts are left; the first failure is dumped.\<close>

fun carrierAttempts ::
    "'w kata_host \<Rightarrow> int \<Rightarrow> string \<Rightarrow> string \<Rightarrow> oci_spec \<Rightarrow> nat \<Rightarrow> 'w \<Rightarrow> go_error option \<times> 'w" where
  "carrierAttempts h ac vsockPath carrierID spec 0 w = (None, w)"
| "carrierAttempts h ac vsockPath carrierID spec (Suc left) w =
     (let (err, w) = CreateCarrier h ac carrierID spec w in
      case err of
        None \<Rightarrow> (None, w)
      | Some e \<Rightarrow>
          if \<not> kataErrLooksLikeENOENT h (Some e) then (Some e, w)
          else
            let w = (if Suc left = createCarrierAttempts
                     then snd (DebugConsoleDump h vsockPath
                            (guestCarrierSharedDebugCmd carrierID (specArgs spec) (specCwd spec)) w)
                     else w)
            in if left = 0 then (Some e, w)
               else
                 let (ended, w) = kh_Wait h createCarrierRetryGap w in
                 case ended of
                   Some c \<Rightarrow>
                     (Some (Errorf ''create carrier %q: %w (last: %v)'' [FS carrierID, FW c, FV e]), w)
                 | None \<Rightarrow> carrierAttempts h ac vsockPath carrierID spec left w)"

definition createCarrierWithRetry ::
    "'w kata_host \<Rightarrow> int \<Rightarrow> string \<Rightarrow> string \<Rightarrow> oci_spec \<Rightarrow> 'w \<Rightarrow> go_error option \<times> 'w" where
  "createCarrierWithRetry h ac vsockPath carrierID spec =
     carrierAttempts h ac vsockPath carrierID spec createCarrierAttempts"

subsection \<open>The boot\<close>

text \<open>What a boot knows before it starts a process.\<close>

record 'q boot_plan =
  bp_Request :: "'q create_request"
  bp_Name :: string
  bp_BaseID :: string
  bp_Carrier :: string
  bp_VMDir :: string
  bp_Bundle :: string
  bp_SpecVersion :: string

definition bootedInstance :: "'q boot_plan \<Rightarrow> int \<Rightarrow> kata_instance" where
  "bootedInstance p pid =
     (let identity = re_Identity (bp_Request p) in
      \<lparr>ki_Name = bp_Name p, ki_Namespace = id_Namespace identity, ki_SandboxName = id_Name identity,
       ki_UID = id_UID identity, ki_SlotID = re_SlotID (bp_Request p), ki_VMDir = bp_VMDir p,
       ki_APISocket = Join [bp_VMDir p, ''clh-api.sock''], ki_VsockPath = VsockSocketPath (bp_BaseID p),
       ki_SnapshotDir = [], ki_ContainerID = kataOverlayWorkloadID (bp_Carrier p), ki_BaseID = bp_BaseID p,
       ki_AppImage = cc_Image (re_Container (bp_Request p)), ki_BundleDir = bp_Bundle p, ki_PID = pid\<rparr>)"

text \<open>With the agent: the sandbox, its network, the carrier, the workload, and the record.\<close>

definition bootContainers ::
    "('i, 'w) kata_env \<Rightarrow> kata \<Rightarrow> 'q boot_plan \<Rightarrow> int \<Rightarrow> int \<Rightarrow> 'w \<Rightarrow> go_error option \<times> 'w" where
  "bootContainers env k p pid ac w =
     (let h = ke_Host env; lx = kh_Linux h; vsock = VsockSocketPath (bp_BaseID p);
          slot = re_SlotID (bp_Request p); diag = Join [bp_VMDir p, ''net.diag.txt''];
          (err, w) = CreateSandboxForActor h ac (bp_BaseID p) (bp_Carrier p) False w
      in if err \<noteq> None then (err, w)
         else
           let (err, w) = configureGuestNetwork (overlayClient h ac) slot w in
           case err of
             Some e \<Rightarrow>
               (Some (Errorf ''configure guest network: %w'' [FW e]), logKataGuestNetworkDiag h vsock diag slot w)
           | None \<Rightarrow>
               let (_, w) = writeKataBridgeDiag lx diag slot w;
                   (spec, w) = kataWorkloadSpec h (bp_SpecVersion p) (bp_Request p) (Join [bp_Bundle p, ''rootfs'']) w;
                   (err, w) = createCarrierWithRetry h ac vsock (bp_Carrier p) spec w
               in if err \<noteq> None
                  then (err, logCarrierStagingDiag h vsock (bp_BaseID p) (bp_Carrier p) (bp_VMDir p) spec w)
                  else
                    let (err, w) = StartOverlayWorkload h ac (bp_Carrier p) (kataOverlayWorkloadID (bp_Carrier p))
                          (OverlayUpperBase (bp_Carrier p)) spec w
                    in if err \<noteq> None then (err, w) else saveInstance h (ke_Json env) k (bootedInstance p pid) w)"

text \<open>With the machine booted: its socket and its agent.\<close>

definition bootAgent ::
    "('i, 'w) kata_env \<Rightarrow> kata \<Rightarrow> 'q boot_plan \<Rightarrow> int \<Rightarrow> string \<Rightarrow> 'w \<Rightarrow> go_error option \<times> 'w" where
  "bootAgent env k p pid serialLog w =
     (let h = ke_Host env; vsock = VsockSocketPath (bp_BaseID p);
          diags = [serialLog, Join [bp_VMDir p, ''virtiofsd.log'']];
          (err, w) = waitSocketReady h vsock (inSeconds 30) w
      in case err of
           Some e \<Rightarrow>
             (Some (Errorf ''kata-agent vsock socket: %w'' [FW e]), logKataBootDiagnostics (kh_Linux h) diags w)
         | None \<Rightarrow>
             let (ac, w) = dialOverlayAgentRetry h vsock coldBootAgentTimeout w in
             case ac of
               Inl e \<Rightarrow> (Some (Errorf ''dial kata-agent: %w'' [FW e]), logKataBootDiagnostics (kh_Linux h) diags w)
             | Inr ac \<Rightarrow> let (err, w) = bootContainers env k p pid ac w in (err, kh_CloseConn h ac w))"

text \<open>With the VMM running: the machine's configuration, its network and the boot; the taps are closed in any case.\<close>

definition bootMachine ::
    "('i, 'w) kata_env \<Rightarrow> kata \<Rightarrow> 'q boot_plan \<Rightarrow> kata_config \<Rightarrow> int \<Rightarrow> 'w \<Rightarrow> go_error option \<times> 'w" where
  "bootMachine env k p cfg pid w =
     (let h = ke_Host env; lx = kh_Linux h; sock = Join [bp_VMDir p, ''clh-api.sock''];
          serialLog = Join [bp_VMDir p, ''serial.log'']; (kernelPath, img, _) = kataAssetPaths lx;
          (err, w) = client_CreateVM h sock
            (kataBootVMConfig (kh_Goarch h) (bp_BaseID p) kernelPath img (WithDebugConsole (kc_KernelParams cfg))
               serialLog (kc_MemoryMiB cfg) (kc_VCPUs cfg)) w
      in if err \<noteq> None then (err, w)
         else case guestNetForSlot (re_SlotID (bp_Request p)) of
           Inl e \<Rightarrow> (Some e, w)
         | Inr netCfg \<Rightarrow>
             let (taps, w) = createRestoreTaps h (re_SlotID (bp_Request p))
                   [\<lparr>nd_ID = coldBootNetID, nd_QueuePairs = 1\<rparr>] w
             in case taps of
                  Inl e \<Rightarrow> (Some e, w)
                | Inr (nets, files) \<Rightarrow>
                    let fds = tn_fds (nets ! 0);
                        (err, w) = AddNetWithFDs h (ke_Json env) sock (gn_MAC netCfg) (2 * int (length fds)) fds w
                    in if err \<noteq> None then (err, closeFiles h files w)
                       else
                         let (err, w) = client_BootVM h sock w in
                         if err \<noteq> None then (err, closeFiles h files w)
                         else
                           let (err, w) = bootAgent env k p pid serialLog w in (err, closeFiles h files w))"

text \<open>With virtiofsd running: the VMM, which a failure kills and waits for.\<close>

definition bootVMM ::
    "('i, 'w) kata_env \<Rightarrow> kata \<Rightarrow> 'q boot_plan \<Rightarrow> 'w \<Rightarrow> go_error option \<times> 'w" where
  "bootVMM env k p w =
     (let h = ke_Host env; lx = kh_Linux h; js = ke_Json env; (_, _, configPath) = kataAssetPaths lx;
          (got, w) = lx_ReadFile lx configPath w;
          cfgBytes = (case got of Inl _ \<Rightarrow> [] | Inr b \<Rightarrow> b)
      in case ParseConfig js cfgBytes kataDefaultMemoryMiB kataDefaultVCPUs of
           Inl e \<Rightarrow> (Some e, w)
         | Inr cfg \<Rightarrow>
             let logPath = Join [bp_VMDir p, ''cloud-hypervisor.log'']; (err, w) = lx_OpenLog lx logPath w in
             case err of
               Some e \<Rightarrow> (Some (Errorf ''open cloud-hypervisor log: %w'' [FW e]), w)
             | None \<Rightarrow>
                 let (pid, w) = LaunchVMM h js (kt_CloudHypervisorPath k) (Join [bp_VMDir p, ''clh-api.sock'']) logPath w in
                 case pid of
                   Inl e \<Rightarrow> (Some (Errorf ''launch cloud-hypervisor: %w'' [FW e]), w)
                 | Inr pid \<Rightarrow>
                     let (err, w) = bootMachine env k p cfg pid w in
                     if err \<noteq> None then (err, kh_Reap h pid (snd (kh_Kill h pid w))) else (None, w))"

text \<open>The rootfs, the lower directory and virtiofsd, which a later failure kills.\<close>

definition bootStaged ::
    "('i, 'w) kata_env \<Rightarrow> kata \<Rightarrow> 'q boot_plan \<Rightarrow> 'w \<Rightarrow> go_error option \<times> 'w" where
  "bootStaged env k p w =
     (let h = ke_Host env; lx = kh_Linux h; rootfs = Join [bp_Bundle p, ''rootfs''];
          ref = cc_Image (re_Container (bp_Request p));
          (err, w) = setupImageRootfs lx (ke_Containerd env) ref (bp_Bundle p) w
      in case err of
           Some e \<Rightarrow> (Some (Errorf ''compose rootfs for %q: %w'' [FS ref, FW e]), w)
         | None \<Rightarrow>
             let (err, w) = lx_WriteFile lx (Join [rootfs, ''etc'', ''resolv.conf'']) gvisorRestoreResolvConf w in
             case err of
               Some e \<Rightarrow> (Some (Errorf ''write guest resolv.conf: %w'' [FW e]), w)
             | None \<Rightarrow>
                 let (err, w) = ReconstructSharedDirFromImage h rootfs (bp_BaseID p) (bp_Carrier p) w in
                 case err of
                   Some e \<Rightarrow> (Some (Errorf ''stage overlay lower: %w'' [FW e]), w)
                 | None \<Rightarrow>
                     let logPath = Join [bp_VMDir p, ''virtiofsd.log'']; (err, w) = lx_OpenLog lx logPath w in
                     case err of
                       Some e \<Rightarrow> (Some (Errorf ''open virtiofsd log: %w'' [FW e]), w)
                     | None \<Rightarrow>
                         let (vfsd, w) = StartVirtiofsd h
                               \<lparr>vo_Binary = kt_VirtiofsdPath k, vo_SocketPath = VirtiofsdSocketPath (bp_BaseID p),
                                vo_SharedDir = SharedDir (bp_BaseID p), vo_Cache = [], vo_Log = logPath\<rparr> w
                         in case vfsd of
                              Inl e \<Rightarrow> (Some (Errorf ''start virtiofsd: %w'' [FW e]), w)
                            | Inr vfsd \<Rightarrow>
                                let (err, w) = bootVMM env k p w in
                                if err \<noteq> None then (err, killCmds h [vfsd] w) else (None, w))"

definition bootPlan :: "kata \<Rightarrow> string \<Rightarrow> 'q create_request \<Rightarrow> 'q boot_plan" where
  "bootPlan k specVersion req =
     (let name = RestoredName (re_Identity req); baseID = kataSandboxID (re_Identity req) in
      \<lparr>bp_Request = req, bp_Name = name, bp_BaseID = baseID, bp_Carrier = id_Name (re_Identity req),
       bp_VMDir = VMDir baseID, bp_Bundle = kataBundleDir k name, bp_SpecVersion = specVersion\<rparr>)"

definition ColdBoot ::
    "('i, 'w) kata_env \<Rightarrow> kata \<Rightarrow> string \<Rightarrow> 'q create_request \<Rightarrow> 'w \<Rightarrow> (go_error + runtime_id) \<times> 'w" where
  "ColdBoot env k specVersion req w =
     (if cc_Image (re_Container req) = [] then (Inl (Errorf ''container image is required'' []), w)
      else if cc_Command (re_Container req) = [] \<and> cc_Args (re_Container req) = []
      then (Inl (Errorf ''container command is required (image entrypoints are not resolved yet)'' []), w)
      else
        let h = ke_Host env; lx = kh_Linux h; p = bootPlan k specVersion req;
            w = CleanupSandboxState h (bp_BaseID p) w;
            (_, w) = lx_Remove lx (instancePath k (bp_Name p)) w;
            (err, w) = lx_MkdirAll lx (bp_VMDir p) w
        in case err of
             Some e \<Rightarrow> (Inl (Errorf ''create vm dir: %w'' [FW e]), w)
           | None \<Rightarrow>
               let (err, w) = bootStaged env k p w in
               case err of
                 None \<Rightarrow> (Inr (kataIDPrefix @ bp_Name p), w)
               | Some e \<Rightarrow>
                   let w = CleanupSandboxState h (bp_BaseID p) w; w = teardownImageRootfs lx (bp_Bundle p) w
                   in (Inl e, snd (lx_RemoveAll lx (bp_Bundle p) w)))"

end
