(* ===== verification/KataRuntime.thy ===== *)
theory KataRuntime
  imports KataColdBoot
begin

text \<open>
  The Worker's runtime for virtual machines (\<open>internal/runtime/kata\<close>): an adapter of the Kata snapshotter to the
  \<open>runtime_iface\<close> of the Slot manager; files go over commands in the guest.
\<close>

definition processAlive :: "'w kata_host \<Rightarrow> int \<Rightarrow> 'w \<Rightarrow> bool \<times> 'w" where
  "processAlive h pid w = (if pid \<le> 0 then (False, w) else kh_Alive h pid w)"

definition kataCreate ::
    "('i, 'w) kata_env \<Rightarrow> kata \<Rightarrow> string \<Rightarrow> 'q create_request \<Rightarrow> 'w \<Rightarrow> (go_error + runtime_id) \<times> 'w" where
  "kataCreate = ColdBoot"

definition kataStart :: "runtime_id \<Rightarrow> 'w \<Rightarrow> go_error option \<times> 'w" where
  "kataStart rid w = (None, w)"

definition kataStop :: "('i, 'w) kata_env \<Rightarrow> kata \<Rightarrow> runtime_id \<Rightarrow> 'w \<Rightarrow> go_error option \<times> 'w" where
  "kataStop = kataDeleteRestored"

definition kataDelete :: "('i, 'w) kata_env \<Rightarrow> kata \<Rightarrow> runtime_id \<Rightarrow> 'w \<Rightarrow> go_error option \<times> 'w" where
  "kataDelete = kataDeleteRestored"

definition kataStatus :: "('i, 'w) kata_env \<Rightarrow> kata \<Rightarrow> runtime_id \<Rightarrow> 'w \<Rightarrow> (go_error + runtime_status) \<times> 'w" where
  "kataStatus env k rid w =
     (let h = ke_Host env; (inst, w) = kata_Instance h (ke_Json env) k rid w in
      case inst of
        Inl e \<Rightarrow> (Inl e, w)
      | Inr i \<Rightarrow>
          let (alive, w) = processAlive h (iv_PID i) w in
          (Inr (if alive then \<lparr>rs_State = RtRunning, rs_ExitCode = 0, rs_Message = []\<rparr>
                else \<lparr>rs_State = RtStopped, rs_ExitCode = 0,
                      rs_Message = formatVerbs ''cloud-hypervisor (pid %d) is gone'' [Itoa (iv_PID i)]\<rparr>), w))"

fun kataInfos :: "'w kata_host \<Rightarrow> instance_view list \<Rightarrow> 'w \<Rightarrow> runtime_info list \<times> 'w" where
  "kataInfos h [] w = ([], w)"
| "kataInfos h (i # is) w =
     (let (alive, w) = processAlive h (iv_PID i) w; (rest, w) = kataInfos h is w in
      (\<lparr>ri_ID = iv_ID i, ri_Identity = iv_Identity i, ri_SlotID = iv_SlotID i,
        ri_Status = \<lparr>rs_State = (if alive then RtRunning else RtStopped), rs_ExitCode = 0, rs_Message = []\<rparr>\<rparr> # rest, w))"

definition kataList :: "('i, 'w) kata_env \<Rightarrow> kata \<Rightarrow> 'w \<Rightarrow> (go_error + runtime_info list) \<times> 'w" where
  "kataList env k w =
     (let h = ke_Host env; (is, w) = kata_Instances h (ke_Json env) k w in
      case is of
        Inl e \<Rightarrow> (Inl (Errorf ''list kata instances: %w'' [FW e]), w)
      | Inr is \<Rightarrow> let (infos, w) = kataInfos h is w in (Inr infos, w))"

definition kataExec ::
    "('i, 'w) kata_env \<Rightarrow> kata \<Rightarrow> runtime_id \<Rightarrow> exec_request \<Rightarrow> 'w \<Rightarrow> (go_error + exec_result) \<times> 'w" where
  "kataExec env k rid req w =
     (if eq_Command req = [] then (Inl (Errorf ''exec command is required'' []), w)
      else kataExecRestored env k rid req w)"

definition kataPrimaryContainerID ::
    "('i, 'w) kata_env \<Rightarrow> kata \<Rightarrow> runtime_id \<Rightarrow> 'w \<Rightarrow> (go_error + string) \<times> 'w" where
  "kataPrimaryContainerID env k rid w =
     (let (inst, w) = kata_Instance (ke_Host env) (ke_Json env) k rid w in
      (case inst of Inl e \<Rightarrow> Inl e | Inr i \<Rightarrow> Inr (iv_ContainerID i), w))"

text \<open>The runtime the Slot manager gets.\<close>

definition kataRuntime :: "('i, 'w) kata_env \<Rightarrow> kata \<Rightarrow> string \<Rightarrow> ('q, 'w) runtime_iface" where
  "kataRuntime env k specVersion =
     \<lparr>rt_Create = kataCreate env k specVersion,
      rt_Start = kataStart,
      rt_Stop = kataStop env k,
      rt_Delete = kataDelete env k,
      rt_Status = kataStatus env k,
      rt_List = kataList env k,
      rt_Exec = kataExec env k,
      rt_ReadFile = (\<lambda>rid. ReadFileVia (kataExec env k rid)),
      rt_WriteFile = (\<lambda>rid. WriteFileVia (kataExec env k rid)),
      rt_ListFiles = (\<lambda>rid. ListFilesVia (kataExec env k rid)),
      rt_FileExists = (\<lambda>rid. FileExistsVia (kataExec env k rid)),
      rt_PrimaryContainerID = Some (kataPrimaryContainerID env k)\<rparr>"

text \<open>
  The snapshotter the Worker's registry holds for Kata; a save ends the machine.  A save in which the merge of the
  memory images never ends has no value, and the field is unspecified there.
\<close>

definition kataSnapshotter :: "('i, 'w) kata_env \<Rightarrow> kata \<Rightarrow> 'w snapshotter" where
  "kataSnapshotter env k =
     \<lparr>sh_FormatVersion = kataFormatVersion,
      sh_SaveSnapshot = (\<lambda>req w. the (kataSaveSnapshot env k req w)),
      sh_LoadSnapshot = kataLoadSnapshot env k,
      sh_DeleteRestored = kataDeleteRestored env k,
      sh_ExecRestored = kataExecRestored env k,
      sh_TearsDownOnSave = Some True\<rparr>"

end
