(* ===== verification/KataTrace.thy ===== *)
theory KataTrace
  imports KataRuntime GvisorTrace
begin

text \<open>
  Hosts of virtual machines with a trace: every started and every killed process is noted, and what runs is
  what was started and not killed since.  The lemmas say which operations start nothing, which only kill, and
  which start a process that they hand to their caller or kill again.
\<close>

subsection \<open>Tracing\<close>

definition starting :: "('w \<Rightarrow> (go_error + int) \<times> 'w) \<Rightarrow> 'w traced \<Rightarrow> (go_error + int) \<times> 'w traced" where
  "starting f s =
     (let (r, w) = f (tr_World s) in
      (r, s\<lparr>tr_World := w,
            tr_Runs := tr_Runs s @ (case r of Inl _ \<Rightarrow> [] | Inr pid \<Rightarrow> [(None, [''start'', Itoa pid])])\<rparr>))"

definition killing :: "int \<Rightarrow> ('w \<Rightarrow> 'r \<times> 'w) \<Rightarrow> 'w traced \<Rightarrow> 'r \<times> 'w traced" where
  "killing pid = noting [''kill'', Itoa pid]"

definition tracedKata :: "'w kata_host \<Rightarrow> 'w traced kata_host" where
  "tracedKata h =
     \<lparr>kh_Linux = tracedLinux (kh_Linux h),
      kh_Http = (\<lambda>sock m p b. quietly (kh_Http h sock m p b)),
      kh_DialUnix = (\<lambda>p. quietly (kh_DialUnix h p)),
      kh_Send = (\<lambda>c b fds. quietly (kh_Send h c b fds)),
      kh_ReadLine = (\<lambda>c. quietly (kh_ReadLine h c)),
      kh_CloseConn = (\<lambda>c s. s\<lparr>tr_World := kh_CloseConn h c (tr_World s)\<rparr>),
      kh_Call = (\<lambda>c r. quietly (kh_Call h c r)),
      kh_Start = (\<lambda>args log. starting (kh_Start h args log)),
      kh_Kill = (\<lambda>pid. killing pid (kh_Kill h pid)),
      kh_Reap = (\<lambda>pid s. s\<lparr>tr_World := kh_Reap h pid (tr_World s)\<rparr>),
      kh_Alive = (\<lambda>pid. quietly (kh_Alive h pid)),
      kh_Getpid = kh_Getpid h,
      kh_OpenTun = quietly (kh_OpenTun h),
      kh_TunSetIff = (\<lambda>fd n f. quietly (kh_TunSetIff h fd n f)),
      kh_IsDir = (\<lambda>p. quietly (kh_IsDir h p)),
      kh_Walk = (\<lambda>p. quietly (kh_Walk h p)),
      kh_CopyFile = (\<lambda>p q. quietly (kh_CopyFile h p q)),
      kh_MountSelf = (\<lambda>p. quietly (kh_MountSelf h p)),
      kh_MountShared = (\<lambda>p. quietly (kh_MountShared h p)),
      kh_Polls = (\<lambda>d i s. kh_Polls h d i (tr_World s)),
      kh_Wait = (\<lambda>d. quietly (kh_Wait h d)),
      kh_Reads = (\<lambda>s. kh_Reads h (tr_World s)),
      kh_Now = quietly (kh_Now h),
      kh_NewUUID = quietly (kh_NewUUID h),
      kh_IsNotExist = kh_IsNotExist h,
      kh_Goarch = kh_Goarch h\<rparr>"

text \<open>Of a host, containerd, the JSON library, and files with holes, which boots and restores do not use.\<close>

definition tracedKataEnv ::
    "'w kata_host \<Rightarrow> ('i, 'w) containerd \<Rightarrow> 'w traced sparse_host \<Rightarrow> kata_json \<Rightarrow> ('i, 'w traced) kata_env" where
  "tracedKataEnv h ci sp js =
     \<lparr>ke_Host = tracedKata h, ke_Containerd = tracedContainerd ci, ke_Sparse = sp, ke_Json = js\<rparr>"

fun runningAfter :: "(string option \<times> string list) list \<Rightarrow> string set \<Rightarrow> string set" where
  "runningAfter [] P = P"
| "runningAfter ((ns, args) # rs) P =
     runningAfter rs
       (case args of
          [a, p] \<Rightarrow> if a = ''start'' then insert p P else if a = ''kill'' then P - {p} else P
        | _ \<Rightarrow> P)"

definition running :: "'w traced \<Rightarrow> string set" where
  "running s = runningAfter (tr_Runs s) {}"

lemma runningAfter_append: "runningAfter (rs @ qs) P = runningAfter qs (runningAfter rs P)"
  by (induction rs P rule: runningAfter.induct) auto

lemma note_running: "note_of t = note_of s \<Longrightarrow> running s \<subseteq> R \<Longrightarrow> running t \<subseteq> R"
  by (simp add: running_def note_of_def)

lemma traced_kata_fields [simp]:
  "ke_Host (tracedKataEnv h ci sp js) = tracedKata h"
  "ke_Containerd (tracedKataEnv h ci sp js) = tracedContainerd ci"
  "ke_Json (tracedKataEnv h ci sp js) = js"
  "kh_Linux (tracedKata h) = tracedLinux (kh_Linux h)"
  "kh_IsNotExist (tracedKata h) = kh_IsNotExist h"
  "kh_Getpid (tracedKata h) = kh_Getpid h"
  by (simp_all add: tracedKataEnv_def tracedKata_def)

lemma kata_notes [noted]:
  "note_of (snd (kh_Http (tracedKata h) sock m p body s)) = note_of s"
  "note_of (snd (kh_DialUnix (tracedKata h) p s)) = note_of s"
  "note_of (snd (kh_Send (tracedKata h) c b fds s)) = note_of s"
  "note_of (snd (kh_ReadLine (tracedKata h) c s)) = note_of s"
  "note_of (kh_CloseConn (tracedKata h) c s) = note_of s"
  "note_of (snd (kh_Call (tracedKata h) c r s)) = note_of s"
  "note_of (kh_Reap (tracedKata h) pid s) = note_of s"
  "note_of (snd (kh_OpenTun (tracedKata h) s)) = note_of s"
  "note_of (snd (kh_TunSetIff (tracedKata h) fd n f s)) = note_of s"
  "note_of (snd (kh_IsDir (tracedKata h) p s)) = note_of s"
  "note_of (snd (kh_Walk (tracedKata h) p s)) = note_of s"
  "note_of (snd (kh_CopyFile (tracedKata h) p q s)) = note_of s"
  "note_of (snd (kh_Wait (tracedKata h) d s)) = note_of s"
  "note_of (snd (kh_NewUUID (tracedKata h) s)) = note_of s"
  by (simp_all add: tracedKata_def noted)

subsection \<open>Quiet operations\<close>

lemma polling_note [noted]:
  "(\<And>s. note_of (snd (attempt s)) = note_of s) \<Longrightarrow>
   note_of (snd (polling (tracedKata h) i attempt x e n s)) = note_of s"
proof (induction n arbitrary: s)
  case 0
  then show ?case by (subst polling.simps) (simp add: split_beta split: option.split)
next
  case (Suc n)
  then show ?case by (subst polling.simps) (simp add: split_beta noted split: option.split)
qed

lemma chGetJSON_note [noted]: "note_of (snd (chGetJSON (tracedKata h) dec sock p s)) = note_of s"
  unfolding chGetJSON_def by (rule keptD, intro kept_intros) (simp_all add: noted kept_def)

lemma chDo_note [noted]: "note_of (snd (chDo (tracedKata h) sock m p b s)) = note_of s"
  unfolding chDo_def by (rule keptD, intro kept_intros) (simp_all add: noted kept_def)

lemma chResume_note [noted]: "note_of (snd (chResume (tracedKata h) sock s)) = note_of s"
  by (simp add: chResume_def noted)

lemma chShutdown_note [noted]: "note_of (snd (chShutdown (tracedKata h) sock s)) = note_of s"
  by (simp add: chShutdown_def noted split_beta)

lemma chWaitReady_note [noted]: "note_of (snd (chWaitReady (tracedKata h) sock d s)) = note_of s"
  unfolding chWaitReady_def by (intro noted) (simp add: noted split_beta)

lemma bufioReadStatus_note [noted]: "note_of (snd (bufioReadStatus (tracedKata h) c s)) = note_of s"
  unfolding bufioReadStatus_def by (rule keptD, intro kept_intros) (simp_all add: noted kept_def)

lemma restoreVMWithNetworkFDs_note [noted]:
  "note_of (snd (restoreVMWithNetworkFDs (tracedKata h) js sock d nets m s)) = note_of s"
  unfolding restoreVMWithNetworkFDs_def by (rule keptD, intro kept_intros) (simp_all add: noted kept_def)

lemma apiPut_note [noted]: "note_of (snd (apiPut (tracedKata h) sock p b s)) = note_of s"
  unfolding apiPut_def by (rule keptD, intro kept_intros) (simp_all add: noted kept_def)

lemma apiGetJSON_note [noted]: "note_of (snd (apiGetJSON (tracedKata h) dec sock p s)) = note_of s"
  unfolding apiGetJSON_def by (rule keptD, intro kept_intros) (simp_all add: noted kept_def)

lemma client_notes [noted]:
  "note_of (snd (client_CreateVM (tracedKata h) sock cfg s)) = note_of s"
  "note_of (snd (client_BootVM (tracedKata h) sock s)) = note_of s"
  "note_of (snd (client_Ping (tracedKata h) js sock s)) = note_of s"
  by (simp_all add: client_CreateVM_def client_BootVM_def client_Ping_def noted split_beta)

lemma client_WaitReady_note [noted]: "note_of (snd (client_WaitReady (tracedKata h) js sock d s)) = note_of s"
  unfolding client_WaitReady_def by (intro noted) (simp add: noted split_beta)

lemma putWithFDs_note [noted]:
  "note_of (snd (putWithFDs (tracedKata h) sock name body fds s)) = note_of s"
  unfolding putWithFDs_def by (rule keptD, intro kept_intros) (simp_all add: noted kept_def)

lemma AddNetWithFDs_note [noted]:
  "note_of (snd (AddNetWithFDs (tracedKata h) js sock mac n fds s)) = note_of s"
  unfolding AddNetWithFDs_def by (rule keptD, intro kept_intros) (simp_all add: noted kept_def)


lemma handshake_note [noted]: "note_of (snd (handshake (tracedKata h) d p s)) = note_of s"
  unfolding handshake_def by (rule keptD, intro kept_intros) (simp_all add: noted kept_def)

lemma dialLoop_note [noted]:
  "(\<And>s. note_of (snd (dial s)) = note_of s) \<Longrightarrow>
   note_of (snd (dialLoop (tracedKata h) dial gone n s)) = note_of s"
proof (induction n arbitrary: s)
  case 0
  then show ?case by (subst dialLoop.simps) (simp add: split_beta split: sum.split)
next
  case (Suc n)
  then show ?case by (subst dialLoop.simps) (simp add: split_beta Let_def noted split: sum.split option.split)
qed

lemma dialRetry_notes [noted]:
  "note_of (snd (dialAgentRetry (tracedKata h) p d s)) = note_of s"
  "note_of (snd (dialOverlayAgentRetry (tracedKata h) p d s)) = note_of s"
  by (simp_all add: dialAgentRetry_def dialOverlayAgentRetry_def dialAgent_def DialAgent_def noted)

lemma callAgent_note [noted]: "note_of (snd (callAgent (tracedKata h) ac req s)) = note_of s"
  by (simp add: callAgent_def noted split_beta)

lemma agentCall_note [noted]: "note_of (snd (agentCall (tracedKata h) name ac req s)) = note_of s"
  by (simp add: agentCall_def noted split_beta)

lemma agentCalls_note [noted]:
  "note_of (snd (agent_CreateContainer (tracedKata h) ac cid e st spec s)) = note_of s"
  "note_of (snd (agent_StartContainer (tracedKata h) ac cid s)) = note_of s"
  "note_of (snd (agent_CreateSandbox (tracedKata h) ac host sid st s)) = note_of s"
  by (simp_all add: agent_CreateContainer_def agent_StartContainer_def agent_CreateSandbox_def noted)

lemma configureGuestNetwork_note [noted]:
  "note_of (snd (configureGuestNetwork (agentClient (tracedKata h) ac) slot s)) = note_of s"
  "note_of (snd (configureGuestNetwork (overlayClient (tracedKata h) ac) slot s)) = note_of s"
  unfolding configureGuestNetwork_def agentClient_def overlayClient_def
  by (rule keptD, intro kept_intros; simp add: noted kept_def)+

lemma consoleLines_note [noted]: "note_of (snd (consoleLines (tracedKata h) c n s)) = note_of s"
  by (induction n arbitrary: s) (auto simp: noted split_beta Let_def)

lemma DebugConsoleDump_note [noted]: "note_of (snd (DebugConsoleDump (tracedKata h) p cmd s)) = note_of s"
  unfolding DebugConsoleDump_def by (rule keptD, intro kept_intros) (simp_all add: noted kept_def)

lemma containers_notes [noted]:
  "note_of (snd (CreateSandboxForActor (tracedKata h) ac sid host b s)) = note_of s"
  "note_of (snd (CreateCarrier (tracedKata h) ac cid spec s)) = note_of s"
  by (simp_all add: CreateSandboxForActor_def CreateCarrier_def noted split_beta Let_def split: option.split)

lemma StartOverlayWorkload_note [noted]:
  "note_of (snd (StartOverlayWorkload (tracedKata h) ac cid wid up spec s)) = note_of s"
  unfolding StartOverlayWorkload_def by (rule keptD, intro kept_intros) (simp_all add: noted kept_def)

lemma carrierAttempts_note [noted]:
  "note_of (snd (carrierAttempts (tracedKata h) ac p cid spec n s)) = note_of s"
  by (induction n arbitrary: s) (auto simp: noted split_beta Let_def split: option.split)

lemma createCarrierWithRetry_note [noted]:
  "note_of (snd (createCarrierWithRetry (tracedKata h) ac p cid spec s)) = note_of s"
  by (simp add: createCarrierWithRetry_def noted)

lemma searchPath_note [noted]: "note_of (snd (searchPath (tracedKata h) dir a ds s)) = note_of s"
  by (induction ds arbitrary: s) (auto simp: noted split_beta Let_def)

lemma resolveKataArgv0_note [noted]: "note_of (snd (resolveKataArgv0 (tracedKata h) dir args s)) = note_of s"
  by (simp add: resolveKataArgv0_def noted split_beta Let_def split: list.split)

lemma kataWorkloadSpec_note [noted]: "note_of (snd (kataWorkloadSpec (tracedKata h) v req dir s)) = note_of s"
  by (simp add: kataWorkloadSpec_def noted split_beta Let_def)

lemma bridgeRun_note [noted]: "note_of (snd (bridgeRun (tracedLinux lx) title args s)) = note_of (snd s)"
  by (simp add: bridgeRun_def noted split_beta)

lemma bridgeRuns_note [noted]:
  "note_of (snd (foldl (\<lambda>s (title, args). bridgeRun (tracedLinux lx) title args s) s runs)) = note_of (snd s)"
  by (induction runs arbitrary: s) (auto simp: noted)

lemma writeKataBridgeDiag_note [noted]:
  "note_of (snd (writeKataBridgeDiag (tracedLinux lx) path slot s)) = note_of s"
  by (simp add: writeKataBridgeDiag_def noted split_beta Let_def bridgeRuns_note [simplified split_beta]
      split: sum.split del: foldl.simps)

lemma diagnostics_notes [noted]:
  "note_of (logKataGuestNetworkDiag (tracedKata h) p d slot s) = note_of s"
  "note_of (logCarrierStagingDiag (tracedKata h) p base cid vm spec s) = note_of s"
  by (simp_all add: logKataGuestNetworkDiag_def logCarrierStagingDiag_def noted split_beta Let_def)

lemma logKataBootDiagnostics_note [noted]: "note_of (logKataBootDiagnostics (tracedLinux lx) ps s) = note_of s"
  unfolding logKataBootDiagnostics_def by (induction ps arbitrary: s) (auto simp: noted)

lemma waitForSocket_note [noted]: "note_of (snd (waitForSocket (tracedKata h) p d s)) = note_of s"
  unfolding waitForSocket_def by (intro noted) (simp add: noted split_beta)

lemma waitSocketReady_note [noted]: "note_of (snd (waitSocketReady (tracedKata h) p d s)) = note_of s"
  unfolding waitSocketReady_def by (intro noted) (simp add: noted split_beta)

lemma dirExists_note [noted]: "note_of (snd (dirExists (tracedKata h) p s)) = note_of s"
  by (simp add: dirExists_def noted split_beta)

lemma pathIsMountpoint_note [noted]: "note_of (snd (pathIsMountpoint (tracedKata h) p s)) = note_of s"
  by (simp add: pathIsMountpoint_def noted split_beta)

lemma saveInstance_note [noted]: "note_of (snd (saveInstance (tracedKata h) js k i s)) = note_of s"
  unfolding saveInstance_def by (rule keptD, intro kept_intros) (simp_all add: noted kept_def)

lemma instance_notes [noted]:
  "note_of (snd (loadInstance (tracedKata h) js k name s)) = note_of s"
  "note_of (snd (readKataMeta (tracedKata h) js d s)) = note_of s"
  "note_of (snd (readKataBaseID (tracedKata h) d m s)) = note_of s"
  by (simp_all add: loadInstance_def readKataMeta_def readKataBaseID_def noted split_beta)

lemma rewriteRestoreSockets_note [noted]:
  "note_of (snd (rewriteRestoreSockets (tracedKata h) js d v m s)) = note_of s"
  by (simp add: rewriteRestoreSockets_def noted split_beta Let_def split: sum.split)

lemma closeFiles_note [noted]: "note_of (closeFiles (tracedKata h) fds s) = note_of s"
  unfolding closeFiles_def by (induction fds arbitrary: s) (auto simp: noted)

lemma copyEntries_note [noted]: "note_of (snd (copyEntries (tracedKata h) a b es s)) = note_of s"
  by (induction es arbitrary: s) (auto simp: noted split_beta Let_def split: sum.split)

lemma placeSnapshotDir_note [noted]: "note_of (snd (placeSnapshotDir (tracedKata h) a b s)) = note_of s"
  unfolding placeSnapshotDir_def copyDir_def by (rule keptD, intro kept_intros) (simp_all add: noted kept_def split_beta)

lemma openTaps_note [noted]: "note_of (snd (openTaps (tracedKata h) name flags fds n s)) = note_of s"
  by (induction n arbitrary: fds s) (auto simp: noted split_beta Let_def split: sum.split option.split)

lemma attachTapToBridge_note [noted]: "note_of (snd (attachTapToBridge (tracedLinux lx) tap s)) = note_of s"
  unfolding attachTapToBridge_def by (rule keptD, intro kept_intros) (simp_all add: noted kept_def)

lemma createTaps_note [noted]:
  "note_of (snd (createTaps (tracedKata h) slot i nets files ds s)) = note_of s"
  by (induction ds arbitrary: i nets files s)
    (auto simp: openTapDeviceFDs_def noted split_beta Let_def split: sum.split option.split)

lemma createRestoreTaps_note [noted]: "note_of (snd (createRestoreTaps (tracedKata h) slot ds s)) = note_of s"
  unfolding createRestoreTaps_def by (rule keptD, intro kept_intros) (simp_all add: noted kept_def)

lemma logParts_note [noted]: "note_of (snd (logParts (tracedLinux lx) ps s)) = note_of s"
  by (induction ps arbitrary: s) (auto simp: logPart_def noted split_beta Let_def)

lemma withCHLog_note [noted]: "note_of (snd (withCHLog (tracedLinux lx) e ps s)) = note_of s"
  by (simp add: withCHLog_def noted split_beta)

lemma planRestore_note [noted]:
  "ke_Host env = tracedKata h \<Longrightarrow> note_of (snd (planRestore env k req m s)) = note_of s"
  unfolding planRestore_def by (rule keptD, intro kept_intros) (simp_all add: noted kept_def)

lemma restoreCleanup_note [noted]: "note_of (restoreCleanup (tracedLinux lx) b v s) = note_of s"
  by (simp add: restoreCleanup_def noted split_beta Let_def)


subsection \<open>Operations that at most kill\<close>

text \<open>\<open>lean\<close> collects, for operations that start nothing, that what runs stays within a bound.\<close>

named_theorems lean \<open>operations after which nothing more runs\<close>

lemma kill_running: "running (snd (kh_Kill (tracedKata h) pid s)) = running s - {Itoa pid}"
  by (simp add: tracedKata_def killing_def noting_def running_def runningAfter_append split_beta)

lemma kill_lean [lean]: "running s \<subseteq> R \<Longrightarrow> running (snd (kh_Kill (tracedKata h) pid s)) \<subseteq> R"
  by (auto simp: kill_running)

lemma kill_started: "running s \<subseteq> insert (Itoa pid) R \<Longrightarrow> running (snd (kh_Kill (tracedKata h) pid s)) \<subseteq> R"
  by (auto simp: kill_running)

lemma start_running:
  "kh_Start (tracedKata h) args out s = (r, t) \<Longrightarrow>
   running t = (case r of Inl _ \<Rightarrow> running s | Inr pid \<Rightarrow> insert (Itoa pid) (running s))"
  by (auto simp: tracedKata_def starting_def running_def runningAfter_append split_beta split: sum.split)

lemma run_lean [lean]: "running s \<subseteq> R \<Longrightarrow> running (snd (lx_RunStderr (tracedLinux lx) [a, b, c, d] s)) \<subseteq> R"
  by (simp add: tracedLinux_def noting_def running_def runningAfter_append split_beta)

lemma copyImageRootfs_lean [lean]:
  "running s \<subseteq> R \<Longrightarrow> running (snd (copyImageRootfs (tracedKata h) a b s)) \<subseteq> R"
  by (simp add: copyImageRootfs_def lean split_beta)

text \<open>The same control flow rules as for traces.\<close>

definition leaves :: "string set \<Rightarrow> 'r \<times> 'w traced \<Rightarrow> bool" where
  "leaves R r \<longleftrightarrow> running (snd r) \<subseteq> R"

lemma leavesD: "leaves R r \<Longrightarrow> running (snd r) \<subseteq> R"
  by (simp add: leaves_def)

lemma leaves_pair: "running b \<subseteq> R \<Longrightarrow> leaves R (a, b)"
  by (simp add: leaves_def)

lemma leaves_bind:
  "leaves R f \<Longrightarrow> (\<And>a b. running b \<subseteq> R \<Longrightarrow> leaves R (g a b)) \<Longrightarrow> leaves R (let (a, b) = f in g a b)"
  by (simp add: leaves_def split_beta)

lemma leaves_prod: "(\<And>x y. leaves R (h x y b)) \<Longrightarrow> leaves R (case_prod h p b)"
  by (simp add: split_beta)

lemma leaves_world: "running v \<subseteq> R \<Longrightarrow> (\<And>w. running w \<subseteq> R \<Longrightarrow> leaves R (g w)) \<Longrightarrow> leaves R (let w = v in g w)"
  for v :: "'w traced"
  by simp

lemma leaves_let: "leaves R (g x) \<Longrightarrow> leaves R (let y = x in g y)"
  by simp

lemma leaves_if: "(c \<Longrightarrow> leaves R a) \<Longrightarrow> (\<not> c \<Longrightarrow> leaves R b) \<Longrightarrow> leaves R (if c then a else b)"
  by simp

lemma leaves_option:
  "leaves R a \<Longrightarrow> (\<And>x. leaves R (f x)) \<Longrightarrow> leaves R (case v of None \<Rightarrow> a | Some x \<Rightarrow> f x)"
  by (simp split: option.split)

lemma leaves_sum:
  "(\<And>x. leaves R (f x)) \<Longrightarrow> (\<And>y. leaves R (g y)) \<Longrightarrow> leaves R (case v of Inl x \<Rightarrow> f x | Inr y \<Rightarrow> g y)"
  by (simp split: sum.split)

lemma leaves_bool: "leaves R a \<Longrightarrow> leaves R b \<Longrightarrow> leaves R (case v of True \<Rightarrow> a | False \<Rightarrow> b)"
  by (simp split: bool.split)

lemmas leaves_intros =
  leaves_bind leaves_prod leaves_pair leaves_world leaves_let leaves_if leaves_option leaves_sum leaves_bool

lemmas quiet_lean = noted [THEN note_running]

lemma killCmds_lean [lean]: "running s \<subseteq> R \<Longrightarrow> running (killCmds (tracedKata h) pids s) \<subseteq> R"
  unfolding killCmds_def by (induction pids arbitrary: s) (simp_all add: lean)

lemma killCmds_started:
  "running s \<subseteq> Itoa ` set pids \<union> R \<Longrightarrow> running (killCmds (tracedKata h) pids s) \<subseteq> R"
proof (induction pids arbitrary: s)
  case Nil
  then show ?case by (simp add: killCmds_def)
next
  case (Cons pid pids)
  have "running (snd (kh_Kill (tracedKata h) pid s)) \<subseteq> Itoa ` set pids \<union> R"
    using Cons.prems by (auto simp: kill_running)
  from Cons.IH [OF this] show ?case by (simp add: killCmds_def)
qed

lemma ReconstructSharedDirFromImage_lean [lean]:
  "running s \<subseteq> R \<Longrightarrow> running (snd (ReconstructSharedDirFromImage (tracedKata h) b sid cid s)) \<subseteq> R"
  unfolding ReconstructSharedDirFromImage_def
  by (rule leavesD, intro leaves_intros)
    (simp_all add: lean quiet_lean leaves_def mkdirs_note [THEN note_running] del: foldl.simps)

lemma killOrphans_lean [lean]: "running s \<subseteq> R \<Longrightarrow> running (killOrphans (tracedKata h) sid names s) \<subseteq> R"
  by (induction names arbitrary: s)
    (simp_all add: lean quiet_lean split_beta Let_def split: option.split sum.split)

lemma unmounts_note:
  "note_of (foldl (\<lambda>s mp. snd (lx_UnmountDetach (tracedLinux lx) mp s)) s mps) = note_of s"
  by (induction mps arbitrary: s) (auto simp: noted)

lemma removals_note: "note_of (foldl (\<lambda>s d. snd (lx_RemoveAll (tracedLinux lx) d s)) s ds) = note_of s"
  by (induction ds arbitrary: s) (auto simp: noted)

lemma CleanupSandboxState_lean [lean]:
  "running s \<subseteq> R \<Longrightarrow> running (CleanupSandboxState (tracedKata h) sid s) \<subseteq> R"
  by (simp add: CleanupSandboxState_def lean quiet_lean unmounts_note [THEN note_running]
      removals_note [THEN note_running] split_beta Let_def split: sum.split del: foldl.simps)

lemma teardownInstance_lean [lean]:
  "running s \<subseteq> R \<Longrightarrow> running (teardownInstance (tracedKata h) k inst s) \<subseteq> R"
  unfolding teardownInstance_def Let_def by (simp add: lean quiet_lean)

lemma kataDeleteRestored_lean [lean]:
  "ke_Host env = tracedKata h \<Longrightarrow> running s \<subseteq> R \<Longrightarrow> running (snd (kataDeleteRestored env k rid s)) \<subseteq> R"
  by (simp add: kataDeleteRestored_def lean quiet_lean split_beta Let_def split: sum.split)

end
