(* ===== verification/KataProperties.thy ===== *)
theory KataProperties
  imports KataTrace GvisorProperties FileProperties
begin

text \<open>
  Properties of the Kata snapshotter: what a failed boot or restore leaves running, the taps it opens, the
  identifiers that stay the same from a boot through saves and restores, and what deleting one of several
  restored sandboxes does to the others.
\<close>

subsection \<open>Processes\<close>

text \<open>An operation that starts one process and hands it over, or leaves nothing more running.\<close>

definition hands_over :: "string set \<Rightarrow> (go_error + int) \<times> 'w traced \<Rightarrow> bool" where
  "hands_over R r \<longleftrightarrow> running (snd r) \<subseteq> (case fst r of Inl _ \<Rightarrow> R | Inr pid \<Rightarrow> insert (Itoa pid) R)"

lemma start_hands_over: "running s \<subseteq> R \<Longrightarrow> hands_over R (kh_Start (tracedKata h) args out s)"
  using start_running [of h args out s] by (cases "kh_Start (tracedKata h) args out s")
    (auto simp: hands_over_def split: sum.split)

text \<open>What follows a start: nothing after a failure, and a process that is handed over or killed.\<close>

lemma hands_over_start:
  assumes "hands_over R st"
    and "\<And>e t. running t \<subseteq> R \<Longrightarrow> hands_over R (f (Inl e) t)"
    and "\<And>pid t. running t \<subseteq> insert (Itoa pid) R \<Longrightarrow> hands_over R (f (Inr pid) t)"
  shows "hands_over R (let (pid, w) = st in f pid w)"
proof (cases st)
  case (Pair r t)
  then show ?thesis using assms by (cases r) (simp_all add: hands_over_def)
qed

lemma hands_over_then:
  "leaves R f \<Longrightarrow> (\<And>a w. running w \<subseteq> R \<Longrightarrow> hands_over R (g a w)) \<Longrightarrow> hands_over R (let (a, w) = f in g a w)"
  by (simp add: leaves_def split_beta)

lemma StartVirtiofsd_hands_over:
  assumes "running s \<subseteq> R"
  shows "hands_over R (StartVirtiofsd (tracedKata h) opts s)"
  unfolding StartVirtiofsd_def Let_def [of "if vo_Binary opts = [] then _ else _"]
  by (rule hands_over_then, simp add: assms quiet_lean leaves_def, rule hands_over_start, erule start_hands_over)
    (simp_all add: quiet_lean hands_over_def split_beta kill_started split: option.split)

lemma LaunchVMM_hands_over:
  assumes "running s \<subseteq> R"
  shows "hands_over R (LaunchVMM (tracedKata h) js bin sock out s)"
proof (cases "sock = []")
  case True
  then show ?thesis using assms by (simp add: LaunchVMM_def hands_over_def)
next
  case False
  show ?thesis
    unfolding LaunchVMM_def Let_def [of "if bin = [] then _ else _"] if_not_P [OF False]
    by (rule hands_over_then, simp add: assms quiet_lean leaves_def, rule hands_over_start, erule start_hands_over)
      (simp_all add: quiet_lean hands_over_def split_beta kill_started split: sum.split)
qed

text \<open>The same for a result that is looked at.\<close>

lemma handed_over:
  assumes "hands_over R st"
  shows "fst st = Inr pid \<Longrightarrow> running (snd st) \<subseteq> insert (Itoa pid) R"
    and "fst st = Inl e \<Longrightarrow> running (snd st) \<subseteq> R"
  using assms by (simp_all add: hands_over_def)

lemmas launched = handed_over [OF LaunchVMM_hands_over] handed_over [OF StartVirtiofsd_hands_over]
  handed_over [OF start_hands_over]

subsection \<open>A cold boot\<close>

lemma kept_split: "(\<And>a b. kept n (f a b)) \<Longrightarrow> kept n (case p of (a, b) \<Rightarrow> f a b)"
  by (simp add: split_beta)

lemma bootContainers_note [noted]:
  "note_of (snd (bootContainers (tracedKataEnv h ci sp js) k p pid ac s)) = note_of s"
  unfolding bootContainers_def by (rule keptD, intro kept_intros) (simp_all add: noted kept_def)

lemma bootAgent_note [noted]:
  "note_of (snd (bootAgent (tracedKataEnv h ci sp js) k p pid out s)) = note_of s"
  unfolding bootAgent_def by (rule keptD, intro kept_intros) (simp_all add: noted kept_def)

lemma bootMachine_note [noted]:
  "note_of (snd (bootMachine (tracedKataEnv h ci sp js) k p cfg pid s)) = note_of s"
  unfolding bootMachine_def by (rule keptD, intro kept_intros kept_split) (simp_all add: noted kept_def)

lemmas boot_lean =
  bootMachine_note [THEN note_running] bootAgent_note [THEN note_running] bootContainers_note [THEN note_running]

lemma bootVMM_cleans:
  assumes "running s \<subseteq> R" "fst (bootVMM (tracedKataEnv h ci sp js) k p s) \<noteq> None"
  shows "running (snd (bootVMM (tracedKataEnv h ci sp js) k p s)) \<subseteq> R"
  using assms unfolding bootVMM_def
  by (simp add: split_beta Let_def quiet_lean boot_lean launched kill_started
      split: sum.splits option.splits if_splits)

lemma killCmds_one: "running s \<subseteq> insert (Itoa pid) R \<Longrightarrow> running (killCmds (tracedKata h) [pid] s) \<subseteq> R"
  by (rule killCmds_started) simp

lemma bootStaged_cleans:
  assumes "running s \<subseteq> R" "fst (bootStaged (tracedKataEnv h ci sp js) k p s) \<noteq> None"
  shows "running (snd (bootStaged (tracedKataEnv h ci sp js) k p s)) \<subseteq> R"
  using assms unfolding bootStaged_def
  by (simp add: split_beta Let_def quiet_lean boot_lean launched killCmds_one bootVMM_cleans lean
      split: sum.splits option.splits if_splits)


lemma ColdBoot_cleans:
  assumes "ColdBoot (tracedKataEnv h ci sp js) k v req s = (Inl e, t)"
  shows "running t \<subseteq> running s"
proof -
  have "running (snd (ColdBoot (tracedKataEnv h ci sp js) k v req s)) \<subseteq> R"
    if "running s \<subseteq> R" "isl (fst (ColdBoot (tracedKataEnv h ci sp js) k v req s))" for R
    using that unfolding ColdBoot_def
    by (simp add: split_beta Let_def quiet_lean bootStaged_cleans lean split: sum.splits option.splits if_splits)
  from this [of "running s"] show ?thesis by (simp add: assms)
qed

subsection \<open>A restore\<close>

definition daemons_started :: "string set \<Rightarrow> (go_error + int list) \<times> 'w traced \<Rightarrow> bool" where
  "daemons_started R r \<longleftrightarrow>
     running (snd r) \<subseteq> (case fst r of Inl _ \<Rightarrow> R | Inr pids \<Rightarrow> Itoa ` set pids \<union> R)"

lemma daemons_fail: "running w \<subseteq> R \<Longrightarrow> daemons_started R (Inl e, w)"
  by (simp add: daemons_started_def)

lemma daemons_then:
  "leaves Q f \<Longrightarrow> (\<And>a w. running w \<subseteq> Q \<Longrightarrow> daemons_started R (g a w)) \<Longrightarrow>
   daemons_started R (let (a, w) = f in g a w)"
  by (simp add: leaves_def split_beta)

lemma daemons_if: "(c \<Longrightarrow> daemons_started R a) \<Longrightarrow> (\<not> c \<Longrightarrow> daemons_started R b) \<Longrightarrow> daemons_started R (if c then a else b)"
  by simp

lemma daemons_option:
  "daemons_started R a \<Longrightarrow> (\<And>x. daemons_started R (f x)) \<Longrightarrow>
   daemons_started R (case v of None \<Rightarrow> a | Some x \<Rightarrow> f x)"
  by (simp split: option.split)

lemma daemons_start:
  assumes "hands_over Q st"
    and "\<And>e t. running t \<subseteq> Q \<Longrightarrow> daemons_started R (f (Inl e) t)"
    and "\<And>pid t. running t \<subseteq> insert (Itoa pid) Q \<Longrightarrow> daemons_started R (f (Inr pid) t)"
  shows "daemons_started R (let (pid, w) = st in f pid w)"
proof (cases st)
  case (Pair r t)
  then show ?thesis using assms by (cases r) (simp_all add: hands_over_def)
qed

text \<open>Waiting for the socket of a daemon that was started, and starting it.\<close>

lemma daemon_waits:
  fixes h :: "'w kata_host" and cmds R
  defines "Q \<equiv> Itoa ` set cmds \<union> R"
  assumes cont: "\<And>w. running w \<subseteq> insert (Itoa pid) Q \<Longrightarrow> daemons_started R (cont w)"
    and "running t \<subseteq> insert (Itoa pid) Q"
  shows "daemons_started R
      (let (err, w) = waitSocketReady (tracedKata h) sock d t in
       case err of
         Some e \<Rightarrow> (Inl (f e), killCmds (tracedKata h) cmds (snd (kh_Kill (tracedKata h) pid w)))
       | None \<Rightarrow> cont w)"
proof (rule daemons_then)
  show "leaves (insert (Itoa pid) Q) (waitSocketReady (tracedKata h) sock d t)"
    using assms by (simp add: leaves_def quiet_lean)
next
  fix err and w :: "'w traced" assume w: "running w \<subseteq> insert (Itoa pid) Q"
  then show "daemons_started R (case err of
       Some e \<Rightarrow> (Inl (f e), killCmds (tracedKata h) cmds (snd (kh_Kill (tracedKata h) pid w)))
     | None \<Rightarrow> cont w)"
    using cont [OF w]
    by (simp add: Q_def daemons_fail killCmds_started kill_started split: option.split)
qed

lemma daemon_starts:
  fixes h :: "'w kata_host" and cmds R
  defines "Q \<equiv> Itoa ` set cmds \<union> R"
  assumes cont: "\<And>pid w. running w \<subseteq> insert (Itoa pid) Q \<Longrightarrow> daemons_started R (cont pid w)"
    and "running t \<subseteq> Q"
  shows "daemons_started R
      (let (pid, w) = kh_Start (tracedKata h) args out t in
       case pid of
         Inl e \<Rightarrow> (Inl (g e), killCmds (tracedKata h) cmds w)
       | Inr pid \<Rightarrow>
           let (err, w) = waitSocketReady (tracedKata h) sock d w in
           case err of
             Some e \<Rightarrow> (Inl (f e), killCmds (tracedKata h) cmds (snd (kh_Kill (tracedKata h) pid w)))
           | None \<Rightarrow> cont pid w)"
proof (rule daemons_start, rule start_hands_over, rule assms(3), unfold sum.case)
  fix pid and w :: "'w traced" assume "running w \<subseteq> insert (Itoa pid) Q"
  then show "daemons_started R
    (let (err, w) = waitSocketReady (tracedKata h) sock d w in
     case err of
       Some e \<Rightarrow> (Inl (f e), killCmds (tracedKata h) cmds (snd (kh_Kill (tracedKata h) pid w)))
     | None \<Rightarrow> cont pid w)"
    unfolding Q_def by (intro daemon_waits cont [unfolded Q_def])
qed (simp add: Q_def daemons_fail killCmds_started)

lemma startDaemons_started:
  assumes "running s \<subseteq> Itoa ` set cmds \<union> R"
  shows "daemons_started R (startDaemons (tracedKata h) k d i cmds shares s)"
  using assms
proof (induction shares arbitrary: s i cmds)
  case Nil
  then show ?case by (simp add: daemons_started_def)
next
  case (Cons share shares)
  let ?Q = "Itoa ` set cmds \<union> R"
  have cont: "daemons_started R (startDaemons (tracedKata h) k d (Suc i) (cmds @ [pid]) shares w)"
    if "running w \<subseteq> insert (Itoa pid) ?Q" for pid w
    by (rule Cons.IH) (use that in auto)
  show ?case
    unfolding startDaemons.simps Let_def [of "Join _"]
    by (intro daemon_starts cont daemons_if daemons_option daemons_then [where Q = ?Q])
      (use Cons.prems Cons.IH [of s cmds "Suc i"] in
        \<open>simp_all add: leaves_def quiet_lean daemons_fail killCmds_started\<close>)
qed

lemma startVirtiofsDaemons_started:
  assumes "running s \<subseteq> R"
  shows "fst (startVirtiofsDaemons (tracedKata h) k d shares s) = Inl e \<Longrightarrow>
      running (snd (startVirtiofsDaemons (tracedKata h) k d shares s)) \<subseteq> R"
    and "fst (startVirtiofsDaemons (tracedKata h) k d shares s) = Inr pids \<Longrightarrow>
      running (snd (startVirtiofsDaemons (tracedKata h) k d shares s)) \<subseteq> Itoa ` set pids \<union> R"
  using startDaemons_started [of s "[]" R h k d 0 shares] assms
  by (simp_all add: startVirtiofsDaemons_def daemons_started_def)

lemma resumeVM_note [noted]:
  "note_of (snd (resumeVM (tracedKataEnv h ci sp js) k p nets pid s)) = note_of s"
  unfolding resumeVM_def by (rule keptD, intro kept_intros) (simp_all add: noted kept_def)

lemma launchRestored_cleans:
  assumes "running s \<subseteq> R" "fst (launchRestored (tracedKataEnv h ci sp js) k p nets s) = Some e"
  shows "running (snd (launchRestored (tracedKataEnv h ci sp js) k p nets s)) \<subseteq> R"
  using assms unfolding launchRestored_def
  by (simp add: split_beta Let_def quiet_lean resumeVM_note [THEN note_running] launched kill_started
      split: sum.splits option.splits if_splits)


text \<open>The error of a restored machine whose agent does not answer, after which the record is read to delete it.\<close>

definition agent_missing :: "go_error \<Rightarrow> bool" where
  "agent_missing e \<longleftrightarrow> (\<exists>c. e = Errorf ''wait kata-agent: %w'' [FW c])"

lemma restoreWithDaemons_cleans:
  assumes "running s \<subseteq> Itoa ` set cmds \<union> R"
    and "fst (restoreWithDaemons (tracedKataEnv h ci sp js) k p cmds s) = Inl e" "\<not> agent_missing e"
  shows "running (snd (restoreWithDaemons (tracedKataEnv h ci sp js) k p cmds s)) \<subseteq> R"
proof (cases "fst (createRestoreTaps (tracedKata h) (ld_SlotID (rp_Request p)) (me_NetDevices (rp_Meta p)) s)")
  case (Inl c)
  with assms show ?thesis
    by (simp add: restoreWithDaemons_def split_beta Let_def quiet_lean killCmds_started)
next
  case (Inr opened)
  obtain nets files where "opened = (nets, files)" by fastforce
  with Inr assms show ?thesis
    by (simp add: restoreWithDaemons_def split_beta Let_def quiet_lean launchRestored_cleans killCmds_started
        agent_missing_def split: sum.splits option.splits) blast
qed

lemma stageLower_started:
  assumes "running s \<subseteq> R"
  shows "fst (stageLower (tracedKataEnv h ci sp js) k p s) = Inl e \<Longrightarrow>
      running (snd (stageLower (tracedKataEnv h ci sp js) k p s)) \<subseteq> R"
    and "fst (stageLower (tracedKataEnv h ci sp js) k p s) = Inr pids \<Longrightarrow>
      running (snd (stageLower (tracedKataEnv h ci sp js) k p s)) \<subseteq> Itoa ` set pids \<union> R"
  using assms unfolding stageLower_def
  by (simp_all add: split_beta Let_def quiet_lean lean startVirtiofsDaemons_started
      split: sum.splits option.splits if_splits)

lemma kataLoadSnapshot_cleans:
  assumes "kataLoadSnapshot (tracedKataEnv h ci sp js) k req s = (Inl e, t)" "\<not> agent_missing e"
  shows "running t \<subseteq> running s"
proof -
  have "running (snd (kataLoadSnapshot (tracedKataEnv h ci sp js) k req s)) \<subseteq> R"
    if "running s \<subseteq> R" "fst (kataLoadSnapshot (tracedKataEnv h ci sp js) k req s) = Inl e" for R
    using that assms(2) unfolding kataLoadSnapshot_def
    by (simp add: split_beta Let_def quiet_lean stageLower_started restoreWithDaemons_cleans
        split: sum.splits option.splits if_splits)
  from this [of "running s"] show ?thesis by (simp add: assms)
qed


subsection \<open>Taps\<close>

lemma openTaps_length:
  "openTaps h name flags fds n w = (Inr out, w') \<Longrightarrow> length out = length fds + n"
  by (induction n arbitrary: fds w) (auto simp: split_beta Let_def split: sum.splits option.splits prod.splits)

lemma openTapDeviceFDs_length:
  "openTapDeviceFDs h name q w = (Inr out, w') \<Longrightarrow> length out = nat (max 1 q)"
  using openTaps_length [of h name "tapFlags (max 1 q)" "[]" "nat (max 1 q)" w out w']
  by (simp add: openTapDeviceFDs_def Let_def max_def del: openTaps.simps split: if_splits)

definition tapped :: "restore_tap_net list \<Rightarrow> int list \<Rightarrow> kata_net_device list \<Rightarrow> bool" where
  "tapped nets files devs \<longleftrightarrow>
     list_all2 (\<lambda>n d. tn_id n = nd_ID d \<and> length (tn_fds n) = nat (max 1 (nd_QueuePairs d))) nets devs \<and>
     files = concat (map tn_fds nets)"

lemma createTaps_tapped:
  assumes "createTaps h slot i nets files devs w = (Inr (nets', files'), w')" "tapped nets files before"
  shows "tapped nets' files' (before @ devs)"
  using assms
proof (induction devs arbitrary: i nets files before w)
  case (Cons d devs)
  let ?qp = "if nd_QueuePairs d < 1 then 1 else nd_QueuePairs d"
  obtain r w1 where opened: "openTapDeviceFDs h (tapNameFor slot i) ?qp w = (r, w1)" by fastforce
  with Cons.prems(1) obtain fds where fds: "r = Inr fds"
    by (cases r) (auto simp: Let_def)
  obtain err w2 where "attachTapToBridge (kh_Linux h) (tapNameFor slot i) w1 = (err, w2)" by fastforce
  with Cons.prems(1) opened fds
  have "createTaps h slot (Suc i) (nets @ [\<lparr>tn_id = nd_ID d, tn_fds = fds\<rparr>]) (files @ fds) devs w2 =
      (Inr (nets', files'), w')"
    by (cases err) (simp_all add: Let_def)
  moreover have "tapped (nets @ [\<lparr>tn_id = nd_ID d, tn_fds = fds\<rparr>]) (files @ fds) (before @ [d])"
    using Cons.prems(2) openTapDeviceFDs_length [OF opened [unfolded fds]]
    by (auto simp: tapped_def list_all2_appendI)
  ultimately show ?case using Cons.IH by fastforce
qed simp

text \<open>
  C30. The taps of a machine are well formed whatever the host does: when opening them succeeds, there is one
  network per device of the snapshot, in the same order and with the device's ID, it has as many open files as
  the device has queue pairs and at least one, and the files that are closed afterwards are exactly the files
  of the networks.  So a cold boot, which opens taps for one device, always finds its first network, and Cloud
  Hypervisor gets as many files as the request announces.
\<close>

theorem taps_match_devices:
  assumes "createRestoreTaps h slot devs w = (Inr (nets, files), w')"
  shows "list_all2 (\<lambda>n d. tn_id n = nd_ID d \<and> int (length (tn_fds n)) = max 1 (nd_QueuePairs d)) nets devs \<and>
    files = concat (map tn_fds nets) \<and>
    rf_NetFDs (restoreBody dir nets mode) = map (\<lambda>d. (nd_ID d, max 1 (nd_QueuePairs d))) devs"
proof -
  obtain v where "createTaps h slot 0 [] [] devs v = (Inr (nets, files), w')"
    using assms by (auto simp: createRestoreTaps_def split_beta split: option.splits)
  then have "tapped nets files ([] @ devs)"
    by (rule createTaps_tapped) (simp add: tapped_def)
  then have nets: "list_all2 (\<lambda>n d. tn_id n = nd_ID d \<and> int (length (tn_fds n)) = max 1 (nd_QueuePairs d)) nets devs"
    and files: "files = concat (map tn_fds nets)"
    by (auto simp: tapped_def elim: list_all2_mono)
  have "map (\<lambda>n. (tn_id n, int (length (tn_fds n)))) nets = map (\<lambda>d. (nd_ID d, max 1 (nd_QueuePairs d))) devs"
    using nets by (induction rule: list_all2_induct) auto
  with nets files show ?thesis by (simp add: restoreBody_def)
qed

subsection \<open>Identity along saves and restores\<close>

text \<open>
  The records a machine and what is restored from it have: a boot makes the first one; a save writes the base ID
  to its file and the meta data, and a restore on any Worker plans with that meta data.  The file is read back
  as it was written, or it is missing and the meta data are used.
\<close>

inductive descends ::
    "('i, 'w) kata_env \<Rightarrow> 'q create_request \<Rightarrow> kata_instance \<Rightarrow> bool" for env req where
  booted: "descends env req (bootedInstance (bootPlan k v req) pid)"
| restored: "descends env req inst \<Longrightarrow>
     meta = metaOf save inst (firstNonEmpty [ki_ContainerID inst, sv_ContainerID save])
              (firstNonEmpty [ki_BaseID inst, name]) nets now \<Longrightarrow>
     \<forall>dir w. fst (lx_ReadFile (kh_Linux (ke_Host env)) (Join [dir, kataBaseIDFile]) w)
       \<in> insert (Inr (firstNonEmpty [ki_BaseID inst, name])) (range Inl) \<Longrightarrow>
     planRestore env k load meta w = (Inr p, w') \<Longrightarrow>
     descends env req (restoredInstance p pid)"

lemma planRestore_plan:
  assumes "planRestore env k load meta w = (Inr p, w')"
  obtains dir v where "rp_BaseID p = fst (readKataBaseID (ke_Host env) dir meta v)" "rp_Meta p = meta"
    "rp_AppImage p = firstNonEmpty [me_AppImage meta, ld_AppImage load]"
  using assms by (auto simp: planRestore_def split_beta Let_def split: option.splits if_splits)

lemma HasSuffix_append [simp]: "HasSuffix (a @ b) b"
  by (simp add: HasSuffix_def HasPrefix_def)

lemma TrimSuffix_append [simp]: "TrimSuffix (a @ b) b = a"
  by (simp add: TrimSuffix_def)

lemma kataStableCarrierName_workload:
  "carrier \<noteq> [] \<Longrightarrow> kataStableCarrierName (kataOverlayWorkloadID carrier) app = carrier"
  by (simp add: kataStableCarrierName_def kataOverlayWorkloadID_def kataOverlaySuffix_def)



subsection \<open>Siblings\<close>

text \<open>The command line of a process as \<open>/proc\<close> shows it.\<close>

definition procCmdline :: "string list \<Rightarrow> string" where
  "procCmdline args = concat (map (\<lambda>a. a @ [CHR 0x00]) args)"

lemma Contains_iff: "Contains s p \<longleftrightarrow> (\<exists>a b. s = a @ p @ b)"
proof (induction s)
  case Nil
  show ?case by (subst Contains.simps) (auto simp: HasPrefix_def)
next
  case (Cons x s)
  have "HasPrefix (x # s) p \<longleftrightarrow> (\<exists>b. x # s = p @ b)"
    by (metis HasPrefix_def append_eq_conv_conj append_take_drop_id)
  then show ?case
    by (subst Contains.simps) (auto simp: Cons.IH Cons_eq_append_conv)
qed

lemma SharedDir_plain:
  assumes "plainDir base"
  shows "SharedDir base = ''/run/kata-containers/shared/sandboxes/'' @ base @ ''/shared''"
proof -
  let ?dirs = "[''kata-containers'', ''shared'', ''sandboxes'', base, ''shared'']"
  have "SharedDir base = Join [''/'' @ ''run'', joinWith ''/'' ?dirs]"
    using assms by (simp add: SharedDir_def Join_def sandboxesDir_def plainDir_def)
  also have "\<dots> = below (''/'' @ ''run'') ?dirs"
    using assms by (intro Join_below) (auto simp: plainDir_def)
  finally show ?thesis by (simp add: below_def)
qed

lemma argv0Of_cmdline: "CHR 0x00 \<notin> set a \<Longrightarrow> argv0Of (procCmdline (a # args)) = a"
  using takeWhile_append2 [of a "\<lambda>c. c \<noteq> CHR 0x00" "CHR 0x00 # procCmdline args"]
  by (fastforce simp: argv0Of_def procCmdline_def)

lemma shared_daemon:
  assumes "plainDir base" "share \<in> set (shareDirs base shares)" "isKataSharedTag (vh_Tag share)"
    and "Contains (kt_VirtiofsdPath k) ''virtiofsd''" "CHR 0x00 \<notin> set (kt_VirtiofsdPath k)"
  shows "isSandboxProcess base (procCmdline (virtiofsdCommand k share))"
proof -
  have dir: "vh_SharedDir share = SharedDir base"
    using assms(2,3) by (auto simp: shareDirs_def)
  have "\<exists>a b. procCmdline (virtiofsdCommand k share) = a @ SharedDir base @ b"
    unfolding virtiofsdCommand_def dir procCmdline_def
    by (rule exI [of _ "kt_VirtiofsdPath k @ [CHR 0x00] @ ''--socket-path='' @ vh_Socket share @ [CHR 0x00] @ ''--shared-dir=''"])
      simp
  then have "Contains (procCmdline (virtiofsdCommand k share)) base"
    unfolding Contains_iff SharedDir_plain [OF assms(1)] by (metis append.assoc)
  moreover have "argv0Of (procCmdline (virtiofsdCommand k share)) = kt_VirtiofsdPath k"
    unfolding virtiofsdCommand_def by (rule argv0Of_cmdline [OF assms(5)])
  ultimately show ?thesis using assms(4) by (simp add: isSandboxProcess_def)
qed

lemma Atoi_Itoa:
  assumes "0 < pid" "pid < 2 ^ 63"
  shows "Atoi (Itoa pid) = Some pid"
proof -
  have "take 1 (natDigits (nat pid)) \<noteq> ''-''" "take 1 (natDigits (nat pid)) \<noteq> ''+''"
    using natDigits_digits [of "nat pid"]
    by (cases "natDigits (nat pid)"; auto simp: list_all_iff dest: digit_chars)+
  with assms natDigits_digits [of "nat pid"] show ?thesis
    by (simp add: Atoi_def Itoa_def Let_def)
qed


lemma traced_reads:
  "fst (lx_ReadFile (tracedLinux lx) p s) = fst (lx_ReadFile lx p (tr_World s))"
  "fst (lx_ReadDir (tracedLinux lx) p s) = fst (lx_ReadDir lx p (tr_World s))"
  by (simp_all add: tracedLinux_def quietly_def split_beta)

lemma strip_kata: "StripPrefix (kataIDPrefix @ name) kataIDPrefix = (name, True)"
  by (simp add: StripPrefix_def HasPrefix_def TrimPrefix_def)

lemma killOrphans_kills:
  assumes "Itoa pid \<in> set names" "0 < pid" "pid < 2 ^ 63" "pid \<noteq> kh_Getpid h" "isSandboxProcess sid c"
    and "\<And>w. fst (lx_ReadFile (kh_Linux h) (Join [''/proc'', Itoa pid, ''cmdline'']) w) = Inr c"
  shows "running (killOrphans (tracedKata h) sid names s) \<subseteq> - {Itoa pid}"
  using assms(1)
proof (induction names arbitrary: s)
  case (Cons name names)
  show ?case
  proof (cases "name = Itoa pid")
    case True
    have "running (snd (kh_Kill (tracedKata h) pid w)) \<subseteq> - {Itoa pid}" for w
      by (auto simp: kill_running)
    then show ?thesis
      using assms by (simp add: True Atoi_Itoa split_beta traced_reads killOrphans_lean del: subset_Compl_singleton)
  next
    case False
    with Cons have "running (killOrphans (tracedKata h) sid names w) \<subseteq> - {Itoa pid}" for w
      by auto
    then show ?thesis
      by (simp add: split_beta Let_def split: option.split sum.split)
  qed
qed simp

text \<open>
  A deletion of one restored sandbox ends the others that stem from the same boot.  Restored sandboxes of one
  lineage have the same base ID (as shown above), so their virtiofsd serves the same shared directory, and when
  two of them run on one Worker, deleting the first reports success and kills the second one's virtiofsd: the
  sweep of the base ID takes every virtiofsd whose command line has the base ID in it for a left-over.
\<close>

theorem deleting_a_fork_kills_its_siblings:
  assumes "fst (loadInstance (tracedKata h) js k name s) = Inr inst" "plainDir (ki_BaseID inst)"
    and sibling: "share \<in> set (shareDirs (ki_BaseID inst) shares)" "isKataSharedTag (vh_Tag share)"
    and program: "Contains (kt_VirtiofsdPath k) ''virtiofsd''" "CHR 0x00 \<notin> set (kt_VirtiofsdPath k)"
    and listed: "\<And>w. fst (lx_ReadDir (kh_Linux h) ''/proc'' w) = Inr entries" "(Itoa pid, d) \<in> set entries"
    and cmdline: "\<And>w. fst (lx_ReadFile (kh_Linux h) (Join [''/proc'', Itoa pid, ''cmdline'']) w) =
      Inr (procCmdline (virtiofsdCommand k share))"
    and pid: "0 < pid" "pid < 2 ^ 63" "pid \<noteq> kh_Getpid h"
  shows "\<exists>t. kataDeleteRestored (tracedKataEnv h ci sp js) k (kataIDPrefix @ name) s = (None, t) \<and>
    Itoa pid \<notin> running t"
proof -
  have "Itoa pid \<in> set (map fst entries)"
    using listed(2) by force
  then have "running (killOrphans (tracedKata h) (ki_BaseID inst) (map fst entries) w) \<subseteq> - {Itoa pid}" for w
    by (rule killOrphans_kills [OF _ pid shared_daemon [OF assms(2) sibling program] cmdline])
  then have "running (CleanupSandboxState (tracedKata h) (ki_BaseID inst) w) \<subseteq> - {Itoa pid}" for w
    by (simp add: CleanupSandboxState_def split_beta Let_def traced_reads listed(1) del: foldl.simps)
  then have "running (teardownInstance (tracedKata h) k inst w) \<subseteq> - {Itoa pid}" for w
    using assms(2)
    by (simp add: teardownInstance_def Let_def quiet_lean plainDir_def del: subset_Compl_singleton)
  then have "running (snd (kataDeleteRestored (tracedKataEnv h ci sp js) k (kataIDPrefix @ name) s)) \<subseteq> - {Itoa pid}"
    using assms(1)
    by (simp add: kataDeleteRestored_def split_beta Let_def strip_kata quiet_lean
        del: subset_Compl_singleton)
  moreover have "fst (kataDeleteRestored (tracedKataEnv h ci sp js) k (kataIDPrefix @ name) s) = None"
    using assms(1) by (simp add: kataDeleteRestored_def split_beta Let_def strip_kata)
  ultimately show ?thesis
    by (metis ComplD insertI1 prod.collapse subsetD)
qed


subsection \<open>Failed starts\<close>

text \<open>
  C28. A start that fails leaves no process behind.  Whatever the host, containerd, the hypervisor and the agent
  do, when a cold boot fails, or a restore fails for any reason but an agent that does not answer (after which
  the machine is deleted through its record), every process that the call started, virtiofsd of every share and
  Cloud Hypervisor, was killed again: what runs afterwards ran before.
\<close>

theorem failed_starts_leave_nothing_running:
  assumes "ColdBoot (tracedKataEnv h ci sp js) k v req s = (Inl e, t) \<or>
    (kataLoadSnapshot (tracedKataEnv h ci sp js) k load s = (Inl e, t) \<and> \<not> agent_missing e)"
  shows "running t \<subseteq> running s"
  using assms by (auto dest: ColdBoot_cleans kataLoadSnapshot_cleans)

subsection \<open>A concrete host of virtual machines\<close>

text \<open>
  Every file reads as given, and nothing is in any directory.  Processes have numbers from 100; the hypervisor
  and the agent answer at once, but no machine boots.
\<close>

definition memKata :: "(go_error + string) \<Rightarrow> mem_world kata_host" where
  "memKata content =
     \<lparr>kh_Linux = memLinux\<lparr>lx_ReadFile := (\<lambda>_ w. (content, w))\<rparr>,
      kh_Http = (\<lambda>_ _ p _ w. (Inr \<lparr>hr_Status = (if p = ''/api/v1/vm.boot'' then 500 else 200), hr_Body = [],
        hr_ReadError = None\<rparr>, w)),
      kh_DialUnix = (\<lambda>_ w. (Inr 7, w)), kh_Send = (\<lambda>_ _ _ w. (None, w)),
      kh_ReadLine = (\<lambda>_ w. ((''OK 200'', None), w)), kh_CloseConn = (\<lambda>_ w. w),
      kh_Call = (\<lambda>_ _ w. ((None, \<lparr>ap_Status = 0, ap_Data = []\<rparr>), w)),
      kh_Start = (\<lambda>_ _ w. let pid = 100 + int (length (mw_Live w)) in
        (Inr pid, w\<lparr>mw_Live := mw_Live w @ [Itoa pid]\<rparr>)),
      kh_Kill = (\<lambda>pid w. (None, w\<lparr>mw_Live := removeAll (Itoa pid) (mw_Live w)\<rparr>)),
      kh_Reap = (\<lambda>_ w. w), kh_Alive = (\<lambda>pid w. (Itoa pid \<in> set (mw_Live w), w)), kh_Getpid = 1,
      kh_OpenTun = (\<lambda>w. (Inr 9, w)), kh_TunSetIff = (\<lambda>_ _ _ w. (None, w)),
      kh_IsDir = (\<lambda>p w. (Inr (\<not> HasSuffix p ''.sock''), w)), kh_Walk = (\<lambda>_ w. ([], w)),
      kh_CopyFile = (\<lambda>_ _ w. (None, w)), kh_MountSelf = (\<lambda>_ w. (None, w)), kh_MountShared = (\<lambda>_ w. (None, w)),
      kh_Polls = (\<lambda>_ _ _. 0), kh_Wait = (\<lambda>_ w. (None, w)), kh_Reads = (\<lambda>_. 1), kh_Now = (\<lambda>w. (0, w)),
      kh_NewUUID = (\<lambda>w. (''e1'', w)), kh_IsNotExist = (\<lambda>_. False), kh_Goarch = ''amd64''\<rparr>"

definition memKataJson :: kata_json where
  "memKataJson =
     \<lparr>kj_EncodeInstance = (\<lambda>_. Inr ''{}''), kj_DecodeInstance = (\<lambda>_. Inl (External ''invalid'')),
      kj_EncodeMeta = (\<lambda>_. Inr ''{}''), kj_DecodeMeta = (\<lambda>_. Inl (External ''invalid'')),
      kj_DecodeState = (\<lambda>_. Inr ''Running''),
      kj_DecodeInfo = (\<lambda>_. Inr \<lparr>vi_Version = ''v52'', vi_BuildVersion = ''v52'', vi_Features = []\<rparr>),
      kj_EncodeRestore = (\<lambda>_. Inr ''{}''), kj_EncodeAddNet = (\<lambda>_. Inr ''{}''),
      kj_EncodeObject = (\<lambda>_. Inr ''{}''), kj_DecodeObject = (\<lambda>_. Inr []), kj_DecodeNet = (\<lambda>_. Inr []),
      kj_DecodeToml = (\<lambda>_. Inr (512, 1, []))\<rparr>"

definition memSparse :: "'w sparse_host" where
  "memSparse =
     \<lparr>mh_Stat = (\<lambda>_ w. (Inr 0, w)), mh_Remove = (\<lambda>_ w. (None, w)), mh_Rename = (\<lambda>_ _ w. (None, w)),
      mh_Copy = (\<lambda>_ _ w. ((None, []), w)), mh_Open = (\<lambda>_ w. (Inr 3, w)), mh_OpenRW = (\<lambda>_ w. (Inr 4, w)),
      mh_FStat = (\<lambda>_ w. (Inr 0, w)), mh_SeekData = (\<lambda>_ _ w. (Inl (External ''no such device or address''), w)),
      mh_SeekHole = (\<lambda>_ _ w. (Inr 0, w)), mh_Seek = (\<lambda>_ _ w. (None, w)), mh_ReadFull = (\<lambda>_ _ w. (([], None), w)),
      mh_Write = (\<lambda>_ _ w. (None, w)), mh_Close = (\<lambda>_ w. (None, w)), mh_IsENXIO = (\<lambda>_. True), mh_IsEXDEV = (\<lambda>_. False)\<rparr>"

definition memK :: kata where
  "memK = \<lparr>kt_CloudHypervisorPath = ''cloud-hypervisor'', kt_VirtiofsdPath = ''virtiofsd'', kt_StateDir = ''/var/k''\<rparr>"

definition memBoot :: "unit create_request" where
  "memBoot =
     \<lparr>re_Identity = \<lparr>id_Namespace = ''ns'', id_Name = ''box'', id_UID = ''u1''\<rparr>, re_SlotID = 0,
      re_Resources = \<lparr>rr_Requests = [], rr_Limits = []\<rparr>,
      re_Container = \<lparr>cc_Image = ''python:3.12'', cc_Command = [''sleep''], cc_Args = [''60''], cc_Env = []\<rparr>\<rparr>"

definition memIdle :: "mem_world traced" where
  "memIdle = startTrace \<lparr>mw_Files = [], mw_Live = [], mw_Stuck = 0\<rparr>"

text \<open>The machine of the first boot does not boot, and virtiofsd and Cloud Hypervisor are gone.\<close>

lemma mem_never_boots: "fst (client_BootVM (tracedKata (memKata c)) sock s) \<noteq> None"
  by (simp add: client_BootVM_def apiPut_def tracedKata_def memKata_def quietly_def split_beta statusError_def)

lemma mem_boot_fails:
  "isl (fst (ColdBoot (tracedKataEnv (memKata c) memContainerd memSparse memKataJson) memK v memBoot s))"
proof -
  have "fst (bootMachine (tracedKataEnv (memKata c) memContainerd memSparse memKataJson) memK p cfg pid s) \<noteq> None"
    for p :: "unit boot_plan" and cfg pid s
    using mem_never_boots [of c]
    by (simp add: bootMachine_def split_beta Let_def split: sum.split option.split)
  then have "fst (bootVMM (tracedKataEnv (memKata c) memContainerd memSparse memKataJson) memK p s) \<noteq> None"
    for p :: "unit boot_plan" and s
    by (simp add: bootVMM_def split_beta Let_def split: sum.split option.split)
  then have "fst (bootStaged (tracedKataEnv (memKata c) memContainerd memSparse memKataJson) memK p s) \<noteq> None"
    for p :: "unit boot_plan" and s
    by (simp add: bootStaged_def split_beta Let_def split: sum.split option.split)
  then show ?thesis
    by (simp add: ColdBoot_def split_beta Let_def memBoot_def split: sum.split option.split)
      (metis option.distinct(1))
qed

theorem failed_starts_leave_nothing_running_witness:
  "running (snd (ColdBoot (tracedKataEnv (memKata (Inr [])) memContainerd memSparse memKataJson) memK ''1.2.0''
     memBoot memIdle)) = {}"
proof -
  let ?boot = "ColdBoot (tracedKataEnv (memKata (Inr [])) memContainerd memSparse memKataJson) memK ''1.2.0'' memBoot memIdle"
  obtain e where "?boot = (Inl e, snd ?boot)"
    using mem_boot_fails [of "Inr []" "''1.2.0''" memIdle] by (metis isl_def prod.collapse)
  then have "running (snd ?boot) \<subseteq> running memIdle"
    using failed_starts_leave_nothing_running by blast
  then show ?thesis
    by (simp add: memIdle_def startTrace_def running_def)
qed

lemma mem_bridge: "fst (ensureSharedBridge (kh_Linux (memKata c)) w) = None"
  by (simp add: ensureSharedBridge_def runIPCommand_def memKata_def memLinux_def split_beta Let_def)

lemma mem_attach: "fst (attachTapToBridge (kh_Linux (memKata c)) tap w) = None"
  by (simp add: attachTapToBridge_def runIPCommand_def memKata_def memLinux_def split_beta Let_def)

lemma mem_taps:
  "kh_OpenTun (memKata c) w = (Inr 9, w)"
  "kh_TunSetIff (memKata c) fd n f w = (None, w)"
  by (simp_all add: memKata_def)

theorem taps_match_devices_witness:
  "\<exists>nets files w. createRestoreTaps (memKata (Inr [])) 0 [\<lparr>nd_ID = ''_net0'', nd_QueuePairs = 2\<rparr>] (tr_World memIdle) =
     (Inr (nets, files), w) \<and> files = concat (map tn_fds nets) \<and> files = [9, 9]"
proof -
  let ?taps = "createRestoreTaps (memKata (Inr [])) 0 [\<lparr>nd_ID = ''_net0'', nd_QueuePairs = 2\<rparr>] (tr_World memIdle)"
  have "fst ?taps = Inr ([\<lparr>tn_id = ''_net0'', tn_fds = [9, 9]\<rparr>], [9, 9])"
    by (simp add: createRestoreTaps_def mem_bridge split_beta Let_def openTapDeviceFDs_def mem_taps mem_attach
        numeral_2_eq_2 tapFlags_def)
  then obtain w where taps: "?taps = (Inr ([\<lparr>tn_id = ''_net0'', tn_fds = [9, 9]\<rparr>], [9, 9]), w)"
    by (cases ?taps) simp
  from taps_match_devices [OF this] have "[9, 9] = concat (map tn_fds [\<lparr>tn_id = ''_net0'', tn_fds = [9, 9]\<rparr>])"
    by blast
  with taps show ?thesis by blast
qed

text \<open>A boot, a save and a restore on a host without the file of the base ID.\<close>

definition memGone :: "(unit, mem_world) kata_env" where
  "memGone =
     \<lparr>ke_Host = memKata (Inl (External ''no such file or directory'')), ke_Containerd = memContainerd,
      ke_Sparse = memSparse, ke_Json = memKataJson\<rparr>"

lemma mem_place: "fst (placeSnapshotDir (memKata c) a b w) = None"
  by (simp add: placeSnapshotDir_def memKata_def memLinux_def split_beta Let_def)

lemma mem_base: "fst (readKataBaseID (memKata (Inl e)) d m w) = me_BaseID m"
  by (simp add: readKataBaseID_def memKata_def)

lemma mem_trim: "TrimSpace ''u1'' = ''u1''"
  by code_simp


end
