(* ===== verification/WorkerMain.thy ===== *)
theory WorkerMain
  imports KataRuntime CriRuntime HttpApi
begin

text \<open>
  The Worker process (\<open>cmd/worker/main.go\<close>): from its flags to the Slot manager that its HTTP server serves.
  The composition root picks the snapshotter, the runtime that goes with it and the registry, and retries the
  recovery.  Flag parsing, logging, the signal handler and the listener are not modelled.
\<close>

subsection \<open>The process and its host\<close>

record worker_flags =
  wf_Name :: string
  wf_Namespace :: string
  wf_Pool :: string
  wf_RuntimeHandler :: string
  wf_Snapshotter :: string
  wf_ContainerdEndpoint :: string

text \<open>
  What the process finds on its host: the systems behind the two snapshotters, the connection to the CRI service
  with the wait between two of its attempts, the methods of \<open>resource.Quantity\<close> and \<open>time.Sleep\<close>.
\<close>

record ('q, 'i, 'w) worker_host =
  wh_Gvisor :: "('i, 'w) gvisor_env"
  wh_Kata :: "('i, 'w) kata_env"
  wh_SpecVersion :: string
  wh_DialCri :: "string \<Rightarrow> go_error + 'w cri_service"
  wh_Backoff :: "'w \<Rightarrow> go_error option \<times> 'w"
  wh_MilliValue :: "'q \<Rightarrow> int"
  wh_Value :: "'q \<Rightarrow> int"
  wh_Sleep :: "int \<Rightarrow> 'w \<Rightarrow> 'w"

text \<open>The dynamic type of a \<open>Snapshotter\<close> the process holds: the type assertions look at it.\<close>

datatype snapshotter_impl = ImplGVisor gvisor | ImplKata kata

definition snapshotterKindOf :: "string \<Rightarrow> snapshotter_kind" where
  "snapshotterKindOf s =
     (if s = [] then SnapshotterUnset else if s = ''gvisor'' then SnapshotterGVisor
      else if s = ''kata'' then SnapshotterKata else SnapshotterOther s)"

definition adapterOf :: "('q, 'i, 'w) worker_host \<Rightarrow> snapshotter_impl \<Rightarrow> 'w snapshotter" where
  "adapterOf h snap =
     (case snap of
        ImplGVisor g \<Rightarrow> gvisorSnapshotter (wh_Gvisor h) g
      | ImplKata k \<Rightarrow> kataSnapshotter (wh_Kata h) k)"

definition openSnapshotter ::
    "('q, 'i, 'w) worker_host \<Rightarrow> snapshotter_kind \<Rightarrow> 'w \<Rightarrow> (go_error + snapshotter_impl) \<times> 'w" where
  "openSnapshotter h kind w =
     (case snapshotter_New
         (\<lambda>w. (ImplGVisor (NewGVisor (ge_Linux (wh_Gvisor h))), w))
         (\<lambda>w. let (k, w) = NewKata (ke_Host (wh_Kata h)) w in (ImplKata k, w)) kind of
        Inl e \<Rightarrow> (Inl e, w)
      | Inr mk \<Rightarrow> let (snap, w) = mk w in (Inr snap, w))"

subsection \<open>The runtime\<close>

text \<open>Only the gVisor snapshotter has \<open>BestEffortCleanupCRI\<close>.\<close>

definition criPreDelete ::
    "('q, 'i, 'w) worker_host \<Rightarrow> snapshotter_impl \<Rightarrow> (string \<Rightarrow> 'w \<Rightarrow> 'w) option" where
  "criPreDelete h snap =
     (case snap of
        ImplGVisor g \<Rightarrow> Some (BestEffortCleanupCRI (ge_Linux (wh_Gvisor h)) (Some g))
      | ImplKata _ \<Rightarrow> None)"

text \<open>The function that closes the runtime is left out: it runs when the process ends.\<close>

definition newRuntime ::
    "('q, 'i, 'w) worker_host \<Rightarrow> snapshotter_impl \<Rightarrow> string \<Rightarrow> string \<Rightarrow> string \<Rightarrow>
     go_error + ('q, 'w) runtime_iface" where
  "newRuntime h snap workerName handler endpoint =
     (case snap of
        ImplKata k \<Rightarrow> Inr (kataRuntime (wh_Kata h) k (wh_SpecVersion h))
      | ImplGVisor _ \<Rightarrow>
          (case criNew (wh_DialCri h) (wh_Backoff h) (wh_MilliValue h) (wh_Value h)
              \<lparr>cf_Endpoint = endpoint, cf_WorkerName = workerName, cf_RuntimeHandler = handler,
               cf_Resources = zero_resources, cf_PreDelete = criPreDelete h snap\<rparr> of
             Inl e \<Rightarrow> Inl (Errorf ''create CRI runtime: %w'' [FW e])
           | Inr r \<Rightarrow> Inr (criRuntime r)))"

subsection \<open>The start\<close>

text \<open>The recovery, with the error of its last attempt; the process sleeps after every failure.\<close>

fun recoverLoop ::
    "('q, 'i, 'w) worker_host \<Rightarrow> nat \<Rightarrow> go_error option \<Rightarrow> ('q, 'w) slot_manager \<Rightarrow> 'w \<Rightarrow>
     go_error option \<times> ('q, 'w) slot_manager \<times> 'w" where
  "recoverLoop h 0 err m w = (err, m, w)"
| "recoverLoop h (Suc n) err m w =
     (let (err, m, w) = Recover m w in
      if err = None then (None, m, w) else recoverLoop h n err m (wh_Sleep h 100000000 w))"

definition recoverAttempts :: nat where "recoverAttempts = 50"

definition workerConfig :: "worker_flags \<Rightarrow> 'q worker_config" where
  "workerConfig fl =
     \<lparr>wc_Name = wf_Name fl, wc_Namespace = wf_Namespace fl, wc_Pool = wf_Pool fl, wc_Slots = [],
      wc_Runtime = \<lparr>rc_Backend = RuntimeBackendCRI,
        rc_CRI = Some \<lparr>cr_RuntimeHandler = wf_RuntimeHandler fl,
                       cr_Snapshotter = snapshotterKindOf (wf_Snapshotter fl), cr_HostDevices = []\<rparr>\<rparr>\<rparr>"

text \<open>
  A left result is the message the process dies with.  An error of the control groups is only logged; one of the
  mount propagation is fatal, and only a Kata Worker needs it.
\<close>

definition prepareHost ::
    "('q, 'i, 'w) worker_host \<Rightarrow> snapshotter_kind \<Rightarrow> 'w \<Rightarrow> go_error option \<times> 'w" where
  "prepareHost h kind w =
     (let (_, w) = SetupCgroupDelegation (ge_Linux (wh_Gvisor h)) w in
      if kind = SnapshotterKata then
        let (err, w) = EnsureSharedPropagation (ke_Host (wh_Kata h)) ''/run/kata-containers'' w in
        (case err of
           None \<Rightarrow> None
         | Some e \<Rightarrow> Some (Errorf ''kata virtio-fs mount propagation: %v'' [FV e]), w)
      else (None, w))"

definition workerStart ::
    "('q, 'i, 'w) worker_host \<Rightarrow> worker_flags \<Rightarrow> 'w \<Rightarrow> (go_error + ('q, 'w) slot_manager) \<times> 'w" where
  "workerStart h fl w =
     (if wf_Name fl = [] \<or> wf_Namespace fl = [] \<or> wf_Pool fl = []
      then (Inl (Errorf ''name, namespace, and pool are required'' []), w)
      else if wf_RuntimeHandler fl = [] then (Inl (Errorf ''runtime-handler is required'' []), w)
      else
        let kind = snapshotterKindOf (wf_Snapshotter fl); (snap, w) = openSnapshotter h kind w in
        case snap of
          Inl e \<Rightarrow> (Inl e, w)
        | Inr snap \<Rightarrow>
            let (err, w) = prepareHost h kind w in
            case err of
              Some e \<Rightarrow> (Inl e, w)
            | None \<Rightarrow>
                (case newRuntime h snap (wf_Name fl) (wf_RuntimeHandler fl) (wf_ContainerdEndpoint fl) of
                   Inl e \<Rightarrow> (Inl e, w)
                 | Inr runtime \<Rightarrow>
                     let snapshots = NewRegistry [(wf_RuntimeHandler fl, Some (adapterOf h snap))];
                         manager = NewSlotManager (workerConfig fl) runtime snapshots;
                         (err, manager, w) = recoverLoop h recoverAttempts None manager w
                     in (case err of
                           Some e \<Rightarrow> Inl (Errorf ''recover Slot state: %v'' [FV e])
                         | None \<Rightarrow> Inr manager, w)))"

subsection \<open>Serving\<close>

text \<open>
  The served process: any request in any order, and whatever the host does by itself in between.
\<close>

inductive serves :: "('q, 'w) server_env \<Rightarrow> ('q, 'w) slot_manager \<times> 'w \<Rightarrow> ('q, 'w) slot_manager \<times> 'w \<Rightarrow> bool"
  for env where
  sv_request: "ServeHTTP env r m w = (resp, m', w') \<Longrightarrow> serves env (m, w) (m', w')"
| sv_host: "serves env (m, w) (m, w')"

inductive_cases servesE: "serves env (m, w) t"

end
