(* ===== verification/WorkerProcess.thy ===== *)
theory WorkerProcess
  imports WorkerMain WorkerProperties GvisorProperties Fleet
begin

text \<open>
  The Worker process as a whole: what its start guarantees, and that its HTTP server keeps the invariant of the
  Slots against every request.
\<close>

subsection \<open>Requests are operations of the Slot manager\<close>

text \<open>Whatever the request is, the server does at most one operation of the Slot manager.\<close>

lemma slotHandler_step:
  assumes "slotHandler dec slotOf call sid r m w = (resp, m', w')"
    and "\<And>req resp. call req m w = (resp, m', w') \<Longrightarrow> mgr_step deq env (m, w) (m', w')"
  shows "mgr_step deq env (m, w) (m', w')"
  using assms by (auto simp: slotHandler_def intro: st_world split: sum.splits option.splits)

lemma fileHandler_step:
  "fileHandler call enc sid r m w = (resp, m', w') \<Longrightarrow> mgr_step deq env (m, w) (m', w')"
  by (auto simp: fileHandler_def Let_def intro: st_world split: sum.splits prod.splits)

named_theorems handled \<open>the step of a request on a Slot\<close>

lemma handler_steps [handled]:
  "reserveSlot sid r m w = (resp, m', w') \<Longrightarrow> mgr_step deq we (m, w) (m', w')"
  "startSandbox sid r m w = (resp, m', w') \<Longrightarrow> mgr_step deq we (m, w) (m', w')"
  "stopSandbox env sid r m w = (resp, m', w') \<Longrightarrow> mgr_step deq (se_Env env) (m, w) (m', w')"
  "releaseSlot env sid r m w = (resp, m', w') \<Longrightarrow> mgr_step deq (se_Env env) (m, w) (m', w')"
  "execSandbox sid r m w = (resp, m', w') \<Longrightarrow> mgr_step deq we (m, w) (m', w')"
  "createSnapshot env sid r m w = (resp, m', w') \<Longrightarrow> mgr_step deq (se_Env env) (m, w) (m', w')"
  "restoreFromSnapshot env sid r m w = (resp, m', w') \<Longrightarrow> mgr_step deq (se_Env env) (m, w) (m', w')"
  unfolding reserveSlot_def startSandbox_def stopSandbox_def releaseSlot_def execSandbox_def createSnapshot_def
    restoreFromSnapshot_def
  by (erule slotHandler_step; auto intro: mgr_step.intros split: prod.splits)+

lemma reading_steps [handled]:
  "getSandbox sid r m w = (resp, m', w') \<Longrightarrow> mgr_step deq we (m, w) (m', w')"
  "writeFile sid r m w = (resp, m', w') \<Longrightarrow> mgr_step deq we (m, w) (m', w')"
  "fileExists sid r m w = (resp, m', w') \<Longrightarrow> mgr_step deq we (m, w) (m', w')"
  "listFiles sid r m w = (resp, m', w') \<Longrightarrow> mgr_step deq we (m, w) (m', w')"
  "readFile sid r m w = (resp, m', w') \<Longrightarrow> mgr_step deq we (m, w) (m', w')"
  unfolding fileExists_def listFiles_def readFile_def
  by (erule fileHandler_step
    | auto simp: getSandbox_def writeFile_def Let_def intro: st_world
        split: sum.splits prod.splits http_body.splits if_splits)+

lemma plain_steps [handled]:
  "health r m w = (resp, m', w') \<Longrightarrow> mgr_step deq we (m, w) (m', w')"
  "putTopology env r m w = (resp, m', w') \<Longrightarrow> mgr_step (se_DeepEqual env) we (m, w) (m', w')"
  "listSlots r m w = (resp, m', w') \<Longrightarrow> mgr_step deq we (m, w) (m', w')"
  "deleteSnapshotObjects env r m w = (resp, m', w') \<Longrightarrow> mgr_step deq we (m, w) (m', w')"
  by (auto simp: health_def putTopology_def listSlots_def deleteSnapshotObjects_def
      intro: mgr_step.intros split: sum.splits prod.splits)

lemma slotRoutes_step:
  assumes "(action, method, f) \<in> set (slotRoutes env)" "f sid r m w = (resp, m', w')"
  shows "mgr_step (se_DeepEqual env) (se_Env env) (m, w) (m', w')"
  using assms by (auto simp: slotRoutes_def intro: handled)

lemma plainRoutes_step:
  assumes "(path, method, f) \<in> set (plainRoutes env)" "f r m w = (resp, m', w')"
  shows "mgr_step (se_DeepEqual env) (se_Env env) (m, w) (m', w')"
  using assms by (auto simp: plainRoutes_def intro: handled)

lemma ServeHTTP_step:
  assumes "ServeHTTP env r m w = (resp, m', w')"
  shows "mgr_step (se_DeepEqual env) (se_Env env) (m, w) (m', w')"
  using assms unfolding ServeHTTP_def
  by (auto intro: st_world slotRoutes_step plainRoutes_step dest!: map_of_SomeD
      split: list.splits option.splits if_splits prod.splits char.splits)

lemma serves_reach:
  assumes "reach (serves env) s t"
  shows "reach (mgr_step (se_DeepEqual env) (se_Env env)) s t"
  using assms
proof (induction rule: reach.induct)
  case (reach_step s t u)
  have "mgr_step (se_DeepEqual env) (se_Env env) t u"
    using reach_step.hyps(2) by cases (auto intro: ServeHTTP_step st_world)
  with reach_step.IH show ?case by (rule reach.reach_step)
qed (rule reach.reach_refl)

subsection \<open>The start\<close>

lemma Recover_without_slots:
  assumes "Recover m w = (err, m', w')" "sm_slots m = []"
  shows "m' = m \<and> (err = None \<longrightarrow> rt_List (sm_runtime m) w = (Inr [], w'))"
proof (cases "rt_List (sm_runtime m) w")
  case (Pair objs u)
  show ?thesis
  proof (cases objs)
    case (Inr os)
    with Pair assms show ?thesis by (cases os) (auto simp: Recover_def getSlot_def)
  qed (use Pair assms in \<open>auto simp: Recover_def\<close>)
qed

lemma recoverLoop_without_slots:
  assumes "recoverLoop h n err m w = (None, m', w')" "sm_slots m = []" "err \<noteq> None \<or> n > 0"
  shows "m' = m \<and> (\<exists>u. rt_List (sm_runtime m) u = (Inr [], w'))"
  using assms
proof (induction n arbitrary: err w)
  case (Suc n)
  obtain e m1 w1 where r: "Recover m w = (e, m1, w1)" by (cases "Recover m w")
  from Recover_without_slots [OF r Suc.prems(2)] Suc r show ?case
    by (cases "e = None") auto
qed simp

lemma workerStart_serving:
  assumes "workerStart h fl w0 = (Inr m, w1)"
  obtains snap rt where "newRuntime h snap (wf_Name fl) (wf_RuntimeHandler fl) (wf_ContainerdEndpoint fl) = Inr rt"
    and "m = NewSlotManager (workerConfig fl) rt (NewRegistry [(wf_RuntimeHandler fl, Some (adapterOf h snap))])"
    and "\<exists>u. fst (openSnapshotter h (snapshotterKindOf (wf_Snapshotter fl)) u) = Inr snap"
    and "\<exists>u. rt_List rt u = (Inr [], w1)"
proof -
  let ?kind = "snapshotterKindOf (wf_Snapshotter fl)"
  obtain s u1 where s: "openSnapshotter h ?kind w0 = (s, u1)" by (cases "openSnapshotter h ?kind w0")
  with assms obtain snap where snap: "s = Inr snap"
    by (cases s) (auto simp: workerStart_def split: if_splits)
  obtain e u2 where e: "prepareHost h ?kind u1 = (e, u2)" by (cases "prepareHost h ?kind u1")
  let ?new = "newRuntime h snap (wf_Name fl) (wf_RuntimeHandler fl) (wf_ContainerdEndpoint fl)"
  from assms s snap e obtain rt where rt: "e = None" "?new = Inr rt"
    by (cases e; cases ?new) (auto simp: workerStart_def split: if_splits)
  let ?m = "NewSlotManager (workerConfig fl) rt (NewRegistry [(wf_RuntimeHandler fl, Some (adapterOf h snap))])"
  have slots: "sm_slots ?m = []" by (simp add: NewSlotManager_def workerConfig_def)
  have "recoverLoop h recoverAttempts None ?m u2 = (None, m, w1)"
    using assms s snap e rt
    by (auto simp: workerStart_def Let_def split: if_splits prod.splits option.splits)
  from recoverLoop_without_slots [OF this slots] have "m = ?m" "\<exists>u. rt_List rt u = (Inr [], w1)"
    by (auto simp: recoverAttempts_def NewSlotManager_def)
  with rt s snap that show ?thesis by (metis fst_conv)
qed

subsection \<open>What the process keeps\<close>

text \<open>A request changes the Slots and the layout, never what the Slot manager was wired with.\<close>

definition wiring ::
    "('q, 'w) slot_manager \<Rightarrow> 'q worker_config \<times> ('q, 'w) runtime_iface \<times> 'w registry" where
  "wiring m = ((sm_config m)\<lparr>wc_Slots := []\<rparr>, sm_runtime m, sm_snapshotters m)"

lemma wiring_slots [simp]: "wiring (m\<lparr>sm_slots := s\<rparr>) = wiring m"
  by (simp add: wiring_def)

lemma onSlot_wiring: "onSlot identity sid body m w = (r, m', w') \<Longrightarrow> wiring m' = wiring m"
  by (erule onSlot_cases) simp_all

lemma recoverObjects_wiring: "wiring (snd (recoverObjects objs m)) = wiring m"
  by (induction objs arbitrary: m) (simp_all add: Let_def split: sum.split)

lemma mgr_step_wiring:
  assumes "mgr_step deq env (m, w) (m', w')"
  shows "wiring m' = wiring m"
  using assms
proof cases
  case (st_apply configs r)
  then show ?thesis by (auto simp: ApplySlots_def wiring_def Let_def split: sum.splits option.splits)
next
  case (st_snapshot creq cr)
  then show ?thesis by (cases rule: CreateSnapshot_cases) simp_all
next
  case (st_restore rreq r)
  then show ?thesis by (cases rule: RestoreFromSnapshot_cases) simp_all
next
  case (st_recover r)
  then show ?thesis
    by (auto simp: Recover_def split: prod.splits sum.splits) (metis recoverObjects_wiring snd_conv)
qed (auto simp: ReserveSlot_def StartSandbox_def StopSandbox_def ReleaseSlot_def dest: onSlot_wiring)

interpretation process: transition_system
    "\<lambda>(m, w). \<exists>config rt snaps. wc_Slots config = [] \<and> m = NewSlotManager config rt snaps"
    "serves env" "\<lambda>(m, w). mgr_ok m"
  for env
  by unfold_locales (auto simp: mgr_ok_New elim!: servesE intro: mgr_step_ok dest: ServeHTTP_step)

lemma serves_wiring:
  assumes "reach (serves env) s t"
  shows "wiring (fst t) = wiring (fst s)"
  using serves_reach [OF assms]
  by (induction rule: reach.induct) (auto dest: mgr_step_wiring)

lemma Registry_For_single:
  "Registry_For (NewRegistry [(handler, Some s)]) key = Inr t \<longleftrightarrow> key = handler \<and> t = s"
  by (auto simp: Registry_For_def NewRegistry_def)

text \<open>
  C4. The Worker process.  When it serves, its runtime has just listed no object at all, and it has no Slot, so
  no Sandbox of an earlier process runs untracked.  From then on, in every state that any sequence of HTTP
  requests and any behaviour of the host lead to, its runtime is the one that goes with its snapshotter, its
  registry answers its own handler with that snapshotter and no other handler, and a free Slot carries no trace
  of a Sandbox while a running one has a runtime object.
\<close>

theorem worker_process_is_sound:
  assumes "workerStart h fl w0 = (Inr m0, w1)" "reach (serves env) (m0, w1) (m, w)"
  shows "sm_slots m0 = [] \<and> (\<exists>u. rt_List (sm_runtime m0) u = (Inr [], w1)) \<and>
    (\<exists>snap. newRuntime h snap (wf_Name fl) (wf_RuntimeHandler fl) (wf_ContainerdEndpoint fl) = Inr (sm_runtime m) \<and>
       (snapshotterKindOf (wf_Snapshotter fl) = SnapshotterKata \<longleftrightarrow> (\<exists>k. snap = ImplKata k)) \<and>
       (\<forall>key s. Registry_For (sm_snapshotters m) key = Inr s \<longleftrightarrow>
          key = wf_RuntimeHandler fl \<and> s = adapterOf h snap)) \<and>
    (\<forall>sid s. map_of (sm_slots m) sid = Some s \<longrightarrow> mg_id s = sid \<and>
       (mg_state s = StateFree \<longrightarrow> mg_sandbox s = noIdentity \<and> mg_runtimeRef s = None \<and>
          \<not> mg_restored s \<and> mg_restoreDir s = []) \<and>
       (mg_state s = StateRunning \<longrightarrow> mg_runtimeRef s \<noteq> None))"
proof -
  obtain snap rt where start:
    "newRuntime h snap (wf_Name fl) (wf_RuntimeHandler fl) (wf_ContainerdEndpoint fl) = Inr rt"
    "m0 = NewSlotManager (workerConfig fl) rt (NewRegistry [(wf_RuntimeHandler fl, Some (adapterOf h snap))])"
    "\<exists>u. fst (openSnapshotter h (snapshotterKindOf (wf_Snapshotter fl)) u) = Inr snap"
    "\<exists>u. rt_List rt u = (Inr [], w1)"
    using workerStart_serving [OF assms(1)] by metis
  have kind: "snapshotterKindOf (wf_Snapshotter fl) = SnapshotterKata \<longleftrightarrow> (\<exists>k. snap = ImplKata k)"
    using start(3) by (auto simp: openSnapshotter_def snapshotter_New_def split_beta split: snapshotter_kind.splits)
  have "wiring m = wiring m0"
    using serves_wiring [OF assms(2)] by simp
  then have same: "sm_runtime m = rt" "sm_snapshotters m = NewRegistry [(wf_RuntimeHandler fl, Some (adapterOf h snap))]"
    using start(2) by (simp_all add: wiring_def NewSlotManager_def)
  have "\<exists>config rt snaps. wc_Slots config = [] \<and> m0 = NewSlotManager config rt snaps"
    unfolding start(2) by (intro exI [of _ "workerConfig fl"]) (auto simp: workerConfig_def)
  then have "mgr_ok m"
    using process.reachable_inv [OF _ assms(2)] by simp
  then have clean: "mg_id s = sid \<and> slot_ok s" if "map_of (sm_slots m) sid = Some s" for sid s
    using that slots_okD by blast
  have empty: "sm_slots m0 = []" "sm_runtime m0 = rt"
    using start(2) by (simp_all add: NewSlotManager_def workerConfig_def)
  show ?thesis
    by (intro conjI allI impI exI [of _ snap])
      (use start(1,4) kind empty clean in \<open>auto simp: same Registry_For_single slot_ok_def\<close>)
qed

text \<open>
  A gVisor Worker on a CRI service without pods; the controller then gives it a layout of two Slots.
\<close>

definition idleService :: "'w cri_service" where
  "idleService = \<lparr>cv_PullImage = \<lambda>_ w. (Inr [], w), cv_RunPodSandbox = \<lambda>cfg _ w. (Inr (pg_Uid cfg), w),
     cv_StopPodSandbox = \<lambda>_ w. (None, w), cv_RemovePodSandbox = \<lambda>_ w. (None, w),
     cv_ListPodSandbox = \<lambda>_ w. (Inr [], w), cv_CreateContainer = \<lambda>pod _ _ w. (Inr pod, w),
     cv_StartContainer = \<lambda>_ w. (None, w), cv_StopContainer = \<lambda>_ _ w. (None, w),
     cv_RemoveContainer = \<lambda>_ w. (None, w), cv_ListContainers = \<lambda>_ w. (Inr [], w),
     cv_ContainerStatus = \<lambda>_ w. (Inr None, w), cv_ExecSync = \<lambda>_ _ _ w. (Inr (0, [], []), w),
     cv_IsNotFound = \<lambda>_. False\<rparr>"

definition gvisorWorker :: "(unit, mem_world) kata_env \<Rightarrow> (int, unit, mem_world) worker_host" where
  "gvisorWorker kata =
     \<lparr>wh_Gvisor = memEnv, wh_Kata = kata, wh_SpecVersion = ''1.2.0'', wh_DialCri = \<lambda>_. Inr idleService,
      wh_Backoff = \<lambda>w. (None, w), wh_MilliValue = \<lambda>q. q, wh_Value = \<lambda>q. q, wh_Sleep = \<lambda>_ w. w\<rparr>"

definition gvisorFlags :: worker_flags where
  "gvisorFlags = \<lparr>wf_Name = ''w0'', wf_Namespace = ''fleet'', wf_Pool = ''pool'', wf_RuntimeHandler = ''runsc'',
     wf_Snapshotter = ''gvisor'', wf_ContainerdEndpoint = ''/run/containerd.sock''\<rparr>"

lemma gvisorWorker_starts: "\<exists>m0 w1. workerStart (gvisorWorker kata) gvisorFlags w = (Inr m0, w1)"
  by (simp add: workerStart_def gvisorFlags_def snapshotterKindOf_def openSnapshotter_def snapshotter_New_def
      prepareHost_def newRuntime_def criNew_def gvisorWorker_def recoverAttempts_def numeral_eq_Suc Recover_def
      NewSlotManager_def criRuntime_def criList_def idleService_def split_beta)

theorem worker_process_is_sound_witness:
  "\<forall>kata (env :: (int, mem_world) server_env). \<exists>m0 w1 m s.
     workerStart (gvisorWorker kata) gvisorFlags memStart = (Inr m0, w1) \<and>
     reach (serves env) (m0, w1) (m, w1) \<and> map_of (sm_slots m) 0 = Some s \<and> mg_state s = StateFree \<and>
     mg_runtimeRef s = None"
proof (intro allI)
  fix kata :: "(unit, mem_world) kata_env" and env :: "(int, mem_world) server_env"
  let ?config = "\<lparr>sc_ID = 0, sc_Profile = ''small'', sc_Resources = zero_resources\<rparr> :: int slot_config"
  obtain m0 w1 where start: "workerStart (gvisorWorker kata) gvisorFlags memStart = (Inr m0, w1)"
    using gvisorWorker_starts by blast
  let ?m = "m0\<lparr>sm_slots := [(0, newManagedSlot ?config)], sm_config := (sm_config m0)\<lparr>wc_Slots := [?config]\<rparr>\<rparr>"
  have "sm_slots m0 = []"
    using worker_process_is_sound [OF start reach.reach_refl] by blast
  then have "ServeHTTP env (request PUT ''/v1/topology'' [] (Json (JConfigs [?config]))) m0 w1 = (answer None, ?m, w1)"
    by (simp add: serve_topology ApplySlots_def)
  then have reached: "reach (serves env) (m0, w1) (?m, w1)"
    by (intro reach.reach_step [OF reach.reach_refl]) (rule sv_request)
  have slot: "map_of (sm_slots ?m) 0 = Some (newManagedSlot ?config)" by simp
  from worker_process_is_sound [OF start reached] slot have "mg_runtimeRef (newManagedSlot ?config) = None"
    by (auto simp: newManagedSlot_def)
  with start reached slot show "\<exists>m0 w1 m s.
     workerStart (gvisorWorker kata) gvisorFlags memStart = (Inr m0, w1) \<and>
     reach (serves env) (m0, w1) (m, w1) \<and> map_of (sm_slots m) 0 = Some s \<and> mg_state s = StateFree \<and>
     mg_runtimeRef s = None"
    by (intro exI [of _ m0] exI [of _ w1] exI [of _ ?m] exI [of _ "newManagedSlot ?config"])
      (simp add: newManagedSlot_def)
qed

end
