(* ===== verification/Spec2Isabelle.thy ===== *)
theory Spec2Isabelle
  imports SandboxProgress FileProperties CriProperties SdkProperties GvisorProperties MergeProperties KataProperties
    WorkerProcess
begin

text \<open>
  A verification development for SandboxFleet, which runs short-lived sandboxes on a fleet of Kubernetes
  Workers.

  \<^bold>\<open>The program.\<close>  A \<open>SandboxPool\<close> describes Worker templates and Slot profiles.  Every Worker Pod runs a
  process that owns a list of Slots (\<open>internal/worker\<close>): each Slot holds at most one sandbox, which the
  Worker creates through a runtime backend (\<open>internal/runtime\<close>) or restores from a snapshot
  (\<open>internal/snapshotter\<close>, \<open>internal/snapshotstore\<close>), and which it serves over HTTP
  (\<open>internal/worker/httpapi\<close>).  Three controllers (\<open>internal/controller\<close>) reconcile Pools, Sandboxes and
  snapshots: the Pool controller plans each template's Slots (\<open>internal/slot\<close>), pushes the plan to the
  Workers and feeds the Workers' reports to the scheduler (\<open>internal/scheduler\<close>); the Sandbox controller
  takes a Slot from the scheduler, writes the assignment into the Sandbox's status, reserves and starts it on the
  Worker, and releases it on deletion; the snapshot controller has a Worker upload a running sandbox.  A client
  library (\<open>clients/go/sandboxfleet\<close>) creates Sandboxes, waits for them, forks them and talks to the Worker.

  \<^bold>\<open>The model.\<close>  Each operation is one function with the source's name.  Structs are records with
  prefixed field names, Go maps are association lists (\<open>gomap\<close>, in insertion order, where a property states
  that the order does not matter it is proved), errors are values of \<open>go_error\<close> that keep what
  \<open>errors.Is\<close> and the callers look at, \<open>(T, error)\<close> is a sum, \<open>error\<close> alone an option (\<open>None\<close> is nil), a panic
  is \<open>None\<close> or \<open>Panicked\<close>.  Integers of 32 bits are ints with \<open>wrap32\<close> written out.  Everything outside the
  process is a type parameter \<open>'w\<close> that is passed along, and an interface record of functions on it.

  \<^item> \<open>Prelude\<close>, \<open>GoErrors\<close>, \<open>GoStrings\<close>: Go maps, wrap-around, transition systems; errors; the functions
    of \<open>strings\<close>, \<open>strconv\<close> and \<open>path\<close> the program uses.
  \<^item> \<open>SlotTopology\<close> (\<open>internal/slot\<close>), \<open>TopologyPlan\<close>: the planner; a plan is exact, keeps busy and lowest
    Slots, has distinct IDs and is a fixed point.
  \<^item> \<open>Scheduler\<close> (\<open>internal/scheduler\<close>), \<open>SchedulerCorrect\<close>: the scheduler and its strategies (locale
    \<open>placement_strategy\<close>, interpreted for all three); no Slot is held twice or offered while held.
  \<^item> \<open>ApiTypes\<close> (\<open>api/v1alpha1\<close>, \<open>internal/workerapi\<close>, \<open>internal/runtime/runtime.go\<close>): data and interfaces.
  \<^item> \<open>SlotManager\<close> (\<open>internal/worker/manager.go\<close>), \<open>WorkerSnapshot\<close> (\<open>snapshot.go\<close>), \<open>Snapshotters\<close>,
    \<open>SnapshotStore\<close> (\<open>internal/snapshotstore\<close>); \<open>SlotManagerCorrect\<close> and \<open>WorkerProperties\<close>: the locale
    \<open>slot_operation\<close> gives every operation on one Slot the same frame, and the Worker is a transition
    system whose free Slots are clean.
  \<^item> \<open>RuntimeFiles\<close> (\<open>internal/runtime/files.go\<close>, \<open>files_shell.go\<close>), \<open>WorkerFiles\<close> (\<open>internal/worker/files.go\<close>,
    \<open>files_fs.go\<close>), \<open>FileTransport\<close>, \<open>FileProperties\<close>: files of a sandbox, over a shell or below a root
    directory; path confinement and the round trip through base64.
  \<^item> \<open>CriRuntime\<close> (\<open>internal/runtime/cri\<close>), \<open>CriProperties\<close>: the CRI backend over a CRI service.
  \<^item> \<open>HttpApi\<close> (\<open>internal/worker/httpapi\<close>), \<open>Fleet\<close>: server, client and a network of Workers that may refuse
    or lose answers; a delivered call is the Slot manager's operation.
  \<^item> \<open>Workload\<close>, \<open>Cluster\<close> (\<open>worker_dependencies.go\<close>, \<open>snapshot_helpers.go\<close>), \<open>SandboxController\<close>,
    \<open>SnapshotController\<close>, \<open>PoolController\<close>: the controllers over a Kubernetes API and a Worker client.
    \<open>ControlPlane\<close> states what they rely on as the locales \<open>worker_service\<close> and \<open>control_plane\<close> and
    interprets these on the HTTP client over a fleet, for every network, with a store as the API server;
    \<open>ControllerProperties\<close> has the results.
  \<^item> \<open>ApiFrames\<close>, \<open>Assignments\<close>, \<open>SystemSafety\<close>: the locales \<open>quiet_api\<close>, \<open>sandbox_api\<close> and
    \<open>sandbox_system\<close>, interpreted on the store and the HTTP client with arbitrary faults; the
    controllers, users, Workers and faults form a transition system, in which stored assignments and
    the scheduler agree and no two live Sandboxes have the same Slot.  \<open>SandboxProgress\<close> follows a new
    Sandbox to \<open>Running\<close> when nothing fails.
  \<^item> \<open>GoText\<close> (the text of errors), \<open>LinuxHost\<close> (system calls and programs as a record; \<open>cgroup_linux.go\<close>),
    \<open>GvisorNetwork\<close>, \<open>GvisorImage\<close>, \<open>Gvisor\<close> (\<open>internal/snapshotter/gvisor*.go\<close>): the gVisor snapshotter as a
    \<open>snapshotter\<close> of the Worker.  \<open>GvisorTrace\<close> gives every host a trace of the \<open>runsc\<close> commands and shows
    which operations leave it alone; \<open>GvisorProperties\<close> has the commands of a restore, the container list
    of a checkpoint, deletion, overlay layers and addresses.
  \<^item> \<open>KataMerge\<close> (\<open>internal/runtime/kata/ch/merge.go\<close>), \<open>MergeProperties\<close>: sparse memory images of virtual
    machines; on every file system with faults a successful merge is the overlay of the two images.
  \<^item> \<open>KataHost\<close> (data, JSON and the host of virtual machines), \<open>CloudHypervisor\<close> (\<open>internal/runtime/kata/ch\<close>,
    \<open>kata_ch.go\<close>), \<open>KataAgent\<close>, \<open>KataContainers\<close> (\<open>kata_agent_linux.go\<close>, \<open>kata_exec.go\<close>, \<open>agentclient.go\<close>,
    \<open>specconv.go\<close>), \<open>KataOverlay\<close> (the host's side of \<open>internal/runtime/kata/overlay\<close>), \<open>KataInstances\<close>
    (\<open>kata.go\<close>, \<open>kata_instance.go\<close>, \<open>kata_virtiofs.go\<close>), \<open>KataSnapshots\<close> and \<open>KataRestore\<close>
    (\<open>kata_restore_linux.go\<close>), \<open>KataColdBoot\<close> (\<open>kata_coldboot_linux.go\<close>), \<open>KataRuntime\<close>
    (\<open>internal/runtime/kata\<close>): sandboxes in virtual machines, up to the \<open>runtime_iface\<close> of the Slot manager.
    \<open>KataTrace\<close> gives every host a trace of the processes it starts and kills; \<open>KataProperties\<close> has what a
    failed start leaves running, the taps of a machine, the identifiers that a line of saves and restores
    keeps, and what deleting one of several restored sandboxes does to the others.
  \<^item> \<open>WorkerMain\<close> (\<open>cmd/worker/main.go\<close>), \<open>WorkerProcess\<close>: the Worker process from its flags to the Slot manager it
    serves.  A process that serves has just seen no runtime object, and no sequence of HTTP requests makes a
    free Slot carry a trace of a sandbox or changes what the process was wired with.
  \<^item> \<open>Sdk\<close> (\<open>clients/go/sandboxfleet\<close>), \<open>SdkProperties\<close>: the client library.

  \<^bold>\<open>Bounds and fuel.\<close>  The planner's loops are structural; the waiting loops of the client library are
  partial functions to options, and they are proved to return when the caller's context has a
  deadline.  The polling loops of the Kata snapshotter have deadlines of their own; how many rounds fit into
  one, and how many reads a context allows, is the host's answer (\<open>kh_Polls\<close>, \<open>kh_Reads\<close>), and what is proved
  holds for every answer.  Merging images is a partial function too, and it is proved to return.

  \<^bold>\<open>Simplifications.\<close>  A reconciliation and a request of a Worker are atomic (each Slot has a mutex; the
  controllers run one worker each), reads of the API server are not stale, the text of
  errors is kept as a format with its arguments and rendered only where the code looks into it, JSON
  bodies are values, and times are the clock's ticks.  The readers of a command's output run one after the
  other before the wait for its exit.

  \<^bold>\<open>Not modelled.\<close>  The entry point of the controllers, flags and the
  listener of the Worker process, generated and vendored code, logging and the statistics that are
  only logged, opening the gRPC connection of the CRI backend, and the tests.
\<close>

end
